(* ===== verification/Nemo_Prelude.thy ===== *)
theory Nemo_Prelude
  imports Main "HOL-Library.Char_ord" "HOL-Library.List_Lexorder"
begin

text \<open>
  Prelude of the NemoClaw development: JavaScript values at the untyped boundaries
  (parsed JSON, persisted sessions), the fragments of the JavaScript standard library the
  modelled code uses on them, a small state-and-exception type for code that throws after
  it has already changed the world, and the generic lemmas the component theories share.

  Conventions:
  \<^item> a JavaScript string is a \<open>string\<close>; a character stands for one code unit in the
    Latin-1 range, and every pattern the code tests is over ASCII;
  \<^item> \<open>T | null\<close> is \<open>T option\<close>; where the code also tells \<open>undefined\<close> apart, the value
    stays a \<open>js\<close>, which has both;
  \<^item> object property order is insertion order, so an object is an association list; the
    only lookups modelled are own-property lookups;
  \<^item> counters such as the machine revision are mathematical integers: the code increments
    them once per transition, far below the 2^53 limit of exact double arithmetic.
\<close>

section \<open>Rule collections\<close>

named_theorems js_simps \<open>reading and writing JavaScript values\<close>
named_theorems eff_simps \<open>unfolding of effectful code\<close>

section \<open>JavaScript values\<close>

text \<open>
  A finite integral number is \<open>NInt\<close>, a finite fraction \<open>NFrac\<close> (with its decimal text),
  and NaN or an infinity is \<open>NNonFinite\<close> (with the text \<open>String()\<close> gives for it): the code
  only ever asks \<open>Number.isInteger\<close>, \<open>Number.isFinite\<close> and, on integers, comparisons.
\<close>

datatype jnum = NInt int | NFrac string | NNonFinite string

datatype js =
    JUndef
  | JNull
  | JBool bool
  | JNum jnum
  | JStr string
  | JArr "js list"
  | JObj "(string \<times> js) list"

definition isObjectRecord :: "js \<Rightarrow> bool" where
  "isObjectRecord v = (case v of JObj _ \<Rightarrow> True | _ \<Rightarrow> False)"

lemma isObjectRecord_iff: "isObjectRecord v \<longleftrightarrow> (\<exists>kvs. v = JObj kvs)"
  by (cases v) (auto simp: isObjectRecord_def)

lemma isObjectRecord_simps [simp, js_simps]:
  "isObjectRecord (JObj kvs)"
  "\<not> isObjectRecord JUndef"
  "\<not> isObjectRecord JNull"
  "\<not> isObjectRecord (JBool b)"
  "\<not> isObjectRecord (JNum n)"
  "\<not> isObjectRecord (JStr s)"
  "\<not> isObjectRecord (JArr xs)"
  by (simp_all add: isObjectRecord_def)

text \<open>Own properties; reading an absent one gives \<open>undefined\<close>.\<close>

fun js_entries :: "js \<Rightarrow> (string \<times> js) list" where
  "js_entries (JObj kvs) = kvs"
| "js_entries _ = []"

definition js_keys :: "js \<Rightarrow> string list" where
  "js_keys v = map fst (js_entries v)"

definition js_get :: "js \<Rightarrow> string \<Rightarrow> js" where
  "js_get v k = (case map_of (js_entries v) k of Some x \<Rightarrow> x | None \<Rightarrow> JUndef)"

definition hasOwn :: "js \<Rightarrow> string \<Rightarrow> bool" where
  "hasOwn v k = (map_of (js_entries v) k \<noteq> None)"

lemma js_get_Nil [simp, js_simps]: "js_get (JObj []) k = JUndef"
  by (simp add: js_get_def)

lemma js_get_Cons [simp, js_simps]:
  "js_get (JObj ((k', v) # kvs)) k = (if k' = k then v else js_get (JObj kvs) k)"
  by (simp add: js_get_def)

lemma hasOwn_Nil [simp, js_simps]: "\<not> hasOwn (JObj []) k"
  by (simp add: hasOwn_def)

lemma hasOwn_Cons [simp, js_simps]:
  "hasOwn (JObj ((k', v) # kvs)) k \<longleftrightarrow> k' = k \<or> hasOwn (JObj kvs) k"
  by (simp add: hasOwn_def)

lemma js_get_absent: "\<not> hasOwn v k \<Longrightarrow> js_get v k = JUndef"
  by (simp add: js_get_def hasOwn_def)

text \<open>Looking a literal key up in a literal object, without touching the values.\<close>

lemmas js_lookup = js_get_Cons js_get_Nil hasOwn_Cons hasOwn_Nil list.inject list.distinct
  char.inject simp_thms if_True if_False

section \<open>Typed reads\<close>

fun js_string :: "js \<Rightarrow> string option" where
  "js_string (JStr s) = Some s"
| "js_string _ = None"

fun js_int :: "js \<Rightarrow> int option" where
  "js_int (JNum (NInt n)) = Some n"
| "js_int _ = None"

fun js_bool :: "js \<Rightarrow> bool option" where
  "js_bool (JBool b) = Some b"
| "js_bool _ = None"

lemma js_bool_eq_Some [simp]: "js_bool v = Some b \<longleftrightarrow> v = JBool b"
  by (cases v) auto

fun js_array :: "js \<Rightarrow> js list option" where
  "js_array (JArr xs) = Some xs"
| "js_array _ = None"

lemma js_string_eq_Some [simp]: "js_string v = Some s \<longleftrightarrow> v = JStr s"
  by (cases v) auto

lemma js_int_eq_Some [simp]: "js_int v = Some n \<longleftrightarrow> v = JNum (NInt n)"
  by (cases v rule: js_int.cases) auto

lemma js_array_eq_Some [simp]: "js_array v = Some xs \<longleftrightarrow> v = JArr xs"
  by (cases v) auto

definition js_opt :: "('a \<Rightarrow> js) \<Rightarrow> 'a option \<Rightarrow> js" where
  "js_opt f x = (case x of None \<Rightarrow> JNull | Some a \<Rightarrow> f a)"

lemma js_opt_simps [simp, js_simps]:
  "js_opt f None = JNull"
  "js_opt f (Some a) = f a"
  by (simp_all add: js_opt_def)

text \<open>Truthiness of a nullable string: \<open>null\<close> and the empty string are falsy.\<close>

definition truthy :: "string option \<Rightarrow> bool" where
  "truthy s = (case s of None \<Rightarrow> False | Some t \<Rightarrow> t \<noteq> [])"

lemma truthy_simps [simp]: "\<not> truthy None" "truthy (Some t) \<longleftrightarrow> t \<noteq> []"
  by (simp_all add: truthy_def)

lemma truthy_iff: "truthy s \<longleftrightarrow> (\<exists>t. s = Some t \<and> t \<noteq> [])"
  by (cases s) auto

text \<open>\<open>a || b\<close> on nullable strings and \<open>a ?? b\<close>.\<close>

definition js_or :: "string option \<Rightarrow> string option \<Rightarrow> string option" where
  "js_or a b = (if truthy a then a else b)"

definition coalesce :: "'a option \<Rightarrow> 'a option \<Rightarrow> 'a option" where
  "coalesce a b = (case a of None \<Rightarrow> b | Some x \<Rightarrow> Some x)"

lemma coalesce_simps [simp]: "coalesce None b = b" "coalesce (Some x) b = Some x"
  by (simp_all add: coalesce_def)

definition nullish :: "'a \<Rightarrow> 'a option \<Rightarrow> 'a" where
  "nullish d a = (case a of None \<Rightarrow> d | Some x \<Rightarrow> x)"

lemma nullish_simps [simp]: "nullish d None = d" "nullish d (Some x) = x"
  by (simp_all add: nullish_def)

section \<open>Writing a value to disk and reading it back\<close>

text \<open>
  \<open>JSON.parse(JSON.stringify(v))\<close> on an object or array: undefined members are left out,
  undefined array entries and non-finite numbers become null.
\<close>

fun json_persist :: "js \<Rightarrow> js"
  and json_persist_arr :: "js list \<Rightarrow> js list"
  and json_persist_obj :: "(string \<times> js) list \<Rightarrow> (string \<times> js) list"
where
  "json_persist JUndef = JUndef"
| "json_persist JNull = JNull"
| "json_persist (JBool b) = JBool b"
| "json_persist (JNum n) = (case n of NNonFinite _ \<Rightarrow> JNull | _ \<Rightarrow> JNum n)"
| "json_persist (JStr s) = JStr s"
| "json_persist (JArr xs) = JArr (json_persist_arr xs)"
| "json_persist (JObj kvs) = JObj (json_persist_obj kvs)"
| "json_persist_arr [] = []"
| "json_persist_arr (x # xs) =
     (if x = JUndef then JNull else json_persist x) # json_persist_arr xs"
| "json_persist_obj [] = []"
| "json_persist_obj ((k, v) # kvs) =
     (if v = JUndef then json_persist_obj kvs
      else (k, json_persist v) # json_persist_obj kvs)"

text \<open>Values that survive the round trip unchanged.\<close>

fun json_clean :: "js \<Rightarrow> bool"
  and json_clean_arr :: "js list \<Rightarrow> bool"
  and json_clean_obj :: "(string \<times> js) list \<Rightarrow> bool"
where
  "json_clean JUndef = False"
| "json_clean JNull = True"
| "json_clean (JBool b) = True"
| "json_clean (JNum n) = (case n of NNonFinite _ \<Rightarrow> False | _ \<Rightarrow> True)"
| "json_clean (JStr s) = True"
| "json_clean (JArr xs) = json_clean_arr xs"
| "json_clean (JObj kvs) = json_clean_obj kvs"
| "json_clean_arr [] = True"
| "json_clean_arr (x # xs) = (json_clean x \<and> json_clean_arr xs)"
| "json_clean_obj [] = True"
| "json_clean_obj ((k, v) # kvs) = (json_clean v \<and> json_clean_obj kvs)"

lemma json_persist_clean:
  "json_clean v \<Longrightarrow> json_persist v = v"
  "json_clean_arr xs \<Longrightarrow> json_persist_arr xs = xs"
  "json_clean_obj kvs \<Longrightarrow> json_persist_obj kvs = kvs"
  by (induction v and xs and kvs rule: json_clean_json_clean_arr_json_clean_obj.induct)
    (auto split: jnum.splits)

lemma json_clean_obj_append [simp]:
  "json_clean_obj (xs @ ys) \<longleftrightarrow> json_clean_obj xs \<and> json_clean_obj ys"
  by (induction xs) auto

lemma json_clean_arr_strings [simp]: "json_clean_arr (map JStr xs)"
  by (induction xs) auto

section \<open>Strings\<close>

definition code :: "char \<Rightarrow> nat" where
  "code c = of_char c"

definition is_js_space :: "char \<Rightarrow> bool" where
  "is_js_space c = (9 \<le> code c \<and> code c \<le> 13 \<or> code c = 32 \<or> code c = 160)"

definition trim :: "string \<Rightarrow> string" where
  "trim s = rev (dropWhile is_js_space (rev (dropWhile is_js_space s)))"

definition toLower :: "string \<Rightarrow> string" where
  "toLower s = map (\<lambda>c. if 65 \<le> code c \<and> code c \<le> 90
                       \<or> 192 \<le> code c \<and> code c \<le> 222 \<and> code c \<noteq> 215
                     then char_of (code c + 32) else c) s"

definition is_digit :: "char \<Rightarrow> bool" where
  "is_digit c = (48 \<le> code c \<and> code c \<le> 57)"

definition is_lower :: "char \<Rightarrow> bool" where
  "is_lower c = (97 \<le> code c \<and> code c \<le> 122)"

definition is_upper :: "char \<Rightarrow> bool" where
  "is_upper c = (65 \<le> code c \<and> code c \<le> 90)"

definition is_lower_hex :: "char \<Rightarrow> bool" where
  "is_lower_hex c = (is_digit c \<or> 97 \<le> code c \<and> code c \<le> 102)"

text \<open>\<open>/^[a-f0-9]{n}$/\<close>\<close>

definition is_hex_string :: "nat \<Rightarrow> string \<Rightarrow> bool" where
  "is_hex_string n s = (length s = n \<and> list_all is_lower_hex s)"

lemmas char_class_defs = is_digit_def is_lower_def is_upper_def is_lower_hex_def is_js_space_def
  code_def

definition starts_with :: "string \<Rightarrow> string \<Rightarrow> bool" where
  "starts_with p s = (take (length p) s = p)"

definition ends_with :: "string \<Rightarrow> string \<Rightarrow> bool" where
  "ends_with p s = (length p \<le> length s \<and> drop (length s - length p) s = p)"

text \<open>\<open>Object.keys(v).sort().join(",")\<close>\<close>

fun join_comma :: "string list \<Rightarrow> string" where
  "join_comma [] = []"
| "join_comma [x] = x"
| "join_comma (x # y # ys) = x @ '','' @ join_comma (y # ys)"

definition sorted_keys :: "js \<Rightarrow> string" where
  "sorted_keys v = join_comma (sort (js_keys v))"

text \<open>Decimal rendering of a natural number, \<open>String(n)\<close>.\<close>

fun digits_of :: "nat \<Rightarrow> string" where
  "digits_of n =
     (if n < 10 then [''0123456789'' ! n]
      else digits_of (n div 10) @ [''0123456789'' ! (n mod 10)])"

declare digits_of.simps [simp del]

section \<open>Code that throws\<close>

text \<open>
  An effectful operation takes the world and returns the thrown error or the returned value
  together with the world it leaves behind: a throw does not undo what was already written.
\<close>

type_synonym ('e, 'w, 'a) eff = "'w \<Rightarrow> ('e + 'a) \<times> 'w"

definition ret :: "'a \<Rightarrow> ('e, 'w, 'a) eff" where
  "ret a w = (Inr a, w)"

definition throw :: "'e \<Rightarrow> ('e, 'w, 'a) eff" where
  "throw e w = (Inl e, w)"

definition bind :: "('e, 'w, 'a) eff \<Rightarrow> ('a \<Rightarrow> ('e, 'w, 'b) eff) \<Rightarrow> ('e, 'w, 'b) eff" where
  "bind m f w = (case m w of (Inl e, w') \<Rightarrow> (Inl e, w') | (Inr a, w') \<Rightarrow> f a w')"

text \<open>Lift a pure fallible computation, and a total state change.\<close>

definition lift_res :: "('e + 'a) \<Rightarrow> ('e, 'w, 'a) eff" where
  "lift_res r w = (r, w)"

definition modify :: "('w \<Rightarrow> 'w) \<Rightarrow> ('e, 'w, unit) eff" where
  "modify f w = (Inr (), f w)"

lemma ret_apply [simp, eff_simps]: "ret a w = (Inr a, w)"
  by (simp add: ret_def)

lemma throw_apply [simp, eff_simps]: "throw e w = (Inl e, w)"
  by (simp add: throw_def)

lemma lift_res_apply [simp, eff_simps]: "lift_res r w = (r, w)"
  by (simp add: lift_res_def)

lemma modify_apply [simp, eff_simps]: "modify f w = (Inr (), f w)"
  by (simp add: modify_def)

lemma bind_Inr [simp, eff_simps]: "m w = (Inr a, w') \<Longrightarrow> bind m f w = f a w'"
  by (simp add: bind_def)

lemma bind_Inl [simp, eff_simps]: "m w = (Inl e, w') \<Longrightarrow> bind m f w = (Inl e, w')"
  by (simp add: bind_def)

lemma bind_eq_Inr:
  "bind m f w = (Inr b, w'') \<longleftrightarrow> (\<exists>a w'. m w = (Inr a, w') \<and> f a w' = (Inr b, w''))"
  by (auto simp: bind_def split: prod.splits sum.splits)

lemma bind_InrE [elim!]:
  assumes "bind m f w = (Inr b, w'')"
  obtains a w' where "m w = (Inr a, w')" "f a w' = (Inr b, w'')"
  using assms by (auto simp: bind_eq_Inr)

lemma bind_eq_Inl:
  "bind m f w = (Inl e, w'') \<longleftrightarrow>
     m w = (Inl e, w'') \<or> (\<exists>a w'. m w = (Inr a, w') \<and> f a w' = (Inl e, w''))"
  by (auto simp: bind_def split: prod.splits sum.splits)

section \<open>Association lists as JavaScript records\<close>

fun alist_set :: "'k \<Rightarrow> 'v \<Rightarrow> ('k \<times> 'v) list \<Rightarrow> ('k \<times> 'v) list" where
  "alist_set k v [] = [(k, v)]"
| "alist_set k v ((k', v') # kvs) =
     (if k' = k then (k', v) # kvs else (k', v') # alist_set k v kvs)"

lemma map_of_alist_set: "map_of (alist_set k v kvs) = (map_of kvs)(k \<mapsto> v)"
  by (induction kvs rule: alist_set.induct) (auto simp: fun_eq_iff)

lemma map_of_alist_set_simps [simp]:
  "map_of (alist_set k v kvs) k' = (if k' = k then Some v else map_of kvs k')"
  by (simp add: map_of_alist_set)

lemma alist_set_keys:
  "map_of kvs k \<noteq> None \<Longrightarrow> map fst (alist_set k v kvs) = map fst kvs"
  by (induction kvs rule: alist_set.induct) auto

lemma alist_set_id: "map_of kvs k = Some v \<Longrightarrow> alist_set k v kvs = kvs"
  by (induction kvs rule: alist_set.induct) auto

end
