(* ===== verification/Onboard_Machine.thy ===== *)
theory Onboard_Machine
  imports Nemo_Prelude
begin

text \<open>
  The coarse onboarding finite-state machine: \<open>src/lib/onboard/machine/definition.ts\<close>,
  \<open>types.ts\<close>, \<open>transitions.ts\<close>, \<open>result.ts\<close>, \<open>progress.ts\<close>, the step table of
  \<open>events.ts\<close> and \<open>src/lib/state/onboard-step-state.ts\<close>.

  The state vocabulary is derived, as in the code, from one table of definitions; the
  transition graph is the table of direct edges plus one failure edge per non-terminal
  state. The lemmas show that the two tables agree with each other (unique edges, terminal
  states without successors, every step name a state) and bound the length of every legal
  run by the number of its retries.
\<close>

section \<open>State vocabulary (definition.ts)\<close>

datatype machine_state =
    Init | Preflight | Gateway | ProviderSelection | Inference | Sandbox | AgentSetup
  | Openclaw | Policies | Finalizing | PostVerify | Complete | Failed

fun state_id :: "machine_state \<Rightarrow> string" where
  "state_id Init = ''init''"
| "state_id Preflight = ''preflight''"
| "state_id Gateway = ''gateway''"
| "state_id ProviderSelection = ''provider_selection''"
| "state_id Inference = ''inference''"
| "state_id Sandbox = ''sandbox''"
| "state_id AgentSetup = ''agent_setup''"
| "state_id Openclaw = ''openclaw''"
| "state_id Policies = ''policies''"
| "state_id Finalizing = ''finalizing''"
| "state_id PostVerify = ''post_verify''"
| "state_id Complete = ''complete''"
| "state_id Failed = ''failed''"

record progress_step =
  pg_number :: nat
  pg_total :: nat
  pg_title :: string

record state_definition =
  df_state :: machine_state
  df_terminal :: bool
  df_stepName :: "string option"
  df_progress :: "progress_step option"

definition progress_of :: "nat \<Rightarrow> nat \<Rightarrow> string \<Rightarrow> progress_step option" where
  "progress_of n t title = Some \<lparr>pg_number = n, pg_total = t, pg_title = title\<rparr>"

definition state_def :: "machine_state \<Rightarrow> bool \<Rightarrow> string option \<Rightarrow> progress_step option
    \<Rightarrow> state_definition" where
  "state_def s t n p =
     \<lparr>df_state = s, df_terminal = t, df_stepName = n, df_progress = p\<rparr>"

definition ONBOARD_MACHINE_STATE_DEFINITIONS :: "state_definition list" where
  "ONBOARD_MACHINE_STATE_DEFINITIONS =
    [state_def Init False None None,
     state_def Preflight False (Some ''preflight'') (progress_of 1 8 ''Preflight checks''),
     state_def Gateway False (Some ''gateway'')
       (progress_of 2 8 ''Starting OpenShell gateway''),
     state_def ProviderSelection False (Some ''provider_selection'')
       (progress_of 3 8 ''Configuring inference (NIM)''),
     state_def Inference False (Some ''inference'')
       (progress_of 4 8 ''Setting up inference provider''),
     state_def Sandbox False (Some ''sandbox'') (progress_of 6 8 ''Creating sandbox''),
     state_def AgentSetup False (Some ''agent_setup'') None,
     state_def Openclaw False (Some ''openclaw'')
       (progress_of 7 8 ''Setting up agent inside sandbox''),
     state_def Policies False (Some ''policies'') (progress_of 8 8 ''Policy presets''),
     state_def Finalizing False None None,
     state_def PostVerify False None None,
     state_def Complete True None None,
     state_def Failed True None None]"

definition ONBOARD_MACHINE_STATES :: "machine_state list" where
  "ONBOARD_MACHINE_STATES = map df_state ONBOARD_MACHINE_STATE_DEFINITIONS"

definition ONBOARD_TERMINAL_MACHINE_STATES :: "machine_state list" where
  "ONBOARD_TERMINAL_MACHINE_STATES =
     map df_state (filter df_terminal ONBOARD_MACHINE_STATE_DEFINITIONS)"

definition ONBOARD_NON_TERMINAL_MACHINE_STATES :: "machine_state list" where
  "ONBOARD_NON_TERMINAL_MACHINE_STATES =
     map df_state (filter (\<lambda>d. \<not> df_terminal d) ONBOARD_MACHINE_STATE_DEFINITIONS)"

definition getOnboardMachineStateDefinition :: "machine_state \<Rightarrow> state_definition option" where
  "getOnboardMachineStateDefinition s =
     List.find (\<lambda>d. df_state d = s) ONBOARD_MACHINE_STATE_DEFINITIONS"

section \<open>Event and transition kinds (types.ts)\<close>

datatype event_type =
    OnboardStarted | OnboardResumed | OnboardCompleted | OnboardFailed
  | StateEntered | StateExited | StateSkipped | StateCompleted | StateFailed
  | RepairStarted | RepairCompleted | RepairFailed
  | ResultInvalidated | ResultSkipped | ContextUpdated | ResumeConflict
  | HookStarted | HookCompleted | HookFailed

fun event_type_id :: "event_type \<Rightarrow> string" where
  "event_type_id OnboardStarted = ''onboard.started''"
| "event_type_id OnboardResumed = ''onboard.resumed''"
| "event_type_id OnboardCompleted = ''onboard.completed''"
| "event_type_id OnboardFailed = ''onboard.failed''"
| "event_type_id StateEntered = ''state.entered''"
| "event_type_id StateExited = ''state.exited''"
| "event_type_id StateSkipped = ''state.skipped''"
| "event_type_id StateCompleted = ''state.completed''"
| "event_type_id StateFailed = ''state.failed''"
| "event_type_id RepairStarted = ''state.repair.started''"
| "event_type_id RepairCompleted = ''state.repair.completed''"
| "event_type_id RepairFailed = ''state.repair.failed''"
| "event_type_id ResultInvalidated = ''state.result.invalidated''"
| "event_type_id ResultSkipped = ''state.result.skipped''"
| "event_type_id ContextUpdated = ''context.updated''"
| "event_type_id ResumeConflict = ''resume.conflict''"
| "event_type_id HookStarted = ''hook.started''"
| "event_type_id HookCompleted = ''hook.completed''"
| "event_type_id HookFailed = ''hook.failed''"

datatype transition_kind = Advance | Retry | Branch | Failure

record transition =
  tr_from :: machine_state
  tr_to :: machine_state
  tr_kind :: transition_kind

section \<open>Errors thrown by the modelled code\<close>

datatype onboard_error =
    InvalidOnboardMachineTransition machine_state machine_state
  | OnboardInterrupted machine_state "string option" machine_state
  | ResultAlreadyAtTarget machine_state
  | ResultSourceMismatch string machine_state
  | InvalidTransitionKind machine_state machine_state transition_kind transition_kind
  | CannotPauseTerminal machine_state
  | TerminalCannotBeSkipped machine_state
  | MissingOnboardStateHandler machine_state
  | OnboardMachineTransitionLimit int
  | EmptyOnboardStateHandlerResult machine_state
  | ResultSequenceSource machine_state nat "string option"
  | ResultSequenceOwnership "machine_state list" machine_state nat machine_state
  | DuplicateOnboardSequencePhase machine_state
  | RepairNoResults machine_state
  | RepairResultInvalid machine_state machine_state
  | RepairTransitionKind machine_state transition_kind machine_state machine_state
  | RepairFinalState machine_state "machine_state list" machine_state
  | RepairChangedEntry machine_state machine_state machine_state
  | UnexpectedOnboardFlowSliceState machine_state "machine_state list" "machine_state list"
  | FlowSlicePhasesMissing
  | CoreInferenceRepairEmpty
  | CoreRepairBranchMismatch machine_state machine_state
  | FinalBranchPhaseCount nat
  | FinalPhaseCount nat
  | FinalPhaseStateCount machine_state nat
  | FinalRepairResultCount machine_state nat
  | FinalRepairResultInvalid machine_state machine_state
  | FinalRepairChangedEntry machine_state machine_state machine_state
  | OnboardStateIncomplete string
  | InvalidStationExpressSelection
  | StationExpressReceiptMismatch
  | StationExpressRetirementStateMismatch
  | StationExpressReceiptGenerationInvalid
  | OnboardLockUnavailable
  | UnrecoverableSession machine_state
  | RecoveryTimestampInvalid
  | MissingResumeSession
  | UnsupportedResumeCheckpoint int
  | CorruptResumeCheckpoint
  | ResumeConfigConflicts "string list"
  | SandboxNameUnrecoverable
  | ProviderBindingsInvalid
  | ProviderReceiptInvalid
  | ProviderOwnershipConflicting
  | ProviderReceiptUnmatched
  | ProviderGroupConflict
  | ThrownByDependency string

section \<open>Transition graph (transitions.ts)\<close>

definition edge :: "machine_state \<Rightarrow> machine_state \<Rightarrow> transition_kind \<Rightarrow> transition" where
  "edge f t k = \<lparr>tr_from = f, tr_to = t, tr_kind = k\<rparr>"

definition ONBOARD_MACHINE_DIRECT_TRANSITIONS :: "transition list" where
  "ONBOARD_MACHINE_DIRECT_TRANSITIONS =
    [edge Init Preflight Advance,
     edge Preflight Gateway Advance,
     edge Gateway ProviderSelection Advance,
     edge ProviderSelection Inference Advance,
     edge Inference ProviderSelection Retry,
     edge Inference Sandbox Advance,
     edge Sandbox Openclaw Branch,
     edge Sandbox AgentSetup Branch,
     edge Openclaw Policies Advance,
     edge AgentSetup Policies Advance,
     edge Policies Finalizing Advance,
     edge Finalizing PostVerify Advance,
     edge PostVerify Complete Advance]"

definition ONBOARD_MACHINE_FAILURE_TRANSITIONS :: "transition list" where
  "ONBOARD_MACHINE_FAILURE_TRANSITIONS =
     map (\<lambda>from. edge from Failed Failure) ONBOARD_NON_TERMINAL_MACHINE_STATES"

definition ONBOARD_MACHINE_TRANSITIONS :: "transition list" where
  "ONBOARD_MACHINE_TRANSITIONS =
     ONBOARD_MACHINE_DIRECT_TRANSITIONS @ ONBOARD_MACHINE_FAILURE_TRANSITIONS"

definition ONBOARD_MACHINE_NEXT_STATES :: "machine_state \<Rightarrow> machine_state list" where
  "ONBOARD_MACHINE_NEXT_STATES s =
     map tr_to (filter (\<lambda>t. tr_from t = s) ONBOARD_MACHINE_TRANSITIONS)"

definition parse_state :: "string \<Rightarrow> machine_state option" where
  "parse_state x = List.find (\<lambda>s. state_id s = x) ONBOARD_MACHINE_STATES"

definition isOnboardMachineState :: "js \<Rightarrow> bool" where
  "isOnboardMachineState v =
     (case v of JStr x \<Rightarrow> x \<in> set (map state_id ONBOARD_MACHINE_STATES) | _ \<Rightarrow> False)"

definition isTerminalOnboardMachineState :: "machine_state \<Rightarrow> bool" where
  "isTerminalOnboardMachineState s = (s \<in> set ONBOARD_TERMINAL_MACHINE_STATES)"

definition getNextOnboardMachineStates :: "machine_state \<Rightarrow> machine_state list" where
  "getNextOnboardMachineStates from = ONBOARD_MACHINE_NEXT_STATES from"

definition canTransitionOnboardMachineState :: "machine_state \<Rightarrow> machine_state \<Rightarrow> bool" where
  "canTransitionOnboardMachineState from to = (to \<in> set (getNextOnboardMachineStates from))"

definition getOnboardMachineTransition :: "machine_state \<Rightarrow> machine_state \<Rightarrow> transition option"
  where
  "getOnboardMachineTransition from to =
     List.find (\<lambda>t. tr_from t = from \<and> tr_to t = to) ONBOARD_MACHINE_TRANSITIONS"

record interruption_marker =
  im_step :: "string option"
  im_interrupted :: bool

definition assertOnboardNotInterrupted ::
  "machine_state \<Rightarrow> machine_state \<Rightarrow> interruption_marker option \<Rightarrow> onboard_error + unit" where
  "assertOnboardNotInterrupted from nxt failure =
     (if from \<noteq> Failed then Inr ()
      else case failure of
             None \<Rightarrow> Inr ()
           | Some f \<Rightarrow> if \<not> im_interrupted f then Inr ()
                       else Inl (OnboardInterrupted from (im_step f) nxt))"

definition assertValidOnboardMachineTransition ::
  "machine_state \<Rightarrow> machine_state \<Rightarrow> onboard_error + transition" where
  "assertValidOnboardMachineTransition from to =
     (case getOnboardMachineTransition from to of
        None \<Rightarrow> Inl (InvalidOnboardMachineTransition from to)
      | Some t \<Rightarrow> Inr t)"

section \<open>State results (result.ts)\<close>

text \<open>
  \<open>updates\<close> and \<open>metadata\<close> stay untyped: the runtime filters and sanitises them. An absent
  member is \<open>undefined\<close>.
\<close>

datatype onboard_result =
    TransitionResult (rs_next: machine_state) (rs_kind: "transition_kind option")
      (rs_updates: js) (rs_metadata: js)
  | PauseResult (rs_updates: js) (rs_metadata: js)
  | CompleteResult (rs_updates: js) (rs_metadata: js)
  | FailedResult (rs_error: "string option") (rs_step: "string option") (rs_metadata: js)

record transition_options =
  to_kind :: "transition_kind option"
  to_updates :: js
  to_metadata :: js

definition transitionTo :: "machine_state \<Rightarrow> transition_options \<Rightarrow> onboard_result" where
  "transitionTo nxt opts = TransitionResult nxt (to_kind opts) (to_updates opts) (to_metadata opts)"

definition advanceTo :: "machine_state \<Rightarrow> transition_options \<Rightarrow> onboard_result" where
  "advanceTo nxt opts = transitionTo nxt (opts\<lparr>to_kind := Some Advance\<rparr>)"

definition retryTo :: "machine_state \<Rightarrow> transition_options \<Rightarrow> onboard_result" where
  "retryTo nxt opts = transitionTo nxt (opts\<lparr>to_kind := Some Retry\<rparr>)"

definition branchTo :: "machine_state \<Rightarrow> transition_options \<Rightarrow> onboard_result" where
  "branchTo nxt opts = transitionTo nxt (opts\<lparr>to_kind := Some Branch\<rparr>)"

definition completeOnboardMachine :: "js \<Rightarrow> js \<Rightarrow> onboard_result" where
  "completeOnboardMachine updates metadata = CompleteResult updates metadata"

definition pauseOnboardMachine :: "js \<Rightarrow> js \<Rightarrow> onboard_result" where
  "pauseOnboardMachine updates metadata = PauseResult updates metadata"

definition failOnboardMachine :: "string option \<Rightarrow> string option \<Rightarrow> js \<Rightarrow> onboard_result" where
  "failOnboardMachine err step metadata = FailedResult err step metadata"

section \<open>Session steps and progress (events.ts, onboard-step-state.ts, progress.ts)\<close>

definition ONBOARD_SESSION_STEP_TO_MACHINE_STATE :: "(string \<times> machine_state) list" where
  "ONBOARD_SESSION_STEP_TO_MACHINE_STATE =
     concat (map (\<lambda>d. case df_stepName d of None \<Rightarrow> [] | Some n \<Rightarrow> [(n, df_state d)])
       ONBOARD_MACHINE_STATE_DEFINITIONS)"

definition isOnboardSessionStepName :: "string \<Rightarrow> bool" where
  "isOnboardSessionStepName x = (map_of ONBOARD_SESSION_STEP_TO_MACHINE_STATE x \<noteq> None)"

definition machineStateFromOnboardSessionStep :: "string option \<Rightarrow> machine_state option" where
  "machineStateFromOnboardSessionStep stepName =
     (case stepName of
        None \<Rightarrow> None
      | Some n \<Rightarrow> if n = [] \<or> \<not> isOnboardSessionStepName n then None
                  else map_of ONBOARD_SESSION_STEP_TO_MACHINE_STATE n)"

definition nextMachineStateAfterCompletedStep ::
  "string option \<Rightarrow> string option \<Rightarrow> machine_state option" where
  "nextMachineStateAfterCompletedStep stepName agent =
     (case stepName of
        None \<Rightarrow> None
      | Some n \<Rightarrow>
          if n = ''preflight'' then Some Gateway
          else if n = ''gateway'' then Some ProviderSelection
          else if n = ''provider_selection'' then Some Inference
          else if n = ''inference'' then Some Sandbox
          else if n = ''sandbox'' then Some (if truthy agent then AgentSetup else Openclaw)
          else if n = ''openclaw'' \<or> n = ''agent_setup'' then Some Policies
          else if n = ''policies'' then Some Finalizing
          else None)"

definition ONBOARD_PROGRESS_STEPS :: "(string \<times> progress_step) list" where
  "ONBOARD_PROGRESS_STEPS =
     concat (map (\<lambda>d. case (df_stepName d, df_progress d) of
                        (Some n, Some p) \<Rightarrow> [(n, p)] | _ \<Rightarrow> [])
       ONBOARD_MACHINE_STATE_DEFINITIONS)
     @ [(''messaging'', \<lparr>pg_number = 5, pg_total = 8, pg_title = ''Messaging channels''\<rparr>)]"

definition getOnboardProgressStep :: "string \<Rightarrow> progress_step option" where
  "getOnboardProgressStep stepName = map_of ONBOARD_PROGRESS_STEPS stepName"

section \<open>Facts about the tables\<close>

lemmas definition_table = ONBOARD_MACHINE_STATE_DEFINITIONS_def state_def_def progress_of_def

lemma states_eq:
  "ONBOARD_MACHINE_STATES =
     [Init, Preflight, Gateway, ProviderSelection, Inference, Sandbox, AgentSetup, Openclaw,
      Policies, Finalizing, PostVerify, Complete, Failed]"
  by (simp add: ONBOARD_MACHINE_STATES_def definition_table)

lemma in_states [simp]: "s \<in> set ONBOARD_MACHINE_STATES"
  by (cases s) (simp_all add: states_eq)

lemma terminal_iff [simp]:
  "isTerminalOnboardMachineState s \<longleftrightarrow> s = Complete \<or> s = Failed"
  by (auto simp: isTerminalOnboardMachineState_def ONBOARD_TERMINAL_MACHINE_STATES_def
      definition_table)

lemma nonterminal_states_eq:
  "ONBOARD_NON_TERMINAL_MACHINE_STATES =
     [Init, Preflight, Gateway, ProviderSelection, Inference, Sandbox, AgentSetup, Openclaw,
      Policies, Finalizing, PostVerify]"
  by (simp add: ONBOARD_NON_TERMINAL_MACHINE_STATES_def definition_table)

lemma nonterminal_iff:
  "s \<in> set ONBOARD_NON_TERMINAL_MACHINE_STATES \<longleftrightarrow> \<not> isTerminalOnboardMachineState s"
  by (cases s) (simp_all add: nonterminal_states_eq)

lemma state_id_inject [simp]: "state_id s = state_id t \<longleftrightarrow> s = t"
  by (cases s; cases t; simp)

lemma state_id_nonempty [simp]: "state_id s \<noteq> []"
  by (cases s) simp_all

lemma find_eq: "List.find (\<lambda>s. s = t) xs = (if t \<in> set xs then Some t else None)"
  by (induction xs) auto

lemma parse_state_id [simp]: "parse_state (state_id s) = Some s"
  by (simp add: parse_state_def find_eq)

lemma parse_state_Some: "parse_state x = Some s \<longleftrightarrow> x = state_id s"
proof
  assume "parse_state x = Some s"
  then show "x = state_id s"
    by (auto simp: parse_state_def find_Some_iff)
qed simp

lemma isOnboardMachineState_iff:
  "isOnboardMachineState v \<longleftrightarrow> (\<exists>s. v = JStr (state_id s))"
  by (cases v) (auto simp: isOnboardMachineState_def image_iff)

lemma isOnboardMachineState_JStr [simp]:
  "isOnboardMachineState (JStr x) \<longleftrightarrow> parse_state x \<noteq> None"
proof -
  have "isOnboardMachineState (JStr x) \<longleftrightarrow> (\<exists>s. x = state_id s)"
    by (auto simp: isOnboardMachineState_iff)
  then show ?thesis by (auto simp flip: parse_state_Some)
qed

lemmas transition_table =
  ONBOARD_MACHINE_TRANSITIONS_def ONBOARD_MACHINE_DIRECT_TRANSITIONS_def
  ONBOARD_MACHINE_FAILURE_TRANSITIONS_def edge_def nonterminal_states_eq

lemmas next_states_defs =
  canTransitionOnboardMachineState_def getNextOnboardMachineStates_def
  ONBOARD_MACHINE_NEXT_STATES_def

lemma can_transition_iff_edge:
  "canTransitionOnboardMachineState f t \<longleftrightarrow>
     (\<exists>e \<in> set ONBOARD_MACHINE_TRANSITIONS. tr_from e = f \<and> tr_to e = t)"
  by (auto simp: next_states_defs)

lemma next_states:
  "getNextOnboardMachineStates Init = [Preflight, Failed]"
  "getNextOnboardMachineStates Preflight = [Gateway, Failed]"
  "getNextOnboardMachineStates Gateway = [ProviderSelection, Failed]"
  "getNextOnboardMachineStates ProviderSelection = [Inference, Failed]"
  "getNextOnboardMachineStates Inference = [ProviderSelection, Sandbox, Failed]"
  "getNextOnboardMachineStates Sandbox = [Openclaw, AgentSetup, Failed]"
  "getNextOnboardMachineStates AgentSetup = [Policies, Failed]"
  "getNextOnboardMachineStates Openclaw = [Policies, Failed]"
  "getNextOnboardMachineStates Policies = [Finalizing, Failed]"
  "getNextOnboardMachineStates Finalizing = [PostVerify, Failed]"
  "getNextOnboardMachineStates PostVerify = [Complete, Failed]"
  "getNextOnboardMachineStates Complete = []"
  "getNextOnboardMachineStates Failed = []"
  by (simp_all add: getNextOnboardMachineStates_def ONBOARD_MACHINE_NEXT_STATES_def
      transition_table)

lemma find_unique_edge:
  assumes "distinct (map (\<lambda>e. (tr_from e, tr_to e)) es)"
  shows "List.find (\<lambda>e. tr_from e = f \<and> tr_to e = t) es = Some e \<longleftrightarrow>
         e \<in> set es \<and> tr_from e = f \<and> tr_to e = (t :: machine_state)"
  using assms by (induction es) (auto simp: rev_image_eqI)

lemma transitions_distinct:
  "distinct (map (\<lambda>e. (tr_from e, tr_to e)) ONBOARD_MACHINE_TRANSITIONS)"
  by (simp add: transition_table)

lemma get_transition_iff:
  "getOnboardMachineTransition f t = Some e \<longleftrightarrow>
     e \<in> set ONBOARD_MACHINE_TRANSITIONS \<and> tr_from e = f \<and> tr_to e = t"
  unfolding getOnboardMachineTransition_def
  by (rule find_unique_edge [OF transitions_distinct])

lemma get_transition_None_iff:
  "getOnboardMachineTransition f t = None \<longleftrightarrow> \<not> canTransitionOnboardMachineState f t"
  by (auto simp: can_transition_iff_edge getOnboardMachineTransition_def find_None_iff)

lemma assert_valid_Inr_iff:
  "assertValidOnboardMachineTransition f t = Inr e \<longleftrightarrow> getOnboardMachineTransition f t = Some e"
  by (simp add: assertValidOnboardMachineTransition_def split: option.splits)

lemma assert_valid_Inr_ex:
  "(\<exists>e. assertValidOnboardMachineTransition f t = Inr e) \<longleftrightarrow> canTransitionOnboardMachineState f t"
  by (auto simp: assert_valid_Inr_iff get_transition_iff can_transition_iff_edge)

lemma assert_valid_InlD:
  assumes "\<not> canTransitionOnboardMachineState f t"
  shows "assertValidOnboardMachineTransition f t = Inl (InvalidOnboardMachineTransition f t)"
  using assms by (simp add: assertValidOnboardMachineTransition_def flip: get_transition_None_iff)

lemma can_fail_iff [simp]:
  "canTransitionOnboardMachineState f Failed \<longleftrightarrow> \<not> isTerminalOnboardMachineState f"
  by (cases f) (simp_all add: canTransitionOnboardMachineState_def next_states)

lemma can_complete_iff [simp]:
  "canTransitionOnboardMachineState f Complete \<longleftrightarrow> f = PostVerify"
  by (cases f) (simp_all add: canTransitionOnboardMachineState_def next_states)

lemma terminal_no_transition:
  "isTerminalOnboardMachineState f \<Longrightarrow> \<not> canTransitionOnboardMachineState f t"
  by (auto simp: canTransitionOnboardMachineState_def next_states)

lemma no_self_transition [simp]: "\<not> canTransitionOnboardMachineState f f"
  by (cases f) (simp_all add: canTransitionOnboardMachineState_def next_states)

lemma not_interrupted_nonfailed [simp]:
  "f \<noteq> Failed \<Longrightarrow> assertOnboardNotInterrupted f t m = Inr ()"
  by (simp add: assertOnboardNotInterrupted_def)

lemma step_table_eq:
  "ONBOARD_SESSION_STEP_TO_MACHINE_STATE =
     map (\<lambda>s. (state_id s, s))
       [Preflight, Gateway, ProviderSelection, Inference, Sandbox, AgentSetup, Openclaw, Policies]"
  by (simp add: ONBOARD_SESSION_STEP_TO_MACHINE_STATE_def definition_table)

lemma step_state_iff:
  "machineStateFromOnboardSessionStep stepName = Some s \<longleftrightarrow>
     stepName = Some (state_id s) \<and>
     s \<in> {Preflight, Gateway, ProviderSelection, Inference, Sandbox, AgentSetup, Openclaw, Policies}"
  by (cases s) (auto simp: machineStateFromOnboardSessionStep_def isOnboardSessionStepName_def
      step_table_eq split: option.splits if_splits)

lemma step_state_nonterminal:
  "machineStateFromOnboardSessionStep stepName = Some s \<Longrightarrow> \<not> isTerminalOnboardMachineState s"
  by (auto simp: step_state_iff)

lemma next_after_step_nonterminal:
  "nextMachineStateAfterCompletedStep stepName agent = Some s \<Longrightarrow> \<not> isTerminalOnboardMachineState s"
  by (auto simp: nextMachineStateAfterCompletedStep_def split: option.splits if_splits)

section \<open>Runs of a state graph with bounded retreat\<close>

text \<open>
  What the flow relies on of the graph, as an interface: terminal states are stuck, an edge
  either makes progress in a rank or is a retry that gives at most one rank back. Every run is
  then at most as long as the rank it gains plus two steps per retry.
\<close>

fun run_from :: "('s \<Rightarrow> 's \<Rightarrow> bool) \<Rightarrow> 's \<Rightarrow> 's list \<Rightarrow> bool" where
  "run_from step s [] = True"
| "run_from step s (t # ts) = (step s t \<and> run_from step t ts)"

fun count_retries :: "('s \<Rightarrow> 's \<Rightarrow> bool) \<Rightarrow> 's \<Rightarrow> 's list \<Rightarrow> nat" where
  "count_retries retry s [] = 0"
| "count_retries retry s (t # ts) = (if retry s t then 1 else 0) + count_retries retry t ts"

locale state_graph =
  fixes step :: "'s \<Rightarrow> 's \<Rightarrow> bool"
    and terminal :: "'s \<Rightarrow> bool"
    and rank :: "'s \<Rightarrow> nat"
    and retry :: "'s \<Rightarrow> 's \<Rightarrow> bool"
  assumes terminal_stuck: "terminal s \<Longrightarrow> \<not> step s t"
    and forward_rank: "step s t \<Longrightarrow> \<not> retry s t \<Longrightarrow> rank s < rank t"
    and retry_rank: "step s t \<Longrightarrow> retry s t \<Longrightarrow> rank s \<le> Suc (rank t)"
begin

lemma run_terminal: "terminal s \<Longrightarrow> run_from step s ts \<Longrightarrow> ts = []"
  by (cases ts) (auto dest: terminal_stuck)

lemma run_length_bound:
  "run_from step s ts \<Longrightarrow> rank s + length ts \<le> rank (last (s # ts)) + 2 * count_retries retry s ts"
proof (induction ts arbitrary: s)
  case (Cons t ts)
  then have step: "step s t" and IH: "rank t + length ts \<le> rank (last (t # ts)) + 2 * count_retries retry t ts"
    by auto
  show ?case
  proof (cases "retry s t")
    case True
    with retry_rank [OF step] IH show ?thesis by (cases ts) auto
  next
    case False
    with forward_rank [OF step] IH show ?thesis by (cases ts) auto
  qed
qed simp

end

fun flow_rank :: "machine_state \<Rightarrow> nat" where
  "flow_rank Init = 0"
| "flow_rank Preflight = 1"
| "flow_rank Gateway = 2"
| "flow_rank ProviderSelection = 3"
| "flow_rank Inference = 4"
| "flow_rank Sandbox = 5"
| "flow_rank AgentSetup = 6"
| "flow_rank Openclaw = 6"
| "flow_rank Policies = 7"
| "flow_rank Finalizing = 8"
| "flow_rank PostVerify = 9"
| "flow_rank Complete = 10"
| "flow_rank Failed = 11"

definition is_retry_edge :: "machine_state \<Rightarrow> machine_state \<Rightarrow> bool" where
  "is_retry_edge f t = (map_option tr_kind (getOnboardMachineTransition f t) = Some Retry)"

lemma is_retry_edge_iff: "is_retry_edge f t \<longleftrightarrow> f = Inference \<and> t = ProviderSelection"
proof -
  have "is_retry_edge f t \<longleftrightarrow>
      (\<exists>e \<in> set ONBOARD_MACHINE_TRANSITIONS. tr_from e = f \<and> tr_to e = t \<and> tr_kind e = Retry)"
    by (auto simp: is_retry_edge_def get_transition_iff)
  also have "\<dots> \<longleftrightarrow> f = Inference \<and> t = ProviderSelection"
    by (auto simp: transition_table)
  finally show ?thesis .
qed

interpretation onboard_graph: state_graph canTransitionOnboardMachineState
  isTerminalOnboardMachineState flow_rank is_retry_edge
proof
  fix s t :: machine_state
  show "isTerminalOnboardMachineState s \<Longrightarrow> \<not> canTransitionOnboardMachineState s t"
    by (rule terminal_no_transition)
  show "flow_rank s < flow_rank t"
    if "canTransitionOnboardMachineState s t" "\<not> is_retry_edge s t"
    using that by (cases s) (auto simp: canTransitionOnboardMachineState_def next_states is_retry_edge_iff)
  show "flow_rank s \<le> Suc (flow_rank t)"
    if "canTransitionOnboardMachineState s t" "is_retry_edge s t"
    using that by (auto simp: is_retry_edge_iff)
qed

lemma flow_rank_le: "flow_rank s \<le> 11"
  by (cases s) simp_all

lemma completed_step_edge:
  "machineStateFromOnboardSessionStep (Some n) = Some s \<Longrightarrow>
     nextMachineStateAfterCompletedStep (Some n) agent = Some t \<Longrightarrow> canTransitionOnboardMachineState s t"
  by (auto simp: step_state_iff nextMachineStateAfterCompletedStep_def canTransitionOnboardMachineState_def
      next_states split: if_splits)

end
