(* ===== verification/Session_Values.thy ===== *)
theory Session_Values
  imports Onboard_Machine
begin

text \<open>
  The closed vocabularies and validated values a session stores: sandbox names
  (\<open>nemoclaw/src/shared/sandbox-name.cts\<close>), web search (\<open>src/lib/inference/web-search.ts\<close>),
  tool disclosure (\<open>src/lib/tool-disclosure.ts\<close>), reasoning effort
  (\<open>src/lib/onboard/reasoning-mode.ts\<close>), canonical timestamps, serving-profile provenance
  (\<open>src/lib/inference/serving/profile-provenance.ts\<close>) and the Station/Spark Express resume
  intent (\<open>src/lib/onboard/station-express-resume.ts\<close>).

  Every reader takes an untyped value and returns an option; every writer gives the value
  back as stored. The lemmas show that a reader accepts what its writer produced, unchanged.
\<close>

section \<open>Reader and writer pairs\<close>

text \<open>
  The contract the persisted fields share: reading a written value that is valid gives the
  value back, everything that reads is valid, and writing yields plain JSON.
\<close>

locale codec =
  fixes reader :: "js \<Rightarrow> 'a option"
    and writer :: "'a \<Rightarrow> js"
    and valid :: "'a \<Rightarrow> bool"
  assumes read_write: "valid a \<Longrightarrow> reader (writer a) = Some a"
    and read_valid: "reader v = Some a \<Longrightarrow> valid a"
    and write_clean: "valid a \<Longrightarrow> json_clean (writer a)"
begin

lemma read_idempotent: "reader v = Some a \<Longrightarrow> reader (writer a) = Some a"
  by (blast intro: read_write read_valid)

lemma read_after_disk: "valid a \<Longrightarrow> reader (json_persist (writer a)) = Some a"
  by (simp add: json_persist_clean write_clean read_write)

lemma valid_iff_fixpoint: "valid a \<longleftrightarrow> reader (writer a) = Some a"
  using read_write read_valid by blast

end

text \<open>An array of such values, read element by element and refused as a whole.\<close>

fun read_all :: "(js \<Rightarrow> 'a option) \<Rightarrow> js list \<Rightarrow> 'a list option" where
  "read_all r [] = Some []"
| "read_all r (x # xs) =
     (case r x of None \<Rightarrow> None | Some a \<Rightarrow> map_option (Cons a) (read_all r xs))"

definition read_array :: "(js \<Rightarrow> 'a option) \<Rightarrow> js \<Rightarrow> 'a list option" where
  "read_array r v = Option.bind (js_array v) (read_all r)"

definition write_array :: "('a \<Rightarrow> js) \<Rightarrow> 'a list \<Rightarrow> js" where
  "write_array w xs = JArr (map w xs)"

context codec
begin

lemma read_all_write: "list_all valid xs \<Longrightarrow> read_all reader (map writer xs) = Some xs"
  by (induction xs) (auto simp: read_write)

lemma read_all_valid: "read_all reader vs = Some xs \<Longrightarrow> list_all valid xs"
  by (induction vs arbitrary: xs) (auto intro: read_valid split: option.splits)

lemma write_all_clean: "list_all valid xs \<Longrightarrow> json_clean_arr (map writer xs)"
  by (induction xs) (auto simp: write_clean)

lemma array_codec: "codec (read_array reader) (write_array writer) (list_all valid)"
  by unfold_locales
    (auto simp: read_array_def write_array_def read_all_write write_all_clean
      dest: read_all_valid split: Option.bind_splits)

end

text \<open>
  A writer that never produces \<open>null\<close> can be stored in a nullable field: \<open>null\<close> reads as
  absent, anything else must parse.
\<close>

definition read_nullable :: "(js \<Rightarrow> 'a option) \<Rightarrow> js \<Rightarrow> 'a option option" where
  "read_nullable r v = (if v = JNull then Some None else map_option Some (r v))"

locale value_codec = codec +
  assumes write_not_null: "writer a \<noteq> JNull"
begin

lemma nullable_codec: "codec (read_nullable reader) (js_opt writer) (pred_option valid)"
proof
  fix a v
  show "read_nullable reader (js_opt writer a) = Some a" if "pred_option valid a"
    using that by (cases a) (auto simp: read_nullable_def read_write write_not_null)
  show "pred_option valid a" if "read_nullable reader v = Some a"
    using that by (auto simp: read_nullable_def intro: read_valid split: if_splits)
  show "json_clean (js_opt writer a)" if "pred_option valid a"
    using that by (cases a) (auto simp: write_clean)
qed

end

sublocale value_codec \<subseteq> nullable: codec "read_nullable reader" "js_opt writer" "pred_option valid"
  by (rule nullable_codec)

text \<open>The simplest instance: a string that satisfies a predicate.\<close>

definition read_text :: "(string \<Rightarrow> bool) \<Rightarrow> js \<Rightarrow> string option" where
  "read_text P v =
     (case js_string v of Some s \<Rightarrow> if P s then Some s else None | None \<Rightarrow> None)"

lemma read_text_eq_Some [simp]: "read_text P v = Some s \<longleftrightarrow> v = JStr s \<and> P s"
  by (cases v) (auto simp: read_text_def)

interpretation text_value: value_codec "read_text P" JStr P for P
  by unfold_locales simp_all

section \<open>Sandbox names (sandbox-name.cts)\<close>

definition NAME_MAX_LENGTH :: nat where
  "NAME_MAX_LENGTH = 19"

fun has_double_hyphen :: "string \<Rightarrow> bool" where
  "has_double_hyphen (a # b # s) = (a = CHR ''-'' \<and> b = CHR ''-'' \<or> has_double_hyphen (b # s))"
| "has_double_hyphen _ = False"

definition is_name_char :: "char \<Rightarrow> bool" where
  "is_name_char c = (is_lower c \<or> is_digit c \<or> c = CHR ''-'')"

definition NAME_VALID_PATTERN :: "string \<Rightarrow> bool" where
  "NAME_VALID_PATTERN s =
     (s \<noteq> [] \<and> \<not> has_double_hyphen s \<and> is_lower (hd s) \<and> list_all is_name_char s
      \<and> (is_lower (last s) \<or> is_digit (last s)))"

definition isValidName :: "js \<Rightarrow> bool" where
  "isValidName v =
     (case v of JStr s \<Rightarrow> s \<noteq> [] \<and> length s \<le> NAME_MAX_LENGTH \<and> NAME_VALID_PATTERN s | _ \<Rightarrow> False)"

section \<open>Web search configuration (web-search.ts)\<close>

datatype web_search_provider = Brave | Tavily

fun provider_id :: "web_search_provider \<Rightarrow> string" where
  "provider_id Brave = ''brave''"
| "provider_id Tavily = ''tavily''"

record web_search_config =
  ws_fetchEnabled :: bool
  ws_provider :: "web_search_provider option"

definition parse_web_provider :: "js \<Rightarrow> web_search_provider option" where
  "parse_web_provider v =
     (if v = JStr ''brave'' then Some Brave else if v = JStr ''tavily'' then Some Tavily else None)"

definition isWebSearchProvider :: "js \<Rightarrow> bool" where
  "isWebSearchProvider v = (parse_web_provider v \<noteq> None)"

datatype explicit_web_provider =
    NotSpecified
  | Specified "web_search_provider option"

definition parseExplicitWebSearchProvider :: "string option \<Rightarrow> string + explicit_web_provider"
  where
  "parseExplicitWebSearchProvider value =
     (let normalized = toLower (trim (nullish [] value)) in
      if normalized = [] then Inr NotSpecified
      else case parse_web_provider (JStr normalized) of
             Some p \<Rightarrow> Inr (Specified (Some p))
           | None \<Rightarrow>
               if normalized \<in> set [''none'', ''off'', ''disabled'', ''no'', ''0'']
               then Inr (Specified None)
               else Inl (nullish [] value))"

definition normalizeWebSearchProvider :: "js \<Rightarrow> web_search_provider" where
  "normalizeWebSearchProvider v = nullish Brave (parse_web_provider v)"

definition webSearchEnvFor :: "web_search_provider \<Rightarrow> string" where
  "webSearchEnvFor p = (if p = Tavily then ''TAVILY_API_KEY'' else ''BRAVE_API_KEY'')"

definition webSearchProviderForEnvKey :: "string \<Rightarrow> web_search_provider option" where
  "webSearchProviderForEnvKey k =
     (if k = ''BRAVE_API_KEY'' then Some Brave
      else if k = ''TAVILY_API_KEY'' then Some Tavily else None)"

definition isWebSearchEnabled :: "js \<Rightarrow> bool" where
  "isWebSearchEnabled v = (js_get v ''fetchEnabled'' = JBool True)"

definition normalizeWebSearchConfig :: "js \<Rightarrow> web_search_config option" where
  "normalizeWebSearchConfig config =
     (if \<not> isWebSearchEnabled config then None
      else case (if js_get config ''provider'' = JUndef then Some Brave
                 else parse_web_provider (js_get config ''provider'')) of
             None \<Rightarrow> None
           | Some p \<Rightarrow> Some \<lparr>ws_fetchEnabled = True, ws_provider = Some p\<rparr>)"

definition webSearchConfigsEqual :: "js \<Rightarrow> js \<Rightarrow> bool" where
  "webSearchConfigsEqual l r =
     (case (normalizeWebSearchConfig l, normalizeWebSearchConfig r) of
        (Some a, Some b) \<Rightarrow> ws_provider a = ws_provider b
      | (a, b) \<Rightarrow> a = b)"

definition web_search_config_to_js :: "web_search_config \<Rightarrow> js" where
  "web_search_config_to_js c =
     JObj ((''fetchEnabled'', JBool (ws_fetchEnabled c)) #
       (case ws_provider c of None \<Rightarrow> [] | Some p \<Rightarrow> [(''provider'', JStr (provider_id p))]))"

section \<open>Tool disclosure (tool-disclosure.ts)\<close>

datatype tool_disclosure = Progressive | Direct

fun disclosure_id :: "tool_disclosure \<Rightarrow> string" where
  "disclosure_id Progressive = ''progressive''"
| "disclosure_id Direct = ''direct''"

definition DEFAULT_TOOL_DISCLOSURE :: tool_disclosure where
  "DEFAULT_TOOL_DISCLOSURE = Progressive"

definition normalizeToolDisclosure :: "js \<Rightarrow> tool_disclosure option" where
  "normalizeToolDisclosure v =
     (case v of
        JStr s \<Rightarrow>
          (let normalized = toLower (trim s) in
           if normalized = ''progressive'' then Some Progressive
           else if normalized = ''direct'' then Some Direct else None)
      | _ \<Rightarrow> None)"

datatype disclosure_error =
    EnvDisclosureInvalid
  | RequestDisclosureInvalid
  | RecordedDisclosureInvalid
  | DisclosureRecordedMismatch tool_disclosure tool_disclosure

definition readToolDisclosureEnv :: "string option \<Rightarrow> disclosure_error + tool_disclosure" where
  "readToolDisclosureEnv envValue =
     (case normalizeToolDisclosure
             (JStr (nullish [] (js_or envValue (Some (disclosure_id DEFAULT_TOOL_DISCLOSURE))))) of
        None \<Rightarrow> Inl EnvDisclosureInvalid
      | Some d \<Rightarrow> Inr d)"

definition resolveToolDisclosureRequest ::
  "js \<Rightarrow> string option \<Rightarrow> disclosure_error + tool_disclosure option" where
  "resolveToolDisclosureRequest cliValue envValue =
     (let rawCli = (case cliValue of JStr s \<Rightarrow> trim s | _ \<Rightarrow> []);
          rawEnv = (case envValue of Some s \<Rightarrow> trim s | None \<Rightarrow> []);
          raw = (if rawCli \<noteq> [] then rawCli else rawEnv)
      in if raw = [] then Inr None
         else case normalizeToolDisclosure (JStr raw) of
                None \<Rightarrow> Inl RequestDisclosureInvalid
              | Some d \<Rightarrow> Inr (Some d))"

definition toolDisclosureOrDefault :: "js \<Rightarrow> tool_disclosure" where
  "toolDisclosureOrDefault v = nullish DEFAULT_TOOL_DISCLOSURE (normalizeToolDisclosure v)"

definition invalidRecordedToolDisclosure :: "js \<Rightarrow> bool" where
  "invalidRecordedToolDisclosure v =
     (v \<noteq> JUndef \<and> v \<noteq> JNull \<and> normalizeToolDisclosure v = None)"

record disclosure_input =
  di_requested :: "tool_disclosure option"
  di_recorded :: js
  di_session :: js
  di_sandboxExists :: bool
  di_recreate :: bool

definition resolveSandboxToolDisclosure ::
  "disclosure_input \<Rightarrow> disclosure_error + tool_disclosure" where
  "resolveSandboxToolDisclosure i =
     (if invalidRecordedToolDisclosure (di_recorded i) then Inl RecordedDisclosureInvalid
      else
        let recorded = normalizeToolDisclosure (di_recorded i);
            session = normalizeToolDisclosure (di_session i)
        in if di_sandboxExists i \<and> \<not> di_recreate i then
             (case recorded of
                Some r \<Rightarrow>
                  (case di_requested i of
                     Some q \<Rightarrow> if q \<noteq> r then Inl (DisclosureRecordedMismatch r q) else Inr r
                   | None \<Rightarrow> Inr r)
              | None \<Rightarrow> Inr (nullish DEFAULT_TOOL_DISCLOSURE (coalesce (di_requested i) session)))
           else
             Inr (nullish DEFAULT_TOOL_DISCLOSURE
                    (coalesce (di_requested i) (coalesce recorded session))))"

section \<open>Reasoning effort (reasoning-mode.ts)\<close>

datatype reasoning_effort = EffortLow | EffortMedium | EffortHigh

fun effort_id :: "reasoning_effort \<Rightarrow> string" where
  "effort_id EffortLow = ''low''"
| "effort_id EffortMedium = ''medium''"
| "effort_id EffortHigh = ''high''"

definition normalizeReasoningEffort :: "js \<Rightarrow> reasoning_effort option" where
  "normalizeReasoningEffort v =
     (case v of
        JStr s \<Rightarrow>
          (let normalized = toLower (trim s) in
           if normalized = ''low'' then Some EffortLow
           else if normalized = ''medium'' then Some EffortMedium
           else if normalized = ''high'' then Some EffortHigh else None)
      | _ \<Rightarrow> None)"

definition normalizeReasoningFlag :: "string option \<Rightarrow> bool option" where
  "normalizeReasoningFlag value =
     (let normalized = toLower (trim (nullish [] value)) in
      if normalized \<in> set [''true'', ''1'', ''yes'', ''y''] then Some True
      else if normalized \<in> set [''false'', ''0'', ''no'', ''n''] then Some False
      else None)"

section \<open>Canonical timestamps\<close>

text \<open>
  \<open>new Date(value).toISOString() === value\<close>: the string is exactly what \<open>toISOString\<close> prints
  for some time value. That is the 24 character form for years 0 to 9999, or a signed six
  digit year outside that range within the 8.64e15 ms limit of a time value.
\<close>

definition two_digits :: "char \<Rightarrow> char \<Rightarrow> nat option" where
  "two_digits a b =
     (if is_digit a \<and> is_digit b then Some ((code a - 48) * 10 + (code b - 48)) else None)"

definition in_bounds :: "nat option \<Rightarrow> nat \<Rightarrow> nat \<Rightarrow> bool" where
  "in_bounds n lo hi = (case n of None \<Rightarrow> False | Some k \<Rightarrow> lo \<le> k \<and> k \<le> hi)"

definition is_leap_year :: "int \<Rightarrow> bool" where
  "is_leap_year y = (y mod 4 = 0 \<and> (y mod 100 \<noteq> 0 \<or> y mod 400 = 0))"

definition days_in_month :: "int \<Rightarrow> nat \<Rightarrow> nat" where
  "days_in_month y m =
     (if m = 2 then (if is_leap_year y then 29 else 28)
      else if m \<in> {4, 6, 9, 11} then 30 else 31)"

fun iso_tail_ok :: "int \<Rightarrow> string \<Rightarrow> bool" where
  "iso_tail_ok y [d1, m1, m2, d2, e1, e2, t, h1, h2, c1, i1, i2, c2, s1, s2, p, f1, f2, f3, z] =
     (d1 = CHR ''-'' \<and> d2 = CHR ''-'' \<and> t = CHR ''T'' \<and> c1 = CHR '':'' \<and> c2 = CHR '':''
      \<and> p = CHR ''.'' \<and> z = CHR ''Z''
      \<and> in_bounds (two_digits m1 m2) 1 12
      \<and> in_bounds (two_digits e1 e2) 1 (days_in_month y (nullish 0 (two_digits m1 m2)))
      \<and> in_bounds (two_digits h1 h2) 0 23
      \<and> in_bounds (two_digits i1 i2) 0 59
      \<and> in_bounds (two_digits s1 s2) 0 59
      \<and> is_digit f1 \<and> is_digit f2 \<and> is_digit f3)"
| "iso_tail_ok y _ = False"

fun digits_value :: "nat \<Rightarrow> string \<Rightarrow> nat option" where
  "digits_value acc [] = Some acc"
| "digits_value acc (c # s) =
     (if is_digit c then digits_value (acc * 10 + (code c - 48)) s else None)"

definition canonical_iso :: "string \<Rightarrow> bool" where
  "canonical_iso s =
     (if length s = 24 then
        (case digits_value 0 (take 4 s) of
           None \<Rightarrow> False | Some y \<Rightarrow> iso_tail_ok (int y) (drop 4 s))
      else if length s = 27 then
        (case digits_value 0 (take 6 (tl s)) of
           None \<Rightarrow> False
         | Some y \<Rightarrow>
             (let rest = drop 7 s in
              if hd s = CHR ''+'' then
                9999 < y \<and> iso_tail_ok (int y) rest
                \<and> (y < 275760 \<or> y = 275760 \<and> rest \<le> ''-09-13T00:00:00.000Z'')
              else if hd s = CHR ''-'' then
                0 < y \<and> iso_tail_ok (- int y) rest
                \<and> (y < 271821 \<or> y = 271821 \<and> ''-04-20T00:00:00.000Z'' \<le> rest)
              else False))
      else False)"

definition readCanonicalIsoTimestamp :: "js \<Rightarrow> string option" where
  "readCanonicalIsoTimestamp v =
     (case v of JStr s \<Rightarrow> if canonical_iso s then Some s else None | _ \<Rightarrow> None)"

section \<open>Serving profile provenance (profile-provenance.ts)\<close>

definition is_sha256_digest :: "string \<Rightarrow> bool" where
  "is_sha256_digest s =
     (starts_with ''sha256:'' s \<and> is_hex_string 64 (drop 7 s))"

definition exactKeys :: "js \<Rightarrow> string list \<Rightarrow> bool" where
  "exactKeys r expected = (sort (js_keys r) = sort expected)"

definition is_string :: "js \<Rightarrow> bool" where
  "is_string v = (js_string v \<noteq> None)"

definition is_digest :: "js \<Rightarrow> bool" where
  "is_digest v = (case v of JStr s \<Rightarrow> is_sha256_digest s | _ \<Rightarrow> False)"

text \<open>\<open>v === null || (Number.isSafeInteger(v) && v >= 0)\<close>\<close>

definition is_nullable_byte_count :: "js \<Rightarrow> bool" where
  "is_nullable_byte_count v =
     (case v of
        JNull \<Rightarrow> True
      | JNum (NInt n) \<Rightarrow> 0 \<le> n \<and> n \<le> 2 ^ 53 - 1
      | _ \<Rightarrow> False)"

definition parseServingProfileProvenance :: "js \<Rightarrow> js option" where
  "parseServingProfileProvenance v =
     (let p = js_get v ''preset''; r = js_get v ''recipe''; m = js_get v ''model'' in
      if \<not> isObjectRecord v then None
      else if \<not> exactKeys v
                [''catalogDigest'', ''estimatedImageDownloadBytes'', ''estimatedModelDownloadBytes'',
                 ''model'', ''preset'', ''recipe'', ''runtimeImage'', ''schemaVersion'']
           \<or> js_get v ''schemaVersion'' \<noteq> JNum (NInt 1)
           \<or> \<not> is_digest (js_get v ''catalogDigest'')
           \<or> \<not> isObjectRecord p \<or> \<not> isObjectRecord r \<or> \<not> isObjectRecord m
      then None
      else if \<not> exactKeys p [''digest'', ''displayName'', ''id'', ''supportState'']
           \<or> \<not> exactKeys r [''backend'', ''digest'', ''id'']
           \<or> \<not> exactKeys m [''id'', ''revision'']
           \<or> \<not> is_string (js_get p ''id'')
           \<or> \<not> is_digest (js_get p ''digest'')
           \<or> \<not> is_string (js_get p ''displayName'')
           \<or> js_get p ''supportState''
               \<notin> set [JStr ''supported'', JStr ''experimental'', JStr ''disabled'']
           \<or> \<not> is_string (js_get r ''id'')
           \<or> \<not> is_digest (js_get r ''digest'')
           \<or> \<not> is_string (js_get r ''backend'')
           \<or> \<not> is_string (js_get m ''id'')
           \<or> \<not> is_string (js_get m ''revision'')
           \<or> (js_get v ''runtimeImage'' \<noteq> JNull \<and> \<not> is_string (js_get v ''runtimeImage''))
           \<or> \<not> is_nullable_byte_count (js_get v ''estimatedImageDownloadBytes'')
           \<or> \<not> is_nullable_byte_count (js_get v ''estimatedModelDownloadBytes'')
      then None
      else Some v)"

section \<open>Station and Spark Express resume intent (station-express-resume.ts)\<close>

text \<open>
  The registered vLLM models come from the model catalog, which is a parameter: the lookup of a
  Station model and of a Spark model by the user's value.
\<close>

record vllm_model =
  vm_envValue :: string
  vm_id :: string
  vm_servedModelId :: "string option"

record express_catalog =
  ec_station :: "string \<Rightarrow> vllm_model option"
  ec_spark :: "string \<Rightarrow> vllm_model option"

datatype express_intent =
    StationIntent (ei_model: string) (ei_sandboxName: string)
      (ei_receiptGeneration: "string option")
      (ei_servedModel: "string option") (ei_checkpointModel: "string option")
  | SparkIntent (ei_pinnedModel: "string option") (ei_sandboxName: string)

definition MAX_SERVED_MODEL_LENGTH :: nat where
  "MAX_SERVED_MODEL_LENGTH = 512"

definition isSafeModelId :: "string \<Rightarrow> bool" where
  "isSafeModelId s =
     (s \<noteq> [] \<and> list_all (\<lambda>c. is_lower c \<or> is_upper c \<or> is_digit c \<or> c \<in> set ''._:/-'') s)"

definition stationModel :: "express_catalog \<Rightarrow> js \<Rightarrow> vllm_model option" where
  "stationModel cat v = Option.bind (js_string v) (ec_station cat)"

definition sparkModel :: "express_catalog \<Rightarrow> js \<Rightarrow> vllm_model option" where
  "sparkModel cat v = Option.bind (js_string v) (ec_spark cat)"

definition identifiesCheckpoint :: "vllm_model \<Rightarrow> string \<Rightarrow> bool" where
  "identifiesCheckpoint model value =
     (toLower value \<in> set (map toLower
        ([vm_envValue model, vm_id model]
         @ (case vm_servedModelId model of None \<Rightarrow> [] | Some x \<Rightarrow> [x]))))"

definition validSandboxName :: "js \<Rightarrow> bool" where
  "validSandboxName v =
     (case v of JStr s \<Rightarrow> length s \<le> NAME_MAX_LENGTH \<and> NAME_VALID_PATTERN s | _ \<Rightarrow> False)"

definition isValidStationExpressReceiptGeneration :: "js \<Rightarrow> bool" where
  "isValidStationExpressReceiptGeneration v =
     (case v of JStr s \<Rightarrow> is_hex_string 32 s | _ \<Rightarrow> False)"

definition validServedModel :: "js \<Rightarrow> bool" where
  "validServedModel v =
     (case v of
        JStr s \<Rightarrow> s \<noteq> [] \<and> length s \<le> MAX_SERVED_MODEL_LENGTH \<and> trim s = s \<and> isSafeModelId s
      | _ \<Rightarrow> False)"

definition parseSparkResumeIntent :: "express_catalog \<Rightarrow> js \<Rightarrow> bool \<Rightarrow> express_intent option"
  where
  "parseSparkResumeIntent cat v hasModel =
     (if js_get v ''version'' \<noteq> JNum (NInt 1) \<or> js_get v ''kind'' \<noteq> JStr ''spark'' then None
      else case js_get v ''sandboxName'' of
        JStr sandboxName \<Rightarrow>
          if \<not> validSandboxName (JStr sandboxName) then None
          else if hasModel then
            (case sparkModel cat (js_get v ''model'') of
               None \<Rightarrow> None
             | Some resolved \<Rightarrow>
                 if js_get v ''model'' \<noteq> JStr (vm_envValue resolved) then None
                 else Some (SparkIntent (Some (vm_envValue resolved)) sandboxName))
          else Some (SparkIntent None sandboxName)
      | _ \<Rightarrow> None)"

definition UNBOUND_INTENT_KEYS :: string where
  "UNBOUND_INTENT_KEYS = ''model,sandboxName,version''"
definition UNBOUND_RECEIPT_INTENT_KEYS :: string where
  "UNBOUND_RECEIPT_INTENT_KEYS = ''model,receiptGeneration,sandboxName,version''"
definition BOUND_INTENT_KEYS :: string where
  "BOUND_INTENT_KEYS = ''checkpointModel,model,sandboxName,servedModel,version''"
definition BOUND_RECEIPT_INTENT_KEYS :: string where
  "BOUND_RECEIPT_INTENT_KEYS =
     ''checkpointModel,model,receiptGeneration,sandboxName,servedModel,version''"
definition SPARK_INTENT_KEYS :: string where
  "SPARK_INTENT_KEYS = ''kind,sandboxName,version''"
definition SPARK_INTENT_KEYS_WITH_MODEL :: string where
  "SPARK_INTENT_KEYS_WITH_MODEL = ''kind,model,sandboxName,version''"

lemmas intent_keys = UNBOUND_INTENT_KEYS_def UNBOUND_RECEIPT_INTENT_KEYS_def BOUND_INTENT_KEYS_def
  BOUND_RECEIPT_INTENT_KEYS_def SPARK_INTENT_KEYS_def SPARK_INTENT_KEYS_WITH_MODEL_def

definition parseStationIntentBody ::
  "express_catalog \<Rightarrow> js \<Rightarrow> bool \<Rightarrow> bool \<Rightarrow> express_intent option" where
  "parseStationIntentBody cat v hasReceipt isBound =
     (if js_get v ''version'' \<noteq> JNum (NInt 1) then None
      else case stationModel cat (js_get v ''model'') of
        None \<Rightarrow> None
      | Some model \<Rightarrow>
          (case js_get v ''sandboxName'' of
             JStr sandboxName \<Rightarrow>
               if js_get v ''model'' \<noteq> JStr (vm_envValue model)
                  \<or> \<not> validSandboxName (JStr sandboxName) then None
               else if hasReceipt
                       \<and> \<not> isValidStationExpressReceiptGeneration (js_get v ''receiptGeneration'')
               then None
               else if isBound
                       \<and> (\<not> validServedModel (js_get v ''servedModel'')
                          \<or> (case js_get v ''checkpointModel'' of
                               JStr c \<Rightarrow> \<not> identifiesCheckpoint model c | _ \<Rightarrow> True))
               then None
               else Some (StationIntent (vm_envValue model) sandboxName
                 (if hasReceipt then js_string (js_get v ''receiptGeneration'') else None)
                 (if isBound then js_string (js_get v ''servedModel'') else None)
                 (if isBound then js_string (js_get v ''checkpointModel'') else None))
           | _ \<Rightarrow> None))"

definition parseStationExpressResumeIntent :: "express_catalog \<Rightarrow> js \<Rightarrow> express_intent option"
  where
  "parseStationExpressResumeIntent cat v =
     (let keys = sorted_keys v in
      if \<not> isObjectRecord v then None
      else if keys = SPARK_INTENT_KEYS \<or> keys = SPARK_INTENT_KEYS_WITH_MODEL
      then parseSparkResumeIntent cat v (keys = SPARK_INTENT_KEYS_WITH_MODEL)
      else if keys \<noteq> UNBOUND_INTENT_KEYS \<and> keys \<noteq> UNBOUND_RECEIPT_INTENT_KEYS
           \<and> keys \<noteq> BOUND_INTENT_KEYS \<and> keys \<noteq> BOUND_RECEIPT_INTENT_KEYS
      then None
      else parseStationIntentBody cat v
             (keys = UNBOUND_RECEIPT_INTENT_KEYS \<or> keys = BOUND_RECEIPT_INTENT_KEYS)
             (keys = BOUND_INTENT_KEYS \<or> keys = BOUND_RECEIPT_INTENT_KEYS))"

definition opt_member :: "string \<Rightarrow> string option \<Rightarrow> (string \<times> js) list" where
  "opt_member k v = (case v of None \<Rightarrow> [] | Some s \<Rightarrow> [(k, JStr s)])"

fun express_intent_to_js :: "express_intent \<Rightarrow> js" where
  "express_intent_to_js (StationIntent m sb rg sm cm) =
     JObj ([(''version'', JNum (NInt 1)), (''model'', JStr m), (''sandboxName'', JStr sb)]
       @ opt_member ''receiptGeneration'' rg
       @ opt_member ''servedModel'' sm @ opt_member ''checkpointModel'' cm)"
| "express_intent_to_js (SparkIntent m sb) =
     JObj ([(''version'', JNum (NInt 1)), (''kind'', JStr ''spark''), (''sandboxName'', JStr sb)]
       @ opt_member ''model'' m)"

definition bindStationExpressProviderSelection ::
  "express_catalog \<Rightarrow> express_intent \<Rightarrow> js \<Rightarrow> js \<Rightarrow> js \<Rightarrow> onboard_error + express_intent" where
  "bindStationExpressProviderSelection cat intentValue provider model checkpointModel =
     (case parseStationExpressResumeIntent cat (express_intent_to_js intentValue) of
        Some (StationIntent m sb rg sm cm) \<Rightarrow>
          (case ec_station cat m of
             None \<Rightarrow> Inl InvalidStationExpressSelection
           | Some selected \<Rightarrow>
               (case sm of
                  Some served \<Rightarrow>
                    if provider = JStr ''vllm-local'' \<and> model = JStr served
                    then Inr (StationIntent m sb rg sm cm)
                    else Inl InvalidStationExpressSelection
                | None \<Rightarrow>
                    if provider \<noteq> JStr ''vllm-local'' \<or> \<not> validServedModel model
                       \<or> (case checkpointModel of
                            JStr c \<Rightarrow> \<not> identifiesCheckpoint selected c | _ \<Rightarrow> True)
                    then Inl InvalidStationExpressSelection
                    else Inr (StationIntent m sb rg (js_string model) (Some (vm_id selected)))))
      | _ \<Rightarrow> Inl InvalidStationExpressSelection)"

section \<open>Validity and round trips\<close>

definition valid_web_search :: "web_search_config \<Rightarrow> bool" where
  "valid_web_search c = (ws_fetchEnabled c \<and> ws_provider c \<noteq> None)"

lemma parse_web_provider_id [simp]: "parse_web_provider (JStr (provider_id p)) = Some p"
  by (cases p) (simp_all add: parse_web_provider_def)

interpretation web_search: value_codec normalizeWebSearchConfig web_search_config_to_js valid_web_search
proof
  fix a v
  show "normalizeWebSearchConfig (web_search_config_to_js a) = Some a" if "valid_web_search a"
    using that by (cases a) (auto simp: normalizeWebSearchConfig_def web_search_config_to_js_def
        valid_web_search_def isWebSearchEnabled_def)
  show "valid_web_search a" if "normalizeWebSearchConfig v = Some a"
    using that by (auto simp: normalizeWebSearchConfig_def valid_web_search_def
        split: if_splits option.splits)
  show "json_clean (web_search_config_to_js a)"
    by (simp add: web_search_config_to_js_def split: option.splits)
  show "web_search_config_to_js a \<noteq> JNull"
    by (simp add: web_search_config_to_js_def)
qed

lemmas text_defs = toLower_def trim_def is_js_space_def code_def

interpretation disclosure: value_codec normalizeToolDisclosure "\<lambda>d. JStr (disclosure_id d)" "\<lambda>_. True"
proof
  fix a :: tool_disclosure
  show "normalizeToolDisclosure (JStr (disclosure_id a)) = Some a"
    by (cases a) (simp_all add: normalizeToolDisclosure_def text_defs)
qed simp_all

interpretation effort: value_codec normalizeReasoningEffort "\<lambda>e. JStr (effort_id e)" "\<lambda>_. True"
proof
  fix a :: reasoning_effort
  show "normalizeReasoningEffort (JStr (effort_id a)) = Some a"
    by (cases a) (simp_all add: normalizeReasoningEffort_def text_defs)
qed simp_all

lemma provenance_fixpoint:
  "parseServingProfileProvenance v = Some a \<Longrightarrow> a = v \<and> isObjectRecord v"
  by (auto simp: parseServingProfileProvenance_def Let_def split: if_splits)

definition valid_intent :: "express_catalog \<Rightarrow> express_intent \<Rightarrow> bool" where
  "valid_intent cat i =
     (validSandboxName (JStr (ei_sandboxName i)) \<and>
      (case i of
         SparkIntent m sb \<Rightarrow>
           (case m of None \<Rightarrow> True
            | Some x \<Rightarrow> map_option vm_envValue (ec_spark cat x) = Some x)
       | StationIntent m sb rg sm cm \<Rightarrow>
           (case ec_station cat m of
              None \<Rightarrow> False
            | Some model \<Rightarrow>
                vm_envValue model = m
                \<and> (case rg of None \<Rightarrow> True | Some g \<Rightarrow> is_hex_string 32 g)
                \<and> (case (sm, cm) of
                     (None, None) \<Rightarrow> True
                   | (Some s, Some c) \<Rightarrow> validServedModel (JStr s) \<and> identifiesCheckpoint model c
                   | _ \<Rightarrow> False))))"

lemma station_keys:
  "sorted_keys (express_intent_to_js (StationIntent m sb rg sm cm)) =
     (case (rg, sm, cm) of
        (None, None, None) \<Rightarrow> UNBOUND_INTENT_KEYS
      | (Some _, None, None) \<Rightarrow> UNBOUND_RECEIPT_INTENT_KEYS
      | (None, Some _, Some _) \<Rightarrow> BOUND_INTENT_KEYS
      | (Some _, Some _, Some _) \<Rightarrow> BOUND_RECEIPT_INTENT_KEYS
      | (None, Some _, None) \<Rightarrow> ''model,sandboxName,servedModel,version''
      | (None, None, Some _) \<Rightarrow> ''checkpointModel,model,sandboxName,version''
      | (Some _, Some _, None) \<Rightarrow> ''model,receiptGeneration,sandboxName,servedModel,version''
      | (Some _, None, Some _) \<Rightarrow>
          ''checkpointModel,model,receiptGeneration,sandboxName,version'')"
  by (cases rg; cases sm; cases cm)
    (simp_all add: sorted_keys_def js_keys_def opt_member_def intent_keys)

lemma spark_keys:
  "sorted_keys (express_intent_to_js (SparkIntent m sb)) =
     (case m of None \<Rightarrow> SPARK_INTENT_KEYS | Some _ \<Rightarrow> SPARK_INTENT_KEYS_WITH_MODEL)"
  by (cases m) (simp_all add: sorted_keys_def js_keys_def opt_member_def intent_keys)

lemma intent_get_simps [simp]:
  "js_get (express_intent_to_js (StationIntent m sb rg sm cm)) ''version'' = JNum (NInt 1)"
  "js_get (express_intent_to_js (StationIntent m sb rg sm cm)) ''model'' = JStr m"
  "js_get (express_intent_to_js (StationIntent m sb rg sm cm)) ''sandboxName'' = JStr sb"
  "js_get (express_intent_to_js (SparkIntent pm sb)) ''version'' = JNum (NInt 1)"
  "js_get (express_intent_to_js (SparkIntent pm sb)) ''kind'' = JStr ''spark''"
  "js_get (express_intent_to_js (SparkIntent pm sb)) ''sandboxName'' = JStr sb"
  by simp_all

lemma intent_get_opt [simp]:
  "js_get (express_intent_to_js (StationIntent m sb rg sm cm)) ''receiptGeneration'' =
     (case rg of None \<Rightarrow> JUndef | Some x \<Rightarrow> JStr x)"
  "js_get (express_intent_to_js (StationIntent m sb rg sm cm)) ''servedModel'' =
     (case sm of None \<Rightarrow> JUndef | Some x \<Rightarrow> JStr x)"
  "js_get (express_intent_to_js (StationIntent m sb rg sm cm)) ''checkpointModel'' =
     (case cm of None \<Rightarrow> JUndef | Some x \<Rightarrow> JStr x)"
  "js_get (express_intent_to_js (SparkIntent pm sb)) ''model'' =
     (case pm of None \<Rightarrow> JUndef | Some x \<Rightarrow> JStr x)"
  by (simp_all add: opt_member_def split: option.splits)

lemma express_intent_object [simp]: "isObjectRecord (express_intent_to_js i)"
  by (cases i) simp_all

lemma express_intent_clean [simp]: "json_clean (express_intent_to_js i)"
  by (cases i) (simp_all add: opt_member_def split: option.splits)

lemma intent_keys_distinct [simp]:
  "UNBOUND_INTENT_KEYS \<noteq> SPARK_INTENT_KEYS" "UNBOUND_INTENT_KEYS \<noteq> SPARK_INTENT_KEYS_WITH_MODEL"
  "UNBOUND_RECEIPT_INTENT_KEYS \<noteq> SPARK_INTENT_KEYS"
  "UNBOUND_RECEIPT_INTENT_KEYS \<noteq> SPARK_INTENT_KEYS_WITH_MODEL"
  "BOUND_INTENT_KEYS \<noteq> SPARK_INTENT_KEYS" "BOUND_INTENT_KEYS \<noteq> SPARK_INTENT_KEYS_WITH_MODEL"
  "BOUND_RECEIPT_INTENT_KEYS \<noteq> SPARK_INTENT_KEYS"
  "BOUND_RECEIPT_INTENT_KEYS \<noteq> SPARK_INTENT_KEYS_WITH_MODEL"
  "SPARK_INTENT_KEYS \<noteq> SPARK_INTENT_KEYS_WITH_MODEL"
  "UNBOUND_INTENT_KEYS \<noteq> UNBOUND_RECEIPT_INTENT_KEYS"
  "UNBOUND_INTENT_KEYS \<noteq> BOUND_INTENT_KEYS" "UNBOUND_INTENT_KEYS \<noteq> BOUND_RECEIPT_INTENT_KEYS"
  "UNBOUND_RECEIPT_INTENT_KEYS \<noteq> BOUND_INTENT_KEYS"
  "UNBOUND_RECEIPT_INTENT_KEYS \<noteq> BOUND_RECEIPT_INTENT_KEYS"
  "BOUND_INTENT_KEYS \<noteq> BOUND_RECEIPT_INTENT_KEYS"
  by (simp_all add: intent_keys)

lemma parse_station_written:
  "parseStationExpressResumeIntent cat (express_intent_to_js (StationIntent m sb rg sm cm)) =
     (if (sm = None) = (cm = None)
      then parseStationIntentBody cat (express_intent_to_js (StationIntent m sb rg sm cm))
             (rg \<noteq> None) (sm \<noteq> None)
      else None)"
  unfolding parseStationExpressResumeIntent_def Let_def station_keys
  by (cases rg; cases sm; cases cm) (simp_all del: express_intent_to_js.simps, simp_all add: intent_keys)

lemma parse_spark_written:
  "parseStationExpressResumeIntent cat (express_intent_to_js (SparkIntent m sb)) =
     parseSparkResumeIntent cat (express_intent_to_js (SparkIntent m sb)) (m \<noteq> None)"
  unfolding parseStationExpressResumeIntent_def Let_def spark_keys
  by (cases m) (simp_all del: express_intent_to_js.simps intent_keys_distinct(9),
      simp_all add: intent_keys)

lemma parse_station_body_written:
  assumes "valid_intent cat (StationIntent m sb rg sm cm)"
  shows "parseStationIntentBody cat (express_intent_to_js (StationIntent m sb rg sm cm))
           (rg \<noteq> None) (sm \<noteq> None) = Some (StationIntent m sb rg sm cm)"
proof -
  obtain model where model: "ec_station cat m = Some model" "vm_envValue model = m"
    using assms by (auto simp: valid_intent_def split: option.splits)
  have "validSandboxName (JStr sb)" using assms by (simp add: valid_intent_def)
  with model assms show ?thesis
    by (cases rg; cases sm; cases cm)
      (simp_all del: express_intent_to_js.simps add: parseStationIntentBody_def valid_intent_def
        stationModel_def isValidStationExpressReceiptGeneration_def)
qed

lemma parse_intent_written:
  assumes "valid_intent cat i"
  shows "parseStationExpressResumeIntent cat (express_intent_to_js i) = Some i"
proof (cases i)
  case (StationIntent m sb rg sm cm)
  moreover from this assms have "(sm = None) = (cm = None)"
    by (cases sm; cases cm) (simp_all add: valid_intent_def split: option.splits)
  moreover note parse_station_body_written [of cat m sb rg sm cm]
  ultimately show ?thesis
    using assms by (simp only: parse_station_written if_True simp_thms)
next
  case (SparkIntent m sb)
  have "validSandboxName (JStr sb)" using assms SparkIntent by (simp add: valid_intent_def)
  with SparkIntent assms show ?thesis
    by (cases m) (auto simp: parse_spark_written parseSparkResumeIntent_def valid_intent_def
        sparkModel_def simp del: express_intent_to_js.simps)
qed

lemma parse_station_body_valid:
  assumes "parseStationIntentBody cat v hr bd = Some i"
  shows "valid_intent cat i"
proof -
  from assms obtain model where model: "stationModel cat (js_get v ''model'') = Some model"
    by (auto simp: parseStationIntentBody_def split: if_splits option.splits)
  from assms model obtain sb where sb: "js_get v ''sandboxName'' = JStr sb"
    by (cases "js_get v ''sandboxName''") (simp_all add: parseStationIntentBody_def split: if_splits)
  from assms model sb have m: "js_get v ''model'' = JStr (vm_envValue model)"
    and name: "validSandboxName (JStr sb)"
    and rg: "hr \<Longrightarrow> isValidStationExpressReceiptGeneration (js_get v ''receiptGeneration'')"
    and served: "bd \<Longrightarrow> validServedModel (js_get v ''servedModel'')"
    and ckpt: "bd \<Longrightarrow> \<not> (case js_get v ''checkpointModel'' of
                     JStr c \<Rightarrow> \<not> identifiesCheckpoint model c | _ \<Rightarrow> True)"
    by (simp_all add: parseStationIntentBody_def split: if_splits)
  obtain c where c: "bd \<Longrightarrow> js_get v ''checkpointModel'' = JStr c \<and> identifiesCheckpoint model c"
    using ckpt by (cases "js_get v ''checkpointModel''") auto
  obtain s where s: "bd \<Longrightarrow> js_get v ''servedModel'' = JStr s \<and> validServedModel (JStr s)"
    using served by (cases "js_get v ''servedModel''") (auto simp: validServedModel_def)
  obtain g where g: "hr \<Longrightarrow> js_get v ''receiptGeneration'' = JStr g \<and> is_hex_string 32 g"
    using rg by (cases "js_get v ''receiptGeneration''")
      (auto simp: isValidStationExpressReceiptGeneration_def)
  from model m have "ec_station cat (vm_envValue model) = Some model"
    by (simp add: stationModel_def)
  moreover have "i = StationIntent (vm_envValue model) sb (if hr then Some g else None)
      (if bd then Some s else None) (if bd then Some c else None)"
    using assms model sb m name rg served c s g
    by (cases hr; cases bd) (auto simp: parseStationIntentBody_def split: if_split_asm)
  ultimately show ?thesis
    using name c s g by (cases hr; cases bd) (simp_all add: valid_intent_def)
qed

lemma parse_spark_valid:
  assumes "parseSparkResumeIntent cat v hm = Some i"
  shows "valid_intent cat i"
proof -
  from assms obtain sb where sb: "js_get v ''sandboxName'' = JStr sb"
    by (cases "js_get v ''sandboxName''") (simp_all add: parseSparkResumeIntent_def split: if_splits)
  with assms show ?thesis
    by (auto simp: parseSparkResumeIntent_def valid_intent_def sparkModel_def
        split: if_splits option.splits)
qed

interpretation intent: value_codec "parseStationExpressResumeIntent cat" express_intent_to_js
  "valid_intent cat" for cat
proof
  fix a v
  show "parseStationExpressResumeIntent cat (express_intent_to_js a) = Some a"
    if "valid_intent cat a" using that by (rule parse_intent_written)
  show "valid_intent cat a" if "parseStationExpressResumeIntent cat v = Some a"
    using that by (auto simp: parseStationExpressResumeIntent_def Let_def
        dest: parse_station_body_valid parse_spark_valid split: if_splits)
  show "json_clean (express_intent_to_js a)" by simp
  show "express_intent_to_js a \<noteq> JNull" by (cases a) simp_all
qed

section \<open>Binding an intent to a selection\<close>

lemma identifies_own_id: "identifiesCheckpoint m (vm_id m)"
  by (simp add: identifiesCheckpoint_def)

lemma bind_selection_effect:
  assumes "valid_intent cat i" "bindStationExpressProviderSelection cat i provider model checkpoint = Inr j"
  shows "provider = JStr ''vllm-local'' \<and> valid_intent cat j
     \<and> ei_model j = ei_model i \<and> ei_sandboxName j = ei_sandboxName i
     \<and> (\<exists>served. model = JStr served \<and> ei_servedModel j = Some served)
     \<and> bindStationExpressProviderSelection cat j provider model checkpoint' = Inr j"
proof -
  note rw = intent.read_write [OF assms(1)]
  obtain m sb rg sm cm selected where i: "i = StationIntent m sb rg sm cm"
      and sel: "ec_station cat m = Some selected"
    using assms(2) rw by (cases i) (auto simp: bindStationExpressProviderSelection_def split: option.splits)
  note p = rw [unfolded i] and v = assms(1) [unfolded i]
  show ?thesis
  proof (cases sm)
    case None
    then obtain served where s: "provider = JStr ''vllm-local''" "model = JStr served"
        "validServedModel (JStr served)" "j = StationIntent m sb rg (Some served) (Some (vm_id selected))"
      using assms(2) i p sel by (auto simp: bindStationExpressProviderSelection_def validServedModel_def
          split: if_splits js.splits)
    have vj: "valid_intent cat j"
      using v None s sel identifies_own_id by (auto simp: valid_intent_def split: option.splits)
    then show ?thesis
      using s i sel intent.read_write [OF vj] by (simp add: bindStationExpressProviderSelection_def)
  next
    case (Some served)
    then have "provider = JStr ''vllm-local''" "model = JStr served" "j = StationIntent m sb rg sm cm"
      using assms(2) i p sel by (auto simp: bindStationExpressProviderSelection_def split: if_splits)
    then show ?thesis
      using v Some i sel intent.read_write [OF v] by (simp add: bindStationExpressProviderSelection_def)
  qed
qed

end
