(* ===== verification/Checkpoint.thy ===== *)
theory Checkpoint
  imports Session_Values
begin

text \<open>
  The durable onboarding checkpoint (\<open>src/lib/state/onboard-checkpoint-types.ts\<close>,
  \<open>onboard-checkpoint-decision.ts\<close>, \<open>onboard-checkpoint.ts\<close>): the three-valued decisions, the
  records a checkpoint is made of, the parsers that read them from untyped JSON, the version
  dispatch of \<open>inspectCheckpoint\<close>, and \<open>serializeCheckpoint\<close>.

  Every value parser is shown to be a codec with its writer, so that a checkpoint that was
  parsed is well formed and one that is well formed survives serialization, the disk and
  parsing unchanged.
\<close>

section \<open>Decisions (onboard-checkpoint-decision.ts)\<close>

datatype 'a decision = Unset | Declined | Selected 'a

definition decisionUnset :: "'a decision" where "decisionUnset = Unset"
definition decisionDeclined :: "'a decision" where "decisionDeclined = Declined"
definition decisionSelected :: "'a \<Rightarrow> 'a decision" where "decisionSelected v = Selected v"

fun isDecisionSelected :: "'a decision \<Rightarrow> bool" where
  "isDecisionSelected (Selected _) = True"
| "isDecisionSelected _ = False"

definition isDecisionUnset :: "'a decision \<Rightarrow> bool" where
  "isDecisionUnset d = (case d of Unset \<Rightarrow> True | _ \<Rightarrow> False)"

definition isDecisionDeclined :: "'a decision \<Rightarrow> bool" where
  "isDecisionDeclined d = (case d of Declined \<Rightarrow> True | _ \<Rightarrow> False)"

fun decisionValue :: "'a decision \<Rightarrow> 'a option" where
  "decisionValue (Selected v) = Some v"
| "decisionValue _ = None"

fun decisionsEqual :: "'a decision \<Rightarrow> 'a decision \<Rightarrow> ('a \<Rightarrow> 'a \<Rightarrow> bool) \<Rightarrow> bool" where
  "decisionsEqual (Selected a) (Selected b) valuesEqual = valuesEqual a b"
| "decisionsEqual Unset Unset _ = True"
| "decisionsEqual Declined Declined _ = True"
| "decisionsEqual _ _ _ = False"

definition decisionFromLegacyNullable ::
  "bool \<Rightarrow> 'raw option \<Rightarrow> ('raw \<Rightarrow> 'a option) \<Rightarrow> 'a decision" where
  "decisionFromLegacyNullable completed rawValue parse =
     (if \<not> completed then decisionUnset
      else case rawValue of
             None \<Rightarrow> decisionDeclined
           | Some raw \<Rightarrow>
               (case parse raw of
                  None \<Rightarrow> decisionDeclined
                | Some v \<Rightarrow> decisionSelected v))"

definition parseCheckpointDecision :: "(js \<Rightarrow> 'a option) \<Rightarrow> js \<Rightarrow> 'a decision option" where
  "parseCheckpointDecision parseValue raw =
     (let kind = js_get raw ''kind'' in
      if kind = JStr ''unset'' then Some Unset
      else if kind = JStr ''declined'' then Some Declined
      else if kind = JStr ''selected'' then
        (case parseValue (js_get raw ''value'') of
           None \<Rightarrow> None
         | Some v \<Rightarrow> Some (Selected v))
      else None)"

definition decision_to_js :: "('a \<Rightarrow> js) \<Rightarrow> 'a decision \<Rightarrow> js" where
  "decision_to_js w d =
     (case d of
        Unset \<Rightarrow> JObj [(''kind'', JStr ''unset'')]
      | Declined \<Rightarrow> JObj [(''kind'', JStr ''declined'')]
      | Selected v \<Rightarrow> JObj [(''kind'', JStr ''selected''), (''value'', w v)])"

fun decision_valid :: "('a \<Rightarrow> bool) \<Rightarrow> 'a decision \<Rightarrow> bool" where
  "decision_valid P (Selected v) = P v"
| "decision_valid P _ = True"

section \<open>Records (onboard-checkpoint-types.ts)\<close>

definition CHECKPOINT_SCHEMA_VERSION :: int where
  "CHECKPOINT_SCHEMA_VERSION = 3"

record sandbox_identity =
  si_name :: string
  si_agent :: string

record resource_profile =
  rp_cpu :: string
  rp_memory :: string

record messaging_selection =
  ms_selectedChannels :: "string list"
  ms_disabledChannels :: "string list"

datatype effect_group_name = WebSearchProvider | MessagingProviders | SandboxCreate | SandboxRegister

fun effect_group_id :: "effect_group_name \<Rightarrow> string" where
  "effect_group_id WebSearchProvider = ''web_search_provider''"
| "effect_group_id MessagingProviders = ''messaging_providers''"
| "effect_group_id SandboxCreate = ''sandbox_create''"
| "effect_group_id SandboxRegister = ''sandbox_register''"

record effect_group_record =
  eg_completedAt :: string
  eg_fingerprint :: string

record provider_binding =
  pb_name :: string
  pb_type :: string
  pb_credentialEnv :: string

datatype supervisor_kind = SystemdSystem | SystemdUser

record gateway_supervisor =
  gs_kind :: supervisor_kind
  gs_serviceName :: string
  gs_execPath :: string

datatype gateway_mode = NemoclawManaged | ExternallySupervised
datatype gateway_source = Declared | PackagedService | Standalone

record gateway_authority =
  ga_gatewayName :: string
  ga_gatewayPort :: int
  ga_mode :: gateway_mode
  ga_source :: gateway_source
  ga_endpoint :: "string option"
  ga_stateDir :: "string option"
  ga_supervisor :: "gateway_supervisor option"
  ga_requiredCapabilities :: "string list"

record checkpoint_bindings =
  cb_credentialEnvs :: "string list"
  cb_registeredProviders :: "provider_binding list"

datatype recreate_phase =
    Planned | Deleting | Deleted | Creating | Created | RegistryCommitting | Completed

record recreate_workload =
  rw_reference :: "string option"
  rw_shared :: bool

record recreate_source =
  rs_openshellDriver :: "string option"
  rs_imageTag :: string
  rs_workload :: "recreate_workload option"

record recreate_transaction =
  rt_id :: string
  rt_revision :: int
  rt_sandboxName :: string
  rt_gatewayName :: string
  rt_gatewayPort :: int
  rt_sourceRegistryFingerprint :: string
  rt_sourceLiveIdentityFingerprint :: "string option"
  rt_sourceWorkload :: "recreate_source option"
  rt_targetIntentFingerprint :: string
  rt_targetGeneration :: string
  rt_targetLiveIdentityFingerprint :: "string option"
  rt_phase :: recreate_phase
  rt_startedAt :: string
  rt_updatedAt :: string

record checkpoint =
  cp_sessionId :: string
  cp_machineState :: machine_state
  cp_updatedAt :: string
  cp_sandboxIdentity :: "sandbox_identity decision"
  cp_webSearch :: "web_search_config decision"
  cp_messaging :: "messaging_selection decision"
  cp_resourceProfile :: "resource_profile decision"
  cp_gatewayAuthority :: "gateway_authority decision"
  cp_effectGroups :: "(effect_group_name \<times> effect_group_record) list"
  cp_bindings :: checkpoint_bindings
  cp_sandboxRecreate :: "recreate_transaction option"

datatype checkpoint_load_result =
    CheckpointNone
  | CheckpointLoaded checkpoint
  | CheckpointMigrated checkpoint int
  | CheckpointUnsupportedFuture int
  | CheckpointCorrupt

section \<open>Value parsers (onboard-checkpoint.ts)\<close>

definition EFFECT_GROUP_NAMES :: "effect_group_name list" where
  "EFFECT_GROUP_NAMES = [WebSearchProvider, MessagingProviders, SandboxCreate, SandboxRegister]"

definition SUPPORTED_GATEWAY_CAPABILITIES :: "string list" where
  "SUPPORTED_GATEWAY_CAPABILITIES =
     [''gateway.health'', ''sandbox.create'', ''sandbox.exec'', ''gpu.passthrough'']"

fun phase_id :: "recreate_phase \<Rightarrow> string" where
  "phase_id Planned = ''planned''"
| "phase_id Deleting = ''deleting''"
| "phase_id Deleted = ''deleted''"
| "phase_id Creating = ''creating''"
| "phase_id Created = ''created''"
| "phase_id RegistryCommitting = ''registry_committing''"
| "phase_id Completed = ''completed''"

definition SANDBOX_RECREATE_PHASES :: "recreate_phase list" where
  "SANDBOX_RECREATE_PHASES =
     [Planned, Deleting, Deleted, Creating, Created, RegistryCommitting, Completed]"

definition parse_phase :: "js \<Rightarrow> recreate_phase option" where
  "parse_phase v = find (\<lambda>p. v = JStr (phase_id p)) SANDBOX_RECREATE_PHASES"

definition is_hex :: "char \<Rightarrow> bool" where
  "is_hex c = (is_lower_hex c \<or> 65 \<le> code c \<and> code c \<le> 70)"

text \<open>
  \<open>/^[0-9a-f]{8}-[0-9a-f]{4}-[1-8][0-9a-f]{3}-[89ab][0-9a-f]{3}-[0-9a-f]{12}$/i\<close>
\<close>

definition UUID_PATTERN :: "string \<Rightarrow> bool" where
  "UUID_PATTERN s =
     (length s = 36
      \<and> list_all (\<lambda>(i, c). if i \<in> {8, 13, 18, 23} then c = CHR ''-''
                     else if i = 14 then c \<in> set ''12345678''
                     else if i = 19 then c \<in> set ''89abAB''
                     else is_hex c)
          (enumerate 0 s))"

definition SHA256_PATTERN :: "string \<Rightarrow> bool" where
  "SHA256_PATTERN s = is_hex_string 64 s"

definition readString :: "js \<Rightarrow> string option" where
  "readString v = js_string v"

definition readStringArray :: "js \<Rightarrow> string list option" where
  "readStringArray = read_array readString"

definition parseSandboxIdentityValue :: "js \<Rightarrow> sandbox_identity option" where
  "parseSandboxIdentityValue v =
     (if \<not> isObjectRecord v then None
      else case (readString (js_get v ''name''), readString (js_get v ''agent'')) of
        (Some name, Some agent) \<Rightarrow>
          if agent = [] then None
          else if length name > NAME_MAX_LENGTH \<or> \<not> NAME_VALID_PATTERN name then None
          else Some \<lparr>si_name = name, si_agent = agent\<rparr>
      | _ \<Rightarrow> None)"

definition parseResourceProfileValue :: "js \<Rightarrow> resource_profile option" where
  "parseResourceProfileValue v =
     (if \<not> isObjectRecord v then None
      else case (readString (js_get v ''cpu''), readString (js_get v ''memory'')) of
        (Some cpu, Some memory) \<Rightarrow> Some \<lparr>rp_cpu = cpu, rp_memory = memory\<rparr>
      | _ \<Rightarrow> None)"

definition parseWebSearchValue :: "js \<Rightarrow> web_search_config option" where
  "parseWebSearchValue v = (if \<not> isObjectRecord v then None else normalizeWebSearchConfig v)"

definition parseMessagingValue :: "js \<Rightarrow> messaging_selection option" where
  "parseMessagingValue v =
     (if \<not> isObjectRecord v then None
      else case (readStringArray (js_get v ''selectedChannels''),
                 readStringArray (js_get v ''disabledChannels'')) of
        (Some sel, Some dis) \<Rightarrow> Some \<lparr>ms_selectedChannels = sel, ms_disabledChannels = dis\<rparr>
      | _ \<Rightarrow> None)"

definition parseEffectGroupRecord :: "js \<Rightarrow> effect_group_record option" where
  "parseEffectGroupRecord v =
     (if \<not> isObjectRecord v then None
      else case (readCanonicalIsoTimestamp (js_get v ''completedAt''),
                 readString (js_get v ''fingerprint'')) of
        (Some at, Some fp) \<Rightarrow>
          if fp = [] then None else Some \<lparr>eg_completedAt = at, eg_fingerprint = fp\<rparr>
      | _ \<Rightarrow> None)"

fun parse_effect_groups ::
  "js \<Rightarrow> effect_group_name list \<Rightarrow> (effect_group_name \<times> effect_group_record) list option" where
  "parse_effect_groups v [] = Some []"
| "parse_effect_groups v (n # ns) =
     (if js_get v (effect_group_id n) = JUndef then parse_effect_groups v ns
      else case parseEffectGroupRecord (js_get v (effect_group_id n)) of
             None \<Rightarrow> None
           | Some r \<Rightarrow> map_option (Cons (n, r)) (parse_effect_groups v ns))"

definition parseEffectGroups ::
  "js \<Rightarrow> (effect_group_name \<times> effect_group_record) list option" where
  "parseEffectGroups v =
     (if \<not> isObjectRecord v then None else parse_effect_groups v EFFECT_GROUP_NAMES)"

definition parseProviderBinding :: "js \<Rightarrow> provider_binding option" where
  "parseProviderBinding v =
     (if \<not> isObjectRecord v then None
      else case (readString (js_get v ''name''), readString (js_get v ''type''),
                 readString (js_get v ''credentialEnv'')) of
        (Some name, Some type, Some env) \<Rightarrow>
          if name = [] \<or> type = [] \<or> env = [] then None
          else Some \<lparr>pb_name = name, pb_type = type, pb_credentialEnv = env\<rparr>
      | _ \<Rightarrow> None)"

definition parseProviderBindings :: "js \<Rightarrow> provider_binding list option" where
  "parseProviderBindings = read_array parseProviderBinding"

definition parseBindings :: "js \<Rightarrow> checkpoint_bindings option" where
  "parseBindings v =
     (if \<not> isObjectRecord v then None
      else case (readStringArray (js_get v ''credentialEnvs''),
                 parseProviderBindings (js_get v ''registeredProviders'')) of
        (Some envs, Some ps) \<Rightarrow>
          Some \<lparr>cb_credentialEnvs = envs, cb_registeredProviders = ps\<rparr>
      | _ \<Rightarrow> None)"

section \<open>Gateway authority\<close>

definition DEFAULT_GATEWAY_PORT :: int where
  "DEFAULT_GATEWAY_PORT = 8080"

definition is_service_char :: "char \<Rightarrow> bool" where
  "is_service_char c = (is_lower c \<or> is_upper c \<or> is_digit c \<or> c \<in> set '':_.@-'')"

text \<open>\<open>/^[A-Za-z0-9][A-Za-z0-9:_.@-]*\.service$/\<close>\<close>

definition is_service_name :: "string \<Rightarrow> bool" where
  "is_service_name s =
     (let stem = take (length s - 8) s in
      ends_with ''.service'' s \<and> stem \<noteq> [] \<and> list_all is_service_char stem
      \<and> (is_lower (hd stem) \<or> is_upper (hd stem) \<or> is_digit (hd stem)))"

text \<open>\<open>path.isAbsolute\<close> on the platforms the supervisor runs on (POSIX).\<close>

definition isAbsolute :: "string \<Rightarrow> bool" where
  "isAbsolute p = starts_with ''/'' p"

definition parse_supervisor_kind :: "js \<Rightarrow> supervisor_kind option" where
  "parse_supervisor_kind v =
     (if v = JStr ''systemd-system'' then Some SystemdSystem
      else if v = JStr ''systemd-user'' then Some SystemdUser else None)"

definition parseGatewaySupervisor :: "js \<Rightarrow> gateway_supervisor option" where
  "parseGatewaySupervisor v =
     (if \<not> isObjectRecord v then None
      else case parse_supervisor_kind (js_get v ''kind'') of
        None \<Rightarrow> None
      | Some kind \<Rightarrow>
          (case (readString (js_get v ''serviceName''), readString (js_get v ''execPath'')) of
             (Some serviceName, Some execPath) \<Rightarrow>
               if serviceName = [] \<or> \<not> is_service_name serviceName then None
               else if execPath = [] \<or> \<not> isAbsolute execPath then None
               else Some \<lparr>gs_kind = kind, gs_serviceName = serviceName, gs_execPath = execPath\<rparr>
           | _ \<Rightarrow> None))"

definition canonicalGatewayName :: "int \<Rightarrow> string" where
  "canonicalGatewayName gatewayPort =
     (if gatewayPort = DEFAULT_GATEWAY_PORT then ''nemoclaw''
      else ''nemoclaw-'' @ digits_of (nat gatewayPort))"

text \<open>
  The WHATWG URL parser is a parameter: \<open>new URL(text)\<close> gives the components the code reads, or
  throws.
\<close>

record url =
  url_protocol :: string
  url_hostname :: string
  url_port :: string
  url_username :: string
  url_password :: string
  url_search :: string
  url_hash :: string
  url_pathname :: string
  url_origin :: string

type_synonym url_parser = "string \<Rightarrow> url option"

definition LOOPBACK_HOSTNAMES :: "string list" where
  "LOOPBACK_HOSTNAMES = [''127.0.0.1'', ''[::1]'', ''::1'']"

definition loopback_endpoint :: "url \<Rightarrow> bool" where
  "loopback_endpoint u =
     ((url_protocol u = ''http:'' \<or> url_protocol u = ''https:'')
      \<and> url_hostname u \<in> set LOOPBACK_HOSTNAMES
      \<and> url_username u = [] \<and> url_password u = [] \<and> url_search u = [] \<and> url_hash u = []
      \<and> (url_pathname u = [] \<or> url_pathname u = ''/''))"

definition endpoint_port :: "url \<Rightarrow> int option" where
  "endpoint_port u =
     (if url_port u \<noteq> [] then map_option int (digits_value 0 (url_port u))
      else Some (if url_protocol u = ''https:'' then 443 else 80))"

definition parse_gateway_mode :: "js \<Rightarrow> gateway_mode option" where
  "parse_gateway_mode v =
     (if v = JStr ''nemoclaw-managed'' then Some NemoclawManaged
      else if v = JStr ''externally-supervised'' then Some ExternallySupervised else None)"

definition parse_gateway_source :: "js \<Rightarrow> gateway_source option" where
  "parse_gateway_source v =
     (if v = JStr ''declared'' then Some Declared
      else if v = JStr ''packaged-service'' then Some PackagedService
      else if v = JStr ''standalone'' then Some Standalone else None)"

definition read_gateway_port :: "js \<Rightarrow> int option" where
  "read_gateway_port v =
     (case js_int v of
        Some p \<Rightarrow> if 1 \<le> p \<and> p \<le> 65535 then Some p else None
      | None \<Rightarrow> None)"

definition parse_external_endpoint :: "url_parser \<Rightarrow> int \<Rightarrow> string \<Rightarrow> string option" where
  "parse_external_endpoint parse_url gatewayPort endpoint =
     (case parse_url endpoint of
        None \<Rightarrow> None
      | Some u \<Rightarrow>
          if \<not> loopback_endpoint u then None
          else if endpoint_port u \<noteq> Some gatewayPort then None
          else Some (url_origin u))"

definition parseGatewayAuthorityValue :: "url_parser \<Rightarrow> js \<Rightarrow> gateway_authority option" where
  "parseGatewayAuthorityValue parse_url v =
     (if \<not> isObjectRecord v then None
      else case (readString (js_get v ''gatewayName''), read_gateway_port (js_get v ''gatewayPort''),
                 parse_gateway_mode (js_get v ''mode''), parse_gateway_source (js_get v ''source''),
                 readStringArray (js_get v ''requiredCapabilities'')) of
        (Some gatewayName, Some gatewayPort, Some mode, Some src, Some caps) \<Rightarrow>
          if gatewayName = [] \<or> gatewayName \<noteq> canonicalGatewayName gatewayPort then None
          else if \<not> list_all (\<lambda>c. c \<in> set SUPPORTED_GATEWAY_CAPABILITIES) caps then None
          else if mode = NemoclawManaged then
            (if readString (js_get v ''endpoint'') \<noteq> None \<or> readString (js_get v ''stateDir'') \<noteq> None
                \<or> js_get v ''supervisor'' \<noteq> JNull then None
             else Some \<lparr>ga_gatewayName = gatewayName, ga_gatewayPort = gatewayPort, ga_mode = mode,
                        ga_source = src, ga_endpoint = None, ga_stateDir = None,
                        ga_supervisor = None, ga_requiredCapabilities = caps\<rparr>)
          else
            (case (readString (js_get v ''endpoint''), readString (js_get v ''stateDir'')) of
               (Some endpoint, Some stateDir) \<Rightarrow>
                 if src \<noteq> Declared \<or> endpoint = [] \<or> stateDir = [] \<or> \<not> isAbsolute stateDir then None
                 else
                   (case (parse_external_endpoint parse_url gatewayPort endpoint,
                          parseGatewaySupervisor (js_get v ''supervisor'')) of
                      (Some origin, Some supervisor) \<Rightarrow>
                        Some \<lparr>ga_gatewayName = gatewayName, ga_gatewayPort = gatewayPort,
                              ga_mode = mode, ga_source = src, ga_endpoint = Some origin,
                              ga_stateDir = Some stateDir, ga_supervisor = Some supervisor,
                              ga_requiredCapabilities = caps\<rparr>
                    | _ \<Rightarrow> None)
             | _ \<Rightarrow> None)
      | _ \<Rightarrow> None)"

section \<open>Sandbox recreate journal\<close>

text \<open>
  \<open>null\<close> and \<open>undefined\<close> results are told apart: the outer option is \<open>undefined\<close>.
\<close>

definition readNullableSha256 :: "js \<Rightarrow> string option option" where
  "readNullableSha256 = read_nullable (read_text SHA256_PATTERN)"

definition journal_string :: "nat \<Rightarrow> string \<Rightarrow> bool" where
  "journal_string maxLength s =
     (s \<noteq> [] \<and> length s \<le> maxLength
      \<and> list_all (\<lambda>c. code c \<noteq> 0 \<and> code c \<noteq> 13 \<and> code c \<noteq> 10) s)"

definition readBoundedJournalString :: "js \<Rightarrow> nat \<Rightarrow> string option" where
  "readBoundedJournalString v maxLength = read_text (journal_string maxLength) v"

text \<open>\<open>/^[a-z0-9][a-z0-9._-]*$/u\<close>\<close>

definition is_driver_name :: "string \<Rightarrow> bool" where
  "is_driver_name s =
     (s \<noteq> [] \<and> (is_lower (hd s) \<or> is_digit (hd s))
      \<and> list_all (\<lambda>c. is_lower c \<or> is_digit c \<or> c \<in> set ''._-'') s)"

definition read_openshell_driver :: "js \<Rightarrow> string option option" where
  "read_openshell_driver = read_nullable (read_text (\<lambda>s. journal_string 128 s \<and> is_driver_name s))"

definition read_workload :: "string \<Rightarrow> js \<Rightarrow> recreate_workload option" where
  "read_workload imageTag raw =
     (if \<not> isObjectRecord raw \<or> js_get raw ''kind'' \<noteq> JStr ''legacy-dockerfile'' then None
      else case (js_bool (js_get raw ''shared''),
                 read_nullable (read_text (\<lambda>s. journal_string 4096 s \<and> s = imageTag))
                   (js_get raw ''reference'')) of
        (Some shared, Some reference) \<Rightarrow>
          Some \<lparr>rw_reference = reference, rw_shared = shared\<rparr>
      | _ \<Rightarrow> None)"

definition parseSandboxRecreateSourceWorkload :: "js \<Rightarrow> recreate_source option option" where
  "parseSandboxRecreateSourceWorkload v =
     (if v = JUndef \<or> v = JNull then Some None
      else if \<not> isObjectRecord v then None
      else case (read_openshell_driver (js_get v ''openshellDriver''),
                 readBoundedJournalString (js_get v ''imageTag'') 4096) of
        (Some driver, Some imageTag) \<Rightarrow>
          (case read_nullable (read_workload imageTag) (js_get v ''workload'') of
             None \<Rightarrow> None
           | Some w \<Rightarrow>
               Some (Some \<lparr>rs_openshellDriver = driver, rs_imageTag = imageTag, rs_workload = w\<rparr>))
      | _ \<Rightarrow> None)"

definition name_ok :: "string \<Rightarrow> bool" where
  "name_ok s = (length s \<le> NAME_MAX_LENGTH \<and> NAME_VALID_PATTERN s)"

text \<open>\<open>Number.isSafeInteger(v) && v >= 0\<close>\<close>

definition read_revision :: "js \<Rightarrow> int option" where
  "read_revision v =
     (case js_int v of
        Some n \<Rightarrow> if 0 \<le> n \<and> n \<le> 2 ^ 53 - 1 then Some n else None
      | None \<Rightarrow> None)"

definition parseSandboxRecreateTransaction :: "js \<Rightarrow> recreate_transaction option" where
  "parseSandboxRecreateTransaction v =
     (if \<not> isObjectRecord v \<or> js_get v ''version'' \<noteq> JNum (NInt 1) then None
      else case (read_text UUID_PATTERN (js_get v ''id''),
                 read_text name_ok (js_get v ''sandboxName''),
                 read_gateway_port (js_get v ''gatewayPort''),
                 read_text SHA256_PATTERN (js_get v ''sourceRegistryFingerprint''),
                 readNullableSha256 (js_get v ''sourceLiveIdentityFingerprint''),
                 parseSandboxRecreateSourceWorkload (js_get v ''sourceWorkload'')) of
        (Some i, Some sandboxName, Some gatewayPort, Some srcReg, Some srcLive, Some srcWork) \<Rightarrow>
          (case (read_text (\<lambda>g. g = canonicalGatewayName gatewayPort) (js_get v ''gatewayName''),
                 read_text SHA256_PATTERN (js_get v ''targetIntentFingerprint''),
                 read_text UUID_PATTERN (js_get v ''targetGeneration''),
                 readNullableSha256 (js_get v ''targetLiveIdentityFingerprint''),
                 parse_phase (js_get v ''phase''),
                 read_revision (js_get v ''revision''),
                 readCanonicalIsoTimestamp (js_get v ''startedAt''),
                 readCanonicalIsoTimestamp (js_get v ''updatedAt'')) of
             (Some gatewayName, Some intent, Some gen, Some tgtLive, Some phase, Some revision,
              Some startedAt, Some updatedAt) \<Rightarrow>
               Some \<lparr>rt_id = i, rt_revision = revision, rt_sandboxName = sandboxName,
                     rt_gatewayName = gatewayName, rt_gatewayPort = gatewayPort,
                     rt_sourceRegistryFingerprint = srcReg,
                     rt_sourceLiveIdentityFingerprint = srcLive, rt_sourceWorkload = srcWork,
                     rt_targetIntentFingerprint = intent, rt_targetGeneration = gen,
                     rt_targetLiveIdentityFingerprint = tgtLive, rt_phase = phase,
                     rt_startedAt = startedAt, rt_updatedAt = updatedAt\<rparr>
           | _ \<Rightarrow> None)
      | _ \<Rightarrow> None)"

section \<open>Schema, version dispatch and serialization\<close>

definition recreate_consistent ::
  "sandbox_identity decision \<Rightarrow> gateway_authority decision \<Rightarrow> recreate_transaction option \<Rightarrow> bool"
  where
  "recreate_consistent identity authority recreate =
     (case recreate of
        None \<Rightarrow> True
      | Some t \<Rightarrow>
          (case (identity, authority) of
             (Selected i, Selected a) \<Rightarrow>
               si_name i = rt_sandboxName t \<and> ga_gatewayName a = rt_gatewayName t
               \<and> ga_gatewayPort a = rt_gatewayPort t
           | _ \<Rightarrow> False))"

definition parseSchema :: "url_parser \<Rightarrow> js \<Rightarrow> js \<Rightarrow> js \<Rightarrow> checkpoint option" where
  "parseSchema parse_url v gatewayAuthorityRaw sandboxRecreateRaw =
     (case (readString (js_get v ''sessionId''),
            readCanonicalIsoTimestamp (js_get v ''updatedAt''),
            Option.bind (readString (js_get v ''machineState'')) parse_state,
            parseCheckpointDecision parseSandboxIdentityValue (js_get v ''sandboxIdentity''),
            parseCheckpointDecision parseWebSearchValue (js_get v ''webSearch''),
            parseCheckpointDecision parseMessagingValue (js_get v ''messaging'')) of
        (Some sessionId, Some updatedAt, Some machineState, Some identity, Some webSearch,
         Some messaging) \<Rightarrow>
          (case (parseCheckpointDecision parseResourceProfileValue (js_get v ''resourceProfile''),
                 parseCheckpointDecision (parseGatewayAuthorityValue parse_url)
                   gatewayAuthorityRaw,
                 parseEffectGroups (js_get v ''effectGroups''),
                 parseBindings (js_get v ''bindings''),
                 read_nullable parseSandboxRecreateTransaction sandboxRecreateRaw) of
             (Some resourceProfile, Some authority, Some groups, Some bindings, Some recreate) \<Rightarrow>
               if \<not> recreate_consistent identity authority recreate then None
               else Some \<lparr>cp_sessionId = sessionId, cp_machineState = machineState,
                          cp_updatedAt = updatedAt, cp_sandboxIdentity = identity,
                          cp_webSearch = webSearch, cp_messaging = messaging,
                          cp_resourceProfile = resourceProfile, cp_gatewayAuthority = authority,
                          cp_effectGroups = groups, cp_bindings = bindings,
                          cp_sandboxRecreate = recreate\<rparr>
           | _ \<Rightarrow> None)
      | _ \<Rightarrow> None)"

definition inspectCheckpoint :: "url_parser \<Rightarrow> js \<Rightarrow> checkpoint_load_result" where
  "inspectCheckpoint parse_url raw =
     (if raw = JUndef \<or> raw = JNull then CheckpointNone
      else if \<not> isObjectRecord raw then CheckpointCorrupt
      else case js_int (js_get raw ''schemaVersion'') of
        None \<Rightarrow> CheckpointCorrupt
      | Some version \<Rightarrow>
          if version < 1 then CheckpointCorrupt
          else if version > CHECKPOINT_SCHEMA_VERSION then CheckpointUnsupportedFuture version
          else if version = CHECKPOINT_SCHEMA_VERSION then
            (case parseSchema parse_url raw (js_get raw ''gatewayAuthority'')
                    (js_get raw ''sandboxRecreate'') of
               Some c \<Rightarrow> CheckpointLoaded c | None \<Rightarrow> CheckpointCorrupt)
          else if version = 2 then
            (case parseSchema parse_url raw (js_get raw ''gatewayAuthority'') JNull of
               Some c \<Rightarrow> CheckpointMigrated c 2 | None \<Rightarrow> CheckpointCorrupt)
          else if version = 1 then
            (case parseSchema parse_url raw (JObj [(''kind'', JStr ''unset'')]) JNull of
               Some c \<Rightarrow> CheckpointMigrated c 1 | None \<Rightarrow> CheckpointCorrupt)
          else CheckpointCorrupt)"

text \<open>What the fields look like as plain objects, the shape they have when stored.\<close>

definition identity_to_js :: "sandbox_identity \<Rightarrow> js" where
  "identity_to_js i = JObj [(''name'', JStr (si_name i)), (''agent'', JStr (si_agent i))]"

definition resource_to_js :: "resource_profile \<Rightarrow> js" where
  "resource_to_js r = JObj [(''cpu'', JStr (rp_cpu r)), (''memory'', JStr (rp_memory r))]"

definition selection_to_js :: "messaging_selection \<Rightarrow> js" where
  "selection_to_js m =
     JObj [(''selectedChannels'', write_array JStr (ms_selectedChannels m)),
           (''disabledChannels'', write_array JStr (ms_disabledChannels m))]"

definition effect_record_to_js :: "effect_group_record \<Rightarrow> js" where
  "effect_record_to_js r =
     JObj [(''completedAt'', JStr (eg_completedAt r)), (''fingerprint'', JStr (eg_fingerprint r))]"

definition effect_groups_to_js :: "(effect_group_name \<times> effect_group_record) list \<Rightarrow> js" where
  "effect_groups_to_js gs = JObj (map (\<lambda>(n, r). (effect_group_id n, effect_record_to_js r)) gs)"

definition binding_to_js :: "provider_binding \<Rightarrow> js" where
  "binding_to_js b =
     JObj [(''name'', JStr (pb_name b)), (''type'', JStr (pb_type b)),
           (''credentialEnv'', JStr (pb_credentialEnv b))]"

definition bindings_to_js :: "checkpoint_bindings \<Rightarrow> js" where
  "bindings_to_js b =
     JObj [(''credentialEnvs'', write_array JStr (cb_credentialEnvs b)),
           (''registeredProviders'', write_array binding_to_js (cb_registeredProviders b))]"

fun supervisor_kind_id :: "supervisor_kind \<Rightarrow> string" where
  "supervisor_kind_id SystemdSystem = ''systemd-system''"
| "supervisor_kind_id SystemdUser = ''systemd-user''"

definition supervisor_to_js :: "gateway_supervisor \<Rightarrow> js" where
  "supervisor_to_js s =
     JObj [(''kind'', JStr (supervisor_kind_id (gs_kind s))),
           (''serviceName'', JStr (gs_serviceName s)), (''execPath'', JStr (gs_execPath s))]"

fun gateway_mode_id :: "gateway_mode \<Rightarrow> string" where
  "gateway_mode_id NemoclawManaged = ''nemoclaw-managed''"
| "gateway_mode_id ExternallySupervised = ''externally-supervised''"

fun gateway_source_id :: "gateway_source \<Rightarrow> string" where
  "gateway_source_id Declared = ''declared''"
| "gateway_source_id PackagedService = ''packaged-service''"
| "gateway_source_id Standalone = ''standalone''"

definition authority_to_js :: "gateway_authority \<Rightarrow> js" where
  "authority_to_js a =
     JObj [(''gatewayName'', JStr (ga_gatewayName a)),
           (''gatewayPort'', JNum (NInt (ga_gatewayPort a))),
           (''mode'', JStr (gateway_mode_id (ga_mode a))),
           (''source'', JStr (gateway_source_id (ga_source a))),
           (''endpoint'', js_opt JStr (ga_endpoint a)),
           (''stateDir'', js_opt JStr (ga_stateDir a)),
           (''supervisor'', js_opt supervisor_to_js (ga_supervisor a)),
           (''requiredCapabilities'', write_array JStr (ga_requiredCapabilities a))]"

definition workload_to_js :: "recreate_workload \<Rightarrow> js" where
  "workload_to_js w =
     JObj [(''kind'', JStr ''legacy-dockerfile''), (''reference'', js_opt JStr (rw_reference w)),
           (''shared'', JBool (rw_shared w))]"

definition recreate_source_to_js :: "recreate_source \<Rightarrow> js" where
  "recreate_source_to_js s =
     JObj [(''openshellDriver'', js_opt JStr (rs_openshellDriver s)),
           (''imageTag'', JStr (rs_imageTag s)),
           (''workload'', js_opt workload_to_js (rs_workload s))]"

definition recreate_to_js :: "recreate_transaction \<Rightarrow> js" where
  "recreate_to_js t =
     JObj [(''version'', JNum (NInt 1)),
           (''id'', JStr (rt_id t)),
           (''revision'', JNum (NInt (rt_revision t))),
           (''sandboxName'', JStr (rt_sandboxName t)),
           (''gatewayName'', JStr (rt_gatewayName t)),
           (''gatewayPort'', JNum (NInt (rt_gatewayPort t))),
           (''sourceRegistryFingerprint'', JStr (rt_sourceRegistryFingerprint t)),
           (''sourceLiveIdentityFingerprint'', js_opt JStr (rt_sourceLiveIdentityFingerprint t)),
           (''sourceWorkload'', js_opt recreate_source_to_js (rt_sourceWorkload t)),
           (''targetIntentFingerprint'', JStr (rt_targetIntentFingerprint t)),
           (''targetGeneration'', JStr (rt_targetGeneration t)),
           (''targetLiveIdentityFingerprint'', js_opt JStr (rt_targetLiveIdentityFingerprint t)),
           (''phase'', JStr (phase_id (rt_phase t))),
           (''startedAt'', JStr (rt_startedAt t)),
           (''updatedAt'', JStr (rt_updatedAt t))]"

definition serializeCheckpoint :: "checkpoint \<Rightarrow> js" where
  "serializeCheckpoint c =
     JObj [(''schemaVersion'', JNum (NInt CHECKPOINT_SCHEMA_VERSION)),
           (''sessionId'', JStr (cp_sessionId c)),
           (''machineState'', JStr (state_id (cp_machineState c))),
           (''updatedAt'', JStr (cp_updatedAt c)),
           (''sandboxIdentity'', decision_to_js identity_to_js (cp_sandboxIdentity c)),
           (''webSearch'', decision_to_js web_search_config_to_js (cp_webSearch c)),
           (''messaging'', decision_to_js selection_to_js (cp_messaging c)),
           (''resourceProfile'', decision_to_js resource_to_js (cp_resourceProfile c)),
           (''gatewayAuthority'', decision_to_js authority_to_js (cp_gatewayAuthority c)),
           (''effectGroups'', effect_groups_to_js (cp_effectGroups c)),
           (''bindings'', bindings_to_js (cp_bindings c)),
           (''sandboxRecreate'', js_opt recreate_to_js (cp_sandboxRecreate c))]"

end
