(* ===== verification/Session_Model.thy ===== *)
theory Session_Model
  imports Checkpoint
begin

text \<open>
  The onboarding session (\<open>src/lib/state/onboard-session.ts\<close>,
  \<open>onboard-session-tool-disclosure.ts\<close>): the session record, the readers of its fields,
  \<open>createSession\<close>, \<open>normalizeSession\<close> and the shape a session has as a plain object.

  Code outside this component is a parameter, collected in a record: the secret patterns
  behind the two redactors, the messaging plan parser and its compaction, the model catalog,
  the URL parser, SHA-256, the clock and fresh identifiers. Every reading of the clock uses up
  one tick.
\<close>

section \<open>Parameters\<close>

record session_env =
  env_replaceSecrets :: "string \<Rightarrow> string"
  env_redactUrlToken :: "string \<Rightarrow> string option"
  env_parsePlan :: "js \<Rightarrow> js option"
  env_parsePlanFor :: "string \<Rightarrow> js \<Rightarrow> js option"
  env_compactPlan :: "js \<Rightarrow> js"
  env_activeChannels :: "js option \<Rightarrow> string list"
  env_disabledChannels :: "js option \<Rightarrow> string list"
  env_sha256Json :: "js \<Rightarrow> string"
  env_catalog :: express_catalog
  env_parseUrl :: url_parser
  env_clock :: "nat \<Rightarrow> string"
  env_freshId :: "nat \<Rightarrow> string"

text \<open>
  \<open>redactSensitiveText\<close> and \<open>redactUrl\<close> of \<open>src/lib/security/redact.ts\<close>: the pattern
  replacements are the parameter, the type guards and the 240 character cut are the code's.
\<close>

definition redactSensitiveText :: "session_env \<Rightarrow> js \<Rightarrow> string option" where
  "redactSensitiveText env v = map_option (\<lambda>s. take 240 (env_replaceSecrets env s)) (js_string v)"

definition redactUrl :: "session_env \<Rightarrow> js \<Rightarrow> string option" where
  "redactUrl env v =
     (case js_string v of
        None \<Rightarrow> None
      | Some s \<Rightarrow> if s = [] then None else env_redactUrlToken env s)"

section \<open>Types\<close>

datatype step_status = StPending | StInProgress | StComplete | StFailed | StSkipped

fun status_id :: "step_status \<Rightarrow> string" where
  "status_id StPending = ''pending''"
| "status_id StInProgress = ''in_progress''"
| "status_id StComplete = ''complete''"
| "status_id StFailed = ''failed''"
| "status_id StSkipped = ''skipped''"

definition STEP_STATES :: "step_status list" where
  "STEP_STATES = [StPending, StInProgress, StComplete, StFailed, StSkipped]"

record step_state =
  st_status :: step_status
  st_startedAt :: "string option"
  st_completedAt :: "string option"
  st_error :: "string option"

record session_failure =
  fl_step :: "string option"
  fl_message :: "string option"
  fl_recordedAt :: string
  fl_interrupted :: bool

record session_metadata =
  md_gatewayName :: string
  md_fromDockerfile :: "string option"

datatype receipt_reason = FailedTerminalSnapshot | ReopenedCompleteSnapshot

fun reason_id :: "receipt_reason \<Rightarrow> string" where
  "reason_id FailedTerminalSnapshot = ''failed_terminal_snapshot''"
| "reason_id ReopenedCompleteSnapshot = ''reopened_complete_snapshot''"

record recovery_receipt =
  rr_id :: string
  rr_reason :: receipt_reason
  rr_entry :: machine_state
  rr_appliedAt :: string
  rr_revision :: int

record machine_snapshot =
  ms_state :: machine_state
  ms_stateEnteredAt :: "string option"
  ms_revision :: int
  ms_recoveryReceipt :: "recovery_receipt option"

record prompt_progress =
  pp_sandboxName :: bool
  pp_webSearch :: bool
  pp_messaging :: bool
  pp_resourceProfile :: bool

record wechat_config =
  wc_accountId :: "string option"
  wc_baseUrl :: "string option"
  wc_userId :: "string option"

datatype hermes_auth = OAuth | ApiKey

fun hermes_auth_id :: "hermes_auth \<Rightarrow> string" where
  "hermes_auth_id OAuth = ''oauth''"
| "hermes_auth_id ApiKey = ''api_key''"

text \<open>
  \<open>s_invalidToolDisclosure\<close> is membership of the session object in the weak set
  \<open>INVALID_TOOL_DISCLOSURE_SESSIONS\<close>; it is not a stored field.
\<close>

record session =
  s_sessionId :: string
  s_resumable :: bool
  s_status :: string
  s_mode :: string
  s_startedAt :: string
  s_updatedAt :: string
  s_lastStepStarted :: "string option"
  s_lastCompletedStep :: "string option"
  s_failure :: "session_failure option"
  s_agent :: "string option"
  s_sandboxName :: "string option"
  s_provider :: "string option"
  s_model :: "string option"
  s_servingProfileProvenance :: "js option"
  s_stationExpressIntent :: "express_intent option"
  s_stationExpressReceiptRetirement :: "string option"
  s_endpointUrl :: "string option"
  s_credentialEnv :: "string option"
  s_hermesAuthMethod :: "hermes_auth option"
  s_preferredInferenceApi :: "string option"
  s_compatibleEndpointReasoning :: "string option"
  s_compatibleEndpointReasoningEffort :: "reasoning_effort option"
  s_nimContainer :: "string option"
  s_routerPid :: "int option"
  s_routerCredentialHash :: "string option"
  s_webSearchConfig :: "web_search_config option"
  s_sandboxPromptProgress :: prompt_progress
  s_resourceProfile :: "resource_profile option"
  s_toolDisclosure :: tool_disclosure
  s_observabilityEnabled :: bool
  s_observabilityRequestedExplicitly :: bool
  s_hermesToolGateways :: "string list option"
  s_policyPresets :: "string list option"
  s_messagingPlan :: "js option"
  s_stagedCredentialProviders :: "string list"
  s_migratedLegacyValueHashes :: "(string \<times> string) list option"
  s_gpuPassthrough :: bool
  s_telegramConfig :: "bool option"
  s_wechatConfig :: "wechat_config option"
  s_metadata :: session_metadata
  s_machine :: machine_snapshot
  s_checkpoint :: "checkpoint option"
  s_steps :: "(string \<times> step_state) list"
  s_invalidToolDisclosure :: bool

section \<open>Readers\<close>

definition SESSION_VERSION :: int where "SESSION_VERSION = 1"
definition MACHINE_SNAPSHOT_VERSION :: int where "MACHINE_SNAPSHOT_VERSION = 1"

definition pending_step :: step_state where
  "pending_step = \<lparr>st_status = StPending, st_startedAt = None, st_completedAt = None, st_error = None\<rparr>"

definition STEP_NAMES :: "string list" where
  "STEP_NAMES = [''preflight'', ''gateway'', ''sandbox'', ''provider_selection'', ''inference'',
                 ''openclaw'', ''agent_setup'', ''policies'']"

definition defaultSteps :: "(string \<times> step_state) list" where
  "defaultSteps = map (\<lambda>n. (n, pending_step)) STEP_NAMES"

definition readHermesAuthMethod :: "js \<Rightarrow> hermes_auth option" where
  "readHermesAuthMethod v =
     (if v = JStr ''oauth'' then Some OAuth else if v = JStr ''api_key'' then Some ApiKey else None)"

definition readPositiveInteger :: "js \<Rightarrow> int option" where
  "readPositiveInteger v =
     (case js_int v of Some n \<Rightarrow> if n > 0 then Some n else None | None \<Rightarrow> None)"

definition readNonNegativeInteger :: "js \<Rightarrow> int option" where
  "readNonNegativeInteger v =
     (case js_int v of Some n \<Rightarrow> if n \<ge> 0 then Some n else None | None \<Rightarrow> None)"

definition keepStrings :: "js list \<Rightarrow> string list" where
  "keepStrings xs = List.map_filter js_string xs"

definition readStringList :: "js \<Rightarrow> string list option" where
  "readStringList v = map_option keepStrings (js_array v)"

definition string_entries :: "js \<Rightarrow> (string \<times> string) list" where
  "string_entries v =
     List.map_filter (\<lambda>(k, x). map_option (Pair k) (js_string x)) (js_entries v)"

definition readStringRecord :: "js \<Rightarrow> (string \<times> string) list option" where
  "readStringRecord v = (if \<not> isObjectRecord v then None else Some (string_entries v))"

definition readStepStatus :: "js \<Rightarrow> step_status option" where
  "readStepStatus v = find (\<lambda>x. v = JStr (status_id x)) STEP_STATES"

definition parseWebSearchConfig :: "js \<Rightarrow> web_search_config option" where
  "parseWebSearchConfig v =
     (if \<not> isObjectRecord v \<or> js_get v ''fetchEnabled'' \<noteq> JBool True then None
      else normalizeWebSearchConfig v)"

definition isValidCheckpointedSandboxName :: "js \<Rightarrow> bool" where
  "isValidCheckpointedSandboxName v = (case js_string v of Some s \<Rightarrow> name_ok s | None \<Rightarrow> False)"

definition isValidNullableWebSearchChoice :: "js \<Rightarrow> bool" where
  "isValidNullableWebSearchChoice v = (v = JNull \<or> parseWebSearchConfig v \<noteq> None)"

definition isValidNullableMessagingChoice :: "session_env \<Rightarrow> js \<Rightarrow> js \<Rightarrow> bool" where
  "isValidNullableMessagingChoice env v sandboxName =
     (v = JNull
      \<or> (case js_string sandboxName of
           Some s \<Rightarrow> env_parsePlanFor env s v \<noteq> None | None \<Rightarrow> False))"

definition parseSessionResourceProfile :: "js \<Rightarrow> resource_profile option" where
  "parseSessionResourceProfile v = parseResourceProfileValue v"

definition isValidNullableResourceChoice :: "js \<Rightarrow> bool" where
  "isValidNullableResourceChoice v = (v = JNull \<or> parseSessionResourceProfile v \<noteq> None)"

definition parseSandboxPromptProgress :: "session_env \<Rightarrow> js \<Rightarrow> js \<Rightarrow> prompt_progress" where
  "parseSandboxPromptProgress env v choices =
     \<lparr>pp_sandboxName =
        js_get v ''sandboxName'' = JBool True \<and> hasOwn choices ''sandboxName''
        \<and> isValidCheckpointedSandboxName (js_get choices ''sandboxName''),
      pp_webSearch =
        js_get v ''webSearch'' = JBool True \<and> hasOwn choices ''webSearchConfig''
        \<and> isValidNullableWebSearchChoice (js_get choices ''webSearchConfig''),
      pp_messaging =
        js_get v ''messaging'' = JBool True \<and> hasOwn choices ''messagingPlan''
        \<and> isValidNullableMessagingChoice env (js_get choices ''messagingPlan'')
             (js_get choices ''sandboxName''),
      pp_resourceProfile =
        js_get v ''resourceProfile'' = JBool True \<and> hasOwn choices ''resourceProfile''
        \<and> isValidNullableResourceChoice (js_get choices ''resourceProfile'')\<rparr>"

definition parseTelegramConfig :: "js \<Rightarrow> bool option" where
  "parseTelegramConfig v =
     (if \<not> isObjectRecord v then None
      else if js_get v ''requireMention'' = JBool True then Some True
      else if js_get v ''requireMention'' = JBool False then Some False
      else None)"

definition nonempty :: "string option \<Rightarrow> string option" where
  "nonempty s = (if truthy s then s else None)"

definition parseWechatConfig :: "js \<Rightarrow> wechat_config option" where
  "parseWechatConfig v =
     (if \<not> isObjectRecord v then None
      else
        let result = \<lparr>wc_accountId = nonempty (readString (js_get v ''accountId'')),
                      wc_baseUrl = nonempty (readString (js_get v ''baseUrl'')),
                      wc_userId = nonempty (readString (js_get v ''userId''))\<rparr>
        in if wc_accountId result \<noteq> None \<or> wc_baseUrl result \<noteq> None \<or> wc_userId result \<noteq> None
           then Some result else None)"

definition parseSessionMetadata :: "js \<Rightarrow> session_metadata option" where
  "parseSessionMetadata v =
     (if \<not> isObjectRecord v then None
      else Some \<lparr>md_gatewayName = nullish ''nemoclaw'' (readString (js_get v ''gatewayName'')),
                 md_fromDockerfile = readString (js_get v ''fromDockerfile'')\<rparr>)"

definition parseStepState :: "session_env \<Rightarrow> js \<Rightarrow> step_state option" where
  "parseStepState env v =
     (if \<not> isObjectRecord v then None
      else case readStepStatus (js_get v ''status'') of
        None \<Rightarrow> None
      | Some status \<Rightarrow>
          Some \<lparr>st_status = status,
                st_startedAt = readString (js_get v ''startedAt''),
                st_completedAt = readString (js_get v ''completedAt''),
                st_error = redactSensitiveText env (js_get v ''error'')\<rparr>)"

definition createSessionRecoveryReceiptId ::
  "session_env \<Rightarrow> string \<Rightarrow> int \<Rightarrow> receipt_reason \<Rightarrow> machine_state \<Rightarrow> string" where
  "createSessionRecoveryReceiptId env sessionId revision reason entry =
     env_sha256Json env
       (JArr [JStr sessionId, JNum (NInt revision), JStr (reason_id reason), JStr (state_id entry)])"

definition parse_reason :: "js \<Rightarrow> receipt_reason option" where
  "parse_reason v =
     (if v = JStr ''failed_terminal_snapshot'' then Some FailedTerminalSnapshot
      else if v = JStr ''reopened_complete_snapshot'' then Some ReopenedCompleteSnapshot
      else None)"

definition read_state :: "js \<Rightarrow> machine_state option" where
  "read_state v = Option.bind (js_string v) parse_state"

definition parseSessionRecoveryReceipt ::
  "session_env \<Rightarrow> js \<Rightarrow> machine_state \<Rightarrow> string option \<Rightarrow> int \<Rightarrow> string \<Rightarrow> recovery_receipt option"
  where
  "parseSessionRecoveryReceipt env v snapshotState snapshotStateEnteredAt snapshotRevision sessionId =
     (if \<not> isObjectRecord v then None
      else case (read_text (is_hex_string 64) (js_get v ''id''), parse_reason (js_get v ''reason''),
                 read_state (js_get v ''entry''),
                 readCanonicalIsoTimestamp (js_get v ''appliedAt''),
                 readNonNegativeInteger (js_get v ''revision'')) of
        (Some i, Some reason, Some entry, Some appliedAt, Some revision) \<Rightarrow>
          if isTerminalOnboardMachineState entry then None
          else if entry \<noteq> snapshotState \<or> Some appliedAt \<noteq> snapshotStateEnteredAt
               \<or> revision \<noteq> snapshotRevision
               \<or> i \<noteq> createSessionRecoveryReceiptId env sessionId revision reason entry
          then None
          else Some \<lparr>rr_id = i, rr_reason = reason, rr_entry = entry, rr_appliedAt = appliedAt,
                     rr_revision = revision\<rparr>
      | _ \<Rightarrow> None)"

definition parseMachineSnapshot :: "session_env \<Rightarrow> js \<Rightarrow> string \<Rightarrow> machine_snapshot option" where
  "parseMachineSnapshot env v sessionId =
     (if \<not> isObjectRecord v \<or> js_get v ''version'' \<noteq> JNum (NInt MACHINE_SNAPSHOT_VERSION) then None
      else case read_state (js_get v ''state'') of
        None \<Rightarrow> None
      | Some state \<Rightarrow>
          (let stateEnteredAt = readString (js_get v ''stateEnteredAt'');
               revision = nullish 0 (readNonNegativeInteger (js_get v ''revision''))
           in Some \<lparr>ms_state = state, ms_stateEnteredAt = stateEnteredAt, ms_revision = revision,
                    ms_recoveryReceipt =
                      parseSessionRecoveryReceipt env (js_get v ''recoveryReceipt'') state
                        stateEnteredAt revision sessionId\<rparr>))"

definition parseStoredCheckpoint :: "session_env \<Rightarrow> js \<Rightarrow> checkpoint option" where
  "parseStoredCheckpoint env v =
     (case inspectCheckpoint (env_parseUrl env) v of CheckpointLoaded c \<Rightarrow> Some c | _ \<Rightarrow> None)"

definition sanitizeFailure :: "session_env \<Rightarrow> string \<Rightarrow> js \<Rightarrow> session_failure option" where
  "sanitizeFailure env now input =
     (if \<not> isObjectRecord input then None
      else
        let step = readString (js_get input ''step'');
            message = redactSensitiveText env (js_get input ''message'')
        in if truthy step \<or> truthy message
           then Some \<lparr>fl_step = step, fl_message = message,
                      fl_recordedAt = nullish now (readString (js_get input ''recordedAt'')),
                      fl_interrupted = (js_get input ''interrupted'' = JBool True)\<rparr>
           else None)"

section \<open>Sessions as plain objects\<close>

definition step_to_js :: "step_state \<Rightarrow> js" where
  "step_to_js st =
     JObj [(''status'', JStr (status_id (st_status st))),
           (''startedAt'', js_opt JStr (st_startedAt st)),
           (''completedAt'', js_opt JStr (st_completedAt st)),
           (''error'', js_opt JStr (st_error st))]"

definition failure_to_js :: "session_failure \<Rightarrow> js" where
  "failure_to_js f =
     JObj [(''step'', js_opt JStr (fl_step f)), (''message'', js_opt JStr (fl_message f)),
           (''recordedAt'', JStr (fl_recordedAt f)), (''interrupted'', JBool (fl_interrupted f))]"

definition metadata_to_js :: "session_metadata \<Rightarrow> js" where
  "metadata_to_js m =
     JObj [(''gatewayName'', JStr (md_gatewayName m)),
           (''fromDockerfile'', js_opt JStr (md_fromDockerfile m))]"

definition receipt_to_js :: "recovery_receipt \<Rightarrow> js" where
  "receipt_to_js r =
     JObj [(''id'', JStr (rr_id r)), (''reason'', JStr (reason_id (rr_reason r))),
           (''entry'', JStr (state_id (rr_entry r))), (''appliedAt'', JStr (rr_appliedAt r)),
           (''revision'', JNum (NInt (rr_revision r)))]"

definition machine_to_js :: "machine_snapshot \<Rightarrow> js" where
  "machine_to_js m =
     JObj ([(''version'', JNum (NInt MACHINE_SNAPSHOT_VERSION)),
            (''state'', JStr (state_id (ms_state m))),
            (''stateEnteredAt'', js_opt JStr (ms_stateEnteredAt m)),
            (''revision'', JNum (NInt (ms_revision m)))]
       @ (case ms_recoveryReceipt m of
            None \<Rightarrow> [] | Some r \<Rightarrow> [(''recoveryReceipt'', receipt_to_js r)]))"

definition progress_to_js :: "prompt_progress \<Rightarrow> js" where
  "progress_to_js p =
     JObj [(''sandboxName'', JBool (pp_sandboxName p)), (''webSearch'', JBool (pp_webSearch p)),
           (''messaging'', JBool (pp_messaging p)),
           (''resourceProfile'', JBool (pp_resourceProfile p))]"

definition telegram_to_js :: "bool \<Rightarrow> js" where
  "telegram_to_js b = JObj [(''requireMention'', JBool b)]"

definition wechat_to_js :: "wechat_config \<Rightarrow> js" where
  "wechat_to_js c =
     JObj (opt_member ''accountId'' (wc_accountId c) @ opt_member ''baseUrl'' (wc_baseUrl c)
       @ opt_member ''userId'' (wc_userId c))"

definition string_record_to_js :: "(string \<times> string) list \<Rightarrow> js" where
  "string_record_to_js kvs = JObj (map (\<lambda>(k, v). (k, JStr v)) kvs)"

definition steps_to_js :: "(string \<times> step_state) list \<Rightarrow> js" where
  "steps_to_js steps = JObj (map (\<lambda>(n, st). (n, step_to_js st)) steps)"

definition session_members :: "session \<Rightarrow> js \<Rightarrow> js \<Rightarrow> (string \<times> js) list" where
  "session_members s plan ckpt =
     [(''version'', JNum (NInt SESSION_VERSION)),
      (''sessionId'', JStr (s_sessionId s)),
      (''resumable'', JBool (s_resumable s)),
      (''status'', JStr (s_status s)),
      (''mode'', JStr (s_mode s)),
      (''startedAt'', JStr (s_startedAt s)),
      (''updatedAt'', JStr (s_updatedAt s)),
      (''lastStepStarted'', js_opt JStr (s_lastStepStarted s)),
      (''lastCompletedStep'', js_opt JStr (s_lastCompletedStep s)),
      (''failure'', js_opt failure_to_js (s_failure s)),
      (''agent'', js_opt JStr (s_agent s)),
      (''sandboxName'', js_opt JStr (s_sandboxName s)),
      (''provider'', js_opt JStr (s_provider s)),
      (''model'', js_opt JStr (s_model s)),
      (''servingProfileProvenance'', js_opt id (s_servingProfileProvenance s)),
      (''stationExpressIntent'', js_opt express_intent_to_js (s_stationExpressIntent s)),
      (''stationExpressReceiptRetirement'', js_opt JStr (s_stationExpressReceiptRetirement s)),
      (''endpointUrl'', js_opt JStr (s_endpointUrl s)),
      (''credentialEnv'', js_opt JStr (s_credentialEnv s)),
      (''hermesAuthMethod'', js_opt (\<lambda>m. JStr (hermes_auth_id m)) (s_hermesAuthMethod s)),
      (''preferredInferenceApi'', js_opt JStr (s_preferredInferenceApi s)),
      (''compatibleEndpointReasoning'', js_opt JStr (s_compatibleEndpointReasoning s)),
      (''compatibleEndpointReasoningEffort'',
         js_opt (\<lambda>e. JStr (effort_id e)) (s_compatibleEndpointReasoningEffort s)),
      (''nimContainer'', js_opt JStr (s_nimContainer s)),
      (''routerPid'', js_opt (\<lambda>n. JNum (NInt n)) (s_routerPid s)),
      (''routerCredentialHash'', js_opt JStr (s_routerCredentialHash s)),
      (''webSearchConfig'', js_opt web_search_config_to_js (s_webSearchConfig s)),
      (''sandboxPromptProgress'', progress_to_js (s_sandboxPromptProgress s)),
      (''resourceProfile'', js_opt resource_to_js (s_resourceProfile s)),
      (''toolDisclosure'', JStr (disclosure_id (s_toolDisclosure s))),
      (''observabilityEnabled'', JBool (s_observabilityEnabled s)),
      (''observabilityRequestedExplicitly'', JBool (s_observabilityRequestedExplicitly s)),
      (''hermesToolGateways'', js_opt (write_array JStr) (s_hermesToolGateways s)),
      (''policyPresets'', js_opt (write_array JStr) (s_policyPresets s)),
      (''messagingPlan'', plan),
      (''stagedCredentialProviders'', write_array JStr (s_stagedCredentialProviders s)),
      (''migratedLegacyValueHashes'', js_opt string_record_to_js (s_migratedLegacyValueHashes s)),
      (''gpuPassthrough'', JBool (s_gpuPassthrough s)),
      (''telegramConfig'', js_opt telegram_to_js (s_telegramConfig s)),
      (''wechatConfig'', js_opt wechat_to_js (s_wechatConfig s)),
      (''metadata'', metadata_to_js (s_metadata s)),
      (''machine'', machine_to_js (s_machine s)),
      (''checkpoint'', ckpt),
      (''steps'', steps_to_js (s_steps s))]"

text \<open>
  The object in memory, and what \<open>serializeSessionForDisk\<close> makes of it: the messaging plan is
  compacted, the checkpoint goes through its serializer.
\<close>

definition session_to_js :: "session \<Rightarrow> js" where
  "session_to_js s =
     JObj (session_members s (js_opt id (s_messagingPlan s))
             (js_opt serializeCheckpoint (s_checkpoint s)))"

definition serializeSessionForDisk :: "session_env \<Rightarrow> session \<Rightarrow> js" where
  "serializeSessionForDisk env s =
     JObj (session_members s (js_opt (env_compactPlan env) (s_messagingPlan s))
             (js_opt serializeCheckpoint (s_checkpoint s)))"

section \<open>Machine snapshots\<close>

definition createMachineSnapshot :: "machine_state \<Rightarrow> string option \<Rightarrow> int \<Rightarrow> machine_snapshot" where
  "createMachineSnapshot state stateEnteredAt revision =
     \<lparr>ms_state = state, ms_stateEnteredAt = stateEnteredAt, ms_revision = max 0 revision,
      ms_recoveryReceipt = None\<rparr>"

definition step_of :: "session \<Rightarrow> string option \<Rightarrow> step_state option" where
  "step_of s name =
     (case name of Some n \<Rightarrow> if n = [] then None else map_of (s_steps s) n | None \<Rightarrow> None)"

definition in_progress_step :: "step_state option \<Rightarrow> bool" where
  "in_progress_step st = (map_option st_status st = Some StInProgress)"

definition inferMachineState :: "session \<Rightarrow> machine_state" where
  "inferMachineState s =
     (if s_status s = ''complete'' then Complete
      else if s_status s = ''failed'' then Failed
      else
        let startedState = machineStateFromOnboardSessionStep (s_lastStepStarted s);
            startedStep = step_of s (s_lastStepStarted s)
        in if startedState \<noteq> None \<and> in_progress_step startedStep then the startedState
           else nullish Init (nextMachineStateAfterCompletedStep (s_lastCompletedStep s) (s_agent s)))"

definition inferMachineStateEnteredAt :: "session \<Rightarrow> machine_state \<Rightarrow> string option" where
  "inferMachineStateEnteredAt s state =
     (let startedState = machineStateFromOnboardSessionStep (s_lastStepStarted s);
          startedStep = step_of s (s_lastStepStarted s)
      in if state = Failed then
           Some (nullish (s_updatedAt s) (map_option fl_recordedAt (s_failure s)))
         else if state = Complete then Some (s_updatedAt s)
         else if Some state = startedState \<and> in_progress_step startedStep then
           coalesce (Option.bind startedStep st_startedAt) (Some (s_updatedAt s))
         else if nextMachineStateAfterCompletedStep (s_lastCompletedStep s) (s_agent s) = Some state
         then coalesce (Option.bind (step_of s (s_lastCompletedStep s)) st_completedAt)
                (Some (s_updatedAt s))
         else Some (s_startedAt s))"

definition inferMachineSnapshot :: "session \<Rightarrow> machine_snapshot" where
  "inferMachineSnapshot s =
     (let state = inferMachineState s
      in createMachineSnapshot state (inferMachineStateEnteredAt s state) 0)"

definition transitionMachineSnapshot :: "session \<Rightarrow> machine_state \<Rightarrow> string \<Rightarrow> session" where
  "transitionMachineSnapshot s state now =
     (let current = s_machine s
      in if ms_state current = state
         then s\<lparr>s_machine := current\<lparr>ms_stateEnteredAt := coalesce (ms_stateEnteredAt current) (Some now)\<rparr>\<rparr>
         else s\<lparr>s_machine := createMachineSnapshot state (Some now) (ms_revision current + 1)\<rparr>)"

section \<open>Creating a session\<close>

text \<open>
  The overrides are a plain object whose members, where present, have the types of the session;
  a member that may hold a record is read back as that record.
\<close>

definition failure_of_js :: "js \<Rightarrow> session_failure option" where
  "failure_of_js v =
     (if \<not> isObjectRecord v then None
      else Some \<lparr>fl_step = readString (js_get v ''step''), fl_message = readString (js_get v ''message''),
                 fl_recordedAt = nullish [] (readString (js_get v ''recordedAt'')),
                 fl_interrupted = (js_get v ''interrupted'' = JBool True)\<rparr>)"

definition step_of_js :: "js \<Rightarrow> step_state option" where
  "step_of_js v =
     map_option (\<lambda>status. \<lparr>st_status = status, st_startedAt = readString (js_get v ''startedAt''),
                           st_completedAt = readString (js_get v ''completedAt''),
                           st_error = readString (js_get v ''error'')\<rparr>)
       (readStepStatus (js_get v ''status''))"

definition merge_steps ::
  "(js \<Rightarrow> step_state option) \<Rightarrow> (string \<Rightarrow> bool) \<Rightarrow> (string \<times> step_state) list \<Rightarrow> js \<Rightarrow>
     (string \<times> step_state) list" where
  "merge_steps parse keep steps v =
     fold (\<lambda>(name, step) acc.
             case parse step of
               Some st \<Rightarrow> if keep name then alist_set name st acc else acc
             | None \<Rightarrow> acc)
       (js_entries v) steps"

definition createSession :: "session_env \<Rightarrow> nat \<Rightarrow> js \<Rightarrow> session" where
  "createSession env t overrides =
     (let now = env_clock env t;
          startedAt = nullish now (readString (js_get overrides ''startedAt''));
          sessionId = nullish (env_freshId env t) (readString (js_get overrides ''sessionId''));
          metadata = js_get overrides ''metadata''
      in \<lparr>s_sessionId = sessionId,
          s_resumable = True,
          s_status = ''in_progress'',
          s_mode = nullish ''interactive'' (readString (js_get overrides ''mode'')),
          s_startedAt = startedAt,
          s_updatedAt = nullish now (readString (js_get overrides ''updatedAt'')),
          s_lastStepStarted = readString (js_get overrides ''lastStepStarted''),
          s_lastCompletedStep = readString (js_get overrides ''lastCompletedStep''),
          s_failure = failure_of_js (js_get overrides ''failure''),
          s_agent = readString (js_get overrides ''agent''),
          s_sandboxName = readString (js_get overrides ''sandboxName''),
          s_provider = readString (js_get overrides ''provider''),
          s_model = readString (js_get overrides ''model''),
          s_servingProfileProvenance =
            parseServingProfileProvenance (js_get overrides ''servingProfileProvenance''),
          s_stationExpressIntent =
            parseStationExpressResumeIntent (env_catalog env)
              (js_get overrides ''stationExpressIntent''),
          s_stationExpressReceiptRetirement =
            read_text (is_hex_string 32) (js_get overrides ''stationExpressReceiptRetirement''),
          s_endpointUrl = readString (js_get overrides ''endpointUrl''),
          s_credentialEnv = readString (js_get overrides ''credentialEnv''),
          s_hermesAuthMethod = readHermesAuthMethod (js_get overrides ''hermesAuthMethod''),
          s_preferredInferenceApi = readString (js_get overrides ''preferredInferenceApi''),
          s_compatibleEndpointReasoning =
            readString (js_get overrides ''compatibleEndpointReasoning''),
          s_compatibleEndpointReasoningEffort =
            normalizeReasoningEffort (js_get overrides ''compatibleEndpointReasoningEffort''),
          s_nimContainer = readString (js_get overrides ''nimContainer''),
          s_routerPid = readPositiveInteger (js_get overrides ''routerPid''),
          s_routerCredentialHash = readString (js_get overrides ''routerCredentialHash''),
          s_webSearchConfig = normalizeWebSearchConfig (js_get overrides ''webSearchConfig''),
          s_sandboxPromptProgress =
            parseSandboxPromptProgress env (js_get overrides ''sandboxPromptProgress'') overrides,
          s_resourceProfile = parseSessionResourceProfile (js_get overrides ''resourceProfile''),
          s_toolDisclosure = toolDisclosureOrDefault (js_get overrides ''toolDisclosure''),
          s_observabilityEnabled = (js_get overrides ''observabilityEnabled'' = JBool True),
          s_observabilityRequestedExplicitly =
            (js_get overrides ''observabilityRequestedExplicitly'' = JBool True),
          s_hermesToolGateways = readStringList (js_get overrides ''hermesToolGateways''),
          s_policyPresets = readStringList (js_get overrides ''policyPresets''),
          s_messagingPlan = env_parsePlan env (js_get overrides ''messagingPlan''),
          s_stagedCredentialProviders =
            nullish [] (readStringList (js_get overrides ''stagedCredentialProviders'')),
          s_migratedLegacyValueHashes =
            readStringRecord (js_get overrides ''migratedLegacyValueHashes''),
          s_gpuPassthrough = (js_get overrides ''gpuPassthrough'' = JBool True),
          s_telegramConfig = parseTelegramConfig (js_get overrides ''telegramConfig''),
          s_wechatConfig = parseWechatConfig (js_get overrides ''wechatConfig''),
          s_metadata =
            \<lparr>md_gatewayName = nullish ''nemoclaw'' (readString (js_get metadata ''gatewayName'')),
             md_fromDockerfile = readString (js_get metadata ''fromDockerfile'')\<rparr>,
          s_machine =
            nullish (createMachineSnapshot Init (Some startedAt) 0)
              (parseMachineSnapshot env (js_get overrides ''machine'') sessionId),
          s_checkpoint = parseStoredCheckpoint env (js_get overrides ''checkpoint''),
          s_steps =
            merge_steps step_of_js (\<lambda>_. True) defaultSteps (js_get overrides ''steps''),
          s_invalidToolDisclosure =
            invalidRecordedToolDisclosure (js_get overrides ''toolDisclosure'')\<rparr>)"

section \<open>Normalizing a session\<close>

text \<open>\<open>hasOwn(data, key) && data[key] !== null && !parsed\<close>: a stored value that does not parse.\<close>

definition unreadable :: "js \<Rightarrow> string \<Rightarrow> 'a option \<Rightarrow> bool" where
  "unreadable data key parsed = (hasOwn data key \<and> js_get data key \<noteq> JNull \<and> parsed = None)"

text \<open>An absent member (\<open>undefined\<close>) rather than \<open>null\<close>.\<close>

definition js_or_undef :: "('a \<Rightarrow> js) \<Rightarrow> 'a option \<Rightarrow> js" where
  "js_or_undef w x = (case x of None \<Rightarrow> JUndef | Some a \<Rightarrow> w a)"

definition normalized_overrides :: "session_env \<Rightarrow> nat \<Rightarrow> js \<Rightarrow> js" where
  "normalized_overrides env t data =
     JObj
      [(''sessionId'', js_or_undef JStr (readString (js_get data ''sessionId''))),
       (''mode'', js_or_undef JStr (readString (js_get data ''mode''))),
       (''startedAt'', js_or_undef JStr (readString (js_get data ''startedAt''))),
       (''updatedAt'', js_or_undef JStr (readString (js_get data ''updatedAt''))),
       (''agent'', js_opt JStr (readString (js_get data ''agent''))),
       (''sandboxName'', js_opt JStr (readString (js_get data ''sandboxName''))),
       (''provider'', js_opt JStr (readString (js_get data ''provider''))),
       (''model'', js_opt JStr (readString (js_get data ''model''))),
       (''servingProfileProvenance'',
          js_opt id (parseServingProfileProvenance (js_get data ''servingProfileProvenance''))),
       (''stationExpressIntent'',
          js_opt express_intent_to_js
            (parseStationExpressResumeIntent (env_catalog env)
              (js_get data ''stationExpressIntent''))),
       (''stationExpressReceiptRetirement'',
          js_opt JStr
            (read_text (is_hex_string 32) (js_get data ''stationExpressReceiptRetirement''))),
       (''endpointUrl'', js_opt JStr (redactUrl env (js_get data ''endpointUrl''))),
       (''credentialEnv'', js_opt JStr (readString (js_get data ''credentialEnv''))),
       (''hermesAuthMethod'',
          js_opt (\<lambda>m. JStr (hermes_auth_id m))
            (readHermesAuthMethod (js_get data ''hermesAuthMethod''))),
       (''preferredInferenceApi'', js_opt JStr (readString (js_get data ''preferredInferenceApi''))),
       (''compatibleEndpointReasoning'',
          js_opt JStr (readString (js_get data ''compatibleEndpointReasoning''))),
       (''compatibleEndpointReasoningEffort'',
          js_opt (\<lambda>e. JStr (effort_id e))
            (normalizeReasoningEffort (js_get data ''compatibleEndpointReasoningEffort''))),
       (''nimContainer'', js_opt JStr (readString (js_get data ''nimContainer''))),
       (''routerPid'',
          js_opt (\<lambda>n. JNum (NInt n)) (readPositiveInteger (js_get data ''routerPid''))),
       (''routerCredentialHash'', js_opt JStr (readString (js_get data ''routerCredentialHash''))),
       (''webSearchConfig'',
          js_opt web_search_config_to_js (parseWebSearchConfig (js_get data ''webSearchConfig''))),
       (''sandboxPromptProgress'',
          progress_to_js
            (parseSandboxPromptProgress env (js_get data ''sandboxPromptProgress'') data)),
       (''resourceProfile'',
          js_opt resource_to_js (parseSessionResourceProfile (js_get data ''resourceProfile''))),
       (''toolDisclosure'',
          JStr (disclosure_id (toolDisclosureOrDefault (js_get data ''toolDisclosure'')))),
       (''observabilityEnabled'', JBool (js_get data ''observabilityEnabled'' = JBool True)),
       (''observabilityRequestedExplicitly'',
          JBool (js_get data ''observabilityRequestedExplicitly'' = JBool True)),
       (''hermesToolGateways'',
          js_opt (write_array JStr) (readStringList (js_get data ''hermesToolGateways''))),
       (''policyPresets'', js_opt (write_array JStr) (readStringList (js_get data ''policyPresets''))),
       (''messagingPlan'', js_opt id (env_parsePlan env (js_get data ''messagingPlan''))),
       (''stagedCredentialProviders'',
          write_array JStr (nullish [] (readStringList (js_get data ''stagedCredentialProviders'')))),
       (''migratedLegacyValueHashes'',
          js_opt string_record_to_js (readStringRecord (js_get data ''migratedLegacyValueHashes''))),
       (''gpuPassthrough'', JBool (js_get data ''gpuPassthrough'' = JBool True)),
       (''telegramConfig'',
          js_opt telegram_to_js (parseTelegramConfig (js_get data ''telegramConfig''))),
       (''wechatConfig'', js_opt wechat_to_js (parseWechatConfig (js_get data ''wechatConfig''))),
       (''lastStepStarted'', js_opt JStr (readString (js_get data ''lastStepStarted''))),
       (''lastCompletedStep'', js_opt JStr (readString (js_get data ''lastCompletedStep''))),
       (''failure'',
          js_opt failure_to_js (sanitizeFailure env (env_clock env t) (js_get data ''failure''))),
       (''metadata'', js_or_undef metadata_to_js (parseSessionMetadata (js_get data ''metadata''))),
       (''checkpoint'', js_get data ''checkpoint'')]"

definition express_status_ok :: "js \<Rightarrow> session \<Rightarrow> bool" where
  "express_status_ok data s =
     (s_stationExpressIntent s = None
      \<or> js_get data ''resumable'' = JBool True \<and> s_mode s = ''non-interactive''
        \<and> (js_get data ''status'' = JStr ''in_progress'' \<or> js_get data ''status'' = JStr ''failed''))"

definition retirement_ok :: "session \<Rightarrow> bool" where
  "retirement_ok s =
     (s_stationExpressReceiptRetirement s = None
      \<or> s_status s = ''complete'' \<and> \<not> s_resumable s \<and> s_stationExpressIntent s = None)"

definition step_complete :: "session \<Rightarrow> string \<Rightarrow> bool" where
  "step_complete s name = (map_option st_status (map_of (s_steps s) name) = Some StComplete)"

definition intent_bound :: "express_intent \<Rightarrow> bool" where
  "intent_bound i =
     (case i of
        SparkIntent _ _ \<Rightarrow> False
      | StationIntent _ _ _ served ckpt \<Rightarrow> truthy served \<and> truthy ckpt)"

definition express_provider_ok :: "session \<Rightarrow> bool" where
  "express_provider_ok s =
     (case s_stationExpressIntent s of
        None \<Rightarrow> True
      | Some intent \<Rightarrow>
          (let providerComplete = step_complete s ''provider_selection'' in
           \<not> (providerComplete \<noteq> intent_bound intent
              \<or> providerComplete
                \<and> (case intent of
                     SparkIntent _ _ \<Rightarrow> True
                   | StationIntent _ _ _ served _ \<Rightarrow>
                       s_provider s \<noteq> Some ''vllm-local'' \<or> s_model s \<noteq> served)
              \<or> \<not> providerComplete \<and> (s_provider s \<noteq> None \<or> s_model s \<noteq> None))))"

definition normalizeSession :: "session_env \<Rightarrow> nat \<Rightarrow> bool \<Rightarrow> js \<Rightarrow> session option" where
  "normalizeSession env t invalidSource data =
     (if \<not> isObjectRecord data \<or> js_get data ''version'' \<noteq> JNum (NInt SESSION_VERSION) then None
      else if unreadable data ''servingProfileProvenance''
                (parseServingProfileProvenance (js_get data ''servingProfileProvenance''))
      then None
      else if unreadable data ''compatibleEndpointReasoningEffort''
                (normalizeReasoningEffort (js_get data ''compatibleEndpointReasoningEffort''))
      then None
      else if unreadable data ''stationExpressIntent''
                (parseStationExpressResumeIntent (env_catalog env)
                   (js_get data ''stationExpressIntent''))
      then None
      else if unreadable data ''stationExpressReceiptRetirement''
                (read_text (is_hex_string 32) (js_get data ''stationExpressReceiptRetirement''))
      then None
      else
        let created = createSession env (Suc t) (normalized_overrides env t data);
            normalized = created
              \<lparr>s_resumable := (js_get data ''resumable'' \<noteq> JBool False),
               s_status := nullish (s_status created) (readString (js_get data ''status''))\<rparr>
        in if \<not> express_status_ok data normalized then None
           else if \<not> retirement_ok normalized then None
           else
             let stepped = normalized
                   \<lparr>s_steps := (if isObjectRecord (js_get data ''steps'')
                                then merge_steps (parseStepState env)
                                       (\<lambda>n. map_of (s_steps normalized) n \<noteq> None)
                                       (s_steps normalized) (js_get data ''steps'')
                                else s_steps normalized)\<rparr>
             in if \<not> express_provider_ok stepped then None
                else
                  Some (stepped
                    \<lparr>s_machine := nullish (inferMachineSnapshot stepped)
                       (parseMachineSnapshot env (js_get data ''machine'') (s_sessionId stepped)),
                     s_invalidToolDisclosure :=
                       s_invalidToolDisclosure stepped \<or> invalidSource
                       \<or> invalidRecordedToolDisclosure (js_get data ''toolDisclosure'')\<rparr>))"

end
