(* ===== verification/Onboard_Runner.thy ===== *)
theory Onboard_Runner
  imports Session_Model
begin

text \<open>
  The generic runner (\<open>src/lib/onboard/machine/runner.ts\<close>), the sequence adapter
  (\<open>sequence-runner.ts\<close>) and the flow slices (\<open>flow-slices.ts\<close>). The runner sees the runtime only
  through \<open>session\<close> and \<open>applyResult\<close>; handlers, runtime and world are parameters of the
  definitions.

  The locale \<open>machine_runtime\<close> states what the runner needs of the runtime; its lemmas show that
  every run is a path of the transition graph, that it stops only where it may, and that it
  applies no more results than the transition limit.
\<close>

section \<open>Runner (runner.ts)\<close>

type_synonym ('w, 'a) action = "(onboard_error, 'w, 'a) eff"

record ('c, 'w) runner_options =
  ro_session :: "('w, session) action"
  ro_applyResult :: "onboard_result \<Rightarrow> ('w, session) action"
  ro_handlers :: "machine_state \<Rightarrow> ('c \<Rightarrow> ('w, onboard_result list) action) option"
  ro_maxTransitions :: "int option"
  ro_sequenceOwnership :: "machine_state \<Rightarrow> machine_state list option"
  ro_stopStates :: "machine_state list"
  ro_updateContext :: "'c \<Rightarrow> machine_state \<Rightarrow> onboard_result \<Rightarrow> session \<Rightarrow> ('w, 'c) action"

definition DEFAULT_MAX_TRANSITIONS :: nat where
  "DEFAULT_MAX_TRANSITIONS = 100"

definition DEFAULT_SEQUENCE_OWNERSHIP :: "machine_state \<Rightarrow> machine_state list option" where
  "DEFAULT_SEQUENCE_OWNERSHIP s = (if s = ProviderSelection then Some [Inference] else None)"

text \<open>\<open>None\<close> is \<open>undefined\<close> or a number that is not finite; a finite number is given truncated.\<close>

definition normalizeMaxTransitions :: "int option \<Rightarrow> nat" where
  "normalizeMaxTransitions v =
     (case v of None \<Rightarrow> DEFAULT_MAX_TRANSITIONS | Some n \<Rightarrow> nat (max 1 n))"

definition resultSourceState :: "onboard_result \<Rightarrow> string option" where
  "resultSourceState r = js_string (js_get (rs_metadata r) ''state'')"

definition assertResultSourceState ::
  "onboard_result \<Rightarrow> machine_state \<Rightarrow> nat \<Rightarrow> bool \<Rightarrow> onboard_error + machine_state option" where
  "assertResultSourceState result currentState resultIndex requireSourceState =
     (let sourceState = resultSourceState result in
      if \<not> truthy sourceState then
        (if requireSourceState then Inl (ResultSequenceSource currentState resultIndex sourceState)
         else Inr None)
      else if sourceState \<noteq> Some (state_id currentState)
      then Inl (ResultSequenceSource currentState resultIndex sourceState)
      else Inr (Some currentState))"

definition sequenceSourceStatesForHandler ::
  "machine_state \<Rightarrow> (machine_state \<Rightarrow> machine_state list option) \<Rightarrow> machine_state list" where
  "sequenceSourceStatesForHandler handlerState ownership =
     handlerState # nullish [] (ownership handlerState)"

definition assertSequenceOwnership ::
  "machine_state \<Rightarrow> machine_state \<Rightarrow> machine_state list \<Rightarrow> nat \<Rightarrow> onboard_error + unit" where
  "assertSequenceOwnership sourceState handlerState allowed resultIndex =
     (if sourceState \<in> set allowed then Inr ()
      else Inl (ResultSequenceOwnership allowed handlerState resultIndex sourceState))"

definition merged_ownership ::
  "(machine_state \<Rightarrow> machine_state list option) \<Rightarrow> machine_state \<Rightarrow> machine_state list option" where
  "merged_ownership custom s = coalesce (custom s) (DEFAULT_SEQUENCE_OWNERSHIP s)"

definition session_state :: "session \<Rightarrow> machine_state" where
  "session_state s = ms_state (s_machine s)"

definition at_rest :: "('c, 'w) runner_options \<Rightarrow> session \<Rightarrow> bool" where
  "at_rest opts s =
     (isTerminalOnboardMachineState (session_state s) \<or> session_state s \<in> set (ro_stopStates opts))"

fun pauses :: "onboard_result \<Rightarrow> bool" where
  "pauses (PauseResult _ _) = True"
| "pauses _ = False"

text \<open>The checks made on one result before it is applied.\<close>

definition check_sequence_result ::
  "('c, 'w) runner_options \<Rightarrow> machine_state \<Rightarrow> bool \<Rightarrow> nat \<Rightarrow> onboard_result \<Rightarrow> machine_state
     \<Rightarrow> onboard_error + unit" where
  "check_sequence_result opts handlerState requireSourceState i result resultState =
     (case assertResultSourceState result resultState i requireSourceState of
        Inl e \<Rightarrow> Inl e
      | Inr source \<Rightarrow>
          (case source of
             Some src \<Rightarrow>
               if requireSourceState
               then assertSequenceOwnership src handlerState
                      (sequenceSourceStatesForHandler handlerState
                        (merged_ownership (ro_sequenceOwnership opts))) i
               else Inr ()
           | None \<Rightarrow> Inr ()))"

text \<open>
  The loop over the results of one handler. It returns whether a pause ended the run, with the
  context, the session and the number of results applied so far.
\<close>

fun apply_results ::
  "('c, 'w) runner_options \<Rightarrow> nat \<Rightarrow> machine_state \<Rightarrow> bool \<Rightarrow> nat \<Rightarrow> onboard_result list
     \<Rightarrow> 'c \<Rightarrow> session \<Rightarrow> nat \<Rightarrow> ('w, bool \<times> 'c \<times> session \<times> nat) action" where
  "apply_results opts limit handlerState req i [] ctx s k = ret (False, ctx, s, k)"
| "apply_results opts limit handlerState req i (r # rs) ctx s k =
     (if k \<ge> limit then throw (OnboardMachineTransitionLimit (int limit))
      else
        bind (lift_res (check_sequence_result opts handlerState req i r (session_state s))) (\<lambda>_.
        bind (ro_applyResult opts r) (\<lambda>s'.
        bind (ro_updateContext opts ctx (session_state s) r s') (\<lambda>ctx'.
          if pauses r then ret (True, ctx', s', Suc k)
          else if at_rest opts s' then ret (False, ctx', s', Suc k)
          else apply_results opts limit handlerState req (Suc i) rs ctx' s' (Suc k)))))"

lemma apply_results_count:
  "apply_results opts limit h req i rs ctx s k w = (Inr (p, ctx', s', k'), w') \<Longrightarrow>
     k + (if rs = [] then 0 else 1) \<le> k'"
proof (induction opts limit h req i rs ctx s k arbitrary: w rule: apply_results.induct)
  case (2 opts limit h req i r rs ctx s k)
  then show ?case by (fastforce split: if_splits)
qed simp

text \<open>The outer loop: ask the handler of the current state, apply what it returns.\<close>

function run_loop ::
  "('c, 'w) runner_options \<Rightarrow> nat \<Rightarrow> 'c \<Rightarrow> session \<Rightarrow> nat \<Rightarrow> ('w, 'c \<times> session) action" where
  "run_loop opts limit ctx s k w =
     (if at_rest opts s then (Inr (ctx, s), w)
      else if k \<ge> limit then (Inl (OnboardMachineTransitionLimit (int limit)), w)
      else case ro_handlers opts (session_state s) of
             None \<Rightarrow> (Inl (MissingOnboardStateHandler (session_state s)), w)
           | Some handler \<Rightarrow>
               (case handler ctx w of
                  (Inl e, w1) \<Rightarrow> (Inl e, w1)
                | (Inr results, w1) \<Rightarrow>
                    if results = []
                    then (Inl (EmptyOnboardStateHandlerResult (session_state s)), w1)
                    else
                      (case apply_results opts limit (session_state s) (length results > 1) 0
                              results ctx s k w1 of
                         (Inl e, w2) \<Rightarrow> (Inl e, w2)
                       | (Inr (paused, ctx', s', k'), w2) \<Rightarrow>
                           if paused then (Inr (ctx', s'), w2)
                           else run_loop opts limit ctx' s' k' w2)))"
  by pat_completeness auto

termination run_loop
proof (relation "measure (\<lambda>(opts, limit, ctx, s, k, w). limit - k)")
  fix opts :: "('c, 'w) runner_options" and limit k k' :: nat and ctx ctx' :: 'c
    and s s' :: session and w w1 w2 :: 'w and handler results e paused p1 p2 p3 p4 r1 r2
  assume "\<not> limit \<le> k" "results \<noteq> []"
    and "(r1, r2) = apply_results opts limit (session_state s) (1 < length results) 0 results ctx s k w1"
    and "r1 = Inr p1" "(paused, p2) = p1" "(ctx', p3) = p2" "(s', k') = p3"
  then show "((opts, limit, ctx', s', k', r2), opts, limit, ctx, s, k, w)
      \<in> measure (\<lambda>(opts, limit, ctx, s, k, w). limit - k)"
    using apply_results_count [of opts limit "session_state s" "1 < length results" 0 results ctx s k w1
        paused ctx' s' k' r2] by auto
qed simp

declare run_loop.simps [simp del]

definition runOnboardMachine :: "('c, 'w) runner_options \<Rightarrow> 'c \<Rightarrow> ('w, 'c \<times> session) action" where
  "runOnboardMachine opts ctx =
     bind (ro_session opts) (\<lambda>s.
       run_loop opts (normalizeMaxTransitions (ro_maxTransitions opts)) ctx s 0)"

section \<open>What the runner needs of the runtime\<close>

text \<open>An action that leaves the machine where it is.\<close>

definition leaves_machine ::
  "('w \<Rightarrow> bool) \<Rightarrow> ('w \<Rightarrow> machine_state) \<Rightarrow> ('w, 'a) action \<Rightarrow> bool" where
  "leaves_machine okay state_of m =
     (\<forall>w x w'. okay w \<longrightarrow> m w = (x, w') \<longrightarrow> okay w' \<and> state_of w' = state_of w)"

text \<open>An action that never raises a given error; nobody but the runner raises its limit.\<close>

definition avoids :: "onboard_error \<Rightarrow> ('w, 'a) action \<Rightarrow> bool" where
  "avoids e m = (\<forall>w w'. m w \<noteq> (Inl e, w'))"

lemma avoids_ret: "avoids e (ret a)"
  by (simp add: avoids_def)

lemma avoids_throw: "e \<noteq> e' \<Longrightarrow> avoids e (throw e')"
  by (simp add: avoids_def)

lemma avoids_lift: "r \<noteq> Inl e \<Longrightarrow> avoids e (lift_res r)"
  by (simp add: avoids_def)

lemma avoids_bind: "avoids e m \<Longrightarrow> (\<And>a. avoids e (f a)) \<Longrightarrow> avoids e (bind m f)"
  by (auto simp: avoids_def bind_eq_Inl)

lemmas avoids_intros = avoids_ret avoids_throw avoids_lift avoids_bind

text \<open>The handlers and the context update work beside the machine, not on it.\<close>

definition quiet ::
  "('w \<Rightarrow> bool) \<Rightarrow> ('w \<Rightarrow> machine_state) \<Rightarrow> ('c, 'w) runner_options \<Rightarrow> bool" where
  "quiet okay state_of opts =
     ((\<forall>st h ctx. ro_handlers opts st = Some h \<longrightarrow> leaves_machine okay state_of (h ctx))
      \<and> (\<forall>ctx st r s. leaves_machine okay state_of (ro_updateContext opts ctx st r s)))"

definition limitless :: "int \<Rightarrow> ('c, 'w) runner_options \<Rightarrow> bool" where
  "limitless n opts =
     (let e = OnboardMachineTransitionLimit n in
      (\<forall>r. avoids e (ro_applyResult opts r))
      \<and> (\<forall>ctx st r s. avoids e (ro_updateContext opts ctx st r s))
      \<and> (\<forall>st h ctx. ro_handlers opts st = Some h \<longrightarrow> avoids e (h ctx)))"

definition unpaused :: "('c, 'w) runner_options \<Rightarrow> bool" where
  "unpaused opts =
     (\<forall>st h ctx w rs w'. ro_handlers opts st = Some h \<longrightarrow> h ctx w = (Inr rs, w') \<longrightarrow>
        list_all (\<lambda>r. \<not> pauses r) rs)"

locale machine_runtime =
  fixes okay :: "'w \<Rightarrow> bool"
    and state_of :: "'w \<Rightarrow> machine_state"
    and sess :: "('w, session) action"
    and app :: "onboard_result \<Rightarrow> ('w, session) action"
  assumes sess_quiet: "okay w \<Longrightarrow> sess w = (x, w') \<Longrightarrow> okay w' \<and> state_of w' = state_of w"
    and sess_state: "okay w \<Longrightarrow> sess w = (Inr s, w') \<Longrightarrow> session_state s = state_of w'"
    and app_state: "okay w \<Longrightarrow> app r w = (Inr s, w') \<Longrightarrow> okay w' \<and> session_state s = state_of w'"
    and app_pause: "okay w \<Longrightarrow> app r w = (Inr s, w') \<Longrightarrow> pauses r \<Longrightarrow> state_of w' = state_of w"
    and app_edge: "okay w \<Longrightarrow> app r w = (Inr s, w') \<Longrightarrow> \<not> pauses r \<Longrightarrow>
           canTransitionOnboardMachineState (state_of w) (state_of w')"
    and app_error: "okay w \<Longrightarrow> app r w = (Inl e, w') \<Longrightarrow>
           okay w' \<and> (state_of w' = state_of w
                     \<or> canTransitionOnboardMachineState (state_of w) (state_of w'))"
begin

text \<open>
  The path a stretch of the run takes: the states it enters, with the count of applied results
  before (\<open>k\<close>) and after (\<open>k'\<close>); a pause counts as applied but enters no state.
\<close>

definition path :: "'w \<Rightarrow> machine_state list \<Rightarrow> 'w \<Rightarrow> bool" where
  "path w ts w' =
     (okay w' \<and> run_from canTransitionOnboardMachineState (state_of w) ts
      \<and> last (state_of w # ts) = state_of w')"

lemma path_refl: "okay w' \<Longrightarrow> state_of w' = state_of w \<Longrightarrow> path w [] w'"
  by (simp add: path_def)

lemma path_edge:
  "okay w' \<Longrightarrow> canTransitionOnboardMachineState (state_of w) (state_of w') \<Longrightarrow>
     path w [state_of w'] w'"
  by (simp add: path_def)

lemma path_step:
  "canTransitionOnboardMachineState (state_of w) (state_of w1) \<Longrightarrow> path w1 ts w' \<Longrightarrow>
     path w (state_of w1 # ts) w'"
  by (simp add: path_def)

lemma path_same_start: "state_of w1 = state_of w \<Longrightarrow> path w1 ts w' = path w ts w'"
  by (simp add: path_def)

lemma run_from_append:
  "run_from step a (xs @ ys) \<longleftrightarrow> run_from step a xs \<and> run_from step (last (a # xs)) ys"
  by (induction xs arbitrary: a) auto

lemma path_append: "path w ts w1 \<Longrightarrow> path w1 us w' \<Longrightarrow> path w (ts @ us) w'"
  by (auto simp: path_def run_from_append split: if_splits)

text \<open>
  How a stretch of the run ends: on a pause or with the results used up, with the count of
  applied results that goes with the path; an exceeded limit means a path as long as the limit.
\<close>

fun ends_well ::
  "bool \<Rightarrow> nat \<Rightarrow> nat \<Rightarrow> onboard_result list \<Rightarrow> 'w \<Rightarrow> machine_state list
     \<Rightarrow> onboard_error + bool \<times> 'c \<times> session \<times> nat \<Rightarrow> bool" where
  "ends_well lim limit k rs w' ts (Inr (paused, ctx, s, k')) =
     (session_state s = state_of w' \<and> k' = k + length ts + (if paused then 1 else 0)
      \<and> k' \<le> limit \<and> (paused \<longrightarrow> list_ex pauses rs))"
| "ends_well lim limit k rs w' ts (Inl e) =
     (lim \<and> e = OnboardMachineTransitionLimit (int limit) \<longrightarrow> k + length ts = limit)"

definition stretch ::
  "bool \<Rightarrow> nat \<Rightarrow> nat \<Rightarrow> onboard_result list \<Rightarrow> 'w \<Rightarrow> onboard_error + bool \<times> 'c \<times> session \<times> nat
     \<Rightarrow> 'w \<Rightarrow> bool" where
  "stretch lim limit k rs w x w' =
     (\<exists>ts. path w ts w' \<and> k + length ts \<le> limit \<and> ends_well lim limit k rs w' ts x)"

lemma stretch_stop:
  "okay w' \<Longrightarrow> state_of w' = state_of w \<Longrightarrow> k \<le> limit \<Longrightarrow>
     lim \<and> e = OnboardMachineTransitionLimit (int limit) \<longrightarrow> k = limit \<Longrightarrow> stretch lim limit k rs w (Inl e) w'"
  by (auto simp: stretch_def intro!: exI [of _ "[]"] path_refl)

lemma stretch_path:
  "path w ts w' \<Longrightarrow> k + length ts \<le> limit \<Longrightarrow> ends_well lim limit k rs w' ts x \<Longrightarrow>
     stretch lim limit k rs w x w'"
  by (auto simp: stretch_def)

lemma stretch_step:
  assumes "path w [t] w2" "stretch lim limit (Suc k) rs w2 x w'"
  shows "stretch lim limit k (r # rs) w x w'"
proof -
  obtain ts where ts: "path w2 ts w'" "Suc k + length ts \<le> limit" "ends_well lim limit (Suc k) rs w' ts x"
    using assms(2) by (auto simp: stretch_def)
  have "path w (t # ts) w'" using path_append [OF assms(1) ts(1)] by simp
  moreover have "ends_well lim limit k (r # rs) w' (t # ts) x"
  proof (cases x)
    case (Inr p)
    then show ?thesis using ts(3) by (cases p) auto
  qed (use ts in auto)
  ultimately show ?thesis using ts(2) by (intro stretch_path) auto
qed

lemma action_cases:
  fixes m :: "('w, 'a) action"
  shows "(\<exists>e w'. m w = (Inl e, w')) \<or> (\<exists>a w'. m w = (Inr a, w'))"
  by (cases "m w"; cases "fst (m w)") auto

lemma check_cases:
  "(\<exists>e. check_sequence_result opts h req i r st = Inl e) \<or> check_sequence_result opts h req i r st = Inr ()"
  by (cases "check_sequence_result opts h req i r st") auto

lemma handler_quiet:
  "quiet okay state_of opts \<Longrightarrow> ro_handlers opts st = Some h \<Longrightarrow> okay w \<Longrightarrow> h ctx w = (y, w1) \<Longrightarrow>
     okay w1 \<and> state_of w1 = state_of w"
  unfolding quiet_def leaves_machine_def by blast

lemma handler_no_limit:
  "limitless n opts \<Longrightarrow> ro_handlers opts st = Some h \<Longrightarrow> h ctx w = (y, w1) \<Longrightarrow>
     y \<noteq> Inl (OnboardMachineTransitionLimit n)"
  unfolding limitless_def avoids_def Let_def by blast

lemma check_no_limit:
  "check_sequence_result opts h req i r st \<noteq> Inl (OnboardMachineTransitionLimit n)"
  by (auto simp: check_sequence_result_def assertResultSourceState_def Let_def
      assertSequenceOwnership_def split: if_splits sum.splits option.splits)

lemma applied_path:
  assumes "quiet okay state_of opts" "okay w" "app r w = (Inr s', w1)"
    and "ro_updateContext opts ctx st r s' w1 = (z, w2)"
  shows "okay w2" "session_state s' = state_of w2"
    "pauses r \<Longrightarrow> path w [] w2" "\<not> pauses r \<Longrightarrow> path w [state_of w2] w2"
proof -
  have w1: "okay w1" "session_state s' = state_of w1" using app_state assms(2,3) by auto
  then have w2: "okay w2" "state_of w2 = state_of w1"
    using assms(1,4) by (auto simp: quiet_def leaves_machine_def)
  then show "okay w2" "session_state s' = state_of w2" using w1 by auto
  show "pauses r \<Longrightarrow> path w [] w2" using w2 app_pause [OF assms(2,3)] by (simp add: path_def)
  show "\<not> pauses r \<Longrightarrow> path w [state_of w2] w2"
    using w2 app_edge [OF assms(2,3)] by (simp add: path_def)
qed

lemma apply_results_stretch:
  assumes "ro_applyResult opts = app" "quiet okay state_of opts" "lim = limitless (int limit) opts"
    and "okay w" "session_state s = state_of w" "k \<le> limit"
    and "apply_results opts limit h req i rs ctx s k w = (x, w')"
  shows "stretch lim limit k rs w x w'"
  using assms
proof (induction opts limit h req i rs ctx s k arbitrary: w rule: apply_results.induct)
  case (1 opts limit h req i ctx s k)
  then show ?case by (auto simp: stretch_def intro!: exI [of _ "[]"] path_refl)
next
  case (2 opts limit h req i r rs ctx s k)
  note prem = "2.prems"
  have quiet: "quiet okay state_of opts" and w: "okay w" and app: "ro_applyResult opts = app"
    using prem by auto
  note run = prem(7)
  have upd: "\<forall>s' w1. (\<exists>e w2. ro_updateContext opts ctx (session_state s) r s' w1 = (Inl e, w2))
      \<or> (\<exists>c w2. ro_updateContext opts ctx (session_state s) r s' w1 = (Inr c, w2))"
    using action_cases by blast
  consider (over) "limit \<le> k"
    | (refused) e where "\<not> limit \<le> k" "check_sequence_result opts h req i r (session_state s) = Inl e"
    | (error) e w1 where "\<not> limit \<le> k" "check_sequence_result opts h req i r (session_state s) = Inr ()"
        "app r w = (Inl e, w1)"
    | (update) e s' w1 w2 where "\<not> limit \<le> k"
        "check_sequence_result opts h req i r (session_state s) = Inr ()"
        "app r w = (Inr s', w1)" "ro_updateContext opts ctx (session_state s) r s' w1 = (Inl e, w2)"
    | (applied) ctx' s' w1 w2 where "\<not> limit \<le> k"
        "check_sequence_result opts h req i r (session_state s) = Inr ()"
        "app r w = (Inr s', w1)" "ro_updateContext opts ctx (session_state s) r s' w1 = (Inr ctx', w2)"
    using action_cases [of "app r" w] check_cases [of opts h req i r "session_state s"] upd
    by (cases "limit \<le> k") (blast, metis)
  then show ?case
  proof cases
    case over
    with run w prem(6) show ?thesis by (auto intro!: stretch_stop)
  next
    case refused
    with run w show ?thesis by (auto simp: bind_def check_no_limit intro!: stretch_stop)
  next
    case error
    then have "lim \<Longrightarrow> e \<noteq> OnboardMachineTransitionLimit (int limit)"
      using prem(3) app by (auto simp: limitless_def avoids_def Let_def)
    moreover obtain ts where "path w ts w1" "length ts \<le> 1"
      using app_error [OF w error(3)] path_refl [of w1 w] path_edge [of w1 w] by fastforce
    moreover have "x = Inl e" "w' = w1" using run app error by (auto simp: bind_def)
    ultimately show ?thesis using error(1) by (auto intro!: stretch_path [of w ts])
  next
    case update
    then have "lim \<Longrightarrow> e \<noteq> OnboardMachineTransitionLimit (int limit)"
      using prem(3) by (auto simp: limitless_def avoids_def Let_def)
    moreover have "x = Inl e" "w' = w2" using run app update by (auto simp: bind_def)
    ultimately show ?thesis
      using applied_path(3,4) [OF quiet w update(3,4)] update(1)
      by (cases "pauses r") (auto intro!: stretch_path)
  next
    case applied
    note w2 = applied_path [OF quiet w applied(3,4)]
    show ?thesis
    proof (cases "pauses r \<or> at_rest opts s'")
      case True
      then have "x = Inr (pauses r, ctx', s', Suc k)" "w' = w2"
        using run app applied by (auto simp: bind_def split: if_splits)
      then show ?thesis using w2 applied(1) by (cases "pauses r") (auto intro: stretch_path)
    next
      case False
      then have "apply_results opts limit h req (Suc i) rs ctx' s' (Suc k) w2 = (x, w')"
        using run app applied by (auto simp: bind_def)
      then have "stretch lim limit (Suc k) rs w2 x w'"
        using applied(1) False by (intro "2.IH") (use prem w2 in auto)
      then show ?thesis using w2(4) False by (auto intro: stretch_step)
    qed
  qed
qed

text \<open>The whole loop, in the same terms.\<close>

fun run_outcome ::
  "('c, 'w) runner_options \<Rightarrow> nat \<Rightarrow> nat \<Rightarrow> 'w \<Rightarrow> machine_state list
     \<Rightarrow> onboard_error + 'c \<times> session \<Rightarrow> bool" where
  "run_outcome opts limit k w' ts (Inr (ctx, s)) =
     (session_state s = state_of w' \<and> (unpaused opts \<longrightarrow> at_rest opts s))"
| "run_outcome opts limit k w' ts (Inl e) =
     (limitless (int limit) opts \<and> e = OnboardMachineTransitionLimit (int limit) \<longrightarrow> k + length ts = limit)"

lemma run_outcome_shift:
  "run_outcome opts limit (k + length ts) w' us x \<Longrightarrow> run_outcome opts limit k w' (ts @ us) x"
  by (cases "(opts, limit, k, w', us, x)" rule: run_outcome.cases) auto

lemma run_loop_path:
  assumes "ro_applyResult opts = app" "quiet okay state_of opts"
    and "okay w" "session_state s = state_of w" "k \<le> limit"
    and "run_loop opts limit ctx s k w = (x, w')"
  shows "\<exists>ts. path w ts w' \<and> k + length ts \<le> limit \<and> run_outcome opts limit k w' ts x"
  using assms
proof (induction opts limit ctx s k w rule: run_loop.induct)
  case (1 opts limit ctx s k w)
  note prem = "1.prems"
  note run = prem(6) [unfolded run_loop.simps [of opts limit ctx s k w]]
  let ?st = "session_state s"
  have stop: "path w [] w" using prem(3) by (simp add: path_refl)
  consider (rest) "at_rest opts s" | (over) "\<not> at_rest opts s" "limit \<le> k"
    | (missing) "\<not> at_rest opts s" "\<not> limit \<le> k" "ro_handlers opts ?st = None"
    | (handler) h where "\<not> at_rest opts s" "\<not> limit \<le> k" "ro_handlers opts ?st = Some h"
    by (cases "ro_handlers opts ?st") blast+
  then show ?case
  proof cases
    case rest
    then have "x = Inr (ctx, s)" "w' = w" using run by auto
    then show ?thesis using stop prem(4,5) rest by (intro exI [of _ "[]"]) auto
  next
    case over
    then have "x = Inl (OnboardMachineTransitionLimit (int limit))" "w' = w" using run by auto
    then show ?thesis using stop prem(5) over by (intro exI [of _ "[]"]) auto
  next
    case missing
    then have "x = Inl (MissingOnboardStateHandler ?st)" "w' = w" using run by auto
    then show ?thesis using stop prem(5) by (intro exI [of _ "[]"]) auto
  next
    case handler
    obtain y w1 where "h ctx w = (y, w1)" by (cases "h ctx w")
    note handled = handler this
    have w1: "okay w1" "state_of w1 = state_of w"
      using handler_quiet [OF prem(2) handled(3) prem(3) handled(4)] by auto
    have nolimit: "limitless (int limit) opts \<Longrightarrow> y \<noteq> Inl (OnboardMachineTransitionLimit (int limit))"
      by (rule handler_no_limit [OF _ handled(3,4)])
    show ?thesis
    proof (cases "y = Inr [] \<or> isl y")
      case True
      then obtain e where "x = Inl e" "w' = w1"
          "limitless (int limit) opts \<Longrightarrow> e \<noteq> OnboardMachineTransitionLimit (int limit)"
        using run handled nolimit by (cases y) auto
      then show ?thesis using w1 prem(5) by (intro exI [of _ "[]"]) (auto intro: path_refl)
    next
      case False
      then obtain rs where rs: "y = Inr rs" "rs \<noteq> []" by (cases y) auto
      obtain z w2 where z: "apply_results opts limit ?st (1 < length rs) 0 rs ctx s k w1 = (z, w2)"
        by fastforce
      have "stretch (limitless (int limit) opts) limit k rs w1 z w2"
        by (rule apply_results_stretch [OF prem(1,2) refl w1(1) _ prem(5) z]) (use w1 prem(4) in simp)
      then obtain ts where ts: "path w ts w2" "k + length ts \<le> limit" 
          "ends_well (limitless (int limit) opts) limit k rs w2 ts z"
        using path_same_start [OF w1(2)] by (auto simp: stretch_def)
      show ?thesis
      proof (cases z)
        case (Inl e)
        then have "x = Inl e" "w' = w2" using run handled rs z by auto
        then show ?thesis using ts Inl by (intro exI [of _ ts]) auto
      next
        case (Inr p)
        obtain pa ctx' s' k' where p: "p = (pa, ctx', s', k')" by (cases p)
        show ?thesis
        proof (cases pa)
          case True
          then have "x = Inr (ctx', s')" "w' = w2" using run handled rs z Inr p by auto
          moreover have "\<not> unpaused opts"
            using ts(3) Inr p True handled(3,4) rs
            by (fastforce simp: unpaused_def list_ex_iff list_all_iff)
          ultimately show ?thesis using ts Inr p by (intro exI [of _ ts]) auto
        next
          case False
          then have go: "run_loop opts limit ctx' s' k' w2 = (x, w')"
            using run handled rs z Inr p by auto
          have k': "k' = k + length ts" "k' \<le> limit" "session_state s' = state_of w2"
            using ts(3) Inr p False by auto
          have "okay w2" using ts(1) by (simp add: path_def)
          then obtain us where us: "path w2 us w'" "k' + length us \<le> limit"
              "run_outcome opts limit k' w' us x"
            using "1.IH" [OF handled(1,2,3) handled(4) [symmetric] rs(1) rs(2) z [symmetric] Inr p [symmetric] refl refl]
              False prem(1,2) k'(2,3) go by auto
          show ?thesis
            using path_append [OF ts(1) us(1)] us k'(1) run_outcome_shift
            by (intro exI [of _ "ts @ us"]) auto
        qed
      qed
    qed
  qed
qed

end

end
