(* ===== verification/Onboard_Flow.thy ===== *)
theory Onboard_Flow
  imports Onboard_Runner
begin

text \<open>
  The onboarding flow on top of the runner: the sequence adapter (\<open>sequence-runner.ts\<close>), the flow
  slices (\<open>flow-slices.ts\<close>), the prerequisite repairs (\<open>prerequisite-repair.ts\<close>) and the entry
  points of the initial, core and final slice (\<open>initial-flow-phases.ts\<close>,
  \<open>core-flow-phases.ts\<close>, \<open>final-flow-phases.ts\<close>), with the handoffs between them
  (\<open>flow-handoff.ts\<close>). A phase is a state with an action that returns the next context and the
  results to apply; what the actions do is a parameter.

  The adapter keeps the context a phase returned in a variable until the runner asks for it:
  the world of its run is the caller's world with that variable. The heartbeat that
  \<open>phase-progress.ts\<close> wraps around a phase only writes progress lines and is left out; it changes
  neither the state nor the outcome of the phase.
\<close>

section \<open>Sequence adapter (sequence-runner.ts)\<close>

record 'w runner_runtime =
  rr_session :: "('w, session) action"
  rr_applyResult :: "onboard_result \<Rightarrow> ('w, session) action"

record ('c, 'w) sequence_phase =
  ph_state :: machine_state
  ph_run :: "'c \<Rightarrow> ('w, 'c \<times> onboard_result list) action"

definition beside :: "('w, 'a) action \<Rightarrow> ('w \<times> 'p, 'a) action" where
  "beside m wp = (case m (fst wp) of (x, w') \<Rightarrow> (x, (w', snd wp)))"

definition phase_handler ::
  "('c, 'w) sequence_phase \<Rightarrow> 'c \<Rightarrow> ('w \<times> 'c, onboard_result list) action" where
  "phase_handler phase ctx =
     bind (beside (ph_run phase ctx)) (\<lambda>(ctx', result) wp. (Inr result, (fst wp, ctx')))"

type_synonym ('c, 'w) handlers =
  "machine_state \<Rightarrow> ('c \<Rightarrow> ('w, onboard_result list) action) option"

fun add_phases ::
  "('c, 'w \<times> 'c) handlers \<Rightarrow> ('c, 'w) sequence_phase list
     \<Rightarrow> onboard_error + ('c, 'w \<times> 'c) handlers" where
  "add_phases handlers [] = Inr handlers"
| "add_phases handlers (phase # phases) =
     (if handlers (ph_state phase) \<noteq> None then Inl (DuplicateOnboardSequencePhase (ph_state phase))
      else add_phases (handlers(ph_state phase \<mapsto> phase_handler phase)) phases)"

definition buildOnboardSequenceHandlers ::
  "('c, 'w) sequence_phase list \<Rightarrow> onboard_error + ('c, 'w \<times> 'c) handlers" where
  "buildOnboardSequenceHandlers phases = add_phases (\<lambda>_. None) phases"

record sequence_options =
  so_maxTransitions :: "int option"
  so_sequenceOwnership :: "machine_state \<Rightarrow> machine_state list option"
  so_stopStates :: "machine_state list"

definition sequence_runner ::
  "'w runner_runtime \<Rightarrow> sequence_options \<Rightarrow> ('c, 'w \<times> 'c) handlers
     \<Rightarrow> ('c, 'w \<times> 'c) runner_options" where
  "sequence_runner rt so handlers =
     \<lparr>ro_session = beside (rr_session rt), ro_applyResult = (\<lambda>r. beside (rr_applyResult rt r)),
      ro_handlers = handlers, ro_maxTransitions = so_maxTransitions so,
      ro_sequenceOwnership = so_sequenceOwnership so, ro_stopStates = so_stopStates so,
      ro_updateContext = (\<lambda>_ _ _ _ wp. (Inr (snd wp), wp))\<rparr>"

definition runOnboardSequenceWithRunner ::
  "'w runner_runtime \<Rightarrow> sequence_options \<Rightarrow> ('c, 'w) sequence_phase list \<Rightarrow> 'c
     \<Rightarrow> ('w, 'c \<times> session) action" where
  "runOnboardSequenceWithRunner rt so phases ctx w =
     (case buildOnboardSequenceHandlers phases of
        Inl e \<Rightarrow> (Inl e, w)
      | Inr handlers \<Rightarrow>
          (case runOnboardMachine (sequence_runner rt so handlers) ctx (w, ctx) of
             (x, wp) \<Rightarrow> (x, fst wp)))"

section \<open>Flow slices (flow-slices.ts)\<close>

definition no_options :: transition_options where
  "no_options = \<lparr>to_kind = None, to_updates = JUndef, to_metadata = JUndef\<rparr>"

definition stopping_at :: "machine_state list \<Rightarrow> sequence_options" where
  "stopping_at stops =
     \<lparr>so_maxTransitions = None, so_sequenceOwnership = (\<lambda>_. None), so_stopStates = stops\<rparr>"

definition initialOnboardFlowPhases ::
  "('c, 'w) sequence_phase list \<Rightarrow> ('c, 'w) sequence_phase list" where
  "initialOnboardFlowPhases phases =
     \<lparr>ph_state = Init, ph_run = (\<lambda>ctx. ret (ctx, [advanceTo Preflight no_options]))\<rparr>
     # filter (\<lambda>p. ph_state p = Preflight \<or> ph_state p = Gateway) phases"

definition coreOnboardFlowPhases ::
  "('c, 'w) sequence_phase list \<Rightarrow> ('c, 'w) sequence_phase list" where
  "coreOnboardFlowPhases phases =
     filter (\<lambda>p. ph_state p = ProviderSelection \<or> ph_state p = Sandbox) phases"

definition finalOnboardFlowPhases ::
  "('c, 'w) sequence_phase list \<Rightarrow> ('c, 'w) sequence_phase list" where
  "finalOnboardFlowPhases phases =
     filter (\<lambda>p. ph_state p \<in> {Openclaw, AgentSetup, Policies, Finalizing, PostVerify}) phases"

definition runInitialOnboardFlowSequence ::
  "'w runner_runtime \<Rightarrow> ('c, 'w) sequence_phase list \<Rightarrow> 'c \<Rightarrow> ('w, 'c \<times> session) action" where
  "runInitialOnboardFlowSequence rt phases =
     runOnboardSequenceWithRunner rt (stopping_at [ProviderSelection])
       (initialOnboardFlowPhases phases)"

definition runCoreOnboardFlowSequence ::
  "'w runner_runtime \<Rightarrow> ('c, 'w) sequence_phase list \<Rightarrow> 'c \<Rightarrow> ('w, 'c \<times> session) action" where
  "runCoreOnboardFlowSequence rt phases =
     runOnboardSequenceWithRunner rt (stopping_at [Openclaw, AgentSetup])
       (coreOnboardFlowPhases phases)"

definition runFinalOnboardFlowSequence ::
  "'w runner_runtime \<Rightarrow> ('c, 'w) sequence_phase list \<Rightarrow> 'c \<Rightarrow> ('w, 'c \<times> session) action" where
  "runFinalOnboardFlowSequence rt phases =
     runOnboardSequenceWithRunner rt (stopping_at []) (finalOnboardFlowPhases phases)"

section \<open>Prerequisite repair (prerequisite-repair.ts)\<close>

text \<open>
  The recorder of repair events gets the error itself where the code passes its message.
\<close>

type_synonym 'w repair_recorder =
  "event_type \<Rightarrow> machine_state \<Rightarrow> onboard_error option \<Rightarrow> js \<Rightarrow> ('w, unit) action"

definition catch_error :: "('w, 'a) action \<Rightarrow> (onboard_error \<Rightarrow> ('w, 'a) action) \<Rightarrow> ('w, 'a) action" where
  "catch_error m handler w = (case m w of (Inl e, w') \<Rightarrow> handler e w' | (Inr a, w') \<Rightarrow> (Inr a, w'))"

definition resultArray ::
  "onboard_result list \<Rightarrow> machine_state \<Rightarrow> onboard_error + onboard_result list" where
  "resultArray results state = (if results = [] then Inl (RepairNoResults state) else Inr results)"

text \<open>
  One turn of the loop of \<open>validateRepairResults\<close>: the state after the result, if the result is an
  update-free transition out of the state before, of the kind its edge has.
\<close>

definition repair_result_next ::
  "machine_state \<Rightarrow> machine_state \<Rightarrow> onboard_result \<Rightarrow> onboard_error + machine_state" where
  "repair_result_next phaseState state result =
     (case result of
        TransitionResult nxt kind updates metadata \<Rightarrow>
          if updates \<noteq> JUndef \<or> js_get metadata ''state'' \<noteq> JStr (state_id state)
          then Inl (RepairResultInvalid phaseState state)
          else (case assertValidOnboardMachineTransition state nxt of
                  Inl e \<Rightarrow> Inl e
                | Inr tr \<Rightarrow>
                    if kind \<noteq> Some (tr_kind tr)
                    then Inl (RepairTransitionKind phaseState (tr_kind tr) state nxt)
                    else Inr nxt)
      | _ \<Rightarrow> Inl (RepairResultInvalid phaseState state))"

fun repair_results_end ::
  "machine_state \<Rightarrow> machine_state \<Rightarrow> onboard_result list \<Rightarrow> onboard_error + machine_state" where
  "repair_results_end phaseState state [] = Inr state"
| "repair_results_end phaseState state (r # rs) =
     (case repair_result_next phaseState state r of
        Inl e \<Rightarrow> Inl e
      | Inr nxt \<Rightarrow> repair_results_end phaseState nxt rs)"

definition validateRepairResults ::
  "onboard_result list \<Rightarrow> machine_state \<Rightarrow> machine_state list \<Rightarrow> onboard_error + machine_state" where
  "validateRepairResults results phaseState expectedFinalStates =
     (case repair_results_end phaseState phaseState results of
        Inl e \<Rightarrow> Inl e
      | Inr state \<Rightarrow>
          if state \<in> set expectedFinalStates then Inr state
          else Inl (RepairFinalState phaseState expectedFinalStates state))"

definition repair_metadata :: "string \<Rightarrow> machine_state \<Rightarrow> js" where
  "repair_metadata repair entryState =
     JObj [(''repair'', JStr repair), (''entryState'', JStr (state_id entryState))]"

definition runOnboardPrerequisiteRepair ::
  "'w runner_runtime \<Rightarrow> 'w repair_recorder \<Rightarrow> string \<Rightarrow> machine_state \<Rightarrow> ('c, 'w) sequence_phase
     \<Rightarrow> machine_state list \<Rightarrow> 'c \<Rightarrow> ('w, 'c \<times> onboard_result list \<times> machine_state) action" where
  "runOnboardPrerequisiteRepair rt recordRepairEvent repair durableEntryState phase
      expectedFinalStates ctx =
     (let metadata = repair_metadata repair durableEntryState in
      catch_error
        (bind (recordRepairEvent RepairStarted (ph_state phase) None metadata) (\<lambda>_.
         bind (ph_run phase ctx) (\<lambda>(ctx', result).
         bind (lift_res (resultArray result (ph_state phase))) (\<lambda>results.
         bind (lift_res (validateRepairResults results (ph_state phase) expectedFinalStates))
           (\<lambda>finalState.
         bind (rr_session rt) (\<lambda>current.
         if session_state current \<noteq> durableEntryState
         then throw (RepairChangedEntry (ph_state phase) durableEntryState (session_state current))
         else
           bind (recordRepairEvent RepairCompleted (ph_state phase) None metadata) (\<lambda>_.
             ret (ctx', results, finalState))))))))
        (\<lambda>e. bind (catch_error (recordRepairEvent RepairFailed (ph_state phase) (Some e) metadata)
                     (\<lambda>_. ret ())) (\<lambda>_. throw e)))"

section \<open>Initial slice (initial-flow-phases.ts)\<close>

definition initial_allowed_states :: "bool \<Rightarrow> machine_state list" where
  "initial_allowed_states resume =
     (if resume
      then [Init, Preflight, Gateway, ProviderSelection, Inference, Sandbox, Openclaw, AgentSetup,
            Policies, Finalizing, PostVerify]
      else [Init, Preflight, Gateway, ProviderSelection])"

definition phase_for :: "machine_state \<Rightarrow> ('c, 'w) sequence_phase list \<Rightarrow> ('c, 'w) sequence_phase option" where
  "phase_for state phases = List.find (\<lambda>p. ph_state p = state) phases"

definition repair_initial_prerequisites ::
  "'w runner_runtime \<Rightarrow> 'w repair_recorder \<Rightarrow> ('c, 'w) sequence_phase list \<Rightarrow> machine_state
     \<Rightarrow> ('c, 'w) sequence_phase \<Rightarrow> ('c, 'w) sequence_phase \<Rightarrow> 'c \<Rightarrow> ('w, 'c \<times> session) action" where
  "repair_initial_prerequisites rt recordRepairEvent phases state preflight gateway ctx =
     bind (runOnboardPrerequisiteRepair rt recordRepairEvent ''initial-flow-prerequisite'' state
             preflight [Gateway] ctx) (\<lambda>(ctx1, _, _).
     if state = Gateway then runInitialOnboardFlowSequence rt phases ctx1
     else
       bind (runOnboardPrerequisiteRepair rt recordRepairEvent ''initial-flow-prerequisite'' state
               gateway [ProviderSelection] ctx1) (\<lambda>(ctx2, _, _).
       bind (rr_session rt) (\<lambda>s. ret (ctx2, s))))"

definition runInitialOnboardFlowSlice ::
  "'w runner_runtime \<Rightarrow> 'w repair_recorder \<Rightarrow> ('c, 'w) sequence_phase list \<Rightarrow> bool \<Rightarrow> 'c
     \<Rightarrow> ('w, 'c \<times> session) action" where
  "runInitialOnboardFlowSlice rt recordRepairEvent phases resume ctx =
     bind (rr_session rt) (\<lambda>durableEntry.
       let state = session_state durableEntry; allowedStates = initial_allowed_states resume in
       if state \<notin> set allowedStates
       then throw (UnexpectedOnboardFlowSliceState state [Init, Preflight]
              (filter (\<lambda>c. c \<noteq> Init \<and> c \<noteq> Preflight) allowedStates))
       else if state = Init \<or> state = Preflight
       then runInitialOnboardFlowSequence rt phases ctx
       else
         (case (phase_for Preflight phases, phase_for Gateway phases) of
            (Some preflight, Some gateway) \<Rightarrow>
              if length phases \<noteq> 2 then throw FlowSlicePhasesMissing
              else repair_initial_prerequisites rt recordRepairEvent phases state preflight gateway ctx
          | _ \<Rightarrow> throw FlowSlicePhasesMissing))"

section \<open>Core slice (core-flow-phases.ts)\<close>

definition core_allowed_states :: "bool \<Rightarrow> machine_state list" where
  "core_allowed_states resume =
     (if resume
      then [ProviderSelection, Inference, Sandbox, Openclaw, AgentSetup, Policies, Finalizing,
            PostVerify]
      else [ProviderSelection, Inference, Sandbox, Openclaw, AgentSetup])"

definition is_inference_result :: "onboard_result \<Rightarrow> bool" where
  "is_inference_result r =
     (case r of
        TransitionResult _ _ _ metadata \<Rightarrow> js_get metadata ''state'' = JStr (state_id Inference)
      | _ \<Rightarrow> False)"

definition core_after_provider_repair ::
  "'w runner_runtime \<Rightarrow> 'w repair_recorder \<Rightarrow> ('c, 'w) sequence_phase \<Rightarrow> machine_state
     \<Rightarrow> 'c \<times> onboard_result list \<times> machine_state \<Rightarrow> ('w, 'c \<times> session) action" where
  "core_after_provider_repair rt recordRepairEvent sandbox state repaired =
     (case repaired of (ctx1, results, _) \<Rightarrow>
      if state = Inference then
        (case List.find is_inference_result (rev results) of
           None \<Rightarrow> throw CoreInferenceRepairEmpty
         | Some inferenceResult \<Rightarrow>
             runOnboardSequenceWithRunner rt (stopping_at [Openclaw, AgentSetup])
               [\<lparr>ph_state = Inference, ph_run = (\<lambda>_. ret (ctx1, [inferenceResult]))\<rparr>, sandbox] ctx1)
      else if state = Sandbox then
        runOnboardSequenceWithRunner rt (stopping_at [Openclaw, AgentSetup]) [sandbox] ctx1
      else
        bind (runOnboardPrerequisiteRepair rt recordRepairEvent ''core-flow-prerequisite'' state
                sandbox [Openclaw, AgentSetup] ctx1) (\<lambda>(ctx2, _, finalState).
        if (state = Openclaw \<or> state = AgentSetup) \<and> finalState \<noteq> state
        then throw (CoreRepairBranchMismatch finalState state)
        else bind (rr_session rt) (\<lambda>s. ret (ctx2, s))))"

definition runCoreOnboardFlowSlice ::
  "'w runner_runtime \<Rightarrow> 'w repair_recorder \<Rightarrow> ('c, 'w) sequence_phase \<Rightarrow> ('c, 'w) sequence_phase
     \<Rightarrow> bool \<Rightarrow> 'c \<Rightarrow> ('w, 'c \<times> session) action" where
  "runCoreOnboardFlowSlice rt recordRepairEvent providerInference sandbox resume ctx =
     bind (rr_session rt) (\<lambda>durableEntry.
       let state = session_state durableEntry; allowedStates = core_allowed_states resume in
       if state \<notin> set allowedStates
       then throw (UnexpectedOnboardFlowSliceState state [ProviderSelection, Inference, Sandbox]
              (filter (\<lambda>c. c \<noteq> ProviderSelection \<and> c \<noteq> Inference \<and> c \<noteq> Sandbox) allowedStates))
       else if state = ProviderSelection
       then runCoreOnboardFlowSequence rt [providerInference, sandbox] ctx
       else
         bind (runOnboardPrerequisiteRepair rt recordRepairEvent ''core-flow-prerequisite'' state
                 providerInference [Sandbox] ctx)
           (core_after_provider_repair rt recordRepairEvent sandbox state))"

section \<open>Final slice (final-flow-phases.ts)\<close>

definition FINAL_FLOW_DOWNSTREAM_STATES :: "machine_state list" where
  "FINAL_FLOW_DOWNSTREAM_STATES = [Policies, Finalizing, PostVerify]"

definition isPoliciesAppliedResult :: "onboard_result \<Rightarrow> bool" where
  "isPoliciesAppliedResult r =
     (case r of
        TransitionResult nxt _ _ metadata \<Rightarrow>
          nxt = Finalizing \<and> js_get metadata ''state'' = JStr (state_id Policies)
      | _ \<Rightarrow> False)"

definition call_if :: "bool \<Rightarrow> ('w, unit) action option \<Rightarrow> ('w, unit) action" where
  "call_if c callback = (case callback of Some f \<Rightarrow> if c then f else ret () | None \<Rightarrow> ret ())"

definition withAfterPoliciesReady ::
  "'w runner_runtime \<Rightarrow> ('w, unit) action option \<Rightarrow> 'w runner_runtime" where
  "withAfterPoliciesReady rt afterPoliciesReady =
     (case afterPoliciesReady of
        None \<Rightarrow> rt
      | Some ready \<Rightarrow>
          rt\<lparr>rr_applyResult := (\<lambda>result.
               bind (rr_applyResult rt result) (\<lambda>s.
               bind (if isPoliciesAppliedResult result then ready else ret ()) (\<lambda>_. ret s)))\<rparr>)"

definition withContextObserver ::
  "('c, 'w) sequence_phase list \<Rightarrow> ('c \<Rightarrow> ('w, unit) action) option \<Rightarrow> ('c, 'w) sequence_phase list" where
  "withContextObserver phases onContextUpdated =
     (case onContextUpdated of
        None \<Rightarrow> phases
      | Some observe \<Rightarrow>
          map (\<lambda>phase. phase\<lparr>ph_run := (\<lambda>ctx.
                 bind (ph_run phase ctx) (\<lambda>(ctx', result).
                 bind (observe ctx') (\<lambda>_. ret (ctx', result))))\<rparr>) phases)"

fun phases_for_states ::
  "('c, 'w) sequence_phase list \<Rightarrow> machine_state list \<Rightarrow> onboard_error + ('c, 'w) sequence_phase list" where
  "phases_for_states phases [] = Inr []"
| "phases_for_states phases (state # states) =
     (case filter (\<lambda>p. ph_state p = state) phases of
        [p] \<Rightarrow> (case phases_for_states phases states of Inl e \<Rightarrow> Inl e | Inr ps \<Rightarrow> Inr (p # ps))
      | matches \<Rightarrow> Inl (FinalPhaseStateCount state (length matches)))"

definition canonicalFinalFlowPhases ::
  "('c, 'w) sequence_phase list \<Rightarrow> onboard_error + machine_state \<times> ('c, 'w) sequence_phase list" where
  "canonicalFinalFlowPhases phases =
     (let branchPhases = filter (\<lambda>p. ph_state p = Openclaw \<or> ph_state p = AgentSetup) phases in
      if length branchPhases \<noteq> 1 then Inl (FinalBranchPhaseCount (length branchPhases))
      else if length phases \<noteq> 4 then Inl (FinalPhaseCount (length phases))
      else
        (let branchState = ph_state (hd branchPhases) in
         case phases_for_states phases (branchState # FINAL_FLOW_DOWNSTREAM_STATES) of
           Inl e \<Rightarrow> Inl e
         | Inr canonical \<Rightarrow> Inr (branchState, canonical)))"

definition singleRepairResult ::
  "onboard_result list \<Rightarrow> machine_state \<Rightarrow> onboard_error + onboard_result" where
  "singleRepairResult results state =
     (case results of [r] \<Rightarrow> Inr r | _ \<Rightarrow> Inl (FinalRepairResultCount state (length results)))"

definition assertValidRepairResult ::
  "onboard_result \<Rightarrow> machine_state \<Rightarrow> machine_state \<Rightarrow> onboard_error + unit" where
  "assertValidRepairResult result state nextState =
     (case result of
        TransitionResult nxt kind updates metadata \<Rightarrow>
          if js_get metadata ''state'' \<noteq> JStr (state_id state) \<or> nxt \<noteq> nextState
             \<or> kind \<noteq> Some Advance \<or> updates \<noteq> JUndef
          then Inl (FinalRepairResultInvalid state nextState)
          else Inr ()
      | _ \<Rightarrow> Inl (FinalRepairResultInvalid state nextState))"

record ('c, 'w) final_callbacks =
  fc_record :: "'w repair_recorder"
  fc_afterPoliciesReady :: "('w, unit) action option"
  fc_onContextUpdated :: "('c \<Rightarrow> ('w, unit) action) option"

text \<open>One turn of the repair loop; a failure is recorded and thrown again.\<close>

definition final_repair ::
  "'w runner_runtime \<Rightarrow> ('c, 'w) final_callbacks \<Rightarrow> machine_state \<Rightarrow> ('c, 'w) sequence_phase
     \<Rightarrow> machine_state \<Rightarrow> 'c \<Rightarrow> ('w, 'c) action" where
  "final_repair rt cb entryState phase nextState ctx =
     (let state = ph_state phase; metadata = repair_metadata ''final-flow-prerequisite'' entryState in
      catch_error
        (bind (fc_record cb RepairStarted state None metadata) (\<lambda>_.
         bind (ph_run phase ctx) (\<lambda>(ctx', results).
         bind (lift_res (singleRepairResult results state)) (\<lambda>result.
         bind (lift_res (assertValidRepairResult result state nextState)) (\<lambda>_.
         bind (rr_session rt) (\<lambda>current.
         if session_state current \<noteq> entryState
         then throw (FinalRepairChangedEntry state entryState (session_state current))
         else
           bind (fc_record cb RepairCompleted state None metadata) (\<lambda>_.
           bind (call_if (state = Policies) (fc_afterPoliciesReady cb)) (\<lambda>_.
           bind (call_if True (map_option (\<lambda>f. f ctx') (fc_onContextUpdated cb))) (\<lambda>_.
             ret ctx')))))))))
        (\<lambda>e. bind (fc_record cb RepairFailed state (Some e) metadata) (\<lambda>_. throw e)))"

fun final_repairs ::
  "'w runner_runtime \<Rightarrow> ('c, 'w) final_callbacks \<Rightarrow> machine_state
     \<Rightarrow> (('c, 'w) sequence_phase \<times> machine_state) list \<Rightarrow> 'c \<Rightarrow> ('w, 'c) action" where
  "final_repairs rt cb entryState [] ctx = ret ctx"
| "final_repairs rt cb entryState ((phase, nextState) # rest) ctx =
     bind (final_repair rt cb entryState phase nextState ctx) (final_repairs rt cb entryState rest)"

definition runFinalFlowPrerequisiteRepairs ::
  "'w runner_runtime \<Rightarrow> ('c, 'w) final_callbacks \<Rightarrow> machine_state \<Rightarrow> ('c, 'w) sequence_phase list
     \<Rightarrow> 'c \<Rightarrow> ('w, 'c) action" where
  "runFinalFlowPrerequisiteRepairs rt cb entryState phases =
     (let repairPhases =
        (if entryState \<in> ph_state ` set phases
         then takeWhile (\<lambda>p. ph_state p \<noteq> entryState) phases else butlast phases) in
      final_repairs rt cb entryState (zip repairPhases (map ph_state (tl phases))))"

definition runFinalOnboardFlowSlice ::
  "'w runner_runtime \<Rightarrow> ('c, 'w) final_callbacks \<Rightarrow> ('c, 'w) sequence_phase list \<Rightarrow> 'c
     \<Rightarrow> ('w, 'c \<times> session) action" where
  "runFinalOnboardFlowSlice rt cb optionPhases ctx =
     bind (lift_res (canonicalFinalFlowPhases optionPhases)) (\<lambda>(branchState, phases).
     bind (rr_session rt) (\<lambda>durableEntry.
     let state = session_state durableEntry in
     if state \<notin> set (branchState # FINAL_FLOW_DOWNSTREAM_STATES)
     then throw (UnexpectedOnboardFlowSliceState state [branchState] FINAL_FLOW_DOWNSTREAM_STATES)
     else
       bind (if state \<in> set FINAL_FLOW_DOWNSTREAM_STATES
             then runFinalFlowPrerequisiteRepairs rt cb state phases ctx else ret ctx) (\<lambda>ctx'.
         runFinalOnboardFlowSequence (withAfterPoliciesReady rt (fc_afterPoliciesReady cb))
           (withContextObserver phases (fc_onContextUpdated cb)) ctx')))"

section \<open>Handoff between slices (flow-context.ts, flow-handoff.ts)\<close>

text \<open>The members of the flow context that the guards and the handoffs read or write.\<close>

record ('gpu, 'config) flow_context =
  fl_session :: "session option"
  fl_sandboxName :: "string option"
  fl_model :: "string option"
  fl_provider :: "string option"
  fl_selectedMessagingChannels :: "string list"
  fl_gpu :: "'gpu option"
  fl_sandboxGpuConfig :: "'config option"
  fl_gpuPassthrough :: bool

definition incomplete_before :: "string \<Rightarrow> onboard_error" where
  "incomplete_before stepName =
     OnboardStateIncomplete (''Onboarding state is incomplete before '' @ stepName @ ''.'')"

definition assertProviderModelSelectedContext ::
  "('g, 'c) flow_context \<Rightarrow> string \<Rightarrow> onboard_error + unit" where
  "assertProviderModelSelectedContext ctx stepName =
     (if \<not> truthy (fl_model ctx) \<or> \<not> truthy (fl_provider ctx) then Inl (incomplete_before stepName)
      else Inr ())"

definition assertProviderSelectedContext ::
  "('g, 'c) flow_context \<Rightarrow> string \<Rightarrow> onboard_error + unit" where
  "assertProviderSelectedContext ctx stepName =
     (case assertProviderModelSelectedContext ctx stepName of
        Inl e \<Rightarrow> Inl e
      | Inr _ \<Rightarrow> if fl_sandboxGpuConfig ctx = None then Inl (incomplete_before stepName) else Inr ())"

definition assertSandboxCreatedContext ::
  "('g, 'c) flow_context \<Rightarrow> string \<Rightarrow> onboard_error + unit" where
  "assertSandboxCreatedContext ctx stepName =
     (if \<not> truthy (fl_sandboxName ctx) \<or> \<not> truthy (fl_model ctx) \<or> \<not> truthy (fl_provider ctx)
      then Inl (incomplete_before stepName) else Inr ())"

definition first_truthy :: "string option \<Rightarrow> string option \<Rightarrow> string option" where
  "first_truthy a b = (if truthy a then a else b)"

definition prepareCoreOnboardFlowContext ::
  "('g, 'c) flow_context \<times> session \<Rightarrow> string option \<Rightarrow> string option \<Rightarrow> string option \<Rightarrow> string list
     \<Rightarrow> (string \<Rightarrow> onboard_error + unit) \<Rightarrow> onboard_error + ('g, 'c) flow_context" where
  "prepareCoreOnboardFlowContext initial recordedSandboxName requestedSandboxName
      checkpointedSandboxName selectedMessagingChannels assertSandboxNameAllowed =
     (case initial of (ctx, s) \<Rightarrow>
      if fl_sandboxGpuConfig ctx = None
      then Inl (OnboardStateIncomplete ''Preflight did not produce a sandbox GPU configuration.'')
      else
        (let chosen = first_truthy recordedSandboxName
                        (first_truthy requestedSandboxName checkpointedSandboxName);
             sandboxName = (if truthy chosen then chosen else None) in
         case (case sandboxName of Some n \<Rightarrow> assertSandboxNameAllowed n | None \<Rightarrow> Inr ()) of
           Inl e \<Rightarrow> Inl e
         | Inr _ \<Rightarrow> Inr (ctx\<lparr>fl_session := Some s, fl_sandboxName := sandboxName,
                           fl_selectedMessagingChannels := selectedMessagingChannels\<rparr>)))"

definition prepareFinalOnboardFlowContext ::
  "('g, 'c) flow_context \<times> session \<Rightarrow> onboard_error + ('g, 'c) flow_context" where
  "prepareFinalOnboardFlowContext core =
     (case core of (ctx, s) \<Rightarrow>
      if \<not> truthy (fl_sandboxName ctx) \<or> \<not> truthy (fl_model ctx) \<or> \<not> truthy (fl_provider ctx)
      then Inl (OnboardStateIncomplete ''Onboarding state is incomplete after sandbox setup.'')
      else Inr (ctx\<lparr>fl_session := Some s\<rparr>))"

end
