(* ===== verification/Checkpoint_Codec.thy ===== *)
theory Checkpoint_Codec
  imports Checkpoint
begin

text \<open>
  Round trips of the checkpoint: each value parser of \<open>onboard-checkpoint.ts\<close> is an instance of
  the codec contract with the writer of its record and the validity predicate stated here; the
  schema parser and the version dispatch are put together from them.
\<close>

section \<open>Decisions over a codec\<close>

context codec
begin

lemma decision_codec:
  "codec (parseCheckpointDecision reader) (decision_to_js writer) (decision_valid valid)"
proof
  fix a v
  show "parseCheckpointDecision reader (decision_to_js writer a) = Some a" if "decision_valid valid a"
    using that by (cases a) (auto simp: parseCheckpointDecision_def decision_to_js_def read_write)
  show "decision_valid valid a" if "parseCheckpointDecision reader v = Some a"
    using that by (auto simp: parseCheckpointDecision_def Let_def intro: read_valid
        split: if_splits option.splits)
  show "json_clean (decision_to_js writer a)" if "decision_valid valid a"
    using that by (cases a) (auto simp: decision_to_js_def write_clean)
qed

end

lemma readString_text: "readString = read_text (\<lambda>_. True)"
  by (rule ext) (auto simp: readString_def read_text_def split: option.splits)

lemma readString_eq_Some [simp]: "readString v = Some s \<longleftrightarrow> v = JStr s"
  by (simp add: readString_def)

lemma readString_JStr [simp]: "readString (JStr s) = Some s"
  by simp

lemma read_text_JStr [simp]: "read_text P (JStr s) = (if P s then Some s else None)"
  by (simp add: read_text_def)

interpretation iso: value_codec readCanonicalIsoTimestamp JStr canonical_iso
  by unfold_locales (auto simp: readCanonicalIsoTimestamp_def split: js.splits if_splits)

interpretation string_array: codec readStringArray "write_array JStr" "list_all (\<lambda>_. True)"
  unfolding readStringArray_def readString_text by (rule text_value.array_codec)

section \<open>Small records\<close>

definition valid_identity :: "sandbox_identity \<Rightarrow> bool" where
  "valid_identity i = (name_ok (si_name i) \<and> si_agent i \<noteq> [])"

interpretation identity: value_codec parseSandboxIdentityValue identity_to_js valid_identity
  by unfold_locales
    (auto simp: parseSandboxIdentityValue_def identity_to_js_def valid_identity_def name_ok_def
      split: if_splits option.splits)

interpretation resource: value_codec parseResourceProfileValue resource_to_js "\<lambda>_. True"
  by unfold_locales
    (auto simp: parseResourceProfileValue_def resource_to_js_def split: if_splits option.splits)

lemma web_search_object [simp]: "isObjectRecord (web_search_config_to_js c)"
  by (simp add: web_search_config_to_js_def)

interpretation web_value: value_codec parseWebSearchValue web_search_config_to_js valid_web_search
  using web_search.read_write web_search.read_valid web_search.write_clean web_search.write_not_null
  by unfold_locales (auto simp: parseWebSearchValue_def split: if_splits)

lemma write_array_not_null [simp]: "write_array w xs \<noteq> JNull"
  by (simp add: write_array_def)

lemma string_array_simps [simp]:
  "readStringArray (write_array JStr xs) = Some xs" "json_clean (write_array JStr xs)"
  using string_array.read_write [of xs] string_array.write_clean [of xs] by (simp_all add: list_all_iff)

interpretation selection: value_codec parseMessagingValue selection_to_js "\<lambda>_. True"
  by unfold_locales
    (auto simp: parseMessagingValue_def selection_to_js_def split: if_splits option.splits)

definition valid_effect_record :: "effect_group_record \<Rightarrow> bool" where
  "valid_effect_record r = (canonical_iso (eg_completedAt r) \<and> eg_fingerprint r \<noteq> [])"

interpretation effect_record: value_codec parseEffectGroupRecord effect_record_to_js
  valid_effect_record
  by unfold_locales
    (auto simp: parseEffectGroupRecord_def effect_record_to_js_def valid_effect_record_def
      iso.read_write dest: iso.read_valid split: if_splits option.splits)

definition valid_binding :: "provider_binding \<Rightarrow> bool" where
  "valid_binding b = (pb_name b \<noteq> [] \<and> pb_type b \<noteq> [] \<and> pb_credentialEnv b \<noteq> [])"

interpretation binding: value_codec parseProviderBinding binding_to_js valid_binding
  by unfold_locales
    (auto simp: parseProviderBinding_def binding_to_js_def valid_binding_def
      split: if_splits option.splits)

interpretation binding_array: codec parseProviderBindings "write_array binding_to_js"
  "list_all valid_binding"
  unfolding parseProviderBindings_def by (rule binding.array_codec)

definition valid_bindings :: "checkpoint_bindings \<Rightarrow> bool" where
  "valid_bindings b = list_all valid_binding (cb_registeredProviders b)"

interpretation bindings: value_codec parseBindings bindings_to_js valid_bindings
  by unfold_locales
    (auto simp: parseBindings_def bindings_to_js_def valid_bindings_def binding_array.read_write
      binding_array.write_clean dest: binding_array.read_valid split: if_splits option.splits)

section \<open>Effect groups\<close>

text \<open>The groups that were recorded, in the order of the table, each valid.\<close>

fun groups_follow :: "effect_group_name list \<Rightarrow> (effect_group_name \<times> 'r) list \<Rightarrow> bool" where
  "groups_follow ns [] = True"
| "groups_follow [] (g # gs) = False"
| "groups_follow (n # ns) ((m, r) # gs) =
     (if n = m then groups_follow ns gs else groups_follow ns ((m, r) # gs))"

definition valid_groups :: "(effect_group_name \<times> effect_group_record) list \<Rightarrow> bool" where
  "valid_groups gs = (groups_follow EFFECT_GROUP_NAMES gs \<and> list_all (\<lambda>g. valid_effect_record (snd g)) gs)"

lemma effect_group_id_inj [simp]: "effect_group_id a = effect_group_id b \<longleftrightarrow> a = b"
  by (cases a; cases b) simp_all

lemma groups_get:
  "js_get (effect_groups_to_js gs) (effect_group_id n) =
     (case map_of gs n of None \<Rightarrow> JUndef | Some r \<Rightarrow> effect_record_to_js r)"
  by (induction gs) (auto simp: effect_groups_to_js_def)

lemma groups_follow_names: "groups_follow ns gs \<Longrightarrow> fst ` set gs \<subseteq> set ns"
  by (induction ns gs rule: groups_follow.induct) (auto split: if_splits)

lemma parse_groups_written:
  assumes "list_all (\<lambda>g. valid_effect_record (snd g)) gs" "groups_follow ns gs" "distinct ns"
    and "\<And>n. n \<in> set ns \<Longrightarrow> js_get v (effect_group_id n) =
           (case map_of gs n of None \<Rightarrow> JUndef | Some r \<Rightarrow> effect_record_to_js r)"
  shows "parse_effect_groups v ns = Some gs"
  using assms
proof (induction ns gs rule: groups_follow.induct)
  case (1 ns)
  then show ?case by (induction ns) auto
next
  case (3 n ns m r gs)
  show ?case
  proof (cases "n = m")
    case True
    have other: "js_get v (effect_group_id k) =
        (case map_of gs k of None \<Rightarrow> JUndef | Some r \<Rightarrow> effect_record_to_js r)" if "k \<in> set ns" for k
      using "3.prems"(3,4) that True by auto
    have "parse_effect_groups v ns = Some gs"
      using "3.IH"(1) True other "3.prems" by simp
    moreover have "js_get v (effect_group_id n) = effect_record_to_js r"
      using "3.prems"(4) [of n] True by simp
    moreover have "effect_record_to_js r \<noteq> JUndef" by (simp add: effect_record_to_js_def)
    ultimately show ?thesis
      using "3.prems"(1) True by (simp add: effect_record.read_write)
  next
    case False
    then have "n \<notin> fst ` set ((m, r) # gs)"
      using groups_follow_names "3.prems"(2,3) by fastforce
    then have "map_of ((m, r) # gs) n = None" by (simp only: map_of_eq_None_iff not_False_eq_True)
    then have "js_get v (effect_group_id n) = JUndef"
      using "3.prems"(4) [of n] by simp
    moreover have "parse_effect_groups v ns = Some ((m, r) # gs)"
      using "3.IH"(2) False "3.prems" by simp
    ultimately show ?thesis by simp
  qed
qed simp

lemma groups_follow_skip: "groups_follow ns gs \<Longrightarrow> n \<notin> fst ` set gs \<Longrightarrow> groups_follow (n # ns) gs"
  by (cases gs) auto

lemma parse_groups_valid:
  "parse_effect_groups v ns = Some gs \<Longrightarrow> distinct ns \<Longrightarrow>
     groups_follow ns gs \<and> list_all (\<lambda>g. valid_effect_record (snd g)) gs"
proof (induction ns arbitrary: gs)
  case (Cons n ns)
  show ?case
  proof (cases "js_get v (effect_group_id n) = JUndef")
    case True
    with Cons have "groups_follow ns gs \<and> list_all (\<lambda>g. valid_effect_record (snd g)) gs" by simp
    moreover from this have "n \<notin> fst ` set gs"
      using groups_follow_names [of ns gs] Cons.prems(2) by auto
    ultimately show ?thesis by (auto intro: groups_follow_skip)
  next
    case False
    with Cons show ?thesis
      by (auto dest: effect_record.read_valid split: option.splits)
  qed
qed simp

interpretation groups: value_codec parseEffectGroups effect_groups_to_js valid_groups
proof
  fix a v
  have d: "distinct EFFECT_GROUP_NAMES" by (simp add: EFFECT_GROUP_NAMES_def)
  show "parseEffectGroups (effect_groups_to_js a) = Some a" if "valid_groups a"
    using that parse_groups_written [OF _ _ d, of a "effect_groups_to_js a"]
    by (simp add: parseEffectGroups_def valid_groups_def groups_get)
      (simp add: effect_groups_to_js_def)
  show "valid_groups a" if "parseEffectGroups v = Some a"
    using that parse_groups_valid [OF _ d] by (auto simp: parseEffectGroups_def valid_groups_def split: if_splits)
  show "json_clean (effect_groups_to_js a)"
    by (induction a) (auto simp: effect_groups_to_js_def effect_record_to_js_def)
  show "effect_groups_to_js a \<noteq> JNull" by (simp add: effect_groups_to_js_def)
qed


section \<open>Gateway authority\<close>

definition valid_supervisor :: "gateway_supervisor \<Rightarrow> bool" where
  "valid_supervisor s =
     (gs_serviceName s \<noteq> [] \<and> is_service_name (gs_serviceName s)
      \<and> gs_execPath s \<noteq> [] \<and> isAbsolute (gs_execPath s))"

lemma parse_kind_id [simp]: "parse_supervisor_kind (JStr (supervisor_kind_id k)) = Some k"
  by (cases k) (simp_all add: parse_supervisor_kind_def)

lemma parse_mode_id [simp]: "parse_gateway_mode (JStr (gateway_mode_id k)) = Some k"
  by (cases k) (simp_all add: parse_gateway_mode_def)

lemma parse_source_id [simp]: "parse_gateway_source (JStr (gateway_source_id k)) = Some k"
  by (cases k) (simp_all add: parse_gateway_source_def)

interpretation supervisor: value_codec parseGatewaySupervisor supervisor_to_js valid_supervisor
  by unfold_locales
    (auto simp: parseGatewaySupervisor_def supervisor_to_js_def valid_supervisor_def
      split: if_splits option.splits)

lemma read_gateway_port_eq_Some [simp]:
  "read_gateway_port v = Some p \<longleftrightarrow> v = JNum (NInt p) \<and> 1 \<le> p \<and> p \<le> 65535"
  by (auto simp: read_gateway_port_def split: option.splits)

lemma read_gateway_port_JNum [simp]:
  "read_gateway_port (JNum (NInt p)) = (if 1 \<le> p \<and> p \<le> 65535 then Some p else None)"
  by (simp add: read_gateway_port_def)

lemma canonicalGatewayName_nonempty [simp]: "canonicalGatewayName p \<noteq> []"
  by (simp add: canonicalGatewayName_def)

definition valid_authority :: "url_parser \<Rightarrow> gateway_authority \<Rightarrow> bool" where
  "valid_authority parse_url a =
     (1 \<le> ga_gatewayPort a \<and> ga_gatewayPort a \<le> 65535
      \<and> ga_gatewayName a = canonicalGatewayName (ga_gatewayPort a)
      \<and> list_all (\<lambda>c. c \<in> set SUPPORTED_GATEWAY_CAPABILITIES) (ga_requiredCapabilities a)
      \<and> (case ga_mode a of
           NemoclawManaged \<Rightarrow>
             ga_endpoint a = None \<and> ga_stateDir a = None \<and> ga_supervisor a = None
         | ExternallySupervised \<Rightarrow>
             ga_source a = Declared
             \<and> (case ga_endpoint a of
                  Some e \<Rightarrow> e \<noteq> []
                    \<and> parse_external_endpoint parse_url (ga_gatewayPort a) e = Some e
                | None \<Rightarrow> False)
             \<and> (case ga_stateDir a of Some d \<Rightarrow> d \<noteq> [] \<and> isAbsolute d | None \<Rightarrow> False)
             \<and> (case ga_supervisor a of Some s \<Rightarrow> valid_supervisor s | None \<Rightarrow> False)))"

text \<open>
  What the code relies on of the WHATWG parser: the origin of an accepted loopback URL is itself
  a URL with the same scheme, host and port, and its own origin.
\<close>

definition origin_reparses :: "url_parser \<Rightarrow> bool" where
  "origin_reparses parse_url =
     (\<forall>s u. parse_url s = Some u \<longrightarrow> loopback_endpoint u \<longrightarrow>
        url_origin u \<noteq> []
        \<and> (\<exists>u'. parse_url (url_origin u) = Some u' \<and> loopback_endpoint u'
             \<and> endpoint_port u' = endpoint_port u \<and> url_origin u' = url_origin u))"

lemma external_endpoint_reparses:
  assumes "origin_reparses parse_url" "parse_external_endpoint parse_url p s = Some e"
  shows "e \<noteq> [] \<and> parse_external_endpoint parse_url p e = Some e"
proof -
  from assms(2) obtain u where u: "parse_url s = Some u" "loopback_endpoint u"
      "endpoint_port u = Some p" "e = url_origin u"
    by (auto simp: parse_external_endpoint_def split: option.splits if_splits)
  with assms(1) obtain u' where "parse_url e = Some u'" "loopback_endpoint u'"
      "endpoint_port u' = endpoint_port u" "url_origin u' = e" "e \<noteq> []"
    unfolding origin_reparses_def by blast
  with u show ?thesis by (simp add: parse_external_endpoint_def)
qed

lemma authority_read_write:
  assumes "valid_authority parse_url a"
  shows "parseGatewayAuthorityValue parse_url (authority_to_js a) = Some a"
proof (cases "ga_mode a")
  case NemoclawManaged
  with assms show ?thesis
    by (cases a) (auto simp: parseGatewayAuthorityValue_def authority_to_js_def valid_authority_def
        readString_def parse_gateway_mode_def)
next
  case ExternallySupervised
  with assms obtain e d s where "ga_endpoint a = Some e" "ga_stateDir a = Some d"
      "ga_supervisor a = Some s" "valid_supervisor s"
    by (auto simp: valid_authority_def split: option.splits)
  with ExternallySupervised assms show ?thesis
    by (cases a) (auto simp: parseGatewayAuthorityValue_def authority_to_js_def valid_authority_def
        supervisor.read_write parse_gateway_mode_def parse_gateway_source_def)
qed

lemma authority_read_valid:
  assumes "origin_reparses parse_url" "parseGatewayAuthorityValue parse_url v = Some a"
  shows "valid_authority parse_url a"
  using assms(2) external_endpoint_reparses [OF assms(1)]
  by (simp only: parseGatewayAuthorityValue_def, simp only: split: option.split_asm if_split_asm prod.split_asm)
    (auto simp: valid_authority_def dest: supervisor.read_valid split: gateway_mode.splits)

lemma supervisor_clean [simp]: "json_clean (supervisor_to_js s)"
  by (simp add: supervisor_to_js_def)

lemma js_opt_clean: "(\<And>a. json_clean (w a)) \<Longrightarrow> json_clean (js_opt w x)"
  by (cases x) simp_all

lemma authority_codec:
  assumes "origin_reparses parse_url"
  shows "value_codec (parseGatewayAuthorityValue parse_url) authority_to_js
           (valid_authority parse_url)"
proof
  fix a v
  show "parseGatewayAuthorityValue parse_url (authority_to_js a) = Some a"
    if "valid_authority parse_url a" using that by (rule authority_read_write)
  show "valid_authority parse_url a" if "parseGatewayAuthorityValue parse_url v = Some a"
    using that by (rule authority_read_valid [OF assms])
  show "json_clean (authority_to_js a)" by (simp add: authority_to_js_def js_opt_clean)
  show "authority_to_js a \<noteq> JNull" by (simp add: authority_to_js_def)
qed

section \<open>Sandbox recreate journal\<close>

definition valid_workload :: "string \<Rightarrow> recreate_workload \<Rightarrow> bool" where
  "valid_workload imageTag w =
     (case rw_reference w of None \<Rightarrow> True | Some r \<Rightarrow> journal_string 4096 r \<and> r = imageTag)"

lemma pred_option_case: "pred_option P x = (case x of None \<Rightarrow> True | Some a \<Rightarrow> P a)"
  by (cases x) simp_all

lemma nullable_text_eq_Some [simp]:
  "read_nullable (read_text P) v = Some x \<longleftrightarrow> v = js_opt JStr x \<and> pred_option P x"
  by (cases x) (auto simp: read_nullable_def)

lemma nullable_text_JStr [simp]:
  "read_nullable (read_text P) (js_opt JStr x) = (if pred_option P x then Some x else None)"
  by (cases x) (auto simp: read_nullable_def)

lemma js_opt_JStr_clean [simp]: "json_clean (js_opt JStr x)"
  by (cases x) simp_all

interpretation workload: value_codec "read_workload tag" workload_to_js "valid_workload tag" for tag
  by unfold_locales
    (auto simp: read_workload_def workload_to_js_def valid_workload_def pred_option_case
      split: if_splits option.splits)

definition valid_recreate_source :: "recreate_source \<Rightarrow> bool" where
  "valid_recreate_source s =
     (pred_option (\<lambda>d. journal_string 128 d \<and> is_driver_name d) (rs_openshellDriver s)
      \<and> journal_string 4096 (rs_imageTag s)
      \<and> pred_option (valid_workload (rs_imageTag s)) (rs_workload s))"

lemma source_nullable:
  "codec parseSandboxRecreateSourceWorkload (js_opt recreate_source_to_js)
     (pred_option valid_recreate_source)"
proof
  fix a v
  show "parseSandboxRecreateSourceWorkload (js_opt recreate_source_to_js a) = Some a"
    if "pred_option valid_recreate_source a"
    using that
    by (cases a) (auto simp: parseSandboxRecreateSourceWorkload_def recreate_source_to_js_def
        valid_recreate_source_def read_openshell_driver_def readBoundedJournalString_def
        workload.nullable.read_write)
  show "pred_option valid_recreate_source a" if "parseSandboxRecreateSourceWorkload v = Some a"
    using that
    by (auto simp: parseSandboxRecreateSourceWorkload_def valid_recreate_source_def
        read_openshell_driver_def readBoundedJournalString_def
        dest: workload.nullable.read_valid split: if_splits option.splits)
  show "json_clean (js_opt recreate_source_to_js a)" if "pred_option valid_recreate_source a"
    using that
    by (cases a) (auto simp: recreate_source_to_js_def valid_recreate_source_def
        workload.nullable.write_clean)
qed

interpretation recreate_source: codec parseSandboxRecreateSourceWorkload
  "js_opt recreate_source_to_js" "pred_option valid_recreate_source"
  by (rule source_nullable)

definition valid_recreate :: "recreate_transaction \<Rightarrow> bool" where
  "valid_recreate t =
     (UUID_PATTERN (rt_id t) \<and> UUID_PATTERN (rt_targetGeneration t)
      \<and> 0 \<le> rt_revision t \<and> rt_revision t \<le> 2 ^ 53 - 1
      \<and> name_ok (rt_sandboxName t)
      \<and> 1 \<le> rt_gatewayPort t \<and> rt_gatewayPort t \<le> 65535
      \<and> rt_gatewayName t = canonicalGatewayName (rt_gatewayPort t)
      \<and> SHA256_PATTERN (rt_sourceRegistryFingerprint t)
      \<and> SHA256_PATTERN (rt_targetIntentFingerprint t)
      \<and> pred_option SHA256_PATTERN (rt_sourceLiveIdentityFingerprint t)
      \<and> pred_option SHA256_PATTERN (rt_targetLiveIdentityFingerprint t)
      \<and> pred_option valid_recreate_source (rt_sourceWorkload t)
      \<and> canonical_iso (rt_startedAt t) \<and> canonical_iso (rt_updatedAt t))"

lemma parse_phase_id [simp]: "parse_phase (JStr (phase_id p)) = Some p"
  by (cases p) (simp_all add: parse_phase_def SANDBOX_RECREATE_PHASES_def)

lemma read_revision_eq_Some [simp]:
  "read_revision v = Some n \<longleftrightarrow> v = JNum (NInt n) \<and> 0 \<le> n \<and> n \<le> 2 ^ 53 - 1"
  by (auto simp: read_revision_def split: option.splits)

lemma read_iso_eq_Some [simp]:
  "readCanonicalIsoTimestamp v = Some s \<longleftrightarrow> v = JStr s \<and> canonical_iso s"
  by (auto simp: readCanonicalIsoTimestamp_def split: js.splits)

lemma read_revision_JNum [simp]:
  "read_revision (JNum (NInt n)) = (if 0 \<le> n \<and> n \<le> 2 ^ 53 - 1 then Some n else None)"
  by (simp add: read_revision_def)

lemma read_iso_JStr [simp]:
  "readCanonicalIsoTimestamp (JStr s) = (if canonical_iso s then Some s else None)"
  by (simp add: readCanonicalIsoTimestamp_def)

interpretation recreate: value_codec parseSandboxRecreateTransaction recreate_to_js valid_recreate
proof
  fix a v
  show "parseSandboxRecreateTransaction (recreate_to_js a) = Some a" if "valid_recreate a"
    using that
    by (cases a) (simp add: parseSandboxRecreateTransaction_def recreate_to_js_def
        valid_recreate_def readNullableSha256_def recreate_source.read_write)
  show "valid_recreate a" if "parseSandboxRecreateTransaction v = Some a"
    using that
    by (auto simp: parseSandboxRecreateTransaction_def valid_recreate_def readNullableSha256_def
        dest: recreate_source.read_valid split: if_splits option.splits)
  show "json_clean (recreate_to_js a)" if "valid_recreate a"
    using that by (simp add: recreate_to_js_def valid_recreate_def recreate_source.write_clean)
  show "recreate_to_js a \<noteq> JNull" by (simp add: recreate_to_js_def)
qed


section \<open>The checkpoint\<close>

interpretation identity_decision: codec "parseCheckpointDecision parseSandboxIdentityValue"
  "decision_to_js identity_to_js" "decision_valid valid_identity"
  by (rule identity.decision_codec)

interpretation web_decision: codec "parseCheckpointDecision parseWebSearchValue"
  "decision_to_js web_search_config_to_js" "decision_valid valid_web_search"
  by (rule web_value.decision_codec)

interpretation selection_decision: codec "parseCheckpointDecision parseMessagingValue"
  "decision_to_js selection_to_js" "decision_valid (\<lambda>_. True)"
  by (rule selection.decision_codec)

interpretation resource_decision: codec "parseCheckpointDecision parseResourceProfileValue"
  "decision_to_js resource_to_js" "decision_valid (\<lambda>_. True)"
  by (rule resource.decision_codec)

lemma authority_decision:
  "origin_reparses parse_url \<Longrightarrow>
     codec (parseCheckpointDecision (parseGatewayAuthorityValue parse_url))
       (decision_to_js authority_to_js) (decision_valid (valid_authority parse_url))"
  by (rule codec.decision_codec [OF value_codec.axioms(1) [OF authority_codec]])

lemma decision_valid_True [simp]: "decision_valid (\<lambda>_. True) d"
  by (cases d) simp_all

definition wf_checkpoint :: "url_parser \<Rightarrow> checkpoint \<Rightarrow> bool" where
  "wf_checkpoint parse_url c =
     (canonical_iso (cp_updatedAt c)
      \<and> decision_valid valid_identity (cp_sandboxIdentity c)
      \<and> decision_valid valid_web_search (cp_webSearch c)
      \<and> decision_valid (valid_authority parse_url) (cp_gatewayAuthority c)
      \<and> valid_groups (cp_effectGroups c)
      \<and> valid_bindings (cp_bindings c)
      \<and> pred_option valid_recreate (cp_sandboxRecreate c)
      \<and> recreate_consistent (cp_sandboxIdentity c) (cp_gatewayAuthority c) (cp_sandboxRecreate c))"

lemma parseSchema_written:
  assumes "wf_checkpoint parse_url c" "origin_reparses parse_url"
  shows "parseSchema parse_url (serializeCheckpoint c) (decision_to_js authority_to_js (cp_gatewayAuthority c))
           (js_opt recreate_to_js (cp_sandboxRecreate c)) = Some c"
  using assms
  by (cases c) (simp add: parseSchema_def serializeCheckpoint_def wf_checkpoint_def parse_state_id
      identity_decision.read_write web_decision.read_write selection_decision.read_write
      resource_decision.read_write groups.read_write bindings.read_write recreate.nullable.read_write
      codec.read_write [OF authority_decision])

lemma parseSchema_valid:
  assumes "origin_reparses parse_url" "parseSchema parse_url v a r = Some c"
  shows "wf_checkpoint parse_url c"
  using assms(2) codec.read_valid [OF authority_decision [OF assms(1)]]
  by (auto simp: parseSchema_def wf_checkpoint_def
      dest: identity_decision.read_valid web_decision.read_valid groups.read_valid bindings.read_valid
        recreate.nullable.read_valid split: if_splits option.splits)

lemma serialize_clean:
  assumes "wf_checkpoint parse_url c" "origin_reparses parse_url"
  shows "json_clean (serializeCheckpoint c)"
  using assms
  by (simp add: serializeCheckpoint_def wf_checkpoint_def identity_decision.write_clean
      web_decision.write_clean selection_decision.write_clean resource_decision.write_clean
      groups.write_clean bindings.write_clean recreate.nullable.write_clean
      codec.write_clean [OF authority_decision])

lemma serialize_get [simp]:
  "isObjectRecord (serializeCheckpoint c)"
  "js_get (serializeCheckpoint c) ''schemaVersion'' = JNum (NInt CHECKPOINT_SCHEMA_VERSION)"
  "js_get (serializeCheckpoint c) ''gatewayAuthority'' =
     decision_to_js authority_to_js (cp_gatewayAuthority c)"
  "js_get (serializeCheckpoint c) ''sandboxRecreate'' =
     js_opt recreate_to_js (cp_sandboxRecreate c)"
  by (simp_all add: serializeCheckpoint_def)

lemma inspect_written:
  assumes "wf_checkpoint parse_url c" "origin_reparses parse_url"
  shows "inspectCheckpoint parse_url (serializeCheckpoint c) = CheckpointLoaded c"
proof -
  have "serializeCheckpoint c \<noteq> JUndef" "serializeCheckpoint c \<noteq> JNull"
    by (simp_all add: serializeCheckpoint_def)
  with parseSchema_written [OF assms] show ?thesis
    by (simp add: inspectCheckpoint_def CHECKPOINT_SCHEMA_VERSION_def)
qed

definition loaded_checkpoint :: "checkpoint_load_result \<Rightarrow> checkpoint option" where
  "loaded_checkpoint r =
     (case r of CheckpointLoaded c \<Rightarrow> Some c | CheckpointMigrated c _ \<Rightarrow> Some c | _ \<Rightarrow> None)"

lemma inspect_valid:
  assumes "origin_reparses parse_url" "loaded_checkpoint (inspectCheckpoint parse_url raw) = Some c"
  shows "wf_checkpoint parse_url c"
  using assms(2) parseSchema_valid [OF assms(1)]
  by (auto simp: inspectCheckpoint_def loaded_checkpoint_def split: if_splits option.splits)

lemma parseSchema_unset_authority:
  "parseSchema parse_url raw (JObj [(''kind'', JStr ''unset'')]) r = Some c \<Longrightarrow> cp_gatewayAuthority c = Unset"
  by (simp only: parseSchema_def, simp only: split: option.split_asm if_split_asm prod.split_asm)
    (auto simp: parseCheckpointDecision_def)

lemma parseSchema_no_recreate:
  "parseSchema parse_url raw a JNull = Some c \<Longrightarrow> cp_sandboxRecreate c = None"
  by (simp only: parseSchema_def, simp only: split: option.split_asm if_split_asm prod.split_asm)
    (auto simp: read_nullable_def)

end
