(* ===== verification/Session_Normalize.thy ===== *)
theory Session_Normalize
  imports Checkpoint_Codec Session_Model
begin

text \<open>
  What normalization guarantees: the double parsing of \<open>normalizeSession\<close> and \<open>createSession\<close>
  collapses to one reader per field, every session that comes out satisfies the invariant
  \<open>wf_session\<close>, and a session that satisfies it and is stable under redaction is reproduced by
  another normalization, in memory and through the disk.
\<close>

section \<open>Readers absorb their own output\<close>

lemma readString_opt [simp]: "readString (js_opt JStr x) = x"
  by (cases x) (simp_all add: readString_def)

lemma readString_or_undef [simp]: "readString (js_or_undef JStr x) = x"
  by (cases x) (simp_all add: readString_def js_or_undef_def)

lemma read_text_opt [simp]: "read_text P (js_opt JStr (read_text P v)) = read_text P v"
  by (cases "read_text P v") (simp_all, simp add: read_text_def)

lemma provenance_absorb [simp]:
  "parseServingProfileProvenance (js_opt id (parseServingProfileProvenance v)) =
     parseServingProfileProvenance v"
proof (cases "parseServingProfileProvenance v")
  case None
  then show ?thesis by (simp add: parseServingProfileProvenance_def)
next
  case (Some a)
  with provenance_fixpoint [OF this] show ?thesis by simp
qed

lemma intent_null [simp]: "parseStationExpressResumeIntent cat JNull = None"
  by (simp add: parseStationExpressResumeIntent_def)

lemma intent_absorb [simp]:
  "parseStationExpressResumeIntent cat
     (js_opt express_intent_to_js (parseStationExpressResumeIntent cat v)) =
     parseStationExpressResumeIntent cat v"
  using intent.read_idempotent [of cat v]
  by (cases "parseStationExpressResumeIntent cat v") (simp_all del: express_intent_to_js.simps)

lemma hermes_absorb [simp]:
  "readHermesAuthMethod (js_opt (\<lambda>m. JStr (hermes_auth_id m)) x) = x"
proof (cases x)
  case (Some m)
  then show ?thesis by (cases m) (simp_all add: readHermesAuthMethod_def)
qed (simp add: readHermesAuthMethod_def)

lemma effort_absorb [simp]: "normalizeReasoningEffort (js_opt (\<lambda>e. JStr (effort_id e)) x) = x"
  using effort.read_write by (cases x) (simp_all add: normalizeReasoningEffort_def)

lemma router_absorb [simp]:
  "readPositiveInteger (js_opt (\<lambda>n. JNum (NInt n)) (readPositiveInteger v)) = readPositiveInteger v"
  by (cases "readPositiveInteger v") (auto simp: readPositiveInteger_def split: option.splits if_splits)

lemma web_search_null [simp]: "normalizeWebSearchConfig JNull = None"
  by (simp add: normalizeWebSearchConfig_def isWebSearchEnabled_def js_get_def)

lemma parseWebSearchConfig_eq: "parseWebSearchConfig v = normalizeWebSearchConfig v"
  by (cases v) (simp_all add: parseWebSearchConfig_def normalizeWebSearchConfig_def
      isWebSearchEnabled_def js_get_def)

lemma web_search_absorb [simp]:
  "normalizeWebSearchConfig (js_opt web_search_config_to_js (normalizeWebSearchConfig v)) =
     normalizeWebSearchConfig v"
  using web_search.read_idempotent [of v] by (cases "normalizeWebSearchConfig v") simp_all

lemma resource_null [simp]: "parseResourceProfileValue JNull = None"
  by (simp add: parseResourceProfileValue_def)

lemma resource_absorb [simp]: "parseResourceProfileValue (js_opt resource_to_js x) = x"
  using resource.read_write by (cases x) simp_all

lemma disclosure_absorb [simp]: "toolDisclosureOrDefault (JStr (disclosure_id d)) = d"
  using disclosure.read_write [of d] by (simp add: toolDisclosureOrDefault_def)

lemma keepStrings_written [simp]: "keepStrings (map JStr xs) = xs"
  by (induction xs) (simp_all add: keepStrings_def map_filter_simps)

lemma string_list_written [simp]: "readStringList (write_array JStr xs) = Some xs"
  by (simp add: readStringList_def write_array_def)

lemma string_list_absorb [simp]: "readStringList (js_opt (write_array JStr) x) = x"
  by (cases x) (simp_all add: readStringList_def write_array_def)

lemma string_entries_written [simp]: "string_entries (string_record_to_js kvs) = kvs"
  by (induction kvs) (auto simp: string_entries_def string_record_to_js_def map_filter_simps)

lemma string_record_absorb [simp]: "readStringRecord (js_opt string_record_to_js x) = x"
  by (cases x) (simp_all add: readStringRecord_def, simp add: string_record_to_js_def)

lemma telegram_absorb [simp]: "parseTelegramConfig (js_opt telegram_to_js x) = x"
  by (cases x) (simp_all add: parseTelegramConfig_def telegram_to_js_def)

definition valid_wechat :: "wechat_config \<Rightarrow> bool" where
  "valid_wechat c =
     ((wc_accountId c \<noteq> None \<or> wc_baseUrl c \<noteq> None \<or> wc_userId c \<noteq> None)
      \<and> nonempty (wc_accountId c) = wc_accountId c \<and> nonempty (wc_baseUrl c) = wc_baseUrl c
      \<and> nonempty (wc_userId c) = wc_userId c)"

lemma wechat_get [simp]:
  "readString (js_get (wechat_to_js c) ''accountId'') = wc_accountId c"
  "readString (js_get (wechat_to_js c) ''baseUrl'') = wc_baseUrl c"
  "readString (js_get (wechat_to_js c) ''userId'') = wc_userId c"
  by (cases "wc_accountId c"; cases "wc_baseUrl c"; cases "wc_userId c",
      simp_all add: wechat_to_js_def opt_member_def readString_def)+

interpretation wechat: value_codec parseWechatConfig wechat_to_js valid_wechat
proof
  fix a v
  have obj: "isObjectRecord (wechat_to_js a)" by (simp add: wechat_to_js_def)
  show "parseWechatConfig (wechat_to_js a) = Some a" if "valid_wechat a"
    using that obj by (cases a) (auto simp: parseWechatConfig_def valid_wechat_def)
  show "valid_wechat a" if "parseWechatConfig v = Some a"
    using that by (auto simp: parseWechatConfig_def valid_wechat_def Let_def nonempty_def
        split: if_splits)
  show "json_clean (wechat_to_js a)"
    by (simp add: wechat_to_js_def opt_member_def split: option.splits)
  show "wechat_to_js a \<noteq> JNull" by (simp add: wechat_to_js_def)
qed

lemma wechat_absorb [simp]:
  "parseWechatConfig (js_opt wechat_to_js (parseWechatConfig v)) = parseWechatConfig v"
  using wechat.read_idempotent [of v]
  by (cases "parseWechatConfig v") (simp_all, simp add: parseWechatConfig_def)

lemma failure_absorb [simp]: "failure_of_js (js_opt failure_to_js x) = x"
  by (cases x) (simp_all add: failure_of_js_def failure_to_js_def)

lemma js_get_nonobject: "\<not> isObjectRecord v \<Longrightarrow> js_get v k = JUndef"
  by (cases v) (simp_all add: js_get_def)

lemma metadata_absorb [simp]:
  "nullish ''nemoclaw'' (readString (js_get (js_or_undef metadata_to_js (parseSessionMetadata v))
       ''gatewayName'')) = nullish ''nemoclaw'' (readString (js_get v ''gatewayName''))"
  "readString (js_get (js_or_undef metadata_to_js (parseSessionMetadata v)) ''fromDockerfile'') =
     readString (js_get v ''fromDockerfile'')"
proof -
  have u: "js_get JUndef k = JUndef" for k by (simp add: js_get_nonobject)
  show "nullish ''nemoclaw'' (readString (js_get (js_or_undef metadata_to_js (parseSessionMetadata v))
       ''gatewayName'')) = nullish ''nemoclaw'' (readString (js_get v ''gatewayName''))"
    by (cases "isObjectRecord v")
      (simp_all add: parseSessionMetadata_def js_or_undef_def metadata_to_js_def js_get_nonobject u)
  show "readString (js_get (js_or_undef metadata_to_js (parseSessionMetadata v)) ''fromDockerfile'') =
     readString (js_get v ''fromDockerfile'')"
    by (cases "isObjectRecord v")
      (simp_all add: parseSessionMetadata_def js_or_undef_def metadata_to_js_def js_get_nonobject u)
qed

lemma merge_steps_undef [simp]: "merge_steps parse keep steps JUndef = steps"
  by (simp add: merge_steps_def)

section \<open>The overrides normalization builds\<close>

lemma overrides_get [simp]:
  fixes env t data
  defines "ov \<equiv> normalized_overrides env t data"
  shows
    "js_get ov ''sessionId'' = js_or_undef JStr (readString (js_get data ''sessionId''))"
    "js_get ov ''mode'' = js_or_undef JStr (readString (js_get data ''mode''))"
    "js_get ov ''startedAt'' = js_or_undef JStr (readString (js_get data ''startedAt''))"
    "js_get ov ''updatedAt'' = js_or_undef JStr (readString (js_get data ''updatedAt''))"
    "js_get ov ''agent'' = js_opt JStr (readString (js_get data ''agent''))"
    "js_get ov ''sandboxName'' = js_opt JStr (readString (js_get data ''sandboxName''))"
    "js_get ov ''provider'' = js_opt JStr (readString (js_get data ''provider''))"
    "js_get ov ''model'' = js_opt JStr (readString (js_get data ''model''))"
    "js_get ov ''servingProfileProvenance'' =
       js_opt id (parseServingProfileProvenance (js_get data ''servingProfileProvenance''))"
    "js_get ov ''stationExpressIntent'' =
       js_opt express_intent_to_js (parseStationExpressResumeIntent (env_catalog env)
         (js_get data ''stationExpressIntent''))"
    "js_get ov ''stationExpressReceiptRetirement'' =
       js_opt JStr (read_text (is_hex_string 32) (js_get data ''stationExpressReceiptRetirement''))"
    "js_get ov ''endpointUrl'' = js_opt JStr (redactUrl env (js_get data ''endpointUrl''))"
    "js_get ov ''credentialEnv'' = js_opt JStr (readString (js_get data ''credentialEnv''))"
    "js_get ov ''hermesAuthMethod'' = js_opt (\<lambda>m. JStr (hermes_auth_id m))
       (readHermesAuthMethod (js_get data ''hermesAuthMethod''))"
    "js_get ov ''preferredInferenceApi'' =
       js_opt JStr (readString (js_get data ''preferredInferenceApi''))"
    "js_get ov ''compatibleEndpointReasoning'' =
       js_opt JStr (readString (js_get data ''compatibleEndpointReasoning''))"
    "js_get ov ''compatibleEndpointReasoningEffort'' = js_opt (\<lambda>e. JStr (effort_id e))
       (normalizeReasoningEffort (js_get data ''compatibleEndpointReasoningEffort''))"
    "js_get ov ''nimContainer'' = js_opt JStr (readString (js_get data ''nimContainer''))"
    "js_get ov ''routerPid'' =
       js_opt (\<lambda>n. JNum (NInt n)) (readPositiveInteger (js_get data ''routerPid''))"
    "js_get ov ''routerCredentialHash'' =
       js_opt JStr (readString (js_get data ''routerCredentialHash''))"
    "js_get ov ''webSearchConfig'' = js_opt web_search_config_to_js
       (normalizeWebSearchConfig (js_get data ''webSearchConfig''))"
    "js_get ov ''sandboxPromptProgress'' = progress_to_js
       (parseSandboxPromptProgress env (js_get data ''sandboxPromptProgress'') data)"
    "js_get ov ''resourceProfile'' =
       js_opt resource_to_js (parseResourceProfileValue (js_get data ''resourceProfile''))"
    "js_get ov ''toolDisclosure'' =
       JStr (disclosure_id (toolDisclosureOrDefault (js_get data ''toolDisclosure'')))"
    "js_get ov ''observabilityEnabled'' = JBool (js_get data ''observabilityEnabled'' = JBool True)"
    "js_get ov ''observabilityRequestedExplicitly'' =
       JBool (js_get data ''observabilityRequestedExplicitly'' = JBool True)"
    "js_get ov ''hermesToolGateways'' =
       js_opt (write_array JStr) (readStringList (js_get data ''hermesToolGateways''))"
    "js_get ov ''policyPresets'' =
       js_opt (write_array JStr) (readStringList (js_get data ''policyPresets''))"
    "js_get ov ''messagingPlan'' = js_opt id (env_parsePlan env (js_get data ''messagingPlan''))"
    "js_get ov ''stagedCredentialProviders'' =
       write_array JStr (nullish [] (readStringList (js_get data ''stagedCredentialProviders'')))"
    "js_get ov ''migratedLegacyValueHashes'' = js_opt string_record_to_js
       (readStringRecord (js_get data ''migratedLegacyValueHashes''))"
    "js_get ov ''gpuPassthrough'' = JBool (js_get data ''gpuPassthrough'' = JBool True)"
    "js_get ov ''telegramConfig'' =
       js_opt telegram_to_js (parseTelegramConfig (js_get data ''telegramConfig''))"
    "js_get ov ''wechatConfig'' =
       js_opt wechat_to_js (parseWechatConfig (js_get data ''wechatConfig''))"
    "js_get ov ''lastStepStarted'' = js_opt JStr (readString (js_get data ''lastStepStarted''))"
    "js_get ov ''lastCompletedStep'' = js_opt JStr (readString (js_get data ''lastCompletedStep''))"
    "js_get ov ''failure'' =
       js_opt failure_to_js (sanitizeFailure env (env_clock env t) (js_get data ''failure''))"
    "js_get ov ''metadata'' =
       js_or_undef metadata_to_js (parseSessionMetadata (js_get data ''metadata''))"
    "js_get ov ''checkpoint'' = js_get data ''checkpoint''"
    "js_get ov ''machine'' = JUndef"
    "js_get ov ''steps'' = JUndef"
    "hasOwn ov ''sandboxName''" "hasOwn ov ''webSearchConfig''"
    "hasOwn ov ''messagingPlan''" "hasOwn ov ''resourceProfile''"
  unfolding ov_def normalized_overrides_def parseWebSearchConfig_eq parseSessionResourceProfile_def
  by (simp_all only: js_lookup)

section \<open>One reader per field\<close>

lemma progress_get [simp]:
  "(js_get (progress_to_js p) ''sandboxName'' = JBool True) = pp_sandboxName p"
  "(js_get (progress_to_js p) ''webSearch'' = JBool True) = pp_webSearch p"
  "(js_get (progress_to_js p) ''messaging'' = JBool True) = pp_messaging p"
  "(js_get (progress_to_js p) ''resourceProfile'' = JBool True) = pp_resourceProfile p"
  by (simp_all add: progress_to_js_def)

lemma valid_name_choice [simp]:
  "isValidCheckpointedSandboxName (js_opt JStr (readString v)) = isValidCheckpointedSandboxName v"
  by (cases v) (simp_all add: isValidCheckpointedSandboxName_def readString_def)

lemma valid_web_choice [simp]:
  "isValidNullableWebSearchChoice (js_opt web_search_config_to_js (normalizeWebSearchConfig v))"
  by (cases "normalizeWebSearchConfig v")
    (auto simp: isValidNullableWebSearchChoice_def parseWebSearchConfig_eq
      dest: web_search.read_idempotent)

lemma valid_resource_choice [simp]:
  "isValidNullableResourceChoice (js_opt resource_to_js x)"
  by (cases x) (simp_all add: isValidNullableResourceChoice_def parseSessionResourceProfile_def
      resource.read_write)

definition normalized_progress :: "session_env \<Rightarrow> js \<Rightarrow> prompt_progress" where
  "normalized_progress env data =
     (let p = parseSandboxPromptProgress env (js_get data ''sandboxPromptProgress'') data in
      p\<lparr>pp_messaging := pp_messaging p
          \<and> isValidNullableMessagingChoice env
               (js_opt id (env_parsePlan env (js_get data ''messagingPlan'')))
               (js_opt JStr (readString (js_get data ''sandboxName'')))\<rparr>)"

lemma progress_absorb:
  "parseSandboxPromptProgress env
     (progress_to_js (parseSandboxPromptProgress env (js_get data ''sandboxPromptProgress'') data))
     (normalized_overrides env t data) = normalized_progress env data"
  by (auto simp: parseSandboxPromptProgress_def normalized_progress_def Let_def)

lemma created_fields [simp]:
  fixes env t data
  defines "c \<equiv> createSession env (Suc t) (normalized_overrides env t data)"
  shows
    "s_sessionId c = nullish (env_freshId env (Suc t)) (readString (js_get data ''sessionId''))"
    "s_status c = ''in_progress''"
    "s_mode c = nullish ''interactive'' (readString (js_get data ''mode''))"
    "s_startedAt c = nullish (env_clock env (Suc t)) (readString (js_get data ''startedAt''))"
    "s_updatedAt c = nullish (env_clock env (Suc t)) (readString (js_get data ''updatedAt''))"
    "s_lastStepStarted c = readString (js_get data ''lastStepStarted'')"
    "s_lastCompletedStep c = readString (js_get data ''lastCompletedStep'')"
    "s_failure c = sanitizeFailure env (env_clock env t) (js_get data ''failure'')"
    "s_agent c = readString (js_get data ''agent'')"
    "s_sandboxName c = readString (js_get data ''sandboxName'')"
    "s_provider c = readString (js_get data ''provider'')"
    "s_model c = readString (js_get data ''model'')"
    "s_servingProfileProvenance c =
       parseServingProfileProvenance (js_get data ''servingProfileProvenance'')"
    "s_stationExpressIntent c =
       parseStationExpressResumeIntent (env_catalog env) (js_get data ''stationExpressIntent'')"
    "s_stationExpressReceiptRetirement c =
       read_text (is_hex_string 32) (js_get data ''stationExpressReceiptRetirement'')"
    "s_endpointUrl c = redactUrl env (js_get data ''endpointUrl'')"
    "s_credentialEnv c = readString (js_get data ''credentialEnv'')"
    "s_hermesAuthMethod c = readHermesAuthMethod (js_get data ''hermesAuthMethod'')"
    "s_preferredInferenceApi c = readString (js_get data ''preferredInferenceApi'')"
    "s_compatibleEndpointReasoning c = readString (js_get data ''compatibleEndpointReasoning'')"
    "s_compatibleEndpointReasoningEffort c =
       normalizeReasoningEffort (js_get data ''compatibleEndpointReasoningEffort'')"
    "s_nimContainer c = readString (js_get data ''nimContainer'')"
    "s_routerPid c = readPositiveInteger (js_get data ''routerPid'')"
    "s_routerCredentialHash c = readString (js_get data ''routerCredentialHash'')"
    "s_webSearchConfig c = normalizeWebSearchConfig (js_get data ''webSearchConfig'')"
    "s_sandboxPromptProgress c = normalized_progress env data"
    "s_resourceProfile c = parseResourceProfileValue (js_get data ''resourceProfile'')"
    "s_toolDisclosure c = toolDisclosureOrDefault (js_get data ''toolDisclosure'')"
    "s_observabilityEnabled c = (js_get data ''observabilityEnabled'' = JBool True)"
    "s_observabilityRequestedExplicitly c =
       (js_get data ''observabilityRequestedExplicitly'' = JBool True)"
    "s_hermesToolGateways c = readStringList (js_get data ''hermesToolGateways'')"
    "s_policyPresets c = readStringList (js_get data ''policyPresets'')"
    "s_messagingPlan c =
       env_parsePlan env (js_opt id (env_parsePlan env (js_get data ''messagingPlan'')))"
    "s_stagedCredentialProviders c =
       nullish [] (readStringList (js_get data ''stagedCredentialProviders''))"
    "s_migratedLegacyValueHashes c = readStringRecord (js_get data ''migratedLegacyValueHashes'')"
    "s_gpuPassthrough c = (js_get data ''gpuPassthrough'' = JBool True)"
    "s_telegramConfig c = parseTelegramConfig (js_get data ''telegramConfig'')"
    "s_wechatConfig c = parseWechatConfig (js_get data ''wechatConfig'')"
    "s_metadata c =
       \<lparr>md_gatewayName = nullish ''nemoclaw'' (readString (js_get (js_get data ''metadata'') ''gatewayName'')),
        md_fromDockerfile = readString (js_get (js_get data ''metadata'') ''fromDockerfile'')\<rparr>"
    "s_checkpoint c = parseStoredCheckpoint env (js_get data ''checkpoint'')"
    "s_steps c = defaultSteps"
    "\<not> s_invalidToolDisclosure c"
  unfolding c_def createSession_def Let_def
  by (simp_all add: parseSessionResourceProfile_def progress_absorb
      invalidRecordedToolDisclosure_def disclosure.read_write)

section \<open>The invariant of a normalized session\<close>

definition redacted_text :: "session_env \<Rightarrow> string option \<Rightarrow> bool" where
  "redacted_text env x = (x = None \<or> (\<exists>t. x = Some (take 240 (env_replaceSecrets env t))))"

definition redacted_url :: "session_env \<Rightarrow> string option \<Rightarrow> bool" where
  "redacted_url env x = (x = None \<or> (\<exists>t. x = env_redactUrlToken env t))"

lemma redactSensitiveText_redacted [simp]: "redacted_text env (redactSensitiveText env v)"
  by (cases "js_string v") (auto simp: redacted_text_def redactSensitiveText_def)

lemma redactUrl_redacted [simp]: "redacted_url env (redactUrl env v)"
  by (auto simp: redacted_url_def redactUrl_def split: option.splits)

definition valid_failure :: "session_env \<Rightarrow> session_failure \<Rightarrow> bool" where
  "valid_failure env f =
     ((truthy (fl_step f) \<or> truthy (fl_message f)) \<and> redacted_text env (fl_message f))"

definition wf_steps :: "session_env \<Rightarrow> (string \<times> step_state) list \<Rightarrow> bool" where
  "wf_steps env steps =
     (map fst steps = STEP_NAMES \<and> list_all (\<lambda>(n, st). redacted_text env (st_error st)) steps)"

definition wf_receipt :: "session_env \<Rightarrow> string \<Rightarrow> machine_snapshot \<Rightarrow> recovery_receipt \<Rightarrow> bool" where
  "wf_receipt env sessionId m r =
     (rr_entry r = ms_state m \<and> \<not> isTerminalOnboardMachineState (rr_entry r)
      \<and> ms_stateEnteredAt m = Some (rr_appliedAt r) \<and> canonical_iso (rr_appliedAt r)
      \<and> rr_revision r = ms_revision m
      \<and> is_hex_string 64 (rr_id r)
      \<and> rr_id r = createSessionRecoveryReceiptId env sessionId (rr_revision r) (rr_reason r) (rr_entry r))"

definition wf_machine :: "session_env \<Rightarrow> string \<Rightarrow> machine_snapshot \<Rightarrow> bool" where
  "wf_machine env sessionId m =
     (0 \<le> ms_revision m \<and> pred_option (wf_receipt env sessionId m) (ms_recoveryReceipt m))"

definition express_session_ok :: "session \<Rightarrow> bool" where
  "express_session_ok s =
     (s_stationExpressIntent s = None
      \<or> s_resumable s \<and> s_mode s = ''non-interactive''
        \<and> (s_status s = ''in_progress'' \<or> s_status s = ''failed''))"

definition progress_ok :: "session \<Rightarrow> bool" where
  "progress_ok s =
     (pp_sandboxName (s_sandboxPromptProgress s) \<longrightarrow>
        isValidCheckpointedSandboxName (js_opt JStr (s_sandboxName s)))"

text \<open>
  What a session needs so that normalization does not refuse it, and what normalization adds
  on top: every text that may carry secrets went through a redactor.
\<close>

definition storable :: "session_env \<Rightarrow> session \<Rightarrow> bool" where
  "storable env s =
     (map fst (s_steps s) = STEP_NAMES
      \<and> wf_machine env (s_sessionId s) (s_machine s)
      \<and> pred_option (\<lambda>v. parseServingProfileProvenance v = Some v) (s_servingProfileProvenance s)
      \<and> pred_option (valid_intent (env_catalog env)) (s_stationExpressIntent s)
      \<and> pred_option (is_hex_string 32) (s_stationExpressReceiptRetirement s)
      \<and> pred_option (\<lambda>n. 0 < n) (s_routerPid s)
      \<and> pred_option valid_web_search (s_webSearchConfig s)
      \<and> pred_option valid_wechat (s_wechatConfig s)
      \<and> pred_option (wf_checkpoint (env_parseUrl env)) (s_checkpoint s)
      \<and> express_session_ok s \<and> retirement_ok s \<and> express_provider_ok s)"

definition redacted_session :: "session_env \<Rightarrow> session \<Rightarrow> bool" where
  "redacted_session env s =
     (pred_option (valid_failure env) (s_failure s)
      \<and> redacted_url env (s_endpointUrl s)
      \<and> list_all (\<lambda>(n, st). redacted_text env (st_error st)) (s_steps s)
      \<and> progress_ok s)"

definition wf_session :: "session_env \<Rightarrow> session \<Rightarrow> bool" where
  "wf_session env s = (storable env s \<and> redacted_session env s)"

lemma pred_optionI: "(\<And>a. x = Some a \<Longrightarrow> P a) \<Longrightarrow> pred_option P x"
  by (cases x) simp_all

lemma sanitizeFailure_valid: "pred_option (valid_failure env) (sanitizeFailure env now v)"
  by (rule pred_optionI)
    (auto simp: sanitizeFailure_def valid_failure_def Let_def split: if_splits)

lemma receipt_parse_wf:
  assumes "parseSessionRecoveryReceipt env v (ms_state m) (ms_stateEnteredAt m) (ms_revision m) sid
             = Some r"
  shows "wf_receipt env sid m r"
  using assms
  by (auto simp: parseSessionRecoveryReceipt_def wf_receipt_def split: if_splits option.splits)

lemma readNonNegativeInteger_nonneg: "readNonNegativeInteger v = Some n \<Longrightarrow> 0 \<le> n"
  by (auto simp: readNonNegativeInteger_def split: option.splits if_splits)

lemma nullish_nonneg: "0 \<le> nullish 0 (readNonNegativeInteger v)"
  by (cases "readNonNegativeInteger v") (auto dest: readNonNegativeInteger_nonneg)

lemma machine_parse_wf:
  assumes "parseMachineSnapshot env v sid = Some m"
  shows "wf_machine env sid m"
proof -
  from assms have m: "ms_revision m = nullish 0 (readNonNegativeInteger (js_get v ''revision''))"
    and r: "ms_recoveryReceipt m = parseSessionRecoveryReceipt env (js_get v ''recoveryReceipt'')
              (ms_state m) (ms_stateEnteredAt m) (ms_revision m) sid"
    by (auto simp: parseMachineSnapshot_def Let_def split: if_splits option.splits)
  have "pred_option (wf_receipt env sid m) (ms_recoveryReceipt m)"
    by (rule pred_optionI) (auto simp: r intro: receipt_parse_wf)
  with m show ?thesis by (simp add: wf_machine_def nullish_nonneg)
qed

lemma createMachineSnapshot_wf [simp]: "wf_machine env sid (createMachineSnapshot st at n)"
  by (simp add: wf_machine_def createMachineSnapshot_def)

lemma inferMachineSnapshot_wf [simp]: "wf_machine env sid (inferMachineSnapshot s)"
  by (simp add: inferMachineSnapshot_def Let_def)

lemma parseStepState_redacted: "parseStepState env v = Some st \<Longrightarrow> redacted_text env (st_error st)"
  by (auto simp: parseStepState_def split: if_splits option.splits)

lemma list_all_alist_set:
  "list_all P kvs \<Longrightarrow> P (k, v) \<Longrightarrow> (\<And>k' x. P (k', x) = Q x) \<Longrightarrow> list_all P (alist_set k v kvs)"
  by (induction kvs rule: alist_set.induct) auto

lemma wf_steps_set:
  "wf_steps env steps \<Longrightarrow> map_of steps n \<noteq> None \<Longrightarrow> redacted_text env (st_error st) \<Longrightarrow>
     wf_steps env (alist_set n st steps)"
  by (auto simp: wf_steps_def alist_set_keys intro!: list_all_alist_set
      [where Q = "\<lambda>st. redacted_text env (st_error st)"])

lemma wf_steps_merge:
  assumes "wf_steps env steps" "\<And>n. keep n \<Longrightarrow> n \<in> set STEP_NAMES"
  shows "wf_steps env (merge_steps (parseStepState env) keep steps v)"
proof -
  have "wf_steps env (fold (\<lambda>(name, step) acc.
             case parseStepState env step of
               Some st \<Rightarrow> if keep name then alist_set name st acc else acc
             | None \<Rightarrow> acc) kvs steps)" for kvs
    using assms(1)
  proof (induction kvs arbitrary: steps)
    case (Cons kv kvs)
    obtain name step where kv: "kv = (name, step)" by (cases kv)
    have "map_of steps name \<noteq> None" if "keep name"
      using assms(2) [OF that] Cons.prems by (auto simp: wf_steps_def map_of_eq_None_iff
          simp flip: set_map)
    then show ?case
      using Cons kv by (auto simp: parseStepState_redacted wf_steps_set split: option.splits)
  qed simp
  then show ?thesis by (simp add: merge_steps_def)
qed

lemma wf_steps_default [simp]: "wf_steps env defaultSteps"
  by (simp add: wf_steps_def defaultSteps_def pending_step_def redacted_text_def list_all_iff o_def)

lemma default_steps_names: "map_of defaultSteps n = Some y \<Longrightarrow> n \<in> set STEP_NAMES"
  by (auto simp: defaultSteps_def map_of_map_restrict restrict_map_def split: if_splits)


lemma checkpoint_parse_wf:
  assumes "origin_reparses (env_parseUrl env)"
  shows "pred_option (wf_checkpoint (env_parseUrl env)) (parseStoredCheckpoint env v)"
proof (rule pred_optionI)
  fix c
  assume "parseStoredCheckpoint env v = Some c"
  then have "loaded_checkpoint (inspectCheckpoint (env_parseUrl env) v) = Some c"
    by (simp add: parseStoredCheckpoint_def loaded_checkpoint_def
        split: checkpoint_load_result.splits)
  with assms show "wf_checkpoint (env_parseUrl env) c" by (rule inspect_valid)
qed

lemma express_status_session:
  assumes "express_status_ok data s" "s_resumable s = (js_get data ''resumable'' \<noteq> JBool False)"
    "s_status s = nullish d (readString (js_get data ''status''))"
  shows "express_session_ok s"
  using assms by (auto simp: express_status_ok_def express_session_ok_def readString_def)

lemma express_provider_ok_machine [simp]:
  "express_provider_ok (s\<lparr>s_machine := m\<rparr>) = express_provider_ok s"
  by (cases "s_stationExpressIntent s"; cases "the (s_stationExpressIntent s)")
    (simp_all add: express_provider_ok_def step_complete_def)

lemma express_provider_ok_flag [simp]:
  "express_provider_ok (s\<lparr>s_invalidToolDisclosure := b\<rparr>) = express_provider_ok s"
  by (cases "s_stationExpressIntent s"; cases "the (s_stationExpressIntent s)")
    (simp_all add: express_provider_ok_def step_complete_def)

lemma progress_normalized_ok:
  "pp_sandboxName (normalized_progress env data) \<Longrightarrow>
     isValidCheckpointedSandboxName (js_opt JStr (readString (js_get data ''sandboxName'')))"
  by (simp add: normalized_progress_def Let_def parseSandboxPromptProgress_def)

lemma normalizeSession_wf:
  assumes "origin_reparses (env_parseUrl env)" "normalizeSession env t invalid data = Some s"
  shows "wf_session env s"
proof -
  define created where "created = createSession env (Suc t) (normalized_overrides env t data)"
  define n1 where "n1 = created\<lparr>s_resumable := (js_get data ''resumable'' \<noteq> JBool False),
               s_status := nullish (s_status created) (readString (js_get data ''status''))\<rparr>"
  define n2 where "n2 = n1\<lparr>s_steps := (if isObjectRecord (js_get data ''steps'')
                                then merge_steps (parseStepState env)
                                       (\<lambda>n. map_of (s_steps n1) n \<noteq> None)
                                       (s_steps n1) (js_get data ''steps'')
                                else s_steps n1)\<rparr>"
  from assms(2) have ok: "express_status_ok data n1" "retirement_ok n1" "express_provider_ok n2"
    and s: "s = n2\<lparr>s_machine := nullish (inferMachineSnapshot n2)
                       (parseMachineSnapshot env (js_get data ''machine'') (s_sessionId n2)),
                     s_invalidToolDisclosure :=
                       s_invalidToolDisclosure n2 \<or> invalid
                       \<or> invalidRecordedToolDisclosure (js_get data ''toolDisclosure'')\<rparr>"
    by (simp_all add: normalizeSession_def Let_def n2_def n1_def created_def split: if_splits)
  have "wf_steps env (s_steps s)"
    by (auto simp: s n2_def n1_def created_def intro!: wf_steps_merge dest: default_steps_names)
  moreover have "wf_machine env (s_sessionId s) (s_machine s)"
    by (cases "parseMachineSnapshot env (js_get data ''machine'') (s_sessionId n2)")
      (auto simp: s dest: machine_parse_wf)
  moreover have "express_session_ok s"
    using express_status_session [OF ok(1)] by (simp add: s n2_def n1_def express_session_ok_def)
  moreover have "retirement_ok s" using ok(2) by (simp add: s n2_def retirement_ok_def)
  moreover have "express_provider_ok s"
    using ok(3) by (simp add: s)
  moreover have "progress_ok s"
    using progress_normalized_ok by (simp add: s n2_def n1_def created_def progress_ok_def)
  moreover have "pred_option (\<lambda>v. parseServingProfileProvenance v = Some v) (s_servingProfileProvenance s)"
    by (rule pred_optionI) (simp add: s n2_def n1_def created_def, metis provenance_fixpoint)
  moreover have "pred_option (valid_intent (env_catalog env)) (s_stationExpressIntent s)"
    by (rule pred_optionI) (simp add: s n2_def n1_def created_def, rule intent.read_valid)
  moreover have "pred_option (\<lambda>n. 0 < n) (s_routerPid s)"
    by (rule pred_optionI) (auto simp: s n2_def n1_def created_def readPositiveInteger_def
        split: option.splits if_splits)
  moreover have "pred_option valid_web_search (s_webSearchConfig s)"
    by (rule pred_optionI) (simp add: s n2_def n1_def created_def, rule web_search.read_valid)
  moreover have "pred_option valid_wechat (s_wechatConfig s)"
    by (rule pred_optionI) (simp add: s n2_def n1_def created_def, rule wechat.read_valid)
  moreover have "pred_option (is_hex_string 32) (s_stationExpressReceiptRetirement s)"
    by (rule pred_optionI) (simp add: s n2_def n1_def created_def)
  ultimately show ?thesis
    using checkpoint_parse_wf [OF assms(1)] sanitizeFailure_valid
    by (simp add: wf_session_def storable_def redacted_session_def wf_steps_def
        s n2_def n1_def created_def)
qed


section \<open>A stable session is reproduced\<close>

text \<open>
  The parts of a session that pass through parameters of the model: the redactors must leave
  already redacted text alone, and the plan parser must give back the plan it is shown.
\<close>

definition stable_text :: "session_env \<Rightarrow> string option \<Rightarrow> bool" where
  "stable_text env x = (redactSensitiveText env (js_opt JStr x) = x)"

definition stable_session :: "session_env \<Rightarrow> session \<Rightarrow> bool" where
  "stable_session env s =
     (redactUrl env (js_opt JStr (s_endpointUrl s)) = s_endpointUrl s
      \<and> stable_text env (Option.bind (s_failure s) fl_message)
      \<and> list_all (\<lambda>(n, st). stable_text env (st_error st)) (s_steps s)
      \<and> env_parsePlan env (js_opt id (s_messagingPlan s)) = s_messagingPlan s
      \<and> pred_option (\<lambda>p. p \<noteq> JNull) (s_messagingPlan s)
      \<and> (pp_messaging (s_sandboxPromptProgress s) \<longrightarrow>
           isValidNullableMessagingChoice env (js_opt id (s_messagingPlan s))
             (js_opt JStr (s_sandboxName s))))"

lemma members_get [simp]:
  fixes s plan ckpt
  defines "d \<equiv> JObj (session_members s plan ckpt)"
  shows
    "js_get d ''version'' = JNum (NInt SESSION_VERSION)"
    "js_get d ''sessionId'' = JStr (s_sessionId s)"
    "js_get d ''resumable'' = JBool (s_resumable s)"
    "js_get d ''status'' = JStr (s_status s)"
    "js_get d ''mode'' = JStr (s_mode s)"
    "js_get d ''startedAt'' = JStr (s_startedAt s)"
    "js_get d ''updatedAt'' = JStr (s_updatedAt s)"
    "js_get d ''lastStepStarted'' = js_opt JStr (s_lastStepStarted s)"
    "js_get d ''lastCompletedStep'' = js_opt JStr (s_lastCompletedStep s)"
    "js_get d ''failure'' = js_opt failure_to_js (s_failure s)"
    "js_get d ''agent'' = js_opt JStr (s_agent s)"
    "js_get d ''sandboxName'' = js_opt JStr (s_sandboxName s)"
    "js_get d ''provider'' = js_opt JStr (s_provider s)"
    "js_get d ''model'' = js_opt JStr (s_model s)"
    "js_get d ''servingProfileProvenance'' = js_opt id (s_servingProfileProvenance s)"
    "js_get d ''stationExpressIntent'' = js_opt express_intent_to_js (s_stationExpressIntent s)"
    "js_get d ''stationExpressReceiptRetirement'' = js_opt JStr (s_stationExpressReceiptRetirement s)"
    "js_get d ''endpointUrl'' = js_opt JStr (s_endpointUrl s)"
    "js_get d ''credentialEnv'' = js_opt JStr (s_credentialEnv s)"
    "js_get d ''hermesAuthMethod'' = js_opt (\<lambda>m. JStr (hermes_auth_id m)) (s_hermesAuthMethod s)"
    "js_get d ''preferredInferenceApi'' = js_opt JStr (s_preferredInferenceApi s)"
    "js_get d ''compatibleEndpointReasoning'' = js_opt JStr (s_compatibleEndpointReasoning s)"
    "js_get d ''compatibleEndpointReasoningEffort'' =
       js_opt (\<lambda>e. JStr (effort_id e)) (s_compatibleEndpointReasoningEffort s)"
    "js_get d ''nimContainer'' = js_opt JStr (s_nimContainer s)"
    "js_get d ''routerPid'' = js_opt (\<lambda>n. JNum (NInt n)) (s_routerPid s)"
    "js_get d ''routerCredentialHash'' = js_opt JStr (s_routerCredentialHash s)"
    "js_get d ''webSearchConfig'' = js_opt web_search_config_to_js (s_webSearchConfig s)"
    "js_get d ''sandboxPromptProgress'' = progress_to_js (s_sandboxPromptProgress s)"
    "js_get d ''resourceProfile'' = js_opt resource_to_js (s_resourceProfile s)"
    "js_get d ''toolDisclosure'' = JStr (disclosure_id (s_toolDisclosure s))"
    "js_get d ''observabilityEnabled'' = JBool (s_observabilityEnabled s)"
    "js_get d ''observabilityRequestedExplicitly'' = JBool (s_observabilityRequestedExplicitly s)"
    "js_get d ''hermesToolGateways'' = js_opt (write_array JStr) (s_hermesToolGateways s)"
    "js_get d ''policyPresets'' = js_opt (write_array JStr) (s_policyPresets s)"
    "js_get d ''messagingPlan'' = plan"
    "js_get d ''stagedCredentialProviders'' = write_array JStr (s_stagedCredentialProviders s)"
    "js_get d ''migratedLegacyValueHashes'' = js_opt string_record_to_js (s_migratedLegacyValueHashes s)"
    "js_get d ''gpuPassthrough'' = JBool (s_gpuPassthrough s)"
    "js_get d ''telegramConfig'' = js_opt telegram_to_js (s_telegramConfig s)"
    "js_get d ''wechatConfig'' = js_opt wechat_to_js (s_wechatConfig s)"
    "js_get d ''metadata'' = metadata_to_js (s_metadata s)"
    "js_get d ''machine'' = machine_to_js (s_machine s)"
    "js_get d ''checkpoint'' = ckpt"
    "js_get d ''steps'' = steps_to_js (s_steps s)"
    "hasOwn d ''sandboxName''" "hasOwn d ''webSearchConfig''"
    "hasOwn d ''messagingPlan''" "hasOwn d ''resourceProfile''"
  unfolding d_def session_members_def by (simp_all only: js_lookup)


lemma reason_absorb [simp]: "parse_reason (JStr (reason_id r)) = Some r"
  by (cases r) (simp_all add: parse_reason_def)

lemma read_state_id [simp]: "read_state (JStr (state_id st)) = Some st"
  by (simp add: read_state_def parse_state_id)

lemma read_nonneg_NInt [simp]:
  "readNonNegativeInteger (JNum (NInt n)) = (if 0 \<le> n then Some n else None)"
  by (simp add: readNonNegativeInteger_def)

lemma receipt_written:
  assumes "wf_receipt env sid m r" "0 \<le> ms_revision m"
  shows "parseSessionRecoveryReceipt env (receipt_to_js r) (ms_state m) (ms_stateEnteredAt m)
           (ms_revision m) sid = Some r"
  using assms
  by (cases r) (auto simp: parseSessionRecoveryReceipt_def receipt_to_js_def wf_receipt_def)

lemma receipt_absent [simp]: "parseSessionRecoveryReceipt env JUndef st at n sid = None"
  by (simp add: parseSessionRecoveryReceipt_def)

lemma machine_get [simp]:
  "isObjectRecord (machine_to_js m)"
  "js_get (machine_to_js m) ''version'' = JNum (NInt MACHINE_SNAPSHOT_VERSION)"
  "js_get (machine_to_js m) ''state'' = JStr (state_id (ms_state m))"
  "js_get (machine_to_js m) ''stateEnteredAt'' = js_opt JStr (ms_stateEnteredAt m)"
  "js_get (machine_to_js m) ''revision'' = JNum (NInt (ms_revision m))"
  "js_get (machine_to_js m) ''recoveryReceipt'' = js_or_undef receipt_to_js (ms_recoveryReceipt m)"
  by (simp_all add: machine_to_js_def js_or_undef_def split: option.splits)

lemma machine_written:
  assumes "wf_machine env sid m"
  shows "parseMachineSnapshot env (machine_to_js m) sid = Some m"
proof (cases "ms_recoveryReceipt m")
  case None
  with assms show ?thesis
    by (cases m) (simp add: parseMachineSnapshot_def wf_machine_def Let_def js_or_undef_def)
next
  case (Some r)
  with assms receipt_written [of env sid m r] show ?thesis
    by (cases m) (simp add: parseMachineSnapshot_def wf_machine_def Let_def js_or_undef_def)
qed

lemma failure_written:
  assumes "pred_option (valid_failure env) f" "stable_text env (Option.bind f fl_message)"
  shows "sanitizeFailure env now (js_opt failure_to_js f) = f"
  using assms
  by (cases f) (simp_all add: sanitizeFailure_def failure_to_js_def valid_failure_def stable_text_def
      Let_def)

lemma status_absorb [simp]: "readStepStatus (JStr (status_id st)) = Some st"
  by (cases st) (simp_all add: readStepStatus_def STEP_STATES_def)

definition redact_step :: "session_env \<Rightarrow> step_state \<Rightarrow> step_state" where
  "redact_step env st = st\<lparr>st_error := redactSensitiveText env (js_opt JStr (st_error st))\<rparr>"

definition redact_steps :: "session_env \<Rightarrow> (string \<times> step_state) list \<Rightarrow> (string \<times> step_state) list"
  where "redact_steps env steps = map (\<lambda>(n, st). (n, redact_step env st)) steps"

lemma redact_step_simps [simp]:
  "st_status (redact_step env st) = st_status st"
  "st_startedAt (redact_step env st) = st_startedAt st"
  "st_completedAt (redact_step env st) = st_completedAt st"
  by (simp_all add: redact_step_def)

lemma redact_steps_of [simp]:
  "map_of (redact_steps env steps) n = map_option (redact_step env) (map_of steps n)"
  by (induction steps) (auto simp: redact_steps_def)

lemma redact_steps_keys [simp]: "map fst (redact_steps env steps) = map fst steps"
  by (simp add: redact_steps_def split_def o_def)

lemma step_written: "parseStepState env (step_to_js st) = Some (redact_step env st)"
  by (cases st) (simp add: parseStepState_def step_to_js_def redact_step_def)

lemma alist_set_append:
  "k \<notin> fst ` set pre \<Longrightarrow> alist_set k v (pre @ (k, w) # post) = pre @ (k, v) # post"
  by (induction pre) auto

lemma fold_set_all:
  assumes "map fst base = map fst kvs" "distinct (map fst kvs)" "fst ` set pre \<inter> fst ` set kvs = {}"
  shows "fold (\<lambda>(n, v) acc. alist_set n v acc) kvs (pre @ base) = pre @ kvs"
  using assms
proof (induction kvs arbitrary: base pre)
  case (Cons kv kvs)
  obtain k v where kv: "kv = (k, v)" by (cases kv)
  obtain w base' where base: "base = (k, w) # base'" "map fst base' = map fst kvs"
    using Cons.prems(1) kv by (cases base) auto
  have "fold (\<lambda>(n, v) acc. alist_set n v acc) kvs ((pre @ [(k, v)]) @ base') = (pre @ [(k, v)]) @ kvs"
    using Cons.prems kv base(2) by (intro Cons.IH) auto
  then show ?case
    using Cons.prems(3) kv base by (simp add: alist_set_append)
qed simp

lemma distinct_step_names [simp]: "distinct STEP_NAMES"
  by (simp add: STEP_NAMES_def)

lemma default_steps_keys: "map fst defaultSteps = STEP_NAMES"
  by (simp add: defaultSteps_def o_def)

lemma merge_written:
  assumes "map fst steps = STEP_NAMES"
  shows "merge_steps (parseStepState env) (\<lambda>n. map_of defaultSteps n \<noteq> None) defaultSteps
           (steps_to_js steps) = redact_steps env steps"
proof -
  have keep: "map_of defaultSteps n \<noteq> None" if "n \<in> fst ` set steps" for n
    using that assms by (auto simp: defaultSteps_def map_of_eq_None_iff image_iff o_def simp flip: set_map)
  have "fold (\<lambda>(name, step) acc.
             case parseStepState env step of
               Some st \<Rightarrow> if map_of defaultSteps name \<noteq> None then alist_set name st acc else acc
             | None \<Rightarrow> acc) (map (\<lambda>(n, st). (n, step_to_js st)) kvs) acc
      = fold (\<lambda>(n, v) acc. alist_set n v acc) (redact_steps env kvs) acc"
    if "set kvs \<subseteq> set steps" for kvs acc
    using that
  proof (induction kvs arbitrary: acc)
    case (Cons kv kvs)
    obtain n st where kv: "kv = (n, st)" by (cases kv)
    have "map_of defaultSteps n \<noteq> None"
      using Cons.prems kv keep [of n] by (auto simp: rev_image_eqI)
    then show ?case using Cons kv by (simp add: step_written redact_steps_def)
  qed (simp add: redact_steps_def)
  from this [of steps defaultSteps] show ?thesis
    unfolding merge_steps_def steps_to_js_def js_entries.simps
    using fold_set_all [of defaultSteps "redact_steps env steps" "[]"] assms
    by (simp only: default_steps_keys append_Nil distinct_step_names simp_thms list.set
        image_empty Int_empty_left subset_refl redact_steps_keys)
qed

lemma checkpoint_written:
  assumes "origin_reparses (env_parseUrl env)" "pred_option (wf_checkpoint (env_parseUrl env)) c"
  shows "parseStoredCheckpoint env (js_opt serializeCheckpoint c) = c"
  using assms by (cases c) (simp_all add: parseStoredCheckpoint_def inspect_written,
      simp add: inspectCheckpoint_def)

definition recheck_progress :: "session_env \<Rightarrow> js \<Rightarrow> session \<Rightarrow> prompt_progress" where
  "recheck_progress env plan s =
     (let p = s_sandboxPromptProgress s; name = js_opt JStr (s_sandboxName s) in
      p\<lparr>pp_sandboxName := pp_sandboxName p \<and> isValidCheckpointedSandboxName name,
        pp_messaging := pp_messaging p \<and> isValidNullableMessagingChoice env plan name
          \<and> isValidNullableMessagingChoice env (js_opt id (env_parsePlan env plan)) name\<rparr>)"

lemma progress_written:
  assumes "pred_option valid_web_search (s_webSearchConfig s)"
  shows "normalized_progress env (JObj (session_members s plan ckpt)) = recheck_progress env plan s"
proof -
  have "isValidNullableWebSearchChoice (js_opt web_search_config_to_js (s_webSearchConfig s))"
    using assms web_search.read_write
    by (cases "s_webSearchConfig s")
      (simp_all add: isValidNullableWebSearchChoice_def parseWebSearchConfig_eq)
  then show ?thesis
    by (cases "s_sandboxPromptProgress s")
      (auto simp: normalized_progress_def recheck_progress_def Let_def parseSandboxPromptProgress_def)
qed

lemma provenance_written:
  "pred_option (\<lambda>v. parseServingProfileProvenance v = Some v) x \<Longrightarrow>
     parseServingProfileProvenance (js_opt id x) = x"
  by (cases x) (simp_all add: parseServingProfileProvenance_def)

lemma intent_written:
  "pred_option (valid_intent cat) i \<Longrightarrow>
     parseStationExpressResumeIntent cat (js_opt express_intent_to_js i) = i"
  by (cases i) (simp_all add: intent.read_write del: express_intent_to_js.simps)

lemma text_written: "pred_option P y \<Longrightarrow> read_text P (js_opt JStr y) = y"
  by (cases y) (simp_all add: read_text_def)

lemma router_written:
  "pred_option (\<lambda>n. 0 < n) p \<Longrightarrow> readPositiveInteger (js_opt (\<lambda>n. JNum (NInt n)) p) = p"
  by (cases p) (simp_all add: readPositiveInteger_def)

lemma web_written:
  "pred_option valid_web_search w \<Longrightarrow> normalizeWebSearchConfig (js_opt web_search_config_to_js w) = w"
  by (cases w) (simp_all add: web_search.read_write)

lemma wechat_written:
  "pred_option valid_wechat c \<Longrightarrow> parseWechatConfig (js_opt wechat_to_js c) = c"
  by (cases c) (simp_all add: wechat.read_write, simp add: parseWechatConfig_def)

lemmas nullable_written = provenance_written intent_written text_written router_written web_written
  wechat_written

lemma unreadable_null [simp]: "js_get d k = js_opt w x \<Longrightarrow> parsed = x \<Longrightarrow> \<not> unreadable d k parsed"
  by (cases x) (simp_all add: unreadable_def)

text \<open>What normalization does to a session it accepts: the redactors and the plan parser run again.\<close>

definition resanitize :: "session_env \<Rightarrow> nat \<Rightarrow> js \<Rightarrow> session \<Rightarrow> session" where
  "resanitize env t plan s =
     s\<lparr>s_failure := sanitizeFailure env (env_clock env t) (js_opt failure_to_js (s_failure s)),
       s_endpointUrl := redactUrl env (js_opt JStr (s_endpointUrl s)),
       s_sandboxPromptProgress := recheck_progress env plan s,
       s_messagingPlan := env_parsePlan env (js_opt id (env_parsePlan env plan)),
       s_steps := redact_steps env (s_steps s)\<rparr>"

lemma express_provider_ok_cong:
  assumes "s_stationExpressIntent a = s_stationExpressIntent b" "s_provider a = s_provider b"
    "s_model a = s_model b" "step_complete a ''provider_selection'' = step_complete b ''provider_selection''"
  shows "express_provider_ok a = express_provider_ok b"
  using assms by (simp only: express_provider_ok_def)

lemma step_complete_redact:
  "s_steps a = redact_steps env (s_steps b) \<Longrightarrow> step_complete a n = step_complete b n"
  by (cases "map_of (s_steps b) n") (simp_all add: step_complete_def)

lemma normalize_storable:
  assumes st: "storable env s" and url: "origin_reparses (env_parseUrl env)"
  shows "normalizeSession env t flag
           (JObj (session_members s plan (js_opt serializeCheckpoint (s_checkpoint s))))
         = Some ((resanitize env t plan s)\<lparr>s_invalidToolDisclosure := flag\<rparr>)"
proof -
  define d where "d = JObj (session_members s plan (js_opt serializeCheckpoint (s_checkpoint s)))"
  define created where "created = createSession env (Suc t) (normalized_overrides env t d)"
  define n1 where "n1 = created\<lparr>s_resumable := (js_get d ''resumable'' \<noteq> JBool False),
      s_status := nullish (s_status created) (readString (js_get d ''status''))\<rparr>"
  define n2 where "n2 = n1\<lparr>s_steps := redact_steps env (s_steps s)\<rparr>"
  note w = st [unfolded storable_def] and nw = nullable_written
  have prov: "parseServingProfileProvenance (js_get d ''servingProfileProvenance'') =
      s_servingProfileProvenance s"
    and int: "parseStationExpressResumeIntent (env_catalog env) (js_get d ''stationExpressIntent'') =
      s_stationExpressIntent s"
    and ret: "read_text (is_hex_string 32) (js_get d ''stationExpressReceiptRetirement'') =
      s_stationExpressReceiptRetirement s"
    and eff: "normalizeReasoningEffort (js_get d ''compatibleEndpointReasoningEffort'') =
      s_compatibleEndpointReasoningEffort s"
    and mach: "parseMachineSnapshot env (js_get d ''machine'') (s_sessionId s) = Some (s_machine s)"
    and ck: "parseStoredCheckpoint env (js_get d ''checkpoint'') = s_checkpoint s"
    and prog: "normalized_progress env d = recheck_progress env plan s"
    using w url by (simp_all add: d_def nw machine_written checkpoint_written progress_written)
  have steps: "merge_steps (parseStepState env) (\<lambda>n. map_of defaultSteps n \<noteq> None) defaultSteps
           (js_get d ''steps'') = redact_steps env (s_steps s)" "isObjectRecord (js_get d ''steps'')"
    using w merge_written [of "s_steps s" env] by (simp_all add: d_def) (simp add: steps_to_js_def)
  have n2: "n2\<lparr>s_machine := s_machine s, s_invalidToolDisclosure := flag\<rparr> =
      (resanitize env t plan s)\<lparr>s_invalidToolDisclosure := flag\<rparr>"
  proof (rule session.equality)
  qed (use w prov int ret eff prog ck in
      \<open>simp_all add: n2_def n1_def created_def resanitize_def\<close>, simp_all add: d_def nw metadata_to_js_def)
  have flags: "s_invalidToolDisclosure n2 = False"
      "invalidRecordedToolDisclosure (js_get d ''toolDisclosure'') = False"
    by (simp_all add: n2_def n1_def created_def d_def invalidRecordedToolDisclosure_def
        disclosure.read_write)
  have "s_sessionId n2 = s_sessionId s" by (simp add: n2_def n1_def created_def d_def)
  moreover have "express_provider_ok n2 = express_provider_ok s"
    by (rule express_provider_ok_cong)
      (simp_all add: n2_def n1_def created_def int step_complete_redact, simp_all add: d_def)
  moreover have "\<not> unreadable d ''servingProfileProvenance'' (s_servingProfileProvenance s)"
      "\<not> unreadable d ''compatibleEndpointReasoningEffort'' (s_compatibleEndpointReasoningEffort s)"
      "\<not> unreadable d ''stationExpressIntent'' (s_stationExpressIntent s)"
      "\<not> unreadable d ''stationExpressReceiptRetirement'' (s_stationExpressReceiptRetirement s)"
    unfolding d_def by (simp_all only: unreadable_null [OF _ refl] members_get simp_thms)
  moreover have "isObjectRecord d" "js_get d ''version'' = JNum (NInt SESSION_VERSION)"
    by (simp_all add: d_def)
  moreover have "express_status_ok d n1" "retirement_ok n1"
    using w by (simp_all add: express_status_ok_def express_session_ok_def retirement_ok_def n1_def
        created_def int ret) (auto simp: d_def)
  moreover have "s_steps n1 = defaultSteps" by (simp add: n1_def created_def)
  ultimately show ?thesis
    unfolding d_def [symmetric] normalizeSession_def Let_def
    using w prov int ret eff steps mach flags n2
    by (simp only: created_def [symmetric] n1_def [symmetric] if_True simp_thms if_False
        n2_def [symmetric] nullish_simps)
qed

lemma resanitize_stable:
  assumes "stable_session env s" "pred_option (valid_failure env) (s_failure s)" "progress_ok s"
    and "env_parsePlan env plan = s_messagingPlan s"
    and "pp_messaging (s_sandboxPromptProgress s) \<Longrightarrow>
           isValidNullableMessagingChoice env plan (js_opt JStr (s_sandboxName s))"
  shows "resanitize env t plan s = s"
proof -
  have "recheck_progress env plan s = s_sandboxPromptProgress s"
    using assms by (cases "s_sandboxPromptProgress s")
      (auto simp: recheck_progress_def Let_def progress_ok_def stable_session_def)
  moreover have "redact_steps env (s_steps s) = s_steps s"
    using assms(1) by (auto simp: stable_session_def redact_steps_def list_all_iff stable_text_def
        redact_step_def intro!: map_idI)
  ultimately show ?thesis
    using assms by (simp add: resanitize_def failure_written stable_session_def)
qed

end
