(* ===== verification/Session_Store.thy ===== *)
theory Session_Store
  imports Session_Normalize
begin

text \<open>
  Machine events (\<open>src/lib/onboard/machine/events.ts\<close>) and the session file
  (\<open>src/lib/state/onboard-session.ts\<close>): load, save and update, the step operations, the
  terminal backstop, completion and receipt retirement.

  The world holds the session file, the ticks of the clock used so far, the events observers
  have been given (oldest first), the installer receipt and the onboarding lock as this process
  sees it.
\<close>

section \<open>Events (events.ts)\<close>

datatype effective_effort = EffortSelected reasoning_effort | EndpointDefault

record machine_context =
  ctx_agent :: "string option"
  ctx_sandboxName :: "string option"
  ctx_provider :: "string option"
  ctx_model :: "string option"
  ctx_endpointOrigin :: "string option"
  ctx_credentialEnv :: "string option"
  ctx_preferredInferenceApi :: "string option"
  ctx_reasoningEffort :: "effective_effort option"
  ctx_hermesAuthMethod :: "hermes_auth option"
  ctx_hermesToolGateways :: "string list option"
  ctx_policyPresets :: "string list option"
  ctx_messagingChannels :: "string list"
  ctx_gpuPassthrough :: bool

record machine_event =
  ev_type :: event_type
  ev_occurredAt :: string
  ev_sessionId :: string
  ev_state :: "machine_state option"
  ev_step :: "string option"
  ev_context :: machine_context
  ev_error :: "string option"
  ev_metadata :: js

text \<open>\<open>getEffectiveReasoningEffort\<close> (\<open>src/lib/inference/selection.ts\<close>) on a session.\<close>

definition trimmed :: "string option \<Rightarrow> string option" where
  "trimmed v = nonempty (map_option trim v)"

definition getEffectiveReasoningEffort :: "session \<Rightarrow> effective_effort option" where
  "getEffectiveReasoningEffort s =
     (if trimmed (s_provider s) \<noteq> Some ''compatible-endpoint''
         \<or> trimmed (s_preferredInferenceApi s) \<noteq> Some ''openai-completions'' then None
      else Some (case s_compatibleEndpointReasoningEffort s of
                   None \<Rightarrow> EndpointDefault | Some e \<Rightarrow> EffortSelected e))"

fun sanitizeJsonValue :: "session_env \<Rightarrow> js \<Rightarrow> js"
  and sanitize_list :: "session_env \<Rightarrow> js list \<Rightarrow> js list"
  and sanitize_members :: "session_env \<Rightarrow> (string \<times> js) list \<Rightarrow> (string \<times> js) list"
where
  "sanitizeJsonValue env (JStr s) =
     JStr (nullish [] (coalesce (redactUrl env (JStr s)) (redactSensitiveText env (JStr s))))"
| "sanitizeJsonValue env (JNum n) = (case n of NNonFinite txt \<Rightarrow> JStr txt | _ \<Rightarrow> JNum n)"
| "sanitizeJsonValue env (JBool b) = JBool b"
| "sanitizeJsonValue env JNull = JNull"
| "sanitizeJsonValue env (JArr xs) = JArr (sanitize_list env xs)"
| "sanitizeJsonValue env JUndef = JStr ''undefined''"
| "sanitizeJsonValue env (JObj kvs) = JObj (sanitize_members env kvs)"
| "sanitize_list env [] = []"
| "sanitize_list env (x # xs) = sanitizeJsonValue env x # sanitize_list env xs"
| "sanitize_members env [] = []"
| "sanitize_members env ((k, v) # kvs) = (k, sanitizeJsonValue env v) # sanitize_members env kvs"

definition endpointOrigin :: "session_env \<Rightarrow> string option \<Rightarrow> string option" where
  "endpointOrigin env v =
     (case v of
        None \<Rightarrow> None
      | Some s \<Rightarrow> if trim s = [] then None else map_option url_origin (env_parseUrl env s))"

definition sanitizeOnboardMachineEventMetadata :: "session_env \<Rightarrow> js \<Rightarrow> js" where
  "sanitizeOnboardMachineEventMetadata env metadata =
     (if \<not> isObjectRecord metadata then JObj []
      else JObj (sanitize_members env (js_entries metadata)))"

definition buildOnboardMachineContext :: "session_env \<Rightarrow> session \<Rightarrow> machine_context" where
  "buildOnboardMachineContext env s =
     \<lparr>ctx_agent = s_agent s, ctx_sandboxName = s_sandboxName s, ctx_provider = s_provider s,
      ctx_model = s_model s, ctx_endpointOrigin = endpointOrigin env (s_endpointUrl s),
      ctx_credentialEnv = s_credentialEnv s,
      ctx_preferredInferenceApi = s_preferredInferenceApi s,
      ctx_reasoningEffort = getEffectiveReasoningEffort s,
      ctx_hermesAuthMethod = s_hermesAuthMethod s,
      ctx_hermesToolGateways = s_hermesToolGateways s,
      ctx_policyPresets = s_policyPresets s,
      ctx_messagingChannels = env_activeChannels env (s_messagingPlan s),
      ctx_gpuPassthrough = s_gpuPassthrough s\<rparr>"

record event_input =
  ei_type :: event_type
  ei_step :: "string option"
  ei_state :: "machine_state option"
  ei_error :: "string option"
  ei_metadata :: js

definition event_of :: "event_type \<Rightarrow> event_input" where
  "event_of ty = \<lparr>ei_type = ty, ei_step = None, ei_state = None, ei_error = None, ei_metadata = JUndef\<rparr>"

definition createOnboardMachineEvent ::
  "session_env \<Rightarrow> string \<Rightarrow> session \<Rightarrow> event_input \<Rightarrow> machine_event" where
  "createOnboardMachineEvent env now s i =
     (let normalizedStep =
            (case ei_step i of
               Some n \<Rightarrow> if n \<noteq> [] \<and> isOnboardSessionStepName n then Some n else None
             | None \<Rightarrow> None)
      in \<lparr>ev_type = ei_type i, ev_occurredAt = now, ev_sessionId = s_sessionId s,
          ev_state = coalesce (ei_state i) (machineStateFromOnboardSessionStep normalizedStep),
          ev_step = normalizedStep, ev_context = buildOnboardMachineContext env s,
          ev_error = redactSensitiveText env (js_opt JStr (ei_error i)),
          ev_metadata = sanitizeOnboardMachineEventMetadata env (ei_metadata i)\<rparr>)"

section \<open>The world\<close>

datatype session_file = FileAbsent | FileUnreadable | FileJson js

datatype installer_receipt = ReceiptMissing | ReceiptRefused | ReceiptFor string

record onboard_world =
  w_tick :: nat
  w_file :: session_file
  w_events :: "machine_event list"
  w_receipt :: installer_receipt
  w_lockHeld :: bool
  w_lockFree :: bool

type_synonym 'a onboard = "(onboard_error, onboard_world, 'a) eff"

definition now :: "session_env \<Rightarrow> string onboard" where
  "now env w = (Inr (env_clock env (w_tick w)), w\<lparr>w_tick := Suc (w_tick w)\<rparr>)"

definition emitOnboardMachineEvent :: "machine_event \<Rightarrow> unit onboard" where
  "emitOnboardMachineEvent e = modify (\<lambda>w. w\<lparr>w_events := w_events w @ [e]\<rparr>)"

definition emit_event :: "session_env \<Rightarrow> session \<Rightarrow> event_input \<Rightarrow> unit onboard" where
  "emit_event env s i =
     bind (now env) (\<lambda>at. emitOnboardMachineEvent (createOnboardMachineEvent env at s i))"

section \<open>Load, save, update\<close>

definition loadSession :: "session_env \<Rightarrow> session option onboard" where
  "loadSession env w =
     (case w_file w of
        FileJson v \<Rightarrow>
          (Inr (normalizeSession env (w_tick w) False v), w\<lparr>w_tick := w_tick w + 2\<rparr>)
      | _ \<Rightarrow> (Inr None, w))"

definition newSession :: "session_env \<Rightarrow> session onboard" where
  "newSession env w =
     (Inr (createSession env (w_tick w) (JObj [])), w\<lparr>w_tick := Suc (w_tick w)\<rparr>)"

definition normalized_or_new :: "session_env \<Rightarrow> nat \<Rightarrow> session \<Rightarrow> session" where
  "normalized_or_new env t s =
     (case normalizeSession env t (s_invalidToolDisclosure s) (session_to_js s) of
        Some n \<Rightarrow> n
      | None \<Rightarrow> createSession env (t + 2) (JObj []))"

definition saveSession :: "session_env \<Rightarrow> session \<Rightarrow> session onboard" where
  "saveSession env s w =
     (let normalized = (normalized_or_new env (w_tick w) s)
            \<lparr>s_updatedAt := env_clock env (w_tick w + 3)\<rparr>
      in (Inr normalized,
          w\<lparr>w_tick := w_tick w + 4,
            w_file := FileJson (json_persist (serializeSessionForDisk env normalized))\<rparr>))"

definition clearSession :: "unit onboard" where
  "clearSession = modify (\<lambda>w. w\<lparr>w_file := FileAbsent\<rparr>)"

definition load_or_new :: "session_env \<Rightarrow> session onboard" where
  "load_or_new env =
     bind (loadSession env) (\<lambda>found. case found of Some s \<Rightarrow> ret s | None \<Rightarrow> newSession env)"

definition updateSession :: "session_env \<Rightarrow> (session \<Rightarrow> session onboard) \<Rightarrow> session onboard" where
  "updateSession env mutator =
     bind (load_or_new env) (\<lambda>current. bind (mutator current) (saveSession env))"

section \<open>Safe updates\<close>

datatype 'a update_intent = Unchanged | Clear | SetTo 'a

definition getNullableStringUpdateIntent ::
  "js \<Rightarrow> (string \<Rightarrow> string option) \<Rightarrow> string update_intent" where
  "getNullableStringUpdateIntent v normalizer =
     (case v of
        JUndef \<Rightarrow> Unchanged
      | JNull \<Rightarrow> Clear
      | JStr s \<Rightarrow> (case normalizer s of None \<Rightarrow> Clear | Some n \<Rightarrow> SetTo n)
      | _ \<Rightarrow> Unchanged)"

definition hasSessionUpdateValue :: "'a update_intent \<Rightarrow> bool" where
  "hasSessionUpdateValue i = (case i of Unchanged \<Rightarrow> False | _ \<Rightarrow> True)"

definition isSessionUpdateClear :: "'a update_intent \<Rightarrow> bool" where
  "isSessionUpdateClear i = (case i of Clear \<Rightarrow> True | _ \<Rightarrow> False)"

text \<open>The members a safe update can have, in the order the code assigns them.\<close>

datatype session_update =
    USandboxName "string option"
  | UProvider "string option"
  | UModel "string option"
  | UServingProfileProvenance "js option"
  | UEndpointUrl "string option"
  | UCredentialEnv "string option"
  | UHermesAuthMethod "hermes_auth option"
  | UPreferredInferenceApi "string option"
  | UCompatibleEndpointReasoning "string option"
  | UCompatibleEndpointReasoningEffort "reasoning_effort option"
  | UNimContainer "string option"
  | URouterPid int
  | URouterCredentialHash string
  | UWebSearchConfig "web_search_config option"
  | UToolDisclosure tool_disclosure
  | UObservabilityEnabled bool
  | UHermesToolGateways "string list option"
  | UPolicyPresets "string list option"
  | UMessagingPlan "js option"
  | UMigratedLegacyValueHashes "(string \<times> string) list"
  | UGpuPassthrough bool
  | UTelegramConfig "bool option"
  | UWechatConfig "wechat_config option"
  | UMetadata session_metadata

fun applyNullableSessionUpdate ::
  "('a option \<Rightarrow> session_update) \<Rightarrow> 'a update_intent \<Rightarrow> session_update list" where
  "applyNullableSessionUpdate key Unchanged = []"
| "applyNullableSessionUpdate key Clear = [key None]"
| "applyNullableSessionUpdate key (SetTo v) = [key (Some v)]"

definition assignNullableString ::
  "(string option \<Rightarrow> session_update) \<Rightarrow> js \<Rightarrow> (string \<Rightarrow> string option) \<Rightarrow> session_update list" where
  "assignNullableString key v normalizer =
     applyNullableSessionUpdate key (getNullableStringUpdateIntent v normalizer)"

text \<open>\<open>null\<close> clears, a value that parses is assigned, anything else is dropped.\<close>

definition assign_parsed ::
  "('a option \<Rightarrow> session_update) \<Rightarrow> (js \<Rightarrow> 'a option) \<Rightarrow> js \<Rightarrow> session_update list" where
  "assign_parsed key parse v =
     (if v = JNull then [key None]
      else case parse v of Some a \<Rightarrow> [key (Some a)] | None \<Rightarrow> [])"

definition assign_present :: "('a \<Rightarrow> session_update) \<Rightarrow> 'a option \<Rightarrow> session_update list" where
  "assign_present key v = (case v of None \<Rightarrow> [] | Some a \<Rightarrow> [key a])"

definition web_search_update :: "js \<Rightarrow> session_update list" where
  "web_search_update v =
     (if isObjectRecord v \<and> js_get v ''fetchEnabled'' = JBool True
      then [UWebSearchConfig (normalizeWebSearchConfig v)]
      else if v = JNull then [UWebSearchConfig None] else [])"

definition telegram_update :: "js \<Rightarrow> session_update list" where
  "telegram_update v =
     (case (isObjectRecord v, js_bool (js_get v ''requireMention'')) of
        (True, Some b) \<Rightarrow> [UTelegramConfig (Some b)]
      | _ \<Rightarrow> if v = JNull then [UTelegramConfig None] else [])"

definition wechat_update :: "js \<Rightarrow> session_update list" where
  "wechat_update v =
     (if isObjectRecord v
      then (case parseWechatConfig v of Some c \<Rightarrow> [UWechatConfig (Some c)] | None \<Rightarrow> [])
      else if v = JNull then [UWechatConfig None] else [])"

definition metadata_update :: "js \<Rightarrow> session_update list" where
  "metadata_update v =
     (case (isObjectRecord v, readString (js_get v ''gatewayName'')) of
        (True, Some g) \<Rightarrow>
          [UMetadata \<lparr>md_gatewayName = g,
                      md_fromDockerfile = readString (js_get v ''fromDockerfile'')\<rparr>]
      | _ \<Rightarrow> [])"

definition filterSafeUpdates :: "session_env \<Rightarrow> js \<Rightarrow> session_update list" where
  "filterSafeUpdates env u =
     (if \<not> isObjectRecord u then []
      else
        assignNullableString USandboxName (js_get u ''sandboxName'') Some
        @ assignNullableString UProvider (js_get u ''provider'') Some
        @ assignNullableString UModel (js_get u ''model'') Some
        @ assign_parsed UServingProfileProvenance parseServingProfileProvenance
            (js_get u ''servingProfileProvenance'')
        @ assignNullableString UEndpointUrl (js_get u ''endpointUrl'') (\<lambda>s. redactUrl env (JStr s))
        @ assignNullableString UCredentialEnv (js_get u ''credentialEnv'') Some
        @ assign_parsed UHermesAuthMethod readHermesAuthMethod (js_get u ''hermesAuthMethod'')
        @ assignNullableString UPreferredInferenceApi (js_get u ''preferredInferenceApi'') Some
        @ assignNullableString UCompatibleEndpointReasoning
            (js_get u ''compatibleEndpointReasoning'') Some
        @ assign_parsed UCompatibleEndpointReasoningEffort normalizeReasoningEffort
            (js_get u ''compatibleEndpointReasoningEffort'')
        @ assignNullableString UNimContainer (js_get u ''nimContainer'') Some
        @ assign_present URouterPid (readPositiveInteger (js_get u ''routerPid''))
        @ assign_present URouterCredentialHash (readString (js_get u ''routerCredentialHash''))
        @ web_search_update (js_get u ''webSearchConfig'')
        @ assign_present UToolDisclosure (normalizeToolDisclosure (js_get u ''toolDisclosure''))
        @ assign_present UObservabilityEnabled (js_bool (js_get u ''observabilityEnabled''))
        @ assign_parsed UHermesToolGateways readStringList (js_get u ''hermesToolGateways'')
        @ assign_parsed UPolicyPresets readStringList (js_get u ''policyPresets'')
        @ assign_parsed UMessagingPlan (env_parsePlan env) (js_get u ''messagingPlan'')
        @ assign_present UMigratedLegacyValueHashes
            (readStringRecord (js_get u ''migratedLegacyValueHashes''))
        @ assign_present UGpuPassthrough (js_bool (js_get u ''gpuPassthrough''))
        @ telegram_update (js_get u ''telegramConfig'')
        @ wechat_update (js_get u ''wechatConfig'')
        @ metadata_update (js_get u ''metadata''))"

fun apply_update :: "session_update \<Rightarrow> session \<Rightarrow> session" where
  "apply_update (USandboxName v) s = s\<lparr>s_sandboxName := v\<rparr>"
| "apply_update (UProvider v) s = s\<lparr>s_provider := v\<rparr>"
| "apply_update (UModel v) s = s\<lparr>s_model := v\<rparr>"
| "apply_update (UServingProfileProvenance v) s = s\<lparr>s_servingProfileProvenance := v\<rparr>"
| "apply_update (UEndpointUrl v) s = s\<lparr>s_endpointUrl := v\<rparr>"
| "apply_update (UCredentialEnv v) s = s\<lparr>s_credentialEnv := v\<rparr>"
| "apply_update (UHermesAuthMethod v) s = s\<lparr>s_hermesAuthMethod := v\<rparr>"
| "apply_update (UPreferredInferenceApi v) s = s\<lparr>s_preferredInferenceApi := v\<rparr>"
| "apply_update (UCompatibleEndpointReasoning v) s = s\<lparr>s_compatibleEndpointReasoning := v\<rparr>"
| "apply_update (UCompatibleEndpointReasoningEffort v) s =
     s\<lparr>s_compatibleEndpointReasoningEffort := v\<rparr>"
| "apply_update (UNimContainer v) s = s\<lparr>s_nimContainer := v\<rparr>"
| "apply_update (URouterPid v) s = s\<lparr>s_routerPid := Some v\<rparr>"
| "apply_update (URouterCredentialHash v) s = s\<lparr>s_routerCredentialHash := Some v\<rparr>"
| "apply_update (UWebSearchConfig v) s = s\<lparr>s_webSearchConfig := v\<rparr>"
| "apply_update (UToolDisclosure v) s = s\<lparr>s_toolDisclosure := v\<rparr>"
| "apply_update (UObservabilityEnabled v) s = s\<lparr>s_observabilityEnabled := v\<rparr>"
| "apply_update (UHermesToolGateways v) s = s\<lparr>s_hermesToolGateways := v\<rparr>"
| "apply_update (UPolicyPresets v) s = s\<lparr>s_policyPresets := v\<rparr>"
| "apply_update (UMessagingPlan v) s = s\<lparr>s_messagingPlan := v\<rparr>"
| "apply_update (UMigratedLegacyValueHashes v) s = s\<lparr>s_migratedLegacyValueHashes := Some v\<rparr>"
| "apply_update (UGpuPassthrough v) s = s\<lparr>s_gpuPassthrough := v\<rparr>"
| "apply_update (UTelegramConfig v) s = s\<lparr>s_telegramConfig := v\<rparr>"
| "apply_update (UWechatConfig v) s = s\<lparr>s_wechatConfig := v\<rparr>"
| "apply_update (UMetadata v) s = s\<lparr>s_metadata := v\<rparr>"

text \<open>\<open>Object.assign(session, safeUpdates)\<close>\<close>

definition assign_updates :: "session_update list \<Rightarrow> session \<Rightarrow> session" where
  "assign_updates us s = fold apply_update us s"

fun update_key :: "session_update \<Rightarrow> string" where
  "update_key (USandboxName _) = ''sandboxName''"
| "update_key (UProvider _) = ''provider''"
| "update_key (UModel _) = ''model''"
| "update_key (UServingProfileProvenance _) = ''servingProfileProvenance''"
| "update_key (UEndpointUrl _) = ''endpointUrl''"
| "update_key (UCredentialEnv _) = ''credentialEnv''"
| "update_key (UHermesAuthMethod _) = ''hermesAuthMethod''"
| "update_key (UPreferredInferenceApi _) = ''preferredInferenceApi''"
| "update_key (UCompatibleEndpointReasoning _) = ''compatibleEndpointReasoning''"
| "update_key (UCompatibleEndpointReasoningEffort _) = ''compatibleEndpointReasoningEffort''"
| "update_key (UNimContainer _) = ''nimContainer''"
| "update_key (URouterPid _) = ''routerPid''"
| "update_key (URouterCredentialHash _) = ''routerCredentialHash''"
| "update_key (UWebSearchConfig _) = ''webSearchConfig''"
| "update_key (UToolDisclosure _) = ''toolDisclosure''"
| "update_key (UObservabilityEnabled _) = ''observabilityEnabled''"
| "update_key (UHermesToolGateways _) = ''hermesToolGateways''"
| "update_key (UPolicyPresets _) = ''policyPresets''"
| "update_key (UMessagingPlan _) = ''messagingPlan''"
| "update_key (UMigratedLegacyValueHashes _) = ''migratedLegacyValueHashes''"
| "update_key (UGpuPassthrough _) = ''gpuPassthrough''"
| "update_key (UTelegramConfig _) = ''telegramConfig''"
| "update_key (UWechatConfig _) = ''wechatConfig''"
| "update_key (UMetadata _) = ''metadata''"

fun update_value :: "session_update \<Rightarrow> js" where
  "update_value (USandboxName v) = js_opt JStr v"
| "update_value (UProvider v) = js_opt JStr v"
| "update_value (UModel v) = js_opt JStr v"
| "update_value (UServingProfileProvenance v) = js_opt id v"
| "update_value (UEndpointUrl v) = js_opt JStr v"
| "update_value (UCredentialEnv v) = js_opt JStr v"
| "update_value (UHermesAuthMethod v) = js_opt (\<lambda>m. JStr (hermes_auth_id m)) v"
| "update_value (UPreferredInferenceApi v) = js_opt JStr v"
| "update_value (UCompatibleEndpointReasoning v) = js_opt JStr v"
| "update_value (UCompatibleEndpointReasoningEffort v) = js_opt (\<lambda>e. JStr (effort_id e)) v"
| "update_value (UNimContainer v) = js_opt JStr v"
| "update_value (URouterPid n) = JNum (NInt n)"
| "update_value (URouterCredentialHash v) = JStr v"
| "update_value (UWebSearchConfig v) = js_opt web_search_config_to_js v"
| "update_value (UToolDisclosure d) = JStr (disclosure_id d)"
| "update_value (UObservabilityEnabled b) = JBool b"
| "update_value (UHermesToolGateways v) = js_opt (write_array JStr) v"
| "update_value (UPolicyPresets v) = js_opt (write_array JStr) v"
| "update_value (UMessagingPlan v) = js_opt id v"
| "update_value (UMigratedLegacyValueHashes v) = string_record_to_js v"
| "update_value (UGpuPassthrough b) = JBool b"
| "update_value (UTelegramConfig v) = js_opt telegram_to_js v"
| "update_value (UWechatConfig v) = js_opt wechat_to_js v"
| "update_value (UMetadata m) = metadata_to_js m"

definition updates_to_js :: "session_update list \<Rightarrow> js" where
  "updates_to_js us = JObj (map (\<lambda>u. (update_key u, update_value u)) us)"

definition update_fields :: "session_update list \<Rightarrow> js" where
  "update_fields us = JArr (map (\<lambda>u. JStr (update_key u)) us)"

section \<open>Step operations\<close>

definition set_step :: "string \<Rightarrow> step_state \<Rightarrow> session \<Rightarrow> session" where
  "set_step name st s = s\<lparr>s_steps := alist_set name st (s_steps s)\<rparr>"

definition markStepStarted :: "session_env \<Rightarrow> string \<Rightarrow> session onboard" where
  "markStepStarted env stepName =
     updateSession env (\<lambda>s.
       case map_of (s_steps s) stepName of
         None \<Rightarrow> ret s
       | Some step \<Rightarrow>
           bind (now env) (\<lambda>at.
             ret ((set_step stepName
                    (step\<lparr>st_status := StInProgress, st_startedAt := Some at, st_completedAt := None,
                          st_error := None\<rparr>) s)
                  \<lparr>s_lastStepStarted := Some stepName, s_failure := None,
                   s_status := ''in_progress''\<rparr>)))"

definition is_spark :: "express_intent option \<Rightarrow> bool" where
  "is_spark i = (case i of Some (SparkIntent _ _) \<Rightarrow> True | _ \<Rightarrow> False)"

definition bind_intent ::
  "session_env \<Rightarrow> string \<Rightarrow> session_update list \<Rightarrow> js \<Rightarrow> session \<Rightarrow> onboard_error + express_intent option"
  where
  "bind_intent env stepName safeUpdates identity s =
     (case s_stationExpressIntent s of
        Some intent \<Rightarrow>
          if stepName = ''provider_selection'' \<and> \<not> is_spark (Some intent) then
            (case bindStationExpressProviderSelection (env_catalog env) intent
                    (js_get (updates_to_js safeUpdates) ''provider'')
                    (js_get (updates_to_js safeUpdates) ''model'') identity of
               Inl e \<Rightarrow> Inl e
             | Inr bound \<Rightarrow> Inr (Some bound))
          else Inr None
      | None \<Rightarrow> Inr None)"

definition markStepComplete :: "session_env \<Rightarrow> string \<Rightarrow> js \<Rightarrow> session onboard" where
  "markStepComplete env stepName updates =
     (let safeUpdates = filterSafeUpdates env updates in
      updateSession env (\<lambda>s.
        case map_of (s_steps s) stepName of
          None \<Rightarrow> ret s
        | Some step \<Rightarrow>
            (let sparkComplete =
                   stepName = ''provider_selection'' \<and> is_spark (s_stationExpressIntent s)
             in bind (lift_res (bind_intent env stepName safeUpdates
                        (js_get updates ''stationExpressModelIdentity'') s)) (\<lambda>bound.
                bind (now env) (\<lambda>at.
                  (let s1 = (set_step stepName
                               (step\<lparr>st_status := StComplete, st_completedAt := Some at,
                                     st_error := None\<rparr>) s)
                             \<lparr>s_lastCompletedStep := Some stepName, s_failure := None\<rparr>;
                       s2 = assign_updates safeUpdates s1
                   in ret (case bound of
                             Some i \<Rightarrow> s2\<lparr>s_stationExpressIntent := Some i\<rparr>
                           | None \<Rightarrow>
                               if sparkComplete then s2\<lparr>s_stationExpressIntent := None\<rparr> else s2)))))))"

definition markStepSkipped :: "session_env \<Rightarrow> string \<Rightarrow> session onboard" where
  "markStepSkipped env stepName =
     updateSession env (\<lambda>s.
       case map_of (s_steps s) stepName of
         None \<Rightarrow> ret s
       | Some step \<Rightarrow>
           if st_status step \<in> {StComplete, StFailed, StSkipped} then ret s
           else ret (set_step stepName
                  (step\<lparr>st_status := StSkipped, st_startedAt := None, st_completedAt := None,
                        st_error := None\<rparr>) s))"

definition markStepFailed :: "session_env \<Rightarrow> string \<Rightarrow> string option \<Rightarrow> session onboard" where
  "markStepFailed env stepName message =
     updateSession env (\<lambda>s.
       case map_of (s_steps s) stepName of
         None \<Rightarrow> ret s
       | Some step \<Rightarrow>
           ret (set_step stepName
             (step\<lparr>st_status := StFailed, st_completedAt := None,
                   st_error := redactSensitiveText env (js_opt JStr message)\<rparr>) s))"

section \<open>Terminal failure backstop\<close>

definition failure_input :: "string option \<Rightarrow> string option \<Rightarrow> string \<Rightarrow> js \<Rightarrow> js" where
  "failure_input step message recordedAt interrupted =
     JObj [(''step'', js_opt JStr step), (''message'', js_opt JStr message),
           (''recordedAt'', JStr recordedAt), (''interrupted'', interrupted)]"

text \<open>The mutation records whether it took the failing branch; the flag decides on the events.\<close>

definition fail_step ::
  "session_env \<Rightarrow> string \<Rightarrow> string option \<Rightarrow> bool \<Rightarrow> session \<Rightarrow> (session \<times> bool) onboard" where
  "fail_step env stepName message interrupted s =
     (case map_of (s_steps s) stepName of
        None \<Rightarrow> ret (s, False)
      | Some step \<Rightarrow>
          if isTerminalOnboardMachineState (ms_state (s_machine s)) then ret (s, False)
          else
            bind (now env) (\<lambda>at.
            bind (lift_res (assertValidOnboardMachineTransition (ms_state (s_machine s)) Failed)) (\<lambda>_.
              (let s1 = (set_step stepName
                           (step\<lparr>st_status := StFailed, st_completedAt := None,
                                 st_error := redactSensitiveText env (js_opt JStr message)\<rparr>) s)
                         \<lparr>s_failure := sanitizeFailure env at
                            (failure_input (Some stepName) message at (JBool interrupted)),
                          s_status := ''failed''\<rparr>
               in ret (transitionMachineSnapshot s1 Failed at, True)))))"

text \<open>\<open>updateSession\<close> with a mutator that also sets variables of its caller.\<close>

definition update_with ::
  "session_env \<Rightarrow> (session \<Rightarrow> (session \<times> 'x) onboard) \<Rightarrow> (session \<times> 'x) onboard" where
  "update_with env f =
     bind (load_or_new env) (\<lambda>current.
     bind (f current) (\<lambda>(s, x). bind (saveSession env s) (\<lambda>saved. ret (saved, x))))"

definition finalizeIncompleteOnboardStep ::
  "session_env \<Rightarrow> string \<Rightarrow> string option \<Rightarrow> bool \<Rightarrow> session option onboard" where
  "finalizeIncompleteOnboardStep env stepName message interrupted =
     bind (loadSession env) (\<lambda>found.
       case found of
         None \<Rightarrow> ret None
       | Some existing \<Rightarrow>
           if isTerminalOnboardMachineState (ms_state (s_machine existing)) then ret (Some existing)
           else
             bind (update_with env (fail_step env stepName message interrupted))
               (\<lambda>(updated, emitted).
                 if emitted then
                   bind (emit_event env updated
                     ((event_of StateFailed)\<lparr>ei_step := Some stepName, ei_error := message\<rparr>)) (\<lambda>_.
                   bind (emit_event env updated
                     ((event_of OnboardFailed)\<lparr>ei_state := Some Failed, ei_step := Some stepName,
                        ei_error := message\<rparr>)) (\<lambda>_.
                   ret (Some updated)))
                 else ret (Some updated)))"

section \<open>Completion and receipt retirement\<close>

definition assertStationExpressInstallerResumeMatches :: "string \<Rightarrow> unit onboard" where
  "assertStationExpressInstallerResumeMatches expected w =
     (if \<not> is_hex_string 32 expected then (Inl StationExpressReceiptGenerationInvalid, w)
      else if w_receipt w = ReceiptFor expected then (Inr (), w)
      else (Inl StationExpressReceiptMismatch, w))"

definition retirement_session :: "string \<Rightarrow> session option \<Rightarrow> onboard_error + session" where
  "retirement_session expected s =
     (case s of
        Some x \<Rightarrow>
          if s_stationExpressReceiptRetirement x \<noteq> Some expected \<or> s_status x \<noteq> ''complete''
             \<or> s_resumable x \<or> s_stationExpressIntent x \<noteq> None
          then Inl StationExpressRetirementStateMismatch else Inr x
      | None \<Rightarrow> Inl StationExpressRetirementStateMismatch)"

text \<open>
  \<open>claimAndRetireStationExpressInstallerResume\<close> with \<open>allowMissing\<close>, for one process and no
  claim left over from a crash: a missing receipt is accepted, the expected one is removed,
  anything else is refused.
\<close>

definition claim_receipt :: "string \<Rightarrow> unit onboard" where
  "claim_receipt expected w =
     (case w_receipt w of
        ReceiptMissing \<Rightarrow> (Inr (), w)
      | ReceiptFor g \<Rightarrow>
          if g = expected then (Inr (), w\<lparr>w_receipt := ReceiptMissing\<rparr>)
          else (Inl StationExpressReceiptMismatch, w)
      | ReceiptRefused \<Rightarrow> (Inl StationExpressReceiptMismatch, w))"

definition acquire_for_retirement :: "bool onboard" where
  "acquire_for_retirement w =
     (if w_lockHeld w then (Inr False, w)
      else if w_lockFree w then (Inr True, w\<lparr>w_lockHeld := True, w_lockFree := False\<rparr>)
      else (Inl OnboardLockUnavailable, w))"

definition release_after_retirement :: "bool \<Rightarrow> onboard_world \<Rightarrow> onboard_world" where
  "release_after_retirement owns w =
     (if owns then w\<lparr>w_lockHeld := False, w_lockFree := True\<rparr> else w)"

definition with_retirement_lock :: "'a onboard \<Rightarrow> 'a onboard" where
  "with_retirement_lock body =
     bind acquire_for_retirement (\<lambda>owns w.
       (case body w of (r, w') \<Rightarrow> (r, release_after_retirement owns w')))"

definition reconcileStationExpressReceiptRetirement ::
  "session_env \<Rightarrow> string \<Rightarrow> session onboard" where
  "reconcileStationExpressReceiptRetirement env expected =
     (if \<not> is_hex_string 32 expected then throw StationExpressReceiptGenerationInvalid
      else with_retirement_lock
        (bind (loadSession env) (\<lambda>found.
         bind (lift_res (retirement_session expected found)) (\<lambda>_.
         bind (claim_receipt expected) (\<lambda>_.
         updateSession env (\<lambda>s.
           bind (lift_res (retirement_session expected (Some s))) (\<lambda>x.
           ret (x\<lparr>s_stationExpressReceiptRetirement := None\<rparr>))))))))"

definition intent_receipt :: "express_intent option \<Rightarrow> string option" where
  "intent_receipt i =
     (case i of Some (StationIntent _ _ g _ _) \<Rightarrow> g | _ \<Rightarrow> None)"

definition complete_mutator ::
  "session_env \<Rightarrow> session_update list \<Rightarrow> session \<Rightarrow> (session \<times> (bool \<times> string option)) onboard" where
  "complete_mutator env safeUpdates s =
     (let intentReceipt = intent_receipt (s_stationExpressIntent s);
          receipt = coalesce (s_stationExpressReceiptRetirement s) intentReceipt
      in bind (case intentReceipt of
                 Some g \<Rightarrow> if g = [] then ret () else assertStationExpressInstallerResumeMatches g
               | None \<Rightarrow> ret ()) (\<lambda>_.
         bind (now env) (\<lambda>at.
           ret (transitionMachineSnapshot
                  ((assign_updates safeUpdates s)
                     \<lparr>s_status := ''complete'', s_resumable := False,
                      s_stationExpressIntent := None,
                      s_stationExpressReceiptRetirement := receipt, s_failure := None\<rparr>)
                  Complete at,
                s_status s = ''complete'', receipt))))"

definition on_condition :: "bool \<Rightarrow> unit onboard \<Rightarrow> unit onboard" where
  "on_condition b m = (if b then m else ret ())"

definition completeSession :: "session_env \<Rightarrow> js \<Rightarrow> bool \<Rightarrow> session onboard" where
  "completeSession env updates emitEvents =
     (let safeUpdates = filterSafeUpdates env updates in
      bind (update_with env (complete_mutator env safeUpdates)) (\<lambda>(saved, wasComplete, receipt).
      bind (case receipt of
              Some g \<Rightarrow> if g = [] then ret saved
                        else reconcileStationExpressReceiptRetirement env g
            | None \<Rightarrow> ret saved) (\<lambda>updated.
      bind (on_condition (emitEvents \<and> safeUpdates \<noteq> [])
              (emit_event env updated
                ((event_of ContextUpdated)\<lparr>ei_state := Some Complete,
                   ei_metadata := JObj [(''fields'', update_fields safeUpdates)]\<rparr>))) (\<lambda>_.
      bind (on_condition (emitEvents \<and> \<not> wasComplete)
              (emit_event env updated
                ((event_of OnboardCompleted)\<lparr>ei_state := Some Complete\<rparr>))) (\<lambda>_.
      ret updated)))))"

end
