(* ===== verification/Store_Facts.thy ===== *)
theory Store_Facts
  imports Session_Store
begin

text \<open>
  Facts about the session file: what load, save and update compute, the invariant every saved
  session satisfies, the round trip through the disk, and the effect of the step operations.
\<close>

section \<open>Fresh sessions\<close>

lemma fresh_fields [simp]:
  fixes env t
  defines "c \<equiv> createSession env t (JObj [])"
  shows
    "s_sessionId c = env_freshId env t" "s_steps c = defaultSteps" "s_failure c = None"
    "s_status c = ''in_progress''" "s_resumable c" "s_stationExpressIntent c = None"
    "s_stationExpressReceiptRetirement c = None" "s_servingProfileProvenance c = None"
    "s_routerPid c = None" "s_webSearchConfig c = None" "s_wechatConfig c = None"
    "s_checkpoint c = None" "s_endpointUrl c = None"
    "s_machine c = createMachineSnapshot Init (Some (env_clock env t)) 0"
    "\<not> pp_sandboxName (s_sandboxPromptProgress c)" "\<not> s_invalidToolDisclosure c"
  unfolding c_def createSession_def Let_def
  by (simp_all add: readString_def failure_of_js_def parseServingProfileProvenance_def
      parseStationExpressResumeIntent_def read_text_def readPositiveInteger_def parseWechatConfig_def
      normalizeWebSearchConfig_def isWebSearchEnabled_def parseStoredCheckpoint_def
      inspectCheckpoint_def parseMachineSnapshot_def parseSandboxPromptProgress_def
      invalidRecordedToolDisclosure_def js_get_nonobject)

lemma fresh_wf [simp]: "wf_session env (createSession env t (JObj []))"
  by (simp add: wf_session_def storable_def redacted_session_def default_steps_keys
      express_session_ok_def retirement_ok_def express_provider_ok_def progress_ok_def
      redacted_url_def)
    (simp add: defaultSteps_def pending_step_def list_all_iff redacted_text_def)

lemma fresh_plan [simp]:
  "\<not> pp_messaging (s_sandboxPromptProgress (createSession env t (JObj [])))"
  "s_messagingPlan (createSession env t (JObj [])) = env_parsePlan env JUndef"
  unfolding createSession_def Let_def
  by (simp_all add: parseSandboxPromptProgress_def js_get_nonobject)

lemma wf_storable: "wf_session env s \<Longrightarrow> storable env s"
  by (simp add: wf_session_def)

section \<open>Load, save, update\<close>

definition current_session :: "session_env \<Rightarrow> onboard_world \<Rightarrow> session" where
  "current_session env w =
     (case w_file w of
        FileJson v \<Rightarrow>
          (case normalizeSession env (w_tick w) False v of
             Some s \<Rightarrow> s | None \<Rightarrow> createSession env (w_tick w + 2) (JObj []))
      | _ \<Rightarrow> createSession env (w_tick w) (JObj []))"

definition load_ticks :: "session_env \<Rightarrow> onboard_world \<Rightarrow> nat" where
  "load_ticks env w =
     (case w_file w of
        FileJson v \<Rightarrow>
          (case normalizeSession env (w_tick w) False v of Some s \<Rightarrow> 2 | None \<Rightarrow> 3)
      | _ \<Rightarrow> 1)"

lemma load_or_new_eq:
  "load_or_new env w = (Inr (current_session env w), w\<lparr>w_tick := w_tick w + load_ticks env w\<rparr>)"
  by (simp add: load_or_new_def bind_def loadSession_def newSession_def current_session_def
      load_ticks_def split: session_file.splits option.splits)

lemma load_wf:
  assumes "origin_reparses (env_parseUrl env)" "loadSession env w = (Inr (Some s), w')"
  shows "wf_session env s"
  using assms normalizeSession_wf [OF assms(1)]
  by (auto simp: loadSession_def split: session_file.splits)

lemma current_wf: "origin_reparses (env_parseUrl env) \<Longrightarrow> wf_session env (current_session env w)"
  using normalizeSession_wf
  by (auto simp: current_session_def split: session_file.splits option.splits)

lemma wf_session_updatedAt [simp]: "wf_session env (s\<lparr>s_updatedAt := t\<rparr>) = wf_session env s"
  by (simp add: wf_session_def storable_def redacted_session_def express_session_ok_def
      retirement_ok_def progress_ok_def express_provider_ok_cong
        [of "s\<lparr>s_updatedAt := t\<rparr>" s] step_complete_def)

lemma normalized_or_new_wf:
  "origin_reparses (env_parseUrl env) \<Longrightarrow> wf_session env (normalized_or_new env t s)"
  by (auto simp: normalized_or_new_def intro: normalizeSession_wf split: option.splits)

lemma saveSession_wf:
  assumes "origin_reparses (env_parseUrl env)" "saveSession env s w = (r, w')"
  obtains n where "r = Inr n" "wf_session env n"
    "w_file w' = FileJson (json_persist (serializeSessionForDisk env n))"
    "w_events w' = w_events w" "w_receipt w' = w_receipt w" "w_tick w \<le> w_tick w'"
    "w_lockHeld w' = w_lockHeld w" "w_lockFree w' = w_lockFree w"
  using assms normalized_or_new_wf [OF assms(1), of "w_tick w" s]
  by (auto simp: saveSession_def Let_def)

text \<open>The stored form of a session normalization accepts.\<close>

definition stored :: "session_env \<Rightarrow> nat \<Rightarrow> session \<Rightarrow> session" where
  "stored env t s =
     (resanitize env t (js_opt id (s_messagingPlan s)) s)\<lparr>s_updatedAt := env_clock env (t + 3)\<rparr>"

lemma resanitize_flag [simp]:
  "(resanitize env t plan s)\<lparr>s_invalidToolDisclosure := s_invalidToolDisclosure s\<rparr> =
     resanitize env t plan s"
  by (rule session.equality) (simp_all add: resanitize_def)

lemma saveSession_storable:
  assumes "storable env s" "origin_reparses (env_parseUrl env)"
  shows "saveSession env s w =
     (Inr (stored env (w_tick w) s),
      w\<lparr>w_tick := w_tick w + 4,
        w_file := FileJson (json_persist (serializeSessionForDisk env (stored env (w_tick w) s)))\<rparr>)"
  using normalize_storable [OF assms]
  by (simp add: saveSession_def Let_def normalized_or_new_def session_to_js_def stored_def)

lemma stored_fields [simp]:
  "s_sessionId (stored env t s) = s_sessionId s" "s_resumable (stored env t s) = s_resumable s"
  "s_status (stored env t s) = s_status s" "s_mode (stored env t s) = s_mode s"
  "s_machine (stored env t s) = s_machine s" "s_agent (stored env t s) = s_agent s"
  "s_lastStepStarted (stored env t s) = s_lastStepStarted s"
  "s_lastCompletedStep (stored env t s) = s_lastCompletedStep s"
  "s_sandboxName (stored env t s) = s_sandboxName s" "s_provider (stored env t s) = s_provider s"
  "s_model (stored env t s) = s_model s" "s_checkpoint (stored env t s) = s_checkpoint s"
  "s_stationExpressIntent (stored env t s) = s_stationExpressIntent s"
  "s_stationExpressReceiptRetirement (stored env t s) = s_stationExpressReceiptRetirement s"
  "s_steps (stored env t s) = redact_steps env (s_steps s)"
  "s_updatedAt (stored env t s) = env_clock env (t + 3)"
  "s_failure (stored env t s) =
     sanitizeFailure env (env_clock env t) (js_opt failure_to_js (s_failure s))"
  by (simp_all add: stored_def resanitize_def)

lemma updateSession_storable:
  assumes "mutator (current_session env w) (w\<lparr>w_tick := w_tick w + load_ticks env w\<rparr>) = (Inr s, w1)"
    and "storable env s" "origin_reparses (env_parseUrl env)"
  shows "updateSession env mutator w =
     (Inr (stored env (w_tick w1) s),
      w1\<lparr>w_tick := w_tick w1 + 4,
         w_file := FileJson (json_persist (serializeSessionForDisk env (stored env (w_tick w1) s)))\<rparr>)"
  unfolding updateSession_def
  by (simp add: bind_def load_or_new_eq assms(1) saveSession_storable [OF assms(2,3)])

lemma stored_wf:
  assumes "storable env s" "origin_reparses (env_parseUrl env)"
  shows "wf_session env (stored env t s)"
  using normalizeSession_wf [OF assms(2) normalize_storable [OF assms, where flag = "s_invalidToolDisclosure s"]]
  by (simp add: stored_def)

section \<open>Through the disk and back\<close>

lemma json_clean_obj_iff: "json_clean_obj kvs \<longleftrightarrow> (\<forall>(k, v) \<in> set kvs. json_clean v)"
  by (induction kvs) auto

lemma exactKeys_clean:
  assumes "isObjectRecord v" "exactKeys v ks" "distinct ks" "\<forall>k \<in> set ks. json_clean (js_get v k)"
  shows "json_clean v"
proof -
  obtain kvs where v: "v = JObj kvs" using assms(1) by (auto simp: isObjectRecord_iff)
  have perm: "sort (map fst kvs) = sort ks" using assms(2) by (simp add: v exactKeys_def js_keys_def)
  then have "set (map fst kvs) = set ks" by (metis set_sort)
  moreover have "distinct (map fst kvs)" using perm assms(3) by (metis distinct_sort)
  ultimately have "json_clean x" if "(k, x) \<in> set kvs" for k x
    using assms(4) that by (force simp: js_get_def v)
  then show ?thesis by (auto simp: json_clean_obj_iff v)
qed

lemma clean_values:
  "is_string v \<Longrightarrow> json_clean v" "is_digest v \<Longrightarrow> json_clean v" "is_nullable_byte_count v \<Longrightarrow> json_clean v"
  by (auto simp: is_string_def is_digest_def is_nullable_byte_count_def split: js.splits jnum.splits)

lemma provenance_clean:
  assumes "parseServingProfileProvenance v = Some a"
  shows "json_clean v"
proof -
  let ?p = "js_get v ''preset''" and ?r = "js_get v ''recipe''" and ?m = "js_get v ''model''"
  note d = assms [unfolded parseServingProfileProvenance_def Let_def]
  have "json_clean ?p"
    using d
    by (intro exactKeys_clean [where ks = "[''digest'', ''displayName'', ''id'', ''supportState'']"])
      (auto simp: clean_values split: if_splits)
  moreover have "json_clean ?r"
    using d
    by (intro exactKeys_clean [where ks = "[''backend'', ''digest'', ''id'']"])
      (auto simp: clean_values split: if_splits)
  moreover have "json_clean ?m"
    using d
    by (intro exactKeys_clean [where ks = "[''id'', ''revision'']"])
      (auto simp: clean_values split: if_splits)
  moreover have "json_clean (js_get v ''runtimeImage'')"
    using d by (auto simp: clean_values split: if_splits)
  ultimately show ?thesis
    using d
    by (intro exactKeys_clean [where ks = "[''catalogDigest'', ''estimatedImageDownloadBytes'',
          ''estimatedModelDownloadBytes'', ''model'', ''preset'', ''recipe'', ''runtimeImage'',
          ''schemaVersion'']"])
      (auto simp: clean_values split: if_splits)
qed

lemma clean_writers [simp]:
  "json_clean (failure_to_js f)" "json_clean (metadata_to_js m)" "json_clean (progress_to_js p)"
  "json_clean (telegram_to_js b)" "json_clean (wechat_to_js c)" "json_clean (resource_to_js r)"
  "json_clean (machine_to_js x)" "json_clean (step_to_js st)"
  "json_clean (web_search_config_to_js ws)"
  by (simp_all add: failure_to_js_def metadata_to_js_def progress_to_js_def telegram_to_js_def
      wechat_to_js_def resource_to_js_def machine_to_js_def step_to_js_def opt_member_def
      web_search_config_to_js_def receipt_to_js_def split: option.splits)

lemma clean_record_writers [simp]:
  "json_clean (string_record_to_js kvs)" "json_clean (steps_to_js steps)"
  by (induction kvs, simp_all add: string_record_to_js_def case_prod_beta)
    (induction steps, simp_all add: steps_to_js_def case_prod_beta)

lemma js_opt_clean': "(\<And>a. x = Some a \<Longrightarrow> json_clean (w a)) \<Longrightarrow> json_clean (js_opt w x)"
  by (cases x) simp_all

lemma json_persist_append:
  "json_persist_obj (xs @ ys) = json_persist_obj xs @ json_persist_obj ys"
  by (induction xs) auto

lemma members_split:
  "\<exists>pre post. (\<forall>plan. session_members s plan ckpt = pre @ (''messagingPlan'', plan) # post)
     \<and> json_clean_obj pre \<and> json_clean_obj post"
  if "storable env s" "json_clean ckpt"
proof -
  have "json_clean (js_opt id (s_servingProfileProvenance s))"
    using that(1) provenance_clean by (intro js_opt_clean') (auto simp: storable_def)
  then show ?thesis
    using that(2)
    by (intro exI [where x = "take 34 (session_members s JNull ckpt)"]
        exI [where x = "drop 35 (session_members s JNull ckpt)"])
      (simp add: session_members_def js_opt_clean del: express_intent_to_js.simps)
qed

text \<open>
  The messaging plan is stored in compact form; reading it back must restore it. This is the
  contract of the plan parser and its compaction, which are parameters here.
\<close>

definition disk_plan :: "session_env \<Rightarrow> session \<Rightarrow> js" where
  "disk_plan env s = json_persist (js_opt (env_compactPlan env) (s_messagingPlan s))"

definition restorable_plan :: "session_env \<Rightarrow> session \<Rightarrow> bool" where
  "restorable_plan env s =
     (env_parsePlan env (disk_plan env s) = s_messagingPlan s
      \<and> (pp_messaging (s_sandboxPromptProgress s) \<longrightarrow>
           isValidNullableMessagingChoice env (disk_plan env s) (js_opt JStr (s_sandboxName s))))"

lemma checkpoint_clean:
  assumes "origin_reparses (env_parseUrl env)" "storable env s"
  shows "json_clean (js_opt serializeCheckpoint (s_checkpoint s))"
  using assms by (intro js_opt_clean') (auto simp: storable_def intro: serialize_clean)

text \<open>What the code relies on of the parameters: origins re-parse, a compacted plan is a value.\<close>

definition good_env :: "session_env \<Rightarrow> bool" where
  "good_env env = (origin_reparses (env_parseUrl env) \<and> (\<forall>p. env_compactPlan env p \<noteq> JUndef))"

lemma good_env_url [simp]: "good_env env \<Longrightarrow> origin_reparses (env_parseUrl env)"
  by (simp add: good_env_def)

lemma persist_serialized:
  assumes "good_env env" "storable env s"
  shows "json_persist (serializeSessionForDisk env s) =
     JObj (session_members s (disk_plan env s) (js_opt serializeCheckpoint (s_checkpoint s)))"
proof -
  obtain pre post where split:
    "\<And>plan. session_members s plan (js_opt serializeCheckpoint (s_checkpoint s)) =
       pre @ (''messagingPlan'', plan) # post"
    and "json_clean_obj pre" "json_clean_obj post"
    using members_split [OF assms(2) checkpoint_clean [OF _ assms(2)]] assms(1) by auto
  moreover have "js_opt (env_compactPlan env) (s_messagingPlan s) \<noteq> JUndef"
    using assms(1) by (cases "s_messagingPlan s") (simp_all add: good_env_def)
  ultimately show ?thesis
    by (simp add: serializeSessionForDisk_def json_persist_append json_persist_clean disk_plan_def)
qed

text \<open>What is read back from a file that holds a storable session.\<close>

definition reloaded :: "session_env \<Rightarrow> nat \<Rightarrow> session \<Rightarrow> session" where
  "reloaded env t n = (resanitize env t (disk_plan env n) n)\<lparr>s_invalidToolDisclosure := False\<rparr>"

lemma load_reloaded:
  assumes "good_env env" "storable env n"
    and "w_file w = FileJson (json_persist (serializeSessionForDisk env n))"
  shows "loadSession env w = (Inr (Some (reloaded env (w_tick w) n)), w\<lparr>w_tick := w_tick w + 2\<rparr>)"
    and "current_session env w = reloaded env (w_tick w) n"
  using assms normalize_storable [OF assms(2), of "w_tick w" False "disk_plan env n"]
  by (simp_all add: loadSession_def current_session_def persist_serialized reloaded_def)

lemma reloaded_fields [simp]:
  "s_sessionId (reloaded env t s) = s_sessionId s" "s_resumable (reloaded env t s) = s_resumable s"
  "s_status (reloaded env t s) = s_status s" "s_mode (reloaded env t s) = s_mode s"
  "s_machine (reloaded env t s) = s_machine s" "s_agent (reloaded env t s) = s_agent s"
  "s_lastStepStarted (reloaded env t s) = s_lastStepStarted s"
  "s_lastCompletedStep (reloaded env t s) = s_lastCompletedStep s"
  "s_sandboxName (reloaded env t s) = s_sandboxName s"
  "s_provider (reloaded env t s) = s_provider s" "s_model (reloaded env t s) = s_model s"
  "s_checkpoint (reloaded env t s) = s_checkpoint s"
  "s_stationExpressIntent (reloaded env t s) = s_stationExpressIntent s"
  "s_stationExpressReceiptRetirement (reloaded env t s) = s_stationExpressReceiptRetirement s"
  "s_steps (reloaded env t s) = redact_steps env (s_steps s)"
  "s_updatedAt (reloaded env t s) = s_updatedAt s"
  "\<not> s_invalidToolDisclosure (reloaded env t s)"
  by (simp_all add: reloaded_def resanitize_def)

lemma load_saved:
  assumes "good_env env" "wf_session env n" "stable_session env n" "restorable_plan env n"
    and "w_file w = FileJson (json_persist (serializeSessionForDisk env n))"
  shows "loadSession env w =
     (Inr (Some (n\<lparr>s_invalidToolDisclosure := False\<rparr>)), w\<lparr>w_tick := w_tick w + 2\<rparr>)"
proof -
  have "resanitize env (w_tick w) (disk_plan env n) n = n"
    using assms(2-4)
    by (intro resanitize_stable) (auto simp: wf_session_def redacted_session_def restorable_plan_def)
  then show ?thesis
    using load_reloaded(1) [OF assms(1) wf_storable [OF assms(2)] assms(5)]
    by (simp add: reloaded_def)
qed

lemma normalizeSession_stable:
  assumes "origin_reparses (env_parseUrl env)" "wf_session env s" "stable_session env s"
  shows "normalizeSession env t (s_invalidToolDisclosure s) (session_to_js s) = Some s"
proof -
  have "resanitize env t (js_opt id (s_messagingPlan s)) s = s"
    using assms(2,3) by (intro resanitize_stable) (auto simp: wf_session_def redacted_session_def stable_session_def)
  then show ?thesis
    using normalize_storable [OF wf_storable [OF assms(2)] assms(1)] by (simp add: session_to_js_def)
qed

lemma pending_retirement_refused:
  assumes "s_stationExpressReceiptRetirement s = Some g" "is_hex_string 32 g" "s_status s \<noteq> ''complete''"
  shows "normalizeSession env t flag (session_to_js s) = None"
  using assms by (simp add: normalizeSession_def session_to_js_def retirement_ok_def Let_def)

section \<open>Safe updates keep a session storable\<close>

fun valid_update :: "session_env \<Rightarrow> session_update \<Rightarrow> bool" where
  "valid_update env (UServingProfileProvenance v) =
     pred_option (\<lambda>x. parseServingProfileProvenance x = Some x) v"
| "valid_update env (URouterPid n) = (0 < n)"
| "valid_update env (UWebSearchConfig v) = pred_option valid_web_search v"
| "valid_update env (UWechatConfig v) = pred_option valid_wechat v"
| "valid_update env (UEndpointUrl v) = redacted_url env v"
| "valid_update env _ = True"

lemma nullable_assign_valid:
  "(\<And>x. valid_update env (key x)) \<Longrightarrow> list_all (valid_update env) (assignNullableString key v f)"
  by (cases "getNullableStringUpdateIntent v f") (simp_all add: assignNullableString_def)

lemma assign_parsed_valid:
  "(\<And>a. parse v = Some a \<Longrightarrow> valid_update env (key (Some a))) \<Longrightarrow> valid_update env (key None) \<Longrightarrow>
     list_all (valid_update env) (assign_parsed key parse v)"
  by (cases "parse v") (simp_all add: assign_parsed_def)

lemma assign_present_valid:
  "(\<And>a. x = Some a \<Longrightarrow> valid_update env (key a)) \<Longrightarrow>
     list_all (valid_update env) (assign_present key x)"
  by (cases x) (simp_all add: assign_present_def)

lemma redactUrl_Some: "redactUrl env v = Some u \<Longrightarrow> redacted_url env (Some u)"
  by (metis redactUrl_redacted)

lemma redacted_url_None [simp]: "redacted_url env None"
  by (simp add: redacted_url_def)

lemma endpoint_assign_valid:
  "list_all (valid_update env) (assignNullableString UEndpointUrl v (\<lambda>s. redactUrl env (JStr s)))"
  by (auto simp: assignNullableString_def getNullableStringUpdateIntent_def
      dest: redactUrl_Some split: js.splits option.splits)

lemma object_updates_valid:
  "list_all (valid_update env) (web_search_update v)"
  "list_all (valid_update env) (telegram_update v)"
  "list_all (valid_update env) (wechat_update v)"
  "list_all (valid_update env) (metadata_update v)"
  by (auto simp: web_search_update_def telegram_update_def wechat_update_def metadata_update_def
      intro!: pred_optionI dest: web_search.read_valid wechat.read_valid
      split: option.splits bool.splits)

lemma filterSafeUpdates_valid: "list_all (valid_update env) (filterSafeUpdates env u)"
proof -
  have "valid_update env (UServingProfileProvenance (Some a))"
    if "parseServingProfileProvenance v = Some a" for v a
    using provenance_fixpoint [OF that] that by simp
  moreover have "0 < n" if "readPositiveInteger v = Some n" for v n
    using that by (auto simp: readPositiveInteger_def split: option.splits if_splits)
  ultimately show ?thesis
    unfolding filterSafeUpdates_def
    by (simp add: nullable_assign_valid assign_parsed_valid assign_present_valid
        endpoint_assign_valid object_updates_valid)
qed

text \<open>The parts of a session no safe update touches.\<close>

lemma apply_update_frame [simp]:
  "s_sessionId (apply_update u s) = s_sessionId s" "s_steps (apply_update u s) = s_steps s"
  "s_machine (apply_update u s) = s_machine s" "s_status (apply_update u s) = s_status s"
  "s_resumable (apply_update u s) = s_resumable s" "s_mode (apply_update u s) = s_mode s"
  "s_failure (apply_update u s) = s_failure s" "s_checkpoint (apply_update u s) = s_checkpoint s"
  "s_agent (apply_update u s) = s_agent s"
  "s_lastStepStarted (apply_update u s) = s_lastStepStarted s"
  "s_lastCompletedStep (apply_update u s) = s_lastCompletedStep s"
  "s_stationExpressIntent (apply_update u s) = s_stationExpressIntent s"
  "s_stationExpressReceiptRetirement (apply_update u s) = s_stationExpressReceiptRetirement s"
  "s_invalidToolDisclosure (apply_update u s) = s_invalidToolDisclosure s"
  by (cases u; simp)+

lemma assign_updates_frame [simp]:
  "s_sessionId (assign_updates us s) = s_sessionId s" "s_steps (assign_updates us s) = s_steps s"
  "s_machine (assign_updates us s) = s_machine s" "s_status (assign_updates us s) = s_status s"
  "s_resumable (assign_updates us s) = s_resumable s" "s_mode (assign_updates us s) = s_mode s"
  "s_failure (assign_updates us s) = s_failure s"
  "s_checkpoint (assign_updates us s) = s_checkpoint s"
  "s_agent (assign_updates us s) = s_agent s"
  "s_lastStepStarted (assign_updates us s) = s_lastStepStarted s"
  "s_lastCompletedStep (assign_updates us s) = s_lastCompletedStep s"
  "s_stationExpressIntent (assign_updates us s) = s_stationExpressIntent s"
  "s_stationExpressReceiptRetirement (assign_updates us s) = s_stationExpressReceiptRetirement s"
  "s_invalidToolDisclosure (assign_updates us s) = s_invalidToolDisclosure s"
  unfolding assign_updates_def by (induction us arbitrary: s; simp)+

definition fields_ok :: "session_env \<Rightarrow> session \<Rightarrow> bool" where
  "fields_ok env s =
     (pred_option (\<lambda>v. parseServingProfileProvenance v = Some v) (s_servingProfileProvenance s)
      \<and> pred_option (\<lambda>n. 0 < n) (s_routerPid s)
      \<and> pred_option valid_web_search (s_webSearchConfig s)
      \<and> pred_option valid_wechat (s_wechatConfig s))"

lemma apply_update_fields: "valid_update env u \<Longrightarrow> fields_ok env s \<Longrightarrow> fields_ok env (apply_update u s)"
  by (cases u) (simp_all add: fields_ok_def)

lemma assign_updates_fields:
  "list_all (valid_update env) us \<Longrightarrow> fields_ok env s \<Longrightarrow> fields_ok env (assign_updates us s)"
  unfolding assign_updates_def
  by (induction us arbitrary: s) (simp_all add: apply_update_fields)

lemma storable_iff:
  "storable env s \<longleftrightarrow>
     map fst (s_steps s) = STEP_NAMES \<and> wf_machine env (s_sessionId s) (s_machine s)
     \<and> fields_ok env s
     \<and> pred_option (valid_intent (env_catalog env)) (s_stationExpressIntent s)
     \<and> pred_option (is_hex_string 32) (s_stationExpressReceiptRetirement s)
     \<and> pred_option (wf_checkpoint (env_parseUrl env)) (s_checkpoint s)
     \<and> express_session_ok s \<and> retirement_ok s \<and> express_provider_ok s"
  by (auto simp: storable_def fields_ok_def)

lemma no_intent_ok [simp]:
  "s_stationExpressIntent s = None \<Longrightarrow> express_session_ok s \<and> express_provider_ok s"
  by (simp add: express_session_ok_def express_provider_ok_def)

section \<open>Step operations on sessions without an Express attempt\<close>

text \<open>
  Normalization ties a Station Express attempt to the status of the session and of its
  provider step; the step operations are stated for sessions with no such attempt pending.
\<close>

definition plain :: "session \<Rightarrow> bool" where
  "plain s = (s_stationExpressIntent s = None \<and> s_stationExpressReceiptRetirement s = None)"

lemma plain_storable:
  "plain s \<Longrightarrow> storable env s \<longleftrightarrow>
     map fst (s_steps s) = STEP_NAMES \<and> wf_machine env (s_sessionId s) (s_machine s)
     \<and> fields_ok env s \<and> pred_option (wf_checkpoint (env_parseUrl env)) (s_checkpoint s)"
  by (auto simp: storable_iff plain_def retirement_ok_def)

lemma set_step_simps [simp]:
  "s_steps (set_step n st s) = alist_set n st (s_steps s)"
  "s_sessionId (set_step n st s) = s_sessionId s" "s_machine (set_step n st s) = s_machine s"
  "s_status (set_step n st s) = s_status s" "s_failure (set_step n st s) = s_failure s"
  "s_resumable (set_step n st s) = s_resumable s" "s_mode (set_step n st s) = s_mode s"
  "s_checkpoint (set_step n st s) = s_checkpoint s"
  "s_stationExpressIntent (set_step n st s) = s_stationExpressIntent s"
  "s_stationExpressReceiptRetirement (set_step n st s) = s_stationExpressReceiptRetirement s"
  "fields_ok env (set_step n st s) = fields_ok env s" "plain (set_step n st s) = plain s"
  by (simp_all add: set_step_def fields_ok_def plain_def)

lemma fields_ok_frame [simp]:
  "fields_ok env (s\<lparr>s_lastStepStarted := a\<rparr>) = fields_ok env s"
  "fields_ok env (s\<lparr>s_lastCompletedStep := a\<rparr>) = fields_ok env s"
  "fields_ok env (s\<lparr>s_failure := f\<rparr>) = fields_ok env s"
  "fields_ok env (s\<lparr>s_status := x\<rparr>) = fields_ok env s"
  "fields_ok env (s\<lparr>s_resumable := b\<rparr>) = fields_ok env s"
  "fields_ok env (s\<lparr>s_machine := m\<rparr>) = fields_ok env s"
  "fields_ok env (s\<lparr>s_stationExpressIntent := i\<rparr>) = fields_ok env s"
  "fields_ok env (s\<lparr>s_stationExpressReceiptRetirement := g\<rparr>) = fields_ok env s"
  by (simp_all add: fields_ok_def)

lemma plain_frame [simp]:
  "plain (s\<lparr>s_lastStepStarted := a\<rparr>) = plain s" "plain (s\<lparr>s_lastCompletedStep := a\<rparr>) = plain s"
  "plain (s\<lparr>s_failure := f\<rparr>) = plain s" "plain (s\<lparr>s_status := x\<rparr>) = plain s"
  "plain (s\<lparr>s_resumable := b\<rparr>) = plain s" "plain (s\<lparr>s_machine := m\<rparr>) = plain s"
  "plain (assign_updates us s) = plain s"
  by (simp_all add: plain_def)

lemma step_names_set:
  "map fst (s_steps s) = STEP_NAMES \<Longrightarrow> map_of (s_steps s) n \<noteq> None \<Longrightarrow>
     map fst (alist_set n st (s_steps s)) = STEP_NAMES"
  by (simp add: alist_set_keys)

lemma wf_machine_transition:
  "wf_machine env sid (s_machine s) \<Longrightarrow> wf_machine env sid (s_machine (transitionMachineSnapshot s st at))"
  if "ms_recoveryReceipt (s_machine s) = None \<or> ms_stateEnteredAt (s_machine s) \<noteq> None"
  using that
  by (auto simp: transitionMachineSnapshot_def Let_def wf_machine_def wf_receipt_def coalesce_def
      createMachineSnapshot_def pred_option_case split: option.splits)

lemma receipt_entered:
  "wf_machine env sid m \<Longrightarrow> ms_recoveryReceipt m = None \<or> ms_stateEnteredAt m \<noteq> None"
  by (cases "ms_recoveryReceipt m") (simp_all add: wf_machine_def wf_receipt_def)

lemma transitionMachineSnapshot_simps [simp]:
  "ms_state (s_machine (transitionMachineSnapshot s st at)) = st"
  "s_steps (transitionMachineSnapshot s st at) = s_steps s"
  "s_sessionId (transitionMachineSnapshot s st at) = s_sessionId s"
  "s_status (transitionMachineSnapshot s st at) = s_status s"
  "s_resumable (transitionMachineSnapshot s st at) = s_resumable s"
  "s_failure (transitionMachineSnapshot s st at) = s_failure s"
  "s_checkpoint (transitionMachineSnapshot s st at) = s_checkpoint s"
  "s_stationExpressIntent (transitionMachineSnapshot s st at) = s_stationExpressIntent s"
  "s_stationExpressReceiptRetirement (transitionMachineSnapshot s st at) =
     s_stationExpressReceiptRetirement s"
  "fields_ok env (transitionMachineSnapshot s st at) = fields_ok env s"
  "plain (transitionMachineSnapshot s st at) = plain s"
  by (simp_all add: transitionMachineSnapshot_def Let_def createMachineSnapshot_def fields_ok_def
      plain_def)

lemma markStepStarted_effect:
  assumes url: "origin_reparses (env_parseUrl env)" and pl: "plain (current_session env w)"
    and step: "map_of (s_steps (current_session env w)) n = Some step"
    and m: "markStepStarted env n w = (r, w')"
  obtains s where "r = Inr s" "wf_session env s"
    "map_of (s_steps s) n = Some (step\<lparr>st_status := StInProgress,
        st_startedAt := Some (env_clock env (w_tick w + load_ticks env w)), st_completedAt := None,
        st_error := None\<rparr>)"
    "\<And>k. k \<noteq> n \<Longrightarrow> map_of (s_steps s) k =
        map_option (redact_step env) (map_of (s_steps (current_session env w)) k)"
    "s_status s = ''in_progress''" "s_failure s = None" "s_lastStepStarted s = Some n"
    "s_machine s = s_machine (current_session env w)" "w_events w' = w_events w"
    "w_file w' = FileJson (json_persist (serializeSessionForDisk env s))"
proof -
  let ?c = "current_session env w" and ?at = "env_clock env (w_tick w + load_ticks env w)"
  define s1 where "s1 = (set_step n (step\<lparr>st_status := StInProgress, st_startedAt := Some ?at,
      st_completedAt := None, st_error := None\<rparr>) ?c)
      \<lparr>s_lastStepStarted := Some n, s_failure := None, s_status := ''in_progress''\<rparr>"
  have "storable env ?c" using current_wf [OF url] by (rule wf_storable)
  then have st: "storable env s1"
    using pl step by (simp add: plain_storable s1_def step_names_set)
  let ?w1 = "w\<lparr>w_tick := Suc (w_tick w + load_ticks env w)\<rparr>"
  have eq: "markStepStarted env n w = (Inr (stored env (w_tick ?w1) s1),
      ?w1\<lparr>w_tick := w_tick ?w1 + 4, w_file := FileJson (json_persist
            (serializeSessionForDisk env (stored env (w_tick ?w1) s1)))\<rparr>)"
    unfolding markStepStarted_def
    by (rule updateSession_storable [OF _ st url]) (simp add: step bind_def now_def s1_def)
  show thesis
    by (rule that [of "stored env (w_tick ?w1) s1"])
      (use eq m st url in \<open>auto simp: s1_def stored_wf redact_step_def redactSensitiveText_def
         sanitizeFailure_def\<close>)
qed


section \<open>The terminal failure backstop\<close>

lemma fail_step_effect:
  assumes "map_of (s_steps s) n = Some step" "\<not> isTerminalOnboardMachineState (ms_state (s_machine s))"
  shows "fail_step env n msg intr s w =
     (Inr (transitionMachineSnapshot
        ((set_step n (step\<lparr>st_status := StFailed, st_completedAt := None,
            st_error := redactSensitiveText env (js_opt JStr msg)\<rparr>) s)
          \<lparr>s_failure := sanitizeFailure env (env_clock env (w_tick w))
             (failure_input (Some n) msg (env_clock env (w_tick w)) (JBool intr)),
           s_status := ''failed''\<rparr>) Failed (env_clock env (w_tick w)), True),
      w\<lparr>w_tick := Suc (w_tick w)\<rparr>)"
proof -
  obtain tr where "assertValidOnboardMachineTransition (ms_state (s_machine s)) Failed = Inr tr"
    using assms(2) assert_valid_Inr_ex [of "ms_state (s_machine s)" Failed] by auto
  with assms show ?thesis by (simp add: fail_step_def bind_def now_def Let_def)
qed

lemma finalize_noop:
  assumes "loadSession env w = (Inr (Some s), w1)" "isTerminalOnboardMachineState (ms_state (s_machine s))"
  shows "finalizeIncompleteOnboardStep env n msg intr w = (Inr (Some s), w1)"
  using assms by (simp add: finalizeIncompleteOnboardStep_def bind_def)

lemma finalize_absent:
  assumes "loadSession env w = (Inr None, w1)"
  shows "finalizeIncompleteOnboardStep env n msg intr w = (Inr None, w1)"
  using assms by (simp add: finalizeIncompleteOnboardStep_def bind_def)

lemma emit_event_eq:
  "emit_event env s i w =
     (Inr (), w\<lparr>w_tick := Suc (w_tick w),
                w_events := w_events w @ [createOnboardMachineEvent env (env_clock env (w_tick w)) s i]\<rparr>)"
  by (simp add: emit_event_def bind_def now_def emitOnboardMachineEvent_def)

lemma finalize_effect:
  assumes env: "good_env env"
    and held: "w_file w = FileJson (json_persist (serializeSessionForDisk env c))" "storable env c" "plain c"
    and step: "map_of (s_steps c) n = Some step"
    and live: "\<not> isTerminalOnboardMachineState (ms_state (s_machine c))"
    and run: "finalizeIncompleteOnboardStep env n msg intr w = (r, w')"
  obtains s e1 e2 where "r = Inr (Some s)" "wf_session env s" "plain s"
    "w_file w' = FileJson (json_persist (serializeSessionForDisk env s))"
    "ms_state (s_machine s) = Failed" "ms_revision (s_machine s) = ms_revision (s_machine c) + 1"
    "ms_recoveryReceipt (s_machine s) = None"
    "s_status s = ''failed''" "map_option st_status (map_of (s_steps s) n) = Some StFailed"
    "w_events w' = w_events w @ [e1, e2]" "ev_type e1 = StateFailed" "ev_type e2 = OnboardFailed"
    "redacted_text env (ev_error e1)" "redacted_text env (ev_error e2)"
proof -
  let ?w0 = "w\<lparr>w_tick := w_tick w + 2\<rparr>"
  let ?e = "reloaded env (w_tick w) c" and ?c = "reloaded env (w_tick ?w0) c"
  have load: "loadSession env w = (Inr (Some ?e), ?w0)"
    and cur: "load_or_new env ?w0 = (Inr ?c, ?w0\<lparr>w_tick := w_tick ?w0 + load_ticks env ?w0\<rparr>)"
    using load_reloaded [OF env held(2)] held(1) by (simp_all add: load_or_new_eq)
  let ?t = "w_tick w + 2 + load_ticks env ?w0"
  let ?at = "env_clock env ?t" and ?step = "redact_step env step"
  define s1 where "s1 = transitionMachineSnapshot
        ((set_step n (?step\<lparr>st_status := StFailed, st_completedAt := None,
            st_error := redactSensitiveText env (js_opt JStr msg)\<rparr>) ?c)
          \<lparr>s_failure := sanitizeFailure env ?at (failure_input (Some n) msg ?at (JBool intr)),
           s_status := ''failed''\<rparr>) Failed ?at"
  have fs: "fail_step env n msg intr ?c (w\<lparr>w_tick := ?t\<rparr>) = (Inr (s1, True), w\<lparr>w_tick := Suc ?t\<rparr>)"
    using fail_step_effect [of ?c n ?step env msg intr] step live by (simp add: s1_def)
  have wfc: "storable env ?c"
    using stored_wf current_wf [of env ?w0] load_reloaded(2) [OF env held(2), of ?w0] held(1) env
    by (simp add: wf_storable)
  have pc: "plain ?c" using held(3) by (simp add: plain_def)
  have m: "wf_machine env (s_sessionId c) (s_machine c)" using held(2) by (simp add: storable_def)
  have "map_of (s_steps ?c) n \<noteq> None" "map fst (s_steps ?c) = STEP_NAMES"
    using step wfc by (simp_all only: reloaded_fields redact_steps_of storable_def) simp
  then have names: "map fst (alist_set n x (redact_steps env (s_steps c))) = STEP_NAMES" for x
    using step_names_set [of ?c n x] by simp
  have st: "storable env s1"
    using wfc pc receipt_entered [OF m] unfolding s1_def
    by (simp add: plain_storable names wf_machine_transition)
  let ?s = "stored env (Suc ?t) s1"
  have mach: "ms_revision (s_machine s1) = max 0 (ms_revision (s_machine c) + 1)"
      "ms_recoveryReceipt (s_machine s1) = None"
    using live by (auto simp: s1_def transitionMachineSnapshot_def Let_def createMachineSnapshot_def)
  show thesis
  proof (rule that [of ?s])
    show "wf_session env ?s" using st env by (simp add: stored_wf)
    show "plain ?s" using pc by (simp add: plain_def s1_def)
    show "ms_revision (s_machine ?s) = ms_revision (s_machine c) + 1"
      using m by (simp add: mach wf_machine_def)
  qed (use run load live cur fs saveSession_storable [OF st] env mach step in
      \<open>auto simp: finalizeIncompleteOnboardStep_def update_with_def bind_def emit_event_eq s1_def
        createOnboardMachineEvent_def Let_def event_of_def\<close>)
qed

end
