(* ===== verification/Onboard_Runtime.thy ===== *)
theory Onboard_Runtime
  imports Store_Facts
begin

text \<open>
  The class \<open>OnboardRuntime\<close> of \<open>src/lib/onboard/machine/runtime.ts\<close> and the result events of
  \<open>result-events.ts\<close>, on top of the session file: every method, with the checks it makes, the
  updates it writes and the events it emits, in the order of the code. The dependencies are the
  default ones (\<open>defaultDeps\<close>).
\<close>

section \<open>Helpers\<close>

definition eventMetadata :: "js \<Rightarrow> (string \<times> js) list" where
  "eventMetadata metadata = js_entries metadata"

text \<open>\<open>{ ...eventMetadata(metadata), fields }\<close>\<close>

definition with_fields :: "js \<Rightarrow> session_update list \<Rightarrow> js" where
  "with_fields metadata us = JObj (alist_set ''fields'' (update_fields us) (eventMetadata metadata))"

definition snapshotFor :: "machine_state \<Rightarrow> string option \<Rightarrow> int \<Rightarrow> machine_snapshot" where
  "snapshotFor state stateEnteredAt revision =
     \<lparr>ms_state = state, ms_stateEnteredAt = stateEnteredAt, ms_revision = max 0 revision,
      ms_recoveryReceipt = None\<rparr>"

definition ensureSession :: "session_env \<Rightarrow> session onboard" where
  "ensureSession env =
     bind (loadSession env) (\<lambda>existing.
       case existing of
         Some s \<Rightarrow> ret s
       | None \<Rightarrow> bind (newSession env) (saveSession env))"

definition runtime_emit ::
  "session_env \<Rightarrow> event_type \<Rightarrow> session \<Rightarrow> machine_state option \<Rightarrow> string option \<Rightarrow> string option \<Rightarrow> js
     \<Rightarrow> unit onboard" where
  "runtime_emit env ty s state step err metadata =
     emit_event env s
       \<lparr>ei_type = ty, ei_step = step, ei_state = Some (nullish (ms_state (s_machine s)) state),
        ei_error = err, ei_metadata = metadata\<rparr>"

definition interruption_of :: "session \<Rightarrow> interruption_marker option" where
  "interruption_of s =
     map_option (\<lambda>f. \<lparr>im_step = fl_step f, im_interrupted = fl_interrupted f\<rparr>) (s_failure s)"

section \<open>Methods\<close>

definition rt_session :: "session_env \<Rightarrow> session onboard" where
  "rt_session env = ensureSession env"

definition rt_start :: "session_env \<Rightarrow> bool \<Rightarrow> js \<Rightarrow> session onboard" where
  "rt_start env resumed metadata =
     bind (ensureSession env) (\<lambda>s.
     bind (runtime_emit env (if resumed then OnboardResumed else OnboardStarted) s
             (Some (ms_state (s_machine s))) None None metadata) (\<lambda>_.
     ret s))"

definition receipt_metadata :: "recovery_receipt \<Rightarrow> js" where
  "receipt_metadata r =
     JObj [(''reason'', JStr (reason_id (rr_reason r))), (''entry'', JStr (state_id (rr_entry r))),
           (''receiptId'', JStr (rr_id r)), (''appliedAt'', JStr (rr_appliedAt r)),
           (''revision'', JNum (NInt (rr_revision r)))]"

definition emitPendingSessionRecovery :: "session_env \<Rightarrow> session onboard" where
  "emitPendingSessionRecovery env =
     bind (ensureSession env) (\<lambda>s.
       case ms_recoveryReceipt (s_machine s) of
         None \<Rightarrow> ret s
       | Some r \<Rightarrow>
           bind (runtime_emit env RepairCompleted s (Some (rr_entry r)) None None (receipt_metadata r))
             (\<lambda>_. ret s))"

definition rt_markStepStarted :: "session_env \<Rightarrow> string \<Rightarrow> session onboard" where
  "rt_markStepStarted env stepName = markStepStarted env stepName"

definition rt_markStepComplete :: "session_env \<Rightarrow> string \<Rightarrow> js \<Rightarrow> session onboard" where
  "rt_markStepComplete env stepName updates =
     (let safeUpdates = filterSafeUpdates env updates in
      bind (markStepComplete env stepName
              (JObj (js_entries (updates_to_js safeUpdates)
                 @ [(''stationExpressModelIdentity'', js_get updates ''stationExpressModelIdentity'')])))
        (\<lambda>updated.
      bind (on_condition (safeUpdates \<noteq> [])
              (runtime_emit env ContextUpdated updated None (Some stepName) None
                (JObj [(''fields'', update_fields safeUpdates)]))) (\<lambda>_.
      ret updated)))"

definition step_status_of :: "session \<Rightarrow> string \<Rightarrow> step_status option" where
  "step_status_of s name = map_option st_status (map_of (s_steps s) name)"

definition rt_markStepSkipped :: "session_env \<Rightarrow> string \<Rightarrow> session onboard" where
  "rt_markStepSkipped env stepName =
     bind (ensureSession env) (\<lambda>current.
       (let state = machineStateFromOnboardSessionStep (Some stepName);
            previousStatus = (if state \<noteq> None then step_status_of current stepName else None)
        in bind (markStepSkipped env stepName) (\<lambda>updated.
           bind (on_condition
                   (state \<noteq> None
                    \<and> (previousStatus = Some StPending \<or> previousStatus = Some StInProgress)
                    \<and> step_status_of updated stepName = Some StSkipped)
                   (runtime_emit env StateSkipped updated state (Some stepName) None JUndef)) (\<lambda>_.
           ret updated))))"

definition rt_markStepFailed :: "session_env \<Rightarrow> string \<Rightarrow> string option \<Rightarrow> session onboard" where
  "rt_markStepFailed env stepName message = markStepFailed env stepName message"

definition rt_completeSession :: "session_env \<Rightarrow> js \<Rightarrow> session onboard" where
  "rt_completeSession env updates = completeSession env updates True"

definition enter_state :: "machine_state \<Rightarrow> string \<Rightarrow> session \<Rightarrow> session" where
  "enter_state to enteredAt s =
     (let s1 = s\<lparr>s_machine := snapshotFor to (Some enteredAt) (ms_revision (s_machine s) + 1)\<rparr>
      in if to = Failed then s1\<lparr>s_status := ''failed''\<rparr>
         else if to = Complete then
           s1\<lparr>s_status := ''complete'', s_resumable := False, s_failure := None\<rparr>
         else if s_status s1 \<noteq> ''failed'' then s1\<lparr>s_status := ''in_progress''\<rparr>
         else s1)"

definition rt_transition :: "session_env \<Rightarrow> machine_state \<Rightarrow> js \<Rightarrow> session onboard" where
  "rt_transition env to metadata =
     bind (ensureSession env) (\<lambda>current.
       (let from = ms_state (s_machine current) in
        bind (lift_res (assertValidOnboardMachineTransition from to)) (\<lambda>_.
        bind (now env) (\<lambda>enteredAt.
        bind (updateSession env (\<lambda>s. ret (enter_state to enteredAt s))) (\<lambda>updated.
        bind (runtime_emit env StateExited updated (Some from) None None metadata) (\<lambda>_.
        bind (runtime_emit env StateEntered updated (Some to) None None metadata) (\<lambda>_.
        ret updated)))))))"

definition updateContext :: "session_env \<Rightarrow> js \<Rightarrow> machine_state option \<Rightarrow> js \<Rightarrow> session onboard" where
  "updateContext env updates state metadata =
     (let safeUpdates = filterSafeUpdates env updates in
      bind (updateSession env (\<lambda>s. ret (assign_updates safeUpdates s))) (\<lambda>updated.
      bind (on_condition (safeUpdates \<noteq> [])
              (runtime_emit env ContextUpdated updated
                (Some (nullish (ms_state (s_machine updated)) state)) None None
                (with_fields metadata safeUpdates))) (\<lambda>_.
      ret updated)))"

definition complete_directly :: "session_env \<Rightarrow> session_update list \<Rightarrow> session onboard" where
  "complete_directly env safeUpdates =
     bind (now env) (\<lambda>enteredAt.
       updateSession env (\<lambda>s.
         ret ((assign_updates safeUpdates s)
                \<lparr>s_status := ''complete'', s_resumable := False, s_failure := None,
                 s_machine := snapshotFor Complete (Some enteredAt)
                   (ms_revision (s_machine (assign_updates safeUpdates s)) + 1)\<rparr>)))"

definition rt_complete :: "session_env \<Rightarrow> js \<Rightarrow> js \<Rightarrow> session onboard" where
  "rt_complete env updates metadata =
     bind (ensureSession env) (\<lambda>current.
       (let from = ms_state (s_machine current); safeUpdates = filterSafeUpdates env updates in
        bind (lift_res (assertOnboardNotInterrupted from Complete (interruption_of current))) (\<lambda>_.
        bind (lift_res (assertValidOnboardMachineTransition from Complete)) (\<lambda>_.
        bind (completeSession env updates False) (\<lambda>completed.
        bind (if ms_state (s_machine completed) \<noteq> Complete
              then complete_directly env safeUpdates else ret completed) (\<lambda>updated.
        bind (on_condition (safeUpdates \<noteq> [])
                (runtime_emit env ContextUpdated updated (Some Complete) None None
                  (with_fields metadata safeUpdates))) (\<lambda>_.
        bind (runtime_emit env StateCompleted updated (Some from) None None metadata) (\<lambda>_.
        bind (runtime_emit env StateEntered updated (Some Complete) None None metadata) (\<lambda>_.
        bind (runtime_emit env OnboardCompleted updated (Some Complete) None None metadata) (\<lambda>_.
        ret updated))))))))))"

definition rt_fail :: "session_env \<Rightarrow> string option \<Rightarrow> string option \<Rightarrow> js \<Rightarrow> session onboard" where
  "rt_fail env message step metadata =
     bind (ensureSession env) (\<lambda>current.
       (let from = ms_state (s_machine current) in
        bind (if canTransitionOnboardMachineState from Failed then ret ()
              else bind (lift_res (assertValidOnboardMachineTransition from Failed)) (\<lambda>_. ret ())) (\<lambda>_.
        bind (now env) (\<lambda>recordedAt.
        bind (updateSession env (\<lambda>s.
                ret (s\<lparr>s_status := ''failed'',
                       s_failure := sanitizeFailure env recordedAt
                         (failure_input step message recordedAt JUndef),
                       s_machine := snapshotFor Failed (Some recordedAt)
                         (ms_revision (s_machine s) + 1)\<rparr>))) (\<lambda>updated.
        bind (runtime_emit env StateFailed updated (Some from) step message metadata) (\<lambda>_.
        bind (runtime_emit env OnboardFailed updated (Some Failed) step message metadata) (\<lambda>_.
        ret updated)))))))"

text \<open>\<open>result.metadata && typeof result.metadata.state === "string" ? ... : null\<close>\<close>

definition result_source :: "onboard_result \<Rightarrow> string option" where
  "result_source r = js_string (js_get (rs_metadata r) ''state'')"

definition check_result :: "session \<Rightarrow> onboard_result \<Rightarrow> onboard_error + unit" where
  "check_result current result =
     (let state = ms_state (s_machine current);
          mismatch = (case result_source result of
                        Some src \<Rightarrow> if src \<noteq> [] \<and> state_id state \<noteq> src
                                    then Some (ResultSourceMismatch src state) else None
                      | None \<Rightarrow> None)
      in case result of
           FailedResult _ _ _ \<Rightarrow>
             (case assertValidOnboardMachineTransition state Failed of Inl e \<Rightarrow> Inl e | Inr _ \<Rightarrow> Inr ())
         | CompleteResult _ _ \<Rightarrow>
             (case assertOnboardNotInterrupted state Complete (interruption_of current) of
                Inl e \<Rightarrow> Inl e
              | Inr _ \<Rightarrow>
                  (case assertValidOnboardMachineTransition state Complete of
                     Inl e \<Rightarrow> Inl e | Inr _ \<Rightarrow> Inr ()))
         | PauseResult _ _ \<Rightarrow> (case mismatch of Some e \<Rightarrow> Inl e | None \<Rightarrow> Inr ())
         | TransitionResult nxt kind _ _ \<Rightarrow>
             (case assertOnboardNotInterrupted state nxt (interruption_of current) of
                Inl e \<Rightarrow> Inl e
              | Inr _ \<Rightarrow>
                  if isTerminalOnboardMachineState state
                     \<and> getOnboardMachineTransition state nxt = None
                  then Inl (InvalidOnboardMachineTransition state nxt)
                  else if state = nxt then Inl (ResultAlreadyAtTarget nxt)
                  else
                    (case mismatch of
                       Some e \<Rightarrow> Inl e
                     | None \<Rightarrow>
                         (case assertValidOnboardMachineTransition state nxt of
                            Inl e \<Rightarrow> Inl e
                          | Inr tr \<Rightarrow>
                              (case kind of
                                 Some k \<Rightarrow>
                                   if tr_kind tr \<noteq> k
                                   then Inl (InvalidTransitionKind state nxt k (tr_kind tr))
                                   else Inr ()
                               | None \<Rightarrow> Inr ())))))"

definition assertResultWillApply :: "session_env \<Rightarrow> onboard_result \<Rightarrow> unit onboard" where
  "assertResultWillApply env result =
     bind (ensureSession env) (\<lambda>current. lift_res (check_result current result))"

definition has_safe_updates :: "session_env \<Rightarrow> js \<Rightarrow> bool" where
  "has_safe_updates env updates = (filterSafeUpdates env updates \<noteq> [])"

definition apply_pause :: "session_env \<Rightarrow> js \<Rightarrow> js \<Rightarrow> session onboard" where
  "apply_pause env updates metadata =
     bind (ensureSession env) (\<lambda>current.
       if isTerminalOnboardMachineState (ms_state (s_machine current))
       then throw (CannotPauseTerminal (ms_state (s_machine current)))
       else if has_safe_updates env updates
       then updateContext env updates (Some (ms_state (s_machine current))) metadata
       else ret current)"

definition apply_transition ::
  "session_env \<Rightarrow> machine_state \<Rightarrow> transition_kind option \<Rightarrow> js \<Rightarrow> js \<Rightarrow> session onboard" where
  "apply_transition env nxt kind updates metadata =
     bind (ensureSession env) (\<lambda>current.
       (let state = ms_state (s_machine current) in
        bind (lift_res (assertOnboardNotInterrupted state nxt (interruption_of current))) (\<lambda>_.
        bind (lift_res (assertValidOnboardMachineTransition state nxt)) (\<lambda>tr.
        bind (case kind of
                Some k \<Rightarrow> if tr_kind tr \<noteq> k
                          then throw (InvalidTransitionKind state nxt k (tr_kind tr)) else ret ()
              | None \<Rightarrow> ret ()) (\<lambda>_.
        bind (on_condition (has_safe_updates env updates)
                (bind (updateContext env updates (Some state) metadata) (\<lambda>_. ret ()))) (\<lambda>_.
        rt_transition env nxt metadata))))))"

definition applyResult :: "session_env \<Rightarrow> onboard_result \<Rightarrow> session onboard" where
  "applyResult env result =
     bind (assertResultWillApply env result) (\<lambda>_.
       case result of
         PauseResult updates metadata \<Rightarrow> apply_pause env updates metadata
       | CompleteResult updates metadata \<Rightarrow> rt_complete env updates metadata
       | FailedResult err step metadata \<Rightarrow> rt_fail env err step metadata
       | TransitionResult nxt kind updates metadata \<Rightarrow>
           apply_transition env nxt kind updates metadata)"

definition markSkipped :: "session_env \<Rightarrow> machine_state \<Rightarrow> js \<Rightarrow> session onboard" where
  "markSkipped env state metadata =
     bind (ensureSession env) (\<lambda>s.
       if isTerminalOnboardMachineState state then throw (TerminalCannotBeSkipped state)
       else bind (runtime_emit env StateSkipped s (Some state) None None metadata) (\<lambda>_. ret s))"

section \<open>Result and repair events (result-events.ts)\<close>

datatype invalidation_reason = AlreadyAtTarget | SourceStateMismatch

fun invalidation_id :: "invalidation_reason \<Rightarrow> string" where
  "invalidation_id AlreadyAtTarget = ''already_at_target''"
| "invalidation_id SourceStateMismatch = ''source_state_mismatch''"

record result_inputs =
  ri_reason :: invalidation_reason
  ri_currentState :: machine_state
  ri_targetState :: machine_state
  ri_metadata :: js
  ri_sourceState :: "string option"

definition result_metadata :: "result_inputs \<Rightarrow> (string \<times> js) list" where
  "result_metadata i =
     alist_set ''targetState'' (JStr (state_id (ri_targetState i)))
       (alist_set ''currentState'' (JStr (state_id (ri_currentState i)))
         (alist_set ''reason'' (JStr (invalidation_id (ri_reason i))) (js_entries (ri_metadata i))))"

definition buildResultSkippedEvent ::
  "session_env \<Rightarrow> string \<Rightarrow> session \<Rightarrow> result_inputs \<Rightarrow> machine_event" where
  "buildResultSkippedEvent env at s i =
     createOnboardMachineEvent env at s
       ((event_of ResultSkipped)\<lparr>ei_state := Some (ms_state (s_machine s)),
          ei_metadata := JObj (result_metadata i)\<rparr>)"

definition buildResultInvalidatedEvent ::
  "session_env \<Rightarrow> string \<Rightarrow> session \<Rightarrow> result_inputs \<Rightarrow> machine_event" where
  "buildResultInvalidatedEvent env at s i =
     createOnboardMachineEvent env at s
       ((event_of ResultInvalidated)\<lparr>ei_state := Some (ms_state (s_machine s)),
          ei_metadata := JObj (alist_set ''sourceState'' (js_or_undef JStr (ri_sourceState i))
                                 (result_metadata i))\<rparr>)"

definition emitResultSkipped :: "session_env \<Rightarrow> result_inputs \<Rightarrow> session onboard" where
  "emitResultSkipped env i =
     bind (ensureSession env) (\<lambda>s. bind (now env) (\<lambda>at.
     bind (emitOnboardMachineEvent (buildResultSkippedEvent env at s i)) (\<lambda>_. ret s)))"

definition emitResultInvalidated :: "session_env \<Rightarrow> result_inputs \<Rightarrow> session onboard" where
  "emitResultInvalidated env i =
     bind (ensureSession env) (\<lambda>s. bind (now env) (\<lambda>at.
     bind (emitOnboardMachineEvent (buildResultInvalidatedEvent env at s i)) (\<lambda>_. ret s)))"

record config_conflict =
  cc_field :: string
  cc_recorded :: "string option"
  cc_requested :: "string option"

definition safeResumeConflictValue :: "config_conflict \<Rightarrow> string option \<Rightarrow> string option" where
  "safeResumeConflictValue c v =
     (if cc_field c = ''fromDockerfile'' \<and> truthy v then Some ''<path>'' else v)"

definition emitResumeConflict :: "session_env \<Rightarrow> config_conflict \<Rightarrow> session onboard" where
  "emitResumeConflict env c =
     bind (ensureSession env) (\<lambda>s.
     bind (runtime_emit env ResumeConflict s (Some (ms_state (s_machine s))) None None
             (JObj [(''field'', JStr (cc_field c)),
                    (''recorded'', js_opt JStr (safeResumeConflictValue c (cc_recorded c))),
                    (''requested'', js_opt JStr (safeResumeConflictValue c (cc_requested c)))])) (\<lambda>_.
     ret s))"

definition emitRepairEvent ::
  "session_env \<Rightarrow> event_type \<Rightarrow> machine_state option \<Rightarrow> string option \<Rightarrow> js \<Rightarrow> session onboard" where
  "emitRepairEvent env ty state err metadata =
     bind (ensureSession env) (\<lambda>s.
     bind (runtime_emit env ty s (Some (nullish (ms_state (s_machine s)) state)) None err metadata)
       (\<lambda>_. ret s))"

end
