(* ===== verification/Runtime_Facts.thy ===== *)
theory Runtime_Facts
  imports Onboard_Runtime Onboard_Runner
begin

text \<open>
  What the runtime does to a session file that holds a storable session with no Express attempt:
  each method either throws and leaves the file as it was, or moves the machine along one edge
  of the transition graph, adds one to the revision and saves a session that satisfies the
  invariant. The runner relies on this through the locale \<open>machine_runtime\<close>, interpreted at the
  end on \<open>applyResult\<close>.
\<close>

section \<open>A file that holds a session\<close>

definition holds :: "session_env \<Rightarrow> onboard_world \<Rightarrow> session \<Rightarrow> bool" where
  "holds env w n =
     (good_env env \<and> storable env n \<and> plain n
      \<and> w_file w = FileJson (json_persist (serializeSessionForDisk env n)))"

lemma holdsD:
  assumes "holds env w n"
  shows "good_env env" "storable env n" "plain n"
    "w_file w = FileJson (json_persist (serializeSessionForDisk env n))"
  using assms by (simp_all add: holds_def)

lemma holds_frame [simp]:
  "holds env (w\<lparr>w_tick := t\<rparr>) n = holds env w n"
  "holds env (w\<lparr>w_events := es\<rparr>) n = holds env w n"
  by (simp_all add: holds_def)

lemma reloaded_plain [simp]: "plain (reloaded env t n) = plain n"
  by (simp add: plain_def)

lemma stored_plain [simp]: "plain (stored env t n) = plain n"
  by (simp add: plain_def)

lemma load_held: "holds env w n \<Longrightarrow> load_or_new env w = (Inr (reloaded env (w_tick w) n), w\<lparr>w_tick := w_tick w + 2\<rparr>)"
  using load_reloaded(1) [of env n w]
  by (simp add: holds_def load_or_new_def bind_def)

lemma ensure_held:
  "holds env w n \<Longrightarrow> ensureSession env w = (Inr (reloaded env (w_tick w) n), w\<lparr>w_tick := w_tick w + 2\<rparr>)"
  using load_reloaded(1) [of env n w] by (simp add: holds_def ensureSession_def bind_def)

lemma reloaded_storable: "holds env w n \<Longrightarrow> storable env (reloaded env t n)"
  using current_wf [of env "w\<lparr>w_tick := t\<rparr>"] load_reloaded(2) [of env n "w\<lparr>w_tick := t\<rparr>"]
  by (simp add: holds_def wf_storable)

lemma save_held:
  assumes "good_env env" "storable env s" "plain s" "saveSession env s w = (r, w')"
  shows "r = Inr (stored env (w_tick w) s) \<and> holds env w' (stored env (w_tick w) s)
    \<and> w_events w' = w_events w \<and> w_tick w' = w_tick w + 4"
  using assms saveSession_storable [OF assms(2)] stored_wf [OF assms(2)]
  by (auto simp: holds_def wf_storable)

lemma update_held:
  assumes "holds env w n" "storable env (f (reloaded env (w_tick w) n))"
    "plain (f (reloaded env (w_tick w) n))"
  obtains s w' where "updateSession env (\<lambda>s. ret (f s)) w = (Inr s, w')" "holds env w' s"
    "wf_session env s" "s = stored env (w_tick w + 2) (f (reloaded env (w_tick w) n))"
    "w_events w' = w_events w" "w_tick w' = w_tick w + 6"
proof -
  let ?s1 = "f (reloaded env (w_tick w) n)" and ?w = "w\<lparr>w_tick := w_tick w + 2\<rparr>"
  obtain r w' where sv: "saveSession env ?s1 ?w = (r, w')" by (cases "saveSession env ?s1 ?w")
  note g = holdsD(1) [OF assms(1)]
  have "updateSession env (\<lambda>s. ret (f s)) w = (r, w')"
    using load_held [OF assms(1)] sv by (simp add: updateSession_def bind_def split: sum.splits)
  with save_held [OF g assms(2,3) sv] that [of "stored env (w_tick w + 2) ?s1" w']
    stored_wf [OF assms(2)] g
  show thesis by simp
qed

section \<open>Storable changes\<close>

lemma snapshotFor_simps [simp]:
  "ms_state (snapshotFor st at rv) = st" "ms_recoveryReceipt (snapshotFor st at rv) = None"
  "wf_machine env sid (snapshotFor st at rv)"
  "ms_revision (snapshotFor st at rv) = max 0 rv"
  by (simp_all add: snapshotFor_def wf_machine_def)

lemma storable_enter:
  "storable env s \<Longrightarrow> plain s \<Longrightarrow> storable env (enter_state to at s) \<and> plain (enter_state to at s)"
  by (simp add: enter_state_def Let_def plain_storable)

lemma enter_state_simps [simp]:
  "ms_state (s_machine (enter_state to at s)) = to"
  "ms_recoveryReceipt (s_machine (enter_state to at s)) = None"
  "ms_revision (s_machine (enter_state to at s)) = max 0 (ms_revision (s_machine s) + 1)"
  "s_steps (enter_state to at s) = s_steps s" "s_sessionId (enter_state to at s) = s_sessionId s"
  by (simp_all add: enter_state_def Let_def)

lemma storable_assign:
  "storable env s \<Longrightarrow> plain s \<Longrightarrow>
     storable env (assign_updates (filterSafeUpdates env u) s)
     \<and> plain (assign_updates (filterSafeUpdates env u) s)"
  by (simp add: plain_storable assign_updates_fields filterSafeUpdates_valid)

lemma held_revision: "holds env w n \<Longrightarrow> 0 \<le> ms_revision (s_machine n)"
  by (simp add: holds_def storable_def wf_machine_def)

section \<open>Effects of the methods\<close>

definition rt_event ::
  "session_env \<Rightarrow> nat \<Rightarrow> event_type \<Rightarrow> session \<Rightarrow> machine_state option \<Rightarrow> string option \<Rightarrow> string option
     \<Rightarrow> js \<Rightarrow> machine_event" where
  "rt_event env t ty s state step err metadata =
     createOnboardMachineEvent env (env_clock env t) s
       \<lparr>ei_type = ty, ei_step = step, ei_state = Some (nullish (ms_state (s_machine s)) state),
        ei_error = err, ei_metadata = metadata\<rparr>"

lemma runtime_emit_eq:
  "runtime_emit env ty s st step err md w =
     (Inr (), w\<lparr>w_tick := Suc (w_tick w),
                w_events := w_events w @ [rt_event env (w_tick w) ty s st step err md]\<rparr>)"
  by (simp add: runtime_emit_def emit_event_eq rt_event_def)

lemma rt_event_simps [simp]:
  "ev_type (rt_event env t ty s st step err md) = ty"
  "ev_state (rt_event env t ty s st step err md) = Some (nullish (ms_state (s_machine s)) st)"
  "redacted_text env (ev_error (rt_event env t ty s st step err md))"
  by (simp_all add: rt_event_def createOnboardMachineEvent_def Let_def)

lemmas run_simps = bind_def Let_def now_def runtime_emit_eq on_condition_def

lemma transition_effect:
  assumes h: "holds env w n" and edge: "canTransitionOnboardMachineState (ms_state (s_machine n)) to"
  obtains s w' e1 e2 where "rt_transition env to md w = (Inr s, w')" "holds env w' s" "wf_session env s"
    "ms_state (s_machine s) = to" "ms_revision (s_machine s) = ms_revision (s_machine n) + 1"
    "ms_recoveryReceipt (s_machine s) = None" "s_sessionId s = s_sessionId n"
    "w_events w' = w_events w @ [e1, e2]" "ev_type e1 = StateExited" "ev_type e2 = StateEntered"
    "ev_state e1 = Some (ms_state (s_machine n))" "ev_state e2 = Some to"
proof -
  obtain tr where tr: "assertValidOnboardMachineTransition (ms_state (s_machine n)) to = Inr tr"
    using edge assert_valid_Inr_ex by blast
  let ?at = "env_clock env (w_tick w + 2)" and ?w1 = "w\<lparr>w_tick := w_tick w + 3\<rparr>"
  have h1: "holds env ?w1 n" using h by simp
  have "storable env (enter_state to ?at (reloaded env (w_tick ?w1) n))"
    "plain (enter_state to ?at (reloaded env (w_tick ?w1) n))"
    using storable_enter [OF reloaded_storable [OF h]] holdsD(3) [OF h] by simp_all
  then obtain s w2 where up: "updateSession env (\<lambda>s. ret (enter_state to ?at s)) ?w1 = (Inr s, w2)"
    "holds env w2 s" "wf_session env s"
    "s = stored env (w_tick ?w1 + 2) (enter_state to ?at (reloaded env (w_tick ?w1) n))"
    "w_events w2 = w_events ?w1"
    by (rule update_held [OF h1])
  let ?e1 = "rt_event env (w_tick w2) StateExited s (Some (ms_state (s_machine n))) None None md"
  let ?e2 = "rt_event env (Suc (w_tick w2)) StateEntered s (Some to) None None md"
  let ?w' = "w2\<lparr>w_tick := w_tick w2 + 2, w_events := w_events w @ [?e1, ?e2]\<rparr>"
  have run: "rt_transition env to md w = (Inr s, ?w')"
    using ensure_held [OF h] tr up(1,5) by (simp add: rt_transition_def run_simps eval_nat_numeral)
  show thesis
    by (rule that [OF run, of ?e1 ?e2]) (use up(2-4) held_revision [OF h] in \<open>simp_all\<close>)
qed

lemma transition_refused:
  assumes "holds env w n" "\<not> canTransitionOnboardMachineState (ms_state (s_machine n)) to"
  shows "rt_transition env to md w =
     (Inl (InvalidOnboardMachineTransition (ms_state (s_machine n)) to), w\<lparr>w_tick := w_tick w + 2\<rparr>)"
  using ensure_held [OF assms(1)] assert_valid_InlD [OF assms(2)]
  by (simp add: rt_transition_def bind_def Let_def)

lemma updateContext_effect:
  assumes h: "holds env w n"
  obtains s w' es where "updateContext env u st md w = (Inr s, w')" "holds env w' s" "wf_session env s"
    "s_machine s = s_machine n" "s_sessionId s = s_sessionId n" "s_status s = s_status n"
    "w_events w' = w_events w @ es"
    "map ev_type es = (if filterSafeUpdates env u = [] then [] else [ContextUpdated])"
proof -
  let ?us = "filterSafeUpdates env u"
  have "storable env (assign_updates ?us (reloaded env (w_tick w) n))"
    "plain (assign_updates ?us (reloaded env (w_tick w) n))"
    using storable_assign [OF reloaded_storable [OF h]] holdsD(3) [OF h] by simp_all
  then obtain s w2 where up: "updateSession env (\<lambda>s. ret (assign_updates ?us s)) w = (Inr s, w2)"
    "holds env w2 s" "wf_session env s"
    "s = stored env (w_tick w + 2) (assign_updates ?us (reloaded env (w_tick w) n))"
    "w_events w2 = w_events w"
    by (rule update_held [OF h])
  let ?e = "rt_event env (w_tick w2) ContextUpdated s (Some (nullish (ms_state (s_machine s)) st)) None
      None (with_fields md ?us)"
  let ?w' = "if ?us = [] then w2 else w2\<lparr>w_tick := Suc (w_tick w2), w_events := w_events w @ [?e]\<rparr>"
  have run: "updateContext env u st md w = (Inr s, ?w')"
    using up(1,5) by (simp add: updateContext_def run_simps)
  show thesis
    by (rule that [OF run, of "if ?us = [] then [] else [?e]"]) (use up(2-5) in \<open>auto\<close>)
qed

lemma fail_effect:
  assumes h: "holds env w n" and live: "\<not> isTerminalOnboardMachineState (ms_state (s_machine n))"
  obtains s w' e1 e2 where "rt_fail env msg step md w = (Inr s, w')" "holds env w' s" "wf_session env s"
    "ms_state (s_machine s) = Failed" "ms_revision (s_machine s) = ms_revision (s_machine n) + 1"
    "ms_recoveryReceipt (s_machine s) = None" "s_sessionId s = s_sessionId n" "s_status s = ''failed''"
    "w_events w' = w_events w @ [e1, e2]" "ev_type e1 = StateFailed" "ev_type e2 = OnboardFailed"
    "redacted_text env (ev_error e1)" "redacted_text env (ev_error e2)"
proof -
  let ?t = "w_tick w + 2" and ?w1 = "w\<lparr>w_tick := w_tick w + 3\<rparr>"
  let ?at = "env_clock env ?t"
  let ?f = "\<lambda>s. s\<lparr>s_status := ''failed'',
       s_failure := sanitizeFailure env ?at (failure_input step msg ?at JUndef),
       s_machine := snapshotFor Failed (Some ?at) (ms_revision (s_machine s) + 1)\<rparr>"
  have h1: "holds env ?w1 n" using h by simp
  have "storable env (?f (reloaded env (w_tick ?w1) n))" "plain (?f (reloaded env (w_tick ?w1) n))"
    using reloaded_storable [OF h] holdsD(3) [OF h] by (simp_all add: plain_storable)
  then obtain s w2 where up: "updateSession env (\<lambda>s. ret (?f s)) ?w1 = (Inr s, w2)"
    "holds env w2 s" "wf_session env s" "s = stored env (w_tick ?w1 + 2) (?f (reloaded env (w_tick ?w1) n))"
    "w_events w2 = w_events ?w1"
    by (rule update_held [OF h1])
  let ?e1 = "rt_event env (w_tick w2) StateFailed s (Some (ms_state (s_machine n))) step msg md"
  let ?e2 = "rt_event env (Suc (w_tick w2)) OnboardFailed s (Some Failed) step msg md"
  let ?w' = "w2\<lparr>w_tick := w_tick w2 + 2, w_events := w_events w @ [?e1, ?e2]\<rparr>"
  have run: "rt_fail env msg step md w = (Inr s, ?w')"
    using ensure_held [OF h] live up(1,5) by (simp add: rt_fail_def run_simps eval_nat_numeral)
  show thesis
    by (rule that [OF run, of ?e1 ?e2]) (use up(2-4) held_revision [OF h] in \<open>simp_all\<close>)
qed

lemma fail_refused:
  assumes "holds env w n" "isTerminalOnboardMachineState (ms_state (s_machine n))"
  shows "rt_fail env msg step md w =
     (Inl (InvalidOnboardMachineTransition (ms_state (s_machine n)) Failed), w\<lparr>w_tick := w_tick w + 2\<rparr>)"
  using ensure_held [OF assms(1)] assert_valid_InlD [of "ms_state (s_machine n)" Failed] assms(2)
  by (auto simp: rt_fail_def bind_def Let_def)

lemma completeSession_effect:
  assumes h: "holds env w n"
  obtains s w' where "completeSession env u False w = (Inr s, w')" "holds env w' s" "wf_session env s"
    "ms_state (s_machine s) = Complete" "s_status s = ''complete''" "\<not> s_resumable s" "s_failure s = None"
    "s_sessionId s = s_sessionId n" "w_events w' = w_events w"
    "ms_state (s_machine n) \<noteq> Complete \<Longrightarrow>
       ms_revision (s_machine s) = ms_revision (s_machine n) + 1 \<and> ms_recoveryReceipt (s_machine s) = None"
proof -
  let ?us = "filterSafeUpdates env u" and ?c = "reloaded env (w_tick w) n"
  let ?at = "env_clock env (w_tick w + 2)" and ?w1 = "w\<lparr>w_tick := w_tick w + 3\<rparr>"
  define s1 where "s1 = transitionMachineSnapshot ((assign_updates ?us ?c)
      \<lparr>s_status := ''complete'', s_resumable := False, s_stationExpressIntent := None,
       s_stationExpressReceiptRetirement := None, s_failure := None\<rparr>) Complete ?at"
  have m: "wf_machine env (s_sessionId n) (s_machine n)" using holdsD(2) [OF h] by (simp add: storable_def)
  have c: "storable env ?c" "plain ?c" using reloaded_storable [OF h] holdsD(3) [OF h] by simp_all
  have p1: "plain s1" by (simp add: s1_def plain_def)
  have st: "storable env s1"
    unfolding plain_storable [OF p1] using c receipt_entered [OF m] unfolding s1_def
    by (simp add: plain_storable wf_machine_transition assign_updates_fields filterSafeUpdates_valid m)
  obtain r w2 where sv: "saveSession env s1 ?w1 = (r, w2)" by (cases "saveSession env s1 ?w1")
  note sh = save_held [OF holdsD(1) [OF h] st p1 sv]
  have mut: "complete_mutator env ?us ?c (w\<lparr>w_tick := w_tick w + 2\<rparr>) =
      (Inr (s1, s_status ?c = ''complete'', None), ?w1)"
    using c(2) by (simp add: complete_mutator_def intent_receipt_def plain_def run_simps s1_def
        eval_nat_numeral)
  have run: "completeSession env u False w = (Inr (stored env (w_tick ?w1) s1), w2)"
    using load_held [OF h] mut sv sh by (simp add: completeSession_def update_with_def run_simps)
  have "ms_revision (s_machine s1) = ms_revision (s_machine n) + 1 \<and> ms_recoveryReceipt (s_machine s1) = None"
    if "ms_state (s_machine n) \<noteq> Complete"
    using that held_revision [OF h]
    by (simp add: s1_def transitionMachineSnapshot_def Let_def createMachineSnapshot_def)
  then show thesis
    by (intro that [OF run]) (use sh stored_wf [OF st] holdsD(1) [OF h] in
        \<open>simp_all add: s1_def sanitizeFailure_def\<close>)
qed

lemma complete_effect:
  assumes h: "holds env w n" and st: "ms_state (s_machine n) = PostVerify"
  obtains s w' es where "rt_complete env u md w = (Inr s, w')" "holds env w' s" "wf_session env s"
    "ms_state (s_machine s) = Complete" "ms_revision (s_machine s) = ms_revision (s_machine n) + 1"
    "ms_recoveryReceipt (s_machine s) = None" "s_status s = ''complete''" "\<not> s_resumable s"
    "s_sessionId s = s_sessionId n" "w_events w' = w_events w @ es"
    "map ev_type es = (if filterSafeUpdates env u = [] then [] else [ContextUpdated])
       @ [StateCompleted, StateEntered, OnboardCompleted]"
proof -
  let ?us = "filterSafeUpdates env u" and ?w1 = "w\<lparr>w_tick := w_tick w + 2\<rparr>"
  have h1: "holds env ?w1 n" using h by simp
  obtain tr where tr: "assertValidOnboardMachineTransition PostVerify Complete = Inr tr"
    using assert_valid_Inr_ex [of PostVerify Complete] by auto
  obtain s w2 where c: "completeSession env u False ?w1 = (Inr s, w2)" "holds env w2 s" "wf_session env s"
    "ms_state (s_machine s) = Complete" "s_status s = ''complete''" "\<not> s_resumable s"
    "s_sessionId s = s_sessionId n" "w_events w2 = w_events ?w1"
    "ms_revision (s_machine s) = ms_revision (s_machine n) + 1 \<and> ms_recoveryReceipt (s_machine s) = None"
    by (rule completeSession_effect [OF h1, of u]) (use st in \<open>auto\<close>)
  let ?t = "if ?us = [] then w_tick w2 else Suc (w_tick w2)"
  let ?es = "(if ?us = [] then [] else
        [rt_event env (w_tick w2) ContextUpdated s (Some Complete) None None (with_fields md ?us)])
      @ [rt_event env ?t StateCompleted s (Some PostVerify) None None md,
         rt_event env (Suc ?t) StateEntered s (Some Complete) None None md,
         rt_event env (Suc (Suc ?t)) OnboardCompleted s (Some Complete) None None md]"
  let ?w' = "w2\<lparr>w_tick := ?t + 3, w_events := w_events w @ ?es\<rparr>"
  have run: "rt_complete env u md w = (Inr s, ?w')"
    using ensure_held [OF h] st tr c(1,4,8)
    by (simp add: rt_complete_def run_simps eval_nat_numeral)
  show thesis
    by (rule that [OF run, of ?es]) (use c(2-9) in \<open>auto\<close>)
qed

section \<open>Applying a result\<close>

text \<open>What an applied result means for the machine.\<close>

definition moved :: "machine_state \<Rightarrow> session \<Rightarrow> session \<Rightarrow> bool" where
  "moved to n s =
     (canTransitionOnboardMachineState (ms_state (s_machine n)) to
      \<and> ms_state (s_machine s) = to \<and> ms_revision (s_machine s) = ms_revision (s_machine n) + 1
      \<and> ms_recoveryReceipt (s_machine s) = None)"

fun result_step :: "onboard_result \<Rightarrow> session \<Rightarrow> session \<Rightarrow> bool" where
  "result_step (PauseResult _ _) n s =
     (\<not> isTerminalOnboardMachineState (ms_state (s_machine n)) \<and> s_machine s = s_machine n)"
| "result_step (TransitionResult nxt _ _ _) n s = moved nxt n s"
| "result_step (CompleteResult _ _) n s = moved Complete n s"
| "result_step (FailedResult _ _ _) n s = moved Failed n s"

lemma check_result_state:
  "check_result c (TransitionResult nxt kind u md) = Inr () \<Longrightarrow>
     \<exists>tr. assertValidOnboardMachineTransition (ms_state (s_machine c)) nxt = Inr tr
          \<and> pred_option (\<lambda>k. tr_kind tr = k) kind
          \<and> assertOnboardNotInterrupted (ms_state (s_machine c)) nxt (interruption_of c) = Inr ()"
  by (auto simp: check_result_def Let_def pred_option_case split: sum.splits if_splits option.splits)

lemma check_result_complete:
  "check_result c (CompleteResult u md) = Inr () \<Longrightarrow> ms_state (s_machine c) = PostVerify"
  using assert_valid_Inr_ex [of "ms_state (s_machine c)" Complete]
  by (auto simp: check_result_def Let_def split: sum.splits)

lemma check_result_failed:
  "check_result c (FailedResult err step md) = Inr () \<Longrightarrow>
     \<not> isTerminalOnboardMachineState (ms_state (s_machine c))"
  using assert_valid_Inr_ex [of "ms_state (s_machine c)" Failed]
  by (auto simp: check_result_def Let_def split: sum.splits)

lemma apply_transition_effect:
  assumes h: "holds env w n" and tr: "assertValidOnboardMachineTransition (ms_state (s_machine n)) nxt = Inr tr"
    and kind: "pred_option (\<lambda>k. tr_kind tr = k) kind"
    and ok: "assertOnboardNotInterrupted (ms_state (s_machine n)) nxt
               (interruption_of (reloaded env (w_tick w) n)) = Inr ()"
  obtains s w' where "apply_transition env nxt kind u md w = (Inr s, w')" "holds env w' s"
    "wf_session env s" "moved nxt n s" "s_sessionId s = s_sessionId n"
proof -
  let ?w1 = "w\<lparr>w_tick := w_tick w + 2\<rparr>"
  have h1: "holds env ?w1 n" using h by simp
  have edge: "canTransitionOnboardMachineState (ms_state (s_machine n)) nxt"
    using tr assert_valid_Inr_ex by blast
  obtain m w2 where mid: "on_condition (has_safe_updates env u)
        (bind (updateContext env u (Some (ms_state (s_machine n))) md) (\<lambda>_. ret ())) ?w1 = (Inr (), w2)"
      "holds env w2 m" "s_machine m = s_machine n" "s_sessionId m = s_sessionId n"
  proof (cases "has_safe_updates env u")
    case True
    obtain s w2 es where "updateContext env u (Some (ms_state (s_machine n))) md ?w1 = (Inr s, w2)"
        "holds env w2 s" "s_machine s = s_machine n" "s_sessionId s = s_sessionId n"
      by (rule updateContext_effect [OF h1, of u "Some (ms_state (s_machine n))" md])
    with True that [of w2 s] show thesis by (simp add: on_condition_def bind_def)
  next
    case False
    with h1 that [of ?w1 n] show thesis by (simp add: on_condition_def)
  qed
  have "canTransitionOnboardMachineState (ms_state (s_machine m)) nxt" using edge mid(3) by simp
  then obtain s w3 where tr2: "rt_transition env nxt md w2 = (Inr s, w3)" "holds env w3 s" "wf_session env s"
      "ms_state (s_machine s) = nxt" "ms_revision (s_machine s) = ms_revision (s_machine m) + 1"
      "ms_recoveryReceipt (s_machine s) = None" "s_sessionId s = s_sessionId m"
    by (rule transition_effect [OF mid(2), of nxt md])
  have run: "apply_transition env nxt kind u md w = (Inr s, w3)"
    using ensure_held [OF h] tr kind ok mid(1) tr2(1)
    by (cases kind) (simp_all add: apply_transition_def bind_def Let_def)
  show thesis
    by (rule that [OF run]) (use tr2 mid edge in \<open>simp_all add: moved_def\<close>)
qed

lemma apply_pause_effect:
  assumes h: "holds env w n" and live: "\<not> isTerminalOnboardMachineState (ms_state (s_machine n))"
  obtains s w' m where "apply_pause env u md w = (Inr s, w')" "holds env w' m" "wf_session env s"
    "s_machine m = s_machine n" "s_machine s = s_machine n" "s_sessionId s = s_sessionId n"
proof (cases "has_safe_updates env u")
  case True
  let ?w1 = "w\<lparr>w_tick := w_tick w + 2\<rparr>"
  have h1: "holds env ?w1 n" using h by simp
  obtain s w2 es where "updateContext env u (Some (ms_state (s_machine n))) md ?w1 = (Inr s, w2)"
      "holds env w2 s" "wf_session env s" "s_machine s = s_machine n" "s_sessionId s = s_sessionId n"
    by (rule updateContext_effect [OF h1, of u "Some (ms_state (s_machine n))" md])
  with True live ensure_held [OF h] that [of s w2 s] show thesis
    by (simp add: apply_pause_def bind_def)
next
  case False
  have "wf_session env (reloaded env (w_tick w) n)"
    using current_wf [of env w] load_reloaded(2) [of env n w] h by (simp add: holds_def)
  with False live ensure_held [OF h] h that [of "reloaded env (w_tick w) n" "w\<lparr>w_tick := w_tick w + 2\<rparr>" n]
  show thesis by (simp add: apply_pause_def bind_def)
qed

lemma apply_effect:
  assumes h: "holds env w n" and run: "applyResult env r w = (x, w')"
  shows "(\<exists>e. x = Inl e \<and> holds env w' n \<and> w_events w' = w_events w)
       \<or> (\<exists>s m. x = Inr s \<and> holds env w' m \<and> wf_session env s \<and> result_step r n s
              \<and> s_machine m = s_machine s \<and> s_sessionId s = s_sessionId n)"
proof -
  let ?c = "reloaded env (w_tick w) n" and ?w1 = "w\<lparr>w_tick := w_tick w + 2\<rparr>"
  have chk: "assertResultWillApply env r w = (check_result ?c r, ?w1)"
    using ensure_held [OF h] by (simp add: assertResultWillApply_def bind_def)
  have h1: "holds env ?w1 n" using h by simp
  show ?thesis
  proof (cases "check_result ?c r")
    case (Inl e)
    with chk run h1 show ?thesis by (auto simp: applyResult_def bind_def)
  next
    case (Inr u)
    then have c: "check_result ?c r = Inr ()" by simp
    then have step: "applyResult env r w = (case r of
         PauseResult updates metadata \<Rightarrow> apply_pause env updates metadata
       | CompleteResult updates metadata \<Rightarrow> rt_complete env updates metadata
       | FailedResult err step metadata \<Rightarrow> rt_fail env err step metadata
       | TransitionResult nxt kind updates metadata \<Rightarrow>
           apply_transition env nxt kind updates metadata) ?w1"
      using chk by (simp add: applyResult_def bind_def)
    show ?thesis
    proof (cases r)
      case (TransitionResult nxt kind u md)
      obtain tr where tr: "assertValidOnboardMachineTransition (ms_state (s_machine n)) nxt = Inr tr"
          "pred_option (\<lambda>k. tr_kind tr = k) kind"
          "assertOnboardNotInterrupted (ms_state (s_machine n)) nxt (interruption_of ?c) = Inr ()"
        using check_result_state c TransitionResult by fastforce
      have live: "ms_state (s_machine n) \<noteq> Failed"
        using tr(1) assert_valid_Inr_ex terminal_no_transition terminal_iff by metis
      obtain s w2 where "apply_transition env nxt kind u md ?w1 = (Inr s, w2)" "holds env w2 s"
          "wf_session env s" "moved nxt n s" "s_sessionId s = s_sessionId n"
        by (rule apply_transition_effect [OF h1 tr(1,2)]) (use live in \<open>simp_all\<close>)
      with step run TransitionResult show ?thesis by auto
    next
      case (PauseResult u md)
      show ?thesis
      proof (cases "isTerminalOnboardMachineState (ms_state (s_machine n))")
        case True
        then have "apply_pause env u md ?w1 = (Inl (CannotPauseTerminal (ms_state (s_machine n))),
            w\<lparr>w_tick := w_tick w + 4\<rparr>)"
          using ensure_held [OF h1] by (auto simp: apply_pause_def bind_def)
        with step run PauseResult h show ?thesis by auto
      next
        case False
        obtain s w2 m where "apply_pause env u md ?w1 = (Inr s, w2)" "holds env w2 m" "wf_session env s"
            "s_machine m = s_machine n" "s_machine s = s_machine n" "s_sessionId s = s_sessionId n"
          by (rule apply_pause_effect [OF h1 False])
        with step run PauseResult False show ?thesis by auto
      qed
    next
      case (CompleteResult u md)
      have st: "ms_state (s_machine n) = PostVerify"
        using check_result_complete c CompleteResult by fastforce
      obtain s w2 where "rt_complete env u md ?w1 = (Inr s, w2)" "holds env w2 s" "wf_session env s"
          "ms_state (s_machine s) = Complete" "ms_revision (s_machine s) = ms_revision (s_machine n) + 1"
          "ms_recoveryReceipt (s_machine s) = None" "s_sessionId s = s_sessionId n"
        by (rule complete_effect [OF h1 st, of u md])
      with step run CompleteResult st show ?thesis by (auto simp: moved_def)
    next
      case (FailedResult err step' md)
      have live: "\<not> isTerminalOnboardMachineState (ms_state (s_machine n))"
        using check_result_failed c FailedResult by fastforce
      obtain s w2 where "rt_fail env err step' md ?w1 = (Inr s, w2)" "holds env w2 s" "wf_session env s"
          "ms_state (s_machine s) = Failed" "ms_revision (s_machine s) = ms_revision (s_machine n) + 1"
          "ms_recoveryReceipt (s_machine s) = None" "s_sessionId s = s_sessionId n"
        by (rule fail_effect [OF h1 live, of err step' md])
      with step run FailedResult live show ?thesis by (auto simp: moved_def)
    qed
  qed
qed

section \<open>The runtime as the runner sees it\<close>

lemma held_state:
  "holds env w n \<Longrightarrow> session_state (current_session env w) = ms_state (s_machine n)"
  using load_reloaded(2) [of env n w] by (simp add: holds_def session_state_def)

lemma result_step_edge:
  "result_step r n s \<Longrightarrow> \<not> pauses r \<Longrightarrow>
     canTransitionOnboardMachineState (ms_state (s_machine n)) (ms_state (s_machine s))"
  by (cases r) (auto simp: moved_def)

lemma result_step_pause:
  "result_step r n s \<Longrightarrow> pauses r \<Longrightarrow> s_machine s = s_machine n"
  by (cases r) auto

interpretation runtime: machine_runtime
  "\<lambda>w. \<exists>n. holds env w n" "\<lambda>w. session_state (current_session env w)"
  "ensureSession env" "applyResult env" for env
proof unfold_locales
  fix w x w' assume "\<exists>n. holds env w n" and run: "ensureSession env w = (x, w')"
  then obtain n where h: "holds env w n" by blast
  with run have "w' = w\<lparr>w_tick := w_tick w + 2\<rparr>" by (simp add: ensure_held)
  then have "holds env w' n" using h by simp
  then show "(\<exists>n. holds env w' n)
      \<and> session_state (current_session env w') = session_state (current_session env w)"
    using h held_state by auto
next
  fix w s w' assume "\<exists>n. holds env w n" and run: "ensureSession env w = (Inr s, w')"
  then obtain n where h: "holds env w n" by blast
  with run have "w' = w\<lparr>w_tick := w_tick w + 2\<rparr>" "s = reloaded env (w_tick w) n"
    by (auto simp: ensure_held)
  then show "session_state s = session_state (current_session env w')"
    using h held_state [of env w' n] by (simp add: session_state_def)
next
  fix w r s w' assume "\<exists>n. holds env w n" and run: "applyResult env r w = (Inr s, w')"
  then obtain n m where h: "holds env w n" and m: "holds env w' m" "result_step r n s"
      "s_machine m = s_machine s"
    using apply_effect by blast
  show "(\<exists>n. holds env w' n) \<and> session_state s = session_state (current_session env w')"
    using m held_state by (auto simp: session_state_def)
  show "pauses r \<Longrightarrow> session_state (current_session env w') = session_state (current_session env w)"
    using m h held_state result_step_pause by fastforce
  show "\<not> pauses r \<Longrightarrow> canTransitionOnboardMachineState
      (session_state (current_session env w)) (session_state (current_session env w'))"
    using m h held_state result_step_edge by fastforce
next
  fix w r e w' assume "\<exists>n. holds env w n" and run: "applyResult env r w = (Inl e, w')"
  then obtain n where "holds env w n" "holds env w' n" using apply_effect by blast
  then show "(\<exists>n. holds env w' n)
      \<and> (session_state (current_session env w') = session_state (current_session env w)
         \<or> canTransitionOnboardMachineState
              (session_state (current_session env w)) (session_state (current_session env w')))"
    using held_state by auto
qed

section \<open>The runtime never reports the transition limit\<close>

lemma avoids_store:
  "avoids e (loadSession env)" "avoids e (newSession env)" "avoids e (saveSession env s)" "avoids e (now env)"
  by (auto simp: avoids_def loadSession_def newSession_def saveSession_def now_def Let_def split: session_file.splits)

lemma avoids_emit: "avoids e (runtime_emit env ty s st step err md)"
  by (simp add: avoids_def runtime_emit_eq)

lemma avoids_ensure: "avoids e (ensureSession env)"
  unfolding ensureSession_def
  by (intro avoids_intros avoids_store) (auto split: option.splits intro!: avoids_intros avoids_store)

lemma avoids_load_or_new: "avoids e (load_or_new env)"
  by (simp add: avoids_def load_or_new_eq)

lemma avoids_update: "(\<And>s. avoids e (m s)) \<Longrightarrow> avoids e (updateSession env m)"
  unfolding updateSession_def by (intro avoids_intros avoids_store avoids_load_or_new)

lemma avoids_condition: "avoids e m \<Longrightarrow> avoids e (on_condition b m)"
  by (simp add: on_condition_def avoids_ret)

lemmas avoids_runtime = avoids_intros avoids_store avoids_emit avoids_ensure avoids_update avoids_condition

lemma graph_checks_no_limit:
  "assertValidOnboardMachineTransition f t \<noteq> Inl (OnboardMachineTransitionLimit n)"
  "assertOnboardNotInterrupted f t i \<noteq> Inl (OnboardMachineTransitionLimit n)"
  "check_result c r \<noteq> Inl (OnboardMachineTransitionLimit n)"
proof -
  show valid: "assertValidOnboardMachineTransition f t \<noteq> Inl (OnboardMachineTransitionLimit n)" for f t
    by (auto simp: assertValidOnboardMachineTransition_def split: option.splits)
  show inter: "assertOnboardNotInterrupted f t i \<noteq> Inl (OnboardMachineTransitionLimit n)" for f t i
    by (auto simp: assertOnboardNotInterrupted_def split: option.splits)
  show "check_result c r \<noteq> Inl (OnboardMachineTransitionLimit n)"
    by (cases r) (auto simp: check_result_def Let_def valid inter split: option.split sum.split)
qed

lemma retirement_no_limit:
  "avoids (OnboardMachineTransitionLimit n) (assertStationExpressInstallerResumeMatches g)"
  "avoids (OnboardMachineTransitionLimit n) (claim_receipt g)"
  "retirement_session g f \<noteq> Inl (OnboardMachineTransitionLimit n)"
  "avoids (OnboardMachineTransitionLimit n) m \<Longrightarrow> avoids (OnboardMachineTransitionLimit n) (with_retirement_lock m)"
  by (auto simp: avoids_def assertStationExpressInstallerResumeMatches_def claim_receipt_def retirement_session_def
      with_retirement_lock_def acquire_for_retirement_def bind_eq_Inl
      split: if_splits option.splits prod.splits installer_receipt.splits)

lemma avoids_emit_event: "avoids e (emit_event env s i)"
  by (simp add: avoids_def emit_event_eq)

lemma avoids_complete: "avoids (OnboardMachineTransitionLimit n) (completeSession env u b)"
  unfolding completeSession_def update_with_def complete_mutator_def Let_def case_prod_beta
    reconcileStationExpressReceiptRetirement_def
  by (auto intro!: avoids_runtime avoids_load_or_new avoids_emit_event retirement_no_limit
      split: option.splits)

lemma applyResult_no_limit: "avoids (OnboardMachineTransitionLimit n) (applyResult env r)"
  unfolding applyResult_def assertResultWillApply_def apply_pause_def rt_complete_def rt_fail_def
    apply_transition_def rt_transition_def updateContext_def complete_directly_def Let_def
  by (cases r) (auto intro!: avoids_runtime avoids_complete graph_checks_no_limit split: option.splits)

section \<open>The backstop on a held session\<close>

lemma finalize_held:
  assumes "holds env w c" "map_of (s_steps c) n = Some step"
    and "\<not> isTerminalOnboardMachineState (ms_state (s_machine c))"
  shows "\<exists>s w' e1 e2. finalizeIncompleteOnboardStep env n msg intr w = (Inr (Some s), w') \<and> holds env w' s
     \<and> wf_session env s \<and> ms_state (s_machine s) = Failed
     \<and> ms_revision (s_machine s) = ms_revision (s_machine c) + 1
     \<and> s_status s = ''failed'' \<and> map_option st_status (map_of (s_steps s) n) = Some StFailed
     \<and> w_events w' = w_events w @ [e1, e2] \<and> ev_type e1 = StateFailed \<and> ev_type e2 = OnboardFailed
     \<and> redacted_text env (ev_error e1) \<and> redacted_text env (ev_error e2)"
proof -
  note h = holdsD [OF assms(1)]
  obtain r w' where run: "finalizeIncompleteOnboardStep env n msg intr w = (r, w')" by fastforce
  obtain s e1 e2 where s: "r = Inr (Some s)" "wf_session env s" "plain s"
    "w_file w' = FileJson (json_persist (serializeSessionForDisk env s))"
    "ms_state (s_machine s) = Failed" "ms_revision (s_machine s) = ms_revision (s_machine c) + 1"
    "s_status s = ''failed''" "map_option st_status (map_of (s_steps s) n) = Some StFailed"
    "w_events w' = w_events w @ [e1, e2]" "ev_type e1 = StateFailed" "ev_type e2 = OnboardFailed"
    "redacted_text env (ev_error e1)" "redacted_text env (ev_error e2)"
    by (rule finalize_effect [OF h(1) h(4) h(2,3) assms(2,3) run])
  moreover have "holds env w' s" using s(2-4) h(1) by (simp add: holds_def wf_storable)
  ultimately show ?thesis using run by blast
qed

lemma finalize_twice:
  assumes "holds env w c" "map_of (s_steps c) n = Some step"
    and "\<not> isTerminalOnboardMachineState (ms_state (s_machine c))"
    and "finalizeIncompleteOnboardStep env n msg intr w = (Inr (Some s), w')"
  shows "\<exists>s2 w2. finalizeIncompleteOnboardStep env n2 msg2 intr2 w' = (Inr (Some s2), w2)
     \<and> w_file w2 = w_file w' \<and> w_events w2 = w_events w' \<and> s_machine s2 = s_machine s"
proof -
  have s: "holds env w' s" "ms_state (s_machine s) = Failed"
    using finalize_held [OF assms(1-3), of msg intr] assms(4) by auto
  have "loadSession env w' = (Inr (Some (reloaded env (w_tick w') s)), w'\<lparr>w_tick := w_tick w' + 2\<rparr>)"
    using load_reloaded(1) holdsD [OF s(1)] by blast
  then show ?thesis
    using finalize_noop [of env w' "reloaded env (w_tick w') s" _ n2 msg2 intr2] s(2) by simp
qed


section \<open>Runs of the generic runner\<close>

lemma runner_run:
  assumes h: "holds env w n" and opts: "ro_session opts = ensureSession env" "ro_applyResult opts = applyResult env"
    and quiet: "quiet (\<lambda>w. \<exists>n. holds env w n) (\<lambda>w. session_state (current_session env w)) opts"
  shows "\<exists>x w' ts. runOnboardMachine opts ctx w = (x, w') \<and> (\<exists>m. holds env w' m)
     \<and> run_from canTransitionOnboardMachineState (ms_state (s_machine n)) ts
     \<and> length ts \<le> normalizeMaxTransitions (ro_maxTransitions opts)
     \<and> session_state (current_session env w') = last (ms_state (s_machine n) # ts)
     \<and> (\<forall>c s. x = Inr (c, s) \<longrightarrow> session_state s = last (ms_state (s_machine n) # ts)
          \<and> (unpaused opts \<longrightarrow> at_rest opts s))
     \<and> (limitless (int (normalizeMaxTransitions (ro_maxTransitions opts))) opts
        \<and> x = Inl (OnboardMachineTransitionLimit (int (normalizeMaxTransitions (ro_maxTransitions opts))))
          \<longrightarrow> length ts = normalizeMaxTransitions (ro_maxTransitions opts))"
proof -
  let ?limit = "normalizeMaxTransitions (ro_maxTransitions opts)"
  let ?w1 = "w\<lparr>w_tick := w_tick w + 2\<rparr>" and ?s = "reloaded env (w_tick w) n"
  obtain x w' where run: "run_loop opts ?limit ctx ?s 0 ?w1 = (x, w')"
    by (cases "run_loop opts ?limit ctx ?s 0 ?w1")
  have h1: "holds env ?w1 n" using h by simp
  have st: "session_state ?s = session_state (current_session env ?w1)"
    using held_state [OF h1] by (simp add: session_state_def)
  obtain ts where ts: "runtime.path env ?w1 ts w'" "length ts \<le> ?limit"
      "runtime.run_outcome env opts ?limit 0 w' ts x"
    using runtime.run_loop_path [OF opts(2) quiet _ st _ run] h1 by auto
  have path: "\<exists>m. holds env w' m" "run_from canTransitionOnboardMachineState (ms_state (s_machine n)) ts"
      "session_state (current_session env w') = last (ms_state (s_machine n) # ts)"
    using ts(1) held_state [OF h1] unfolding runtime.path_def by auto
  have "runOnboardMachine opts ctx w = (x, w')"
    using ensure_held [OF h] run opts(1) by (simp add: runOnboardMachine_def bind_def)
  moreover have "\<forall>c s. x = Inr (c, s) \<longrightarrow> session_state s = last (ms_state (s_machine n) # ts)
      \<and> (unpaused opts \<longrightarrow> at_rest opts s)"
    using ts(3) path(3) by auto
  moreover have "limitless (int ?limit) opts \<and> x = Inl (OnboardMachineTransitionLimit (int ?limit))
      \<longrightarrow> length ts = ?limit"
    using ts(3) by auto
  ultimately show ?thesis using path ts(2) by blast
qed

end
