(* ===== verification/Flow_Facts.thy ===== *)
theory Flow_Facts
  imports Onboard_Flow Runtime_Facts "HOL-Library.Multiset"
begin

text \<open>
  Where a slice of the onboarding flow may leave the machine. The locale \<open>flow_runtime\<close> extends
  \<open>machine_runtime\<close> by the recorder of repair events; the sequence adapter runs the machine beside
  the pending context, and the sublocale \<open>pair\<close> says that this is a runtime as well. At the end the
  locale is interpreted on the persistent runtime with its own repair events.
\<close>

section \<open>Actions that leave the machine in place\<close>

lemma leaves_ret: "leaves_machine okay st (ret a)"
  by (simp add: leaves_machine_def)

lemma leaves_throw: "leaves_machine okay st (throw e)"
  by (simp add: leaves_machine_def)

lemma leaves_lift: "leaves_machine okay st (lift_res r)"
  by (simp add: leaves_machine_def)

lemma leaves_bind:
  assumes "leaves_machine okay st m" "\<And>a. leaves_machine okay st (f a)"
  shows "leaves_machine okay st (bind m f)"
  unfolding leaves_machine_def
proof (intro allI impI)
  fix w x w' assume w: "okay w" and run: "bind m f w = (x, w')"
  obtain y w1 where y: "m w = (y, w1)" by fastforce
  then have "okay w1" "st w1 = st w" using assms(1) w by (auto simp: leaves_machine_def)
  then show "okay w' \<and> st w' = st w"
    using run y assms(2) by (cases y) (auto simp: bind_def leaves_machine_def)
qed

lemma leaves_catch:
  assumes "leaves_machine okay st m" "\<And>e. leaves_machine okay st (f e)"
  shows "leaves_machine okay st (catch_error m f)"
  unfolding leaves_machine_def
proof (intro allI impI)
  fix w x w' assume w: "okay w" and run: "catch_error m f w = (x, w')"
  obtain y w1 where y: "m w = (y, w1)" by fastforce
  then have "okay w1" "st w1 = st w" using assms(1) w by (auto simp: leaves_machine_def)
  then show "okay w' \<and> st w' = st w"
    using run y assms(2) by (cases y) (auto simp: catch_error_def leaves_machine_def)
qed

lemmas leaves_intros = leaves_ret leaves_throw leaves_lift leaves_bind leaves_catch

lemma leavesD:
  "leaves_machine okay st m \<Longrightarrow> okay w \<Longrightarrow> m w = (x, w') \<Longrightarrow> okay w' \<and> st w' = st w"
  by (auto simp: leaves_machine_def)

definition quiet_phase ::
  "('w \<Rightarrow> bool) \<Rightarrow> ('w \<Rightarrow> machine_state) \<Rightarrow> ('c, 'w) sequence_phase \<Rightarrow> bool" where
  "quiet_phase okay st phase = (\<forall>ctx. leaves_machine okay st (ph_run phase ctx))"

lemma quiet_phaseD:
  "quiet_phase okay st phase \<Longrightarrow> okay w \<Longrightarrow> ph_run phase ctx w = (x, w') \<Longrightarrow> okay w' \<and> st w' = st w"
  by (auto simp: quiet_phase_def leaves_machine_def)

definition unpaused_phase :: "('c, 'w) sequence_phase \<Rightarrow> bool" where
  "unpaused_phase phase =
     (\<forall>ctx w ctx' rs w'. ph_run phase ctx w = (Inr (ctx', rs), w') \<longrightarrow> list_all (\<lambda>r. \<not> pauses r) rs)"

lemma unpaused_ret:
  "list_all (\<lambda>r. \<not> pauses r) rs \<Longrightarrow> unpaused_phase \<lparr>ph_state = st, ph_run = (\<lambda>ctx. ret (f ctx, rs))\<rparr>"
  by (simp add: unpaused_phase_def)

lemma quiet_ret: "quiet_phase okay state_of \<lparr>ph_state = st, ph_run = (\<lambda>ctx. ret (f ctx, rs))\<rparr>"
  by (simp add: quiet_phase_def leaves_ret)

section \<open>Handlers built from phases\<close>

lemma add_phases_distinct:
  "(\<exists>hs'. add_phases hs phases = Inr hs') \<longleftrightarrow>
     distinct (map ph_state phases) \<and> (\<forall>p\<in>set phases. hs (ph_state p) = None)"
proof (induction phases arbitrary: hs)
  case (Cons p phases)
  show ?case
  proof (cases "hs (ph_state p) = None")
    case True
    then have step: "add_phases hs (p # phases) = add_phases (hs(ph_state p \<mapsto> phase_handler p)) phases"
      by simp
    have "(\<exists>hs'. add_phases hs (p # phases) = Inr hs') \<longleftrightarrow> distinct (map ph_state phases)
        \<and> (\<forall>q\<in>set phases. (hs(ph_state p \<mapsto> phase_handler p)) (ph_state q) = None)"
      unfolding step by (rule Cons.IH)
    also have "\<dots> \<longleftrightarrow> distinct (map ph_state (p # phases))
        \<and> (\<forall>q\<in>set (p # phases). hs (ph_state q) = None)"
      using True by (auto simp: image_iff eq_commute [of "ph_state p"] split: if_splits)
    finally show ?thesis .
  qed auto
qed simp

lemma add_phases_handler:
  "add_phases hs phases = Inr hs' \<Longrightarrow> hs' st = Some h \<Longrightarrow>
     hs st = Some h \<or> (\<exists>p\<in>set phases. ph_state p = st \<and> h = phase_handler p)"
  by (induction hs phases rule: add_phases.induct) (auto split: if_splits)

lemma built_handler:
  "buildOnboardSequenceHandlers phases = Inr hs \<Longrightarrow> hs st = Some h \<Longrightarrow>
     \<exists>p\<in>set phases. ph_state p = st \<and> h = phase_handler p"
  unfolding buildOnboardSequenceHandlers_def using add_phases_handler by fastforce

lemma beside_eq: "beside m (w, p) = (x, wp) \<longleftrightarrow> m w = (x, fst wp) \<and> snd wp = p"
  by (cases wp) (auto simp: beside_def split: prod.splits)

lemma phase_handler_run:
  "phase_handler p ctx (w, c) = (x, wp) \<Longrightarrow>
     \<exists>y. ph_run p ctx w = (y, fst wp)
         \<and> (case x of Inl e \<Rightarrow> y = Inl e | Inr rs \<Rightarrow> \<exists>c'. y = Inr (c', rs))"
  by (auto simp: phase_handler_def bind_def beside_def split: prod.splits sum.splits)

section \<open>Repairs\<close>

text \<open>Validated repair results walk the transition graph and carry no updates.\<close>

lemma repair_result_next_edge:
  "repair_result_next ph st r = Inr nxt \<Longrightarrow>
     canTransitionOnboardMachineState st nxt \<and> rs_updates r = JUndef \<and> \<not> pauses r
     \<and> (\<exists>k md. r = TransitionResult nxt (Some k) JUndef md)"
  using assert_valid_Inr_ex [of st nxt]
  by (auto simp: repair_result_next_def split: onboard_result.splits if_splits sum.splits)

lemma repair_results_path:
  "repair_results_end ph st rs = Inr fin \<Longrightarrow>
     run_from canTransitionOnboardMachineState st (map rs_next rs) \<and> last (st # map rs_next rs) = fin
     \<and> list_all (\<lambda>r. rs_updates r = JUndef) rs"
proof (induction ph st rs rule: repair_results_end.induct)
  case (2 ph st r rs)
  obtain nxt where n: "repair_result_next ph st r = Inr nxt" "repair_results_end ph nxt rs = Inr fin"
    using "2.prems" by (auto split: sum.splits)
  obtain k md where "r = TransitionResult nxt (Some k) JUndef md"
      "canTransitionOnboardMachineState st nxt"
    using repair_result_next_edge [OF n(1)] by blast
  with "2.IH" [OF n] show ?case by auto
qed simp

section \<open>The flow over a runtime\<close>

locale flow_runtime = machine_runtime okay state_of sess app
  for okay :: "'w \<Rightarrow> bool" and state_of and sess and app +
  fixes record_event :: "'w repair_recorder"
  assumes record_quiet: "leaves_machine okay state_of (record_event ev st err md)"
begin

definition port :: "'w runner_runtime" where
  "port = \<lparr>rr_session = sess, rr_applyResult = app\<rparr>"

lemma port_sel [simp]: "rr_session port = sess" "rr_applyResult port = app"
  by (simp_all add: port_def)

lemma sess_leaves: "leaves_machine okay state_of sess"
  using sess_quiet by (auto simp: leaves_machine_def)

end

sublocale flow_runtime \<subseteq> pair: machine_runtime
  "\<lambda>wp. okay (fst wp)" "\<lambda>wp. state_of (fst wp)" "beside sess" "\<lambda>r. beside (app r)"
proof unfold_locales
  fix wp :: "'w \<times> 'c" and x wp' assume "okay (fst wp)" "beside sess wp = (x, wp')"
  then show "okay (fst wp') \<and> state_of (fst wp') = state_of (fst wp)"
    using sess_quiet by (cases wp) (auto simp: beside_eq)
next
  fix wp :: "'w \<times> 'c" and s wp' assume "okay (fst wp)" "beside sess wp = (Inr s, wp')"
  then show "session_state s = state_of (fst wp')"
    using sess_state by (cases wp) (auto simp: beside_eq)
next
  fix wp :: "'w \<times> 'c" and r s wp' assume a: "okay (fst wp)" "beside (app r) wp = (Inr s, wp')"
  then have run: "app r (fst wp) = (Inr s, fst wp')" by (cases wp) (auto simp: beside_eq)
  show "okay (fst wp') \<and> session_state s = state_of (fst wp')"
    using app_state [OF a(1) run] .
  show "pauses r \<Longrightarrow> state_of (fst wp') = state_of (fst wp)"
    using app_pause [OF a(1) run] .
  show "\<not> pauses r \<Longrightarrow> canTransitionOnboardMachineState (state_of (fst wp)) (state_of (fst wp'))"
    using app_edge [OF a(1) run] .
next
  fix wp :: "'w \<times> 'c" and r e wp' assume a: "okay (fst wp)" "beside (app r) wp = (Inl e, wp')"
  then have run: "app r (fst wp) = (Inl e, fst wp')" by (cases wp) (auto simp: beside_eq)
  show "okay (fst wp') \<and> (state_of (fst wp') = state_of (fst wp)
      \<or> canTransitionOnboardMachineState (state_of (fst wp)) (state_of (fst wp')))"
    using app_error [OF a(1) run] .
qed

context flow_runtime
begin

text \<open>
  Where a run of the adapter ends: the path it took, the session it returns, and, when no phase
  pauses, a terminal state or one of the stop states.
\<close>

definition ran :: "machine_state list \<Rightarrow> bool \<Rightarrow> 'w \<Rightarrow> onboard_error + 'c \<times> session \<Rightarrow> 'w \<Rightarrow> bool" where
  "ran stops steady w x w' =
     (\<exists>ts. path w ts w' \<and> length ts \<le> DEFAULT_MAX_TRANSITIONS
        \<and> (\<forall>c s. x = Inr (c, s) \<longrightarrow> session_state s = state_of w'
             \<and> (steady \<longrightarrow> isTerminalOnboardMachineState (state_of w') \<or> state_of w' \<in> set stops)))"

lemma sequence_quiet:
  assumes "buildOnboardSequenceHandlers phases = Inr hs" "\<forall>p\<in>set phases. quiet_phase okay state_of p"
  shows "quiet (\<lambda>wp. okay (fst wp)) (\<lambda>wp. state_of (fst wp)) (sequence_runner port so hs)"
  unfolding quiet_def
proof (intro conjI allI impI)
  fix st h ctx assume "ro_handlers (sequence_runner port so hs) st = Some h"
  then obtain p where p: "p \<in> set phases" "h = phase_handler p"
    using built_handler [OF assms(1)] by (auto simp: sequence_runner_def)
  then have "leaves_machine okay state_of (ph_run p ctx)" using assms(2) by (simp add: quiet_phase_def)
  then show "leaves_machine (\<lambda>wp. okay (fst wp)) (\<lambda>wp. state_of (fst wp)) (h ctx)"
    unfolding p(2) leaves_machine_def by (metis phase_handler_run prod.collapse)
qed (auto simp: sequence_runner_def leaves_machine_def)

lemma sequence_unpaused:
  assumes "buildOnboardSequenceHandlers phases = Inr hs" "\<forall>p\<in>set phases. unpaused_phase p"
  shows "unpaused (sequence_runner rt so hs)"
  unfolding unpaused_def
proof (intro allI impI)
  fix st h ctx wp rs wp'
  assume "ro_handlers (sequence_runner rt so hs) st = Some h" and run: "h ctx wp = (Inr rs, wp')"
  then obtain p where p: "p \<in> set phases" "h = phase_handler p"
    using built_handler [OF assms(1)] by (auto simp: sequence_runner_def)
  then obtain c' where "ph_run p ctx (fst wp) = (Inr (c', rs), fst wp')"
    using run phase_handler_run [of p ctx "fst wp" "snd wp" "Inr rs" wp'] by auto
  then show "list_all (\<lambda>r. \<not> pauses r) rs" using assms(2) p(1) unfolding unpaused_phase_def by blast
qed

lemma sequence_ran:
  assumes "okay w" "\<forall>p\<in>set phases. quiet_phase okay state_of p" "so_maxTransitions so = None"
    and run: "runOnboardSequenceWithRunner port so phases ctx w = (x, w')"
  shows "ran (so_stopStates so) (\<forall>p\<in>set phases. unpaused_phase p) w x w'"
proof (cases "buildOnboardSequenceHandlers phases")
  case (Inl e)
  then show ?thesis
    using run assms(1) by (auto simp: runOnboardSequenceWithRunner_def ran_def intro!: exI [of _ "[]"] path_refl)
next
  case (Inr hs)
  let ?opts = "sequence_runner port so hs"
  obtain wp where m: "runOnboardMachine ?opts ctx (w, ctx) = (x, wp)" and w': "w' = fst wp"
    using run Inr by (auto simp: runOnboardSequenceWithRunner_def split: prod.splits)
  obtain y wp1 where y: "beside sess (w, ctx) = (y, wp1)" by (cases "beside sess (w, ctx)")
  have wp1: "okay (fst wp1)" "state_of (fst wp1) = state_of w"
    using pair.sess_quiet [of "(w, ctx)"] y assms(1) by auto
  have sel: "ro_session ?opts = beside sess" "ro_applyResult ?opts = (\<lambda>r. beside (app r))"
    "normalizeMaxTransitions (ro_maxTransitions ?opts) = DEFAULT_MAX_TRANSITIONS"
    using assms(3) by (simp_all add: sequence_runner_def normalizeMaxTransitions_def)
  show ?thesis
  proof (cases y)
    case (Inl e)
    then show ?thesis
      using m y wp1 w' sel by (auto simp: runOnboardMachine_def bind_def ran_def intro!: exI [of _ "[]"] path_refl)
  next
    case s: (Inr s)
    have st: "session_state s = state_of (fst wp1)"
      using pair.sess_state [of "(w, ctx)"] y s assms(1) by auto
    have go: "run_loop ?opts DEFAULT_MAX_TRANSITIONS ctx s 0 wp1 = (x, wp)"
      using m y s sel by (simp add: runOnboardMachine_def bind_def)
    obtain ts where ts: "pair.path wp1 ts wp" "length ts \<le> DEFAULT_MAX_TRANSITIONS"
        "pair.run_outcome ?opts DEFAULT_MAX_TRANSITIONS 0 wp ts x"
      using pair.run_loop_path [OF sel(2) sequence_quiet [OF Inr assms(2)] wp1(1) st _ go] by auto
    have "path w ts w'" using ts(1) wp1 w' by (simp add: path_def pair.path_def)
    moreover have "session_state s' = state_of w' \<and> ((\<forall>p\<in>set phases. unpaused_phase p) \<longrightarrow>
        isTerminalOnboardMachineState (state_of w') \<or> state_of w' \<in> set (so_stopStates so))"
      if "x = Inr (c, s')" for c s'
      using ts(3) that w' sequence_unpaused [OF Inr, of port so]
      by (auto simp: at_rest_def sequence_runner_def)
    ultimately show ?thesis using ts(2) unfolding ran_def by blast
  qed
qed

lemma repair_leaves:
  "quiet_phase okay state_of phase \<Longrightarrow>
     leaves_machine okay state_of (runOnboardPrerequisiteRepair port record_event repair st phase ex ctx)"
  unfolding runOnboardPrerequisiteRepair_def Let_def port_sel case_prod_beta quiet_phase_def
  by (intro leaves_intros) (auto intro!: leaves_intros sess_leaves record_quiet)

lemma repaired:
  assumes "okay w" "quiet_phase okay state_of phase"
    and run: "runOnboardPrerequisiteRepair port record_event repair st phase ex ctx w = (Inr (c, rs, fin), w')"
  shows "okay w'" "state_of w' = state_of w" "state_of w = st" "fin \<in> set ex"
    "repair_results_end (ph_state phase) (ph_state phase) rs = Inr fin"
proof -
  let ?md = "repair_metadata repair st"
  show w': "okay w'" "state_of w' = state_of w"
    using leavesD [OF repair_leaves [OF assms(2)] assms(1) run] by auto
  obtain w1 w2 w3 s where r: "record_event RepairStarted (ph_state phase) None ?md w = (Inr (), w1)"
      "ph_run phase ctx w1 = (Inr (c, rs), w2)" "sess w2 = (Inr s, w3)" "session_state s = st"
      "validateRepairResults rs (ph_state phase) ex = Inr fin"
    using run by (auto simp: runOnboardPrerequisiteRepair_def catch_error_def resultArray_def Let_def
        split: sum.splits prod.splits if_splits elim!: bind_InrE)
  have w1: "okay w1" "state_of w1 = state_of w" using leavesD [OF record_quiet assms(1) r(1)] by auto
  have w2: "okay w2" "state_of w2 = state_of w1"
    using quiet_phaseD [OF assms(2) w1(1) r(2)] by auto
  show "state_of w = st" using sess_state [OF w2(1) r(3)] sess_quiet [OF w2(1) r(3)] w1 w2 r(4) by simp
  show "fin \<in> set ex" "repair_results_end (ph_state phase) (ph_state phase) rs = Inr fin"
    using r(5) by (auto simp: validateRepairResults_def split: sum.splits if_splits)
qed

text \<open>What each slice leaves behind when it returns.\<close>

definition settled ::
  "machine_state set \<Rightarrow> machine_state list \<Rightarrow> bool \<Rightarrow> 'w \<Rightarrow> session \<Rightarrow> 'w \<Rightarrow> bool" where
  "settled entries stops steady w s w' =
     (okay w' \<and> session_state s = state_of w'
      \<and> (state_of w \<notin> entries \<longrightarrow> state_of w' = state_of w)
      \<and> (steady \<longrightarrow> state_of w \<in> entries \<longrightarrow>
           isTerminalOnboardMachineState (state_of w') \<or> state_of w' \<in> set stops))"

lemma ran_settled:
  "ran stops steady w (Inr (c, s)) w' \<Longrightarrow> state_of w \<in> entries \<Longrightarrow> settled entries stops steady w s w'"
  by (auto simp: ran_def settled_def path_def)

lemma sess_settled:
  "okay w1 \<Longrightarrow> state_of w1 = state_of w \<Longrightarrow> state_of w \<notin> entries \<Longrightarrow> sess w1 = (Inr s, w') \<Longrightarrow>
     settled entries stops steady w s w'"
  using sess_quiet [of w1 "Inr s" w'] sess_state [of w1 s w'] by (auto simp: settled_def)

lemma settled_start:
  "settled entries stops steady w1 s w' \<Longrightarrow> state_of w1 = state_of w \<Longrightarrow> settled entries stops steady w s w'"
  by (simp add: settled_def)

lemma initial_sequence_settled:
  assumes "okay w" "state_of w \<in> entries" "\<forall>p\<in>set phases. quiet_phase okay state_of p"
    and run: "runInitialOnboardFlowSequence port phases ctx w = (Inr (c, s), w')"
  shows "settled entries [ProviderSelection] (\<forall>p\<in>set phases. unpaused_phase p) w s w'"
proof -
  let ?ps = "initialOnboardFlowPhases phases"
  have "\<forall>p\<in>set ?ps. quiet_phase okay state_of p"
    using assms(3) by (auto simp: initialOnboardFlowPhases_def intro!: quiet_ret)
  then have "ran [ProviderSelection] (\<forall>p\<in>set ?ps. unpaused_phase p) w (Inr (c, s)) w'"
    using sequence_ran [OF assms(1) _ _ run [unfolded runInitialOnboardFlowSequence_def]]
    by (simp add: stopping_at_def)
  then have "settled entries [ProviderSelection] (\<forall>p\<in>set ?ps. unpaused_phase p) w s w'"
    using assms(2) by (rule ran_settled)
  moreover have "(\<forall>p\<in>set phases. unpaused_phase p) \<Longrightarrow> \<forall>p\<in>set ?ps. unpaused_phase p"
    by (auto simp: initialOnboardFlowPhases_def advanceTo_def transitionTo_def intro!: unpaused_ret)
  ultimately show ?thesis by (auto simp: settled_def)
qed

lemma initial_repairs_settled:
  assumes w: "okay w" and quiet: "\<forall>p\<in>set phases. quiet_phase okay state_of p"
    and pg: "quiet_phase okay state_of p" "quiet_phase okay state_of g"
    and run: "repair_initial_prerequisites port record_event phases (state_of w) p g ctx w = (Inr (c, s), w')"
    and ahead: "state_of w \<noteq> Init" "state_of w \<noteq> Preflight"
  shows "settled {Init, Preflight, Gateway} [ProviderSelection] (\<forall>p\<in>set phases. unpaused_phase p) w s w'"
proof -
  let ?name = "''initial-flow-prerequisite''"
  obtain c1 rs1 f1 w1 where r1: "runOnboardPrerequisiteRepair port record_event ?name (state_of w) p [Gateway]
      ctx w = (Inr (c1, rs1, f1), w1)"
    using run by (auto simp: repair_initial_prerequisites_def elim!: bind_InrE)
  note w1 = repaired [OF w pg(1) r1]
  show ?thesis
  proof (cases "state_of w = Gateway")
    case True
    then have "runInitialOnboardFlowSequence port phases c1 w1 = (Inr (c, s), w')"
      using run r1 by (simp add: repair_initial_prerequisites_def)
    from initial_sequence_settled [OF w1(1) _ quiet this, of "{Init, Preflight, Gateway}"] True w1(2)
    show ?thesis by (auto intro: settled_start)
  next
    case False
    then obtain c2 rs2 f2 w2 where r2: "runOnboardPrerequisiteRepair port record_event ?name (state_of w) g
        [ProviderSelection] c1 w1 = (Inr (c2, rs2, f2), w2)" "sess w2 = (Inr s, w')"
      using run r1 by (auto simp: repair_initial_prerequisites_def elim!: bind_InrE)
    note w2 = repaired [OF w1(1) pg(2) r2(1)]
    show ?thesis using sess_settled [OF w2(1) _ _ r2(2), of w] w1(2) w2(2) False ahead by auto
  qed
qed

lemma initial_slice_settled:
  assumes w: "okay w" and quiet: "\<forall>p\<in>set phases. quiet_phase okay state_of p"
    and run: "runInitialOnboardFlowSlice port record_event phases resume ctx w = (Inr (c, s), w')"
  shows "state_of w \<in> set (initial_allowed_states resume)
     \<and> settled {Init, Preflight, Gateway} [ProviderSelection] (\<forall>p\<in>set phases. unpaused_phase p) w s w'"
proof -
  let ?steady = "\<forall>p\<in>set phases. unpaused_phase p" and ?es = "{Init, Preflight, Gateway}"
  obtain e w1 where e: "sess w = (Inr e, w1)" "session_state e \<in> set (initial_allowed_states resume)"
    using run by (auto simp: runInitialOnboardFlowSlice_def Let_def split: if_splits elim!: bind_InrE)
  have w1: "okay w1" "state_of w1 = state_of w" "session_state e = state_of w"
    using sess_quiet [OF w e(1)] sess_state [OF w e(1)] by auto
  show ?thesis
  proof (cases "state_of w = Init \<or> state_of w = Preflight")
    case True
    then have "runInitialOnboardFlowSequence port phases ctx w1 = (Inr (c, s), w')"
      using run e w1 by (auto simp: runInitialOnboardFlowSlice_def Let_def)
    then have "settled ?es [ProviderSelection] ?steady w1 s w'"
      using initial_sequence_settled [OF w1(1) _ quiet, of ?es] True w1(2) by auto
    then show ?thesis using e(2) w1 by (auto intro: settled_start)
  next
    case False
    obtain p g where p: "phase_for Preflight phases = Some p" "phase_for Gateway phases = Some g"
        "repair_initial_prerequisites port record_event phases (state_of w) p g ctx w1 = (Inr (c, s), w')"
      using run e w1 False
      by (auto simp: runInitialOnboardFlowSlice_def Let_def split: option.splits if_splits)
    have pg: "quiet_phase okay state_of p" "quiet_phase okay state_of g"
      using p(1,2) quiet by (auto simp: phase_for_def find_Some_iff)
    show ?thesis using e(2) w1 initial_repairs_settled [OF w1(1) quiet pg p(3)[folded w1(2)]] False
      by (auto intro: settled_start)
  qed
qed

lemma sequence_settled:
  assumes "okay w" "\<forall>p\<in>set phases. quiet_phase okay state_of p" "state_of w \<in> entries"
    and "runOnboardSequenceWithRunner port (stopping_at stops) phases ctx w = (Inr (c, s), w')"
    and "steady \<Longrightarrow> \<forall>p\<in>set phases. unpaused_phase p"
  shows "settled entries stops steady w s w'"
  using ran_settled [OF sequence_ran [OF assms(1,2) _ assms(4)] assms(3)] assms(5)
  by (auto simp: stopping_at_def settled_def)

lemma core_repaired_settled:
  fixes sandbox :: "('c, 'w) sequence_phase"
  assumes w: "okay w" and quiet: "quiet_phase okay state_of sandbox"
    and run: "core_after_provider_repair port record_event sandbox (state_of w) (ctx, results, fin) w
      = (Inr (c, s), w')"
    and entry: "state_of w \<noteq> ProviderSelection" and steady: "steady \<Longrightarrow> unpaused_phase sandbox"
  shows "settled {ProviderSelection, Inference, Sandbox} [Openclaw, AgentSetup] steady w s w'"
proof -
  consider (inference) "state_of w = Inference" | (sandbox) "state_of w = Sandbox"
    | (ahead) "state_of w \<notin> {Inference, Sandbox}" by auto
  then show ?thesis
  proof cases
    case inference
    then obtain r where r: "List.find is_inference_result (rev results) = Some r"
        "runOnboardSequenceWithRunner port (stopping_at [Openclaw, AgentSetup])
           [\<lparr>ph_state = Inference, ph_run = (\<lambda>_. ret (ctx, [r]))\<rparr>, sandbox] ctx w = (Inr (c, s), w')"
      using run by (auto simp: core_after_provider_repair_def split: option.splits)
    have "is_inference_result r" using r(1) by (auto simp: find_Some_iff)
    then have "\<not> pauses r" by (cases r) (auto simp: is_inference_result_def)
    then show ?thesis using inference steady quiet
      by (intro sequence_settled [OF w _ _ r(2)]) (auto intro!: quiet_ret unpaused_ret)
  next
    case sandbox
    then have "runOnboardSequenceWithRunner port (stopping_at [Openclaw, AgentSetup]) [sandbox] ctx w
        = (Inr (c, s), w')"
      using run by (simp add: core_after_provider_repair_def)
    then show ?thesis using sandbox steady quiet by (intro sequence_settled [OF w]) auto
  next
    case ahead
    then obtain c2 rs2 f2 w2 where r2: "runOnboardPrerequisiteRepair port record_event
        ''core-flow-prerequisite'' (state_of w) sandbox [Openclaw, AgentSetup] ctx w = (Inr (c2, rs2, f2), w2)"
        "sess w2 = (Inr s, w')"
      using run by (auto simp: core_after_provider_repair_def split: if_splits elim!: bind_InrE)
    note w2 = repaired [OF w quiet r2(1)]
    show ?thesis using sess_settled [OF w2(1,2) _ r2(2)] ahead entry by auto
  qed
qed

lemma core_slice_settled:
  fixes provider sandbox :: "('c, 'w) sequence_phase"
  assumes w: "okay w" and quiet: "quiet_phase okay state_of provider" "quiet_phase okay state_of sandbox"
    and run: "runCoreOnboardFlowSlice port record_event provider sandbox resume ctx w = (Inr (c, s), w')"
  shows "state_of w \<in> set (core_allowed_states resume)
     \<and> settled {ProviderSelection, Inference, Sandbox} [Openclaw, AgentSetup]
          (unpaused_phase provider \<and> unpaused_phase sandbox) w s w'"
proof -
  obtain e w1 where e: "sess w = (Inr e, w1)" "session_state e \<in> set (core_allowed_states resume)"
    using run by (auto simp: runCoreOnboardFlowSlice_def Let_def split: if_splits elim!: bind_InrE)
  have w1: "okay w1" "state_of w1 = state_of w" "session_state e = state_of w"
    using sess_quiet [OF w e(1)] sess_state [OF w e(1)] by auto
  have "settled {ProviderSelection, Inference, Sandbox} [Openclaw, AgentSetup]
          (unpaused_phase provider \<and> unpaused_phase sandbox) w1 s w'"
  proof (cases "state_of w = ProviderSelection")
    case True
    then have "runOnboardSequenceWithRunner port (stopping_at [Openclaw, AgentSetup])
        (coreOnboardFlowPhases [provider, sandbox]) ctx w1 = (Inr (c, s), w')"
      using run e w1 by (simp add: runCoreOnboardFlowSlice_def runCoreOnboardFlowSequence_def Let_def)
    then show ?thesis using quiet True w1
      by (intro sequence_settled [OF w1(1)]) (auto simp: coreOnboardFlowPhases_def split: if_splits)
  next
    case False
    obtain c1 rs1 f1 w2 where r: "runOnboardPrerequisiteRepair port record_event
        ''core-flow-prerequisite'' (state_of w) provider [Sandbox] ctx w1 = (Inr (c1, rs1, f1), w2)"
        "core_after_provider_repair port record_event sandbox (state_of w) (c1, rs1, f1) w2 = (Inr (c, s), w')"
      using run e w1 False by (auto simp: runCoreOnboardFlowSlice_def Let_def elim!: bind_InrE)
    note w2 = repaired [OF w1(1) quiet(1) r(1)]
    have st: "state_of w2 = state_of w" using w2(2) w1(2) by simp
    show ?thesis
      using core_repaired_settled [OF w2(1) quiet(2) r(2) [folded st],
          of "unpaused_phase provider \<and> unpaused_phase sandbox"] False st w1(2)
      by (auto intro: settled_start)
  qed
  then show ?thesis using e(2) w1 by (auto intro: settled_start)
qed

definition quiet_callbacks :: "('c, 'w) final_callbacks \<Rightarrow> bool" where
  "quiet_callbacks cb =
     (fc_record cb = record_event
      \<and> (\<forall>f. fc_afterPoliciesReady cb = Some f \<longrightarrow> leaves_machine okay state_of f)
      \<and> (\<forall>f ctx. fc_onContextUpdated cb = Some f \<longrightarrow> leaves_machine okay state_of (f ctx)))"

lemma call_leaves:
  "(\<And>f. cb = Some f \<Longrightarrow> leaves_machine okay state_of f) \<Longrightarrow> leaves_machine okay state_of (call_if b cb)"
  by (cases cb) (auto simp: call_if_def leaves_ret)

lemma final_repair_leaves:
  assumes "quiet_callbacks cb" "quiet_phase okay state_of phase"
  shows "leaves_machine okay state_of (final_repair port cb st phase nxt ctx)"
proof -
  note cb = assms(1) [unfolded quiet_callbacks_def]
  have ready: "leaves_machine okay state_of (call_if b (fc_afterPoliciesReady cb))" for b
    using cb by (intro call_leaves) auto
  have observe: "leaves_machine okay state_of (call_if True (map_option (\<lambda>f. f c) (fc_onContextUpdated cb)))" for c
    using cb by (intro call_leaves) auto
  have rec: "leaves_machine okay state_of (fc_record cb ev s err md)" for ev s err md
    using cb record_quiet by simp
  show ?thesis
    using assms(2) unfolding final_repair_def Let_def port_sel case_prod_beta quiet_phase_def
    by (intro leaves_intros) (auto intro!: leaves_intros sess_leaves rec ready observe)
qed

lemma final_repairs_leaves:
  "quiet_callbacks cb \<Longrightarrow> \<forall>p\<in>set ps. quiet_phase okay state_of (fst p) \<Longrightarrow>
     leaves_machine okay state_of (final_repairs port cb st ps ctx)"
proof (induction ps arbitrary: ctx)
  case (Cons p ps)
  then show ?case by (cases p) (auto intro!: leaves_bind final_repair_leaves)
qed (simp add: leaves_ret)

lemma final_prerequisites_leave:
  assumes "quiet_callbacks cb" "\<forall>p\<in>set phases. quiet_phase okay state_of p"
  shows "leaves_machine okay state_of (runFinalFlowPrerequisiteRepairs port cb st phases ctx)"
proof -
  have "fst p \<in> set phases" if "p \<in> set (zip xs ys)" "set xs \<subseteq> set phases" for p xs and ys :: "machine_state list"
    using that by (metis in_mono prod.collapse set_zip_leftD)
  moreover have "set (takeWhile P phases) \<subseteq> set phases" "set (butlast phases) \<subseteq> set phases" for P
    by (auto dest: set_takeWhileD in_set_butlastD)
  ultimately show ?thesis
    using assms unfolding runFinalFlowPrerequisiteRepairs_def Let_def
    by (intro final_repairs_leaves) (auto split: if_splits)
qed

text \<open>Telling the caller that the policies are in place keeps the contract of the runtime.\<close>

lemma ready_runtime:
  assumes "\<And>f. ready = Some f \<Longrightarrow> leaves_machine okay state_of f"
  shows "flow_runtime okay state_of sess (rr_applyResult (withAfterPoliciesReady port ready)) record_event"
proof (cases ready)
  case None
  then show ?thesis by (simp add: withAfterPoliciesReady_def flow_runtime_axioms)
next
  case (Some f)
  let ?app = "rr_applyResult (withAfterPoliciesReady port ready)"
  have f: "leaves_machine okay state_of f" using assms Some by simp
  have app': "?app r = bind (app r) (\<lambda>s. bind (if isPoliciesAppliedResult r then f else ret ()) (\<lambda>_. ret s))" for r
    by (simp add: withAfterPoliciesReady_def Some)
  have after: "leaves_machine okay state_of (bind (if isPoliciesAppliedResult r then f else ret ()) (\<lambda>_. ret s))" for r s
    using f by (auto intro: leaves_intros)
  have applied: "\<exists>w1. app r w = (Inr s, w1) \<and> okay w1 \<and> session_state s = state_of w1 \<and> okay w' \<and> state_of w' = state_of w1"
    if run: "okay w" "?app r w = (Inr s, w')" for r w s w'
  proof -
    obtain s1 w1 where r: "app r w = (Inr s1, w1)"
        "bind (if isPoliciesAppliedResult r then f else ret ()) (\<lambda>_. ret s1) w1 = (Inr s, w')"
      using run(2) unfolding app' by (erule bind_InrE)
    have "s1 = s" using r(2) by (auto elim!: bind_InrE)
    then show ?thesis using r app_state [OF run(1) r(1)] leavesD [OF after _ r(2)] by auto
  qed
  show ?thesis
  proof unfold_locales
    fix r w s w' assume a: "okay w" "?app r w = (Inr s, w')"
    then obtain w1 where w1: "app r w = (Inr s, w1)" "okay w1" "session_state s = state_of w1" "okay w'"
        "state_of w' = state_of w1" using applied by blast
    show "okay w' \<and> session_state s = state_of w'" using w1 by simp
    show "pauses r \<Longrightarrow> state_of w' = state_of w" using app_pause [OF a(1) w1(1)] w1(5) by simp
    show "\<not> pauses r \<Longrightarrow> canTransitionOnboardMachineState (state_of w) (state_of w')"
      using app_edge [OF a(1) w1(1)] w1(5) by simp
  next
    fix r w e w' assume a: "okay w" "?app r w = (Inl e, w')"
    from a(2) consider "app r w = (Inl e, w')"
      | s w1 where "app r w = (Inr s, w1)"
          "bind (if isPoliciesAppliedResult r then f else ret ()) (\<lambda>_. ret s) w1 = (Inl e, w')"
      unfolding app' bind_eq_Inl [of "app r"] by blast
    then show "okay w' \<and> (state_of w' = state_of w
        \<or> canTransitionOnboardMachineState (state_of w) (state_of w'))"
    proof cases
      case 1
      then show ?thesis by (rule app_error [OF a(1)])
    next
      case 2
      have w1: "okay w1" using app_state [OF a(1) 2(1)] by simp
      have "okay w'" "state_of w' = state_of w1" using leavesD [OF after w1 2(2)] by auto
      then show ?thesis using app_edge [OF a(1) 2(1)] app_pause [OF a(1) 2(1)] by auto
    qed
  qed (use sess_quiet sess_state record_quiet in auto)
qed

lemma observed_quiet:
  assumes "quiet_callbacks cb" "\<forall>p\<in>set phases. quiet_phase okay state_of p"
  shows "\<forall>p\<in>set (withContextObserver phases (fc_onContextUpdated cb)). quiet_phase okay state_of p"
proof (cases "fc_onContextUpdated cb")
  case (Some f)
  then have "leaves_machine okay state_of (f ctx)" for ctx using assms(1) by (simp add: quiet_callbacks_def)
  then show ?thesis
    using assms(2) Some
    by (auto simp: withContextObserver_def quiet_phase_def case_prod_beta intro!: leaves_intros)
qed (use assms in \<open>simp add: withContextObserver_def\<close>)

lemma observed_unpaused:
  assumes "\<forall>p\<in>set phases. unpaused_phase p"
  shows "\<forall>p\<in>set (withContextObserver phases observe). unpaused_phase p"
  using assms
  by (cases observe) (fastforce simp: withContextObserver_def unpaused_phase_def elim!: bind_InrE)+

lemma canonical_phases:
  "phases_for_states phases states = Inr ps \<Longrightarrow> set ps \<subseteq> set phases \<and> map ph_state ps = states"
proof (induction phases states arbitrary: ps rule: phases_for_states.induct)
  case (2 phases st sts)
  obtain p qs where p: "filter (\<lambda>p. ph_state p = st) phases = [p]" "phases_for_states phases sts = Inr qs"
      "ps = p # qs"
    using "2.prems" by (auto split: list.splits sum.splits)
  have "p \<in> {x \<in> set phases. ph_state x = st}" unfolding set_filter [symmetric] p(1) by simp
  then show ?case using "2.IH" [OF p(1) refl p(2)] p(3) by auto
qed simp

lemma canonical_flow:
  assumes "canonicalFinalFlowPhases phases = Inr (branch, ps)"
  shows "branch \<in> {Openclaw, AgentSetup}" "set ps \<subseteq> set phases"
    "map ph_state ps = branch # FINAL_FLOW_DOWNSTREAM_STATES" "length phases = 4"
proof -
  let ?bs = "filter (\<lambda>p. ph_state p = Openclaw \<or> ph_state p = AgentSetup) phases"
  have b: "length ?bs = 1" "length phases = 4" "branch = ph_state (hd ?bs)"
      "phases_for_states phases (branch # FINAL_FLOW_DOWNSTREAM_STATES) = Inr ps"
    using assms by (auto simp: canonicalFinalFlowPhases_def Let_def split: if_splits sum.splits)
  have "hd ?bs \<in> set ?bs" using b(1) by (intro hd_in_set) auto
  then show "branch \<in> {Openclaw, AgentSetup}" using b(3) by auto
  show "set ps \<subseteq> set phases" "map ph_state ps = branch # FINAL_FLOW_DOWNSTREAM_STATES"
    using canonical_phases [OF b(4)] by auto
  show "length phases = 4" by (rule b(2))
qed

lemma final_slice_settled:
  fixes phases :: "('c, 'w) sequence_phase list"
  assumes w: "okay w" and quiet: "\<forall>p\<in>set phases. quiet_phase okay state_of p" and cb: "quiet_callbacks cb"
    and run: "runFinalOnboardFlowSlice port cb phases ctx w = (Inr (c, s), w')"
  shows "state_of w \<in> {Openclaw, AgentSetup, Policies, Finalizing, PostVerify}
     \<and> settled UNIV [] (\<forall>p\<in>set phases. unpaused_phase p) w s w'"
proof -
  let ?rt = "withAfterPoliciesReady port (fc_afterPoliciesReady cb)"
  obtain branch ps e w1 where cf: "canonicalFinalFlowPhases phases = Inr (branch, ps)"
      and e: "sess w = (Inr e, w1)" "session_state e \<in> set (branch # FINAL_FLOW_DOWNSTREAM_STATES)"
    using run by (auto simp: runFinalOnboardFlowSlice_def Let_def split: if_splits elim!: bind_InrE)
  note can = canonical_flow [OF cf]
  have w1: "okay w1" "state_of w1 = state_of w" "session_state e = state_of w"
    using sess_quiet [OF w e(1)] sess_state [OF w e(1)] by auto
  have ps: "\<forall>p\<in>set ps. quiet_phase okay state_of p" using quiet can(2) by auto
  obtain c1 w2 where w2: "okay w2" "state_of w2 = state_of w1"
      and go: "runFinalOnboardFlowSequence ?rt (withContextObserver ps (fc_onContextUpdated cb)) c1 w2
        = (Inr (c, s), w')"
  proof (cases "session_state e \<in> set FINAL_FLOW_DOWNSTREAM_STATES")
    case True
    then obtain c1 w2 where r: "runFinalFlowPrerequisiteRepairs port cb (session_state e) ps ctx w1 = (Inr c1, w2)"
        "runFinalOnboardFlowSequence ?rt (withContextObserver ps (fc_onContextUpdated cb)) c1 w2
        = (Inr (c, s), w')"
      using run cf e by (auto simp: runFinalOnboardFlowSlice_def Let_def elim!: bind_InrE)
    from leavesD [OF final_prerequisites_leave [OF cb ps] w1(1) r(1)] that r(2) show thesis by blast
  next
    case False
    with run cf e that [OF w1(1) refl] show thesis
      by (auto simp: runFinalOnboardFlowSlice_def Let_def elim!: bind_InrE)
  qed
  have fr: "flow_runtime okay state_of sess (rr_applyResult ?rt) record_event"
    using cb by (intro ready_runtime) (auto simp: quiet_callbacks_def)
  have port': "?rt = flow_runtime.port sess (rr_applyResult ?rt)"
    unfolding flow_runtime.port_def [OF fr]
    by (cases "fc_afterPoliciesReady cb") (simp_all add: withAfterPoliciesReady_def port_def)
  have run': "runOnboardSequenceWithRunner (flow_runtime.port sess (rr_applyResult ?rt)) (stopping_at [])
      (finalOnboardFlowPhases (withContextObserver ps (fc_onContextUpdated cb))) c1 w2 = (Inr (c, s), w')"
    using go unfolding runFinalOnboardFlowSequence_def port' [symmetric] .
  let ?run = "finalOnboardFlowPhases (withContextObserver ps (fc_onContextUpdated cb))"
  have sub: "set ?run \<subseteq> set (withContextObserver ps (fc_onContextUpdated cb))"
    by (auto simp: finalOnboardFlowPhases_def)
  have quiet': "\<forall>p\<in>set ?run. quiet_phase okay state_of p" using observed_quiet [OF cb ps] sub by blast
  have steady: "\<forall>p\<in>set ?run. unpaused_phase p" if "\<forall>p\<in>set phases. unpaused_phase p"
    using observed_unpaused [of ps "fc_onContextUpdated cb"] that can(2) sub by blast
  have "settled UNIV [] (\<forall>p\<in>set phases. unpaused_phase p) w2 s w'"
    by (rule flow_runtime.sequence_settled [OF fr w2(1) quiet' UNIV_I run' steady])
  then have "settled UNIV [] (\<forall>p\<in>set phases. unpaused_phase p) w s w'"
    using w1(2) w2(2) by (auto intro: settled_start)
  then show ?thesis using e(2) w1(3) can(1) by (auto simp: FINAL_FLOW_DOWNSTREAM_STATES_def)
qed

end

section \<open>The persistent runtime\<close>

text \<open>
  The recorder of \<open>runtime-boundary.ts\<close>; \<open>message\<close> gives the text of an error.
\<close>

definition recordRepairEvent ::
  "session_env \<Rightarrow> (onboard_error \<Rightarrow> string) \<Rightarrow> onboard_world repair_recorder" where
  "recordRepairEvent env message ty state err metadata =
     bind (emitRepairEvent env ty (Some state) (map_option message err) metadata) (\<lambda>_. ret ())"

lemma recordRepairEvent_quiet:
  "leaves_machine (\<lambda>w. \<exists>n. holds env w n) (\<lambda>w. session_state (current_session env w))
     (recordRepairEvent env message ev st err md)"
  unfolding leaves_machine_def
proof (intro allI impI)
  fix w x w' assume "\<exists>n. holds env w n" and run: "recordRepairEvent env message ev st err md w = (x, w')"
  then obtain n where h: "holds env w n" by blast
  obtain t es where w': "w' = w\<lparr>w_tick := t, w_events := es\<rparr>"
    using run ensure_held [OF h] that
    by (auto simp: recordRepairEvent_def emitRepairEvent_def run_simps)
  have "holds env w' n" using h w' by simp
  then show "(\<exists>n. holds env w' n)
      \<and> session_state (current_session env w') = session_state (current_session env w)"
    using held_state h by auto
qed

interpretation flow: flow_runtime
  "\<lambda>w. \<exists>n. holds env w n" "\<lambda>w. session_state (current_session env w)"
  "ensureSession env" "applyResult env" "recordRepairEvent env message" for env message
  by unfold_locales (rule recordRepairEvent_quiet)

definition persistent_runtime :: "session_env \<Rightarrow> onboard_world runner_runtime" where
  "persistent_runtime env = \<lparr>rr_session = ensureSession env, rr_applyResult = applyResult env\<rparr>"

lemma flow_port: "flow_runtime.port (ensureSession env) (applyResult env) = persistent_runtime env"
  unfolding persistent_runtime_def by (rule flow.port_def)

abbreviation holding :: "session_env \<Rightarrow> onboard_world \<Rightarrow> bool" where
  "holding env \<equiv> \<lambda>w. \<exists>n. holds env w n"

abbreviation stored_state :: "session_env \<Rightarrow> onboard_world \<Rightarrow> machine_state" where
  "stored_state env \<equiv> \<lambda>w. session_state (current_session env w)"

lemma build_handlers_distinct:
  "(\<exists>hs. buildOnboardSequenceHandlers phases = Inr hs) \<longleftrightarrow> distinct (map ph_state phases)"
  unfolding buildOnboardSequenceHandlers_def add_phases_distinct by simp

lemma canonical_permutation:
  assumes "canonicalFinalFlowPhases phases = Inr (branch, ps)"
  shows "mset ps = mset phases"
proof -
  note can = flow.canonical_flow [OF assms]
  have ps: "distinct ps" "length ps = 4"
    using can(1,3) distinct_map [of ph_state ps] arg_cong [OF can(3), of length]
    by (auto simp: FINAL_FLOW_DOWNSTREAM_STATES_def)
  have "card (set ps) = 4" using distinct_card [OF ps(1)] ps(2) by simp
  moreover have "card (set phases) \<le> 4" using card_length [of phases] can(4) by simp
  ultimately have eq: "set ps = set phases" "card (set phases) = 4"
    using can(2) card_seteq [of "set phases" "set ps"] card_mono [of "set phases" "set ps"] by auto
  then have "distinct phases" using can(4) by (intro card_distinct) simp
  then show ?thesis using ps(1) eq(1) set_eq_iff_mset_eq_distinct by blast
qed

definition quiet_final_callbacks ::
  "session_env \<Rightarrow> (onboard_error \<Rightarrow> string) \<Rightarrow> ('c, onboard_world) final_callbacks \<Rightarrow> bool" where
  "quiet_final_callbacks env message cb =
     (fc_record cb = recordRepairEvent env message
      \<and> (\<forall>f. fc_afterPoliciesReady cb = Some f \<longrightarrow> leaves_machine (holding env) (stored_state env) f)
      \<and> (\<forall>f ctx. fc_onContextUpdated cb = Some f \<longrightarrow>
           leaves_machine (holding env) (stored_state env) (f ctx)))"

lemma quiet_final_callbacks_iff: "quiet_final_callbacks env message cb = flow.quiet_callbacks env message cb"
  by (simp add: quiet_final_callbacks_def flow.quiet_callbacks_def)


section \<open>A run that succeeds\<close>

definition names_source :: "js \<Rightarrow> machine_state \<Rightarrow> bool" where
  "names_source md st = (js_get md ''state'' = JUndef \<or> js_get md ''state'' = JStr (state_id st))"

lemma run_loop_step:
  assumes "\<not> at_rest opts s" "k < limit" "ro_handlers opts (session_state s) = Some h"
    and "h ctx w = (Inr [r], w1)" "names_source (rs_metadata r) (session_state s)"
    and "ro_applyResult opts r w1 = (Inr s', w2)" "\<not> pauses r"
    and "ro_updateContext opts ctx (session_state s) r s' w2 = (Inr ctx', w3)"
  shows "run_loop opts limit ctx s k w = run_loop opts limit ctx' s' (Suc k) w3"
proof -
  have "check_sequence_result opts (session_state s) False 0 r (session_state s) = Inr ()"
    using assms(5) by (auto simp: check_sequence_result_def assertResultSourceState_def Let_def
        resultSourceState_def names_source_def)
  then have "apply_results opts limit (session_state s) False 0 [r] ctx s k w1 = (Inr (False, ctx', s', Suc k), w3)"
    using assms(2,6-8) by (simp add: bind_def)
  then show ?thesis using assms(1-4) by (simp add: run_loop.simps [of opts limit ctx s k w])
qed

text \<open>A phase that does its work and asks for the next state of the flow.\<close>

definition advances :: "session_env \<Rightarrow> ('c, onboard_world) sequence_phase \<Rightarrow> machine_state \<Rightarrow> bool" where
  "advances env phase nxt =
     (\<forall>ctx w n. holds env w n \<longrightarrow>
        (\<exists>ctx' md w'. ph_run phase ctx w = (Inr (ctx', [TransitionResult nxt (Some Advance) JUndef md]), w')
           \<and> names_source md (ph_state phase) \<and> holds env w' n))"

lemma applied_advance:
  assumes h: "holds env w n" and edge: "getOnboardMachineTransition (ms_state (s_machine n)) nxt
      = Some (edge (ms_state (s_machine n)) nxt Advance)"
    and md: "names_source md (ms_state (s_machine n))"
  obtains s w' where "applyResult env (TransitionResult nxt (Some Advance) JUndef md) w = (Inr s, w')"
    "holds env w' s" "session_state s = nxt"
proof -
  let ?from = "ms_state (s_machine n)"
  let ?c = "reloaded env (w_tick w) n" and ?w1 = "w\<lparr>w_tick := w_tick w + 2\<rparr>"
  have tr: "assertValidOnboardMachineTransition ?from nxt = Inr (edge ?from nxt Advance)"
    using edge by (simp add: assertValidOnboardMachineTransition_def)
  have "canTransitionOnboardMachineState ?from nxt" using tr assert_valid_Inr_ex by blast
  then have live: "?from \<noteq> Failed" "?from \<noteq> Complete" "?from \<noteq> nxt"
    using terminal_no_transition [of ?from nxt] by auto
  have chk: "check_result ?c (TransitionResult nxt (Some Advance) JUndef md) = Inr ()"
    using tr live md edge by (auto simp: check_result_def Let_def result_source_def edge_def names_source_def)
  have h1: "holds env ?w1 n" using h by simp
  obtain s w' where "apply_transition env nxt (Some Advance) JUndef md ?w1 = (Inr s, w')"
      "holds env w' s" "moved nxt n s"
    by (rule apply_transition_effect [OF h1 tr, of "Some Advance" JUndef md]) (use live in \<open>simp_all add: edge_def\<close>)
  then show thesis
    using that [of s w'] chk ensure_held [OF h]
    by (simp add: applyResult_def assertResultWillApply_def bind_def moved_def session_state_def)
qed

lemma advance_step:
  assumes opts: "opts = sequence_runner (persistent_runtime env) (stopping_at stops) hs"
    and phase: "hs (session_state s) = Some (phase_handler p)" "ph_state p = session_state s" "advances env p nxt"
    and h: "holds env w n" "session_state s = ms_state (s_machine n)"
    and edge: "getOnboardMachineTransition (session_state s) nxt = Some (edge (session_state s) nxt Advance)"
    and go: "session_state s \<notin> set stops" "\<not> isTerminalOnboardMachineState (session_state s)" "k < limit"
  obtains ctx' s' w' where
    "run_loop opts limit ctx s k (w, c) = run_loop opts limit ctx' s' (Suc k) (w', ctx')"
    "holds env w' s'" "session_state s' = nxt"
proof -
  obtain ctx' md w1 where run: "ph_run p ctx w = (Inr (ctx', [TransitionResult nxt (Some Advance) JUndef md]), w1)"
      "names_source md (session_state s)" "holds env w1 n"
    using phase(2,3) h(1) unfolding advances_def by metis
  let ?r = "TransitionResult nxt (Some Advance) JUndef md"
  obtain s' w2 where ap: "applyResult env ?r w1 = (Inr s', w2)" "holds env w2 s'" "session_state s' = nxt"
    by (rule applied_advance [OF run(3), of nxt md]) (use edge h(2) run(2) in \<open>simp_all\<close>)
  have handler: "phase_handler p ctx (w, c) = (Inr [?r], (w1, ctx'))"
    using run(1) by (simp add: phase_handler_def beside_def bind_def)
  have "run_loop opts limit ctx s k (w, c) = run_loop opts limit ctx' s' (Suc k) (w2, ctx')"
    by (rule run_loop_step [of opts s k limit "phase_handler p" ctx "(w, c)" ?r "(w1, ctx')" s' "(w2, ctx')"])
      (use opts go phase(1) ap handler run(2) in \<open>simp_all add: sequence_runner_def at_rest_def stopping_at_def beside_def
         persistent_runtime_def\<close>)
  then show thesis using that ap(2,3) by blast
qed


lemma run_loop_rest: "at_rest opts s \<Longrightarrow> run_loop opts limit ctx s k w = (Inr (ctx, s), w)"
  by (simp add: run_loop.simps [of opts limit ctx s k w])

lemma initial_run_succeeds:
  fixes p g :: "('c, onboard_world) sequence_phase"
  assumes h: "holds env w n" and init: "ms_state (s_machine n) = Init"
    and p: "ph_state p = Preflight" "advances env p Gateway"
    and g: "ph_state g = Gateway" "advances env g ProviderSelection"
  shows "\<exists>c s w'. runInitialOnboardFlowSequence (persistent_runtime env) [p, g] ctx w = (Inr (c, s), w')
     \<and> session_state s = ProviderSelection \<and> holds env w' s"
proof -
  define i :: "('c, onboard_world) sequence_phase" where "i = \<lparr>ph_state = Init, ph_run = (\<lambda>ctx. ret (ctx, [advanceTo Preflight no_options]))\<rparr>"
  define hs where "hs = (\<lambda>_. None)(Init \<mapsto> phase_handler i, Preflight \<mapsto> phase_handler p, Gateway \<mapsto> phase_handler g)"
  define opts where "opts = sequence_runner (persistent_runtime env) (stopping_at [ProviderSelection]) hs"
  let ?w1 = "w\<lparr>w_tick := w_tick w + 2\<rparr>" and ?s = "reloaded env (w_tick w) n"
  have build: "buildOnboardSequenceHandlers (initialOnboardFlowPhases [p, g]) = Inr hs"
    using p(1) g(1) unfolding buildOnboardSequenceHandlers_def initialOnboardFlowPhases_def i_def [symmetric] hs_def
    by (simp add: i_def)
  have i: "advances env i Preflight"
    by (auto simp: advances_def i_def advanceTo_def transitionTo_def no_options_def names_source_def js_get_nonobject
        isObjectRecord_def)
  have edges: "getOnboardMachineTransition Init Preflight = Some (edge Init Preflight Advance)"
      "getOnboardMachineTransition Preflight Gateway = Some (edge Preflight Gateway Advance)"
      "getOnboardMachineTransition Gateway ProviderSelection = Some (edge Gateway ProviderSelection Advance)"
    by code_simp+
  have h1: "holds env ?w1 n" and s: "session_state ?s = Init" using h init by (simp_all add: session_state_def)
  obtain c1 s1 w1 where r1: "run_loop opts 100 ctx ?s 0 (?w1, ctx) = run_loop opts 100 c1 s1 1 (w1, c1)"
      "holds env w1 s1" "session_state s1 = Preflight"
    by (rule advance_step [OF opts_def _ _ i h1, of ?s 0 100 ctx ctx])
      (use s init edges in \<open>simp_all add: hs_def i_def\<close>)
  obtain c2 s2 w2 where r2: "run_loop opts 100 c1 s1 1 (w1, c1) = run_loop opts 100 c2 s2 2 (w2, c2)"
      "holds env w2 s2" "session_state s2 = Gateway"
    by (rule advance_step [OF opts_def _ _ p(2) r1(2), of s1 1 100 c1 c1])
      (use r1 p edges in \<open>simp_all add: hs_def session_state_def numeral_2_eq_2\<close>)
  obtain c3 s3 w3 where r3: "run_loop opts 100 c2 s2 2 (w2, c2) = run_loop opts 100 c3 s3 3 (w3, c3)"
      "holds env w3 s3" "session_state s3 = ProviderSelection"
    by (rule advance_step [OF opts_def _ _ g(2) r2(2), of s2 2 100 c2 c2])
      (use r2 g edges in \<open>simp_all add: hs_def session_state_def eval_nat_numeral\<close>)
  have "run_loop opts 100 c3 s3 3 (w3, c3) = (Inr (c3, s3), (w3, c3))"
    using r3(3) by (intro run_loop_rest) (simp add: at_rest_def opts_def sequence_runner_def stopping_at_def)
  then have "runOnboardMachine opts ctx (w, ctx) = (Inr (c3, s3), (w3, c3))"
    using r1(1) r2(1) r3(1) ensure_held [OF h]
    by (simp add: runOnboardMachine_def bind_def opts_def sequence_runner_def persistent_runtime_def beside_def
        stopping_at_def normalizeMaxTransitions_def DEFAULT_MAX_TRANSITIONS_def)
  then show ?thesis
    using r3 build unfolding opts_def
    by (auto simp: runInitialOnboardFlowSequence_def runOnboardSequenceWithRunner_def)
qed

lemma initial_slice_run:
  fixes p g :: "('c, onboard_world) sequence_phase"
  assumes "holds env w n" "ms_state (s_machine n) = Init"
    and "ph_state p = Preflight" "advances env p Gateway" "ph_state g = Gateway" "advances env g ProviderSelection"
  shows "\<exists>c s w'. runInitialOnboardFlowSlice (persistent_runtime env) (recordRepairEvent env message) [p, g] resume
        ctx w = (Inr (c, s), w')
     \<and> session_state s = ProviderSelection \<and> holds env w' s"
proof -
  let ?w1 = "w\<lparr>w_tick := w_tick w + 2\<rparr>"
  have "holds env ?w1 n" using assms(1) by simp
  from initial_run_succeeds [OF this assms(2-6), of ctx] show ?thesis
    using ensure_held [OF assms(1)] assms(2)
    by (simp add: runInitialOnboardFlowSlice_def bind_def persistent_runtime_def session_state_def
        initial_allowed_states_def Let_def)
qed

end
