(* ===== verification/Session_Resume.thy ===== *)
theory Session_Resume
  imports Runtime_Facts
begin

text \<open>
  Resuming an interrupted onboarding: the repair policy
  (\<open>src/lib/onboard/resume-repair-policy.ts\<close>), the entry state
  (\<open>resume-machine-repair.ts\<close>), the recovery of a terminal snapshot (\<open>session-recovery.ts\<close>), the
  checkpoint of a resumed session (\<open>src/lib/state/onboard-checkpoint-migrate.ts\<close>), the conflicts
  between a request and the recorded session (\<open>resume-config.ts\<close>) and the preparation of a fresh or
  a resumed session (\<open>session-bootstrap.ts\<close>).

  The lemmas show that the recovery never meets the state it calls unrecoverable, that its receipt
  is one the session file accepts, and that a resume that is not refused ends with a stored session
  whose machine can move.
\<close>

section \<open>Repair policy (resume-repair-policy.ts)\<close>

datatype keep_reason = NonterminalSnapshot | CompletedNonresumableSnapshot

datatype repair_decision = Repair receipt_reason | Keep keep_reason

definition classifyResumeMachineRepair :: "session \<Rightarrow> repair_decision" where
  "classifyResumeMachineRepair s =
     (if ms_state (s_machine s) = Failed then Repair FailedTerminalSnapshot
      else if ms_state (s_machine s) \<noteq> Complete then Keep NonterminalSnapshot
      else if s_status s \<noteq> ''complete'' \<or> s_resumable s then Repair ReopenedCompleteSnapshot
      else Keep CompletedNonresumableSnapshot)"

section \<open>Entry state (resume-machine-repair.ts)\<close>

definition unfinished_step :: "session \<Rightarrow> string option \<Rightarrow> machine_state option" where
  "unfinished_step s name =
     (case (machineStateFromOnboardSessionStep name, map_option st_status (step_of s name)) of
        (Some state, Some status) \<Rightarrow>
          if status = StFailed \<or> status = StInProgress then Some state else None
      | _ \<Rightarrow> None)"

definition activeStepMachineState :: "session \<Rightarrow> machine_state option" where
  "activeStepMachineState s =
     coalesce (unfinished_step s (Option.bind (s_failure s) fl_step))
       (unfinished_step s (s_lastStepStarted s))"

definition resumeMachineState :: "session \<Rightarrow> machine_state" where
  "resumeMachineState s =
     nullish Init
       (coalesce (activeStepMachineState s)
         (nextMachineStateAfterCompletedStep (s_lastCompletedStep s) (s_agent s)))"

section \<open>Recovery (session-recovery.ts)\<close>

datatype recovery_plan = Recover receipt_reason machine_state | KeepSnapshot keep_reason

definition assertRecoverableEntry :: "machine_state \<Rightarrow> onboard_error + machine_state" where
  "assertRecoverableEntry entry =
     (if isTerminalOnboardMachineState entry then Inl (UnrecoverableSession entry) else Inr entry)"

definition assertCanonicalRecoveryTimestamp :: "string \<Rightarrow> onboard_error + string" where
  "assertCanonicalRecoveryTimestamp v =
     (if canonical_iso v then Inr v else Inl RecoveryTimestampInvalid)"

definition planSessionRecovery :: "session \<Rightarrow> onboard_error + recovery_plan" where
  "planSessionRecovery s =
     (case classifyResumeMachineRepair s of
        Keep reason \<Rightarrow> Inr (KeepSnapshot reason)
      | Repair reason \<Rightarrow>
          (case assertRecoverableEntry (resumeMachineState s) of
             Inl e \<Rightarrow> Inl e
           | Inr entry \<Rightarrow> Inr (Recover reason entry)))"

definition recovered_snapshot ::
  "session_env \<Rightarrow> session \<Rightarrow> receipt_reason \<Rightarrow> machine_state \<Rightarrow> string \<Rightarrow> machine_snapshot" where
  "recovered_snapshot env s reason entry appliedAt =
     (let revision = ms_revision (s_machine s) + 1 in
      \<lparr>ms_state = entry, ms_stateEnteredAt = Some appliedAt, ms_revision = revision,
       ms_recoveryReceipt =
         Some \<lparr>rr_id = createSessionRecoveryReceiptId env (s_sessionId s) revision reason entry,
               rr_reason = reason, rr_entry = entry, rr_appliedAt = appliedAt,
               rr_revision = revision\<rparr>\<rparr>)"

definition applySessionRecovery ::
  "session_env \<Rightarrow> string \<Rightarrow> session \<Rightarrow> onboard_error + session \<times> recovery_plan" where
  "applySessionRecovery env stateEnteredAt s =
     (case planSessionRecovery s of
        Inl e \<Rightarrow> Inl e
      | Inr (KeepSnapshot reason) \<Rightarrow> Inr (s, KeepSnapshot reason)
      | Inr (Recover reason entry) \<Rightarrow>
          (case assertCanonicalRecoveryTimestamp stateEnteredAt of
             Inl e \<Rightarrow> Inl e
           | Inr appliedAt \<Rightarrow>
               Inr (s\<lparr>s_machine := recovered_snapshot env s reason entry appliedAt\<rparr>,
                    Recover reason entry)))"

section \<open>Checkpoint of a resumed session (onboard-checkpoint-migrate.ts)\<close>

definition identityDecision :: "session \<Rightarrow> sandbox_identity decision" where
  "identityDecision s =
     (case (s_sandboxName s, s_agent s) of
        (Some name, Some agent) \<Rightarrow>
          if pp_sandboxName (s_sandboxPromptProgress s) \<and> name \<noteq> [] \<and> agent \<noteq> []
          then decisionSelected \<lparr>si_name = name, si_agent = agent\<rparr> else decisionUnset
      | _ \<Rightarrow> decisionUnset)"

definition webSearchDecision :: "session \<Rightarrow> web_search_config decision" where
  "webSearchDecision s =
     decisionFromLegacyNullable (pp_webSearch (s_sandboxPromptProgress s)) (s_webSearchConfig s) Some"

definition messagingDecision :: "session_env \<Rightarrow> session \<Rightarrow> messaging_selection decision" where
  "messagingDecision env s =
     decisionFromLegacyNullable (pp_messaging (s_sandboxPromptProgress s)) (s_messagingPlan s)
       (\<lambda>plan. Some \<lparr>ms_selectedChannels = env_activeChannels env (Some plan),
                     ms_disabledChannels = env_disabledChannels env (Some plan)\<rparr>)"

definition resourceDecision :: "session \<Rightarrow> resource_profile decision" where
  "resourceDecision s =
     decisionFromLegacyNullable (pp_resourceProfile (s_sandboxPromptProgress s)) (s_resourceProfile s)
       Some"

definition deriveCheckpointFromSession :: "session_env \<Rightarrow> session \<Rightarrow> checkpoint" where
  "deriveCheckpointFromSession env s =
     \<lparr>cp_sessionId = s_sessionId s, cp_machineState = ms_state (s_machine s),
      cp_updatedAt = s_updatedAt s, cp_sandboxIdentity = identityDecision s,
      cp_webSearch = webSearchDecision s, cp_messaging = messagingDecision env s,
      cp_resourceProfile = resourceDecision s, cp_gatewayAuthority = decisionUnset,
      cp_effectGroups = [],
      cp_bindings = \<lparr>cb_credentialEnvs = [], cb_registeredProviders = []\<rparr>,
      cp_sandboxRecreate = None\<rparr>"

definition resolveCheckpointForResume :: "session_env \<Rightarrow> nat \<Rightarrow> js \<Rightarrow> checkpoint_load_result" where
  "resolveCheckpointForResume env t rawSession =
     (if \<not> isObjectRecord rawSession then CheckpointNone
      else
        let inspected = inspectCheckpoint (env_parseUrl env) (js_get rawSession ''checkpoint'')
        in case inspected of
             CheckpointUnsupportedFuture v \<Rightarrow> inspected
           | CheckpointCorrupt \<Rightarrow> inspected
           | _ \<Rightarrow>
               (case normalizeSession env t False rawSession of
                  None \<Rightarrow> CheckpointNone
                | Some s \<Rightarrow>
                    (case loaded_checkpoint inspected of
                       Some c \<Rightarrow>
                         if cp_sessionId c \<noteq> s_sessionId s then CheckpointCorrupt else inspected
                     | None \<Rightarrow> CheckpointMigrated (deriveCheckpointFromSession env s) 0)))"

definition loadResumeCheckpoint :: "session_env \<Rightarrow> checkpoint_load_result onboard" where
  "loadResumeCheckpoint env w =
     (case w_file w of
        FileAbsent \<Rightarrow> (Inr CheckpointNone, w)
      | FileUnreadable \<Rightarrow> (Inr CheckpointCorrupt, w)
      | FileJson raw \<Rightarrow>
          (Inr (resolveCheckpointForResume env (w_tick w) raw), w\<lparr>w_tick := w_tick w + 2\<rparr>))"

section \<open>Conflicts with the recorded session (resume-config.ts)\<close>

text \<open>
  The hints for provider and model come from the environment through \<open>providers.ts\<close>; they and
  \<open>path.resolve\<close> are arguments here.
\<close>

record resume_request =
  rq_sandboxName :: "string option"
  rq_effectiveProvider :: "string option"
  rq_model :: "string option"
  rq_fromDockerfile :: "string option"
  rq_toolDisclosure :: "tool_disclosure option"

definition getResumeSandboxConflict ::
  "session option \<Rightarrow> string option \<Rightarrow> (string \<times> string) option" where
  "getResumeSandboxConflict session name =
     (let requested = nonempty (map_option (\<lambda>n. toLower (trim n)) name);
          recorded =
            (case session of
               Some s \<Rightarrow> if step_complete s ''sandbox'' then s_sandboxName s else None
             | None \<Rightarrow> None)
      in case (requested, nonempty recorded) of
           (Some r, Some c) \<Rightarrow> if r \<noteq> c then Some (r, c) else None
         | _ \<Rightarrow> None)"

definition conflict :: "string \<Rightarrow> string option \<Rightarrow> string option \<Rightarrow> config_conflict" where
  "conflict field requested recorded =
     \<lparr>cc_field = field, cc_recorded = recorded, cc_requested = requested\<rparr>"

text \<open>A recorded text conflicts with a requested one when both are there and differ.\<close>

definition text_conflict :: "string \<Rightarrow> string option \<Rightarrow> string option \<Rightarrow> config_conflict list" where
  "text_conflict field requested recorded =
     (if truthy requested \<and> truthy recorded \<and> requested \<noteq> recorded
      then [conflict field requested recorded] else [])"

definition disclosure_conflict :: "session option \<Rightarrow> tool_disclosure option \<Rightarrow> config_conflict list" where
  "disclosure_conflict session requested =
     (case session of
        None \<Rightarrow> []
      | Some s \<Rightarrow>
          if s_invalidToolDisclosure s
          then [conflict ''tool disclosure'' (map_option disclosure_id requested) (Some ''invalid'')]
          else (case requested of
                  Some d \<Rightarrow>
                    if d \<noteq> s_toolDisclosure s
                    then [conflict ''tool disclosure'' (Some (disclosure_id d))
                            (Some (disclosure_id (s_toolDisclosure s)))]
                    else []
                | None \<Rightarrow> []))"

definition resolve_from :: "(string \<Rightarrow> string) \<Rightarrow> string option \<Rightarrow> string option" where
  "resolve_from resolve p = map_option resolve (nonempty p)"

definition recorded_from :: "session option \<Rightarrow> string option" where
  "recorded_from session = Option.bind session (\<lambda>s. md_fromDockerfile (s_metadata s))"

definition getResumeConfigConflicts ::
  "(string \<Rightarrow> string) \<Rightarrow> session option \<Rightarrow> resume_request \<Rightarrow> config_conflict list" where
  "getResumeConfigConflicts resolve session r =
     (case getResumeSandboxConflict session (rq_sandboxName r) of
        Some (requested, recorded) \<Rightarrow> [conflict ''sandbox'' (Some requested) (Some recorded)]
      | None \<Rightarrow> [])
     @ text_conflict ''provider'' (rq_effectiveProvider r) (Option.bind session s_provider)
     @ text_conflict ''model'' (rq_model r) (Option.bind session s_model)
     @ (let requestedFrom = resolve_from resolve (rq_fromDockerfile r);
            recordedFrom = resolve_from resolve (recorded_from session)
        in if requestedFrom \<noteq> recordedFrom
           then [conflict ''fromDockerfile'' requestedFrom recordedFrom] else [])
     @ disclosure_conflict session (rq_toolDisclosure r)"

section \<open>Preparing a session (session-bootstrap.ts)\<close>

definition create_with :: "session_env \<Rightarrow> js \<Rightarrow> session onboard" where
  "create_with env overrides w =
     (Inr (createSession env (w_tick w) overrides), w\<lparr>w_tick := Suc (w_tick w)\<rparr>)"

fun index_of :: "'a \<Rightarrow> 'a list \<Rightarrow> nat" where
  "index_of x [] = 0"
| "index_of x (y # ys) = (if x = y then 0 else Suc (index_of x ys))"

text \<open>The flags that only choose messages and branding are left out.\<close>

record bootstrap_input =
  bi_resume :: bool
  bi_fresh :: bool
  bi_requestedFromDockerfile :: "string option"
  bi_requestedSandboxName :: "string option"
  bi_cannotPrompt :: bool
  bi_nonInteractive :: bool
  bi_requestedToolDisclosure :: "tool_disclosure option"
  bi_requestedObservabilityEnabled :: "bool option"
  bi_stationExpressIntent :: "express_intent option"
  bi_servingProfileProvenance :: "js option"

record bootstrap_deps =
  bd_resolvePath :: "string \<Rightarrow> string"
  bd_conflicts :: "session \<Rightarrow> bootstrap_input \<Rightarrow> config_conflict list"

definition checkpointProvesSandboxStepComplete :: "session option \<Rightarrow> bool" where
  "checkpointProvesSandboxStepComplete session =
     (case session of
        None \<Rightarrow> False
      | Some s \<Rightarrow>
          s_checkpoint s \<noteq> None
          \<and> index_of Sandbox ONBOARD_MACHINE_STATES
              < index_of (ms_state (s_machine s)) ONBOARD_MACHINE_STATES)"

definition mode :: "bool \<Rightarrow> string" where
  "mode nonInteractive = (if nonInteractive then ''non-interactive'' else ''interactive'')"

definition guardResumeCheckpoint :: "session_env \<Rightarrow> unit onboard" where
  "guardResumeCheckpoint env =
     bind (loadResumeCheckpoint env) (\<lambda>result.
       case result of
         CheckpointUnsupportedFuture v \<Rightarrow> throw (UnsupportedResumeCheckpoint v)
       | CheckpointCorrupt \<Rightarrow> throw CorruptResumeCheckpoint
       | CheckpointMigrated c _ \<Rightarrow>
           bind (updateSession env (\<lambda>s. ret (s\<lparr>s_checkpoint := Some c\<rparr>))) (\<lambda>_. ret ())
       | _ \<Rightarrow> ret ())"

text \<open>Recording a conflict is best effort: an error of the recorder is swallowed.\<close>

fun exitForResumeConflicts :: "session_env \<Rightarrow> config_conflict list \<Rightarrow> string list \<Rightarrow> 'a onboard" where
  "exitForResumeConflicts env [] seen = throw (ResumeConfigConflicts seen)"
| "exitForResumeConflicts env (c # cs) seen =
     (\<lambda>w. case emitResumeConflict env c w of (_, w') \<Rightarrow>
            exitForResumeConflicts env cs (seen @ [cc_field c]) w')"

definition selected_name :: "checkpoint \<Rightarrow> string option" where
  "selected_name c = map_option si_name (decisionValue (cp_sandboxIdentity c))"

definition assertRecoverableResumeSandboxName ::
  "session option \<Rightarrow> bootstrap_input \<Rightarrow> onboard_error + unit" where
  "assertRecoverableResumeSandboxName session input =
     (let ckpt = Option.bind session s_checkpoint;
          nameRecoverable =
            (case ckpt of
               Some c \<Rightarrow>
                 checkpointProvesSandboxStepComplete session
                 \<or> isDecisionSelected (cp_sandboxIdentity c)
             | None \<Rightarrow>
                 (case session of
                    Some s \<Rightarrow>
                      step_complete s ''sandbox''
                      \<or> (\<not> truthy (s_agent s) \<or> s_agent s = Some ''openclaw'')
                        \<and> pp_sandboxName (s_sandboxPromptProgress s)
                  | None \<Rightarrow> False));
          recovered =
            coalesce (nonempty (bi_requestedSandboxName input))
              (if nameRecoverable
               then coalesce (nonempty (Option.bind ckpt selected_name))
                      (nonempty (Option.bind session s_sandboxName))
               else None)
      in if bi_cannotPrompt input \<and> recovered = None then Inl SandboxNameUnrecoverable else Inr ())"

definition resume_mutator ::
  "session_env \<Rightarrow> bootstrap_input \<Rightarrow> session \<Rightarrow> session onboard" where
  "resume_mutator env input s =
     bind (now env) (\<lambda>at.
     bind (lift_res (applySessionRecovery env at s)) (\<lambda>(s1, plan).
       (let s2 = (case bi_requestedObservabilityEnabled input of
                    Some b \<Rightarrow> s1\<lparr>s_observabilityEnabled := b,
                                 s_observabilityRequestedExplicitly := True\<rparr>
                  | None \<Rightarrow> s1)
        in ret (s2\<lparr>s_mode := mode (bi_nonInteractive input), s_failure := None,
                   s_status := ''in_progress''\<rparr>))))"

definition prepareResumeSession ::
  "session_env \<Rightarrow> bootstrap_deps \<Rightarrow> bootstrap_input \<Rightarrow> (session option \<times> string option) onboard" where
  "prepareResumeSession env deps input =
     bind (loadSession env) (\<lambda>found.
       case found of
         None \<Rightarrow> throw MissingResumeSession
       | Some s \<Rightarrow>
           if \<not> s_resumable s then throw MissingResumeSession
           else
             bind (guardResumeCheckpoint env) (\<lambda>_.
               (let fromDockerfile =
                      coalesce (resolve_from (bd_resolvePath deps) (bi_requestedFromDockerfile input))
                        (resolve_from (bd_resolvePath deps) (md_fromDockerfile (s_metadata s)));
                    conflicts = bd_conflicts deps s input
                in if conflicts \<noteq> [] then exitForResumeConflicts env conflicts []
                   else
                     bind (updateSession env (resume_mutator env input)) (\<lambda>_.
                     bind (loadSession env) (\<lambda>session.
                     bind (lift_res (assertRecoverableResumeSandboxName session input)) (\<lambda>_.
                     ret (session, fromDockerfile)))))))"

definition fresh_overrides :: "bootstrap_input \<Rightarrow> string option \<Rightarrow> js" where
  "fresh_overrides input fromDockerfile =
     JObj [(''mode'', JStr (mode (bi_nonInteractive input))),
           (''toolDisclosure'', JStr (disclosure_id
              (nullish DEFAULT_TOOL_DISCLOSURE (bi_requestedToolDisclosure input)))),
           (''observabilityEnabled'', JBool (bi_requestedObservabilityEnabled input = Some True)),
           (''observabilityRequestedExplicitly'',
              JBool (bi_requestedObservabilityEnabled input \<noteq> None)),
           (''stationExpressIntent'', js_opt express_intent_to_js (bi_stationExpressIntent input)),
           (''servingProfileProvenance'', js_opt id (bi_servingProfileProvenance input)),
           (''metadata'', JObj [(''gatewayName'', JStr ''nemoclaw''),
                               (''fromDockerfile'', js_opt JStr (nonempty fromDockerfile))])]"

definition prepareFreshSession ::
  "session_env \<Rightarrow> bootstrap_deps \<Rightarrow> bootstrap_input \<Rightarrow> (session option \<times> string option) onboard" where
  "prepareFreshSession env deps input =
     bind (on_condition (bi_fresh input) clearSession) (\<lambda>_.
       (let fromDockerfile = resolve_from (bd_resolvePath deps) (bi_requestedFromDockerfile input)
        in bind (create_with env (fresh_overrides input fromDockerfile)) (\<lambda>created.
           bind (saveSession env created) (\<lambda>s.
           ret (Some s, fromDockerfile)))))"

definition prepareOnboardSession ::
  "session_env \<Rightarrow> bootstrap_deps \<Rightarrow> bootstrap_input \<Rightarrow> (session option \<times> string option) onboard" where
  "prepareOnboardSession env deps input =
     (if bi_resume input then prepareResumeSession env deps input
      else prepareFreshSession env deps input)"

section \<open>Facts about the recovery\<close>

lemma unfinished_nonterminal:
  "unfinished_step s n = Some st \<Longrightarrow> \<not> isTerminalOnboardMachineState st"
  using step_state_nonterminal
  by (auto simp: unfinished_step_def simp del: terminal_iff split: option.splits if_splits)

lemma resume_state_nonterminal: "\<not> isTerminalOnboardMachineState (resumeMachineState s)"
  using unfinished_nonterminal next_after_step_nonterminal
  by (auto simp: resumeMachineState_def activeStepMachineState_def nullish_def coalesce_def
      simp del: terminal_iff split: option.splits) simp

text \<open>What the recovery relies on: SHA-256 digests are 64 hexadecimal digits, clocks are canonical.\<close>

definition platform_ok :: "session_env \<Rightarrow> bool" where
  "platform_ok env =
     ((\<forall>v. is_hex_string 64 (env_sha256Json env v)) \<and> (\<forall>t. canonical_iso (env_clock env t)))"

lemma recovered_wf:
  assumes "platform_ok env" "wf_machine env (s_sessionId s) (s_machine s)" "canonical_iso at"
    "\<not> isTerminalOnboardMachineState entry"
  shows "wf_machine env (s_sessionId s) (recovered_snapshot env s reason entry at)"
  using assms
  by (auto simp: wf_machine_def recovered_snapshot_def Let_def wf_receipt_def platform_ok_def
      createSessionRecoveryReceiptId_def)

definition closed_session :: "session \<Rightarrow> bool" where
  "closed_session s =
     (ms_state (s_machine s) = Complete \<and> s_status s = ''complete'' \<and> \<not> s_resumable s)"

lemma plan_recovery:
  "planSessionRecovery s =
     (if isTerminalOnboardMachineState (ms_state (s_machine s)) \<and> \<not> closed_session s
      then Inr (Recover (if ms_state (s_machine s) = Failed then FailedTerminalSnapshot
                         else ReopenedCompleteSnapshot) (resumeMachineState s))
      else Inr (KeepSnapshot (if closed_session s then CompletedNonresumableSnapshot
                              else NonterminalSnapshot)))"
  using resume_state_nonterminal [of s]
  by (auto simp: planSessionRecovery_def classifyResumeMachineRepair_def closed_session_def
      assertRecoverableEntry_def)

lemma recovery_applies:
  assumes "canonical_iso at"
  obtains s' plan where "applySessionRecovery env at s = Inr (s', plan)"
    "s'\<lparr>s_machine := s_machine s\<rparr> = s"
    "isTerminalOnboardMachineState (ms_state (s_machine s')) \<longleftrightarrow> closed_session s"
    "closed_session s \<longrightarrow> s' = s"
    "(\<forall>reason. plan \<noteq> KeepSnapshot reason) \<longrightarrow> ms_revision (s_machine s') = ms_revision (s_machine s) + 1"
    "platform_ok env \<longrightarrow> storable env s \<longrightarrow> plain s \<longrightarrow> storable env s' \<and> plain s'"
proof (cases "isTerminalOnboardMachineState (ms_state (s_machine s)) \<and> \<not> closed_session s")
  case True
  define reason where "reason = (if ms_state (s_machine s) = Failed then FailedTerminalSnapshot
      else ReopenedCompleteSnapshot)"
  let ?s = "s\<lparr>s_machine := recovered_snapshot env s reason (resumeMachineState s) at\<rparr>"
  have "applySessionRecovery env at s = Inr (?s, Recover reason (resumeMachineState s))"
    using True assms
    by (simp add: applySessionRecovery_def plan_recovery assertCanonicalRecoveryTimestamp_def reason_def
        del: terminal_iff)
  moreover have "platform_ok env \<longrightarrow> storable env s \<longrightarrow> plain s \<longrightarrow> storable env ?s \<and> plain ?s"
    using recovered_wf [OF _ _ assms resume_state_nonterminal]
    by (auto simp: plain_storable plain_def fields_ok_def)
  moreover have "ms_state (s_machine ?s) = resumeMachineState s"
    "ms_revision (s_machine ?s) = ms_revision (s_machine s) + 1"
    by (simp_all add: recovered_snapshot_def Let_def)
  moreover have "?s\<lparr>s_machine := s_machine s\<rparr> = s" by simp
  ultimately show thesis
    using that [of ?s] True resume_state_nonterminal [of s] by metis
next
  case False
  then have "applySessionRecovery env at s =
      Inr (s, KeepSnapshot (if closed_session s then CompletedNonresumableSnapshot
                              else NonterminalSnapshot))"
    by (simp only: applySessionRecovery_def plan_recovery if_False sum.case recovery_plan.case)
  with that [of s] False show thesis by (auto simp: closed_session_def)
qed

lemma recovery_idempotent:
  assumes "canonical_iso at" "applySessionRecovery env at s = Inr (s', plan)"
  shows "\<exists>reason. applySessionRecovery env at' s' = Inr (s', KeepSnapshot reason)"
proof -
  have "isTerminalOnboardMachineState (ms_state (s_machine s')) \<longleftrightarrow> closed_session s"
    "closed_session s \<longrightarrow> s' = s"
    using recovery_applies [OF assms(1), of env s] assms(2) by auto
  then have "\<not> (isTerminalOnboardMachineState (ms_state (s_machine s')) \<and> \<not> closed_session s')"
    by blast
  then show ?thesis
    by (simp only: applySessionRecovery_def plan_recovery if_False sum.case recovery_plan.case) blast
qed

section \<open>Facts about the resumed session\<close>

lemma legacy_decision_valid:
  "pred_option P raw \<Longrightarrow> decision_valid P (decisionFromLegacyNullable done raw Some)"
  by (cases raw) (simp_all add: decisionFromLegacyNullable_def decisionUnset_def decisionDeclined_def
      decisionSelected_def)

lemma identity_decision_valid: "progress_ok s \<Longrightarrow> decision_valid valid_identity (identityDecision s)"
  by (auto simp: identityDecision_def decisionUnset_def decisionSelected_def progress_ok_def
      valid_identity_def isValidCheckpointedSandboxName_def name_ok_def split: option.splits)

lemma derived_checkpoint_wf:
  assumes "wf_session env s" "canonical_iso (s_updatedAt s)"
  shows "wf_checkpoint (env_parseUrl env) (deriveCheckpointFromSession env s)"
proof -
  have "pred_option valid_web_search (s_webSearchConfig s)" "progress_ok s"
    using assms(1) by (simp_all add: wf_session_def storable_def redacted_session_def)
  then show ?thesis
    using assms(2) identity_decision_valid legacy_decision_valid
    by (simp add: wf_checkpoint_def deriveCheckpointFromSession_def webSearchDecision_def decisionUnset_def
        valid_groups_def valid_bindings_def recreate_consistent_def)
qed

lemma reloaded_wf: "holds env w n \<Longrightarrow> wf_session env (reloaded env t n)"
  using current_wf [of env "w\<lparr>w_tick := t\<rparr>"] load_reloaded(2) [of env n "w\<lparr>w_tick := t\<rparr>"]
  by (simp add: holds_def)

lemma resume_checkpoint_held:
  assumes "holds env w n"
  shows "loadResumeCheckpoint env w =
     (Inr (case s_checkpoint n of
             Some c \<Rightarrow> if cp_sessionId c \<noteq> s_sessionId n then CheckpointCorrupt else CheckpointLoaded c
           | None \<Rightarrow> CheckpointMigrated
                       (deriveCheckpointFromSession env (reloaded env (w_tick w) n)) 0),
      w\<lparr>w_tick := w_tick w + 2\<rparr>)"
proof -
  note h = holdsD [OF assms]
  let ?raw = "JObj (session_members n (disk_plan env n) (js_opt serializeCheckpoint (s_checkpoint n)))"
  have on_disk: "w_file w = FileJson ?raw" using h persist_serialized by simp
  have "normalizeSession env (w_tick w) False ?raw = Some (reloaded env (w_tick w) n)"
    using load_reloaded(1) [OF h(1,2,4)] by (simp add: loadSession_def on_disk)
  moreover have "js_get ?raw ''checkpoint'' = js_opt serializeCheckpoint (s_checkpoint n)"
    by (simp add: session_members_def)
  moreover have "inspectCheckpoint (env_parseUrl env) (serializeCheckpoint c) = CheckpointLoaded c"
    if "s_checkpoint n = Some c" for c
    using that h(1,2) inspect_written [of "env_parseUrl env" c] by (simp add: storable_def good_env_def)
  ultimately show ?thesis
    by (cases "s_checkpoint n")
      (simp_all add: loadResumeCheckpoint_def on_disk resolveCheckpointForResume_def Let_def
        loaded_checkpoint_def inspectCheckpoint_def)
qed

lemma update_held_eff:
  assumes "holds env w n"
    and "mutator (reloaded env (w_tick w) n) (w\<lparr>w_tick := w_tick w + 2\<rparr>) = (Inr s, w1)"
    and "storable env s" "plain s"
  shows "\<exists>w'. updateSession env mutator w = (Inr (stored env (w_tick w1) s), w')
     \<and> holds env w' (stored env (w_tick w1) s)"
proof -
  obtain r w' where sv: "saveSession env s w1 = (r, w')" by (cases "saveSession env s w1")
  then have "updateSession env mutator w = (r, w')"
    using load_held [OF assms(1)] assms(2) by (simp add: updateSession_def bind_def split: sum.splits)
  with save_held [OF holdsD(1) [OF assms(1)] assms(3,4) sv] show ?thesis by simp
qed

text \<open>The part of a session the guard for checkpoints keeps.\<close>

definition same_run :: "session \<Rightarrow> session \<Rightarrow> bool" where
  "same_run n n' =
     (s_machine n' = s_machine n \<and> s_resumable n' = s_resumable n \<and> s_sessionId n' = s_sessionId n
      \<and> s_status n' = s_status n \<and> s_agent n' = s_agent n \<and> s_sandboxName n' = s_sandboxName n)"

definition checkpoint_matches :: "session \<Rightarrow> bool" where
  "checkpoint_matches n = pred_option (\<lambda>c. cp_sessionId c = s_sessionId n) (s_checkpoint n)"

lemma guard_held:
  assumes "holds env w n" "canonical_iso (s_updatedAt n)"
  shows "\<exists>w'. if checkpoint_matches n
     then guardResumeCheckpoint env w = (Inr (), w')
       \<and> (\<exists>n' c. holds env w' n' \<and> same_run n n' \<and> s_checkpoint n' = Some c \<and> checkpoint_matches n')
     else guardResumeCheckpoint env w = (Inl CorruptResumeCheckpoint, w')"
proof (cases "s_checkpoint n")
  case (Some c)
  then show ?thesis
    using assms(1) resume_checkpoint_held [OF assms(1)]
    by (auto simp: guardResumeCheckpoint_def checkpoint_matches_def same_run_def intro!: exI [of _ n])
next
  case None
  let ?w = "w\<lparr>w_tick := w_tick w + 2\<rparr>"
  let ?c = "deriveCheckpointFromSession env (reloaded env (w_tick w) n)"
  let ?f = "\<lambda>s. s\<lparr>s_checkpoint := Some ?c\<rparr>"
  have "wf_checkpoint (env_parseUrl env) ?c"
    using derived_checkpoint_wf [OF reloaded_wf [OF assms(1)]] assms(2) by simp
  then have "storable env (?f (reloaded env (w_tick ?w) n))" "plain (?f (reloaded env (w_tick ?w) n))"
    using reloaded_storable [OF assms(1)] holdsD(3) [OF assms(1)]
    by (simp_all add: plain_storable plain_def fields_ok_def)
  from update_held_eff [of env ?w n "\<lambda>s. ret (?f s)", OF _ _ this] assms(1)
  obtain t w' where w': "updateSession env (\<lambda>s. ret (?f s)) ?w =
      (Inr (stored env t (?f (reloaded env (w_tick ?w) n))), w')"
    "holds env w' (stored env t (?f (reloaded env (w_tick ?w) n)))"
    by auto
  have "checkpoint_matches (stored env t (?f (reloaded env (w_tick ?w) n)))"
    by (simp add: checkpoint_matches_def deriveCheckpointFromSession_def)
  then have "\<exists>n' c. holds env w' n' \<and> same_run n n' \<and> s_checkpoint n' = Some c \<and> checkpoint_matches n'"
    using w'(2) by (intro exI [of _ "stored env t (?f (reloaded env (w_tick ?w) n))"])
      (simp add: same_run_def)
  moreover have "guardResumeCheckpoint env w = (Inr (), w')"
    using None resume_checkpoint_held [OF assms(1)] w'(1) by (simp add: guardResumeCheckpoint_def)
  ultimately show ?thesis using None by (auto simp: checkpoint_matches_def)
qed

lemma resume_mutator_effect:
  assumes "platform_ok env" "storable env s" "plain s" "s_resumable s"
  obtains s' where "resume_mutator env input s w = (Inr s', w\<lparr>w_tick := Suc (w_tick w)\<rparr>)"
    "storable env s'" "plain s'" "\<not> isTerminalOnboardMachineState (ms_state (s_machine s'))"
    "s_status s' = ''in_progress''" "s_failure s' = None" "s_checkpoint s' = s_checkpoint s"
    "s_sessionId s' = s_sessionId s" "s_resumable s'"
proof -
  have "canonical_iso (env_clock env (w_tick w))" using assms(1) by (simp add: platform_ok_def)
  then obtain s1 plan where s1: "applySessionRecovery env (env_clock env (w_tick w)) s = Inr (s1, plan)"
    "s1\<lparr>s_machine := s_machine s\<rparr> = s" "\<not> isTerminalOnboardMachineState (ms_state (s_machine s1))"
    "storable env s1" "plain s1"
    using recovery_applies [of "env_clock env (w_tick w)" env s] assms
    by (metis closed_session_def)
  define s' where "s' = (case bi_requestedObservabilityEnabled input of
       Some b \<Rightarrow> s1\<lparr>s_observabilityEnabled := b, s_observabilityRequestedExplicitly := True\<rparr>
     | None \<Rightarrow> s1)\<lparr>s_mode := mode (bi_nonInteractive input), s_failure := None,
                   s_status := ''in_progress''\<rparr>"
  have "resume_mutator env input s w = (Inr s', w\<lparr>w_tick := Suc (w_tick w)\<rparr>)"
    by (simp add: resume_mutator_def now_def s1(1) s'_def Let_def)
  moreover have "storable env s'" "plain s'"
    using s1(4,5) by (simp_all add: plain_storable plain_def fields_ok_def s'_def split: option.splits)
  moreover have "s_machine s' = s_machine s1" "s_checkpoint s' = s_checkpoint s1"
    "s_sessionId s' = s_sessionId s1" "s_resumable s' = s_resumable s1"
    "s_status s' = ''in_progress''" "s_failure s' = None"
    by (simp_all add: s'_def split: option.splits)
  moreover have "s_checkpoint s1 = s_checkpoint s" "s_sessionId s1 = s_sessionId s"
    "s_resumable s1 = s_resumable s"
    using arg_cong [OF s1(2), of s_checkpoint] arg_cong [OF s1(2), of s_sessionId]
      arg_cong [OF s1(2), of s_resumable] by simp_all
  ultimately show thesis using that s1(3) assms(4) by simp
qed

lemma resume_update:
  assumes "holds env w n" "platform_ok env" "s_resumable n"
  obtains n' w' where "updateSession env (resume_mutator env input) w = (Inr n', w')" "holds env w' n'"
    "\<not> isTerminalOnboardMachineState (ms_state (s_machine n'))" "s_status n' = ''in_progress''"
    "s_failure n' = None" "s_checkpoint n' = s_checkpoint n" "s_sessionId n' = s_sessionId n"
    "s_resumable n'"
proof -
  obtain s' where s': "resume_mutator env input (reloaded env (w_tick w) n) (w\<lparr>w_tick := w_tick w + 2\<rparr>) =
      (Inr s', w\<lparr>w_tick := w_tick w + 3\<rparr>)"
    "storable env s'" "plain s'" "\<not> isTerminalOnboardMachineState (ms_state (s_machine s'))"
    "s_status s' = ''in_progress''" "s_failure s' = None" "s_checkpoint s' = s_checkpoint n"
    "s_sessionId s' = s_sessionId n" "s_resumable s'"
    using resume_mutator_effect [OF assms(2) reloaded_storable [OF assms(1)],
        of "w_tick w" input "w\<lparr>w_tick := w_tick w + 2\<rparr>"] holdsD(3) [OF assms(1)] assms(3)
    by (auto simp: numeral_2_eq_2 numeral_3_eq_3)
  from update_held_eff [of env w n "resume_mutator env input", OF assms(1) s'(1-3)]
  obtain w' where "updateSession env (resume_mutator env input) w = (Inr (stored env (w_tick w + 3) s'), w')"
    "holds env w' (stored env (w_tick w + 3) s')" by auto
  with that [of "stored env (w_tick w + 3) s'" w'] s'(4-) show thesis
    by (simp add: sanitizeFailure_def)
qed

lemma prepare_resume_held:
  assumes "holds env w n" "platform_ok env" "canonical_iso (s_updatedAt n)" "s_resumable n"
  obtains x w' where "prepareResumeSession env deps input w = (x, w')"
    "\<And>s from. x = Inr (s, from) \<Longrightarrow> \<exists>n' r. s = Some r \<and> holds env w' n' \<and> session_state r = session_state n'
       \<and> \<not> isTerminalOnboardMachineState (session_state n') \<and> s_status r = ''in_progress''
       \<and> s_failure n' = None \<and> s_resumable r \<and> s_sessionId r = s_sessionId n
       \<and> s_checkpoint r \<noteq> None \<and> checkpoint_matches r"
    "checkpoint_matches n \<Longrightarrow> bd_conflicts deps (reloaded env (w_tick w) n) input = [] \<Longrightarrow>
       \<not> bi_cannotPrompt input \<Longrightarrow> \<exists>s. x = Inr s"
proof -
  let ?w1 = "w\<lparr>w_tick := w_tick w + 2\<rparr>" and ?s = "reloaded env (w_tick w) n"
  have load: "loadSession env w = (Inr (Some ?s), ?w1)" using load_reloaded(1) holdsD [OF assms(1)] by simp
  obtain w2 where guard: "if checkpoint_matches n
     then guardResumeCheckpoint env ?w1 = (Inr (), w2)
       \<and> (\<exists>n' c. holds env w2 n' \<and> same_run n n' \<and> s_checkpoint n' = Some c \<and> checkpoint_matches n')
     else guardResumeCheckpoint env ?w1 = (Inl CorruptResumeCheckpoint, w2)"
    using guard_held [of env ?w1 n] assms(1,3) by auto
  show thesis
  proof (cases "checkpoint_matches n \<and> bd_conflicts deps ?s input = []")
    case False
    have never: "\<exists>e w3. exitForResumeConflicts env cs seen w = (Inl e, w3)" for cs seen and w
      by (induction cs arbitrary: seen w) (auto split: prod.splits)
    have "\<exists>e w3. prepareResumeSession env deps input w = (Inl e, w3)"
    proof (cases "checkpoint_matches n")
      case True
      then have "prepareResumeSession env deps input w = exitForResumeConflicts env (bd_conflicts deps ?s input) [] w2"
        using False guard assms(4) by (simp add: prepareResumeSession_def load Let_def)
      then show ?thesis using never by simp
    next
      case no_match: False
      then show ?thesis using guard assms(4) by (simp add: prepareResumeSession_def load)
    qed
    then show thesis using that False by blast
  next
    case True
    with guard obtain n1 where n1: "guardResumeCheckpoint env ?w1 = (Inr (), w2)" "holds env w2 n1" "same_run n n1"
      "s_checkpoint n1 \<noteq> None" "checkpoint_matches n1" by auto
    then have "s_resumable n1" using assms(4) by (simp add: same_run_def)
    from resume_update [OF n1(2) assms(2) this, of input] obtain n2 w3 where
      n2: "updateSession env (resume_mutator env input) w2 = (Inr n2, w3)" "holds env w3 n2"
      "\<not> isTerminalOnboardMachineState (ms_state (s_machine n2))" "s_status n2 = ''in_progress''"
      "s_failure n2 = None" "s_checkpoint n2 = s_checkpoint n1" "s_sessionId n2 = s_sessionId n1"
      "s_resumable n2" by blast
    let ?r = "reloaded env (w_tick w3) n2" and ?w4 = "w3\<lparr>w_tick := w_tick w3 + 2\<rparr>"
    have load2: "loadSession env w3 = (Inr (Some ?r), ?w4)"
      using load_reloaded(1) holdsD [OF n2(2)] by simp
    let ?path = "coalesce (resolve_from (bd_resolvePath deps) (bi_requestedFromDockerfile input))
        (resolve_from (bd_resolvePath deps) (md_fromDockerfile (s_metadata ?s)))"
    have run: "prepareResumeSession env deps input w =
        (case assertRecoverableResumeSandboxName (Some ?r) input of
           Inl e \<Rightarrow> (Inl e, ?w4) | Inr _ \<Rightarrow> (Inr (Some ?r, ?path), ?w4))"
      using True n1(1) n2(1) load2 assms(4)
      by (cases "assertRecoverableResumeSandboxName (Some ?r) input")
        (simp_all add: prepareResumeSession_def load Let_def bind_def)
    have "holds env ?w4 n2" using n2(2) by simp
    moreover have "\<not> bi_cannotPrompt input \<Longrightarrow> assertRecoverableResumeSandboxName (Some ?r) input = Inr ()"
      by (simp add: assertRecoverableResumeSandboxName_def Let_def)
    moreover have "checkpoint_matches ?r" "s_sessionId n2 = s_sessionId n"
      using n1(3,5) n2(6,7) by (simp_all add: checkpoint_matches_def same_run_def)
    ultimately show thesis
      using that n2(3-8) n1(4) unfolding run
      by (cases "assertRecoverableResumeSandboxName (Some ?r) input") (auto simp: session_state_def)
  qed
qed

end
