(* ===== verification/Nemo_Text.thy ===== *)
theory Nemo_Text
  imports Nemo_Prelude
begin

text \<open>
  Separated text: JavaScript's \<open>split\<close> and \<open>join\<close> for one separator character, and
  \<open>[...new Set(xs)]\<close>. The lemmas show when the two are inverse.
\<close>

fun split_on :: "char \<Rightarrow> string \<Rightarrow> string list" where
  "split_on x [] = [[]]"
| "split_on x (c # s) =
     (if c = x then [] # split_on x s
      else (case split_on x s of [] \<Rightarrow> [[c]] | p # ps \<Rightarrow> (c # p) # ps))"

fun join_with :: "char \<Rightarrow> string list \<Rightarrow> string" where
  "join_with x [] = []"
| "join_with x [p] = p"
| "join_with x (p # q # ps) = p @ x # join_with x (q # ps)"

definition free_of :: "char \<Rightarrow> string \<Rightarrow> bool" where
  "free_of x s = (x \<notin> set s)"

lemma free_of_simps [simp]:
  "free_of x []" "free_of x (c # s) \<longleftrightarrow> c \<noteq> x \<and> free_of x s" "free_of x (s @ t) \<longleftrightarrow> free_of x s \<and> free_of x t"
  by (auto simp: free_of_def)

lemma split_nonempty [simp]: "split_on x s \<noteq> []"
  by (induction s) (auto split: list.splits)

lemma join_split [simp]: "join_with x (split_on x s) = s"
proof (induction s)
  case (Cons c s)
  then show ?case
    by (cases "split_on x s"; cases "tl (split_on x s)") (auto split: list.splits)
qed simp

lemma split_free: "free_of x p \<Longrightarrow> split_on x p = [p]"
  by (induction p) auto

lemma split_append: "free_of x p \<Longrightarrow> split_on x (p @ x # s) = p # split_on x s"
  by (induction p) auto

lemma split_join: "ps \<noteq> [] \<Longrightarrow> list_all (free_of x) ps \<Longrightarrow> split_on x (join_with x ps) = ps"
  by (induction x ps rule: join_with.induct) (simp_all add: split_free split_append)

lemma join_nonempty: "ps \<noteq> [] \<Longrightarrow> [] \<notin> set ps \<Longrightarrow> join_with x ps \<noteq> []"
  by (induction x ps rule: join_with.induct) auto

definition uniq :: "'a list \<Rightarrow> 'a list" where
  "uniq xs = rev (remdups (rev xs))"

lemma uniq_simps [simp]: "set (uniq xs) = set xs" "distinct (uniq xs)"
  by (simp_all add: uniq_def)

end
