(* ===== verification/Checkpoint_Ledger.thy ===== *)
theory Checkpoint_Ledger
  imports Session_Resume Nemo_Text "HOL-Library.Multiset"
begin

text \<open>
  The ledger of external effects in the checkpoint: the recorders of
  \<open>src/lib/onboard/checkpoint-record.ts\<close> and the replay decisions of \<open>checkpoint-replay.ts\<close>.

  A receipt of a provider group names the providers it registered, joined by commas; the bindings
  list every registered provider with its credential variable. The invariant \<open>ledger_ok\<close> says that
  the receipts name registered providers, that no provider belongs to two groups and that the
  credential variables are those of the registered providers. Recording keeps it, and what was
  recorded is what the replay accepts.
\<close>

section \<open>Recording (checkpoint-record.ts)\<close>

definition and_then :: "'e + 'a \<Rightarrow> ('a \<Rightarrow> 'e + 'b) \<Rightarrow> 'e + 'b" where
  "and_then r f = (case r of Inl e \<Rightarrow> Inl e | Inr a \<Rightarrow> f a)"

lemma and_then_simps [simp]: "and_then (Inl e) f = Inl e" "and_then (Inr a) f = f a"
  by (simp_all add: and_then_def)

definition check :: "bool \<Rightarrow> 'e \<Rightarrow> 'e + unit" where
  "check b e = (if b then Inr () else Inl e)"

lemma check_simps [simp]: "check True e = Inr ()" "check False e = Inl e"
  by (simp_all add: check_def)

definition baseCheckpoint :: "session_env \<Rightarrow> session \<Rightarrow> checkpoint" where
  "baseCheckpoint env s = nullish (deriveCheckpointFromSession env s) (s_checkpoint s)"

definition clean_text :: "string \<Rightarrow> bool" where
  "clean_text s = (s \<noteq> [] \<and> trim s = s)"

definition clean_binding :: "provider_binding \<Rightarrow> bool" where
  "clean_binding b = (clean_text (pb_name b) \<and> clean_text (pb_type b) \<and> clean_text (pb_credentialEnv b))"

definition assertValidProviderBindings :: "provider_binding list \<Rightarrow> onboard_error + unit" where
  "assertValidProviderBindings bs =
     check (list_all clean_binding bs \<and> distinct (map pb_name bs)) ProviderBindingsInvalid"

definition checkpointProviderEffectGroupNames ::
  "checkpoint \<Rightarrow> effect_group_name \<Rightarrow> onboard_error + string list" where
  "checkpointProviderEffectGroupNames c grp =
     (case map_of (cp_effectGroups c) grp of
        None \<Rightarrow> Inr []
      | Some receipt \<Rightarrow>
          (let names = split_on CHR '','' (eg_fingerprint receipt) in
           if eg_fingerprint receipt = [] \<or> \<not> list_all clean_text names
              \<or> join_with CHR '','' names \<noteq> eg_fingerprint receipt \<or> \<not> distinct names
           then Inl ProviderReceiptInvalid else Inr names))"

definition stamped :: "session \<Rightarrow> string \<Rightarrow> checkpoint \<Rightarrow> checkpoint" where
  "stamped s at c = c\<lparr>cp_machineState := ms_state (s_machine s), cp_updatedAt := at\<rparr>"

definition recordCheckpointSandboxIdentity ::
  "session_env \<Rightarrow> string \<Rightarrow> session \<Rightarrow> string \<Rightarrow> string \<Rightarrow> session" where
  "recordCheckpointSandboxIdentity env at s name agent =
     s\<lparr>s_checkpoint := Some ((stamped s at (baseCheckpoint env s))
         \<lparr>cp_sandboxIdentity := decisionSelected \<lparr>si_name = name, si_agent = agent\<rparr>\<rparr>)\<rparr>"

definition recordCheckpointEffectGroup ::
  "session_env \<Rightarrow> string \<Rightarrow> session \<Rightarrow> effect_group_name \<Rightarrow> string \<Rightarrow> session" where
  "recordCheckpointEffectGroup env at s grp fingerprint =
     s\<lparr>s_checkpoint := Some ((stamped s at (baseCheckpoint env s))
         \<lparr>cp_effectGroups := alist_set grp \<lparr>eg_completedAt = at, eg_fingerprint = fingerprint\<rparr>
            (cp_effectGroups (baseCheckpoint env s))\<rparr>)\<rparr>"

definition recordCheckpointWebSearch ::
  "session_env \<Rightarrow> string \<Rightarrow> session \<Rightarrow> web_search_config option \<Rightarrow> session" where
  "recordCheckpointWebSearch env at s config =
     s\<lparr>s_checkpoint := Some ((stamped s at (baseCheckpoint env s))
         \<lparr>cp_webSearch := (case config of Some c \<Rightarrow> decisionSelected c | None \<Rightarrow> decisionDeclined)\<rparr>)\<rparr>"

definition recordCheckpointMessaging ::
  "session_env \<Rightarrow> string \<Rightarrow> session \<Rightarrow> js option \<Rightarrow> session" where
  "recordCheckpointMessaging env at s plan =
     s\<lparr>s_checkpoint := Some ((stamped s at (baseCheckpoint env s))
         \<lparr>cp_messaging :=
            (case plan of
               Some p \<Rightarrow> decisionSelected \<lparr>ms_selectedChannels = env_activeChannels env (Some p),
                                          ms_disabledChannels = env_disabledChannels env (Some p)\<rparr>
             | None \<Rightarrow> decisionDeclined)\<rparr>)\<rparr>"

definition recordCheckpointResourceProfile ::
  "session_env \<Rightarrow> string \<Rightarrow> session \<Rightarrow> resource_profile option \<Rightarrow> session" where
  "recordCheckpointResourceProfile env at s profile =
     s\<lparr>s_checkpoint := Some ((stamped s at (baseCheckpoint env s))
         \<lparr>cp_resourceProfile :=
            (case profile of Some p \<Rightarrow> decisionSelected p | None \<Rightarrow> decisionDeclined)\<rparr>)\<rparr>"

definition receipt_for :: "string \<Rightarrow> provider_binding list \<Rightarrow> effect_group_record" where
  "receipt_for at bs = \<lparr>eg_completedAt = at, eg_fingerprint = join_with CHR '','' (map pb_name bs)\<rparr>"

definition with_receipt ::
  "string \<Rightarrow> effect_group_name \<Rightarrow> provider_binding list
     \<Rightarrow> (effect_group_name \<times> effect_group_record) list \<Rightarrow> (effect_group_name \<times> effect_group_record) list" where
  "with_receipt at grp bs groups =
     (if bs \<noteq> [] then alist_set grp (receipt_for at bs) groups
      else filter (\<lambda>g. fst g \<noteq> grp) groups)"

definition recordCheckpointProviderEffectGroups ::
  "session_env \<Rightarrow> string \<Rightarrow> session \<Rightarrow> provider_binding list \<Rightarrow> provider_binding list
     \<Rightarrow> onboard_error + session" where
  "recordCheckpointProviderEffectGroups env at s webSearch messaging =
     (let base = baseCheckpoint env s;
          nextRegistered = webSearch @ messaging;
          others = filter (\<lambda>g. fst g \<noteq> WebSearchProvider \<and> fst g \<noteq> MessagingProviders)
                     (cp_effectGroups base)
      in and_then (assertValidProviderBindings nextRegistered) (\<lambda>_.
         Inr (s\<lparr>s_checkpoint := Some ((stamped s at base)
                 \<lparr>cp_effectGroups := with_receipt at MessagingProviders messaging
                    (with_receipt at WebSearchProvider webSearch others),
                  cp_bindings := \<lparr>cb_credentialEnvs = uniq (map pb_credentialEnv nextRegistered),
                                 cb_registeredProviders = nextRegistered\<rparr>\<rparr>)\<rparr>)))"

definition other_group :: "effect_group_name \<Rightarrow> effect_group_name" where
  "other_group grp = (if grp = WebSearchProvider then MessagingProviders else WebSearchProvider)"

text \<open>The update once ownership is settled: \<open>bs\<close> takes the place of the names \<open>previous\<close>.\<close>

definition replace_group ::
  "string \<Rightarrow> session \<Rightarrow> checkpoint \<Rightarrow> effect_group_name \<Rightarrow> string list \<Rightarrow> string list
     \<Rightarrow> provider_binding list \<Rightarrow> onboard_error + session" where
  "replace_group at s base grp previous other bs =
     (let recorded = cb_registeredProviders (cp_bindings base);
          previousBindings = filter (\<lambda>b. pb_name b \<in> set previous) recorded;
          adopted = filter (\<lambda>b. pb_name b \<notin> set previous \<and> pb_name b \<notin> set other
                             \<and> pb_name b \<in> set (map pb_name bs)) recorded;
          remaining = filter (\<lambda>b. pb_name b \<notin> set previous
                               \<and> pb_name b \<notin> set (map pb_name adopted)) recorded;
          nextRegistered = remaining @ bs;
          replaced = map pb_credentialEnv (previousBindings @ adopted)
      in and_then (assertValidProviderBindings nextRegistered) (\<lambda>_.
         Inr (s\<lparr>s_checkpoint := Some ((stamped s at base)
                 \<lparr>cp_effectGroups := with_receipt at grp bs (cp_effectGroups base),
                  cp_bindings :=
                    \<lparr>cb_credentialEnvs =
                       uniq (filter (\<lambda>e. e \<notin> set replaced) (cb_credentialEnvs (cp_bindings base))
                             @ map pb_credentialEnv nextRegistered),
                     cb_registeredProviders = nextRegistered\<rparr>\<rparr>)\<rparr>)))"

definition recordCheckpointProviderEffectGroup ::
  "session_env \<Rightarrow> string \<Rightarrow> session \<Rightarrow> effect_group_name \<Rightarrow> provider_binding list
     \<Rightarrow> onboard_error + session" where
  "recordCheckpointProviderEffectGroup env at s grp bs =
     and_then (assertValidProviderBindings bs) (\<lambda>_.
     (let base = baseCheckpoint env s; recorded = cb_registeredProviders (cp_bindings base) in
     and_then (assertValidProviderBindings recorded) (\<lambda>_.
     and_then (checkpointProviderEffectGroupNames base grp) (\<lambda>previous.
     and_then (checkpointProviderEffectGroupNames base (other_group grp)) (\<lambda>other.
     and_then (check (distinct (previous @ other)) ProviderOwnershipConflicting) (\<lambda>_.
     and_then (check (set (previous @ other) \<subseteq> set (map pb_name recorded))
                 ProviderReceiptUnmatched) (\<lambda>_.
     and_then (check (\<not> list_ex (\<lambda>b. pb_name b \<in> set other) bs) ProviderGroupConflict) (\<lambda>_.
     replace_group at s base grp previous other bs))))))))"

section \<open>Replay (checkpoint-replay.ts)\<close>

definition checkpointSandboxIdentityMatches :: "session option \<Rightarrow> string \<Rightarrow> bool" where
  "checkpointSandboxIdentityMatches session sandboxName =
     (case session of
        None \<Rightarrow> False
      | Some s \<Rightarrow>
          (case s_checkpoint s of
             Some c \<Rightarrow> (case cp_sandboxIdentity c of
                           Selected i \<Rightarrow> si_name i = sandboxName | _ \<Rightarrow> False)
           | None \<Rightarrow> pp_sandboxName (s_sandboxPromptProgress s) \<and> s_sandboxName s = Some sandboxName))"

datatype replay_decision =
    ReplayNotRecorded | ReplayPostconditionFailed | ReplayFingerprintMismatch
  | SkipAlreadyComplete

definition planEffectGroupReplay ::
  "checkpoint \<Rightarrow> effect_group_name \<Rightarrow> string option \<Rightarrow> replay_decision" where
  "planEffectGroupReplay c grp observed =
     (case map_of (cp_effectGroups c) grp of
        None \<Rightarrow> ReplayNotRecorded
      | Some r \<Rightarrow>
          if \<not> truthy observed then ReplayPostconditionFailed
          else if observed \<noteq> Some (eg_fingerprint r) then ReplayFingerprintMismatch
          else SkipAlreadyComplete)"

definition by_name :: "provider_binding list \<Rightarrow> string \<Rightarrow> provider_binding option" where
  "by_name bs = map_of (rev (map (\<lambda>b. (pb_name b, b)) bs))"

definition same_provider :: "(provider_binding \<Rightarrow> bool) \<Rightarrow> provider_binding option \<Rightarrow> provider_binding option \<Rightarrow> bool" where
  "same_provider bindingMatches binding required =
     (case (binding, required) of
        (Some b, Some r) \<Rightarrow>
          pb_type b = pb_type r \<and> pb_credentialEnv b = pb_credentialEnv r \<and> bindingMatches b
      | _ \<Rightarrow> False)"

definition observeProviderEffectFingerprint ::
  "checkpoint \<Rightarrow> effect_group_name \<Rightarrow> provider_binding list \<Rightarrow> (provider_binding \<Rightarrow> bool) \<Rightarrow> string option" where
  "observeProviderEffectFingerprint c grp required bindingMatches =
     (case map_of (cp_effectGroups c) grp of
        None \<Rightarrow> None
      | Some r \<Rightarrow>
          (let fingerprint = eg_fingerprint r;
               names = filter (\<lambda>n. n \<noteq> []) (split_on CHR '','' fingerprint);
               receiptBindings =
                 filter (\<lambda>b. pb_name b \<in> set names) (cb_registeredProviders (cp_bindings c))
           in if fingerprint = [] \<or> names = [] \<or> join_with CHR '','' names \<noteq> fingerprint
                 \<or> length names \<noteq> length required
              then None
              else if \<not> distinct names \<or> \<not> distinct (map pb_name required) then None
              else if length receiptBindings \<noteq> length names then None
              else if \<not> list_all (\<lambda>n. same_provider bindingMatches (by_name receiptBindings n) (by_name required n))
                        names
              then None
              else Some fingerprint))"

datatype create_replay = ReuseSandbox sandbox_identity | CreateSandbox sandbox_identity | CaptureIdentityFirst

definition planSandboxCreateReplay :: "checkpoint \<Rightarrow> bool \<Rightarrow> create_replay" where
  "planSandboxCreateReplay c liveSandboxExists =
     (case decisionValue (cp_sandboxIdentity c) of
        None \<Rightarrow> CaptureIdentityFirst
      | Some i \<Rightarrow> if liveSandboxExists then ReuseSandbox i else CreateSandbox i)"

section \<open>The name of the sandbox (session-bootstrap.ts)\<close>

definition is_openclaw :: "string option \<Rightarrow> bool" where
  "is_openclaw agent = (\<not> truthy agent \<or> agent = Some ''openclaw'')"

definition record_sandbox_name :: "session_env \<Rightarrow> string \<Rightarrow> string \<Rightarrow> string option \<Rightarrow> session \<Rightarrow> session" where
  "record_sandbox_name env at sandboxName agent s =
     recordCheckpointSandboxIdentity env at
       (s\<lparr>s_sandboxName := Some sandboxName,
          s_sandboxPromptProgress := (s_sandboxPromptProgress s)\<lparr>pp_sandboxName := True\<rparr>\<rparr>)
       sandboxName (nullish ''openclaw'' (coalesce (s_agent s) agent))"

definition checkpointSandboxName :: "session_env \<Rightarrow> string \<Rightarrow> string option \<Rightarrow> unit onboard" where
  "checkpointSandboxName env sandboxName agent =
     (if \<not> is_openclaw agent then ret ()
      else bind (updateSession env (\<lambda>s. bind (now env) (\<lambda>at. ret (record_sandbox_name env at sandboxName agent s))))
             (\<lambda>_. ret ()))"

definition getCheckpointedSandboxName :: "bool \<Rightarrow> string option \<Rightarrow> session option \<Rightarrow> string option" where
  "getCheckpointedSandboxName resume agent session =
     (if \<not> resume then None
      else case session of
             None \<Rightarrow> None
           | Some s \<Rightarrow>
               (case s_checkpoint s of
                  Some c \<Rightarrow> selected_name c
                | None \<Rightarrow>
                    if is_openclaw agent \<and> pp_sandboxName (s_sandboxPromptProgress s) then s_sandboxName s else None))"

lemma recorded_name_found:
  "getCheckpointedSandboxName True agent (Some (record_sandbox_name env at name agent s)) = Some name"
  "checkpointSandboxIdentityMatches (Some (record_sandbox_name env at name agent s)) other \<longleftrightarrow> other = name"
  by (auto simp: getCheckpointedSandboxName_def record_sandbox_name_def recordCheckpointSandboxIdentity_def
      selected_name_def checkpointSandboxIdentityMatches_def decisionSelected_def)

section \<open>The ledger invariant\<close>

definition provider_group :: "effect_group_name \<Rightarrow> bool" where
  "provider_group grp = (grp = WebSearchProvider \<or> grp = MessagingProviders)"

definition registered :: "checkpoint \<Rightarrow> provider_binding list" where
  "registered c = cb_registeredProviders (cp_bindings c)"

definition group_names :: "checkpoint \<Rightarrow> effect_group_name \<Rightarrow> string list" where
  "group_names c grp = (case checkpointProviderEffectGroupNames c grp of Inr ns \<Rightarrow> ns | Inl _ \<Rightarrow> [])"

definition valid_providers :: "provider_binding list \<Rightarrow> bool" where
  "valid_providers bs = (list_all clean_binding bs \<and> distinct (map pb_name bs))"

definition ledger_ok :: "checkpoint \<Rightarrow> bool" where
  "ledger_ok c =
     (valid_providers (registered c)
      \<and> checkpointProviderEffectGroupNames c WebSearchProvider = Inr (group_names c WebSearchProvider)
      \<and> checkpointProviderEffectGroupNames c MessagingProviders = Inr (group_names c MessagingProviders)
      \<and> distinct (group_names c WebSearchProvider @ group_names c MessagingProviders)
      \<and> set (group_names c WebSearchProvider @ group_names c MessagingProviders)
          \<subseteq> set (map pb_name (registered c))
      \<and> set (cb_credentialEnvs (cp_bindings c)) = set (map pb_credentialEnv (registered c)))"

lemma valid_providers_check [simp]:
  "assertValidProviderBindings bs = (if valid_providers bs then Inr () else Inl ProviderBindingsInvalid)"
  by (simp add: assertValidProviderBindings_def check_def valid_providers_def)

lemma derived_ledger: "ledger_ok (deriveCheckpointFromSession env s)"
  by (simp add: ledger_ok_def deriveCheckpointFromSession_def registered_def valid_providers_def
      group_names_def checkpointProviderEffectGroupNames_def)

lemma group_names_cong:
  "map_of (cp_effectGroups c) grp = map_of (cp_effectGroups c') grp \<Longrightarrow>
     checkpointProviderEffectGroupNames c grp = checkpointProviderEffectGroupNames c' grp"
  by (simp add: checkpointProviderEffectGroupNames_def)

lemma filter_lookup [simp]:
  "map_of (filter (\<lambda>p. fst p \<noteq> k) xs) j = (if j = k then None else map_of xs j)"
  by (induction xs) auto

lemma with_receipt_lookup [simp]:
  "map_of (with_receipt at grp bs gs) g =
     (if g = grp then (if bs = [] then None else Some (receipt_for at bs)) else map_of gs g)"
  by (simp add: with_receipt_def)

lemma names_recorded:
  assumes "map_of (cp_effectGroups c) grp = (if bs = [] then None else Some (receipt_for at bs))"
    "valid_providers bs" "list_all (free_of CHR '','') (map pb_name bs)"
  shows "checkpointProviderEffectGroupNames c grp = Inr (map pb_name bs)"
proof (cases "bs = []")
  case False
  have "list_all clean_text (map pb_name bs)"
    using assms(2) by (auto simp: valid_providers_def clean_binding_def list_all_iff)
  moreover from this have "join_with CHR '','' (map pb_name bs) \<noteq> []"
    using False by (intro join_nonempty) (auto simp: list_all_iff clean_text_def)
  ultimately show ?thesis
    using False assms split_join [of "map pb_name bs" "CHR '',''"]
    by (simp add: checkpointProviderEffectGroupNames_def receipt_for_def Let_def valid_providers_def)
qed (use assms(1) in \<open>simp add: checkpointProviderEffectGroupNames_def\<close>)

section \<open>What recording a group does\<close>

text \<open>The registered providers after a group with bindings \<open>bs\<close> took the place of the names \<open>previous\<close>.\<close>

definition kept_providers :: "string list \<Rightarrow> provider_binding list \<Rightarrow> provider_binding list \<Rightarrow> provider_binding list"
  where
  "kept_providers previous bs recorded =
     filter (\<lambda>b. pb_name b \<notin> set previous \<and> pb_name b \<notin> set (map pb_name bs)) recorded"

lemma kept_valid:
  assumes "valid_providers recorded" "valid_providers bs"
  shows "valid_providers (kept_providers previous bs recorded @ bs)"
  using assms by (auto simp: valid_providers_def kept_providers_def list_all_iff distinct_map inj_on_def)

lemma kept_names:
  "set (map pb_name (kept_providers previous bs recorded)) =
     set (map pb_name recorded) - set previous - set (map pb_name bs)"
  by (auto simp: kept_providers_def)

lemma adopted_remaining:
  assumes "set (map pb_name bs) \<inter> set other = {}"
  shows "filter (\<lambda>b. pb_name b \<notin> set previous \<and>
       pb_name b \<notin> set (map pb_name (filter (\<lambda>b. pb_name b \<notin> set previous \<and> pb_name b \<notin> set other
         \<and> pb_name b \<in> set (map pb_name bs)) recorded))) recorded
     = kept_providers previous bs recorded"
  unfolding kept_providers_def using assms by (intro filter_cong) auto

lemma kept_or_replaced:
  assumes "set (map pb_name bs) \<inter> set other = {}" "b \<in> set recorded"
    "pb_credentialEnv b \<notin> set (map pb_credentialEnv (filter (\<lambda>b. pb_name b \<in> set previous) recorded
       @ filter (\<lambda>b. pb_name b \<notin> set previous \<and> pb_name b \<notin> set other \<and> pb_name b \<in> set (map pb_name bs)) recorded))"
  shows "b \<in> set (kept_providers previous bs recorded)"
proof -
  have "pb_name b \<notin> set previous" using assms(2,3) by auto
  moreover from this have "pb_name b \<notin> set (map pb_name bs)" using assms by auto
  ultimately show ?thesis using assms(2) by (simp add: kept_providers_def)
qed

definition recorded_checkpoint ::
  "string \<Rightarrow> session \<Rightarrow> checkpoint \<Rightarrow> effect_group_name \<Rightarrow> provider_binding list \<Rightarrow> checkpoint \<Rightarrow> bool" where
  "recorded_checkpoint at s base grp bs c =
     (map_of (cp_effectGroups c) = (map_of (cp_effectGroups base))
        (grp := (if bs = [] then None else Some (receipt_for at bs)))
      \<and> registered c = kept_providers (group_names base grp) bs (registered base) @ bs
      \<and> cp_sandboxIdentity c = cp_sandboxIdentity base \<and> cp_sessionId c = cp_sessionId base
      \<and> cp_machineState c = ms_state (s_machine s) \<and> cp_updatedAt c = at)"

lemma ledger_names:
  assumes "ledger_ok c" "provider_group grp"
  shows "checkpointProviderEffectGroupNames c grp = Inr (group_names c grp)"
    "checkpointProviderEffectGroupNames c (other_group grp) = Inr (group_names c (other_group grp))"
    "distinct (group_names c grp @ group_names c (other_group grp))"
    "set (group_names c grp @ group_names c (other_group grp)) \<subseteq> set (map pb_name (registered c))"
  using assms by (auto simp: ledger_ok_def provider_group_def other_group_def)

lemma ledgerI:
  assumes "provider_group grp" "valid_providers (registered c)"
    "checkpointProviderEffectGroupNames c grp = Inr ns"
    "checkpointProviderEffectGroupNames c (other_group grp) = Inr os"
    "distinct (ns @ os)" "set (ns @ os) \<subseteq> set (map pb_name (registered c))"
    "set (cb_credentialEnvs (cp_bindings c)) = set (map pb_credentialEnv (registered c))"
  shows "ledger_ok c"
  using assms by (auto simp: ledger_ok_def group_names_def provider_group_def other_group_def)

lemma record_group_steps:
  assumes "provider_group grp" "ledger_ok (baseCheckpoint env s)" "valid_providers bs"
  shows "recordCheckpointProviderEffectGroup env at s grp bs =
     (if list_ex (\<lambda>b. pb_name b \<in> set (group_names (baseCheckpoint env s) (other_group grp))) bs
      then Inl ProviderGroupConflict
      else replace_group at s (baseCheckpoint env s) grp (group_names (baseCheckpoint env s) grp)
             (group_names (baseCheckpoint env s) (other_group grp)) bs)"
proof -
  note l = ledger_names [OF assms(2,1)]
  have "valid_providers (cb_registeredProviders (cp_bindings (baseCheckpoint env s)))"
    using assms(2) by (simp add: ledger_ok_def registered_def)
  then show ?thesis
    using assms(3) l by (simp add: recordCheckpointProviderEffectGroup_def Let_def registered_def)
qed

lemma record_group_effect:
  fixes s :: session
  assumes "provider_group grp" "ledger_ok (baseCheckpoint env s)" "valid_providers bs"
    "list_all (free_of CHR '','') (map pb_name bs)"
    "set (map pb_name bs) \<inter> set (group_names (baseCheckpoint env s) (other_group grp)) = {}"
  obtains c where "recordCheckpointProviderEffectGroup env at s grp bs = Inr (s\<lparr>s_checkpoint := Some c\<rparr>)"
    "recorded_checkpoint at s (baseCheckpoint env s) grp bs c" "ledger_ok c"
proof -
  let ?base = "baseCheckpoint env s"
  let ?P = "group_names ?base grp" and ?O = "group_names ?base (other_group grp)"
  let ?R = "registered ?base"
  let ?adopted = "filter (\<lambda>b. pb_name b \<notin> set ?P \<and> pb_name b \<notin> set ?O \<and> pb_name b \<in> set (map pb_name bs)) ?R"
  let ?replaced = "map pb_credentialEnv (filter (\<lambda>b. pb_name b \<in> set ?P) ?R @ ?adopted)"
  let ?next = "kept_providers ?P bs ?R @ bs"
  let ?envs = "uniq (filter (\<lambda>e. e \<notin> set ?replaced) (cb_credentialEnvs (cp_bindings ?base))
                 @ map pb_credentialEnv ?next)"
  define c where "c = (stamped s at ?base)
      \<lparr>cp_effectGroups := with_receipt at grp bs (cp_effectGroups ?base),
       cp_bindings := \<lparr>cb_credentialEnvs = ?envs, cb_registeredProviders = ?next\<rparr>\<rparr>"
  note l = ledger_names [OF assms(2,1)]
  have R: "valid_providers ?R"
    and E: "set (cb_credentialEnvs (cp_bindings ?base)) = set (map pb_credentialEnv ?R)"
    using assms(2) by (simp_all add: ledger_ok_def)
  have next_ok: "valid_providers ?next" by (rule kept_valid [OF R assms(3)])
  have "replace_group at s ?base grp ?P ?O bs = Inr (s\<lparr>s_checkpoint := Some c\<rparr>)"
    using next_ok unfolding replace_group_def Let_def
    by (simp only: adopted_remaining [OF assms(5)] registered_def [symmetric] valid_providers_check
        if_True and_then_simps c_def)
  moreover have "\<not> list_ex (\<lambda>b. pb_name b \<in> set ?O) bs"
    using assms(5) by (auto simp: list_ex_iff)
  ultimately have "recordCheckpointProviderEffectGroup env at s grp bs = Inr (s\<lparr>s_checkpoint := Some c\<rparr>)"
    by (simp only: record_group_steps [OF assms(1-3)] if_False)
  moreover have "recorded_checkpoint at s ?base grp bs c"
    by (auto simp: recorded_checkpoint_def c_def registered_def stamped_def fun_eq_iff)
  moreover have "ledger_ok c"
  proof (rule ledgerI [OF assms(1)])
    show "valid_providers (registered c)" using next_ok by (simp add: c_def registered_def)
    show "checkpointProviderEffectGroupNames c grp = Inr (map pb_name bs)"
      by (rule names_recorded [OF _ assms(3,4), of _ _ at]) (simp add: c_def)
    have "grp \<noteq> other_group grp" using assms(1) by (auto simp: provider_group_def other_group_def)
    then show "checkpointProviderEffectGroupNames c (other_group grp) = Inr ?O"
      using l(2) group_names_cong [of c "other_group grp" ?base] by (simp add: c_def)
    show "distinct (map pb_name bs @ ?O)"
      using assms(3,5) l(3) by (auto simp: valid_providers_def)
    show "set (map pb_name bs @ ?O) \<subseteq> set (map pb_name (registered c))"
      using l(3,4) assms(5) kept_names [of ?P bs ?R] by (auto simp: c_def registered_def)
    have "set (filter (\<lambda>e. e \<notin> set ?replaced) (map pb_credentialEnv ?R))
        \<subseteq> set (map pb_credentialEnv (kept_providers ?P bs ?R))"
      using kept_or_replaced [OF assms(5), of _ ?R ?P] by fastforce
    then show "set (cb_credentialEnvs (cp_bindings c)) = set (map pb_credentialEnv (registered c))"
      using E by (auto simp: c_def registered_def)
  qed
  ultimately show thesis by (rule that)
qed

section \<open>What the replay sees of a recorded group\<close>

lemma by_name_iff: "distinct (map pb_name bs) \<Longrightarrow> by_name bs n = Some b \<longleftrightarrow> b \<in> set bs \<and> pb_name b = n"
  unfolding by_name_def
  by (subst map_of_eq_Some_iff) (auto simp: rev_map [symmetric] o_def)

lemma same_provider_found:
  assumes "distinct (map pb_name bs)" "distinct (map pb_name required)" "b \<in> set bs"
  shows "same_provider ok (by_name bs (pb_name b)) (by_name required (pb_name b)) \<longleftrightarrow>
     b \<in> set required \<and> ok b"
proof -
  have b: "by_name bs (pb_name b) = Some b" using assms(1,3) by (simp add: by_name_iff)
  show ?thesis
  proof (cases "by_name required (pb_name b)")
    case None
    then have "b \<notin> set required" using by_name_iff [OF assms(2), of "pb_name b" b] by auto
    with None show ?thesis by (simp add: same_provider_def b)
  next
    case (Some r)
    then have r: "r \<in> set required" "pb_name r = pb_name b" using assms(2) by (simp_all add: by_name_iff)
    have "pb_type b = pb_type r \<and> pb_credentialEnv b = pb_credentialEnv r \<longleftrightarrow> b = r"
      using r(2) by (auto intro: provider_binding.equality)
    moreover have "b \<in> set required \<longleftrightarrow> b = r" using by_name_iff [OF assms(2), of "pb_name b" b] Some r by auto
    ultimately show ?thesis by (auto simp: same_provider_def b Some)
  qed
qed

lemma mset_eq_by_subset:
  assumes "distinct xs" "distinct ys" "length xs = length ys"
  shows "set xs \<subseteq> set ys \<longleftrightarrow> mset ys = mset xs"
proof
  assume "set xs \<subseteq> set ys"
  then have "set xs = set ys"
    using assms by (intro card_subset_eq) (simp_all add: distinct_card)
  then show "mset ys = mset xs" using assms by (simp add: set_eq_iff_mset_eq_distinct)
qed (auto dest: mset_eq_setD)

lemma filter_own_names:
  assumes "distinct (map pb_name (xs @ bs))"
  shows "filter (\<lambda>b. pb_name b \<in> set (map pb_name bs)) (xs @ bs) = bs"
proof -
  have "filter (\<lambda>b. pb_name b \<in> set (map pb_name bs)) xs = []"
    using assms by (auto simp: filter_empty_conv)
  moreover have "filter (\<lambda>b. pb_name b \<in> set (map pb_name bs)) bs = bs" by (simp add: filter_id_conv)
  ultimately show ?thesis by simp
qed

lemma observe_recorded:
  assumes "map_of (cp_effectGroups c) grp = Some (receipt_for at bs)" "bs \<noteq> []"
    "cb_registeredProviders (cp_bindings c) = kept @ bs" "valid_providers (kept @ bs)"
    "list_all (free_of CHR '','') (map pb_name bs)"
  shows "observeProviderEffectFingerprint c grp required ok =
     (if mset required = mset bs \<and> list_all ok bs then Some (join_with CHR '','' (map pb_name bs)) else None)"
proof -
  let ?names = "map pb_name bs"
  have d: "distinct ?names" and clean: "list_all clean_text ?names"
    using assms(4) by (auto simp: valid_providers_def clean_binding_def list_all_iff)
  then have nonempty: "\<forall>b\<in>set bs. pb_name b \<noteq> []" by (simp add: list_all_iff clean_text_def)
  then have full: "join_with CHR '','' ?names \<noteq> []" "filter (\<lambda>n. n \<noteq> []) ?names = ?names"
    using join_nonempty [of ?names "CHR '',''"] assms(2) by (fastforce simp: filter_id_conv)+
  note split = split_join [of ?names "CHR '',''"]
  have own: "filter (\<lambda>b. pb_name b \<in> set ?names) (kept @ bs) = bs"
    using assms(4) by (intro filter_own_names) (simp add: valid_providers_def)
  let ?ok = "list_all (\<lambda>n. same_provider ok (by_name bs n) (by_name required n)) ?names"
  have "observeProviderEffectFingerprint c grp required ok =
      (if length bs = length required \<and> distinct (map pb_name required) \<and> ?ok
       then Some (join_with CHR '','' ?names) else None)"
    using assms(1,2,5) full d split own
    by (simp add: observeProviderEffectFingerprint_def receipt_for_def Let_def assms(3))
  moreover have "?ok \<longleftrightarrow> set bs \<subseteq> set required \<and> list_all ok bs" if "distinct (map pb_name required)"
    using same_provider_found [OF d that] by (auto simp: list_all_iff)
  moreover have "mset required = mset bs \<Longrightarrow> length bs = length required"
    "mset required = mset bs \<Longrightarrow> distinct (map pb_name required)"
    using d by (metis size_mset, metis mset_eq_imp_distinct_iff mset_map)
  ultimately show ?thesis
    using mset_eq_by_subset [of bs required] d by (auto simp: distinct_map)
qed

text \<open>A recorded group is skipped by exactly the runs that require its providers and still find them.\<close>

lemma replay_recorded:
  assumes "recorded_checkpoint at s base grp bs c" "ledger_ok c" "valid_providers bs" "bs \<noteq> []"
    "list_all (free_of CHR '','') (map pb_name bs)"
  shows "planEffectGroupReplay c grp (observeProviderEffectFingerprint c grp required ok) =
    (if mset required = mset bs \<and> list_all ok bs then SkipAlreadyComplete else ReplayPostconditionFailed)"
proof -
  have r: "map_of (cp_effectGroups c) grp = Some (receipt_for at bs)"
    using assms(1,4) by (simp add: recorded_checkpoint_def)
  obtain kept where k: "cb_registeredProviders (cp_bindings c) = kept @ bs" "valid_providers (kept @ bs)"
    using assms(1,2) by (auto simp: recorded_checkpoint_def ledger_ok_def registered_def)
  have "[] \<notin> set (map pb_name bs)"
    using assms(3) by (auto simp: valid_providers_def list_all_iff clean_binding_def clean_text_def)
  then have "join_with CHR '','' (map pb_name bs) \<noteq> []" using assms(4) by (intro join_nonempty) auto
  then show ?thesis
    by (simp add: observe_recorded [OF r assms(4) k assms(5)] planEffectGroupReplay_def r receipt_for_def)
qed

end
