(* ===== verification/Private_Networks.thy ===== *)
theory Private_Networks
  imports Checkpoint Nemo_Text "HOL-Library.Word"
begin

text \<open>
  The guard against requests to internal networks: the block list of the command line
  (\<open>src/lib/private-networks.ts\<close>) and of the plugin
  (\<open>nemoclaw/src/blueprint/private-networks.ts\<close>), the shared table
  \<open>nemoclaw-blueprint/private-networks.yaml\<close>, and the validation of endpoint URLs
  (\<open>nemoclaw/src/blueprint/ssrf.ts\<close>).

  Addresses are machine words. \<open>isIP\<close> and \<open>BlockList\<close> of \<open>node:net\<close> are modelled as far as the
  code uses them: literals without an octal or hexadecimal form, one \<open>::\<close> per IPv6 literal, an
  optional dotted tail, an optional zone, and IPv4 addresses that are matched as their IPv4-mapped
  IPv6 form. The YAML parser, the URL parser and the DNS resolver are
  arguments.
\<close>

section \<open>IP literals (node:net)\<close>

datatype ip = IPv4 "32 word" | IPv6 "128 word"

definition octet :: "string \<Rightarrow> nat option" where
  "octet s =
     (if s = [] \<or> length s > 3 \<or> (length s > 1 \<and> hd s = CHR ''0'') then None
      else case digits_value 0 s of
             Some n \<Rightarrow> if n \<le> 255 then Some n else None
           | None \<Rightarrow> None)"

definition octets_value :: "nat \<Rightarrow> nat \<Rightarrow> nat \<Rightarrow> nat \<Rightarrow> nat" where
  "octets_value a b c d = ((a * 256 + b) * 256 + c) * 256 + d"

definition parse_ipv4 :: "string \<Rightarrow> nat option" where
  "parse_ipv4 s =
     (case map octet (split_on CHR ''.'' s) of
        [Some a, Some b, Some c, Some d] \<Rightarrow> Some (octets_value a b c d)
      | _ \<Rightarrow> None)"

definition hex_digit :: "char \<Rightarrow> nat" where
  "hex_digit c =
     (if is_digit c then code c - 48
      else if is_lower_hex c then code c - 87 else code c - 55)"

definition hextet :: "string \<Rightarrow> nat option" where
  "hextet s =
     (if s = [] \<or> length s > 4 \<or> \<not> list_all is_hex s then None
      else Some (foldl (\<lambda>n c. n * 16 + hex_digit c) 0 s))"

text \<open>One side of an IPv6 literal: the groups between single colons, a dotted tail only at the end.\<close>

fun parse_groups :: "bool \<Rightarrow> string list \<Rightarrow> nat list option" where
  "parse_groups tail [] = Some []"
| "parse_groups tail [g] =
     (case hextet g of
        Some n \<Rightarrow> Some [n]
      | None \<Rightarrow>
          if tail then (case parse_ipv4 g of Some v \<Rightarrow> Some [v div 65536, v mod 65536] | None \<Rightarrow> None)
          else None)"
| "parse_groups tail (g # h # gs) =
     (case (hextet g, parse_groups tail (h # gs)) of
        (Some n, Some ns) \<Rightarrow> Some (n # ns) | _ \<Rightarrow> None)"

definition side_groups :: "bool \<Rightarrow> string \<Rightarrow> nat list option" where
  "side_groups tail s = (if s = [] then Some [] else parse_groups tail (split_on CHR '':'' s))"

text \<open>The text before and after the first \<open>::\<close>.\<close>

fun cut_double_colon :: "string \<Rightarrow> (string \<times> string) option" where
  "cut_double_colon (a # b # s) =
     (if a = CHR '':'' \<and> b = CHR '':'' then Some ([], s)
      else map_option (\<lambda>(l, r). (a # l, r)) (cut_double_colon (b # s)))"
| "cut_double_colon _ = None"

definition groups_value :: "nat list \<Rightarrow> nat" where
  "groups_value gs = foldl (\<lambda>n g. n * 65536 + g) 0 gs"

definition parse_ipv6 :: "string \<Rightarrow> nat option" where
  "parse_ipv6 s =
     (case cut_double_colon s of
        None \<Rightarrow>
          (case side_groups True s of
             Some gs \<Rightarrow> if length gs = 8 then Some (groups_value gs) else None
           | None \<Rightarrow> None)
      | Some (l, r) \<Rightarrow>
          (case (side_groups False l, side_groups True r) of
             (Some ls, Some rs) \<Rightarrow>
               if length ls + length rs \<le> 7
               then Some (groups_value (ls @ replicate (8 - length ls - length rs) 0 @ rs)) else None
           | _ \<Rightarrow> None))"

definition is_zone_char :: "char \<Rightarrow> bool" where
  "is_zone_char c = (is_digit c \<or> is_lower c \<or> is_upper c \<or> c \<in> set ''-.:'')"

text \<open>A zone may follow an IPv6 literal; it does not take part in the comparison of addresses.\<close>

definition zoned_ipv6 :: "string \<Rightarrow> nat option" where
  "zoned_ipv6 s =
     (case split_on CHR ''%'' s of
        [address] \<Rightarrow> parse_ipv6 address
      | [address, zone] \<Rightarrow>
          if zone \<noteq> [] \<and> list_all is_zone_char zone then parse_ipv6 address else None
      | _ \<Rightarrow> None)"

definition parse_ip :: "string \<Rightarrow> ip option" where
  "parse_ip s =
     (case parse_ipv4 s of
        Some v \<Rightarrow> Some (IPv4 (of_nat v))
      | None \<Rightarrow> map_option (\<lambda>v. IPv6 (of_nat v)) (zoned_ipv6 s))"

definition isIP :: "string \<Rightarrow> nat" where
  "isIP s = (case parse_ip s of Some (IPv4 _) \<Rightarrow> 4 | Some (IPv6 _) \<Rightarrow> 6 | None \<Rightarrow> 0)"

section \<open>Block list (node:net)\<close>

definition ip_word :: "ip \<Rightarrow> 128 word" where
  "ip_word a = (case a of IPv4 w \<Rightarrow> push_bit 32 0xFFFF + ucast w | IPv6 w \<Rightarrow> w)"

type_synonym block_list = "(128 word \<times> nat) list"

definition in_subnet :: "128 word \<Rightarrow> 128 word \<times> nat \<Rightarrow> bool" where
  "in_subnet a rule = (drop_bit (128 - snd rule) a = drop_bit (128 - snd rule) (fst rule))"

definition addSubnet :: "block_list \<Rightarrow> ip \<Rightarrow> nat \<Rightarrow> block_list" where
  "addSubnet bl network prefix =
     bl @ [(ip_word network, (case network of IPv4 _ \<Rightarrow> 96 + prefix | IPv6 _ \<Rightarrow> prefix))]"

definition block_check :: "block_list \<Rightarrow> ip \<Rightarrow> bool" where
  "block_check bl a = list_ex (in_subnet (ip_word a)) bl"

section \<open>The table (parseDocument)\<close>

record network_entry =
  ne_address :: string
  ne_prefix :: nat
  ne_purpose :: string

record name_entry =
  nm_name :: string
  nm_purpose :: string

record network_document =
  nd_ipv4 :: "network_entry list"
  nd_ipv6 :: "network_entry list"
  nd_names :: "name_entry list"

datatype network_error =
    DocumentMalformed
  | EntryNotObject nat
  | EntryAddressEmpty nat
  | EntryAddressInvalid nat
  | EntryPrefixInvalid nat
  | EntryPurposeEmpty nat
  | NameNotObject nat
  | NameEmpty nat
  | NamePurposeEmpty nat
  | NetworksFileMissing
  | YamlSyntax
  | InvalidIpAddress
  | NoHostname
  | UnsupportedScheme
  | UrlCredentials
  | PrivateAddress string
  | CannotResolve
  | UnpinnableHttps

text \<open>\<open>typeof entry === "object" && entry !== null\<close>: arrays pass and have no members.\<close>

fun is_js_object :: "js \<Rightarrow> bool" where
  "is_js_object (JObj _) = True"
| "is_js_object (JArr _) = True"
| "is_js_object _ = False"

definition nonempty_text :: "js \<Rightarrow> bool" where
  "nonempty_text v = (case v of JStr s \<Rightarrow> s \<noteq> [] | _ \<Rightarrow> False)"

definition purpose_given :: "js \<Rightarrow> bool" where
  "purpose_given v = (case v of JStr s \<Rightarrow> trim s \<noteq> [] | _ \<Rightarrow> False)"

definition prefix_ok :: "nat \<Rightarrow> js \<Rightarrow> bool" where
  "prefix_ok family v =
     (case js_int v of
        Some n \<Rightarrow> 0 \<le> n \<and> n \<le> (if family = 4 then 32 else 128)
      | None \<Rightarrow> False)"

definition text_of :: "js \<Rightarrow> string" where
  "text_of v = nullish [] (js_string v)"

definition validateNetworkEntry :: "nat \<Rightarrow> nat \<Rightarrow> js \<Rightarrow> network_error + network_entry" where
  "validateNetworkEntry family index entry =
     (let address = js_get entry ''address''; prefix = js_get entry ''prefix'';
          purpose = js_get entry ''purpose''
      in if \<not> is_js_object entry then Inl (EntryNotObject index)
         else if \<not> nonempty_text address then Inl (EntryAddressEmpty index)
         else if isIP (text_of address) \<noteq> family then Inl (EntryAddressInvalid index)
         else if \<not> prefix_ok family prefix then Inl (EntryPrefixInvalid index)
         else if \<not> purpose_given purpose then Inl (EntryPurposeEmpty index)
         else Inr \<lparr>ne_address = text_of address, ne_prefix = nat (nullish 0 (js_int prefix)),
                  ne_purpose = text_of purpose\<rparr>)"

definition validateNameEntry :: "nat \<Rightarrow> js \<Rightarrow> network_error + name_entry" where
  "validateNameEntry index entry =
     (let name = js_get entry ''name''; purpose = js_get entry ''purpose'' in
      if \<not> is_js_object entry then Inl (NameNotObject index)
      else if \<not> nonempty_text name then Inl (NameEmpty index)
      else if \<not> purpose_given purpose then Inl (NamePurposeEmpty index)
      else Inr \<lparr>nm_name = text_of name, nm_purpose = text_of purpose\<rparr>)"

fun validate_all :: "(nat \<Rightarrow> js \<Rightarrow> network_error + 'a) \<Rightarrow> nat \<Rightarrow> js list \<Rightarrow> network_error + 'a list" where
  "validate_all f i [] = Inr []"
| "validate_all f i (v # vs) =
     (case f i v of
        Inl e \<Rightarrow> Inl e
      | Inr a \<Rightarrow> (case validate_all f (Suc i) vs of Inl e \<Rightarrow> Inl e | Inr as \<Rightarrow> Inr (a # as)))"

definition parseDocument :: "js \<Rightarrow> network_error + network_document" where
  "parseDocument parsed =
     (case (js_array (js_get parsed ''ipv4''), js_array (js_get parsed ''ipv6''),
            js_array (js_get parsed ''names'')) of
        (Some v4, Some v6, Some ns) \<Rightarrow>
          (case validate_all (validateNetworkEntry 4) 0 v4 of
             Inl e \<Rightarrow> Inl e
           | Inr ipv4 \<Rightarrow>
               (case validate_all (validateNetworkEntry 6) 0 v6 of
                  Inl e \<Rightarrow> Inl e
                | Inr ipv6 \<Rightarrow>
                    (case validate_all validateNameEntry 0 ns of
                       Inl e \<Rightarrow> Inl e
                     | Inr names \<Rightarrow> Inr \<lparr>nd_ipv4 = ipv4, nd_ipv6 = ipv6, nd_names = names\<rparr>)))
      | _ \<Rightarrow> Inl DocumentMalformed)"

section \<open>Loading the table\<close>

record loaded_networks =
  ln_networks :: network_document
  ln_blockList :: block_list
  ln_normalisedNames :: "string list"

fun add_networks :: "block_list \<Rightarrow> network_entry list \<Rightarrow> network_error + block_list" where
  "add_networks bl [] = Inr bl"
| "add_networks bl (e # es) =
     (case parse_ip (ne_address e) of
        None \<Rightarrow> Inl InvalidIpAddress
      | Some network \<Rightarrow> add_networks (addSubnet bl network (ne_prefix e)) es)"

text \<open>\<open>replace(/\.$/, "").toLowerCase()\<close>\<close>

definition normalise_name :: "string \<Rightarrow> string" where
  "normalise_name s = toLower (if ends_with ''.'' s then butlast s else s)"

definition load_document :: "js \<Rightarrow> network_error + loaded_networks" where
  "load_document parsed =
     (case parseDocument parsed of
        Inl e \<Rightarrow> Inl e
      | Inr doc \<Rightarrow>
          (case add_networks [] (nd_ipv4 doc @ nd_ipv6 doc) of
             Inl e \<Rightarrow> Inl e
           | Inr bl \<Rightarrow>
               Inr \<lparr>ln_networks = doc, ln_blockList = bl,
                    ln_normalisedNames = map (\<lambda>e. normalise_name (nm_name e)) (nd_names doc)\<rparr>))"

datatype yaml_file = YamlMissing | YamlInvalid | Yaml js

definition load_yaml :: "yaml_file \<Rightarrow> network_error + loaded_networks" where
  "load_yaml f =
     (case f of
        YamlMissing \<Rightarrow> Inl NetworksFileMissing
      | YamlInvalid \<Rightarrow> Inl YamlSyntax
      | Yaml v \<Rightarrow> load_document v)"

text \<open>The command line reads the file once and keeps the result.\<close>

record cli_world =
  cw_file :: yaml_file
  cw_cached :: "loaded_networks option"

definition cli_load :: "(network_error, cli_world, loaded_networks) eff" where
  "cli_load w =
     (case cw_cached w of
        Some c \<Rightarrow> (Inr c, w)
      | None \<Rightarrow>
          (case load_yaml (cw_file w) of
             Inl e \<Rightarrow> (Inl e, w)
           | Inr c \<Rightarrow> (Inr c, w\<lparr>cw_cached := Some c\<rparr>)))"

text \<open>
  The plugin looks at the file's times again once a second. The files are given by the directory of
  the blueprint.
\<close>

record file_stat =
  fs_mtimeMs :: int
  fs_size :: int
  fs_content :: yaml_file

record plugin_cache =
  pc_source :: string
  pc_mtimeMs :: int
  pc_size :: int
  pc_checkedAtMs :: int
  pc_loaded :: loaded_networks

record plugin_world =
  pw_now :: int
  pw_envPath :: "string option"
  pw_devPath :: string
  pw_files :: "string \<Rightarrow> file_stat option"
  pw_cached :: "plugin_cache option"

definition STAT_CHECK_INTERVAL_MS :: int where
  "STAT_CHECK_INTERVAL_MS = 1000"

definition nonempty_option :: "string option \<Rightarrow> string option" where
  "nonempty_option s = (if truthy s then s else None)"

definition resolveBlueprintPath :: "plugin_world \<Rightarrow> string" where
  "resolveBlueprintPath w =
     (case nonempty_option (pw_envPath w) of
        Some p \<Rightarrow> p
      | None \<Rightarrow> if pw_files w (pw_devPath w) \<noteq> None then pw_devPath w else ''.'')"

definition cache_recent :: "plugin_world \<Rightarrow> plugin_cache \<Rightarrow> bool" where
  "cache_recent w c = (pw_now w - pc_checkedAtMs c < STAT_CHECK_INTERVAL_MS)"

definition cache_matches :: "string \<Rightarrow> file_stat \<Rightarrow> plugin_cache \<Rightarrow> bool" where
  "cache_matches source f c =
     (pc_source c = source \<and> pc_mtimeMs c = fs_mtimeMs f \<and> pc_size c = fs_size f)"

definition plugin_reload :: "(network_error, plugin_world, loaded_networks) eff" where
  "plugin_reload w =
     (let source = resolveBlueprintPath w in
      case pw_files w source of
        None \<Rightarrow> (Inl NetworksFileMissing, w)
      | Some f \<Rightarrow>
          (let fresh =
             (case load_yaml (fs_content f) of
                Inl e \<Rightarrow> (Inl e, w)
              | Inr l \<Rightarrow>
                  (Inr l, w\<lparr>pw_cached := Some \<lparr>pc_source = source, pc_mtimeMs = fs_mtimeMs f,
                       pc_size = fs_size f, pc_checkedAtMs = pw_now w, pc_loaded = l\<rparr>\<rparr>))
           in case pw_cached w of
                Some c \<Rightarrow>
                  if cache_matches source f c
                  then (Inr (pc_loaded c), w\<lparr>pw_cached := Some (c\<lparr>pc_checkedAtMs := pw_now w\<rparr>)\<rparr>)
                  else fresh
              | None \<Rightarrow> fresh))"

definition plugin_load :: "(network_error, plugin_world, loaded_networks) eff" where
  "plugin_load w =
     (case pw_cached w of
        Some c \<Rightarrow> if cache_recent w c then (Inr (pc_loaded c), w) else plugin_reload w
      | None \<Rightarrow> plugin_reload w)"

definition cli_resetCache :: "cli_world \<Rightarrow> cli_world" where
  "cli_resetCache w = w\<lparr>cw_cached := None\<rparr>"

definition plugin_resetCache :: "plugin_world \<Rightarrow> plugin_world" where
  "plugin_resetCache w = w\<lparr>pw_cached := None\<rparr>"

section \<open>Addresses and host names\<close>

definition isPrivateIpInBlockList :: "string \<Rightarrow> block_list \<Rightarrow> bool" where
  "isPrivateIpInBlockList address bl =
     (case parse_ip address of None \<Rightarrow> False | Some a \<Rightarrow> block_check bl a)"

definition strip_brackets :: "string \<Rightarrow> string" where
  "strip_brackets h = (if starts_with ''['' h \<and> ends_with '']'' h then butlast (tl h) else h)"

definition reserved_name :: "string \<Rightarrow> string list \<Rightarrow> bool" where
  "reserved_name h names = list_ex (\<lambda>r. h = r \<or> ends_with (CHR ''.'' # r) h) names"

definition cli_isPrivateIp :: "string \<Rightarrow> (network_error, cli_world, bool) eff" where
  "cli_isPrivateIp address =
     (if isIP address = 0 then ret False
      else bind cli_load (\<lambda>l. ret (isPrivateIpInBlockList address (ln_blockList l))))"

definition cli_isPrivateHostname :: "string \<Rightarrow> (network_error, cli_world, bool) eff" where
  "cli_isPrivateHostname hostname =
     (let normalised = normalise_name (strip_brackets hostname) in
      bind cli_load (\<lambda>l.
        if reserved_name normalised (ln_normalisedNames l) then ret True
        else cli_isPrivateIp normalised))"

definition plugin_isPrivateIp :: "string \<Rightarrow> (network_error, plugin_world, bool) eff" where
  "plugin_isPrivateIp address =
     bind plugin_load (\<lambda>l. ret (isPrivateIpInBlockList address (ln_blockList l)))"

definition plugin_isPrivateHostname :: "string \<Rightarrow> (network_error, plugin_world, bool) eff" where
  "plugin_isPrivateHostname hostname =
     (let normalised = normalise_name (strip_brackets hostname) in
      bind plugin_load (\<lambda>l.
        if reserved_name normalised (ln_normalisedNames l) then ret True
        else ret (isPrivateIpInBlockList normalised (ln_blockList l))))"

definition isLoopbackHostname :: "string \<Rightarrow> bool" where
  "isLoopbackHostname hostname =
     (let normalised = normalise_name (strip_brackets hostname) in
      if normalised = ''localhost'' then True
      else if isIP normalised = 4 then starts_with ''127.'' normalised
      else if isIP normalised = 6 then normalised = ''::1''
      else False)"

definition OPENSHELL_SANDBOX_HOST_BRIDGE :: string where
  "OPENSHELL_SANDBOX_HOST_BRIDGE = ''host.openshell.internal''"

definition isAllowedOpenShellSandboxBridgeUrl :: "url \<Rightarrow> bool" where
  "isAllowedOpenShellSandboxBridgeUrl u =
     (normalise_name (strip_brackets (url_hostname u)) = OPENSHELL_SANDBOX_HOST_BRIDGE
      \<and> url_protocol u = ''http:''
      \<and> (case digits_value 0 (url_port u) of Some port \<Rightarrow> 1024 \<le> port \<and> port \<le> 65535 | None \<Rightarrow> False)
      \<and> url_username u = [] \<and> url_password u = [] \<and> url_search u = [] \<and> url_hash u = [])"

section \<open>The shipped table (private-networks.yaml)\<close>

definition shipped_network :: "string \<Rightarrow> int \<Rightarrow> string \<Rightarrow> js" where
  "shipped_network address prefix purpose =
     JObj [(''address'', JStr address), (''prefix'', JNum (NInt prefix)), (''purpose'', JStr purpose)]"

definition shipped_name :: "string \<Rightarrow> string \<Rightarrow> js" where
  "shipped_name name purpose = JObj [(''name'', JStr name), (''purpose'', JStr purpose)]"

definition shipped_ipv4 :: "js list" where
  "shipped_ipv4 =
     [shipped_network ''0.0.0.0'' 8 ''This network'',
      shipped_network ''10.0.0.0'' 8 ''Private /8 (enterprise-scale)'',
      shipped_network ''100.64.0.0'' 10 ''CGNAT shared address space'',
      shipped_network ''127.0.0.0'' 8 ''Loopback'',
      shipped_network ''169.254.0.0'' 16 ''Link-local'',
      shipped_network ''172.16.0.0'' 12 ''Private /12'',
      shipped_network ''192.0.0.0'' 24 ''IETF protocol assignments (includes DS-Lite)'',
      shipped_network ''192.0.2.0'' 24 ''TEST-NET-1 documentation'',
      shipped_network ''192.31.196.0'' 24 ''AS112 DNS anycast (RFC 7535)'',
      shipped_network ''192.52.193.0'' 24 ''AMT relay anycast (RFC 7450)'',
      shipped_network ''192.88.99.0'' 24 ''Deprecated 6to4 relay anycast (RFC 7526)'',
      shipped_network ''192.168.0.0'' 16 ''Private /16 (home/small-network default)'',
      shipped_network ''192.175.48.0'' 24 ''AS112 direct delegation anycast (RFC 7534)'',
      shipped_network ''198.18.0.0'' 15 ''Benchmark testing'',
      shipped_network ''198.51.100.0'' 24 ''TEST-NET-2 documentation'',
      shipped_network ''203.0.113.0'' 24 ''TEST-NET-3 documentation'',
      shipped_network ''224.0.0.0'' 4 ''Multicast'',
      shipped_network ''240.0.0.0'' 4 ''Reserved for future use (includes 255.255.255.255 limited broadcast)'']"

definition shipped_ipv6 :: "js list" where
  "shipped_ipv6 =
     [shipped_network ''::'' 128 ''Unspecified'',
      shipped_network ''::1'' 128 ''Loopback'',
      shipped_network ''::'' 96 ''Deprecated IPv4-compatible encodings that can hide private IPv4 targets'',
      shipped_network ''64:ff9b::'' 96 ''NAT64 well-known prefix'',
      shipped_network ''64:ff9b:1::'' 48 ''NAT64 local-use prefix'',
      shipped_network ''100::'' 64 ''Discard prefix'',
      shipped_network ''100:0:0:1::'' 64 ''Dummy IPv6 Prefix (IANA non-forwardable)'',
      shipped_network ''2001::'' 23 ''IETF protocol assignments (Teredo, benchmarking, ORCHID, and related special-purpose space)'',
      shipped_network ''2001:db8::'' 32 ''Documentation'',
      shipped_network ''2002::'' 16 ''6to4'',
      shipped_network ''2620:4f:8000::'' 48 ''AS112 IPv6 anycast (RFC 7534)'',
      shipped_network ''3fff::'' 20 ''Documentation (RFC 9637)'',
      shipped_network ''5f00::'' 16 ''IPv6 Segment Routing (SRv6) SIDs (RFC 9602)'',
      shipped_network ''fc00::'' 7 ''Unique local addresses'',
      shipped_network ''fe80::'' 10 ''Link-local'',
      shipped_network ''fec0::'' 10 ''Deprecated site-local addresses'',
      shipped_network ''ff00::'' 8 ''Multicast'']"

definition shipped_names :: "js list" where
  "shipped_names =
     [shipped_name ''localhost'' ''RFC 6761 loopback special-use name'',
      shipped_name ''local'' ''RFC 6762 mDNS link-local names (Bonjour / Avahi / zeroconf)'',
      shipped_name ''internal'' ''ICANN-reserved private-use TLD (2024-02-11 Board Resolution)'',
      shipped_name ''metadata'' ''Cloud instance metadata service hostname alias'']"

definition shipped_networks :: js where
  "shipped_networks =
     JObj [(''ipv4'', JArr shipped_ipv4), (''ipv6'', JArr shipped_ipv6), (''names'', JArr shipped_names)]"

section \<open>Endpoint URLs (ssrf.ts)\<close>

definition ALLOWED_SCHEMES :: "string list" where
  "ALLOWED_SCHEMES = [''https:'', ''http:'']"

definition hostnameForDnsLookup :: "string \<Rightarrow> string" where
  "hostnameForDnsLookup h = strip_brackets h"

record validated_endpoint =
  ve_url :: string
  ve_pinnedUrl :: string
  ve_protocol :: string
  ve_hostname :: string
  ve_resolvedAddress :: "string option"
  ve_resolvedFamily :: "nat option"
  ve_dnsResolved :: bool

text \<open>
  The platform: the URL parser, the resolver (no result is a failed lookup; addresses come with
  their family) and the URL with another host name. While the lookup is awaited other code runs: the
  resolver also gives the world it returns to.
\<close>

record net_platform =
  np_parseUrl :: url_parser
  np_lookup :: "string \<Rightarrow> plugin_world \<Rightarrow> (string \<times> nat) list option \<times> plugin_world"
  np_withHostname :: "string \<Rightarrow> string \<Rightarrow> string"

definition dns_lookup :: "net_platform \<Rightarrow> string \<Rightarrow> (network_error, plugin_world, (string \<times> nat) list) eff" where
  "dns_lookup p h w =
     (case np_lookup p h w of
        (None, w') \<Rightarrow> (Inl CannotResolve, w')
      | (Some addresses, w') \<Rightarrow> (Inr addresses, w'))"

fun refuse_private :: "string list \<Rightarrow> (network_error, plugin_world, unit) eff" where
  "refuse_private [] = ret ()"
| "refuse_private (a # as) =
     bind (plugin_isPrivateIp a) (\<lambda>p. if p then throw (PrivateAddress a) else refuse_private as)"

definition pinned_host :: "string \<times> nat \<Rightarrow> string" where
  "pinned_host a = (if snd a = 6 then ''['' @ fst a @ '']'' else fst a)"

definition validateEndpointUrl ::
  "net_platform \<Rightarrow> string \<Rightarrow> (network_error, plugin_world, validated_endpoint) eff" where
  "validateEndpointUrl p url =
     (case np_parseUrl p url of
        None \<Rightarrow> throw NoHostname
      | Some parsed \<Rightarrow>
          if url_protocol parsed \<notin> set ALLOWED_SCHEMES then throw UnsupportedScheme
          else if url_hostname parsed = [] then throw NoHostname
          else if url_username parsed \<noteq> [] \<or> url_password parsed \<noteq> [] then throw UrlCredentials
          else
            bind (plugin_isPrivateHostname (url_hostname parsed)) (\<lambda>private.
              if private then throw (PrivateAddress (url_hostname parsed))
              else if isIP (hostnameForDnsLookup (url_hostname parsed)) \<noteq> 0
              then ret \<lparr>ve_url = url, ve_pinnedUrl = url, ve_protocol = url_protocol parsed,
                        ve_hostname = url_hostname parsed, ve_resolvedAddress = None,
                        ve_resolvedFamily = None, ve_dnsResolved = False\<rparr>
              else bind (dns_lookup p (hostnameForDnsLookup (url_hostname parsed))) (\<lambda>addresses.
                (case addresses of
                   [] \<Rightarrow> throw CannotResolve
                 | first # rest \<Rightarrow>
                     bind (refuse_private (map fst (first # rest))) (\<lambda>_.
                       ret \<lparr>ve_url = url, ve_pinnedUrl = np_withHostname p url (pinned_host first),
                            ve_protocol = url_protocol parsed, ve_hostname = url_hostname parsed,
                            ve_resolvedAddress = Some (fst first), ve_resolvedFamily = Some (snd first),
                            ve_dnsResolved = True\<rparr>)))))"

definition safeEndpointUrlForDownstream :: "validated_endpoint \<Rightarrow> network_error + string" where
  "safeEndpointUrlForDownstream v =
     (if ve_protocol v = ''https:'' \<and> ve_dnsResolved v then Inl UnpinnableHttps
      else Inr (if ve_protocol v = ''http:'' then ve_pinnedUrl v else ve_url v))"

end
