(* ===== verification/Network_Facts.thy ===== *)
theory Network_Facts
  imports Private_Networks
begin

text \<open>
  Facts about the guard: what the shipped table denotes, that a loaded table stays loaded, and what
  a successful validation of an endpoint has checked.
\<close>

section \<open>The shipped table loads\<close>

lemmas ip_defs = parse_ip_def parse_ipv4_def octet_def octets_value_def zoned_ipv6_def parse_ipv6_def
  side_groups_def hextet_def hex_digit_def groups_value_def is_hex_def char_class_defs

lemma replicate_numeral: "replicate (numeral n) x = x # replicate (pred_numeral n) x"
  by (simp add: numeral_eq_Suc)

lemma shipped_ipv4_literals:
  "parse_ip ''0.0.0.0'' = Some (IPv4 0)"
  "parse_ip ''10.0.0.0'' = Some (IPv4 0xa000000)"
  "parse_ip ''100.64.0.0'' = Some (IPv4 0x64400000)"
  "parse_ip ''127.0.0.0'' = Some (IPv4 0x7f000000)"
  "parse_ip ''169.254.0.0'' = Some (IPv4 0xa9fe0000)"
  "parse_ip ''172.16.0.0'' = Some (IPv4 0xac100000)"
  "parse_ip ''192.0.0.0'' = Some (IPv4 0xc0000000)"
  "parse_ip ''192.0.2.0'' = Some (IPv4 0xc0000200)"
  "parse_ip ''192.31.196.0'' = Some (IPv4 0xc01fc400)"
  "parse_ip ''192.52.193.0'' = Some (IPv4 0xc034c100)"
  "parse_ip ''192.88.99.0'' = Some (IPv4 0xc0586300)"
  "parse_ip ''192.168.0.0'' = Some (IPv4 0xc0a80000)"
  "parse_ip ''192.175.48.0'' = Some (IPv4 0xc0af3000)"
  "parse_ip ''198.18.0.0'' = Some (IPv4 0xc6120000)"
  "parse_ip ''198.51.100.0'' = Some (IPv4 0xc6336400)"
  "parse_ip ''203.0.113.0'' = Some (IPv4 0xcb007100)"
  "parse_ip ''224.0.0.0'' = Some (IPv4 0xe0000000)"
  "parse_ip ''240.0.0.0'' = Some (IPv4 0xf0000000)"
  by (simp_all add: ip_defs)

lemma shipped_ipv6_literals:
  "parse_ip ''::'' = Some (IPv6 0)"
  "parse_ip ''::1'' = Some (IPv6 1)"
  "parse_ip ''64:ff9b::'' = Some (IPv6 0x64ff9b000000000000000000000000)"
  "parse_ip ''64:ff9b:1::'' = Some (IPv6 0x64ff9b000100000000000000000000)"
  "parse_ip ''100::'' = Some (IPv6 0x1000000000000000000000000000000)"
  "parse_ip ''100:0:0:1::'' = Some (IPv6 0x1000000000000010000000000000000)"
  "parse_ip ''2001::'' = Some (IPv6 0x20010000000000000000000000000000)"
  "parse_ip ''2001:db8::'' = Some (IPv6 0x20010db8000000000000000000000000)"
  "parse_ip ''2002::'' = Some (IPv6 0x20020000000000000000000000000000)"
  "parse_ip ''2620:4f:8000::'' = Some (IPv6 0x2620004f800000000000000000000000)"
  "parse_ip ''3fff::'' = Some (IPv6 0x3fff0000000000000000000000000000)"
  "parse_ip ''5f00::'' = Some (IPv6 0x5f000000000000000000000000000000)"
  "parse_ip ''fc00::'' = Some (IPv6 0xfc000000000000000000000000000000)"
  "parse_ip ''fe80::'' = Some (IPv6 0xfe800000000000000000000000000000)"
  "parse_ip ''fec0::'' = Some (IPv6 0xfec00000000000000000000000000000)"
  "parse_ip ''ff00::'' = Some (IPv6 0xff000000000000000000000000000000)"
  by (simp_all add: ip_defs replicate_numeral)

definition shipped_rules4 :: "(32 word \<times> nat) list" where
  "shipped_rules4 =
     [(0, 8), (0xa000000, 8), (0x64400000, 10), (0x7f000000, 8),
      (0xa9fe0000, 16), (0xac100000, 12), (0xc0000000, 24), (0xc0000200, 24),
      (0xc01fc400, 24), (0xc034c100, 24), (0xc0586300, 24), (0xc0a80000, 16),
      (0xc0af3000, 24), (0xc6120000, 15), (0xc6336400, 24), (0xcb007100, 24),
      (0xe0000000, 4), (0xf0000000, 4)]"

definition shipped_rules6 :: block_list where
  "shipped_rules6 =
     [(0, 128), (1, 128),
      (0, 96), (0x64ff9b000000000000000000000000, 96),
      (0x64ff9b000100000000000000000000, 48), (0x1000000000000000000000000000000, 64),
      (0x1000000000000010000000000000000, 64), (0x20010000000000000000000000000000, 23),
      (0x20010db8000000000000000000000000, 32), (0x20020000000000000000000000000000, 16),
      (0x2620004f800000000000000000000000, 48), (0x3fff0000000000000000000000000000, 20),
      (0x5f000000000000000000000000000000, 16), (0xfc000000000000000000000000000000, 7),
      (0xfe800000000000000000000000000000, 10), (0xfec00000000000000000000000000000, 10),
      (0xff000000000000000000000000000000, 8)]"

definition shipped_blocks :: block_list where
  "shipped_blocks = map (\<lambda>(n, q). (ip_word (IPv4 n), 96 + q)) shipped_rules4 @ shipped_rules6"

definition shipped_reserved :: "string list" where
  "shipped_reserved = [''localhost'', ''local'', ''internal'', ''metadata'']"

lemma trim_nonempty: "\<not> is_js_space c \<Longrightarrow> trim (c # s) \<noteq> []"
  by (auto simp: trim_def dropWhile_eq_Nil_conv)

lemma validate_shipped_network:
  assumes "isIP a = family" "0 \<le> n" "n \<le> (if family = 4 then 32 else 128)" "a \<noteq> []" "\<not> is_js_space c"
  shows "validateNetworkEntry family i (shipped_network a n (c # t)) =
           Inr \<lparr>ne_address = a, ne_prefix = nat n, ne_purpose = c # t\<rparr>"
  using assms
  by (simp add: validateNetworkEntry_def shipped_network_def nonempty_text_def purpose_given_def
      prefix_ok_def text_of_def trim_nonempty)

lemma validate_shipped_name:
  assumes "a \<noteq> []" "\<not> is_js_space c"
  shows "validateNameEntry i (shipped_name a (c # t)) = Inr \<lparr>nm_name = a, nm_purpose = c # t\<rparr>"
  using assms
  by (simp add: validateNameEntry_def shipped_name_def nonempty_text_def purpose_given_def text_of_def
      trim_nonempty)

lemma shipped_loads:
  "\<exists>doc. load_document shipped_networks =
     Inr \<lparr>ln_networks = doc, ln_blockList = shipped_blocks, ln_normalisedNames = shipped_reserved\<rparr>"
  by (simp add: load_document_def parseDocument_def shipped_networks_def shipped_ipv4_def
      shipped_ipv6_def shipped_names_def validate_shipped_network validate_shipped_name isIP_def
      shipped_ipv4_literals shipped_ipv6_literals char_class_defs addSubnet_def shipped_blocks_def
      shipped_rules4_def shipped_rules6_def
      shipped_reserved_def normalise_name_def ends_with_def toLower_def ip_word_def)

section \<open>What the shipped table denotes\<close>

text \<open>The reserved addresses, written over the four octets and the eight groups of an address.\<close>

definition octet_of :: "nat \<Rightarrow> nat \<Rightarrow> nat" where
  "octet_of v i = (v div 256 ^ i) mod 256"

definition hextet_of :: "nat \<Rightarrow> nat \<Rightarrow> nat" where
  "hextet_of v i = (v div 65536 ^ i) mod 65536"

definition reserved_ipv4 :: "nat \<Rightarrow> bool" where
  "reserved_ipv4 v =
     (let a = octet_of v 3; b = octet_of v 2; c = octet_of v 1 in
      a \<in> {0, 10, 127} \<or> 224 \<le> a
      \<or> a = 100 \<and> 64 \<le> b \<and> b < 128
      \<or> a = 169 \<and> b = 254
      \<or> a = 172 \<and> 16 \<le> b \<and> b < 32
      \<or> a = 192 \<and> (b = 168 \<or> (b, c) \<in> {(0, 0), (0, 2), (31, 196), (52, 193), (88, 99), (175, 48)})
      \<or> a = 198 \<and> (18 \<le> b \<and> b < 20 \<or> (b, c) = (51, 100))
      \<or> a = 203 \<and> (b, c) = (0, 113))"

definition reserved_ipv6 :: "nat \<Rightarrow> bool" where
  "reserved_ipv6 v =
     (let g0 = hextet_of v 7; g1 = hextet_of v 6; g2 = hextet_of v 5; g3 = hextet_of v 4;
          g4 = hextet_of v 3; g5 = hextet_of v 2 in
      [g0, g1, g2, g3, g4, g5] = [0, 0, 0, 0, 0, 0]
      \<or> [g0, g1, g2, g3, g4, g5] = [0, 0, 0, 0, 0, 0xffff] \<and> reserved_ipv4 (v mod 2 ^ 32)
      \<or> [g0, g1, g2, g3, g4, g5] = [0x64, 0xff9b, 0, 0, 0, 0]
      \<or> [g0, g1, g2] = [0x64, 0xff9b, 1]
      \<or> [g0, g1, g2] = [0x100, 0, 0] \<and> g3 \<in> {0, 1}
      \<or> g0 = 0x2001 \<and> (g1 < 0x200 \<or> g1 = 0xdb8)
      \<or> g0 = 0x2002
      \<or> [g0, g1, g2] = [0x2620, 0x4f, 0x8000]
      \<or> g0 = 0x3fff \<and> g1 < 0x1000
      \<or> g0 = 0x5f00
      \<or> 0xfc00 \<le> g0 \<and> g0 < 0xfe00
      \<or> 0xfe80 \<le> g0)"

lemma digits_unique:
  fixes r r' t t' B :: nat
  assumes "r < B" "r' < B"
  shows "t * B + r = t' * B + r' \<longleftrightarrow> t = t' \<and> r = r'"
proof
  assume e: "t * B + r = t' * B + r'"
  have "(t * B + r) div B = t" "(t' * B + r') div B = t'" using assms by simp_all
  then have "t = t'" using e by simp
  then show "t = t' \<and> r = r'" using e by simp
qed simp

lemma div_range:
  fixes x d k :: nat
  assumes "0 < d"
  shows "x div d = k \<longleftrightarrow> k * d \<le> x \<and> x < k * d + d"
proof
  assume "x div d = k"
  then show "k * d \<le> x \<and> x < k * d + d"
    using assms div_mult_mod_eq [of x d] mod_less_divisor [of d x] by (metis add_less_cancel_left le_add1)
next
  assume "k * d \<le> x \<and> x < k * d + d"
  then show "x div d = k" by (intro div_nat_eqI) (auto simp: algebra_simps)
qed

lemma prefix_digit:
  fixes a b A B D K M :: nat
  assumes "B * D = M" "0 < M" "b < M" "K < B"
  shows "(a * M + b) div D = A * B + K \<longleftrightarrow> a = A \<and> K * D \<le> b \<and> b < K * D + D"
proof -
  have D: "0 < D" using assms(1,2) by (metis gr0I mult_0_right)
  have "b div D < B" using assms by (simp add: less_mult_imp_div_less)
  have e: "a * M + b = b + (a * B) * D" using assms(1) by (metis add.commute mult.assoc)
  have "(a * M + b) div D = a * B + b div D" unfolding e using D by simp
  then show ?thesis
    using digits_unique [OF \<open>b div D < B\<close> assms(4)] div_range [OF D, of b K] by simp
qed

lemma in_subnet_div:
  "in_subnet a (n, p) \<longleftrightarrow> unat a div 2 ^ (128 - p) = unat n div 2 ^ (128 - p)"
proof -
  have "in_subnet a (n, p) \<longleftrightarrow> drop_bit (128 - p) (unat a) = drop_bit (128 - p) (unat n)"
    by (simp add: in_subnet_def word_unat_eq_iff unat_drop_bit_eq)
  then show ?thesis by (simp only: drop_bit_eq_div)
qed

lemma ip_word_v4: "unat (ip_word (IPv4 w)) = 0xFFFF * 2 ^ 32 + unat w"
proof -
  have w: "unat w < 2 ^ 32" using unsigned_less [of w] by simp
  have "unat (push_bit 32 0xFFFF :: 128 word) = 0xFFFF * 2 ^ 32" by (simp add: push_bit_eq_mult)
  moreover have "unat (ucast w :: 128 word) = unat w"
    using w by (simp add: unsigned_ucast_eq take_bit_nat_eq_self)
  ultimately show ?thesis
    using w by (simp add: ip_word_def unat_plus_if')
qed

lemma in_subnet_v4:
  assumes "q \<le> 32"
  shows "in_subnet a (ip_word (IPv4 n), 96 + q) \<longleftrightarrow>
           unat a div 2 ^ 32 = 0xFFFF \<and> unat a mod 2 ^ 32 div 2 ^ (32 - q) = unat n div 2 ^ (32 - q)"
proof -
  let ?B = "2 ^ (32 - q) :: nat" and ?Q = "2 ^ q :: nat" and ?v = "unat a"
  have QB: "?Q * ?B = 2 ^ 32" using assms by (simp flip: power_add)
  have bound: "r div ?B < ?Q" if "r < 2 ^ 32" for r :: nat
    using that QB by (simp add: less_mult_imp_div_less)
  have split: "(t * 2 ^ 32 + r) div ?B = t * ?Q + r div ?B" for t r :: nat
  proof -
    have e: "t * 2 ^ 32 + r = t * ?Q * ?B + r" by (simp only: QB mult.assoc)
    show ?thesis unfolding e by simp
  qed
  have "?v div ?B = (?v div 2 ^ 32) * ?Q + ?v mod 2 ^ 32 div ?B"
    using split [of "?v div 2 ^ 32" "?v mod 2 ^ 32"] by (simp only: div_mult_mod_eq)
  moreover have "unat n < 2 ^ 32" using unsigned_less [of n] by simp
  moreover have "in_subnet a (ip_word (IPv4 n), 96 + q) \<longleftrightarrow> ?v div ?B = (0xFFFF * 2 ^ 32 + unat n) div ?B"
    by (simp add: in_subnet_div ip_word_v4)
  ultimately show ?thesis
    by (simp only: split digits_unique [OF bound bound] mod_less_divisor zero_less_power zero_less_numeral)
qed

lemma digit_step: "v div M ^ k = v div M ^ Suc k * M + v div M ^ k mod M" for v M k :: nat
proof -
  have "v div M ^ Suc k = v div M ^ k div M" by (simp only: power_Suc2 div_mult2_eq)
  then show ?thesis by simp
qed

lemma octets_split:
  assumes "r < 2 ^ 32"
  defines "a \<equiv> octet_of r 3" and "b \<equiv> octet_of r 2" and "c \<equiv> octet_of r 1"
  shows "a < 256" "b < 256" "c < 256"
    "r div 2 ^ 24 = a" "r div 2 ^ 16 = a * 256 + b" "r div 2 ^ 8 = (a * 256 + b) * 256 + c"
proof -
  have s: "r div 256 ^ 1 = r div 256 ^ 2 * 256 + c" "r div 256 ^ 2 = r div 256 ^ 3 * 256 + b"
    "r div 256 ^ 3 = r div 256 ^ 4 * 256 + a"
    using digit_step [of r 256 1] digit_step [of r 256 2] digit_step [of r 256 3]
    by (simp_all only: a_def b_def c_def octet_of_def Suc_numeral Suc_1 arith_simps)
  moreover have "r div 256 ^ 4 = 0" using assms(1) by simp
  ultimately show "r div 2 ^ 24 = a" "r div 2 ^ 16 = a * 256 + b" "r div 2 ^ 8 = (a * 256 + b) * 256 + c"
    by simp_all
  show "a < 256" "b < 256" "c < 256" by (simp_all add: a_def b_def c_def octet_of_def)
qed

lemma shipped_rules4_reserved:
  assumes "r < 2 ^ 32"
  shows "list_ex (\<lambda>(n, q). r div 2 ^ (32 - q) = unat n div 2 ^ (32 - q)) shipped_rules4 \<longleftrightarrow> reserved_ipv4 r"
proof -
  define a b c where abc: "a = octet_of r 3" "b = octet_of r 2" "c = octet_of r 1"
  note oct = octets_split [OF assms, folded abc]
  have d: "r div 2 ^ 17 = (a * 256 + b) div 2" "r div 2 ^ 20 = (a * 256 + b) div 16"
    "r div 2 ^ 22 = (a * 256 + b) div 64"
    unfolding oct(5) [symmetric] by (simp_all flip: div_mult2_eq)
  have d': "r div 2 ^ 28 = a div 16"
    unfolding oct(4) [symmetric] by (simp flip: div_mult2_eq)
  have e: "(a * 256 + b) div 64 = 401 \<longleftrightarrow> a = 100 \<and> 64 \<le> b \<and> b < 128"
    "(a * 256 + b) div 16 = 2753 \<longleftrightarrow> a = 172 \<and> 16 \<le> b \<and> b < 32"
    "(a * 256 + b) div 2 = 25353 \<longleftrightarrow> a = 198 \<and> 18 \<le> b \<and> b < 20"
    using prefix_digit [of 4 64 256 b 1 a 100] prefix_digit [of 16 16 256 b 1 a 172]
      prefix_digit [of 128 2 256 b 9 a 198] oct(2)
    by simp_all
  have e': "a div 16 = 14 \<or> a div 16 = 15 \<longleftrightarrow> 224 \<le> a"
    using oct(1) by (simp add: div_range) linarith
  have f: "a * 256 + b = A * 256 + B \<longleftrightarrow> a = A \<and> b = B"
    "(a * 256 + b) * 256 + c = (A * 256 + B) * 256 + C \<longleftrightarrow> a = A \<and> b = B \<and> c = C"
    if "B < 256" "C < 256" for A B C
    using that oct(1-3) by (simp_all only: digits_unique conj_assoc)
  have g: "a * 256 + b = 43518 \<longleftrightarrow> a = 169 \<and> b = 254" "a * 256 + b = 49320 \<longleftrightarrow> a = 192 \<and> b = 168"
    "(a * 256 + b) * 256 + c = 12582912 \<longleftrightarrow> a = 192 \<and> b = 0 \<and> c = 0"
    "(a * 256 + b) * 256 + c = 12582914 \<longleftrightarrow> a = 192 \<and> b = 0 \<and> c = 2"
    "(a * 256 + b) * 256 + c = 12591044 \<longleftrightarrow> a = 192 \<and> b = 31 \<and> c = 196"
    "(a * 256 + b) * 256 + c = 12596417 \<longleftrightarrow> a = 192 \<and> b = 52 \<and> c = 193"
    "(a * 256 + b) * 256 + c = 12605539 \<longleftrightarrow> a = 192 \<and> b = 88 \<and> c = 99"
    "(a * 256 + b) * 256 + c = 12627760 \<longleftrightarrow> a = 192 \<and> b = 175 \<and> c = 48"
    "(a * 256 + b) * 256 + c = 12989284 \<longleftrightarrow> a = 198 \<and> b = 51 \<and> c = 100"
    "(a * 256 + b) * 256 + c = 13303921 \<longleftrightarrow> a = 203 \<and> b = 0 \<and> c = 113"
    using f(1) [of 254 0 169] f(1) [of 168 0 192]
      f(2) [of 0 0 192] f(2) [of 0 2 192] f(2) [of 31 196 192] f(2) [of 52 193 192] f(2) [of 88 99 192] f(2) [of 175 48 192] f(2) [of 51 100 198] f(2) [of 0 113 203]
    by simp_all
  show ?thesis
    unfolding reserved_ipv4_def abc [symmetric] Let_def
    apply (simp add: shipped_rules4_def d [simplified] d' [simplified] oct(4-6) [simplified] g [simplified] e e')
    by (simp only: conj_disj_distribL disj_ac)
qed

lemma hextets_split:
  assumes "v < 2 ^ 128"
  defines "g0 \<equiv> hextet_of v 7" and "g1 \<equiv> hextet_of v 6" and "g2 \<equiv> hextet_of v 5"
    and "g3 \<equiv> hextet_of v 4" and "g4 \<equiv> hextet_of v 3" and "g5 \<equiv> hextet_of v 2"
  shows "g0 < 65536" "g1 < 65536" "g2 < 65536" "g3 < 65536" "g4 < 65536" "g5 < 65536"
    "v div 2 ^ 112 = g0" "v div 2 ^ 96 = g0 * 65536 + g1" "v div 2 ^ 80 = (g0 * 65536 + g1) * 65536 + g2"
    "v div 2 ^ 64 = ((g0 * 65536 + g1) * 65536 + g2) * 65536 + g3"
    "v div 2 ^ 32 = ((((g0 * 65536 + g1) * 65536 + g2) * 65536 + g3) * 65536 + g4) * 65536 + g5"
proof -
  have s: "v div 65536 ^ 2 = v div 65536 ^ 3 * 65536 + g5" "v div 65536 ^ 3 = v div 65536 ^ 4 * 65536 + g4"
    "v div 65536 ^ 4 = v div 65536 ^ 5 * 65536 + g3" "v div 65536 ^ 5 = v div 65536 ^ 6 * 65536 + g2"
    "v div 65536 ^ 6 = v div 65536 ^ 7 * 65536 + g1" "v div 65536 ^ 7 = v div 65536 ^ 8 * 65536 + g0"
    using digit_step [of v 65536 2] digit_step [of v 65536 3] digit_step [of v 65536 4]
      digit_step [of v 65536 5] digit_step [of v 65536 6] digit_step [of v 65536 7]
    by (simp_all only: g0_def g1_def g2_def g3_def g4_def g5_def hextet_of_def Suc_numeral Suc_1 arith_simps)
  moreover have "v div 65536 ^ 8 = 0" using assms(1) by simp
  ultimately show "v div 2 ^ 112 = g0" "v div 2 ^ 96 = g0 * 65536 + g1"
    "v div 2 ^ 80 = (g0 * 65536 + g1) * 65536 + g2"
    "v div 2 ^ 64 = ((g0 * 65536 + g1) * 65536 + g2) * 65536 + g3"
    "v div 2 ^ 32 = ((((g0 * 65536 + g1) * 65536 + g2) * 65536 + g3) * 65536 + g4) * 65536 + g5"
    by simp_all
  show "g0 < 65536" "g1 < 65536" "g2 < 65536" "g3 < 65536" "g4 < 65536" "g5 < 65536"
    by (simp_all add: g0_def g1_def g2_def g3_def g4_def g5_def hextet_of_def)
qed

lemma shipped_rules6_reserved:
  assumes "v < 2 ^ 128"
  shows "list_ex (\<lambda>(n, q). v div 2 ^ (128 - q) = unat n div 2 ^ (128 - q)) shipped_rules6
           \<or> v div 2 ^ 32 = 0xFFFF \<and> reserved_ipv4 (v mod 2 ^ 32)
         \<longleftrightarrow> reserved_ipv6 v"
proof -
  define g0 g1 g2 g3 g4 g5 where g: "g0 = hextet_of v 7" "g1 = hextet_of v 6" "g2 = hextet_of v 5"
    "g3 = hextet_of v 4" "g4 = hextet_of v 3" "g5 = hextet_of v 2"
  note hex = hextets_split [OF assms, folded g]
  have d: "v div 2 ^ 105 = (g0 * 65536 + g1) div 512" "v div 2 ^ 108 = (g0 * 65536 + g1) div 4096"
    unfolding hex(8) [symmetric] by (simp_all flip: div_mult2_eq)
  have d': "v div 2 ^ 118 = g0 div 64" "v div 2 ^ 120 = g0 div 256" "v div 2 ^ 121 = g0 div 512"
    unfolding hex(7) [symmetric] by (simp_all flip: div_mult2_eq)
  have e: "(g0 * 65536 + g1) div 512 = 1048704 \<longleftrightarrow> g0 = 0x2001 \<and> g1 < 0x200"
    "(g0 * 65536 + g1) div 4096 = 262128 \<longleftrightarrow> g0 = 0x3fff \<and> g1 < 0x1000"
    using prefix_digit [of 128 512 65536 g1 0 g0 "0x2001"]
      prefix_digit [of 16 4096 65536 g1 0 g0 "0x3fff"] hex(2)
    by simp_all
  have e': "g0 div 512 = 126 \<longleftrightarrow> 0xfc00 \<le> g0 \<and> g0 < 0xfe00"
    "g0 div 64 = 1018 \<or> g0 div 64 = 1019 \<or> g0 div 256 = 255 \<longleftrightarrow> 0xfe80 \<le> g0"
    using hex(1) by (simp_all add: div_range) linarith
  note u = digits_unique [where B = 65536]
  have f1: "g0 * 65536 + g1 = A * 65536 + B \<longleftrightarrow> g0 = A \<and> g1 = B" if "B < 65536" for A B
    using that hex(2) by (simp only: u)
  have f2: "(g0 * 65536 + g1) * 65536 + g2 = (A * 65536 + B) * 65536 + C \<longleftrightarrow> g0 = A \<and> g1 = B \<and> g2 = C"
    if "B < 65536" "C < 65536" for A B C
    using that hex(3) f1 by (simp only: u conj_assoc)
  have f3: "((g0 * 65536 + g1) * 65536 + g2) * 65536 + g3 = ((A * 65536 + B) * 65536 + C) * 65536 + D
              \<longleftrightarrow> g0 = A \<and> g1 = B \<and> g2 = C \<and> g3 = D"
    if "B < 65536" "C < 65536" "D < 65536" for A B C D
    using that hex(4) f2 by (simp only: u conj_assoc)
  have f5: "((((g0 * 65536 + g1) * 65536 + g2) * 65536 + g3) * 65536 + g4) * 65536 + g5 =
              ((((A * 65536 + B) * 65536 + C) * 65536 + D) * 65536 + E) * 65536 + F
              \<longleftrightarrow> g0 = A \<and> g1 = B \<and> g2 = C \<and> g3 = D \<and> g4 = E \<and> g5 = F"
    if "B < 65536" "C < 65536" "D < 65536" "E < 65536" "F < 65536" for A B C D E F
    using that hex(5,6) f3 by (simp only: u conj_assoc)
  show ?thesis
  proof (cases "v = 0 \<or> v = 1")
    case True
    then have "reserved_ipv6 v" by (elim disjE) (simp_all add: reserved_ipv6_def hextet_of_def)
    moreover have "list_ex (\<lambda>(n, q). v div 2 ^ (128 - q) = unat n div 2 ^ (128 - q)) shipped_rules6"
      using True by (elim disjE) (simp_all add: shipped_rules6_def)
    ultimately show ?thesis by blast
  next
    case False
    then show ?thesis
      unfolding reserved_ipv6_def g [symmetric] Let_def
      using f1 [of "0xdb8" "0x2001"] f2 [of "0xff9b" 1 "0x64"] f2 [of "0x4f" "0x8000" "0x2620"]
        f3 [of 0 0 0 "0x100"] f3 [of 0 0 1 "0x100"] f5 [of 0 0 0 0 "0xffff" 0] f5 [of "0xff9b" 0 0 0 0 "0x64"]
        d d' e e' hex(7-11)
      by (simp add: shipped_rules6_def) (simp only: conj_disj_distribL disj_ac)
  qed
qed

text \<open>The block list of the shipped table is the reference predicate.\<close>

definition reserved_ip :: "ip \<Rightarrow> bool" where
  "reserved_ip a = (case a of IPv4 w \<Rightarrow> reserved_ipv4 (unat w) | IPv6 w \<Rightarrow> reserved_ipv6 (unat w))"

lemma block_check_shipped:
  "block_check shipped_blocks a \<longleftrightarrow>
     unat (ip_word a) div 2 ^ 32 = 0xFFFF \<and> reserved_ipv4 (unat (ip_word a) mod 2 ^ 32)
     \<or> list_ex (\<lambda>(n, q). unat (ip_word a) div 2 ^ (128 - q) = unat n div 2 ^ (128 - q)) shipped_rules6"
proof -
  have "list_all (\<lambda>(n, q). q \<le> 32) shipped_rules4" by (simp add: shipped_rules4_def)
  then have "list_ex (in_subnet (ip_word a) \<circ> (\<lambda>(n, q). (ip_word (IPv4 n), 96 + q))) shipped_rules4
    \<longleftrightarrow> list_ex (\<lambda>(n, q). unat (ip_word a) div 2 ^ 32 = 0xFFFF \<and>
          unat (ip_word a) mod 2 ^ 32 div 2 ^ (32 - q) = unat n div 2 ^ (32 - q)) shipped_rules4"
    by (intro list_ex_cong) (auto simp: list_all_iff in_subnet_v4 del: split_paired_All)
  also have "\<dots> \<longleftrightarrow> unat (ip_word a) div 2 ^ 32 = 0xFFFF \<and> reserved_ipv4 (unat (ip_word a) mod 2 ^ 32)"
    by (subst shipped_rules4_reserved [symmetric]) (auto simp: list_ex_iff)
  finally have v4: "list_ex (in_subnet (ip_word a)) (map (\<lambda>(n, q). (ip_word (IPv4 n), 96 + q)) shipped_rules4)
    \<longleftrightarrow> unat (ip_word a) div 2 ^ 32 = 0xFFFF \<and> reserved_ipv4 (unat (ip_word a) mod 2 ^ 32)"
    by (simp only: list_ex_iff set_map bex_simps comp_def)
  have "in_subnet (ip_word a) = (\<lambda>(n, q). unat (ip_word a) div 2 ^ (128 - q) = unat n div 2 ^ (128 - q))"
    by (auto simp: fun_eq_iff in_subnet_div)
  then have v6: "list_ex (in_subnet (ip_word a)) shipped_rules6 \<longleftrightarrow>
      list_ex (\<lambda>(n, q). unat (ip_word a) div 2 ^ (128 - q) = unat n div 2 ^ (128 - q)) shipped_rules6"
    by (rule arg_cong)
  show ?thesis
    by (simp only: block_check_def shipped_blocks_def list_ex_append v4 v6)
qed

lemma reserved_mapped:
  assumes "u < 2 ^ 32"
  shows "reserved_ipv6 (0xFFFF * 2 ^ 32 + u) \<longleftrightarrow> reserved_ipv4 u"
proof -
  define v :: nat where "v = 0xFFFF * 2 ^ 32 + u"
  have D: "v div 2 ^ 32 = 0xFFFF" using assms by (simp add: v_def)
  have M: "v mod 2 ^ 32 = u" using assms by (simp only: v_def mod_mult_self3 mod_less)
  have "v div 65536 ^ (k + 2) = 0xFFFF div 65536 ^ k" for k
  proof -
    have "(65536 :: nat) ^ (k + 2) = 2 ^ 32 * 65536 ^ k" by (simp add: power_add)
    then show ?thesis using D by (simp only: div_mult2_eq)
  qed
  from this [of 0] this [of 1] this [of 2] this [of 3] this [of 4] this [of 5]
  have "hextet_of v 2 = 0xFFFF" "hextet_of v 3 = 0" "hextet_of v 4 = 0" "hextet_of v 5 = 0"
    "hextet_of v 6 = 0" "hextet_of v 7 = 0"
    by (simp_all add: hextet_of_def)
  then show ?thesis unfolding v_def [symmetric] by (simp add: reserved_ipv6_def M [simplified])
qed

lemma shipped_reserves: "block_check shipped_blocks a \<longleftrightarrow> reserved_ip a"
proof (cases a)
  case (IPv4 w)
  have w: "unat w < 2 ^ 32" using unsigned_less [of w] by simp
  show ?thesis
    using shipped_rules6_reserved [of "0xFFFF * 2 ^ 32 + unat w"] w reserved_mapped [OF w]
    unfolding block_check_shipped by (auto simp: IPv4 reserved_ip_def ip_word_v4)
next
  case (IPv6 w)
  have "unat w < 2 ^ 128" using unsigned_less [of w] by simp
  from shipped_rules6_reserved [OF this] show ?thesis
    unfolding block_check_shipped by (auto simp: IPv6 reserved_ip_def ip_word_def)
qed

end
