(* ===== verification/Endpoint_Facts.thy ===== *)
theory Endpoint_Facts
  imports Network_Facts
begin

text \<open>
  Facts about host names and endpoints: dotted addresses and loopback names under the shipped table,
  the two loaders and their caches, and what a successful validation of an endpoint has checked.
\<close>

section \<open>Dotted addresses\<close>

definition dotted :: "nat \<Rightarrow> nat \<Rightarrow> nat \<Rightarrow> nat \<Rightarrow> string" where
  "dotted a b c d = join_with CHR ''.'' (map digits_of [a, b, c, d])"

lemma digit_char: "n < 10 \<Longrightarrow> code (''0123456789'' ! n) = 48 + n"
  by (auto simp: numeral_eq_Suc less_Suc_eq code_def)

lemma digit_class: "n < 10 \<Longrightarrow> is_digit (''0123456789'' ! n)"
  by (simp add: is_digit_def digit_char)

lemma digits_of_digits: "list_all is_digit (digits_of n)"
  by (induction n rule: digits_of.induct) (subst digits_of.simps, simp add: digit_class)

lemma digits_of_free: "\<not> is_digit x \<Longrightarrow> free_of x (digits_of n)"
  using digits_of_digits [of n] by (auto simp: free_of_def list_all_iff)

lemma digits_value_append:
  "list_all is_digit s \<Longrightarrow>
     digits_value acc (s @ t) = (case digits_value acc s of Some n \<Rightarrow> digits_value n t | None \<Rightarrow> None)"
  by (induction s arbitrary: acc) auto

lemma digits_value_digits: "digits_value 0 (digits_of n) = Some n"
  by (induction n rule: digits_of.induct)
    (subst digits_of.simps, simp add: digit_class digit_char digits_value_append digits_of_digits)

lemma digits_of_length: "digits_of n \<noteq> []" "n < 1000 \<Longrightarrow> length (digits_of n) \<le> 3"
  by (subst digits_of.simps, simp) (subst digits_of.simps, subst digits_of.simps, subst digits_of.simps, simp)

lemma digits_of_head: "10 \<le> n \<Longrightarrow> hd (digits_of n) \<noteq> CHR ''0''"
proof (induction n rule: digits_of.induct)
  case (1 n)
  have "0 < n div 10" using 1(2) by simp
  then have "code (''0123456789'' ! (n div 10)) \<noteq> 48" if "n div 10 < 10"
    unfolding digit_char [OF that] by linarith
  then have "''0123456789'' ! (n div 10) \<noteq> CHR ''0''" if "n div 10 < 10"
    using that by (auto simp: code_def)
  moreover have "hd (digits_of n) = hd (digits_of (n div 10))"
    using 1(2) digits_of_length(1) [of "n div 10"] by (subst digits_of.simps) simp
  ultimately show ?case
    using 1 by (cases "n div 10 < 10") (simp_all add: digits_of.simps [of "n div 10"])
qed

lemma octet_digits: "n \<le> 255 \<Longrightarrow> octet (digits_of n) = Some n"
proof -
  assume n: "n \<le> 255"
  have "length (digits_of n) \<le> 1" if "n < 10" using that by (simp add: digits_of.simps)
  then have "\<not> (length (digits_of n) > 1 \<and> hd (digits_of n) = CHR ''0'')"
    using digits_of_head [of n] by (cases "n < 10") auto
  then show ?thesis
    using n digits_of_length [of n] by (simp add: octet_def digits_value_digits del: One_nat_def)
qed

lemma parse_dotted:
  assumes "a \<le> 255" "b \<le> 255" "c \<le> 255" "d \<le> 255"
  shows "parse_ip (dotted a b c d) = Some (IPv4 (of_nat (octets_value a b c d)))"
proof -
  have "split_on CHR ''.'' (dotted a b c d) = map digits_of [a, b, c, d]"
    unfolding dotted_def by (rule split_join) (simp_all add: digits_of_free is_digit_def code_def)
  then show ?thesis
    using assms by (simp add: parse_ip_def parse_ipv4_def octet_digits)
qed

lemma octets_of_value:
  assumes "b \<le> 255" "c \<le> 255" "d \<le> 255" "a \<le> 255"
  shows "octet_of (octets_value a b c d) 3 = a" "octet_of (octets_value a b c d) 2 = b"
    "octet_of (octets_value a b c d) 1 = c" "octets_value a b c d < 2 ^ 32"
proof -
  have "(n * 256 + k) div 256 = n" if "k \<le> 255" for n k :: nat using that by simp
  then have d: "octets_value a b c d div 256 = (a * 256 + b) * 256 + c"
    "((a * 256 + b) * 256 + c) div 256 = a * 256 + b" "(a * 256 + b) div 256 = a"
    using assms by (simp_all only: octets_value_def)
  have m: "(n * 256 + k) mod 256 = k" if "k \<le> 255" for n k :: nat using that by simp
  have p: "v div 256 ^ 2 = v div 256 div 256" "v div 256 ^ 3 = v div 256 div 256 div 256" for v :: nat
    by (simp_all flip: div_mult2_eq)
  show "octet_of (octets_value a b c d) 3 = a" "octet_of (octets_value a b c d) 2 = b"
    "octet_of (octets_value a b c d) 1 = c"
    using assms m by (simp_all only: octet_of_def p d power_one_right) simp
  show "octets_value a b c d < 2 ^ 32" using assms by (simp add: octets_value_def)
qed

lemma reserved_octets:
  assumes "a \<le> 255" "b \<le> 255" "c \<le> 255" "d \<le> 255"
  shows "reserved_ip (IPv4 (of_nat (octets_value a b c d))) \<longleftrightarrow> reserved_ipv4 (octets_value a b c d)"
  using octets_of_value(4) [OF assms(2-4,1)]
  by (simp add: reserved_ip_def unsigned_of_nat take_bit_nat_eq_self)

section \<open>Loopback names are private\<close>

lemma octet_bound: "octet s = Some n \<Longrightarrow> n \<le> 255"
  by (auto simp: octet_def split: if_splits option.splits)

lemma parse_ipv4_cases:
  assumes "parse_ipv4 s = Some v"
  obtains p q r t a b c d where "split_on CHR ''.'' s = [p, q, r, t]" "octet p = Some a" "octet q = Some b"
    "octet r = Some c" "octet t = Some d" "v = octets_value a b c d"
proof -
  obtain a b c d where m: "map octet (split_on CHR ''.'' s) = [Some a, Some b, Some c, Some d]"
    "v = octets_value a b c d"
    using assms by (auto simp: parse_ipv4_def split: list.splits option.splits)
  then show thesis by (auto simp: map_eq_Cons_conv intro: that)
qed

lemma loopback_v4:
  assumes "parse_ip (''127.'' @ s) = Some (IPv4 w)"
  shows "reserved_ip (IPv4 w)"
proof -
  obtain v where v: "parse_ipv4 (''127.'' @ s) = Some v" "w = of_nat v"
    using assms by (auto simp: parse_ip_def split: option.splits)
  have "split_on CHR ''.'' (''127.'' @ s) = ''127'' # split_on CHR ''.'' s" by simp
  moreover have "octet ''127'' = Some 127" by (simp add: octet_def char_class_defs)
  moreover obtain p q r t a b c d where "split_on CHR ''.'' (''127.'' @ s) = [p, q, r, t]" "octet p = Some a"
    "octet q = Some b" "octet r = Some c" "octet t = Some d" "v = octets_value a b c d"
    using parse_ipv4_cases [OF v(1)] .
  ultimately have "v = octets_value 127 b c d" "b \<le> 255" "c \<le> 255" "d \<le> 255"
    by (auto dest: octet_bound)
  then show ?thesis
    by (simp add: v(2) reserved_octets) (simp add: reserved_ipv4_def octets_of_value)
qed

lemma isIP_4: "isIP s = 4 \<Longrightarrow> \<exists>w. parse_ip s = Some (IPv4 w)"
  by (auto simp: isIP_def split: option.splits ip.splits)

lemma starts_with_split: "starts_with p s \<Longrightarrow> \<exists>t. s = p @ t"
  by (metis append_take_drop_id starts_with_def)

lemma loopback_reserved:
  assumes "isLoopbackHostname h"
  defines "n \<equiv> normalise_name (strip_brackets h)"
  shows "reserved_name n shipped_reserved \<or> isPrivateIpInBlockList n shipped_blocks"
proof -
  consider "n = ''localhost''" | w s where "parse_ip n = Some (IPv4 w)" "n = ''127.'' @ s" | "n = ''::1''"
    using assms(1) isIP_4 [of n] starts_with_split [of "''127.''" n]
    unfolding isLoopbackHostname_def Let_def n_def [symmetric] by metis
  then show ?thesis
  proof cases
    case 1
    then show ?thesis by (simp add: reserved_name_def shipped_reserved_def)
  next
    case (2 w s)
    then show ?thesis
      using loopback_v4 [of s w] by (simp add: isPrivateIpInBlockList_def shipped_reserves)
  next
    case 3
    then show ?thesis
      by (simp add: isPrivateIpInBlockList_def shipped_reserves shipped_ipv6_literals reserved_ip_def
          reserved_ipv6_def hextet_of_def)
  qed
qed

section \<open>The loaders and their caches\<close>

definition cli_coherent :: "cli_world \<Rightarrow> bool" where
  "cli_coherent w = (case cw_cached w of None \<Rightarrow> True | Some c \<Rightarrow> load_yaml (cw_file w) = Inr c)"

definition plugin_file :: "plugin_world \<Rightarrow> yaml_file" where
  "plugin_file w =
     (case pw_files w (resolveBlueprintPath w) of None \<Rightarrow> YamlMissing | Some f \<Rightarrow> fs_content f)"

definition plugin_coherent :: "plugin_world \<Rightarrow> bool" where
  "plugin_coherent w =
     (case pw_cached w of None \<Rightarrow> True | Some c \<Rightarrow> load_yaml (plugin_file w) = Inr (pc_loaded c))"

lemma cli_load_spec:
  assumes "cli_coherent w"
  shows "fst (cli_load w) = load_yaml (cw_file w)" "cli_coherent (snd (cli_load w))"
    "cw_file (snd (cli_load w)) = cw_file w"
  using assms by (auto simp: cli_load_def cli_coherent_def split: option.splits sum.splits)

lemma plugin_load_spec:
  assumes "plugin_coherent w"
  shows "fst (plugin_load w) = load_yaml (plugin_file w)"
  using assms
  by (auto simp: plugin_load_def plugin_reload_def plugin_coherent_def plugin_file_def Let_def load_yaml_def
      split: option.splits sum.splits)

lemma plugin_load_again:
  assumes "plugin_load w = (Inr l, w')"
  shows "plugin_load w' = (Inr l, w')"
  using assms
  by (auto simp: plugin_load_def plugin_reload_def cache_recent_def STAT_CHECK_INTERVAL_MS_def Let_def
      split: option.splits sum.splits if_splits)

lemma reset_coherent: "cli_coherent (cli_resetCache cw)" "plugin_coherent (plugin_resetCache pw)"
  by (simp_all add: cli_coherent_def cli_resetCache_def plugin_coherent_def plugin_resetCache_def)

definition private_host :: "loaded_networks \<Rightarrow> string \<Rightarrow> bool" where
  "private_host l h =
     (let n = normalise_name (strip_brackets h) in
      reserved_name n (ln_normalisedNames l) \<or> isPrivateIpInBlockList n (ln_blockList l))"

lemma not_ip_not_private: "isIP s = 0 \<Longrightarrow> \<not> isPrivateIpInBlockList s bl"
  by (auto simp: isIP_def isPrivateIpInBlockList_def split: option.splits ip.splits)

lemma plugin_host_spec:
  "fst (plugin_isPrivateHostname h w) =
     (case fst (plugin_load w) of Inl e \<Rightarrow> Inl e | Inr l \<Rightarrow> Inr (private_host l h))"
  by (auto simp: plugin_isPrivateHostname_def Let_def bind_def private_host_def split: prod.splits sum.splits)

lemma plugin_ip_spec:
  "plugin_isPrivateIp a w =
     (case plugin_load w of
        (Inl e, w') \<Rightarrow> (Inl e, w') | (Inr l, w') \<Rightarrow> (Inr (isPrivateIpInBlockList a (ln_blockList l)), w'))"
  by (auto simp: plugin_isPrivateIp_def bind_def split: prod.splits sum.splits)

lemma cli_load_again: "cli_load w = (Inr l, w') \<Longrightarrow> cli_load w' = (Inr l, w')"
  by (auto simp: cli_load_def split: option.splits sum.splits)

lemma cli_host_spec:
  "fst (cli_isPrivateHostname h w) =
     (case fst (cli_load w) of Inl e \<Rightarrow> Inl e | Inr l \<Rightarrow> Inr (private_host l h))"
  by (auto simp: cli_isPrivateHostname_def cli_isPrivateIp_def Let_def bind_def private_host_def
      not_ip_not_private dest: cli_load_again split: prod.splits sum.splits)

lemma cli_ip_spec:
  "fst (cli_isPrivateIp a w) =
     (if isIP a = 0 then Inr False
      else case fst (cli_load w) of Inl e \<Rightarrow> Inl e | Inr l \<Rightarrow> Inr (isPrivateIpInBlockList a (ln_blockList l)))"
  by (auto simp: cli_isPrivateIp_def bind_def split: prod.splits sum.splits)

section \<open>What a validated endpoint has passed\<close>

lemma refuse_private_spec:
  assumes "refuse_private as w = (Inr (), w')" "as \<noteq> []"
  shows "\<exists>l. plugin_load w = (Inr l, w') \<and> (\<forall>a \<in> set as. \<not> isPrivateIpInBlockList a (ln_blockList l))"
  using assms
proof (induction "as" arbitrary: w)
  case (Cons a as)
  then obtain l w1 where l: "plugin_load w = (Inr l, w1)" "\<not> isPrivateIpInBlockList a (ln_blockList l)"
    "refuse_private as w1 = (Inr (), w')"
    by (auto simp: plugin_ip_spec split: prod.splits sum.splits if_splits)
  show ?case
  proof (cases "as = []")
    case True
    then show ?thesis using l by simp
  next
    case False
    then show ?thesis using Cons.IH [OF l(3) False] plugin_load_again [OF l(1)] l by auto
  qed
qed simp

lemma validate_checked:
  assumes "validateEndpointUrl p url w = (Inr v, w')"
  obtains u l w1 where "np_parseUrl p url = Some u" "url_protocol u \<in> set ALLOWED_SCHEMES"
    "url_username u = []" "url_password u = []"
    "plugin_load w = (Inr l, w1)" "\<not> private_host l (url_hostname u)"
    "ve_protocol v = url_protocol u" "ve_url v = url"
    "isIP (hostnameForDnsLookup (url_hostname u)) \<noteq> 0 \<and> \<not> ve_dnsResolved v \<and> ve_pinnedUrl v = url \<and> w' = w1
     \<or> ve_dnsResolved v \<and>
       (\<exists>first rest w2 l2. np_lookup p (hostnameForDnsLookup (url_hostname u)) w1 = (Some (first # rest), w2)
          \<and> plugin_load w2 = (Inr l2, w')
          \<and> (\<forall>a \<in> set (first # rest). \<not> isPrivateIpInBlockList (fst a) (ln_blockList l2))
          \<and> ve_pinnedUrl v = np_withHostname p url (pinned_host first)
          \<and> ve_resolvedAddress v = Some (fst first))"
proof -
  obtain u where u: "np_parseUrl p url = Some u" "url_protocol u \<in> set ALLOWED_SCHEMES"
    "url_username u = []" "url_password u = []"
    using assms by (auto simp: validateEndpointUrl_def split: option.splits if_splits)
  let ?h = "url_hostname u"
  let ?d = "hostnameForDnsLookup ?h"
  obtain l w1 where l: "plugin_load w = (Inr l, w1)" "\<not> private_host l ?h"
    "plugin_isPrivateHostname ?h w = (Inr False, w1)"
    using assms u
    by (auto simp: validateEndpointUrl_def plugin_isPrivateHostname_def private_host_def Let_def
        split: if_splits)
  show thesis
  proof (cases "isIP ?d = 0")
    case False
    then show thesis
      using assms u l by (intro that [of u l w1]) (auto simp: validateEndpointUrl_def split: if_splits)
  next
    case True
    then obtain first rest w2 where r: "np_lookup p ?d w1 = (Some (first # rest), w2)"
      "refuse_private (map fst (first # rest)) w2 = (Inr (), w')"
      "v = \<lparr>ve_url = url, ve_pinnedUrl = np_withHostname p url (pinned_host first),
            ve_protocol = url_protocol u, ve_hostname = ?h, ve_resolvedAddress = Some (fst first),
            ve_resolvedFamily = Some (snd first), ve_dnsResolved = True\<rparr>"
      using assms u l
      by (auto simp: validateEndpointUrl_def dns_lookup_def simp del: refuse_private.simps
          split: if_splits prod.splits option.splits list.splits)
    obtain l2 where "plugin_load w2 = (Inr l2, w')"
      "\<forall>a \<in> set (first # rest). \<not> isPrivateIpInBlockList (fst a) (ln_blockList l2)"
      using refuse_private_spec [OF r(2)] by auto
    then show thesis
      using u l r by (intro that [of u l w1]) auto
  qed
qed

end
