(* ===== verification/Onboard_Lock.thy ===== *)
theory Onboard_Lock
  imports Session_Values Nemo_Text
begin

text \<open>
  The onboarding lock (\<open>state/onboard-session.ts\<close>, section Locking) with several processes at once.

  Each process is a program counter over the calls of \<open>acquireOnboardLock\<close>, \<open>unlinkIfInodeMatches\<close> and
  \<open>releaseOnboardLock\<close> that touch the lock file; one event runs one such call of one process, lets
  time pass, or ends a process. The lock path is missing or a regular file. A file has an
  identity that only the model sees (\<open>lf_id\<close>, and \<open>lf_creator\<close>), beside the inode number the code
  compares: the kernel may give the number of a file that is gone to a new one. File content is the
  parsed JSON, \<open>None\<close> while it does not parse. Errors other than a missing file are modelled for the
  write of the payload only.
\<close>

section \<open>Lock files\<close>

record lock_info =
  li_pid :: jnum
  li_startedAt :: "string option"
  li_command :: "string option"

definition parseLockInfo :: "js \<Rightarrow> lock_info option" where
  "parseLockInfo value =
     (if \<not> isObjectRecord value then None
      else case js_get value ''pid'' of
             JNum pid \<Rightarrow>
               Some \<lparr>li_pid = pid, li_startedAt = js_string (js_get value ''startedAt''),
                     li_command = js_string (js_get value ''command'')\<rparr>
           | _ \<Rightarrow> None)"

definition parseLockFile :: "js option \<Rightarrow> lock_info option" where
  "parseLockFile contents = (case contents of None \<Rightarrow> None | Some v \<Rightarrow> parseLockInfo v)"

definition lock_payload :: "int \<Rightarrow> string \<Rightarrow> string option \<Rightarrow> js" where
  "lock_payload pid startedAt command =
     JObj [(''pid'', JNum (NInt pid)), (''startedAt'', JStr startedAt), (''command'', js_opt JStr command)]"

record lock_file =
  lf_id :: nat
  lf_creator :: int
  lf_inode :: nat
  lf_mtimeMs :: int
  lf_content :: "js option"

record lock_snapshot =
  sn_id :: nat
  sn_info :: "lock_info option"
  sn_inode :: nat
  sn_mtimeMs :: int

definition readLockFileSnapshot :: "lock_file \<Rightarrow> lock_snapshot" where
  "readLockFileSnapshot f =
     \<lparr>sn_id = lf_id f, sn_info = parseLockFile (lf_content f), sn_inode = lf_inode f,
      sn_mtimeMs = lf_mtimeMs f\<rparr>"

definition MALFORMED_STALE_SECONDS :: int where
  "MALFORMED_STALE_SECONDS = 30"

definition MAX_ATTEMPTS :: nat where
  "MAX_ATTEMPTS = 5"

section \<open>Processes\<close>

text \<open>What follows a call of \<open>unlinkIfInodeMatches\<close> or a plain \<open>unlinkSync\<close>.\<close>

datatype after_unlink = Retry nat | Return | Rethrow

datatype lock_pc =
    Idle
  | Opening nat
  | Reading nat
  | Checking after_unlink lock_snapshot
  | Unlinking after_unlink nat
  | Writing nat nat
  | ReleaseStat nat nat
  | FallbackRead

datatype lock_outcome = Acquired | HeldBy lock_info | GaveUp | WriteError

record lock_process =
  lp_pc :: lock_pc
  lp_heldLockFd :: "(nat \<times> nat) option"
  lp_startedAt :: string
  lp_command :: "string option"
  lp_outcome :: "lock_outcome option"

record lock_world =
  lw_now :: int
  lw_path :: "lock_file option"
  lw_procs :: "int \<Rightarrow> lock_process"
  lw_alive :: "int \<Rightarrow> bool"
  lw_next :: nat

text \<open>The platform: \<open>Date.parse\<close>, \<open>toISOString\<close>, and the texts of \<open>/proc/<pid>/stat\<close> and \<open>/proc/stat\<close>.\<close>

record lock_env =
  le_parseDate :: "string \<Rightarrow> int option"
  le_toISO :: "int \<Rightarrow> string"
  le_procStat :: "int \<Rightarrow> string option"
  le_kernelStat :: "string option"

definition isProcessAlive :: "lock_world \<Rightarrow> jnum \<Rightarrow> bool" where
  "isProcessAlive w pid = (case pid of NInt n \<Rightarrow> 0 < n \<and> lw_alive w n | _ \<Rightarrow> False)"

text \<open>\<open>trim().split(/\s+/)\<close> as far as its words are read by index, and \<open>Number\<close> of a word of digits.\<close>

fun words_by :: "(char \<Rightarrow> bool) \<Rightarrow> string \<Rightarrow> string list" where
  "words_by sep [] = [[]]"
| "words_by sep (c # s) =
     (if sep c then [] # words_by sep s
      else (case words_by sep s of [] \<Rightarrow> [[c]] | x # xs \<Rightarrow> (c # x) # xs))"

definition space_words :: "string \<Rightarrow> string list" where
  "space_words s = filter (\<lambda>x. x \<noteq> []) (words_by is_js_space s)"

definition number_at :: "nat \<Rightarrow> string list \<Rightarrow> int option" where
  "number_at i xs = (if i < length xs then map_option int (digits_value 0 (xs ! i)) else None)"

definition after_last :: "char \<Rightarrow> string \<Rightarrow> string option" where
  "after_last x s = (if x \<in> set s then Some (rev (takeWhile (\<lambda>c. c \<noteq> x) (rev s))) else None)"

text \<open>\<open>(bootSeconds + startTicks / 100) * 1000\<close>\<close>

definition readProcProcessStartMs :: "lock_env \<Rightarrow> int \<Rightarrow> int option" where
  "readProcProcessStartMs env pid =
     (case (le_procStat env pid, le_kernelStat env) of
        (Some statText, Some kernelText) \<Rightarrow>
          (case Option.bind (find (starts_with ''btime '') (split_on (CHR 0x0A) kernelText))
                  (\<lambda>line. number_at 1 (space_words line)) of
             None \<Rightarrow> None
           | Some bootSeconds \<Rightarrow>
               (case Option.bind (after_last (CHR '')'') statText) (\<lambda>rest. number_at 19 (space_words (drop 1 rest))) of
                  None \<Rightarrow> None
                | Some startTicks \<Rightarrow> Some (bootSeconds * 1000 + startTicks * 10)))
      | _ \<Rightarrow> None)"

definition lockHolderStillMatches :: "lock_env \<Rightarrow> lock_world \<Rightarrow> int \<Rightarrow> lock_info \<Rightarrow> bool" where
  "lockHolderStillMatches env w self lock =
     (if \<not> isProcessAlive w (li_pid lock) then False
      else if li_pid lock = NInt self then True
      else case (case li_startedAt lock of
                   Some s \<Rightarrow> if s \<noteq> [] then le_parseDate env s else None | None \<Rightarrow> None) of
             None \<Rightarrow> True
           | Some lockStartedMs \<Rightarrow>
               (case li_pid lock of
                  NInt pid \<Rightarrow>
                    (case readProcProcessStartMs env pid of
                       None \<Rightarrow> True
                     | Some processStartMs \<Rightarrow> processStartMs \<le> lockStartedMs + 1000)
                | _ \<Rightarrow> True))"

section \<open>Steps\<close>

definition set_proc :: "int \<Rightarrow> lock_process \<Rightarrow> lock_world \<Rightarrow> lock_world" where
  "set_proc p x w = w\<lparr>lw_procs := (lw_procs w)(p := x)\<rparr>"

definition goto :: "int \<Rightarrow> lock_pc \<Rightarrow> lock_world \<Rightarrow> lock_world" where
  "goto p c w = set_proc p ((lw_procs w p)\<lparr>lp_pc := c\<rparr>) w"

definition finish :: "int \<Rightarrow> lock_outcome \<Rightarrow> lock_world \<Rightarrow> lock_world" where
  "finish p r w = set_proc p ((lw_procs w p)\<lparr>lp_pc := Idle, lp_outcome := Some r\<rparr>) w"

text \<open>\<open>continue\<close> of the loop over the attempts.\<close>

definition next_attempt :: "int \<Rightarrow> nat \<Rightarrow> lock_world \<Rightarrow> lock_world" where
  "next_attempt p k w =
     (if Suc k < MAX_ATTEMPTS then goto p (Opening (Suc k)) w else finish p GaveUp w)"

definition after :: "int \<Rightarrow> after_unlink \<Rightarrow> lock_world \<Rightarrow> lock_world" where
  "after p c w =
     (case c of
        Retry k \<Rightarrow> next_attempt p k w
      | Return \<Rightarrow> goto p Idle w
      | Rethrow \<Rightarrow> finish p WriteError w)"

definition open_lock :: "int \<Rightarrow> nat \<Rightarrow> nat \<Rightarrow> lock_world \<Rightarrow> lock_world" where
  "open_lock p k inode w =
     (case lw_path w of
        Some _ \<Rightarrow> goto p (Reading k) w
      | None \<Rightarrow>
          goto p (Writing (lw_next w) inode)
            (w\<lparr>lw_path := Some \<lparr>lf_id = lw_next w, lf_creator = p, lf_inode = inode,
                 lf_mtimeMs = lw_now w, lf_content = None\<rparr>, lw_next := Suc (lw_next w)\<rparr>))"

definition inspect_lock :: "lock_env \<Rightarrow> int \<Rightarrow> nat \<Rightarrow> lock_world \<Rightarrow> lock_world" where
  "inspect_lock env p k w =
     (case lw_path w of
        None \<Rightarrow> next_attempt p k w
      | Some f \<Rightarrow>
          (let snapshot = readLockFileSnapshot f in
           case sn_info snapshot of
             None \<Rightarrow>
               if lw_now w - sn_mtimeMs snapshot > MALFORMED_STALE_SECONDS * 1000
               then goto p (Checking (Retry k) snapshot) w
               else next_attempt p k w
           | Some existing \<Rightarrow>
               if lockHolderStillMatches env w p existing then finish p (HeldBy existing) w
               else goto p (Checking (Retry k) snapshot) w))"

text \<open>\<open>unlinkIfInodeMatches\<close>: the \<open>statSync\<close>, then the \<open>unlinkSync\<close>.\<close>

definition check_inode :: "int \<Rightarrow> after_unlink \<Rightarrow> lock_snapshot \<Rightarrow> lock_world \<Rightarrow> lock_world" where
  "check_inode p c snapshot w =
     (case lw_path w of
        None \<Rightarrow> after p c w
      | Some f \<Rightarrow>
          if lf_inode f \<noteq> sn_inode snapshot then after p c w
          else goto p (Unlinking c (sn_id snapshot)) w)"

definition unlink_lock :: "int \<Rightarrow> after_unlink \<Rightarrow> lock_world \<Rightarrow> lock_world" where
  "unlink_lock p c w = after p c (w\<lparr>lw_path := None\<rparr>)"

definition write_lock :: "int \<Rightarrow> nat \<Rightarrow> nat \<Rightarrow> lock_world \<Rightarrow> lock_world" where
  "write_lock p fd inode w =
     (let me = lw_procs w p;
          content = Some (lock_payload p (lp_startedAt me) (lp_command me))
      in set_proc p (me\<lparr>lp_pc := Idle, lp_heldLockFd := Some (fd, inode), lp_outcome := Some Acquired\<rparr>)
           (w\<lparr>lw_path :=
              (case lw_path w of
                 None \<Rightarrow> None
               | Some f \<Rightarrow>
                   Some (if lf_id f = fd then f\<lparr>lf_content := content, lf_mtimeMs := lw_now w\<rparr> else f))\<rparr>))"

definition release_stat :: "int \<Rightarrow> nat \<Rightarrow> nat \<Rightarrow> lock_world \<Rightarrow> lock_world" where
  "release_stat p fd inode w =
     (case lw_path w of
        None \<Rightarrow> goto p Idle w
      | Some f \<Rightarrow> if lf_inode f = inode then goto p (Unlinking Return fd) w else goto p Idle w)"

definition fallback_read :: "int \<Rightarrow> lock_world \<Rightarrow> lock_world" where
  "fallback_read p w =
     (case lw_path w of
        None \<Rightarrow> goto p Idle w
      | Some f \<Rightarrow>
          (let snapshot = readLockFileSnapshot f in
           case sn_info snapshot of
             None \<Rightarrow> goto p Idle w
           | Some i \<Rightarrow>
               if li_pid i \<noteq> NInt p then goto p Idle w else goto p (Checking Return snapshot) w))"

text \<open>The next call of process \<open>p\<close>; \<open>inode\<close> is the number a file it creates is given.\<close>

definition turn :: "lock_env \<Rightarrow> int \<Rightarrow> nat \<Rightarrow> lock_world \<Rightarrow> lock_world" where
  "turn env p inode w =
     (case lp_pc (lw_procs w p) of
        Idle \<Rightarrow> w
      | Opening k \<Rightarrow> open_lock p k inode w
      | Reading k \<Rightarrow> inspect_lock env p k w
      | Checking c snapshot \<Rightarrow> check_inode p c snapshot w
      | Unlinking c fd \<Rightarrow> unlink_lock p c w
      | Writing fd ino \<Rightarrow> write_lock p fd ino w
      | ReleaseStat fd ino \<Rightarrow> release_stat p fd ino w
      | FallbackRead \<Rightarrow> fallback_read p w)"

datatype lock_event =
    Acquire int "string option"
  | Turn int nat
  | WriteFails int
  | Release int
  | Crash int
  | Elapse nat

definition acquireOnboardLock :: "lock_env \<Rightarrow> int \<Rightarrow> string option \<Rightarrow> lock_world \<Rightarrow> lock_world" where
  "acquireOnboardLock env p command w =
     (let me = lw_procs w p in
      if lp_pc me \<noteq> Idle then w
      else set_proc p (me\<lparr>lp_pc := Opening 0, lp_startedAt := le_toISO env (lw_now w),
                         lp_command := command, lp_outcome := None\<rparr>) w)"

definition releaseOnboardLock :: "int \<Rightarrow> lock_world \<Rightarrow> lock_world" where
  "releaseOnboardLock p w =
     (let me = lw_procs w p in
      if lp_pc me \<noteq> Idle then w
      else case lp_heldLockFd me of
             Some (fd, inode) \<Rightarrow> set_proc p (me\<lparr>lp_heldLockFd := None, lp_pc := ReleaseStat fd inode\<rparr>) w
           | None \<Rightarrow> goto p FallbackRead w)"

text \<open>The payload cannot be written: the descriptor is closed and the path is unlinked.\<close>

definition write_fails :: "int \<Rightarrow> lock_world \<Rightarrow> lock_world" where
  "write_fails p w =
     (case lp_pc (lw_procs w p) of
        Writing fd inode \<Rightarrow> goto p (Unlinking Rethrow fd) w
      | _ \<Rightarrow> w)"

fun lock_step :: "lock_env \<Rightarrow> lock_event \<Rightarrow> lock_world \<Rightarrow> lock_world" where
  "lock_step env (Acquire p command) w = (if lw_alive w p then acquireOnboardLock env p command w else w)"
| "lock_step env (Turn p inode) w = (if lw_alive w p then turn env p inode w else w)"
| "lock_step env (WriteFails p) w = (if lw_alive w p then write_fails p w else w)"
| "lock_step env (Release p) w = (if lw_alive w p then releaseOnboardLock p w else w)"
| "lock_step env (Crash p) w = w\<lparr>lw_alive := (lw_alive w)(p := False)\<rparr>"
| "lock_step env (Elapse ms) w = w\<lparr>lw_now := lw_now w + int ms\<rparr>"

text \<open>A number is only given out when no process has a file with that number open.\<close>

definition has_open :: "lock_process \<Rightarrow> nat \<Rightarrow> bool" where
  "has_open x inode =
     ((case lp_heldLockFd x of Some (_, ino) \<Rightarrow> ino = inode | None \<Rightarrow> False)
      \<or> (case lp_pc x of Writing _ ino \<Rightarrow> ino = inode | _ \<Rightarrow> False))"

definition inode_open :: "lock_world \<Rightarrow> nat \<Rightarrow> bool" where
  "inode_open w inode = (\<exists>q. lw_alive w q \<and> has_open (lw_procs w q) inode)"

fun possible :: "lock_world \<Rightarrow> lock_event \<Rightarrow> bool" where
  "possible w (Turn p inode) =
     (case lp_pc (lw_procs w p) of
        Opening _ \<Rightarrow> lw_path w = None \<longrightarrow> \<not> inode_open w inode
      | _ \<Rightarrow> True)"
| "possible w _ = True"

inductive lock_reach :: "lock_env \<Rightarrow> (lock_world \<Rightarrow> lock_event \<Rightarrow> bool) \<Rightarrow> lock_world \<Rightarrow> lock_world \<Rightarrow> bool"
  for env allowed w0
where
  reach_start: "lock_reach env allowed w0 w0"
| reach_event: "lock_reach env allowed w0 w \<Longrightarrow> allowed w e \<Longrightarrow> lock_reach env allowed w0 (lock_step env e w)"

end
