(* ===== verification/Lock_Facts.thy ===== *)
theory Lock_Facts
  imports Onboard_Lock
begin

text \<open>
  Mutual exclusion of the onboarding lock: the runs it holds for, its invariant, the runs outside
  them that break it, and the takeover of a stale lock.
\<close>

section \<open>Tame runs\<close>

text \<open>The lock's start time is not earlier than the start of the process that writes it.\<close>

definition started_before :: "lock_env \<Rightarrow> int \<Rightarrow> string \<Rightarrow> bool" where
  "started_before env p s =
     (case (le_parseDate env s, readProcProcessStartMs env p) of
        (Some t, Some b) \<Rightarrow> b \<le> t + 1000
      | _ \<Rightarrow> True)"

text \<open>
  A run is tame while the clock is behind no process, no creator of the lock file is suspended for
  more than half a minute before it writes the payload, and the file that is unlinked is the
  file that was judged: its inode number has not been given to a new file, and the file has not
  been replaced between the \<open>stat\<close> and the \<open>unlink\<close>.
\<close>

definition writing :: "lock_world \<Rightarrow> int \<Rightarrow> nat \<Rightarrow> bool" where
  "writing w p fd = (lw_alive w p \<and> (case lp_pc (lw_procs w p) of Writing n _ \<Rightarrow> n = fd | _ \<Rightarrow> False))"

definition malformed_stale :: "lock_world \<Rightarrow> lock_file \<Rightarrow> bool" where
  "malformed_stale w f =
     (parseLockFile (lf_content f) = None \<and> lw_now w - lf_mtimeMs f > MALFORMED_STALE_SECONDS * 1000)"

definition tame_turn :: "lock_world \<Rightarrow> int \<Rightarrow> lock_file \<Rightarrow> bool" where
  "tame_turn w p f =
     (case lp_pc (lw_procs w p) of
        Reading _ \<Rightarrow> malformed_stale w f \<longrightarrow> \<not> writing w (lf_creator f) (lf_id f)
      | Checking _ snapshot \<Rightarrow> lf_inode f = sn_inode snapshot \<longrightarrow> lf_id f = sn_id snapshot
      | Unlinking _ fd \<Rightarrow> lf_id f = fd
      | _ \<Rightarrow> True)"

fun tame :: "lock_env \<Rightarrow> lock_world \<Rightarrow> lock_event \<Rightarrow> bool" where
  "tame env w (Acquire p _) = started_before env p (le_toISO env (lw_now w))"
| "tame env w (Turn p _) = (case lw_path w of Some f \<Rightarrow> tame_turn w p f | None \<Rightarrow> True)"
| "tame env w _ = True"

section \<open>Invariant\<close>

definition acquiring :: "lock_pc \<Rightarrow> bool" where
  "acquiring c =
     (case c of
        Opening _ \<Rightarrow> True | Reading _ \<Rightarrow> True | Writing _ _ \<Rightarrow> True
      | Checking (Retry _) _ \<Rightarrow> True | Unlinking (Retry _) _ \<Rightarrow> True | _ \<Rightarrow> False)"

definition judged :: "lock_pc \<Rightarrow> nat option" where
  "judged c =
     (case c of
        Checking _ snapshot \<Rightarrow> Some (sn_id snapshot)
      | Unlinking _ fd \<Rightarrow> Some fd
      | ReleaseStat fd _ \<Rightarrow> Some fd
      | _ \<Rightarrow> None)"

definition holds_file :: "lock_env \<Rightarrow> int \<Rightarrow> nat \<Rightarrow> lock_file \<Rightarrow> bool" where
  "holds_file env p fd f =
     (lf_id f = fd \<and>
      (\<exists>i. parseLockFile (lf_content f) = Some i \<and> li_pid i = NInt p \<and>
           (\<forall>s. li_startedAt i = Some s \<longrightarrow> started_before env p s)))"

definition proc_ok :: "lock_env \<Rightarrow> lock_file option \<Rightarrow> int \<Rightarrow> lock_process \<Rightarrow> bool" where
  "proc_ok env path p x =
     ((acquiring (lp_pc x) \<longrightarrow> started_before env p (lp_startedAt x)) \<and>
      (\<forall>fd ino. lp_heldLockFd x = Some (fd, ino) \<longrightarrow> (\<exists>f. path = Some f \<and> holds_file env p fd f)) \<and>
      (\<forall>fd ino. lp_pc x = Writing fd ino \<longrightarrow>
         (\<exists>f. path = Some f \<and> lf_id f = fd \<and> lf_creator f = p \<and> lf_content f = None)) \<and>
      (lp_pc x = FallbackRead \<longrightarrow> lp_heldLockFd x = None))"

definition owns :: "lock_process \<Rightarrow> nat \<Rightarrow> bool" where
  "owns x fd = (\<exists>ino. lp_heldLockFd x = Some (fd, ino) \<or> lp_pc x = Writing fd ino)"

definition lock_inv :: "lock_env \<Rightarrow> lock_world \<Rightarrow> bool" where
  "lock_inv env w =
     ((\<forall>p. lw_alive w p \<longrightarrow> 0 < p \<and> proc_ok env (lw_path w) p (lw_procs w p)) \<and>
      (\<forall>f. lw_path w = Some f \<longrightarrow> lf_id f < lw_next w) \<and>
      (\<forall>p fd. lw_alive w p \<and> judged (lp_pc (lw_procs w p)) = Some fd \<longrightarrow>
         fd < lw_next w \<and> (\<forall>q. lw_alive w q \<longrightarrow> \<not> owns (lw_procs w q) fd)))"

lemma lock_invI:
  assumes "\<And>p. lw_alive w p \<Longrightarrow> 0 < p" "\<And>p. lw_alive w p \<Longrightarrow> proc_ok env (lw_path w) p (lw_procs w p)"
    "\<And>f. lw_path w = Some f \<Longrightarrow> lf_id f < lw_next w"
    "\<And>p fd. lw_alive w p \<Longrightarrow> judged (lp_pc (lw_procs w p)) = Some fd \<Longrightarrow> fd < lw_next w"
    "\<And>p q fd. lw_alive w p \<Longrightarrow> judged (lp_pc (lw_procs w p)) = Some fd \<Longrightarrow> lw_alive w q \<Longrightarrow>
      \<not> owns (lw_procs w q) fd"
  shows "lock_inv env w"
  unfolding lock_inv_def using assms by blast

lemma lock_invD:
  assumes "lock_inv env w"
  shows "lw_alive w p \<Longrightarrow> 0 < p" "lw_alive w p \<Longrightarrow> proc_ok env (lw_path w) p (lw_procs w p)"
    "lw_path w = Some f \<Longrightarrow> lf_id f < lw_next w"
    "lw_alive w p \<Longrightarrow> judged (lp_pc (lw_procs w p)) = Some fd \<Longrightarrow> fd < lw_next w"
    "lw_alive w p \<Longrightarrow> judged (lp_pc (lw_procs w p)) = Some fd \<Longrightarrow> lw_alive w q \<Longrightarrow> \<not> owns (lw_procs w q) fd"
  using assms by (simp_all add: lock_inv_def)

text \<open>An owner's file is at the path, and a holder and a writer are the same process.\<close>

lemma owner_at_path:
  assumes "lock_inv env w" "lw_alive w q" "owns (lw_procs w q) fd"
  shows "\<exists>f. lw_path w = Some f \<and> lf_id f = fd"
  using assms unfolding lock_inv_def owns_def proc_ok_def holds_file_def by metis

lemma owner_cases:
  assumes "lock_inv env w" "lw_alive w p" "owns (lw_procs w p) n"
  obtains f where "lw_path w = Some f" "holds_file env p n f"
  | f where "lw_path w = Some f" "lf_id f = n" "lf_creator f = p" "lf_content f = None"
  using lock_invD(2) [OF assms(1,2)] assms(3) by (auto simp: owns_def proc_ok_def)

lemma owner_unique:
  assumes "lock_inv env w" "lw_alive w p" "lw_alive w q" "owns (lw_procs w p) n" "owns (lw_procs w q) m"
  shows "p = q \<and> n = m"
  by (rule owner_cases [OF assms(1,2,4)]; rule owner_cases [OF assms(1,3,5)])
    (simp_all add: holds_file_def parseLockFile_def, metis jnum.inject(1) option.sel)

section \<open>Preservation\<close>

lemmas pc_simps = acquiring_def judged_def

text \<open>A process moves without touching the path and without becoming an owner.\<close>

lemma inv_quiet:
  assumes inv: "lock_inv env w" and p: "lw_alive w p"
    and fd: "lp_heldLockFd x = None \<or> lp_heldLockFd x = lp_heldLockFd (lw_procs w p)"
    and pc: "\<And>n ino. lp_pc x \<noteq> Writing n ino"
    and started: "acquiring (lp_pc x) \<Longrightarrow> started_before env p (lp_startedAt x)"
    and fallback: "lp_pc x = FallbackRead \<Longrightarrow> lp_heldLockFd x = None"
    and target: "\<And>n. judged (lp_pc x) = Some n \<Longrightarrow>
      n < lw_next w \<and> \<not> owns x n \<and> (\<forall>q. lw_alive w q \<and> q \<noteq> p \<longrightarrow> \<not> owns (lw_procs w q) n)"
  shows "lock_inv env (set_proc p x w)"
proof -
  have o: "owns x n \<Longrightarrow> owns (lw_procs w p) n" for n using fd pc by (auto simp: owns_def)
  have ok: "proc_ok env (lw_path w) p x"
    using lock_invD(2) [OF inv p] fd pc started fallback by (auto simp: proc_ok_def)
  let ?w = "set_proc p x w"
  have f: "lw_alive ?w = lw_alive w" "lw_path ?w = lw_path w" "lw_next ?w = lw_next w"
    "lw_procs ?w q = (if q = p then x else lw_procs w q)" for q
    by (simp_all add: set_proc_def)
  show ?thesis
  proof (rule lock_invI; unfold f)
    fix q r n
    assume q: "lw_alive w q" "judged (lp_pc (if q = p then x else lw_procs w q)) = Some n" and r: "lw_alive w r"
    show "\<not> owns (if r = p then x else lw_procs w r) n"
      using q r target [of n] o [of n] lock_invD(5) [OF inv q(1), of n] by (auto split: if_splits)
  qed (use ok target lock_invD [OF inv] in \<open>auto split: if_splits\<close>)
qed

lemma inv_goto:
  assumes "lock_inv env w" "lw_alive w p" "judged c = None" "acquiring c \<Longrightarrow> acquiring (lp_pc (lw_procs w p))"
    "\<And>n ino. c \<noteq> Writing n ino" "c \<noteq> FallbackRead"
  shows "lock_inv env (goto p c w)"
  unfolding goto_def
proof (rule inv_quiet [OF assms(1,2)])
  show "started_before env p (lp_startedAt (lw_procs w p\<lparr>lp_pc := c\<rparr>))"
    if "acquiring (lp_pc (lw_procs w p\<lparr>lp_pc := c\<rparr>))"
    using that assms(1,2,4) by (auto simp: lock_inv_def proc_ok_def)
qed (use assms(3,5,6) in auto)

lemma inv_finish:
  assumes "lock_inv env w" "lw_alive w p"
  shows "lock_inv env (finish p r w)"
  unfolding finish_def by (rule inv_quiet [OF assms]) (auto simp: pc_simps)

lemma inv_next_attempt:
  assumes "lock_inv env w" "lw_alive w p" "acquiring (lp_pc (lw_procs w p))"
  shows "lock_inv env (next_attempt p k w)"
  using assms by (auto simp: next_attempt_def pc_simps intro!: inv_goto inv_finish)

lemma inv_after:
  assumes "lock_inv env w" "lw_alive w p" "\<And>k. c = Retry k \<Longrightarrow> acquiring (lp_pc (lw_procs w p))"
  shows "lock_inv env (after p c w)"
  using assms
  by (auto simp: after_def pc_simps intro!: inv_goto inv_finish inv_next_attempt split: after_unlink.splits)

text \<open>A process judges a file that nobody owns.\<close>

lemma inv_judge:
  assumes "lock_inv env w" "lw_alive w p" "judged c = Some n" "n < lw_next w"
    "\<And>q. lw_alive w q \<Longrightarrow> \<not> owns (lw_procs w q) n"
    "acquiring c \<Longrightarrow> acquiring (lp_pc (lw_procs w p))" "\<And>n ino. c \<noteq> Writing n ino"
  shows "lock_inv env (goto p c w)"
  unfolding goto_def
proof (rule inv_quiet [OF assms(1,2)])
  have "\<not> owns (lw_procs w p\<lparr>lp_pc := c\<rparr>) n"
    using assms(5) [OF assms(2)] assms(7) by (auto simp: owns_def)
  then show "m < lw_next w \<and> \<not> owns (lw_procs w p\<lparr>lp_pc := c\<rparr>) m
      \<and> (\<forall>q. lw_alive w q \<and> q \<noteq> p \<longrightarrow> \<not> owns (lw_procs w q) m)"
    if "judged (lp_pc (lw_procs w p\<lparr>lp_pc := c\<rparr>)) = Some m" for m
    using that assms(3-5) by auto
  show "started_before env p (lp_startedAt (lw_procs w p\<lparr>lp_pc := c\<rparr>))"
    if "acquiring (lp_pc (lw_procs w p\<lparr>lp_pc := c\<rparr>))"
    using that assms(1,2,6) by (auto simp: lock_inv_def proc_ok_def)
qed (use assms(3,7) in \<open>auto simp: judged_def\<close>)

lemma judged_free:
  assumes "lock_inv env w" "lw_alive w p" "judged (lp_pc (lw_procs w p)) = Some n"
  shows "n < lw_next w" "lw_alive w q \<Longrightarrow> \<not> owns (lw_procs w q) n"
  using assms by (auto simp: lock_inv_def)

text \<open>The path is unlinked while nobody owns the file there.\<close>

lemma inv_unlink:
  assumes "lock_inv env w" "\<And>q n. lw_alive w q \<Longrightarrow> \<not> owns (lw_procs w q) n"
  shows "lock_inv env (w\<lparr>lw_path := None\<rparr>)"
  using assms by (auto simp: lock_inv_def proc_ok_def owns_def)

lemma no_owner:
  assumes "lock_inv env w" "\<And>f q. lw_path w = Some f \<Longrightarrow> lw_alive w q \<Longrightarrow> \<not> owns (lw_procs w q) (lf_id f)"
    "lw_alive w q"
  shows "\<not> owns (lw_procs w q) n"
  using assms owner_at_path [OF assms(1,3)] by blast

lemma inv_open:
  assumes inv: "lock_inv env w" and p: "lw_alive w p" and pc: "lp_pc (lw_procs w p) = Opening k"
  shows "lock_inv env (open_lock p k inode w)"
proof (cases "lw_path w")
  case (Some f)
  then show ?thesis using assms by (auto simp: open_lock_def pc_simps intro!: inv_goto)
next
  case None
  have free: "\<not> owns (lw_procs w q) n" if "lw_alive w q" for q n
    using owner_at_path [OF inv that] None by auto
  let ?f = "\<lparr>lf_id = lw_next w, lf_creator = p, lf_inode = inode, lf_mtimeMs = lw_now w, lf_content = None\<rparr>"
  let ?x = "(lw_procs w p)\<lparr>lp_pc := Writing (lw_next w) inode\<rparr>"
  let ?w = "open_lock p k inode w"
  have f: "lw_alive ?w = lw_alive w" "lw_path ?w = Some ?f" "lw_next ?w = Suc (lw_next w)"
    "lw_procs ?w q = (if q = p then ?x else lw_procs w q)" for q
    by (simp_all add: open_lock_def None goto_def set_proc_def)
  have own: "owns ?x n \<Longrightarrow> n = lw_next w" for n using free [OF p] by (auto simp: owns_def)
  have "proc_ok env (Some ?f) p ?x"
    using lock_invD(2) [OF inv p] pc None by (auto simp: proc_ok_def pc_simps)
  moreover have "proc_ok env (Some ?f) q (lw_procs w q)" if "lw_alive w q" for q
    using lock_invD(2) [OF inv that] None by (auto simp: proc_ok_def)
  moreover have "n < lw_next w" "n \<noteq> lw_next w" if "lw_alive w q" "judged (lp_pc (lw_procs w q)) = Some n" for q n
    using lock_invD(4) [OF inv that] by auto
  moreover have "judged (lp_pc ?x) = None" by (simp add: judged_def)
  ultimately show ?thesis
  proof (intro lock_invI; unfold f)
    fix q r n
    assume "judged (lp_pc ?x) = None" and q: "lw_alive w q" "judged (lp_pc (if q = p then ?x else lw_procs w q)) = Some n"
      and r: "lw_alive w r"
    then have "n \<noteq> lw_next w" using lock_invD(4) [OF inv q(1)] by (auto split: if_splits)
    then show "\<not> owns (if r = p then ?x else lw_procs w r) n" using own free [OF r] by auto
  qed (use lock_invD(1) [OF inv] in \<open>auto simp: less_Suc_eq split: if_splits\<close>)
qed

lemma genuine_matches:
  assumes "holds_file env p n f" "parseLockFile (lf_content f) = Some i" "lw_alive w p" "0 < p"
  shows "lockHolderStillMatches env w q i"
  using assms
  by (auto simp: holds_file_def lockHolderStillMatches_def isProcessAlive_def started_before_def
      split: option.splits)

lemma inv_inspect:
  assumes inv: "lock_inv env w" and p: "lw_alive w p" and pc: "lp_pc (lw_procs w p) = Reading k"
    and tame: "\<And>f. lw_path w = Some f \<Longrightarrow> tame_turn w p f"
  shows "lock_inv env (inspect_lock env p k w)"
proof -
  have acq: "acquiring (lp_pc (lw_procs w p))" by (simp add: pc acquiring_def)
  have judge: "lock_inv env (goto p (Checking (Retry k) (readLockFileSnapshot f)) w)"
    if f: "lw_path w = Some f" and free: "\<And>q. lw_alive w q \<Longrightarrow> \<not> owns (lw_procs w q) (lf_id f)" for f
    using free lock_invD(3) [OF inv f] acq
    by (intro inv_judge [OF inv p, where n = "lf_id f"]) (auto simp: pc_simps readLockFileSnapshot_def)
  have malformed: "\<not> owns (lw_procs w q) (lf_id f)"
    if f: "lw_path w = Some f" "malformed_stale w f" and q: "lw_alive w q" for f q
  proof
    assume o: "owns (lw_procs w q) (lf_id f)"
    have "lf_creator f = q"
      by (rule owner_cases [OF inv q o]) (use f in \<open>auto simp: holds_file_def malformed_stale_def\<close>)
    moreover have "\<not> writing w (lf_creator f) (lf_id f)"
      using tame [OF f(1)] f(2) by (simp add: tame_turn_def pc)
    ultimately have "lp_pc (lw_procs w q) \<noteq> Writing (lf_id f) ino" for ino
      using q by (auto simp: writing_def)
    then obtain ino where "lp_heldLockFd (lw_procs w q) = Some (lf_id f, ino)" using o by (auto simp: owns_def)
    then show False
      using lock_invD(2) [OF inv q] f by (auto simp: proc_ok_def holds_file_def malformed_stale_def)
  qed
  have stale: "\<not> owns (lw_procs w q) (lf_id f)"
    if f: "lw_path w = Some f" "parseLockFile (lf_content f) = Some i" "\<not> lockHolderStillMatches env w p i"
      and q: "lw_alive w q" for f i q
  proof
    assume o: "owns (lw_procs w q) (lf_id f)"
    show False
    proof (rule owner_cases [OF inv q o])
      fix g
      assume "lw_path w = Some g" "holds_file env q (lf_id f) g"
      then show False
        using genuine_matches [of env q "lf_id f" f i w p] f q lock_invD(1) [OF inv q] by simp
    qed (use f in \<open>auto simp: parseLockFile_def\<close>)
  qed
  show ?thesis
    using judge malformed stale inv_next_attempt [OF inv p acq] inv_finish [OF inv p]
    by (auto simp: inspect_lock_def Let_def malformed_stale_def readLockFileSnapshot_def
        split: option.splits)
qed

lemma inv_check:
  assumes inv: "lock_inv env w" and p: "lw_alive w p" and pc: "lp_pc (lw_procs w p) = Checking c sn"
  shows "lock_inv env (check_inode p c sn w)"
proof -
  have j: "judged (lp_pc (lw_procs w p)) = Some (sn_id sn)" by (simp add: pc judged_def)
  have "lock_inv env (goto p (Unlinking c (sn_id sn)) w)"
    using judged_free [OF inv p j]
    by (intro inv_judge [OF inv p]) (auto simp: pc_simps pc split: after_unlink.splits)
  then show ?thesis
    using inv_after [OF inv p, of c] by (auto simp: check_inode_def pc pc_simps split: option.splits)
qed

lemma inv_unlink_step:
  assumes inv: "lock_inv env w" and p: "lw_alive w p" and pc: "lp_pc (lw_procs w p) = Unlinking c n"
    and tame: "\<And>f. lw_path w = Some f \<Longrightarrow> tame_turn w p f"
  shows "lock_inv env (unlink_lock p c w)"
proof -
  have "judged (lp_pc (lw_procs w p)) = Some n" by (simp add: pc judged_def)
  note free = judged_free(2) [OF inv p this]
  have "lf_id f = n" if "lw_path w = Some f" for f using tame [OF that] by (simp add: tame_turn_def pc)
  then have "\<not> owns (lw_procs w q) m" if "lw_alive w q" for q m
    using no_owner [OF inv _ that] free by blast
  then have "lock_inv env (w\<lparr>lw_path := None\<rparr>)" by (rule inv_unlink [OF inv])
  then show ?thesis
    unfolding unlink_lock_def using p pc by (intro inv_after) (auto simp: pc_simps)
qed

lemma payload_parses:
  "parseLockFile (Some (lock_payload p s c)) =
     Some \<lparr>li_pid = NInt p, li_startedAt = Some s, li_command = js_string (js_opt JStr c)\<rparr>"
  by (simp add: parseLockFile_def parseLockInfo_def lock_payload_def)

lemma proc_ok_free:
  assumes "proc_ok env path p x" "\<And>n. \<not> owns x n"
  shows "proc_ok env path' p x"
  using assms by (auto simp: proc_ok_def owns_def)

lemma inv_write:
  assumes inv: "lock_inv env w" and p: "lw_alive w p" and pc: "lp_pc (lw_procs w p) = Writing n ino"
  shows "lock_inv env (write_lock p n ino w)"
proof -
  have own: "owns (lw_procs w p) n" using pc by (auto simp: owns_def)
  obtain f where f: "lw_path w = Some f" "lf_id f = n" "started_before env p (lp_startedAt (lw_procs w p))"
    using lock_invD(2) [OF inv p] pc by (auto simp: proc_ok_def acquiring_def)
  define g where "g = f\<lparr>lf_content := Some (lock_payload p (lp_startedAt (lw_procs w p)) (lp_command (lw_procs w p))),
                       lf_mtimeMs := lw_now w\<rparr>"
  define x where "x = (lw_procs w p)\<lparr>lp_pc := Idle, lp_heldLockFd := Some (n, ino), lp_outcome := Some Acquired\<rparr>"
  let ?w = "write_lock p n ino w"
  have w': "lw_alive ?w = lw_alive w" "lw_path ?w = Some g" "lw_next ?w = lw_next w"
    "lw_procs ?w q = (if q = p then x else lw_procs w q)" for q
    by (simp_all add: write_lock_def Let_def set_proc_def f g_def x_def)
  have ok: "proc_ok env (Some g) p x"
    using f by (simp add: proc_ok_def holds_file_def g_def x_def payload_parses acquiring_def)
  have x: "owns x m \<Longrightarrow> m = n" "judged (lp_pc x) = None" for m by (simp_all add: owns_def x_def judged_def)
  have others: "\<not> owns (lw_procs w q) m" if "lw_alive w q" "q \<noteq> p" for q m
    using owner_unique [OF inv p that(1) own] that(2) by blast
  show ?thesis
  proof (intro lock_invI; unfold w')
    fix q
    assume q: "lw_alive w q"
    show "0 < q" by (rule lock_invD(1) [OF inv q])
    show "proc_ok env (Some g) q (if q = p then x else lw_procs w q)"
      using ok proc_ok_free [OF lock_invD(2) [OF inv q]] others [OF q] by auto
    fix m
    assume j: "judged (lp_pc (if q = p then x else lw_procs w q)) = Some m"
    then show "m < lw_next w" using x(2) lock_invD(4) [OF inv q] by (auto split: if_splits)
    fix r
    assume r: "lw_alive w r"
    have "m \<noteq> n" using j x(2) lock_invD(5) [OF inv q _ p] own by (auto split: if_splits)
    then show "\<not> owns (if r = p then x else lw_procs w r) m" using x(1) others [OF r] by auto
  qed (use lock_invD(3) [OF inv f(1)] in \<open>auto simp: g_def\<close>)
qed

lemma inv_release_stat:
  assumes inv: "lock_inv env w" and p: "lw_alive w p" and pc: "lp_pc (lw_procs w p) = ReleaseStat n ino"
  shows "lock_inv env (release_stat p n ino w)"
proof -
  have "judged (lp_pc (lw_procs w p)) = Some n" by (simp add: pc judged_def)
  from judged_free [OF inv p this] have "lock_inv env (goto p (Unlinking Return n) w)"
    by (intro inv_judge [OF inv p]) (auto simp: pc_simps)
  moreover have "lock_inv env (goto p Idle w)" by (rule inv_goto [OF inv p]) (auto simp: pc_simps)
  ultimately show ?thesis by (auto simp: release_stat_def split: option.splits)
qed

lemma inv_fallback:
  assumes inv: "lock_inv env w" and p: "lw_alive w p" and pc: "lp_pc (lw_procs w p) = FallbackRead"
  shows "lock_inv env (fallback_read p w)"
proof -
  have idle: "lock_inv env (goto p Idle w)" by (rule inv_goto [OF inv p]) (auto simp: pc_simps)
  have "lock_inv env (goto p (Checking Return (readLockFileSnapshot f)) w)"
    if f: "lw_path w = Some f" "parseLockFile (lf_content f) = Some i" "li_pid i = NInt p" for f i
  proof (rule inv_judge [OF inv p, where n = "lf_id f"])
    fix q
    assume q: "lw_alive w q"
    show "\<not> owns (lw_procs w q) (lf_id f)"
    proof
      assume o: "owns (lw_procs w q) (lf_id f)"
      have "q = p"
        by (rule owner_cases [OF inv q o]) (use f in \<open>auto simp: holds_file_def parseLockFile_def\<close>)
      then show False using o lock_invD(2) [OF inv p] pc by (auto simp: owns_def proc_ok_def)
    qed
  qed (use lock_invD(3) [OF inv f(1)] in \<open>auto simp: pc_simps readLockFileSnapshot_def\<close>)
  then show ?thesis
    using idle by (auto simp: fallback_read_def Let_def readLockFileSnapshot_def split: option.splits)
qed

lemma inv_acquire:
  assumes inv: "lock_inv env w" and p: "lw_alive w p"
    and tame: "started_before env p (le_toISO env (lw_now w))"
  shows "lock_inv env (acquireOnboardLock env p c w)"
  unfolding acquireOnboardLock_def Let_def using inv tame
  by (auto simp: pc_simps intro!: inv_quiet [OF inv p])

lemma inv_release:
  assumes inv: "lock_inv env w" and p: "lw_alive w p"
  shows "lock_inv env (releaseOnboardLock p w)"
proof -
  let ?me = "lw_procs w p"
  have "lock_inv env (set_proc p (?me\<lparr>lp_heldLockFd := None, lp_pc := ReleaseStat n ino\<rparr>) w)"
    if fd: "lp_heldLockFd ?me = Some (n, ino)" for n ino
  proof (rule inv_quiet [OF inv p])
    have own: "owns ?me n" using fd by (auto simp: owns_def)
    obtain f where "lw_path w = Some f" "lf_id f = n" using owner_at_path [OF inv p own] by blast
    then have "n < lw_next w" using lock_invD(3) [OF inv] by blast
    moreover have "\<not> owns (lw_procs w q) n" if "lw_alive w q" "q \<noteq> p" for q
      using owner_unique [OF inv p that(1) own] that(2) by blast
    ultimately show "m < lw_next w \<and> \<not> owns (?me\<lparr>lp_heldLockFd := None, lp_pc := ReleaseStat n ino\<rparr>) m
        \<and> (\<forall>q. lw_alive w q \<and> q \<noteq> p \<longrightarrow> \<not> owns (lw_procs w q) m)"
      if "judged (lp_pc (?me\<lparr>lp_heldLockFd := None, lp_pc := ReleaseStat n ino\<rparr>)) = Some m" for m
      using that by (auto simp: judged_def owns_def)
  qed (auto simp: pc_simps)
  moreover have "lock_inv env (goto p FallbackRead w)" if "lp_heldLockFd ?me = None"
    unfolding goto_def by (rule inv_quiet [OF inv p]) (use that in \<open>auto simp: pc_simps\<close>)
  ultimately show ?thesis
    using inv by (auto simp: releaseOnboardLock_def Let_def split: option.splits)
qed

lemma inv_write_fails:
  assumes inv: "lock_inv env w" and p: "lw_alive w p"
  shows "lock_inv env (write_fails p w)"
proof -
  let ?me = "lw_procs w p"
  have "lock_inv env (goto p (Unlinking Rethrow n) w)" if pc: "lp_pc ?me = Writing n ino" for n ino
    unfolding goto_def
  proof (rule inv_quiet [OF inv p])
    have own: "owns ?me n" using pc by (auto simp: owns_def)
    obtain f where f: "lw_path w = Some f" "lf_id f = n" using owner_at_path [OF inv p own] by blast
    then have "n < lw_next w" using lock_invD(3) [OF inv] by blast
    moreover have "lp_heldLockFd ?me \<noteq> Some (n, i)" for i
      using lock_invD(2) [OF inv p] pc by (auto simp: proc_ok_def holds_file_def parseLockFile_def)
    moreover have "\<not> owns (lw_procs w q) n" if "lw_alive w q" "q \<noteq> p" for q
      using owner_unique [OF inv p that(1) own] that(2) by blast
    ultimately show "m < lw_next w \<and> \<not> owns (?me\<lparr>lp_pc := Unlinking Rethrow n\<rparr>) m
        \<and> (\<forall>q. lw_alive w q \<and> q \<noteq> p \<longrightarrow> \<not> owns (lw_procs w q) m)"
      if "judged (lp_pc (?me\<lparr>lp_pc := Unlinking Rethrow n\<rparr>)) = Some m" for m
      using that by (auto simp: judged_def owns_def)
  qed (auto simp: pc_simps)
  then show ?thesis using inv by (auto simp: write_fails_def split: lock_pc.splits)
qed

lemma inv_turn:
  assumes inv: "lock_inv env w" and p: "lw_alive w p" and tame: "tame env w (Turn p inode)"
  shows "lock_inv env (turn env p inode w)"
proof -
  have t: "tame_turn w p f" if "lw_path w = Some f" for f using tame that by simp
  show ?thesis
    unfolding turn_def
    using inv_open [OF inv p] inv_inspect [OF inv p _ t] inv_check [OF inv p] inv_unlink_step [OF inv p _ t]
      inv_write [OF inv p] inv_release_stat [OF inv p] inv_fallback [OF inv p] inv
    by (auto split: lock_pc.splits)
qed

lemma inv_step:
  assumes inv: "lock_inv env w" and tame: "tame env w e"
  shows "lock_inv env (lock_step env e w)"
proof (cases e)
  case (Crash p)
  then show ?thesis using inv by (auto simp: lock_inv_def)
next
  case (Elapse n)
  then show ?thesis using inv by (simp add: lock_inv_def)
qed (use inv tame inv_acquire inv_turn inv_write_fails inv_release in auto)

lemma inv_reach:
  assumes "lock_reach env allowed w0 w" "lock_inv env w0" "\<And>w e. allowed w e \<Longrightarrow> tame env w e"
  shows "lock_inv env w"
  using assms by (induction rule: lock_reach.induct) (auto intro: inv_step)

text \<open>Nobody has started: any file may be left at the path, of any age and content.\<close>

definition lock_init :: "lock_world \<Rightarrow> bool" where
  "lock_init w =
     ((\<forall>p. lw_alive w p \<longrightarrow> 0 < p \<and> lp_pc (lw_procs w p) = Idle \<and> lp_heldLockFd (lw_procs w p) = None) \<and>
      (\<forall>f. lw_path w = Some f \<longrightarrow> lf_id f < lw_next w))"

lemma inv_init: "lock_init w \<Longrightarrow> lock_inv env w"
  by (rule lock_invI) (auto simp: lock_init_def proc_ok_def pc_simps)

definition holds_lock :: "lock_world \<Rightarrow> int \<Rightarrow> bool" where
  "holds_lock w p = (lw_alive w p \<and> lp_heldLockFd (lw_procs w p) \<noteq> None)"

lemma inv_exclusive:
  assumes "lock_inv env w" "holds_lock w p" "holds_lock w q"
  shows "p = q"
proof -
  obtain n m where "owns (lw_procs w p) n" "owns (lw_procs w q) m"
    using assms(2,3) by (fastforce simp: holds_lock_def owns_def)
  then show ?thesis using owner_unique [OF assms(1)] assms(2,3) by (simp add: holds_lock_def)
qed

lemma holder_named:
  assumes "lock_inv env w" "holds_lock w p"
  shows "\<exists>f i. lw_path w = Some f \<and> parseLockFile (lf_content f) = Some i \<and> li_pid i = NInt p"
  using lock_invD(2) [OF assms(1)] assms(2) by (fastforce simp: holds_lock_def proc_ok_def holds_file_def)

section \<open>Runs\<close>

fun lock_run :: "lock_env \<Rightarrow> lock_event list \<Rightarrow> lock_world \<Rightarrow> lock_world" where
  "lock_run env [] w = w"
| "lock_run env (e # es) w = lock_run env es (lock_step env e w)"

fun allowed_run :: "lock_env \<Rightarrow> (lock_world \<Rightarrow> lock_event \<Rightarrow> bool) \<Rightarrow> lock_event list \<Rightarrow> lock_world \<Rightarrow> bool" where
  "allowed_run env allowed [] w = True"
| "allowed_run env allowed (e # es) w = (allowed w e \<and> allowed_run env allowed es (lock_step env e w))"

lemma reach_run:
  "lock_reach env allowed w0 w \<Longrightarrow> allowed_run env allowed es w \<Longrightarrow> lock_reach env allowed w0 (lock_run env es w)"
  by (induction es arbitrary: w) (auto intro: reach_event)

definition lock_demo_env :: lock_env where
  "lock_demo_env = \<lparr>le_parseDate = (\<lambda>_. None), le_toISO = (\<lambda>_. ''now''), le_procStat = (\<lambda>_. None),
      le_kernelStat = None\<rparr>"

definition idle_process :: lock_process where
  "idle_process =
     \<lparr>lp_pc = Idle, lp_heldLockFd = None, lp_startedAt = [], lp_command = None, lp_outcome = None\<rparr>"

text \<open>Worlds with two live processes, 2 and 3.\<close>

definition two_world :: "int \<Rightarrow> lock_file option \<Rightarrow> lock_process \<Rightarrow> lock_process \<Rightarrow> nat \<Rightarrow> lock_world" where
  "two_world t path x y n =
     \<lparr>lw_now = t, lw_path = path, lw_procs = (\<lambda>_. idle_process)(2 := x, 3 := y),
      lw_alive = (\<lambda>p. p = 2 \<or> p = 3), lw_next = n\<rparr>"

lemma two_world_simps:
  "lw_now (two_world t path x y n) = t" "lw_path (two_world t path x y n) = path"
  "lw_procs (two_world t path x y n) 2 = x" "lw_procs (two_world t path x y n) 3 = y"
  "lw_alive (two_world t path x y n) p \<longleftrightarrow> p = 2 \<or> p = 3" "lw_next (two_world t path x y n) = n"
  "set_proc 2 z (two_world t path x y n) = two_world t path z y n"
  "set_proc 3 z (two_world t path x y n) = two_world t path x z n"
  "(two_world t path x y n)\<lparr>lw_path := path'\<rparr> = two_world t path' x y n"
  "(two_world t path x y n)\<lparr>lw_next := m\<rparr> = two_world t path x y m"
  "(two_world t path x y n)\<lparr>lw_now := t'\<rparr> = two_world t' path x y n"
  by (auto simp: two_world_def set_proc_def fun_upd_twist)

lemma two_world_inodes:
  "inode_open (two_world t path x y n) inode \<longleftrightarrow> has_open x inode \<or> has_open y inode"
  unfolding inode_open_def two_world_simps
  using two_world_simps(3,4) [of t path x y n] by metis

text \<open>The lock of process 1, which is gone.\<close>

definition stale_file :: lock_file where
  "stale_file =
     \<lparr>lf_id = 0, lf_creator = 1, lf_inode = 7, lf_mtimeMs = 0,
      lf_content = Some (lock_payload 1 ''then'' None)\<rparr>"

definition stale_world :: lock_world where
  "stale_world = two_world 0 (Some stale_file) idle_process idle_process 1"

lemmas lock_defs = turn_def open_lock_def inspect_lock_def check_inode_def unlink_lock_def write_lock_def
  release_stat_def fallback_read_def acquireOnboardLock_def releaseOnboardLock_def after_def next_attempt_def
  goto_def finish_def readLockFileSnapshot_def MAX_ATTEMPTS_def MALFORMED_STALE_SECONDS_def
  stale_world_def stale_file_def lock_demo_env_def idle_process_def payload_parses
  lockHolderStillMatches_def isProcessAlive_def has_open_def two_world_simps two_world_inodes
  Let_def

lemma stale_init: "lock_init stale_world"
  by (auto simp: lock_init_def stale_world_def two_world_def stale_file_def idle_process_def)

text \<open>
  The inode number of the removed lock goes to the new lock of process 2. Process 3, which has read
  the old one, takes the new one for it, also when its \<open>stat\<close> and \<open>unlink\<close> are one step.
\<close>

definition reuse_run :: "lock_event list" where
  "reuse_run =
     [Acquire 2 None, Acquire 3 None, Turn 2 9, Turn 3 9, Turn 2 9, Turn 3 9, Turn 2 9, Turn 2 9,
      Turn 2 7, Turn 2 9, Turn 3 9, Turn 3 9, Turn 3 8, Turn 3 9]"

text \<open>The lock is replaced between the \<open>stat\<close> and the \<open>unlink\<close> of process 3; no number is given out twice.\<close>

definition gap_run :: "lock_event list" where
  "gap_run =
     [Acquire 2 None, Acquire 3 None, Turn 2 9, Turn 3 9, Turn 2 9, Turn 3 9, Turn 2 9, Turn 3 9,
      Turn 2 9, Turn 2 8, Turn 2 9, Turn 3 9, Turn 3 10, Turn 3 9]"

text \<open>Process 2 is suspended for longer than half a minute before it writes the payload.\<close>

definition stall_run :: "lock_event list" where
  "stall_run =
     [Acquire 2 None, Turn 2 8, Elapse 30001, Acquire 3 None, Turn 3 9, Turn 3 9, Turn 3 9, Turn 3 9,
      Turn 3 9, Turn 3 10, Turn 2 10]"

definition free_world :: lock_world where
  "free_world = two_world 0 None idle_process idle_process 1"

lemma reuse_holds:
  "allowed_run lock_demo_env possible reuse_run stale_world"
  "holds_lock (lock_run lock_demo_env reuse_run stale_world) 2"
  "holds_lock (lock_run lock_demo_env reuse_run stale_world) 3"
  by (simp_all add: holds_lock_def reuse_run_def lock_defs)

lemma gap_holds:
  "allowed_run lock_demo_env possible gap_run stale_world"
  "holds_lock (lock_run lock_demo_env gap_run stale_world) 2"
  "holds_lock (lock_run lock_demo_env gap_run stale_world) 3"
  by (simp_all add: holds_lock_def gap_run_def lock_defs)

lemma stall_holds:
  "allowed_run lock_demo_env possible stall_run free_world"
  "holds_lock (lock_run lock_demo_env stall_run free_world) 2"
  "holds_lock (lock_run lock_demo_env stall_run free_world) 3"
  by (simp_all add: holds_lock_def stall_run_def free_world_def lock_defs parseLockFile_def)

section \<open>Takeover and termination\<close>

lemma set_proc_simps [simp]:
  "lw_procs (set_proc p x w) q = (if q = p then x else lw_procs w q)" "lw_path (set_proc p x w) = lw_path w"
  "lw_alive (set_proc p x w) = lw_alive w" "lw_now (set_proc p x w) = lw_now w"
  "lw_next (set_proc p x w) = lw_next w" "set_proc p y (set_proc p x w) = set_proc p y w"
  "lw_procs (w\<lparr>lw_path := path\<rparr>) = lw_procs w" "(set_proc p x w)\<lparr>lw_path := path\<rparr> = set_proc p x (w\<lparr>lw_path := path\<rparr>)"
  "(set_proc p x w)\<lparr>lw_next := n\<rparr> = set_proc p x (w\<lparr>lw_next := n\<rparr>)"
  by (simp_all add: set_proc_def)

lemma takeover:
  assumes "lw_alive w p" "lp_pc (lw_procs w p) = Idle" "lw_path w = Some f" "parseLockFile (lf_content f) = Some i"
    "\<not> lockHolderStillMatches env w p i"
  shows "holds_lock (lock_run env (Acquire p c # replicate 6 (Turn p inode)) w) p"
proof -
  have "isProcessAlive (set_proc q x w) n = isProcessAlive w n" for q x n
    by (simp add: isProcessAlive_def split: jnum.splits)
  then have m: "lockHolderStillMatches env (set_proc q x w) p i \<longleftrightarrow> lockHolderStillMatches env w p i" for q x
    by (simp add: lockHolderStillMatches_def)
  show ?thesis
    using assms m
    by (simp add: holds_lock_def eval_nat_numeral turn_def open_lock_def inspect_lock_def check_inode_def
        unlink_lock_def write_lock_def acquireOnboardLock_def after_def next_attempt_def goto_def
        readLockFileSnapshot_def MAX_ATTEMPTS_def Let_def)
qed

text \<open>Calls a process has left at most, whatever the others do.\<close>

fun calls_left :: "lock_pc \<Rightarrow> nat" where
  "calls_left Idle = 0"
| "calls_left (Opening k) = 4 * (4 - k) + 4"
| "calls_left (Reading k) = 4 * (4 - k) + 3"
| "calls_left (Checking c _) = (case c of Retry k \<Rightarrow> 4 * (4 - k) + 2 | _ \<Rightarrow> 2)"
| "calls_left (Unlinking c _) = (case c of Retry k \<Rightarrow> 4 * (4 - k) + 1 | _ \<Rightarrow> 1)"
| "calls_left (Writing _ _) = 2"
| "calls_left (ReleaseStat _ _) = 2"
| "calls_left FallbackRead = 3"

text \<open>Inside a call of \<open>acquireOnboardLock\<close>, or after it has returned.\<close>

definition in_acquire :: "lock_process \<Rightarrow> bool" where
  "in_acquire x =
     (acquiring (lp_pc x) \<or> (\<exists>n. lp_pc x = Unlinking Rethrow n) \<or> lp_pc x = Idle \<and> lp_outcome x \<noteq> None)"

lemma goto_procs [simp]:
  "lw_procs (goto p c w) q = (if q = p then (lw_procs w p)\<lparr>lp_pc := c\<rparr> else lw_procs w q)"
  "lw_procs (finish p r w) q =
     (if q = p then (lw_procs w p)\<lparr>lp_pc := Idle, lp_outcome := Some r\<rparr> else lw_procs w q)"
  by (simp_all add: goto_def finish_def)

lemma next_attempt_progress:
  "calls_left (lp_pc (lw_procs (next_attempt p k w) p)) < 4 * (4 - k) + 3"
  "calls_left (lp_pc (lw_procs (next_attempt p k w) p)) < 4 * (4 - k) + 2"
  "calls_left (lp_pc (lw_procs (next_attempt p k w) p)) < 4 * (4 - k) + 1"
  "in_acquire (lw_procs (next_attempt p k w) p)"
  by (auto simp: next_attempt_def MAX_ATTEMPTS_def in_acquire_def acquiring_def)

lemmas turn_defs = turn_def open_lock_def inspect_lock_def check_inode_def unlink_lock_def write_lock_def
  release_stat_def fallback_read_def after_def Let_def

lemma turn_progress:
  assumes "lp_pc (lw_procs w p) \<noteq> Idle"
  shows "calls_left (lp_pc (lw_procs (turn env p inode w) p)) < calls_left (lp_pc (lw_procs w p))"
  using assms next_attempt_progress [of p _ w] next_attempt_progress [of p _ "w\<lparr>lw_path := None\<rparr>"]
  by (cases "lp_pc (lw_procs w p)")
    (auto simp: turn_defs split: option.splits after_unlink.splits)

lemma turn_in_acquire:
  assumes "in_acquire (lw_procs w p)"
  shows "in_acquire (lw_procs (turn env p inode w) p)"
  using assms next_attempt_progress(4) [of p]
  by (cases "lp_pc (lw_procs w p)")
    (auto simp: turn_defs in_acquire_def acquiring_def split: option.splits after_unlink.splits)

lemma next_attempt_other: "q \<noteq> p \<Longrightarrow> lw_procs (next_attempt p k w) q = lw_procs w q"
  by (simp add: next_attempt_def)

lemma turn_other: "q \<noteq> p \<Longrightarrow> lw_procs (turn env p inode w) q = lw_procs w q"
  by (auto simp: turn_defs next_attempt_other split: option.splits after_unlink.splits lock_pc.splits)

lemma turn_alive: "lw_alive (turn env p inode w) = lw_alive w"
  by (auto simp: turn_defs next_attempt_def goto_def finish_def
      split: option.splits after_unlink.splits lock_pc.splits)

text \<open>Events that do not end process \<open>p\<close> and do not make it call something else.\<close>

fun leaves_alone :: "int \<Rightarrow> lock_event \<Rightarrow> bool" where
  "leaves_alone p (Acquire q _) = (q \<noteq> p)"
| "leaves_alone p (Release q) = (q \<noteq> p)"
| "leaves_alone p (Crash q) = (q \<noteq> p)"
| "leaves_alone p _ = True"

fun turns :: "int \<Rightarrow> lock_event list \<Rightarrow> nat" where
  "turns p [] = 0"
| "turns p (e # es) = (case e of Turn q _ \<Rightarrow> if q = p then Suc (turns p es) else turns p es | _ \<Rightarrow> turns p es)"

lemma step_call:
  fixes env :: lock_env
  assumes "lw_alive w p" "in_acquire (lw_procs w p)" "leaves_alone p e"
  defines "w' \<equiv> lock_step env e w"
  shows "lw_alive w' p" "in_acquire (lw_procs w' p)"
    "calls_left (lp_pc (lw_procs w' p)) \<le> calls_left (lp_pc (lw_procs w p)) - turns p [e]"
proof -
  have "lw_alive w' p \<and> in_acquire (lw_procs w' p) \<and>
      calls_left (lp_pc (lw_procs w' p)) \<le> calls_left (lp_pc (lw_procs w p)) - turns p [e]"
  proof (cases e)
    case (Turn q inode)
    show ?thesis
    proof (cases "q = p")
      case True
      have "calls_left (lp_pc (lw_procs w' p)) \<le> calls_left (lp_pc (lw_procs w p)) - 1"
        using turn_progress [of w p env inode] assms(1) True Turn
        by (cases "lp_pc (lw_procs w p) = Idle") (auto simp: w'_def turn_def)
      then show ?thesis
        using True Turn assms(1) turn_in_acquire [OF assms(2)] by (simp add: w'_def turn_alive)
    next
      case False
      then show ?thesis using Turn assms(1,2) by (simp add: w'_def turn_alive turn_other)
    qed
  next
    case (WriteFails q)
    then show ?thesis
      using assms(1,2)
      by (auto simp: w'_def write_fails_def in_acquire_def goto_def split: lock_pc.splits)
  qed (use assms in \<open>auto simp: acquireOnboardLock_def releaseOnboardLock_def Let_def goto_def split: option.splits\<close>)
  then show "lw_alive w' p" "in_acquire (lw_procs w' p)"
    "calls_left (lp_pc (lw_procs w' p)) \<le> calls_left (lp_pc (lw_procs w p)) - turns p [e]" by blast+
qed

lemma run_call:
  assumes "lw_alive w p" "in_acquire (lw_procs w p)" "list_all (leaves_alone p) es"
  shows "in_acquire (lw_procs (lock_run env es w) p) \<and>
    calls_left (lp_pc (lw_procs (lock_run env es w) p)) \<le> calls_left (lp_pc (lw_procs w p)) - turns p es"
  using assms
proof (induction es arbitrary: w)
  case (Cons e es)
  then have e: "leaves_alone p e" "list_all (leaves_alone p) es" by simp_all
  note s = step_call [OF Cons.prems(1,2) e(1), of env]
  have t: "turns p (e # es) = turns p [e] + turns p es" by (cases e) auto
  show ?case
    using Cons.IH [OF s(1,2) e(2)] s(3) unfolding lock_run.simps t by (metis diff_diff_left diff_le_mono order_trans)
qed simp

lemma acquire_returns:
  fixes env :: lock_env and c :: "string option"
  assumes "lw_alive w p" "lp_pc (lw_procs w p) = Idle" "list_all (leaves_alone p) es" "4 * MAX_ATTEMPTS \<le> turns p es"
  defines "me \<equiv> lw_procs (lock_run env es (acquireOnboardLock env p c w)) p"
  shows "lp_pc me = Idle \<and> lp_outcome me \<noteq> None"
proof -
  let ?w = "acquireOnboardLock env p c w"
  have w: "lw_alive ?w p" "lp_pc (lw_procs ?w p) = Opening 0" "in_acquire (lw_procs ?w p)"
    using assms(1,2) by (simp_all add: acquireOnboardLock_def Let_def in_acquire_def acquiring_def)
  have r: "in_acquire me" "calls_left (lp_pc me) = 0"
    using run_call [OF w(1,3) assms(3)] w(2) assms(4) by (simp_all add: me_def MAX_ATTEMPTS_def)
  then have "lp_pc me = Idle" by (cases "lp_pc me") (auto split: after_unlink.splits)
  then show ?thesis using r(1) by (simp add: in_acquire_def acquiring_def)
qed

end
