(* ===== verification/Registry_Values.thy ===== *)
theory Registry_Values
  imports Session_Values Nemo_Text
begin

text \<open>
  Values of the sandbox registry (registry-normalization.ts, extra-providers.ts,
  registry-entry-view.ts, inference/selection.ts and the default-selection revision of
  registry-reversible-removal.ts): JavaScript objects used as dictionaries, the baseline
  exclusions and their crash-recovery journal, custom policies, extra provider names and the
  inference selection of a row.

  A registry row is kept as the JavaScript object it is, because every load and save copies the
  members it does not know about; the members the code validates have a record of their own
  with a reader and a writer.
\<close>

section \<open>Errors\<close>

text \<open>
  Each constructor is one \<open>throw\<close> of the modelled code. \<open>BuiltinObject\<close> is not thrown: it marks
  the calls that go on to mutate a member of \<open>Object.prototype\<close> found under the sandbox name,
  which the model does not follow further.
\<close>

datatype registry_error =
    ConfigCorrupt | ConfigUnreadable | ConfigWriteFailed
  | LockExhausted | LockFailed | LockReleaseFailed
  | BadRevision | RevisionExhausted
  | CustomPoliciesNotArray | MalformedCustomPolicy | InvalidPinAuthority string
  | MalformedExclusion | InvalidExclusion | InvalidExclusionVersion string | ExclusionsNotArray
  | MalformedTransition | IncompleteTransition | InvalidTransitionSource | InvalidLiveTarget string
  | InvalidWorkload string | InvalidProvenance string
  | AuthorityError string
  | BuiltinObject

section \<open>Fallible computations without effects\<close>

named_theorems res_simps \<open>unfolding of fallible code\<close>

definition andThen :: "'e + 'a \<Rightarrow> ('a \<Rightarrow> 'e + 'b) \<Rightarrow> 'e + 'b" where
  "andThen r f = (case r of Inl e \<Rightarrow> Inl e | Inr a \<Rightarrow> f a)"

lemma andThen_simps [simp, res_simps]:
  "andThen (Inl e) f = Inl e"
  "andThen (Inr a) f = f a"
  by (simp_all add: andThen_def)

lemma andThen_eq_Inr:
  "andThen r f = Inr b \<longleftrightarrow> (\<exists>a. r = Inr a \<and> f a = Inr b)"
  by (cases r) auto

lemma andThen_InrE [elim!]:
  assumes "andThen r f = Inr b"
  obtains a where "r = Inr a" "f a = Inr b"
  using assms by (auto simp: andThen_eq_Inr)

text \<open>\<open>if (condition) throw e\<close>\<close>

definition ensure :: "'e \<Rightarrow> bool \<Rightarrow> 'e + unit" where
  "ensure e ok = (if ok then Inr () else Inl e)"

lemma ensure_simps [simp, res_simps]:
  "ensure e True = Inr ()"
  "ensure e False = Inl e"
  "ensure e ok = Inr u \<longleftrightarrow> ok"
  "ensure e ok = Inl e' \<longleftrightarrow> \<not> ok \<and> e = e'"
  by (auto simp: ensure_def)

fun traverse :: "('a \<Rightarrow> 'e + 'b) \<Rightarrow> 'a list \<Rightarrow> 'e + 'b list" where
  "traverse f [] = Inr []"
| "traverse f (x # xs) = andThen (f x) (\<lambda>y. andThen (traverse f xs) (\<lambda>ys. Inr (y # ys)))"

lemma traverse_eq_Inr:
  "traverse f xs = Inr ys \<longleftrightarrow> list_all2 (\<lambda>x y. f x = Inr y) xs ys"
  by (induction xs arbitrary: ys) (auto simp: andThen_eq_Inr list_all2_Cons1)

lemma traverse_id: "(\<And>x. x \<in> set xs \<Longrightarrow> f (g x) = Inr x) \<Longrightarrow> traverse f (map g xs) = Inr xs"
  by (induction xs) auto

lemma traverse_all:
  "traverse f xs = Inr ys \<Longrightarrow> (\<And>x y. f x = Inr y \<Longrightarrow> P y) \<Longrightarrow> list_all P ys"
  by (induction xs arbitrary: ys) auto

lemma traverse_total:
  "(\<And>x. x \<in> set xs \<Longrightarrow> \<exists>y. f x = Inr y) \<Longrightarrow> \<exists>ys. traverse f xs = Inr ys"
proof (induction xs)
  case (Cons x xs)
  then obtain y ys where "f x = Inr y" "traverse f xs = Inr ys"
    by (metis list.set_intros)
  then show ?case
    by simp
qed simp

section \<open>Trimmed text\<close>

lemma trim_id:
  assumes "s \<noteq> []" "\<not> is_js_space (hd s)" "\<not> is_js_space (last s)"
  shows "trim s = s"
proof -
  have "dropWhile is_js_space s = s"
    using assms(1,2) by (cases s) auto
  moreover have "dropWhile is_js_space (rev s) = rev s"
    using assms(1,3) by (cases "rev s") (auto simp: last_rev hd_rev [symmetric])
  ultimately show ?thesis
    by (simp add: trim_def)
qed

lemma trim_no_space: "list_all (\<lambda>c. \<not> is_js_space c) s \<Longrightarrow> trim s = s"
  by (cases "s = []") (auto simp: trim_id list_all_iff trim_def [of "[]"])

section \<open>JavaScript objects as dictionaries\<close>

text \<open>
  Own properties of an object are enumerated with the array indices first, in ascending order,
  and the other keys after them in the order they were added. \<open>is_array_index\<close> recognises a
  canonical decimal below \<open>2 ^ 32 - 1\<close>.
\<close>

definition is_array_index :: "string \<Rightarrow> bool" where
  "is_array_index s =
     (s = ''0''
      \<or> s \<noteq> [] \<and> hd s \<noteq> CHR ''0'' \<and> list_all is_digit s
        \<and> (length s < 10 \<or> length s = 10 \<and> s < ''4294967295''))"

definition index_below :: "string \<Rightarrow> string \<Rightarrow> bool" where
  "index_below a b = (length a < length b \<or> length a = length b \<and> a < b)"

text \<open>The position of a new key: before a larger index and before every other key.\<close>

fun insert_index :: "string \<Rightarrow> 'a \<Rightarrow> (string \<times> 'a) list \<Rightarrow> (string \<times> 'a) list" where
  "insert_index k v [] = [(k, v)]"
| "insert_index k v ((k', v') # kvs) =
     (if is_array_index k' \<and> index_below k' k then (k', v') # insert_index k v kvs
      else (k, v) # (k', v') # kvs)"

definition own_put :: "string \<Rightarrow> 'a \<Rightarrow> (string \<times> 'a) list \<Rightarrow> (string \<times> 'a) list" where
  "own_put k v kvs =
     (if map_of kvs k = None \<and> is_array_index k then insert_index k v kvs else alist_set k v kvs)"

text \<open>\<open>delete o[k]\<close>\<close>

definition own_delete :: "string \<Rightarrow> (string \<times> 'a) list \<Rightarrow> (string \<times> 'a) list" where
  "own_delete k kvs = filter (\<lambda>kv. fst kv \<noteq> k) kvs"

text \<open>\<open>Object.fromEntries\<close>\<close>

definition fromEntries :: "(string \<times> 'a) list \<Rightarrow> (string \<times> 'a) list" where
  "fromEntries kvs = fold (\<lambda>(k, v). own_put k v) kvs []"

text \<open>
  Reading \<open>o[k]\<close> also finds the members of \<open>Object.prototype\<close>, and assigning \<open>o.__proto__\<close> sets
  the prototype unless the object has such a property of its own.
\<close>

definition OBJECT_PROTOTYPE_KEYS :: "string list" where
  "OBJECT_PROTOTYPE_KEYS =
     [''constructor'', ''__defineGetter__'', ''__defineSetter__'', ''hasOwnProperty'',
      ''__lookupGetter__'', ''__lookupSetter__'', ''isPrototypeOf'', ''propertyIsEnumerable'',
      ''toString'', ''valueOf'', ''__proto__'', ''toLocaleString'']"

datatype row = NoRow | OwnRow js | BuiltinRow

definition row_at :: "(string \<times> js) list \<Rightarrow> string \<Rightarrow> row" where
  "row_at rows k =
     (case map_of rows k of
        Some e \<Rightarrow> OwnRow e
      | None \<Rightarrow> if k \<in> set OBJECT_PROTOTYPE_KEYS then BuiltinRow else NoRow)"

definition assign_own :: "string \<Rightarrow> 'a \<Rightarrow> (string \<times> 'a) list \<Rightarrow> (string \<times> 'a) list" where
  "assign_own k v kvs =
     (if k = ''__proto__'' \<and> map_of kvs k = None then kvs else own_put k v kvs)"

lemma map_of_insert_index:
  "map_of kvs k = None \<Longrightarrow> map_of (insert_index k v kvs) = (map_of kvs)(k \<mapsto> v)"
  by (induction kvs) (auto simp: fun_eq_iff split: if_splits)

lemma map_of_own_put [simp]: "map_of (own_put k v kvs) = (map_of kvs)(k \<mapsto> v)"
  by (simp add: own_put_def map_of_insert_index map_of_alist_set)

lemma map_of_own_delete [simp]: "map_of (own_delete k kvs) = (map_of kvs)(k := None)"
  by (induction kvs) (auto simp: own_delete_def fun_eq_iff)

lemma set_insert_index: "set (insert_index k v kvs) = insert (k, v) (set kvs)"
  by (induction kvs) (auto split: if_splits)

lemma keys_alist_set: "set (map fst (alist_set k v kvs)) = insert k (set (map fst kvs))"
  by (induction kvs rule: alist_set.induct) auto

lemma distinct_alist_set: "distinct (map fst kvs) \<Longrightarrow> distinct (map fst (alist_set k v kvs))"
proof (induction kvs rule: alist_set.induct)
  case (2 k v k' v' kvs)
  then show ?case
    using keys_alist_set [of k v kvs] by auto
qed simp

lemma distinct_insert_index:
  "map_of kvs k = None \<Longrightarrow> distinct (map fst kvs) \<Longrightarrow> distinct (map fst (insert_index k v kvs))"
proof (induction kvs)
  case (Cons kv kvs)
  then show ?case
    by (cases kv) (auto simp: set_insert_index map_of_eq_None_iff split: if_splits)
qed simp

lemma keys_own_put: "set (map fst (own_put k v kvs)) = insert k (set (map fst kvs))"
  using set_insert_index [of k v kvs] keys_alist_set [of k v kvs] by (simp add: own_put_def)

lemma distinct_own_put: "distinct (map fst kvs) \<Longrightarrow> distinct (map fst (own_put k v kvs))"
  by (simp add: own_put_def distinct_alist_set distinct_insert_index)

lemma distinct_own_delete: "distinct (map fst kvs) \<Longrightarrow> distinct (map fst (own_delete k kvs))"
  unfolding own_delete_def by (induction kvs) auto

lemma own_put_in_place:
  "map_of kvs k \<noteq> None \<Longrightarrow> own_put k v kvs = alist_set k v kvs"
  by (auto simp: own_put_def)

lemma map_of_fold_put:
  "map_of (fold (\<lambda>(k, v). own_put k v) kvs acc) = map_of acc ++ map_of (rev kvs)"
  by (induction kvs arbitrary: acc) (auto simp: map_add_def fun_eq_iff split: option.splits)

lemma map_of_fromEntries:
  assumes "distinct (map fst kvs)" shows "map_of (fromEntries kvs) = map_of kvs"
proof -
  have "map_of (rev kvs) = map_of kvs"
    using assms by (subst map_of_inject_set) (simp_all add: rev_map [symmetric])
  then show ?thesis
    by (simp add: fromEntries_def map_of_fold_put)
qed

lemma distinct_fromEntries [simp]: "distinct (map fst (fromEntries kvs))"
proof -
  have "distinct (map fst acc) \<Longrightarrow> distinct (map fst (fold (\<lambda>(k, v). own_put k v) kvs acc))" for acc
    by (induction kvs arbitrary: acc) (auto simp: distinct_own_put)
  then show ?thesis
    by (simp add: fromEntries_def)
qed

text \<open>Truthiness of a value, \<open>a || b\<close> and \<open>a ?? b\<close> on values.\<close>

fun js_truthy :: "js \<Rightarrow> bool" where
  "js_truthy JUndef = False"
| "js_truthy JNull = False"
| "js_truthy (JBool b) = b"
| "js_truthy (JNum n) = (n \<noteq> NInt 0 \<and> n \<noteq> NNonFinite ''NaN'')"
| "js_truthy (JStr s) = (s \<noteq> [])"
| "js_truthy (JArr xs) = True"
| "js_truthy (JObj kvs) = True"

definition js_or_else :: "js \<Rightarrow> js \<Rightarrow> js" where
  "js_or_else v d = (if js_truthy v then v else d)"

definition js_default :: "js \<Rightarrow> js \<Rightarrow> js" where
  "js_default v d = (if v = JUndef \<or> v = JNull then d else v)"

text \<open>\<open>{ ...o }\<close> without some members, and setting one member of an object.\<close>

definition js_without :: "string list \<Rightarrow> js \<Rightarrow> (string \<times> js) list" where
  "js_without ks v = filter (\<lambda>kv. fst kv \<notin> set ks) (js_entries v)"

definition js_set :: "string \<Rightarrow> js \<Rightarrow> js \<Rightarrow> js" where
  "js_set k x v = JObj (alist_set k x (js_entries v))"

text \<open>\<open>{ ...(x ? { k: x } : {}) }\<close>\<close>

definition opt_entry :: "string \<Rightarrow> js option \<Rightarrow> (string \<times> js) list" where
  "opt_entry k x = (case x of None \<Rightarrow> [] | Some v \<Rightarrow> [(k, v)])"

lemma opt_entry_simps [simp, js_simps]:
  "opt_entry k None = []"
  "opt_entry k (Some v) = [(k, v)]"
  by (simp_all add: opt_entry_def)

lemma js_get_set [simp]: "js_get (js_set k x v) k' = (if k' = k then x else js_get v k')"
  by (simp add: js_get_def js_set_def)

lemma js_get_append:
  "js_get (JObj (xs @ ys)) k =
     (if hasOwn (JObj xs) k then js_get (JObj xs) k else js_get (JObj ys) k)"
  by (simp add: js_get_def hasOwn_def map_add_def split: option.splits)

lemma js_get_without:
  "js_get (JObj (js_without ks v)) k = (if k \<in> set ks then JUndef else js_get v k)"
proof -
  have "map_of (filter (\<lambda>kv. fst kv \<notin> set ks) kvs) k = (if k \<in> set ks then None else map_of kvs k)"
    for kvs :: "(string \<times> js) list"
    by (induction kvs) auto
  then show ?thesis
    by (simp add: js_get_def js_without_def)
qed

section \<open>Default-selection revision (registry-reversible-removal.ts)\<close>

definition MAX_SAFE_INTEGER :: int where
  "MAX_SAFE_INTEGER = 2 ^ 53 - 1"

definition normalizeDefaultSelectionRevision :: "js \<Rightarrow> registry_error + int" where
  "normalizeDefaultSelectionRevision revision =
     (if revision = JUndef then Inr 0
      else (case js_int revision of
              Some n \<Rightarrow> if \<bar>n\<bar> \<le> MAX_SAFE_INTEGER \<and> 0 \<le> n then Inr n else Inl BadRevision
            | None \<Rightarrow> Inl BadRevision))"

definition incrementDefaultSelectionRevision :: "int \<Rightarrow> registry_error + int" where
  "incrementDefaultSelectionRevision revision =
     andThen (normalizeDefaultSelectionRevision (JNum (NInt revision)))
       (\<lambda>current. if current = MAX_SAFE_INTEGER then Inl RevisionExhausted else Inr (current + 1))"

definition revision_ok :: "int \<Rightarrow> bool" where
  "revision_ok n = (0 \<le> n \<and> n \<le> MAX_SAFE_INTEGER)"

lemma normalize_revision_ok:
  "normalizeDefaultSelectionRevision v = Inr n \<Longrightarrow> revision_ok n"
  by (auto simp: normalizeDefaultSelectionRevision_def revision_ok_def MAX_SAFE_INTEGER_def
      split: if_splits option.splits)

lemma normalize_revision_int [simp]:
  "revision_ok n \<Longrightarrow> normalizeDefaultSelectionRevision (JNum (NInt n)) = Inr n"
  by (simp add: normalizeDefaultSelectionRevision_def revision_ok_def)

lemma increment_revision:
  "incrementDefaultSelectionRevision n = Inr m \<longleftrightarrow> revision_ok n \<and> m = n + 1 \<and> revision_ok m"
  by (auto simp: incrementDefaultSelectionRevision_def normalizeDefaultSelectionRevision_def
      revision_ok_def MAX_SAFE_INTEGER_def andThen_eq_Inr split: if_splits)

section \<open>Baseline exclusions (registry-normalization.ts)\<close>

definition is_key_char :: "char \<Rightarrow> bool" where
  "is_key_char c = (is_lower c \<or> is_upper c \<or> is_digit c \<or> c = CHR ''_'' \<or> c = CHR ''.'' \<or> c = CHR ''-'')"

definition is_alnum :: "char \<Rightarrow> bool" where
  "is_alnum c = (is_lower c \<or> is_upper c \<or> is_digit c)"

definition BASELINE_TRANSITION_KEY_PATTERN :: "string \<Rightarrow> bool" where
  "BASELINE_TRANSITION_KEY_PATTERN s =
     (case s of [] \<Rightarrow> False | c # cs \<Rightarrow> is_alnum c \<and> length cs \<le> 127 \<and> list_all is_key_char cs)"

definition is_uuid_char :: "char \<Rightarrow> bool" where
  "is_uuid_char c = (is_digit c \<or> 97 \<le> code c \<and> code c \<le> 102 \<or> 65 \<le> code c \<and> code c \<le> 70)"

definition BASELINE_TRANSITION_ID_PATTERN :: "string \<Rightarrow> bool" where
  "BASELINE_TRANSITION_ID_PATTERN s =
     (case split_on (CHR ''-'') s of
        [a, b, c, d, e] \<Rightarrow>
          length a = 8 \<and> length b = 4 \<and> length c = 4 \<and> length d = 4 \<and> length e = 12
          \<and> list_all (list_all is_uuid_char) [a, b, c, d, e]
          \<and> c ! 0 \<in> set ''12345678'' \<and> d ! 0 \<in> set ''89abAB''
      | _ \<Rightarrow> False)"

definition isCanonicalIsoTimestamp :: "string \<Rightarrow> bool" where
  "isCanonicalIsoTimestamp s = canonical_iso s"

record baseline_exclusion =
  ex_agent :: string
  ex_key :: string
  ex_digest :: string
  ex_acknowledgedAt :: "string option"
  ex_appliedAgentVersion :: "string option option"

text \<open>The trimmed text of a member that is a string, \<open>""\<close> otherwise.\<close>

definition trimmed_member :: "js \<Rightarrow> string \<Rightarrow> string" where
  "trimmed_member item k = (case js_get item k of JStr s \<Rightarrow> trim s | _ \<Rightarrow> [])"

definition trimmed_optional :: "js \<Rightarrow> js" where
  "trimmed_optional v = (case v of JStr s \<Rightarrow> JStr (trim s) | _ \<Rightarrow> v)"

definition normalizeBaselineExclusionEntry :: "js \<Rightarrow> registry_error + baseline_exclusion" where
  "normalizeBaselineExclusionEntry item =
     (let agent = trimmed_member item ''agent'';
          key = trimmed_member item ''key'';
          digest = trimmed_member item ''digest'';
          acknowledgedAt = trimmed_optional (js_get item ''acknowledgedAt'');
          applied = js_get item ''appliedAgentVersion''
      in if \<not> isObjectRecord item then Inl MalformedExclusion
         else if js_get item ''version'' \<noteq> JNum (NInt 1)
              \<or> \<not> BASELINE_TRANSITION_KEY_PATTERN agent
              \<or> \<not> BASELINE_TRANSITION_KEY_PATTERN key
              \<or> \<not> is_hex_string 64 digest
              \<or> acknowledgedAt \<noteq> JUndef
                \<and> \<not> (case acknowledgedAt of JStr s \<Rightarrow> isCanonicalIsoTimestamp s | _ \<Rightarrow> False)
         then Inl InvalidExclusion
         else (let entry = \<lparr>ex_agent = agent, ex_key = key, ex_digest = digest,
                            ex_acknowledgedAt = js_string acknowledgedAt,
                            ex_appliedAgentVersion = None\<rparr>
               in case applied of
                    JNull \<Rightarrow> Inr (entry\<lparr>ex_appliedAgentVersion := Some None\<rparr>)
                  | JStr v \<Rightarrow> Inr (entry\<lparr>ex_appliedAgentVersion := Some (Some v)\<rparr>)
                  | JUndef \<Rightarrow> Inr entry
                  | _ \<Rightarrow> Inl (InvalidExclusionVersion key)))"

definition exclusion_to_js :: "baseline_exclusion \<Rightarrow> js" where
  "exclusion_to_js e = JObj
     ([(''version'', JNum (NInt 1)), (''agent'', JStr (ex_agent e)), (''key'', JStr (ex_key e)),
       (''digest'', JStr (ex_digest e))]
      @ opt_entry ''acknowledgedAt'' (map_option JStr (ex_acknowledgedAt e))
      @ opt_entry ''appliedAgentVersion'' (map_option (js_opt JStr) (ex_appliedAgentVersion e)))"

definition exclusions_by_key :: "baseline_exclusion list \<Rightarrow> (string \<times> baseline_exclusion) list" where
  "exclusions_by_key es = fold (\<lambda>e. alist_set (ex_key e) e) es []"

definition normalizeBaselineExclusions :: "js \<Rightarrow> registry_error + baseline_exclusion list option" where
  "normalizeBaselineExclusions value =
     (case value of
        JUndef \<Rightarrow> Inr None
      | JArr items \<Rightarrow>
          andThen (traverse normalizeBaselineExclusionEntry items)
            (\<lambda>es. let byKey = exclusions_by_key es
                  in Inr (if byKey \<noteq> [] then Some (map snd byKey) else None))
      | _ \<Rightarrow> Inl ExclusionsNotArray)"

definition exclusions_to_js :: "baseline_exclusion list \<Rightarrow> js" where
  "exclusions_to_js es = JArr (map exclusion_to_js es)"

section \<open>The journal of a baseline mutation\<close>

datatype baseline_operation = Exclude | Restore

fun baseline_operation_id :: "baseline_operation \<Rightarrow> string" where
  "baseline_operation_id Exclude = ''exclude''"
| "baseline_operation_id Restore = ''restore''"

record baseline_transition =
  tr_id :: string
  tr_operation :: baseline_operation
  tr_exclusion :: baseline_exclusion
  tr_targetLiveDigest :: "string option"
  tr_startedAt :: string

definition parse_operation :: "js \<Rightarrow> baseline_operation option" where
  "parse_operation v =
     (if v = JStr ''exclude'' then Some Exclude
      else if v = JStr ''restore'' then Some Restore else None)"

text \<open>\<open>null\<close> stays null, a string is trimmed, anything else becomes the empty string.\<close>

definition live_target :: "js \<Rightarrow> string option" where
  "live_target v = (case v of JNull \<Rightarrow> None | JStr s \<Rightarrow> Some (trim s) | _ \<Rightarrow> Some [])"

definition live_target_ok :: "baseline_operation \<Rightarrow> string option \<Rightarrow> bool" where
  "live_target_ok operation target =
     (case operation of
        Exclude \<Rightarrow> target = None
      | Restore \<Rightarrow> (case target of None \<Rightarrow> False | Some d \<Rightarrow> is_hex_string 64 d))"

definition normalizeBaselineExclusionTransition :: "js \<Rightarrow> registry_error + baseline_transition option"
  where
  "normalizeBaselineExclusionTransition value =
     (if value = JUndef then Inr None
      else if \<not> isObjectRecord value then Inl MalformedTransition
      else let id = trimmed_member value ''id''; startedAt = trimmed_member value ''startedAt'' in
        if \<not> BASELINE_TRANSITION_ID_PATTERN id \<or> \<not> isCanonicalIsoTimestamp startedAt
        then Inl IncompleteTransition
        else case parse_operation (js_get value ''operation'') of
          None \<Rightarrow> Inl IncompleteTransition
        | Some operation \<Rightarrow>
            andThen (normalizeBaselineExclusionEntry (js_get value ''exclusion'')) (\<lambda>exclusion.
            if \<not> BASELINE_TRANSITION_KEY_PATTERN (ex_key exclusion)
               \<or> \<not> is_hex_string 64 (ex_digest exclusion)
               \<or> \<not> pred_option isCanonicalIsoTimestamp (ex_acknowledgedAt exclusion)
            then Inl InvalidTransitionSource
            else let target = live_target (js_get value ''targetLiveDigest'') in
              if \<not> live_target_ok operation target then Inl (InvalidLiveTarget (ex_key exclusion))
              else Inr (Some \<lparr>tr_id = id, tr_operation = operation, tr_exclusion = exclusion,
                              tr_targetLiveDigest = target, tr_startedAt = startedAt\<rparr>)))"

definition transition_to_js :: "baseline_transition \<Rightarrow> js" where
  "transition_to_js t = JObj
     [(''id'', JStr (tr_id t)), (''operation'', JStr (baseline_operation_id (tr_operation t))),
      (''exclusion'', exclusion_to_js (tr_exclusion t)),
      (''targetLiveDigest'', js_opt JStr (tr_targetLiveDigest t)),
      (''startedAt'', JStr (tr_startedAt t))]"

section \<open>Custom policies\<close>

record custom_policy =
  cp_name :: string
  cp_content :: string
  cp_pendingContent :: "string option"
  cp_sourcePath :: "string option"
  cp_appliedAt :: "string option"
  cp_trustedPrivatePins :: "js option"

definition optional_string_member :: "js \<Rightarrow> string \<Rightarrow> bool" where
  "optional_string_member item k = (js_get item k = JUndef \<or> is_string (js_get item k))"

text \<open>
  The first argument is \<open>normalizeTrustedPrivatePolicyPinReceipt\<close> of the policy package: no result
  when it throws, otherwise the receipt or its absence.
\<close>

definition normalizeCustomPolicyEntry ::
  "(string \<Rightarrow> js \<Rightarrow> js option option) \<Rightarrow> js \<Rightarrow> registry_error + custom_policy" where
  "normalizeCustomPolicyEntry pins item =
     (case (js_string (js_get item ''name''), js_string (js_get item ''content'')) of
        (Some name, Some content) \<Rightarrow>
          if \<not> isObjectRecord item \<or> trim name = []
             \<or> \<not> optional_string_member item ''pendingContent''
             \<or> \<not> optional_string_member item ''sourcePath''
             \<or> \<not> optional_string_member item ''appliedAt''
          then Inl MalformedCustomPolicy
          else (case pins content (js_get item ''trustedPrivatePins'') of
                  None \<Rightarrow> Inl (InvalidPinAuthority name)
                | Some receipt \<Rightarrow>
                    Inr \<lparr>cp_name = name, cp_content = content,
                         cp_pendingContent = js_string (js_get item ''pendingContent''),
                         cp_sourcePath = js_string (js_get item ''sourcePath''),
                         cp_appliedAt = js_string (js_get item ''appliedAt''),
                         cp_trustedPrivatePins = receipt\<rparr>)
      | _ \<Rightarrow> Inl MalformedCustomPolicy)"

definition normalizeCustomPolicyEntries ::
  "(string \<Rightarrow> js \<Rightarrow> js option option) \<Rightarrow> js \<Rightarrow> registry_error + custom_policy list option" where
  "normalizeCustomPolicyEntries pins value =
     (case value of
        JUndef \<Rightarrow> Inr None
      | JArr items \<Rightarrow>
          andThen (traverse (normalizeCustomPolicyEntry pins) items)
            (\<lambda>entries. Inr (if entries \<noteq> [] then Some entries else None))
      | _ \<Rightarrow> Inl CustomPoliciesNotArray)"

definition custom_policy_to_js :: "custom_policy \<Rightarrow> js" where
  "custom_policy_to_js p = JObj
     ([(''name'', JStr (cp_name p)), (''content'', JStr (cp_content p))]
      @ opt_entry ''pendingContent'' (map_option JStr (cp_pendingContent p))
      @ opt_entry ''sourcePath'' (map_option JStr (cp_sourcePath p))
      @ opt_entry ''appliedAt'' (map_option JStr (cp_appliedAt p))
      @ opt_entry ''trustedPrivatePins'' (cp_trustedPrivatePins p))"

definition custom_policies_to_js :: "custom_policy list \<Rightarrow> js" where
  "custom_policies_to_js ps = JArr (map custom_policy_to_js ps)"

section \<open>Extra providers (extra-providers.ts)\<close>

definition EXTRA_PROVIDER_NAME_PATTERN :: "string \<Rightarrow> bool" where
  "EXTRA_PROVIDER_NAME_PATTERN s =
     (case s of
        [] \<Rightarrow> False
      | c # cs \<Rightarrow> (is_lower c \<or> is_upper c) \<and> length cs \<le> 127 \<and> list_all is_key_char cs)"

definition isValidExtraProviderName :: "string \<Rightarrow> bool" where
  "isValidExtraProviderName name = EXTRA_PROVIDER_NAME_PATTERN name"

definition normalizeExtraProviders :: "js \<Rightarrow> string list option" where
  "normalizeExtraProviders input =
     (case input of
        JArr items \<Rightarrow>
          (let cleaned = filter EXTRA_PROVIDER_NAME_PATTERN (List.map_filter js_string items);
               deduped = sort (uniq cleaned)
           in if deduped \<noteq> [] then Some deduped else None)
      | _ \<Rightarrow> None)"

definition providers_to_js :: "string list option \<Rightarrow> js" where
  "providers_to_js ps = (case ps of None \<Rightarrow> JUndef | Some xs \<Rightarrow> JArr (map JStr xs))"

definition readExtraProviders :: "string list option \<Rightarrow> string list" where
  "readExtraProviders providers = nullish [] providers"

definition applyAddExtraProvider :: "string \<Rightarrow> string list option \<Rightarrow> string list option option" where
  "applyAddExtraProvider name providers =
     (let existing = uniq (nullish [] providers) in
      if \<not> isValidExtraProviderName name \<or> name \<in> set existing then None
      else Some (Some (sort (existing @ [name]))))"

definition applyRemoveExtraProvider :: "string \<Rightarrow> string list option \<Rightarrow> string list option option" where
  "applyRemoveExtraProvider name providers =
     (let existing = uniq (nullish [] providers) in
      if name \<notin> set existing then None
      else let sorted = sort (filter (\<lambda>p. p \<noteq> name) existing)
           in Some (if sorted \<noteq> [] then Some sorted else None))"

section \<open>The inference selection of a row (inference/selection.ts, registry-entry-view.ts)\<close>

definition nullableString :: "js \<Rightarrow> string option" where
  "nullableString value =
     (case value of JStr s \<Rightarrow> (let t = trim s in if t \<noteq> [] then Some t else None) | _ \<Rightarrow> None)"

definition SUPPORTED_INFERENCE_APIS :: "string list" where
  "SUPPORTED_INFERENCE_APIS = [''openai-completions'', ''anthropic-messages'', ''openai-responses'']"

definition nullableInferenceApi :: "js \<Rightarrow> string option" where
  "nullableInferenceApi value =
     (case nullableString value of
        Some n \<Rightarrow> if n \<in> set SUPPORTED_INFERENCE_APIS then Some n else None
      | None \<Rightarrow> None)"

definition normalizeInferenceEndpointSource :: "js \<Rightarrow> string option" where
  "normalizeInferenceEndpointSource value =
     (if value = JStr ''onboard'' \<or> value = JStr ''inference-set'' then js_string value else None)"

definition nullableCompatibleEndpointReasoning :: "string option \<Rightarrow> js \<Rightarrow> string option" where
  "nullableCompatibleEndpointReasoning provider value =
     (if provider \<noteq> Some ''compatible-endpoint'' then None
      else case map_option toLower (nullableString value) of
        Some n \<Rightarrow> if n = ''true'' \<or> n = ''false'' then Some n else None
      | None \<Rightarrow> None)"

definition nullableCompatibleEndpointReasoningEffort ::
  "string option \<Rightarrow> js \<Rightarrow> reasoning_effort option" where
  "nullableCompatibleEndpointReasoningEffort provider value =
     (if provider \<noteq> Some ''compatible-endpoint'' then None else normalizeReasoningEffort value)"

record inference_selection =
  is_provider :: "string option"
  is_model :: "string option"
  is_endpointUrl :: "string option"
  is_endpointSource :: "string option"
  is_credentialEnv :: "string option"
  is_preferredInferenceApi :: "string option"
  is_compatibleEndpointReasoning :: "string option"
  is_compatibleEndpointReasoningEffort :: "reasoning_effort option"
  is_nimContainer :: "string option"

definition normalizeInferenceSelection :: "js \<Rightarrow> inference_selection" where
  "normalizeInferenceSelection input =
     (let provider = nullableString (js_get input ''provider'');
          endpointUrl = nullableString (js_get input ''endpointUrl'')
      in \<lparr>is_provider = provider,
          is_model = nullableString (js_get input ''model''),
          is_endpointUrl = endpointUrl,
          is_endpointSource =
            (if truthy endpointUrl
             then normalizeInferenceEndpointSource (js_get input ''endpointSource'') else None),
          is_credentialEnv = nullableString (js_get input ''credentialEnv''),
          is_preferredInferenceApi = nullableInferenceApi (js_get input ''preferredInferenceApi''),
          is_compatibleEndpointReasoning =
            nullableCompatibleEndpointReasoning provider
              (js_get input ''compatibleEndpointReasoning''),
          is_compatibleEndpointReasoningEffort =
            nullableCompatibleEndpointReasoningEffort provider
              (js_get input ''compatibleEndpointReasoningEffort''),
          is_nimContainer = nullableString (js_get input ''nimContainer'')\<rparr>)"

definition inferenceSelectionRegistryFields :: "js \<Rightarrow> (string \<times> js) list" where
  "inferenceSelectionRegistryFields input =
     (let s = normalizeInferenceSelection input in
      [(''provider'', js_opt JStr (is_provider s)), (''model'', js_opt JStr (is_model s)),
       (''endpointUrl'', js_opt JStr (is_endpointUrl s)),
       (''endpointSource'', js_opt JStr (is_endpointSource s)),
       (''credentialEnv'', js_opt JStr (is_credentialEnv s)),
       (''preferredInferenceApi'', js_opt JStr (is_preferredInferenceApi s)),
       (''compatibleEndpointReasoning'', js_opt JStr (is_compatibleEndpointReasoning s)),
       (''compatibleEndpointReasoningEffort'',
        js_opt (\<lambda>e. JStr (effort_id e)) (is_compatibleEndpointReasoningEffort s)),
       (''nimContainer'', js_opt JStr (is_nimContainer s))])"

datatype entry_inference = Configured string string | Unconfigured

definition isNonEmptyString :: "js \<Rightarrow> bool" where
  "isNonEmptyString value = (case value of JStr s \<Rightarrow> trim s \<noteq> [] | _ \<Rightarrow> False)"

definition optionalDisplayString :: "js \<Rightarrow> string option" where
  "optionalDisplayString value = (if isNonEmptyString value then js_string value else None)"

definition getSandboxEntryInference :: "js \<Rightarrow> entry_inference" where
  "getSandboxEntryInference entry =
     (case (js_string (js_get entry ''provider''), js_string (js_get entry ''model'')) of
        (Some p, Some m) \<Rightarrow>
          if isNonEmptyString (JStr p) \<and> isNonEmptyString (JStr m) then Configured p m
          else Unconfigured
      | _ \<Rightarrow> Unconfigured)"

definition getSandboxEntryDisplayInference :: "js \<Rightarrow> string option \<times> string option" where
  "getSandboxEntryDisplayInference entry =
     (case getSandboxEntryInference entry of
        Configured p m \<Rightarrow> (Some p, Some m)
      | Unconfigured \<Rightarrow>
          (optionalDisplayString (js_get entry ''provider''),
           optionalDisplayString (js_get entry ''model'')))"

end
