(* ===== verification/Trusted_Endpoint.thy ===== *)
theory Trusted_Endpoint
  imports Private_Networks Registry_Values
begin

text \<open>
  Endpoints an operator trusts on a private network (\<open>src/lib/security/trusted-private-endpoint.ts\<close>),
  the wrapper of the inference routes (\<open>src/lib/inference/endpoint-ssrf-preflight.ts\<close>) and the hosts an
  MCP server may not have (\<open>src/lib/security/mcp-url-target.ts\<close>): exact host names and their canonical
  form, the canonical form of address literals, the preflight that resolves a host and refuses internal
  addresses, and the capabilities it issues.

  A capability is a frozen JavaScript object that the module remembers in a \<open>WeakSet\<close>. The model gives
  objects references: \<open>tw_issued\<close> holds the references the module has issued with the fields of the frozen
  object, and a value of unknown origin is a reference that may or may not be among them. The URL parser
  and the DNS resolver are arguments; the resolver also gives the world that the preflight
  finds after waiting for it.
\<close>

section \<open>Canonical IPv6 text (URL.hostname)\<close>

fun hex_text :: "nat \<Rightarrow> string" where
  "hex_text n =
     (if n < 16 then [''0123456789abcdef'' ! n]
      else hex_text (n div 16) @ [''0123456789abcdef'' ! (n mod 16)])"

declare hex_text.simps [simp del]

definition pieces :: "128 word \<Rightarrow> nat list" where
  "pieces w = map (\<lambda>k. unat w div 65536 ^ k mod 65536) [7, 6, 5, 4, 3, 2, 1, 0]"

definition zero_run :: "nat list \<Rightarrow> nat" where
  "zero_run gs = length (takeWhile (\<lambda>g. g = 0) gs)"

text \<open>Start and length of the first longest run of zero pieces.\<close>

fun longest_run :: "nat \<Rightarrow> nat list \<Rightarrow> nat \<times> nat" where
  "longest_run i [] = (i, 0)"
| "longest_run i (g # gs) =
     (let (s, n) = longest_run (Suc i) gs; m = zero_run (g # gs)
      in if n \<le> m then (i, m) else (s, n))"

definition colon_text :: "nat list \<Rightarrow> string" where
  "colon_text gs = join_with CHR '':'' (map hex_text gs)"

definition pieces_text :: "nat list \<Rightarrow> string" where
  "pieces_text gs =
     (let (s, n) = longest_run 0 gs
      in if n < 2 then colon_text gs
         else colon_text (take s gs) @ ''::'' @ colon_text (drop (s + n) gs))"

definition ipv6_text :: "128 word \<Rightarrow> string" where
  "ipv6_text w = pieces_text (pieces w)"

section \<open>Errors and state\<close>

datatype trust_error =
    TrustedHostEmpty | TrustedHostMalformed string | TrustedHostNotIpv6 string
  | TrustedHostNotExact string | TrustedHostHasPort string | TrustedHostNotIp string
  | TrustedHostTooLong string
  | InvalidUrl
  | PinsMissing string | PinDisallowed string | PinsDuplicated string | PinsNotPrivate string
  | PinOutsidePrivate string
  | CapabilityNotIssued | CapabilityHostDiffers string string | CapabilityAddressesDiffer
  | TableError network_error

record capability =
  cap_host :: string
  cap_addresses :: "string list"

record trust_world =
  tw_networks :: cli_world
  tw_issued :: "(nat \<times> capability) list"
  tw_nextRef :: nat

text \<open>A value that may be a capability: an object, by its reference, or anything else.\<close>

datatype capability_value = CapabilityObject nat | NoObject

type_synonym 'a trust = "(trust_error, trust_world, 'a) eff"

text \<open>The calls into \<open>private-networks\<close>, which load the table on first use.\<close>

definition on_networks :: "(network_error, cli_world, 'a) eff \<Rightarrow> 'a trust" where
  "on_networks m w =
     (case m (tw_networks w) of
        (Inl e, n) \<Rightarrow> (Inl (TableError e), w\<lparr>tw_networks := n\<rparr>)
      | (Inr a, n) \<Rightarrow> (Inr a, w\<lparr>tw_networks := n\<rparr>))"

definition isPrivateIp :: "string \<Rightarrow> bool trust" where
  "isPrivateIp a = on_networks (cli_isPrivateIp a)"

section \<open>Host names and literals\<close>

definition subnets :: "(string \<times> nat) list \<Rightarrow> block_list" where
  "subnets rules =
     foldl (\<lambda>bl (address, prefix).
              case parse_ip address of Some a \<Rightarrow> addSubnet bl a prefix | None \<Rightarrow> bl) [] rules"

definition OPENSHELL_MANAGED_HOSTS :: "string list" where
  "OPENSHELL_MANAGED_HOSTS =
     [''inference.local'', ''host.openshell.internal'', ''host.docker.internal'', ''host.containers.internal'']"

definition OPERATOR_TRUSTABLE_PRIVATE_NETWORKS :: block_list where
  "OPERATOR_TRUSTABLE_PRIVATE_NETWORKS =
     subnets [(''10.0.0.0'', 8), (''100.64.0.0'', 10), (''172.16.0.0'', 12), (''192.168.0.0'', 16), (''fc00::'', 7)]"

definition isOperatorTrustablePrivateIp :: "string \<Rightarrow> bool" where
  "isOperatorTrustablePrivateIp address =
     (isIP address \<noteq> 0 \<and> isPrivateIpInBlockList address OPERATOR_TRUSTABLE_PRIVATE_NETWORKS)"

definition isOpenShellManagedHost :: "string \<Rightarrow> bool" where
  "isOpenShellManagedHost hostname =
     (normalise_name (strip_brackets hostname) \<in> set OPENSHELL_MANAGED_HOSTS)"

text \<open>\<open>new URL\<close> does not take an address with a zone.\<close>

definition normalizeIpLiteral :: "string \<Rightarrow> trust_error + string" where
  "normalizeIpLiteral address =
     (case parse_ip address of
        Some (IPv6 w) \<Rightarrow> if free_of CHR ''%'' address then Inr (ipv6_text w) else Inl InvalidUrl
      | _ \<Rightarrow> Inr (toLower address))"

definition normalizeEndpointHostname :: "string \<Rightarrow> trust_error + string" where
  "normalizeEndpointHostname hostname =
     (let normalized = normalise_name (strip_brackets hostname)
      in if isIP normalized = 0 then Inr normalized else normalizeIpLiteral normalized)"

text \<open>\<open>/^[a-z0-9](?:[a-z0-9-]*[a-z0-9])?$/\<close>\<close>

definition dns_char :: "char \<Rightarrow> bool" where
  "dns_char c = (is_lower c \<or> is_digit c)"

definition dns_label :: "string \<Rightarrow> bool" where
  "dns_label s =
     (s \<noteq> [] \<and> dns_char (hd s) \<and> dns_char (last s) \<and> list_all (\<lambda>c. dns_char c \<or> c = CHR ''-'') s)"

text \<open>\<open>/^\d+(?:\.\d+){3}$/\<close>\<close>

definition dotted_numbers :: "string \<Rightarrow> bool" where
  "dotted_numbers s =
     (let parts = split_on CHR ''.'' s
      in length parts = 4 \<and> list_all (\<lambda>p. p \<noteq> [] \<and> list_all is_digit p) parts)"

fun contains :: "string \<Rightarrow> string \<Rightarrow> bool" where
  "contains p [] = (p = [])"
| "contains p (c # s) = (starts_with p (c # s) \<or> contains p s)"

definition trusted_name :: "string \<Rightarrow> string \<Rightarrow> trust_error + string" where
  "trusted_name value normalized =
     (if normalized = [] \<or> ends_with ''.'' normalized then Inl (TrustedHostMalformed value)
      else if isIP normalized \<noteq> 0 then normalizeIpLiteral normalized
      else if \<not> free_of CHR '':'' normalized then Inl (TrustedHostHasPort value)
      else if dotted_numbers normalized then Inl (TrustedHostNotIp value)
      else if 253 < length normalized then Inl (TrustedHostTooLong value)
      else if list_ex (\<lambda>label. label = [] \<or> 63 < length label \<or> \<not> dns_label label) (split_on CHR ''.'' normalized)
      then Inl (TrustedHostMalformed value)
      else Inr normalized)"

definition normalizeTrustedPrivateHost :: "string \<Rightarrow> trust_error + string" where
  "normalizeTrustedPrivateHost raw =
     (let value = trim raw in
      if value = [] then Inl TrustedHostEmpty
      else if starts_with ''['' value \<or> ends_with '']'' value then
        (if \<not> (starts_with ''['' value \<and> ends_with '']'' value) then Inl (TrustedHostMalformed value)
         else let address = toLower (butlast (tl value)) in
              if isIP address \<noteq> 6 then Inl (TrustedHostNotIpv6 value) else normalizeIpLiteral address)
      else if contains ''://'' value \<or> list_ex (\<lambda>c. c \<in> set [CHR 92, CHR ''/'', CHR ''?'', CHR ''#'', CHR ''@'', CHR ''*'']) value
              \<or> starts_with ''.'' value \<or> \<not> free_of CHR ''%'' value
      then Inl (TrustedHostNotExact value)
      else trusted_name value (normalise_name value))"

definition parseTrustedPrivateHosts :: "string option \<Rightarrow> trust_error + string list" where
  "parseTrustedPrivateHosts value =
     (let input = trim (nullish [] value) in
      if input = [] then Inr []
      else andThen (traverse normalizeTrustedPrivateHost (split_on CHR '','' input)) (\<lambda>hosts. Inr (uniq hosts)))"

definition parseTrustedPrivateInferenceHostsFromEnv :: "(string \<rightharpoonup> string) \<Rightarrow> trust_error + string list" where
  "parseTrustedPrivateInferenceHostsFromEnv env =
     andThen (parseTrustedPrivateHosts (env ''NEMOCLAW_TRUSTED_PRIVATE_HOSTS'')) (\<lambda>hosts.
     andThen (parseTrustedPrivateHosts (env ''NEMOCLAW_TRUSTED_PRIVATE_INFERENCE_HOSTS'')) (\<lambda>more.
       Inr (uniq (hosts @ more))))"

section \<open>Capabilities\<close>

definition issueTrustedPrivateEndpointCapability :: "string \<Rightarrow> string list \<Rightarrow> nat trust" where
  "issueTrustedPrivateEndpointCapability host addresses =
     bind (lift_res (traverse normalizeIpLiteral addresses)) (\<lambda>normalized w.
       (Inr (tw_nextRef w),
        w\<lparr>tw_issued := (tw_nextRef w, \<lparr>cap_host = host, cap_addresses = sort (uniq normalized)\<rparr>) # tw_issued w,
          tw_nextRef := Suc (tw_nextRef w)\<rparr>))"

definition issued_capability :: "trust_world \<Rightarrow> capability_value \<Rightarrow> capability option" where
  "issued_capability w v = (case v of CapabilityObject r \<Rightarrow> map_of (tw_issued w) r | NoObject \<Rightarrow> None)"

definition isTrustedPrivateEndpointCapability :: "trust_world \<Rightarrow> capability_value \<Rightarrow> bool" where
  "isTrustedPrivateEndpointCapability w v = (issued_capability w v \<noteq> None)"

text \<open>The pins of a record, one at a time; a pin that is not a string is refused like a bad one.\<close>

fun canonical_pins :: "string \<Rightarrow> js list \<Rightarrow> string list trust" where
  "canonical_pins host [] = ret []"
| "canonical_pins host (a # as) =
     (case js_string a of
        None \<Rightarrow> throw (PinDisallowed host)
      | Some address \<Rightarrow>
          if isIP address = 0 \<or> \<not> free_of CHR ''%'' address then throw (PinDisallowed host)
          else bind (lift_res (normalizeIpLiteral address)) (\<lambda>normalizedAddress.
               bind (isPrivateIp normalizedAddress) (\<lambda>private.
                 if private \<and> \<not> isOperatorTrustablePrivateIp normalizedAddress
                 then throw (PinDisallowed host)
                 else bind (canonical_pins host as) (\<lambda>rest. ret (normalizedAddress # rest)))))"

record endpoint_pins =
  ep_host :: string
  ep_addresses :: "string list"

definition canonicalizeTrustedPrivateEndpointPins ::
  "string \<Rightarrow> js list \<Rightarrow> bool \<Rightarrow> endpoint_pins trust" where
  "canonicalizeTrustedPrivateEndpointPins host addresses requireAllPrivate =
     bind (lift_res (normalizeTrustedPrivateHost host)) (\<lambda>normalizedHost.
       if addresses = [] then throw (PinsMissing normalizedHost)
       else bind (canonical_pins normalizedHost addresses) (\<lambda>normalizedAddresses.
         if \<not> distinct normalizedAddresses then throw (PinsDuplicated normalizedHost)
         else if \<not> list_ex isOperatorTrustablePrivateIp normalizedAddresses
         then throw (PinsNotPrivate normalizedHost)
         else if requireAllPrivate \<and> \<not> list_all isOperatorTrustablePrivateIp normalizedAddresses
         then throw (PinOutsidePrivate normalizedHost)
         else ret \<lparr>ep_host = normalizedHost, ep_addresses = sort normalizedAddresses\<rparr>))"

record endpoint_replay = endpoint_pins +
  er_trustedPrivateCapability :: capability_value

definition assertTrustedPrivateEndpointCapability ::
  "string \<Rightarrow> js list \<Rightarrow> capability_value \<Rightarrow> bool \<Rightarrow> endpoint_replay trust" where
  "assertTrustedPrivateEndpointCapability host addresses capability requireAllPrivate w =
     (case issued_capability w capability of
        None \<Rightarrow> (Inl CapabilityNotIssued, w)
      | Some c \<Rightarrow>
          bind (canonicalizeTrustedPrivateEndpointPins host addresses requireAllPrivate) (\<lambda>pins.
            if cap_host c \<noteq> ep_host pins then throw (CapabilityHostDiffers (cap_host c) (ep_host pins))
            else if map JStr (ep_addresses pins) \<noteq> addresses \<or> cap_addresses c \<noteq> ep_addresses pins
            then throw CapabilityAddressesDiffer
            else ret \<lparr>ep_host = ep_host pins, ep_addresses = ep_addresses pins,
                      er_trustedPrivateCapability = capability\<rparr>) w)"

definition replayTrustedPrivateEndpoint :: "string \<Rightarrow> js list \<Rightarrow> bool \<Rightarrow> endpoint_replay trust" where
  "replayTrustedPrivateEndpoint host addresses requireAllPrivate =
     bind (canonicalizeTrustedPrivateEndpointPins host addresses requireAllPrivate) (\<lambda>pins.
     bind (issueTrustedPrivateEndpointCapability (ep_host pins) (ep_addresses pins)) (\<lambda>r.
       ret \<lparr>ep_host = ep_host pins, ep_addresses = ep_addresses pins,
            er_trustedPrivateCapability = CapabilityObject r\<rparr>))"

section \<open>The preflight\<close>

datatype preflight_reason =
    NotAValidUrl string | TrustedHostRejected trust_error | PrivateEndpointHost string
  | CannotResolveEndpoint string string | NoEndpointAddress string | MalformedDnsAddress string
  | ResolvesToPrivate string string

datatype reason_code = PrivateAnswer | Rejected | Unresolved

record preflight_result =
  pf_ok :: bool
  pf_reason :: "preflight_reason option"
  pf_reasonCode :: "reason_code option"
  pf_offendingAddress :: "string option"
  pf_addresses :: "string list option"
  pf_trustedPrivateCapability :: "nat option"
  pf_trustedPrivateEndpoint :: bool

definition refused :: "preflight_reason \<Rightarrow> reason_code \<Rightarrow> string option \<Rightarrow> preflight_result" where
  "refused reason reasonCode offending =
     \<lparr>pf_ok = False, pf_reason = Some reason, pf_reasonCode = Some reasonCode, pf_offendingAddress = offending,
      pf_addresses = None, pf_trustedPrivateCapability = None, pf_trustedPrivateEndpoint = False\<rparr>"

definition admitted :: "string list \<Rightarrow> nat option \<Rightarrow> preflight_result" where
  "admitted addresses capability =
     \<lparr>pf_ok = True, pf_reason = None, pf_reasonCode = None, pf_offendingAddress = None,
      pf_addresses = Some addresses, pf_trustedPrivateCapability = capability,
      pf_trustedPrivateEndpoint = (capability \<noteq> None)\<rparr>"

text \<open>
  The resolver's answer: a failure with its message, a value that is not an array, or the \<open>address\<close>
  members of the array. Other code may run while it is awaited.
\<close>

datatype dns_answer = DnsFailed string | DnsNotArray | DnsAddresses "js list"

type_synonym dns_resolver = "string \<Rightarrow> trust_world \<Rightarrow> dns_answer \<times> trust_world"

text \<open>The answers in turn: the first bad one ends the preflight, otherwise the canonical addresses.\<close>

fun check_answers :: "bool \<Rightarrow> string \<Rightarrow> js list \<Rightarrow> (preflight_result + string list) trust" where
  "check_answers trusted hostname [] = ret (Inr [])"
| "check_answers trusted hostname (a # as) =
     (case js_string a of
        None \<Rightarrow> ret (Inl (refused (MalformedDnsAddress hostname) Rejected None))
      | Some address \<Rightarrow>
          if isIP address = 0 then ret (Inl (refused (MalformedDnsAddress hostname) Rejected None))
          else bind (lift_res (normalizeIpLiteral address)) (\<lambda>normalizedAddress.
               bind (isPrivateIp normalizedAddress) (\<lambda>private.
                 if private \<and> (\<not> trusted \<or> \<not> isOperatorTrustablePrivateIp normalizedAddress)
                 then ret (Inl (refused (ResolvesToPrivate hostname normalizedAddress) PrivateAnswer
                                  (Some normalizedAddress)))
                 else bind (check_answers trusted hostname as) (\<lambda>rest.
                        ret (map_sum (\<lambda>e. e) (\<lambda>ns. normalizedAddress # ns) rest)))))"

fun private_addresses :: "string list \<Rightarrow> string list trust" where
  "private_addresses [] = ret []"
| "private_addresses (a # as) =
     bind (isPrivateIp a) (\<lambda>private.
     bind (private_addresses as) (\<lambda>rest. ret (if private then a # rest else rest)))"

definition preflight_literal :: "bool \<Rightarrow> string \<Rightarrow> string \<Rightarrow> preflight_result trust" where
  "preflight_literal trusted hostname bare =
     bind (isPrivateIp bare) (\<lambda>private.
       if \<not> private then ret (admitted [] None)
       else if trusted \<and> isOperatorTrustablePrivateIp bare
       then bind (issueTrustedPrivateEndpointCapability bare [bare]) (\<lambda>r. ret (admitted [] (Some r)))
       else ret (refused (PrivateEndpointHost hostname) Rejected None))"

definition preflight_name :: "dns_resolver \<Rightarrow> bool \<Rightarrow> string \<Rightarrow> string \<Rightarrow> preflight_result trust" where
  "preflight_name lookup trusted hostname bare w =
     (case lookup bare w of
        (DnsFailed message, w') \<Rightarrow> (Inr (refused (CannotResolveEndpoint hostname message) Unresolved None), w')
      | (DnsNotArray, w') \<Rightarrow> (Inr (refused (NoEndpointAddress hostname) Unresolved None), w')
      | (DnsAddresses answers, w') \<Rightarrow>
          if answers = [] then (Inr (refused (NoEndpointAddress hostname) Unresolved None), w')
          else bind (check_answers trusted hostname answers) (\<lambda>checked.
            (case checked of
               Inl result \<Rightarrow> ret result
             | Inr resolved \<Rightarrow>
                 bind (private_addresses resolved) (\<lambda>privates.
                   if trusted \<and> privates \<noteq> []
                   then bind (issueTrustedPrivateEndpointCapability bare (sort (uniq resolved))) (\<lambda>r.
                          ret (admitted (sort (uniq resolved)) (Some r)))
                   else ret (admitted (sort (uniq resolved)) None)))) w')"

definition assertEndpointResolvesPublic ::
  "url_parser \<Rightarrow> dns_resolver \<Rightarrow> string \<Rightarrow> string list \<Rightarrow> preflight_result trust" where
  "assertEndpointResolvesPublic parse lookup endpointUrl trustedPrivateHosts =
     (case parse endpointUrl of
        None \<Rightarrow> ret (refused (NotAValidUrl endpointUrl) Rejected None)
      | Some u \<Rightarrow>
          let hostname = url_hostname u in
          bind (lift_res (normalizeEndpointHostname hostname)) (\<lambda>normalizedHostname.
            (case traverse normalizeTrustedPrivateHost trustedPrivateHosts of
               Inl e \<Rightarrow> ret (refused (TrustedHostRejected e) Rejected None)
             | Inr hosts \<Rightarrow>
                 let trusted = normalizedHostname \<in> set hosts in
                 if isLoopbackHostname hostname \<or> isOpenShellManagedHost hostname
                 then ret (refused (PrivateEndpointHost hostname) Rejected None)
                 else bind (on_networks (cli_isPrivateHostname hostname)) (\<lambda>private.
                   if private \<and> \<not> trusted then ret (refused (PrivateEndpointHost hostname) Rejected None)
                   else if isIP normalizedHostname \<noteq> 0
                   then preflight_literal trusted hostname normalizedHostname
                   else preflight_name lookup trusted hostname normalizedHostname))))"

text \<open>The inference routes keep their local exceptions in front of it.\<close>

definition inference_assertEndpointResolvesPublic ::
  "url_parser \<Rightarrow> dns_resolver \<Rightarrow> string \<Rightarrow> string list \<Rightarrow> preflight_result trust" where
  "inference_assertEndpointResolvesPublic parse lookup endpointUrl trustedPrivateHosts =
     (case parse endpointUrl of
        Some u \<Rightarrow>
          if isLoopbackHostname (url_hostname u) \<or> isOpenShellManagedHost (url_hostname u)
          then ret (admitted [] None)
          else assertEndpointResolvesPublic parse lookup endpointUrl trustedPrivateHosts
      | None \<Rightarrow> assertEndpointResolvesPublic parse lookup endpointUrl trustedPrivateHosts)"

section \<open>Pinning a connection\<close>

definition encoded_address :: "string \<Rightarrow> string" where
  "encoded_address a = (if free_of CHR '':'' a then a else ''['' @ a @ '']'')"

definition buildResolvePinArgs :: "url_parser \<Rightarrow> string \<Rightarrow> string list option \<Rightarrow> string list" where
  "buildResolvePinArgs parse targetUrl pinned =
     (case pinned of
        None \<Rightarrow> []
      | Some pinnedAddresses \<Rightarrow>
          if pinnedAddresses = [] then []
          else case parse targetUrl of
            None \<Rightarrow> []
          | Some u \<Rightarrow>
              let host = strip_brackets (url_hostname u);
                  port = (if url_port u \<noteq> [] then url_port u
                          else if url_protocol u = ''https:'' then ''443'' else ''80'');
                  addresses = uniq (filter (\<lambda>a. a \<noteq> []) pinnedAddresses)
              in if host = [] \<or> addresses = [] then []
                 else [''--resolve'',
                       host @ '':'' @ port @ '':'' @ join_with CHR '','' (map encoded_address addresses)])"

section \<open>Hosts of MCP servers (mcp-url-target.ts)\<close>

definition MCP_SERVER_URL_MAX_LENGTH :: nat where
  "MCP_SERVER_URL_MAX_LENGTH = 2048"

definition OPENSHELL_HOST_ALIASES :: "string list" where
  "OPENSHELL_HOST_ALIASES = [''host.openshell.internal'', ''host.docker.internal'', ''host.containers.internal'']"

definition RESERVED_HOST_NAMES :: "string list" where
  "RESERVED_HOST_NAMES = [''localhost'', ''local'', ''internal'', ''metadata'']"

definition mcp_ipv4_targets :: "(string \<times> nat) list" where
  "mcp_ipv4_targets =
     [(''0.0.0.0'', 8), (''10.0.0.0'', 8), (''100.64.0.0'', 10), (''127.0.0.0'', 8), (''169.254.0.0'', 16),
      (''172.16.0.0'', 12), (''192.0.0.0'', 24), (''192.0.2.0'', 24), (''192.31.196.0'', 24),
      (''192.52.193.0'', 24), (''192.88.99.0'', 24), (''192.168.0.0'', 16), (''192.175.48.0'', 24),
      (''198.18.0.0'', 15), (''198.51.100.0'', 24), (''203.0.113.0'', 24), (''224.0.0.0'', 4), (''240.0.0.0'', 4)]"

definition mcp_ipv6_targets :: "(string \<times> nat) list" where
  "mcp_ipv6_targets =
     [(''::'', 128), (''::1'', 128), (''::'', 96), (''64:ff9b::'', 96), (''64:ff9b:1::'', 48), (''100::'', 64),
      (''100:0:0:1::'', 64), (''2001::'', 23), (''2001:db8::'', 32), (''2002::'', 16),
      (''2620:4f:8000::'', 48), (''3fff::'', 20), (''5f00::'', 16), (''fc00::'', 7), (''fe80::'', 10),
      (''fec0::'', 10), (''ff00::'', 8)]"

definition blockedMcpTargets :: block_list where
  "blockedMcpTargets = subnets (mcp_ipv4_targets @ mcp_ipv6_targets)"

text \<open>\<open>toLowerCase().replace(/^\[|\]$/g, "").replace(/\.$/, "")\<close>\<close>

definition normalizeMcpHostname :: "string \<Rightarrow> string" where
  "normalizeMcpHostname hostname =
     (let lower = toLower hostname;
          opened = (if starts_with ''['' lower then tl lower else lower);
          closed = (if ends_with '']'' opened then butlast opened else opened)
      in if ends_with ''.'' closed then butlast closed else closed)"

definition isOpenShellMcpHostAlias :: "string \<Rightarrow> bool" where
  "isOpenShellMcpHostAlias hostname = (normalizeMcpHostname hostname \<in> set OPENSHELL_HOST_ALIASES)"

definition isReservedMcpName :: "string \<Rightarrow> bool" where
  "isReservedMcpName hostname = reserved_name hostname RESERVED_HOST_NAMES"

definition isBlockedMcpUrlTargetHost :: "string \<Rightarrow> bool" where
  "isBlockedMcpUrlTargetHost hostname =
     (let normalized = normalizeMcpHostname hostname in
      if isOpenShellMcpHostAlias normalized then False
      else if isReservedMcpName normalized then True
      else if starts_with ''::ffff:'' normalized then True
      else isPrivateIpInBlockList normalized blockedMcpTargets)"

end
