(* ===== verification/Registry_Receipts.thy ===== *)
theory Registry_Receipts
  imports Trusted_Endpoint
begin

text \<open>
  The receipts a registry row carries: workload receipts (\<open>state/registry/workload.ts\<close> and
  \<open>onboard/workload/native-artifact.ts\<close>), policy pin receipts
  (\<open>policy/trusted-private-endpoints.ts\<close>) and the MCP bridges (\<open>state/registry-mcp.ts\<close>).

  What these validators call and this development does not model is a field of \<open>registry_env\<close>:
  the hash function, the startup-profile decoder, the YAML check of pinned policy content, URL
  parsing, and the messaging plan parser and compactor; and so is the state of the network guard
  (\<open>privateNetworks\<close>) that the address checks of MCP targets read.
\<close>

section \<open>Functions of other packages\<close>

record startup_profile =
  sp_agent :: string
  sp_bundleSha256 :: "string option"

text \<open>\<open>mu_text\<close> is the printed URL once its fragment is dropped.\<close>

record mcp_url =
  mu_protocol :: string
  mu_hostname :: string
  mu_username :: string
  mu_password :: string
  mu_text :: string

record registry_env =
  sha256Text :: "string \<Rightarrow> string"
  sha256Bytes :: "nat list \<Rightarrow> string"
  decodeManagedStartupProfile :: "string \<Rightarrow> startup_profile option"
  pinnedContentOk :: "string \<Rightarrow> bool"
  parseMcpUrl :: "string \<Rightarrow> mcp_url option"
  privateNetworks :: cli_world
  parseSandboxMessagingPlan :: "js \<Rightarrow> js option"
  compactSandboxMessagingPlan :: "js \<Rightarrow> js"

section \<open>Text patterns\<close>

text \<open>\<open>Buffer.byteLength(s, "utf8")\<close> for code units below 256.\<close>

definition utf8_length :: "string \<Rightarrow> nat" where
  "utf8_length s = sum_list (map (\<lambda>c. if code c < 128 then 1 else 2) s)"

definition has_control_character :: "string \<Rightarrow> bool" where
  "has_control_character s = list_ex (\<lambda>c. code c \<le> 31 \<or> 127 \<le> code c \<and> code c \<le> 159) s"

text \<open>\<open>[-.][0-9A-Za-z][0-9A-Za-z.-]*\<close> or nothing\<close>

definition version_suffix :: "string \<Rightarrow> bool" where
  "version_suffix s =
     (case s of
        [] \<Rightarrow> True
      | [_] \<Rightarrow> False
      | d # c # cs \<Rightarrow> (d = CHR ''-'' \<or> d = CHR ''.'') \<and> is_alnum c
          \<and> list_all (\<lambda>x. is_alnum x \<or> x = CHR ''.'' \<or> x = CHR ''-'') cs)"

text \<open>
  \<open>[0-9]+(?:\.[0-9]+){lo,hi}(?:[-.][0-9A-Za-z][0-9A-Za-z.-]*)?\<close>: every way to stop after a group of
  digits is tried, as the pattern matcher does.
\<close>

fun dotted_version :: "nat \<Rightarrow> nat \<Rightarrow> string \<Rightarrow> bool" where
  "dotted_version hi lo s =
     (let rest = dropWhile is_digit s in
      takeWhile is_digit s \<noteq> []
      \<and> (lo = 0 \<and> version_suffix rest
         \<or> (case hi of
              0 \<Rightarrow> False
            | Suc n \<Rightarrow> rest \<noteq> [] \<and> hd rest = CHR ''.'' \<and> dotted_version n (lo - 1) (tl rest))))"

declare dotted_version.simps [simp del]

definition RELEASE_PATTERN :: "string \<Rightarrow> bool" where
  "RELEASE_PATTERN s = (s \<noteq> [] \<and> hd s = CHR ''v'' \<and> dotted_version 3 1 (tl s))"

definition VERSION_PATTERN :: "string \<Rightarrow> bool" where
  "VERSION_PATTERN s = dotted_version 3 2 s"

definition DIGEST_PATTERN :: "string \<Rightarrow> bool" where
  "DIGEST_PATTERN s = is_sha256_digest s"

text \<open>A decimal without leading zero of at most \<open>n\<close> digits.\<close>

definition positive_decimal :: "nat \<Rightarrow> string \<Rightarrow> bool" where
  "positive_decimal n s = (s \<noteq> [] \<and> length s \<le> n \<and> list_all is_digit s \<and> hd s \<noteq> CHR ''0'')"

definition COHORT_PATTERN :: "string \<Rightarrow> bool" where
  "COHORT_PATTERN s =
     (case split_on (CHR ''-'') s of
        [a, b, c] \<Rightarrow> a = ''ghrun'' \<and> positive_decimal 20 b \<and> positive_decimal 10 c
      | _ \<Rightarrow> False)"

definition MANAGED_IMAGE_REPOSITORIES :: "(string \<times> string) list" where
  "MANAGED_IMAGE_REPOSITORIES =
     [(''openclaw'', ''ghcr.io/nvidia/nemoclaw/openclaw-sandbox''),
      (''hermes'', ''ghcr.io/nvidia/nemoclaw/hermes-sandbox''),
      (''langchain-deepagents-code'', ''ghcr.io/nvidia/nemoclaw/langchain-deepagents-code-sandbox'')]"

definition MANAGED_REFERENCE_PATTERN :: "string \<Rightarrow> bool" where
  "MANAGED_REFERENCE_PATTERN s =
     list_ex (\<lambda>(_, repository).
       starts_with (repository @ ''@sha256:'') s
       \<and> is_hex_string 64 (drop (length repository + 8) s)) MANAGED_IMAGE_REPOSITORIES"

text \<open>The reference of an image of the given agent.\<close>

definition reference_of_agent :: "string \<Rightarrow> string \<Rightarrow> bool" where
  "reference_of_agent agent reference =
     (case map_of MANAGED_IMAGE_REPOSITORIES agent of
        None \<Rightarrow> False
      | Some repository \<Rightarrow> starts_with (repository @ ''@sha256:'') reference)"

section \<open>Canonical base64\<close>

definition base64_value :: "bool \<Rightarrow> char \<Rightarrow> nat option" where
  "base64_value url c =
     (if is_upper c then Some (code c - 65)
      else if is_lower c then Some (code c - 97 + 26)
      else if is_digit c then Some (code c - 48 + 52)
      else if c = (if url then CHR ''-'' else CHR ''+'') then Some 62
      else if c = (if url then CHR ''_'' else CHR ''/'') then Some 63
      else None)"

text \<open>Unused low bits must be zero, else encoding the bytes again gives another text.\<close>

fun sextets_to_bytes :: "nat list \<Rightarrow> nat list option" where
  "sextets_to_bytes [] = Some []"
| "sextets_to_bytes [a] = None"
| "sextets_to_bytes [a, b] = (if b mod 16 = 0 then Some [a * 4 + b div 16] else None)"
| "sextets_to_bytes [a, b, c] =
     (if c mod 4 = 0 then Some [a * 4 + b div 16, b mod 16 * 16 + c div 4] else None)"
| "sextets_to_bytes (a # b # c # d # rest) =
     map_option (\<lambda>bs. (a * 4 + b div 16) # (b mod 16 * 16 + c div 4) # (c mod 4 * 64 + d) # bs)
       (sextets_to_bytes rest)"

fun sextets :: "bool \<Rightarrow> string \<Rightarrow> nat list option" where
  "sextets url [] = Some []"
| "sextets url (c # s) =
     (case base64_value url c of None \<Rightarrow> None | Some n \<Rightarrow> map_option (Cons n) (sextets url s))"

definition base64_bytes :: "bool \<Rightarrow> string \<Rightarrow> nat list option" where
  "base64_bytes url s = Option.bind (sextets url s) sextets_to_bytes"

definition MANAGED_STARTUP_PROFILE_MAX_BYTES :: nat where
  "MANAGED_STARTUP_PROFILE_MAX_BYTES = 65536"
definition MANAGED_STARTUP_PROFILE_MAX_ENCODED_BYTES :: nat where
  "MANAGED_STARTUP_PROFILE_MAX_ENCODED_BYTES = 87384"
definition MAX_CORPORATE_CA_BYTES :: nat where
  "MAX_CORPORATE_CA_BYTES = 131072"
definition MAX_CORPORATE_CA_ENCODED_BYTES :: nat where
  "MAX_CORPORATE_CA_ENCODED_BYTES = 174764"

definition within :: "nat \<Rightarrow> nat list option \<Rightarrow> nat list option" where
  "within n bytes =
     (case bytes of Some bs \<Rightarrow> if bs \<noteq> [] \<and> length bs \<le> n then Some bs else None | None \<Rightarrow> None)"

definition decodeCanonicalBase64Url :: "js \<Rightarrow> nat list option" where
  "decodeCanonicalBase64Url value =
     (case value of
        JStr s \<Rightarrow>
          if s = [] \<or> MANAGED_STARTUP_PROFILE_MAX_ENCODED_BYTES < length s \<or> length s mod 4 = 1 then None
          else within MANAGED_STARTUP_PROFILE_MAX_BYTES (base64_bytes True s)
      | _ \<Rightarrow> None)"

text \<open>Groups of four, the last one padded with one or two \<open>=\<close>.\<close>

definition unpadded :: "string \<Rightarrow> string" where
  "unpadded s =
     (if ends_with ''=='' s then take (length s - 2) s
      else if ends_with ''='' s then take (length s - 1) s else s)"

definition decodeCanonicalStandardBase64 :: "js \<Rightarrow> nat list option" where
  "decodeCanonicalStandardBase64 value =
     (case value of
        JStr s \<Rightarrow>
          if s = [] \<or> MAX_CORPORATE_CA_ENCODED_BYTES < length s \<or> length s mod 4 \<noteq> 0 then None
          else within MAX_CORPORATE_CA_BYTES (base64_bytes False (unpadded s))
      | _ \<Rightarrow> None)"

section \<open>Native artifacts (native-artifact.ts)\<close>

definition requirePattern :: "(string \<Rightarrow> bool) \<Rightarrow> js \<Rightarrow> bool" where
  "requirePattern pattern value =
     (case value of JStr s \<Rightarrow> utf8_length s \<le> 256 \<and> pattern s | _ \<Rightarrow> False)"

definition WINDOWS_RESERVED_NAMES :: "string list" where
  "WINDOWS_RESERVED_NAMES =
     [''con'', ''prn'', ''aux'', ''nul''] @ concat (map (\<lambda>d. [''com'' @ [d], ''lpt'' @ [d]]) ''123456789'')"

text \<open>
  \<open>/^(?:con|prn|aux|nul|com[1-9]|lpt[1-9])(?:\..*)?$/iu\<close> on one segment, which holds no line break as
  control characters were refused before.
\<close>

definition reserved_segment :: "string \<Rightarrow> bool" where
  "reserved_segment s = (toLower (takeWhile (\<lambda>c. c \<noteq> CHR ''.'') s) \<in> set WINDOWS_RESERVED_NAMES)"

definition canonical_segment :: "string \<Rightarrow> bool" where
  "canonical_segment s =
     (s \<noteq> [] \<and> s \<noteq> ''.'' \<and> s \<noteq> ''..'' \<and> last s \<noteq> CHR ''.'' \<and> last s \<noteq> CHR '' ''
      \<and> \<not> reserved_segment s)"

definition requireRelativePath :: "bool \<Rightarrow> js \<Rightarrow> bool" where
  "requireRelativePath allowDot value =
     (case value of
        JStr s \<Rightarrow>
          utf8_length s \<le> 4096 \<and> \<not> has_control_character s
          \<and> CHR 0x5C \<notin> set s \<and> CHR '':'' \<notin> set s \<and> \<not> starts_with ''/'' s
          \<and> (allowDot \<and> s = ''.'' \<or> list_all canonical_segment (split_on (CHR ''/'') s))
      | _ \<Rightarrow> False)"

definition requireArguments :: "js \<Rightarrow> bool" where
  "requireArguments value =
     (case value of
        JArr xs \<Rightarrow> length xs \<le> 128
          \<and> list_all (\<lambda>x. case x of JStr s \<Rightarrow> utf8_length s \<le> 4096 \<and> \<not> has_control_character s
                                 | _ \<Rightarrow> False) xs
      | _ \<Rightarrow> False)"

definition ENVIRONMENT_NAME_PATTERN :: "string \<Rightarrow> bool" where
  "ENVIRONMENT_NAME_PATTERN s =
     (s \<noteq> [] \<and> (is_upper (hd s) \<or> hd s = CHR ''_'')
      \<and> list_all (\<lambda>c. is_upper c \<or> is_digit c \<or> c = CHR ''_'') (tl s))"

definition requireEnvironmentNames :: "js \<Rightarrow> bool" where
  "requireEnvironmentNames value =
     (case value of
        JArr xs \<Rightarrow> length xs \<le> 128 \<and> list_all (requirePattern ENVIRONMENT_NAME_PATTERN) xs \<and> distinct xs
      | _ \<Rightarrow> False)"

definition NATIVE_KEYS :: "string list" where
  "NATIVE_KEYS =
     [''agent'', ''artifact'', ''contractVersion'', ''credentialProxyReplayRequired'', ''encodedProfile'',
      ''kind'', ''launch'', ''platform'', ''schemaVersion'', ''shared'', ''startupProfileContractVersion'',
      ''startupProfileSha256'']"

definition native_profile_ok :: "registry_env \<Rightarrow> js \<Rightarrow> js \<Rightarrow> bool" where
  "native_profile_ok env encodedProfile digest =
     (case encodedProfile of
        JStr p \<Rightarrow> (case decodeManagedStartupProfile env p of
                     Some profile \<Rightarrow> JStr (sha256Text env p) = digest \<and> sp_agent profile = ''openclaw''
                   | None \<Rightarrow> False)
      | _ \<Rightarrow> False)"

definition native_contract_ok :: "registry_env \<Rightarrow> js \<Rightarrow> bool" where
  "native_contract_ok env contract =
     (let artifact = js_get contract ''artifact''; source = js_get artifact ''source'';
          launch = js_get contract ''launch''; executable = js_get launch ''executable'' in
      isObjectRecord contract \<and> exactKeys contract NATIVE_KEYS
      \<and> js_get contract ''schemaVersion'' = JNum (NInt 1)
      \<and> js_get contract ''kind'' = JStr ''native-artifact''
      \<and> js_get contract ''contractVersion'' = JNum (NInt 1)
      \<and> js_get contract ''agent'' = JStr ''openclaw''
      \<and> js_get contract ''platform'' = JStr ''windows/x64''
      \<and> isObjectRecord artifact \<and> exactKeys artifact [''digest'', ''source'', ''version'']
      \<and> requirePattern DIGEST_PATTERN (js_get artifact ''digest'')
      \<and> requirePattern VERSION_PATTERN (js_get artifact ''version'')
      \<and> isObjectRecord source \<and> exactKeys source [''repository'', ''revision'']
      \<and> js_get source ''repository'' = JStr ''NVIDIA/NemoClaw''
      \<and> requirePattern (is_hex_string 40) (js_get source ''revision'')
      \<and> isObjectRecord launch
      \<and> exactKeys launch [''arguments'', ''environmentNames'', ''executable'', ''workingDirectory'']
      \<and> isObjectRecord executable \<and> exactKeys executable [''digest'', ''relativePath'']
      \<and> requireRelativePath False (js_get executable ''relativePath'')
      \<and> requirePattern DIGEST_PATTERN (js_get executable ''digest'')
      \<and> requireArguments (js_get launch ''arguments'')
      \<and> requireRelativePath True (js_get launch ''workingDirectory'')
      \<and> requireEnvironmentNames (js_get launch ''environmentNames'')
      \<and> js_get contract ''startupProfileContractVersion'' = JNum (NInt 1)
      \<and> requirePattern (is_hex_string 64) (js_get contract ''startupProfileSha256'')
      \<and> native_profile_ok env (js_get contract ''encodedProfile'') (js_get contract ''startupProfileSha256'')
      \<and> js_get contract ''credentialProxyReplayRequired'' = JBool True
      \<and> js_get contract ''shared'' = JBool True)"

definition native_receipt :: "js \<Rightarrow> js" where
  "native_receipt contract =
     (let artifact = js_get contract ''artifact''; source = js_get artifact ''source'';
          launch = js_get contract ''launch''; executable = js_get launch ''executable'' in
      JObj
        [(''schemaVersion'', JNum (NInt 1)), (''kind'', JStr ''native-artifact''),
         (''contractVersion'', JNum (NInt 1)), (''agent'', JStr ''openclaw''),
         (''platform'', JStr ''windows/x64''),
         (''artifact'', JObj
           [(''digest'', js_get artifact ''digest''), (''version'', js_get artifact ''version''),
            (''source'', JObj [(''repository'', js_get source ''repository''),
                               (''revision'', js_get source ''revision'')])]),
         (''launch'', JObj
           [(''executable'', JObj [(''relativePath'', js_get executable ''relativePath''),
                                   (''digest'', js_get executable ''digest'')]),
            (''arguments'', js_get launch ''arguments''),
            (''workingDirectory'', js_get launch ''workingDirectory''),
            (''environmentNames'', js_get launch ''environmentNames'')]),
         (''startupProfileContractVersion'', JNum (NInt 1)),
         (''encodedProfile'', js_get contract ''encodedProfile''),
         (''startupProfileSha256'', js_get contract ''startupProfileSha256''),
         (''credentialProxyReplayRequired'', JBool True), (''shared'', JBool True)])"

definition parseNativeArtifactWorkloadReceiptV1 :: "registry_env \<Rightarrow> js \<Rightarrow> js option" where
  "parseNativeArtifactWorkloadReceiptV1 env contract =
     (if native_contract_ok env contract then Some (native_receipt contract) else None)"

section \<open>Workload receipts (registry/workload.ts)\<close>

text \<open>
  The text a pattern sees when it is tested against a value that need not be a string: an array of
  one element prints as that element. The other values never match the patterns below. A reference
  that is such an array makes the code throw a \<open>TypeError\<close>; here it is refused like any other
  invalid reference.
\<close>

fun pattern_text :: "js \<Rightarrow> string option" where
  "pattern_text (JStr s) = Some s"
| "pattern_text (JArr [x]) = pattern_text x"
| "pattern_text _ = None"

definition pattern_test :: "(string \<Rightarrow> bool) \<Rightarrow> js \<Rightarrow> bool" where
  "pattern_test p v = (case pattern_text v of Some s \<Rightarrow> p s | None \<Rightarrow> False)"

definition nonEmptyString :: "js \<Rightarrow> bool" where
  "nonEmptyString value = (case value of JStr s \<Rightarrow> trim s \<noteq> [] | _ \<Rightarrow> False)"

definition managed_fields_ok :: "registry_env \<Rightarrow> js \<Rightarrow> bool" where
  "managed_fields_ok env value =
     (js_get value ''kind'' = JStr ''managed-image''
      \<and> js_get value ''shared'' = JBool True
      \<and> (case js_get value ''reference'' of JStr s \<Rightarrow> MANAGED_REFERENCE_PATTERN s | _ \<Rightarrow> False)
      \<and> js_get value ''platform'' \<in> {JUndef, JStr ''linux/amd64'', JStr ''linux/arm64''}
      \<and> pattern_test RELEASE_PATTERN (js_get value ''release'')
      \<and> pattern_test (is_hex_string 40) (js_get value ''sourceRevision'')
      \<and> (case js_get value ''sourceCohort'' of
           JStr s \<Rightarrow> utf8_length s \<le> 128 \<and> COHORT_PATTERN s | _ \<Rightarrow> False)
      \<and> js_get value ''capabilityContractVersion'' = JNum (NInt 1)
      \<and> js_get value ''startupProfileContractVersion'' = JNum (NInt 1)
      \<and> is_string (js_get value ''startupProfileSha256'')
      \<and> pattern_test (is_hex_string 64) (js_get value ''startupProfileSha256'')
      \<and> js_bool (js_get value ''credentialProxyReplayRequired'') \<noteq> None
      \<and> decodeCanonicalBase64Url (js_get value ''encodedProfile'') \<noteq> None
      \<and> (case js_get value ''encodedProfile'' of
           JStr p \<Rightarrow> js_get value ''startupProfileSha256'' = JStr (sha256Text env p) | _ \<Rightarrow> False))"

text \<open>The image belongs to the agent of its profile, and the CA bundle is the one the profile names.\<close>

definition managed_profile_ok :: "registry_env \<Rightarrow> js \<Rightarrow> bool" where
  "managed_profile_ok env value =
     (case (js_get value ''encodedProfile'', js_get value ''reference'') of
        (JStr p, JStr reference) \<Rightarrow>
          (case decodeManagedStartupProfile env p of
             None \<Rightarrow> False
           | Some profile \<Rightarrow>
               (let ca = js_get value ''corporateCaB64'';
                    bytes = (if ca = JUndef then None else decodeCanonicalStandardBase64 ca)
                in reference_of_agent (sp_agent profile) reference
                   \<and> (ca \<noteq> JUndef \<longrightarrow> bytes \<noteq> None)
                   \<and> (sp_bundleSha256 profile = None) = (bytes = None)
                   \<and> (case bytes of
                        None \<Rightarrow> True
                      | Some bs \<Rightarrow> sp_bundleSha256 profile = Some (sha256Bytes env bs))))
      | _ \<Rightarrow> False)"

definition optional_member :: "js \<Rightarrow> string \<Rightarrow> (string \<times> js) list" where
  "optional_member value k = (if js_get value k = JUndef then [] else [(k, js_get value k)])"

definition managed_receipt :: "js \<Rightarrow> js" where
  "managed_receipt value = JObj
     ([(''schemaVersion'', JNum (NInt 1)), (''kind'', JStr ''managed-image''),
       (''reference'', js_get value ''reference'')]
      @ optional_member value ''platform''
      @ map (\<lambda>k. (k, js_get value k))
          [''release'', ''sourceRevision'', ''sourceCohort'', ''capabilityContractVersion'',
           ''startupProfileContractVersion'', ''encodedProfile'', ''startupProfileSha256'',
           ''credentialProxyReplayRequired'']
      @ optional_member value ''corporateCaB64''
      @ [(''shared'', JBool True)])"

definition cloneSandboxWorkloadReceipt :: "registry_env \<Rightarrow> js \<Rightarrow> js option" where
  "cloneSandboxWorkloadReceipt env value =
     (let kind = js_get value ''kind''; reference = js_get value ''reference'' in
      if \<not> js_truthy value \<or> js_get value ''schemaVersion'' \<noteq> JNum (NInt 1) then None
      else if kind = JStr ''native-artifact'' then parseNativeArtifactWorkloadReceiptV1 env value
      else if kind = JStr ''legacy-dockerfile'' then
        (if js_get value ''shared'' \<noteq> JBool False \<or> reference \<noteq> JNull \<and> \<not> nonEmptyString reference
         then None
         else Some (JObj [(''schemaVersion'', JNum (NInt 1)), (''kind'', JStr ''legacy-dockerfile''),
                          (''reference'', reference), (''shared'', JBool False)]))
      else if \<not> managed_fields_ok env value \<or> \<not> managed_profile_ok env value then None
      else Some (managed_receipt value))"

section \<open>Policy pin receipts (policy/trusted-private-endpoints.ts)\<close>

text \<open>No result when the code throws, otherwise the receipt or its absence.\<close>

definition normalizeTrustedPrivatePolicyPinReceipt ::
  "registry_env \<Rightarrow> string \<Rightarrow> js \<Rightarrow> js option option" where
  "normalizeTrustedPrivatePolicyPinReceipt env content value =
     (if value = JUndef then Some None
      else if isObjectRecord value
           \<and> js_get value ''version'' = JNum (NInt 1)
           \<and> js_get value ''contentDigest'' = JStr (sha256Text env content)
           \<and> is_hex_string 64 (sha256Text env content)
           \<and> list_all (\<lambda>k. k = ''version'' \<or> k = ''contentDigest'') (js_keys value)
           \<and> pinnedContentOk env content
      then Some (Some (JObj [(''version'', JNum (NInt 1)), (''contentDigest'', js_get value ''contentDigest'')]))
      else None)"

section \<open>MCP bridges (registry-mcp.ts)\<close>

definition name_like :: "(char \<Rightarrow> bool) \<Rightarrow> (char \<Rightarrow> bool) \<Rightarrow> nat \<Rightarrow> string \<Rightarrow> bool" where
  "name_like first rest n s =
     (case s of [] \<Rightarrow> False | c # cs \<Rightarrow> first c \<and> length cs \<le> n \<and> list_all rest cs)"

definition is_letter :: "char \<Rightarrow> bool" where
  "is_letter c = (is_lower c \<or> is_upper c)"

definition MCP_SERVER_RE :: "string \<Rightarrow> bool" where
  "MCP_SERVER_RE = name_like is_letter (\<lambda>c. is_alnum c \<or> c = CHR ''_'' \<or> c = CHR ''-'') 63"
definition MCP_ENV_RE :: "string \<Rightarrow> bool" where
  "MCP_ENV_RE = name_like (\<lambda>c. is_letter c \<or> c = CHR ''_'') (\<lambda>c. is_alnum c \<or> c = CHR ''_'') 127"
definition MCP_SAFE_NAME_RE :: "string \<Rightarrow> bool" where
  "MCP_SAFE_NAME_RE = name_like is_alnum is_key_char 127"
definition MCP_PROVIDER_ID_RE :: "string \<Rightarrow> bool" where
  "MCP_PROVIDER_ID_RE = name_like is_alnum (\<lambda>c. is_key_char c \<or> c = CHR '':'') 127"
definition MCP_ADAPTERS :: "string list" where
  "MCP_ADAPTERS = [''mcporter'', ''hermes-config'', ''deepagents-config'']"

definition normalizeMcpUrl :: "registry_env \<Rightarrow> string \<Rightarrow> string option \<Rightarrow> string option" where
  "normalizeMcpUrl env value trustedPrivateHost =
     (if MCP_SERVER_URL_MAX_LENGTH < length value then None
      else case parseMcpUrl env value of
        None \<Rightarrow> None
      | Some u \<Rightarrow>
          if mu_protocol u \<noteq> ''http:'' \<and> mu_protocol u \<noteq> ''https:'' then None
          else if mu_hostname u = [] \<or> mu_username u \<noteq> [] \<or> mu_password u \<noteq> [] then None
          else if isBlockedMcpUrlTargetHost (mu_hostname u)
                  \<and> Some (toLower (mu_hostname u)) \<noteq> trustedPrivateHost then None
          else if length (mu_text u) \<le> MCP_SERVER_URL_MAX_LENGTH then Some (mu_text u) else None)"

text \<open>A member that is a non-empty string.\<close>

definition text_member :: "js \<Rightarrow> string \<Rightarrow> string option" where
  "text_member value k = (case js_get value k of JStr s \<Rightarrow> if s \<noteq> [] then Some s else None | _ \<Rightarrow> None)"

text \<open>The trusted host and its pins: refused, absent, or both present and canonical.\<close>

definition trusted_host :: "registry_env \<Rightarrow> js \<Rightarrow> string option option" where
  "trusted_host env value =
     (case js_get value ''trustedPrivateHost'' of
        JUndef \<Rightarrow> Some None
      | JStr h \<Rightarrow> if normalizeTrustedPrivateHost h = Inr h then Some (Some h) else None
      | _ \<Rightarrow> None)"

definition canonicalizePins :: "registry_env \<Rightarrow> string \<Rightarrow> js list \<Rightarrow> string list option" where
  "canonicalizePins env host addresses =
     (case fst (canonicalizeTrustedPrivateEndpointPins host addresses True
                  \<lparr>tw_networks = privateNetworks env, tw_issued = [], tw_nextRef = 0\<rparr>) of
        Inr pins \<Rightarrow> Some (ep_addresses pins)
      | Inl _ \<Rightarrow> None)"

definition pinned_addresses :: "registry_env \<Rightarrow> string option \<Rightarrow> js \<Rightarrow> js list option option" where
  "pinned_addresses env host raw =
     (if truthy host then
        (case raw of
           JArr xs \<Rightarrow> (case canonicalizePins env (nullish [] host) xs of
                         Some pins \<Rightarrow> if map JStr pins = xs then Some (Some xs) else None
                       | None \<Rightarrow> None)
         | _ \<Rightarrow> None)
      else if raw \<noteq> JUndef then None else Some None)"

definition mcp_environment :: "js \<Rightarrow> string list option" where
  "mcp_environment raw =
     (case raw of
        JArr xs \<Rightarrow>
          if list_all (\<lambda>x. case x of JStr s \<Rightarrow> MCP_ENV_RE s | _ \<Rightarrow> False) xs
          then Some (uniq (List.map_filter js_string xs)) else None
      | _ \<Rightarrow> None)"

definition bridge_add_state :: "js \<Rightarrow> string option" where
  "bridge_add_state raw =
     (case raw of
        JUndef \<Rightarrow> None
      | _ \<Rightarrow> if raw = JStr ''prepared'' then Some ''prepared'' else Some ''preflighted'')"

text \<open>The host check on the normalised URL parses it again.\<close>

definition host_matches :: "registry_env \<Rightarrow> string option \<Rightarrow> string \<Rightarrow> bool" where
  "host_matches env host url =
     (\<not> truthy host
      \<or> (case parseMcpUrl env url of Some u \<Rightarrow> Some (toLower (mu_hostname u)) = host | None \<Rightarrow> False))"

definition provider_ok :: "js \<Rightarrow> bool" where
  "provider_ok value =
     (pred_option MCP_SAFE_NAME_RE (text_member value ''providerName'')
      \<and> (js_get value ''providerId'' \<noteq> JUndef \<longrightarrow>
           (case text_member value ''providerId'' of Some i \<Rightarrow> MCP_PROVIDER_ID_RE i | None \<Rightarrow> False))
      \<and> (text_member value ''providerId'' \<noteq> None \<longrightarrow> text_member value ''providerName'' \<noteq> None))"

definition normalizeMcpBridgeEntry :: "registry_env \<Rightarrow> string \<Rightarrow> js \<Rightarrow> (string \<times> js) option" where
  "normalizeMcpBridgeEntry env server value =
     (let serverName = nullish server (text_member value ''server'');
          policyName = nullish [] (js_string (js_get value ''policyName''));
          adapter = text_member value ''adapter''
      in if \<not> isObjectRecord value \<or> \<not> MCP_SERVER_RE serverName then None
         else case trusted_host env value of
           None \<Rightarrow> None
         | Some host \<Rightarrow>
           (case Option.bind (js_string (js_get value ''url'')) (\<lambda>u. normalizeMcpUrl env u host) of
              None \<Rightarrow> None
            | Some url \<Rightarrow>
              if url = [] \<or> \<not> MCP_SAFE_NAME_RE policyName \<or> \<not> host_matches env host url then None
              else case pinned_addresses env host (js_get value ''allowedIps'') of
                None \<Rightarrow> None
              | Some pins \<Rightarrow>
                (case mcp_environment (js_get value ''env'') of
                   None \<Rightarrow> None
                 | Some names \<Rightarrow>
                   if \<not> pred_option (\<lambda>a. a \<in> set MCP_ADAPTERS) adapter \<or> \<not> provider_ok value then None
                   else Some (serverName, JObj
                     ([(''server'', JStr serverName),
                       (''agent'', JStr (nullish ''openclaw'' (text_member value ''agent'')))]
                      @ opt_entry ''adapter'' (map_option JStr adapter)
                      @ [(''url'', JStr url), (''env'', JArr (map JStr names))]
                      @ (if truthy host
                         then [(''trustedPrivateHost'', js_opt JStr host), (''allowedIps'', JArr (nullish [] pins))]
                         else [])
                      @ opt_entry ''providerName'' (map_option JStr (text_member value ''providerName''))
                      @ opt_entry ''providerId'' (map_option JStr (text_member value ''providerId''))
                      @ [(''policyName'', JStr policyName),
                         (''addedAt'', JStr (nullish ''1970-01-01T00:00:00.000Z'' (text_member value ''addedAt'')))]
                      @ (if is_string (js_get value ''updatedAt'')
                         then [(''updatedAt'', js_get value ''updatedAt'')] else [])
                      @ opt_entry ''addState''
                          (map_option JStr (bridge_add_state (js_get value ''addState''))))))))"

definition normalizeSandboxMcpState :: "registry_env \<Rightarrow> js \<Rightarrow> js option" where
  "normalizeSandboxMcpState env value =
     (let bridgesValue = js_get value ''bridges'';
          bridges = fold (\<lambda>(k, v). assign_own k v)
            (List.map_filter (\<lambda>(name, raw). normalizeMcpBridgeEntry env name raw) (js_entries bridgesValue)) [];
          persisted = filter MCP_SERVER_RE
            (List.map_filter js_string (nullish [] (js_array (js_get value ''managedServerNames''))));
          committed = map fst (filter (\<lambda>(_, b). \<not> js_truthy (js_get b ''addState'')) bridges);
          managed = sort (uniq (persisted @ committed));
          prepared = text_member value ''destroyPreparedAt'';
          pending = text_member value ''destroyPendingAt''
      in if \<not> isObjectRecord value \<or> \<not> isObjectRecord bridgesValue then None
         else if bridges = [] \<and> managed = [] \<and> prepared = None \<and> pending = None then None
         else Some (JObj
           ([(''bridges'', JObj bridges)]
            @ (if managed \<noteq> [] then [(''managedServerNames'', JArr (map JStr managed))] else [])
            @ opt_entry ''destroyPreparedAt'' (map_option JStr prepared)
            @ opt_entry ''destroyPendingAt'' (map_option JStr pending))))"

definition serializeSandboxMcpStateForDisk :: "registry_env \<Rightarrow> js \<Rightarrow> js option" where
  "serializeSandboxMcpStateForDisk env value = normalizeSandboxMcpState env value"

end
