(* ===== verification/Registry_Model.thy ===== *)
theory Registry_Model
  imports Registry_Receipts
begin

text \<open>
  The registry of sandboxes in memory and on disk: the pure operations on its default pointer
  (\<open>state/registry-reversible-removal.ts\<close>, \<open>retainedDefaultSandbox\<close> of \<open>registry-normalization.ts\<close>),
  what a load makes of the parsed file and what a save writes (\<open>state/registry/persistence.ts\<close>).

  Messaging plans are parsed and compacted by a package that is a field of \<open>registry_env\<close>.
\<close>

section \<open>Messaging state (registry-messaging.ts)\<close>

definition messaging_state :: "js \<Rightarrow> js" where
  "messaging_state plan = JObj [(''schemaVersion'', JNum (NInt 1)), (''plan'', plan)]"

definition getMessagingPlanFromEntry :: "registry_env \<Rightarrow> js \<Rightarrow> js option" where
  "getMessagingPlanFromEntry env entry =
     (let messaging = js_get entry ''messaging'' in
      if js_get messaging ''schemaVersion'' \<noteq> JNum (NInt 1) then None
      else parseSandboxMessagingPlan env (js_get messaging ''plan''))"

definition cloneSandboxMessagingState :: "registry_env \<Rightarrow> js \<Rightarrow> js option" where
  "cloneSandboxMessagingState env messaging =
     (if \<not> js_truthy messaging \<or> js_get messaging ''schemaVersion'' \<noteq> JNum (NInt 1) then None
      else map_option messaging_state (parseSandboxMessagingPlan env (js_get messaging ''plan'')))"

definition serializeSandboxMessagingStateForDisk :: "registry_env \<Rightarrow> js \<Rightarrow> js option" where
  "serializeSandboxMessagingStateForDisk env messaging =
     map_option (\<lambda>state. messaging_state (compactSandboxMessagingPlan env (js_get state ''plan'')))
       (cloneSandboxMessagingState env messaging)"

definition cloneSandboxWorkloadReceiptOrThrow ::
  "registry_env \<Rightarrow> js \<Rightarrow> string \<Rightarrow> registry_error + js option" where
  "cloneSandboxWorkloadReceiptOrThrow env value operation =
     (let workload = cloneSandboxWorkloadReceipt env value in
      if value \<noteq> JUndef \<and> workload = None then Inl (InvalidWorkload operation) else Inr workload)"

definition cloneServingProfileProvenanceOrThrow :: "js \<Rightarrow> string \<Rightarrow> registry_error + js option" where
  "cloneServingProfileProvenanceOrThrow value operation =
     (let provenance = parseServingProfileProvenance value in
      if value \<noteq> JUndef \<and> provenance = None then Inl (InvalidProvenance operation)
      else Inr provenance)"

section \<open>Rows\<close>

definition is_reservation :: "js \<Rightarrow> bool" where
  "is_reservation entry = (js_get entry ''pendingRouteReservation'' = JBool True)"

definition isRouteOnlySandboxReservation :: "js \<Rightarrow> bool" where
  "isRouteOnlySandboxReservation entry =
     (is_reservation entry \<and> js_get entry ''createdAt'' = JUndef)"

text \<open>The entry is the row or \<open>null\<close>, the session id a string, null or undefined.\<close>

definition isPendingReservationForSession :: "js option \<Rightarrow> string option \<Rightarrow> bool" where
  "isPendingReservationForSession entry sessionId =
     (case entry of
        None \<Rightarrow> False
      | Some e \<Rightarrow> is_reservation e \<and> truthy sessionId
                  \<and> js_get e ''reservationSessionId'' = js_opt JStr sessionId)"

definition isSandboxEntryLike :: "string \<Rightarrow> js \<Rightarrow> bool" where
  "isSandboxEntryLike name entry =
     (isObjectRecord entry \<and> js_get entry ''name'' = JStr name \<and> trim name \<noteq> [])"

definition parseSandboxRegistryEntries :: "js \<Rightarrow> (string \<times> js) list" where
  "parseSandboxRegistryEntries value =
     filter (\<lambda>(name, entry). isSandboxEntryLike name entry)
       (if isObjectRecord value then js_entries value else [])"

definition NORMALIZED_MEMBERS :: "string list" where
  "NORMALIZED_MEMBERS =
     [''messaging'', ''workload'', ''servingProfileProvenance'', ''mcp'', ''baselineExclusions'',
      ''baselineExclusionTransition'', ''customPolicies'']"

definition TRANSIENT_MEMBERS :: "string list" where
  "TRANSIENT_MEMBERS = [''recoveredFromGateway'', ''livePhase'', ''providerCredentialHashes'']"

text \<open>The members both directions validate, in the order they are put back.\<close>

definition normalized_members ::
  "js option \<Rightarrow> js option \<Rightarrow> js option \<Rightarrow> js option \<Rightarrow> baseline_exclusion list option \<Rightarrow>
   baseline_transition option \<Rightarrow> custom_policy list option \<Rightarrow> (string \<times> js) list" where
  "normalized_members workload provenance messaging mcp exclusions transition policies =
     opt_entry ''workload'' workload
     @ opt_entry ''servingProfileProvenance'' provenance
     @ opt_entry ''messaging'' messaging
     @ opt_entry ''mcp'' mcp
     @ opt_entry ''baselineExclusions'' (map_option exclusions_to_js exclusions)
     @ opt_entry ''baselineExclusionTransition'' (map_option transition_to_js transition)
     @ opt_entry ''customPolicies'' (map_option custom_policies_to_js policies)"

definition normalizeSandboxEntryForRuntime :: "registry_env \<Rightarrow> js \<Rightarrow> registry_error + js" where
  "normalizeSandboxEntryForRuntime env entry =
     (let messaging = cloneSandboxMessagingState env (js_get entry ''messaging'');
          mcp = normalizeSandboxMcpState env (js_get entry ''mcp'')
      in andThen (cloneSandboxWorkloadReceiptOrThrow env (js_get entry ''workload'') ''load'') (\<lambda>workload.
         andThen (cloneServingProfileProvenanceOrThrow (js_get entry ''servingProfileProvenance'') ''load'')
           (\<lambda>provenance.
         andThen (normalizeBaselineExclusions (js_get entry ''baselineExclusions'')) (\<lambda>exclusions.
         andThen (normalizeBaselineExclusionTransition (js_get entry ''baselineExclusionTransition''))
           (\<lambda>transition.
         andThen (normalizeCustomPolicyEntries (normalizeTrustedPrivatePolicyPinReceipt env) (js_get entry ''customPolicies''))
           (\<lambda>policies.
         Inr (JObj (js_without NORMALIZED_MEMBERS entry
               @ normalized_members workload provenance messaging mcp exclusions transition policies))))))))"

text \<open>\<open>dashboardPort: 0\<close> stands for no dashboard and is stored as null.\<close>

definition canonical_dashboard_port :: "(string \<times> js) list \<Rightarrow> (string \<times> js) list" where
  "canonical_dashboard_port rest =
     (if js_get (JObj rest) ''dashboardPort'' = JNum (NInt 0)
      then alist_set ''dashboardPort'' JNull rest else rest)"

definition serializeSandboxEntryForDisk :: "registry_env \<Rightarrow> js \<Rightarrow> registry_error + js" where
  "serializeSandboxEntryForDisk env entry =
     (let messaging = serializeSandboxMessagingStateForDisk env (js_get entry ''messaging'');
          mcp = serializeSandboxMcpStateForDisk env (js_get entry ''mcp'')
      in andThen (cloneSandboxWorkloadReceiptOrThrow env (js_get entry ''workload'') ''save'') (\<lambda>workload.
         andThen (cloneServingProfileProvenanceOrThrow (js_get entry ''servingProfileProvenance'') ''save'')
           (\<lambda>provenance.
         andThen (normalizeBaselineExclusions (js_get entry ''baselineExclusions'')) (\<lambda>exclusions.
         andThen (normalizeBaselineExclusionTransition (js_get entry ''baselineExclusionTransition''))
           (\<lambda>transition.
         andThen (normalizeCustomPolicyEntries (normalizeTrustedPrivatePolicyPinReceipt env) (js_get entry ''customPolicies''))
           (\<lambda>policies.
         Inr (JObj (canonical_dashboard_port (js_without (TRANSIENT_MEMBERS @ NORMALIZED_MEMBERS) entry)
               @ normalized_members workload provenance messaging mcp exclusions transition policies))))))))"

section \<open>The registry\<close>

record registry =
  r_sandboxes :: "(string \<times> js) list"
  r_defaultSandbox :: "string option"
  r_defaultSelectionRevision :: int
  r_extraProviders :: "string list option"

definition retainedDefaultSandbox :: "string option \<Rightarrow> (string \<times> js) list \<Rightarrow> string option" where
  "retainedDefaultSandbox defaultSandbox sandboxes =
     (case defaultSandbox of
        None \<Rightarrow> None
      | Some d \<Rightarrow> (case map_of sandboxes d of
                     None \<Rightarrow> None
                   | Some entry \<Rightarrow> if is_reservation entry then None else Some d))"

definition normalize_rows ::
  "(js \<Rightarrow> registry_error + js) \<Rightarrow> (string \<times> js) list \<Rightarrow> registry_error + (string \<times> js) list" where
  "normalize_rows f rows =
     andThen (traverse (\<lambda>(name, entry). andThen (f entry) (\<lambda>e. Inr (name, e))) rows)
       (\<lambda>rows'. Inr (fromEntries rows'))"

definition normalizeRegistry :: "registry_env \<Rightarrow> js \<Rightarrow> registry_error + registry" where
  "normalizeRegistry env value =
     (let data = (if isObjectRecord value then value else JObj []);
          extraProviders = normalizeExtraProviders (js_get data ''extraProviders'')
      in andThen (normalize_rows (normalizeSandboxEntryForRuntime env)
                    (parseSandboxRegistryEntries (js_get data ''sandboxes''))) (\<lambda>sandboxes.
         andThen (normalizeDefaultSelectionRevision (js_get data ''defaultSelectionRevision''))
           (\<lambda>revision.
         Inr \<lparr>r_sandboxes = sandboxes,
              r_defaultSandbox = js_string (js_get data ''defaultSandbox''),
              r_defaultSelectionRevision = revision,
              r_extraProviders = extraProviders\<rparr>)))"

definition serializeRegistryForDisk :: "registry_env \<Rightarrow> registry \<Rightarrow> registry_error + registry" where
  "serializeRegistryForDisk env data =
     (let extraProviders =
            normalizeExtraProviders (providers_to_js (r_extraProviders data))
      in andThen (normalize_rows (serializeSandboxEntryForDisk env) (r_sandboxes data)) (\<lambda>sandboxes.
         let defaultSandbox = retainedDefaultSandbox (r_defaultSandbox data) sandboxes in
         andThen (normalizeDefaultSelectionRevision (JNum (NInt (r_defaultSelectionRevision data))))
           (\<lambda>current.
         andThen (if defaultSandbox = r_defaultSandbox data then Inr current
                  else incrementDefaultSelectionRevision current) (\<lambda>revision.
         Inr \<lparr>r_sandboxes = sandboxes, r_defaultSandbox = defaultSandbox,
              r_defaultSelectionRevision = revision, r_extraProviders = extraProviders\<rparr>))))"

definition registry_to_js :: "registry \<Rightarrow> js" where
  "registry_to_js r = JObj
     ([(''defaultSandbox'', js_opt JStr (r_defaultSandbox r)),
       (''defaultSelectionRevision'', JNum (NInt (r_defaultSelectionRevision r))),
       (''sandboxes'', JObj (r_sandboxes r))]
      @ opt_entry ''extraProviders'' (map_option (\<lambda>ps. providers_to_js (Some ps)) (r_extraProviders r)))"

section \<open>The default pointer (registry-reversible-removal.ts)\<close>

text \<open>Advance the revision of a registry that selects a default.\<close>

definition select_default :: "string option \<Rightarrow> registry \<Rightarrow> registry_error + registry" where
  "select_default d r =
     andThen (incrementDefaultSelectionRevision (r_defaultSelectionRevision r))
       (\<lambda>revision. Inr (r\<lparr>r_defaultSandbox := d, r_defaultSelectionRevision := revision\<rparr>))"

definition claimInitialDefaultInRegistry :: "registry \<Rightarrow> string \<Rightarrow> registry_error + registry" where
  "claimInitialDefaultInRegistry r name =
     (if truthy (r_defaultSandbox r) then Inr r else select_default (Some name) r)"

definition setDefaultInRegistry :: "registry \<Rightarrow> string \<Rightarrow> registry_error + registry option" where
  "setDefaultInRegistry r name =
     (if row_at (r_sandboxes r) name = NoRow then Inr None
      else andThen (select_default (Some name) r) (\<lambda>r'. Inr (Some r')))"

definition clearRegistry :: "registry \<Rightarrow> registry_error + registry" where
  "clearRegistry r =
     andThen (if r_defaultSandbox r = None
              then normalizeDefaultSelectionRevision (JNum (NInt (r_defaultSelectionRevision r)))
              else incrementDefaultSelectionRevision (r_defaultSelectionRevision r))
       (\<lambda>revision. Inr \<lparr>r_sandboxes = [], r_defaultSandbox = None,
                        r_defaultSelectionRevision = revision, r_extraProviders = None\<rparr>)"

record default_transition =
  dt_from :: "string option"
  dt_to :: string
  dt_expectedRevision :: int

definition entry_name :: "js \<Rightarrow> string" where
  "entry_name entry = nullish [] (js_string (js_get entry ''name''))"

definition restoreSandboxEntryInRegistry ::
  "registry \<Rightarrow> js \<Rightarrow> default_transition option \<Rightarrow> registry_error + registry" where
  "restoreSandboxEntryInRegistry r entry transition =
     (let sandboxes = own_put (entry_name entry) entry (r_sandboxes r);
          r' = r\<lparr>r_sandboxes := sandboxes\<rparr>
      in case transition of
           None \<Rightarrow> Inr r'
         | Some t \<Rightarrow>
             if r_defaultSandbox r \<noteq> dt_from t then Inr r'
             else andThen (normalizeDefaultSelectionRevision
                             (JNum (NInt (r_defaultSelectionRevision r)))) (\<lambda>current.
                  if current \<noteq> dt_expectedRevision t \<or> row_at sandboxes (dt_to t) = NoRow then Inr r'
                  else select_default (Some (dt_to t)) r'))"

text \<open>The captured entry; none stands for a member of \<open>Object.prototype\<close>.\<close>

record removal_receipt =
  rr_removedEntry :: "js option"
  rr_wasDefault :: bool
  rr_fallbackDefault :: "string option"
  rr_postRemovalRevision :: int

text \<open>\<open>Object.keys(sandboxes)[0] || null\<close>\<close>

definition first_key :: "(string \<times> 'a) list \<Rightarrow> string option" where
  "first_key kvs = (case kvs of [] \<Rightarrow> None | (k, _) # _ \<Rightarrow> if k \<noteq> [] then Some k else None)"

text \<open>
  The result is the next registry and the receipt; no receipt means that nothing was removed. A
  member of \<open>Object.prototype\<close> found under the name counts as a row, although there is no
  own property to delete.
\<close>

definition removeSandboxFromRegistry ::
  "registry \<Rightarrow> string \<Rightarrow> registry_error + registry \<times> removal_receipt option" where
  "removeSandboxFromRegistry r name =
     (let remove = (\<lambda>entry.
        let sandboxes = own_delete name (r_sandboxes r);
            fallbackDefault = first_key sandboxes;
            wasDefault = (r_defaultSandbox r = Some name)
        in andThen (if wasDefault then incrementDefaultSelectionRevision (r_defaultSelectionRevision r)
                    else normalizeDefaultSelectionRevision
                           (JNum (NInt (r_defaultSelectionRevision r)))) (\<lambda>revision.
           Inr (r\<lparr>r_sandboxes := sandboxes,
                  r_defaultSandbox := (if wasDefault then fallbackDefault else r_defaultSandbox r),
                  r_defaultSelectionRevision := revision\<rparr>,
                Some \<lparr>rr_removedEntry = entry, rr_wasDefault = wasDefault,
                      rr_fallbackDefault = fallbackDefault, rr_postRemovalRevision = revision\<rparr>)))
      in case row_at (r_sandboxes r) name of
           NoRow \<Rightarrow> Inr (r, None)
         | OwnRow entry \<Rightarrow> remove (Some entry)
         | BuiltinRow \<Rightarrow> remove None)"

definition restoreSandboxIfMissingInRegistry ::
  "registry \<Rightarrow> removal_receipt \<Rightarrow> registry_error + registry \<times> bool" where
  "restoreSandboxIfMissingInRegistry r receipt =
     (case rr_removedEntry receipt of
        None \<Rightarrow> Inl BuiltinObject
      | Some entry \<Rightarrow>
      let name = entry_name entry in
      if row_at (r_sandboxes r) name \<noteq> NoRow then Inr (r, False)
      else
        let sandboxes = own_put name entry (r_sandboxes r);
            currentDefaultIsValid =
              (case r_defaultSandbox r of None \<Rightarrow> False | Some d \<Rightarrow> row_at sandboxes d \<noteq> NoRow)
        in andThen (normalizeDefaultSelectionRevision (JNum (NInt (r_defaultSelectionRevision r))))
             (\<lambda>current.
           let shouldReclaim = (rr_wasDefault receipt
                 \<and> r_defaultSandbox r = rr_fallbackDefault receipt
                 \<and> current = rr_postRemovalRevision receipt);
               defaultSandbox = (if shouldReclaim then Some name
                 else if currentDefaultIsValid then r_defaultSandbox r else Some name)
           in andThen (if defaultSandbox = r_defaultSandbox r then Inr current
                       else incrementDefaultSelectionRevision (r_defaultSelectionRevision r))
                (\<lambda>revision.
              Inr (r\<lparr>r_sandboxes := sandboxes, r_defaultSandbox := defaultSandbox,
                     r_defaultSelectionRevision := revision\<rparr>, True))))"

end
