(* ===== verification/Registry_Lock.thy ===== *)
theory Registry_Lock
  imports Registry_Values Complex_Main
begin

text \<open>
  The advisory lock of the registry file (\<open>state/registry/lock.ts\<close>): how a lock directory that is
  already there is classified, and the retry loop of \<open>acquireLock\<close>.

  What the file system and the process table answer to one round of the loop is a \<open>lock_attempt\<close>;
  a run of \<open>acquireLock\<close> is a function of the sequence of answers. Times are rational numbers
  of milliseconds, as \<open>mtimeMs\<close> is a fraction.
\<close>

definition LOCK_STALE_MS :: rat where "LOCK_STALE_MS = 10000"
definition LOCK_MAX_RETRIES :: nat where "LOCK_MAX_RETRIES = 120"

datatype lock_decision = Break | Wait

definition classifyExistingLock ::
  "int option \<Rightarrow> bool \<Rightarrow> rat option \<Rightarrow> rat \<Rightarrow> rat \<Rightarrow> rat \<Rightarrow> lock_decision" where
  "classifyExistingLock ownerPid ownerAlive processStartMs lockMtimeMs nowMs staleMs =
     (let ageMs = nowMs - lockMtimeMs in
      if ownerPid = None then (if staleMs < ageMs then Break else Wait)
      else if \<not> ownerAlive then Break
      else if (case processStartMs of None \<Rightarrow> False | Some t \<Rightarrow> lockMtimeMs + 1000 < t) then Break
      else if staleMs < ageMs then Break else Wait)"

text \<open>\<open>Number.parseInt(text, 10)\<close>, no value for NaN.\<close>

definition parse_int10 :: "string \<Rightarrow> int option" where
  "parse_int10 text =
     (let (sign, body) = (case dropWhile is_js_space text of
            c # s \<Rightarrow> if c = CHR ''-'' then (-1, s) else if c = CHR ''+'' then (1, s) else (1, c # s)
          | [] \<Rightarrow> (1, []));
          digits = takeWhile is_digit body
      in if digits = [] then None
         else map_option (\<lambda>n. sign * int n) (digits_value 0 digits))"

datatype mkdir_answer = Made | Exists | MkdirRefused

record lock_attempt =
  at_mkdir :: mkdir_answer
  at_stat :: "(nat \<times> rat) option"
  at_owner :: "string option"
  at_alive :: "int \<Rightarrow> bool"
  at_startMs :: "int \<Rightarrow> rat option"
  at_nowMs :: rat
  at_restat :: "(nat \<times> rat) option"
  at_reowner :: "string option"
  at_removed :: bool
  at_ownerWritten :: bool

definition owner_pid :: "string option \<Rightarrow> int option" where
  "owner_pid text =
     (case text of
        None \<Rightarrow> None
      | Some t \<Rightarrow> (case parse_int10 (trim t) of
                      Some n \<Rightarrow> if 0 < n then Some n else None
                    | None \<Rightarrow> None))"

text \<open>The decision on the lock directory that the failed \<open>mkdir\<close> found.\<close>

definition attempt_decision :: "lock_attempt \<Rightarrow> rat \<Rightarrow> lock_decision" where
  "attempt_decision a mtimeMs =
     (let ownerPid = owner_pid (at_owner a);
          ownerAlive = (case ownerPid of None \<Rightarrow> False | Some p \<Rightarrow> at_alive a p);
          processStartMs =
            (case ownerPid of None \<Rightarrow> None | Some p \<Rightarrow> if ownerAlive then at_startMs a p else None)
      in classifyExistingLock ownerPid ownerAlive processStartMs mtimeMs (at_nowMs a) LOCK_STALE_MS)"

text \<open>The check before the removal: same inode, same time, and the same owner when it was read.\<close>

definition still_same_lock :: "lock_attempt \<Rightarrow> bool" where
  "still_same_lock a =
     (case (at_stat a, at_restat a) of
        (Some s, Some s') \<Rightarrow>
          s' = s
          \<and> (case owner_pid (at_owner a) of
               None \<Rightarrow> True
             | Some p \<Rightarrow> (case at_reowner a of None \<Rightarrow> False | Some t \<Rightarrow> parse_int10 (trim t) = Some p))
      | _ \<Rightarrow> False)"

datatype attempt_outcome = Took | Vanished | Broke | Slept | AttemptThrew

definition lock_round :: "lock_attempt \<Rightarrow> attempt_outcome" where
  "lock_round a =
     (case at_mkdir a of
        MkdirRefused \<Rightarrow> AttemptThrew
      | Made \<Rightarrow> if at_ownerWritten a then Took else AttemptThrew
      | Exists \<Rightarrow>
          (case at_stat a of
             None \<Rightarrow> Vanished
           | Some (ino, mtimeMs) \<Rightarrow>
               if attempt_decision a mtimeMs = Break \<and> still_same_lock a
               then (if at_removed a then Broke else AttemptThrew)
               else Slept))"

fun acquire_loop :: "nat \<Rightarrow> (nat \<Rightarrow> lock_attempt) \<Rightarrow> nat \<Rightarrow> registry_error + nat" where
  "acquire_loop 0 answers i = Inl LockExhausted"
| "acquire_loop (Suc n) answers i =
     (case lock_round (answers i) of
        Took \<Rightarrow> Inr (Suc i)
      | AttemptThrew \<Rightarrow> Inl LockFailed
      | _ \<Rightarrow> acquire_loop n answers (Suc i))"

text \<open>The number of rounds used when the lock is taken.\<close>

definition acquireLock :: "(nat \<Rightarrow> lock_attempt) \<Rightarrow> registry_error + nat" where
  "acquireLock answers = acquire_loop LOCK_MAX_RETRIES answers 0"

section \<open>Facts\<close>

text \<open>When a lock with a readable owner is broken.\<close>

lemma break_with_owner:
  assumes "owner_pid (at_owner a) = Some p"
  shows "attempt_decision a mtimeMs = Break \<longleftrightarrow>
           \<not> at_alive a p
           \<or> (\<exists>t. at_startMs a p = Some t \<and> mtimeMs + 1000 < t)
           \<or> LOCK_STALE_MS < at_nowMs a - mtimeMs"
  using assms
  by (auto simp: attempt_decision_def classifyExistingLock_def Let_def split: option.splits)

lemma break_without_owner:
  "owner_pid (at_owner a) = None \<Longrightarrow>
     attempt_decision a mtimeMs = Break \<longleftrightarrow> LOCK_STALE_MS < at_nowMs a - mtimeMs"
  by (simp add: attempt_decision_def classifyExistingLock_def Let_def)

lemma round_broke_iff:
  "lock_round a = Broke \<longleftrightarrow>
     at_mkdir a = Exists \<and> at_removed a \<and> still_same_lock a
     \<and> (\<exists>ino mtimeMs. at_stat a = Some (ino, mtimeMs) \<and> attempt_decision a mtimeMs = Break)"
  by (auto simp: lock_round_def split: mkdir_answer.splits option.splits if_splits)

lemma still_same_stat: "still_same_lock a \<Longrightarrow> at_restat a = at_stat a \<and> at_stat a \<noteq> None"
  by (auto simp: still_same_lock_def split: option.splits)

text \<open>The loop ends after at most its number of rounds, and takes the lock at the first round that can.\<close>

definition goes_on :: "attempt_outcome \<Rightarrow> bool" where
  "goes_on r = (r \<in> {Vanished, Broke, Slept})"

lemma acquire_loop_took:
  "acquire_loop n answers i = Inr m \<longleftrightarrow>
     (\<exists>k < n. m = i + Suc k \<and> lock_round (answers (i + k)) = Took
        \<and> (\<forall>j < k. goes_on (lock_round (answers (i + j)))))"
proof (induction n answers i rule: acquire_loop.induct)
  case (2 n answers i)
  then show ?case
    by (cases "lock_round (answers i)") (auto simp: Ex_less_Suc2 All_less_Suc2 goes_on_def)
qed simp

lemma acquire_loop_error:
  "acquire_loop n answers i = Inl e \<Longrightarrow>
     e = LockFailed \<and> (\<exists>k < n. lock_round (answers (i + k)) = AttemptThrew)
     \<or> e = LockExhausted \<and> (\<forall>k < n. goes_on (lock_round (answers (i + k))))"
proof (induction n answers i rule: acquire_loop.induct)
  case (2 n answers i)
  then show ?case
    by (cases "lock_round (answers i)") (auto simp: Ex_less_Suc2 All_less_Suc2 goes_on_def)
qed simp

end
