(* ===== verification/Registry_Store.thy ===== *)
theory Registry_Store
  imports Registry_Model Registry_Lock
begin

text \<open>
  The registry file and the operations of \<open>state/registry.ts\<close> on it, with the channel switch of
  \<open>state/registry-messaging.ts\<close> and the generation claim of
  \<open>state/registry/lifecycle-generation.ts\<close>. Every mutation takes the registry lock, loads, changes
  and saves; an operation is an effect on a \<open>registry_world\<close>: the file, the answers of the file
  system to the lock and to each write, and the clock.
\<close>

section \<open>The world\<close>

datatype registry_file = RegistryAbsent | RegistryUnreadable | RegistryCorrupt | RegistryJson js

text \<open>
  A write replaces the file by a rename. It may fail before the rename, or report an error although
  the new file is in place.
\<close>

datatype write_answer = Written | WriteRefused | WrittenWithError

record registry_world =
  g_file :: registry_file
  g_writes :: "nat \<Rightarrow> write_answer"
  g_lock :: "nat \<Rightarrow> lock_attempt"
  g_released :: "nat \<Rightarrow> bool"
  g_now :: string

type_synonym 'a registry_op = "(registry_error, registry_world, 'a) eff"

definition load :: "registry_env \<Rightarrow> registry registry_op" where
  "load env w =
     (case g_file w of
        RegistryAbsent \<Rightarrow> (normalizeRegistry env (JObj [(''sandboxes'', JObj []), (''defaultSandbox'', JNull)]), w)
      | RegistryUnreadable \<Rightarrow> (Inl ConfigUnreadable, w)
      | RegistryCorrupt \<Rightarrow> (Inl ConfigCorrupt, w)
      | RegistryJson v \<Rightarrow> (normalizeRegistry env v, w))"

definition writeConfigFile :: "js \<Rightarrow> unit registry_op" where
  "writeConfigFile v w =
     (let w' = w\<lparr>g_writes := \<lambda>i. g_writes w (Suc i)\<rparr> in
      case g_writes w 0 of
        Written \<Rightarrow> (Inr (), w'\<lparr>g_file := RegistryJson (json_persist v)\<rparr>)
      | WriteRefused \<Rightarrow> (Inl ConfigWriteFailed, w')
      | WrittenWithError \<Rightarrow> (Inl ConfigWriteFailed, w'\<lparr>g_file := RegistryJson (json_persist v)\<rparr>))"

definition save :: "registry_env \<Rightarrow> registry \<Rightarrow> unit registry_op" where
  "save env data =
     bind (lift_res (serializeRegistryForDisk env data)) (\<lambda>d. writeConfigFile (registry_to_js d))"

text \<open>\<open>releaseLock\<close> in the \<open>finally\<close> clause: its own error replaces the result.\<close>

definition withLock :: "'a registry_op \<Rightarrow> 'a registry_op" where
  "withLock f w =
     (case acquireLock (g_lock w) of
        Inl e \<Rightarrow> (Inl e, w)
      | Inr n \<Rightarrow>
          (let (r, w') = f (w\<lparr>g_lock := \<lambda>i. g_lock w (n + i)\<rparr>);
               w'' = w'\<lparr>g_released := \<lambda>i. g_released w' (Suc i)\<rparr>
           in if g_released w' 0 then (r, w'') else (Inl LockReleaseFailed, w'')))"

section \<open>Reading\<close>

definition getSandbox :: "registry_env \<Rightarrow> string \<Rightarrow> row registry_op" where
  "getSandbox env name = bind (load env) (\<lambda>data. ret (row_at (r_sandboxes data) name))"

definition default_of :: "registry \<Rightarrow> string option" where
  "default_of data =
     (let usable = (case r_defaultSandbox data of
            None \<Rightarrow> False
          | Some d \<Rightarrow> d \<noteq> [] \<and> (case row_at (r_sandboxes data) d of
                NoRow \<Rightarrow> False | OwnRow e \<Rightarrow> \<not> is_reservation e | BuiltinRow \<Rightarrow> True))
      in if usable then r_defaultSandbox data
         else case filter (\<lambda>e. \<not> is_reservation e) (map snd (r_sandboxes data)) of
                [] \<Rightarrow> None
              | e # _ \<Rightarrow> if entry_name e \<noteq> [] then Some (entry_name e) else None)"

definition getDefault :: "registry_env \<Rightarrow> string option registry_op" where
  "getDefault env = bind (load env) (\<lambda>data. ret (default_of data))"

definition listSandboxes :: "registry_env \<Rightarrow> (js list \<times> string option) registry_op" where
  "listSandboxes env =
     bind (load env) (\<lambda>data. ret (map snd (r_sandboxes data), r_defaultSandbox data))"

section \<open>Registration and reservation\<close>

definition bool_or_undef :: "js \<Rightarrow> js" where
  "bool_or_undef v = (case v of JBool b \<Rightarrow> JBool b | _ \<Rightarrow> JUndef)"

definition true_or_undef :: "js \<Rightarrow> js" where
  "true_or_undef v = (if v = JBool True then JBool True else JUndef)"

definition or_undef :: "js option \<Rightarrow> js" where
  "or_undef x = nullish JUndef x"

definition isDcodeAutoApprovalMode :: "js \<Rightarrow> bool" where
  "isDcodeAutoApprovalMode value = (value = JStr ''disabled'' \<or> value = JStr ''thread-opt-in'')"

text \<open>The row \<open>registerSandbox\<close> writes for an entry; a member that is undefined is not stored.\<close>

definition registered_row ::
  "registry_env \<Rightarrow> string \<Rightarrow> js \<Rightarrow> js option \<Rightarrow> baseline_exclusion list option \<Rightarrow>
   baseline_transition option \<Rightarrow> js" where
  "registered_row env now entry provenance exclusions transition =
     (let member = js_get entry; or_null = (\<lambda>k. js_or_else (js_get entry k) JNull) in JObj
     ([(''name'', member ''name''),
       (''createdAt'', js_or_else (member ''createdAt'') (JStr now)),
       (''servingProfileProvenance'', or_undef provenance)]
      @ inferenceSelectionRegistryFields entry @
      [(''gpuEnabled'', js_or_else (member ''gpuEnabled'') (JBool False)),
       (''hostGpuDetected'', JBool (member ''hostGpuDetected'' = JBool True)),
       (''sandboxGpuEnabled'', JBool (member ''sandboxGpuEnabled'' = JBool True)),
       (''sandboxGpuMode'', or_null ''sandboxGpuMode''),
       (''sandboxGpuDevice'', or_null ''sandboxGpuDevice''),
       (''sandboxGpuProof'', js_default (member ''sandboxGpuProof'') JNull),
       (''openshellDriver'', or_null ''openshellDriver''),
       (''openshellVersion'', or_null ''openshellVersion''),
       (''policies'', js_or_else (member ''policies'') (JArr [])),
       (''baselineExclusions'', or_undef (map_option exclusions_to_js exclusions)),
       (''baselineExclusionTransition'', or_undef (map_option transition_to_js transition)),
       (''policyTier'', or_null ''policyTier''),
       (''webSearchEnabled'', bool_or_undef (member ''webSearchEnabled'')),
       (''toolDisclosure'',
        or_undef (map_option (\<lambda>d. JStr (disclosure_id d)) (normalizeToolDisclosure (member ''toolDisclosure'')))),
       (''observabilityEnabled'', bool_or_undef (member ''observabilityEnabled'')),
       (''dcodeAutoApprovalMode'',
        if isDcodeAutoApprovalMode (member ''dcodeAutoApprovalMode'') then member ''dcodeAutoApprovalMode''
        else JUndef),
       (''webSearchProvider'',
        if member ''webSearchEnabled'' = JBool True
           \<and> (member ''webSearchProvider'' = JStr ''brave'' \<or> member ''webSearchProvider'' = JStr ''tavily'')
        then member ''webSearchProvider'' else JNull),
       (''agent'', or_null ''agent''),
       (''agentVersion'', or_null ''agentVersion''),
       (''openclawImagePluginInstalls'',
        case member ''openclawImagePluginInstalls'' of JArr xs \<Rightarrow> JArr xs | _ \<Rightarrow> JUndef),
       (''nemoclawVersion'', or_null ''nemoclawVersion''),
       (''fromDockerfile'', or_null ''fromDockerfile''),
       (''hermesAuthMethod'',
        if member ''hermesAuthMethod'' = JStr ''oauth'' \<or> member ''hermesAuthMethod'' = JStr ''api_key''
        then member ''hermesAuthMethod'' else JNull),
       (''imageTag'', or_null ''imageTag''),
       (''workload'', or_undef (cloneSandboxWorkloadReceipt env (member ''workload''))),
       (''lifecycleGeneration'', member ''lifecycleGeneration''),
       (''lifecycleLiveIdentityFingerprint'', member ''lifecycleLiveIdentityFingerprint''),
       (''messaging'', or_undef (cloneSandboxMessagingState env (member ''messaging''))),
       (''mcp'', or_undef (normalizeSandboxMcpState env (member ''mcp''))),
       (''hermesToolGateways'',
        case member ''hermesToolGateways'' of JArr (x # xs) \<Rightarrow> JArr (x # xs) | _ \<Rightarrow> JUndef),
       (''hermesDashboardEnabled'', true_or_undef (member ''hermesDashboardEnabled'')),
       (''hermesDashboardPort'', js_default (member ''hermesDashboardPort'') JUndef),
       (''hermesDashboardInternalPort'', js_default (member ''hermesDashboardInternalPort'') JUndef),
       (''hermesDashboardTui'', true_or_undef (member ''hermesDashboardTui'')),
       (''dashboardPort'', js_default (member ''dashboardPort'') JUndef),
       (''dashboardRemoteBindPrepared'', true_or_undef (member ''dashboardRemoteBindPrepared'')),
       (''gatewayName'', js_default (member ''gatewayName'') JUndef),
       (''gatewayPort'', js_default (member ''gatewayPort'') JUndef)]))"

definition register_in_registry ::
  "registry_env \<Rightarrow> string \<Rightarrow> js \<Rightarrow> registry \<Rightarrow> registry_error + registry" where
  "register_in_registry env now entry data =
     (let provenance = parseServingProfileProvenance (js_get entry ''servingProfileProvenance'');
          data' = (if retainedDefaultSandbox (r_defaultSandbox data) (r_sandboxes data) = None
                   then data\<lparr>r_defaultSandbox := None\<rparr> else data)
      in andThen (ensure (InvalidProvenance ''register'')
                    (js_get entry ''servingProfileProvenance'' = JUndef \<or> provenance \<noteq> None)) (\<lambda>_.
         andThen (normalizeBaselineExclusions (js_get entry ''baselineExclusions'')) (\<lambda>exclusions.
         andThen (normalizeBaselineExclusionTransition (js_get entry ''baselineExclusionTransition''))
           (\<lambda>transition.
         claimInitialDefaultInRegistry
           (data'\<lparr>r_sandboxes := assign_own (entry_name entry)
                     (registered_row env now entry provenance exclusions transition)
                     (r_sandboxes data')\<rparr>)
           (entry_name entry)))))"

definition registerSandbox :: "registry_env \<Rightarrow> js \<Rightarrow> unit registry_op" where
  "registerSandbox env entry =
     withLock (bind (load env) (\<lambda>data w.
       bind (lift_res (register_in_registry env (g_now w) entry data)) (save env) w))"

record route_reservation =
  ro_selection :: js
  ro_gatewayName :: string
  ro_sessionId :: "string option"

definition reserve_row :: "string \<Rightarrow> route_reservation \<Rightarrow> row \<Rightarrow> js" where
  "reserve_row name route existing =
     (let n = normalizeInferenceSelection (ro_selection route);
          base = (case existing of
                    OwnRow e \<Rightarrow> js_entries e
                  | NoRow \<Rightarrow> [(''name'', JStr name), (''pendingRouteReservation'', JBool True)]
                  | BuiltinRow \<Rightarrow> []);
          owner = (case existing of OwnRow e \<Rightarrow> js_get e ''reservationSessionId'' | _ \<Rightarrow> JUndef)
      in JObj (fold (\<lambda>(k, v). alist_set k v)
        [(''pendingRouteReservation'', JBool True),
         (''reservationSessionId'', case ro_sessionId route of Some s \<Rightarrow> JStr s | None \<Rightarrow> owner),
         (''provider'', js_opt JStr (is_provider n)),
         (''model'', js_opt JStr (is_model n)),
         (''endpointUrl'', js_opt JStr (is_endpointUrl n)),
         (''endpointSource'', js_opt JStr (is_endpointSource n)),
         (''credentialEnv'', js_opt JStr (is_credentialEnv n)),
         (''preferredInferenceApi'', js_opt JStr (is_preferredInferenceApi n)),
         (''gatewayName'', JStr (ro_gatewayName route)),
         (''gatewayPort'', JUndef)] base))"

definition reserveSandboxInferenceRoute ::
  "registry_env \<Rightarrow> string \<Rightarrow> route_reservation \<Rightarrow> bool registry_op" where
  "reserveSandboxInferenceRoute env name route =
     withLock (bind (load env) (\<lambda>data.
       bind (save env (data\<lparr>r_sandboxes := assign_own name
               (reserve_row name route (row_at (r_sandboxes data) name)) (r_sandboxes data)\<rparr>))
         (\<lambda>_. ret True)))"

section \<open>Changing one row\<close>

text \<open>
  The shape all mutations of one row share: the new row, or a refusal, which does not write. The
  members the operations read are undefined on the members of \<open>Object.prototype\<close>.
\<close>

definition row_change ::
  "registry_env \<Rightarrow> string \<Rightarrow> (js \<Rightarrow> registry_error + js option) \<Rightarrow> registry \<Rightarrow> bool registry_op" where
  "row_change env name f data =
     (case row_at (r_sandboxes data) name of
        NoRow \<Rightarrow> ret False
      | BuiltinRow \<Rightarrow>
          bind (lift_res (f (JObj []))) (\<lambda>next. if next = None then ret False else throw BuiltinObject)
      | OwnRow row \<Rightarrow>
          bind (lift_res (f row)) (\<lambda>next.
            case next of
              None \<Rightarrow> ret False
            | Some row' \<Rightarrow>
                bind (save env (data\<lparr>r_sandboxes := alist_set name row' (r_sandboxes data)\<rparr>))
                  (\<lambda>_. ret True)))"

definition mutate_row ::
  "registry_env \<Rightarrow> string \<Rightarrow> (registry_world \<Rightarrow> js \<Rightarrow> registry_error + js option) \<Rightarrow> bool registry_op" where
  "mutate_row env name f =
     withLock (bind (load env) (\<lambda>data w. row_change env name (f w) data w))"

text \<open>\<open>Object.assign(row, updates)\<close>\<close>

definition assign_members :: "js \<Rightarrow> js \<Rightarrow> js" where
  "assign_members row updates =
     JObj (fold (\<lambda>(k, v). assign_own k v) (js_entries updates) (js_entries row))"

definition updateSandbox :: "registry_env \<Rightarrow> string \<Rightarrow> js \<Rightarrow> bool registry_op" where
  "updateSandbox env name updates =
     mutate_row env name (\<lambda>_ row.
       if hasOwn updates ''name'' \<and> js_get updates ''name'' \<noteq> JStr name then Inr None
       else Inr (Some (assign_members row updates)))"

definition array_member :: "js \<Rightarrow> string \<Rightarrow> js list" where
  "array_member row k = nullish [] (js_array (js_get row k))"

definition nonempty_array :: "js list \<Rightarrow> js" where
  "nonempty_array xs = (if xs \<noteq> [] then JArr xs else JUndef)"

text \<open>The list without the entries whose member \<open>k\<close> is the given one.\<close>

definition without_member :: "string \<Rightarrow> js \<Rightarrow> js list \<Rightarrow> js list" where
  "without_member k v xs = filter (\<lambda>x. js_get x k \<noteq> v) xs"

text \<open>\<open>{ ...entry, k: entry[k] ?? now }\<close>\<close>

definition stamped_member :: "string \<Rightarrow> string \<Rightarrow> js \<Rightarrow> js" where
  "stamped_member k now entry = js_set k (js_default (js_get entry k) (JStr now)) entry"

definition getCustomPolicies :: "registry_env \<Rightarrow> string \<Rightarrow> js list registry_op" where
  "getCustomPolicies env name =
     bind (load env) (\<lambda>data. ret (case row_at (r_sandboxes data) name of
       OwnRow row \<Rightarrow> array_member row ''customPolicies'' | _ \<Rightarrow> []))"

definition addCustomPolicy :: "registry_env \<Rightarrow> string \<Rightarrow> js \<Rightarrow> bool registry_op" where
  "addCustomPolicy env name entry =
     mutate_row env name (\<lambda>w row.
       Inr (Some (js_set ''customPolicies''
         (JArr (without_member ''name'' (js_get entry ''name'') (array_member row ''customPolicies'')
                @ [stamped_member ''appliedAt'' (g_now w) entry])) row)))"

definition removeCustomPolicyByName :: "registry_env \<Rightarrow> string \<Rightarrow> string \<Rightarrow> bool registry_op" where
  "removeCustomPolicyByName env name presetName =
     mutate_row env name (\<lambda>_ row.
       let list = array_member row ''customPolicies'';
           next = without_member ''name'' (JStr presetName) list
       in if length next = length list then Inr None
          else Inr (Some (js_set ''customPolicies'' (nonempty_array next) row)))"

section \<open>Baseline exclusions and their journal\<close>

definition getBaselineExclusions :: "registry_env \<Rightarrow> string \<Rightarrow> js list registry_op" where
  "getBaselineExclusions env name =
     bind (load env) (\<lambda>data. ret (case row_at (r_sandboxes data) name of
       OwnRow row \<Rightarrow> array_member row ''baselineExclusions'' | _ \<Rightarrow> []))"

definition has_transition :: "js \<Rightarrow> bool" where
  "has_transition row = js_truthy (js_get row ''baselineExclusionTransition'')"

definition put_exclusion :: "string \<Rightarrow> js \<Rightarrow> js \<Rightarrow> js" where
  "put_exclusion now entry row =
     js_set ''baselineExclusions''
       (JArr (without_member ''key'' (js_get entry ''key'') (array_member row ''baselineExclusions'')
              @ [stamped_member ''acknowledgedAt'' now entry])) row"

definition add_exclusion_row :: "string \<Rightarrow> js \<Rightarrow> js \<Rightarrow> registry_error + js option" where
  "add_exclusion_row now entry row =
     (if has_transition row then Inr None else Inr (Some (put_exclusion now entry row)))"

definition addBaselineExclusion :: "registry_env \<Rightarrow> string \<Rightarrow> js \<Rightarrow> bool registry_op" where
  "addBaselineExclusion env name entry = mutate_row env name (\<lambda>w. add_exclusion_row (g_now w) entry)"

definition remove_exclusion_row :: "string \<Rightarrow> js \<Rightarrow> registry_error + js option" where
  "remove_exclusion_row key row =
     (let list = array_member row ''baselineExclusions'';
          next = without_member ''key'' (JStr key) list
      in if has_transition row \<or> length next = length list then Inr None
         else Inr (Some (js_set ''baselineExclusions'' (nonempty_array next) row)))"

definition removeBaselineExclusion :: "registry_env \<Rightarrow> string \<Rightarrow> string \<Rightarrow> bool registry_op" where
  "removeBaselineExclusion env name key = mutate_row env name (\<lambda>_. remove_exclusion_row key)"

definition getBaselineExclusionTransition :: "registry_env \<Rightarrow> string \<Rightarrow> js registry_op" where
  "getBaselineExclusionTransition env name =
     bind (load env) (\<lambda>data. ret (case row_at (r_sandboxes data) name of
       OwnRow row \<Rightarrow> js_default (js_get row ''baselineExclusionTransition'') JNull | _ \<Rightarrow> JNull))"

definition begin_transition_row :: "js \<Rightarrow> js \<Rightarrow> registry_error + js option" where
  "begin_transition_row transition row =
     (if has_transition row then Inr None
      else andThen (normalizeBaselineExclusionTransition transition) (\<lambda>t.
        Inr (Some (js_set ''baselineExclusionTransition'' (or_undef (map_option transition_to_js t)) row))))"

definition beginBaselineExclusionTransition :: "registry_env \<Rightarrow> string \<Rightarrow> js \<Rightarrow> bool registry_op" where
  "beginBaselineExclusionTransition env name transition =
     mutate_row env name (\<lambda>_. begin_transition_row transition)"

text \<open>\<open>isDeepStrictEqual\<close> on plain values: the order of own properties does not matter.\<close>

fun deep_equal :: "js \<Rightarrow> js \<Rightarrow> bool" where
  "deep_equal (JObj xs) w =
     (case w of
        JObj ys \<Rightarrow> length xs = length ys
          \<and> list_all (\<lambda>(k, v). case map_of ys k of None \<Rightarrow> False | Some v' \<Rightarrow> deep_equal v v') xs
      | _ \<Rightarrow> False)"
| "deep_equal (JArr xs) w =
     (case w of JArr ys \<Rightarrow> list_all2 deep_equal xs ys | _ \<Rightarrow> False)"
| "deep_equal v w = (v = w)"

definition commit_transition :: "string \<Rightarrow> string \<Rightarrow> js \<Rightarrow> js option" where
  "commit_transition now tid row =
     (let transition = js_get row ''baselineExclusionTransition'';
          exclusion = js_get transition ''exclusion'';
          list = array_member row ''baselineExclusions'';
          key = js_get exclusion ''key'';
          done = js_set ''baselineExclusionTransition'' JUndef
      in if \<not> js_truthy transition \<or> js_get transition ''id'' \<noteq> JStr tid then None
         else if js_get transition ''operation'' = JStr ''exclude''
         then Some (done (put_exclusion now exclusion row))
         else (case find (\<lambda>e. js_get e ''key'' = key) list of
                 None \<Rightarrow> None
               | Some committed \<Rightarrow>
                   if \<not> deep_equal committed exclusion then None
                   else Some (done (js_set ''baselineExclusions''
                          (nonempty_array (without_member ''key'' key list)) row))))"

definition commitBaselineExclusionTransition :: "registry_env \<Rightarrow> string \<Rightarrow> string \<Rightarrow> bool registry_op" where
  "commitBaselineExclusionTransition env name tid =
     mutate_row env name (\<lambda>w row. Inr (commit_transition (g_now w) tid row))"

definition clear_transition_row :: "string \<Rightarrow> js \<Rightarrow> registry_error + js option" where
  "clear_transition_row tid row =
     (if js_get (js_get row ''baselineExclusionTransition'') ''id'' \<noteq> JStr tid then Inr None
      else Inr (Some (js_set ''baselineExclusionTransition'' JUndef row)))"

definition clearBaselineExclusionTransition :: "registry_env \<Rightarrow> string \<Rightarrow> string \<Rightarrow> bool registry_op" where
  "clearBaselineExclusionTransition env name tid = mutate_row env name (\<lambda>_. clear_transition_row tid)"

section \<open>Removal, restoration and the default\<close>

definition removeSandboxWithReceipt :: "registry_env \<Rightarrow> string \<Rightarrow> removal_receipt option registry_op" where
  "removeSandboxWithReceipt env name =
     withLock (bind (load env) (\<lambda>data.
       bind (lift_res (removeSandboxFromRegistry data name)) (\<lambda>(registry, receipt).
         case receipt of
           None \<Rightarrow> ret None
         | Some r \<Rightarrow> bind (save env registry) (\<lambda>_. ret (Some r)))))"

definition removeSandbox :: "registry_env \<Rightarrow> string \<Rightarrow> bool registry_op" where
  "removeSandbox env name =
     bind (removeSandboxWithReceipt env name) (\<lambda>receipt. ret (receipt \<noteq> None))"

definition restoreSandboxEntry ::
  "registry_env \<Rightarrow> js \<Rightarrow> default_transition option \<Rightarrow> unit registry_op" where
  "restoreSandboxEntry env entry transition =
     withLock (bind (load env) (\<lambda>data.
       bind (lift_res (restoreSandboxEntryInRegistry data entry transition)) (save env)))"

definition restoreSandboxEntryIfMissing :: "registry_env \<Rightarrow> removal_receipt \<Rightarrow> bool registry_op" where
  "restoreSandboxEntryIfMissing env receipt =
     withLock (bind (load env) (\<lambda>data.
       bind (lift_res (restoreSandboxIfMissingInRegistry data receipt)) (\<lambda>(registry, restored).
         if \<not> restored then ret False else bind (save env registry) (\<lambda>_. ret True))))"

definition setDefault :: "registry_env \<Rightarrow> string \<Rightarrow> bool registry_op" where
  "setDefault env name =
     withLock (bind (load env) (\<lambda>current.
       if (case row_at (r_sandboxes current) name of OwnRow e \<Rightarrow> is_reservation e | _ \<Rightarrow> False)
       then ret False
       else bind (lift_res (setDefaultInRegistry current name)) (\<lambda>registry.
         case registry of
           None \<Rightarrow> ret False
         | Some r \<Rightarrow> bind (save env r) (\<lambda>_. ret True))))"

definition clearAll :: "registry_env \<Rightarrow> unit registry_op" where
  "clearAll env =
     withLock (bind (load env) (\<lambda>data. bind (lift_res (clearRegistry data)) (save env)))"

section \<open>Extra providers\<close>

definition listExtraProviders :: "registry_env \<Rightarrow> string list registry_op" where
  "listExtraProviders env = bind (load env) (\<lambda>data. ret (readExtraProviders (r_extraProviders data)))"

definition save_providers :: "registry_env \<Rightarrow> registry \<Rightarrow> string list option option \<Rightarrow> bool registry_op" where
  "save_providers env data next =
     (case next of
        None \<Rightarrow> ret False
      | Some providers \<Rightarrow>
          bind (save env (data\<lparr>r_extraProviders := providers\<rparr>)) (\<lambda>_. ret True))"

definition addExtraProvider :: "registry_env \<Rightarrow> string \<Rightarrow> bool registry_op" where
  "addExtraProvider env name =
     (if \<not> isValidExtraProviderName name then ret False
      else withLock (bind (load env) (\<lambda>data.
        save_providers env data (applyAddExtraProvider name (r_extraProviders data)))))"

definition removeExtraProvider :: "registry_env \<Rightarrow> string \<Rightarrow> bool registry_op" where
  "removeExtraProvider env name =
     withLock (bind (load env) (\<lambda>data.
       save_providers env data (applyRemoveExtraProvider name (r_extraProviders data))))"

section \<open>Messaging channels (registry-messaging.ts, plan-validation.ts)\<close>

definition channel_id :: "js \<Rightarrow> string" where
  "channel_id channel = nullish [] (js_string (js_get channel ''channelId''))"

definition getConfiguredChannelIdsFromPlan :: "js option \<Rightarrow> string list" where
  "getConfiguredChannelIdsFromPlan plan =
     (case plan of
        None \<Rightarrow> []
      | Some p \<Rightarrow> map channel_id
          (filter (\<lambda>c. js_truthy (js_get c ''configured'')) (array_member p ''channels'')))"

definition getDisabledChannelIdsFromPlan :: "js option \<Rightarrow> string list" where
  "getDisabledChannelIdsFromPlan plan =
     (case plan of
        None \<Rightarrow> []
      | Some p \<Rightarrow> List.map_filter js_string (array_member p ''disabledChannels''))"

definition plan_of_row :: "registry_env \<Rightarrow> row \<Rightarrow> js option" where
  "plan_of_row env row = (case row of OwnRow e \<Rightarrow> getMessagingPlanFromEntry env e | _ \<Rightarrow> None)"

definition getConfiguredMessagingChannels :: "registry_env \<Rightarrow> string \<Rightarrow> string list registry_op" where
  "getConfiguredMessagingChannels env name =
     bind (load env) (\<lambda>data.
       ret (getConfiguredChannelIdsFromPlan (plan_of_row env (row_at (r_sandboxes data) name))))"

definition getDisabledChannels :: "registry_env \<Rightarrow> string \<Rightarrow> string list registry_op" where
  "getDisabledChannels env name =
     bind (load env) (\<lambda>data.
       ret (getDisabledChannelIdsFromPlan (plan_of_row env (row_at (r_sandboxes data) name))))"

definition switched_list :: "js \<Rightarrow> string \<Rightarrow> bool \<Rightarrow> string list" where
  "switched_list plan channelId disabled =
     (let configured = map channel_id (array_member plan ''channels'');
          current = uniq (getDisabledChannelIdsFromPlan (Some plan));
          next = (if disabled then uniq (current @ [channelId])
                  else filter (\<lambda>c. c \<noteq> channelId) current)
      in sort (filter (\<lambda>c. c \<in> set configured) next))"

definition switch_channel :: "string list \<Rightarrow> js \<Rightarrow> js" where
  "switch_channel disabledList channel =
     (let channelDisabled = (channel_id channel \<in> set disabledList) in
      js_set ''active''
        (if js_truthy (js_get channel ''configured'') then JBool (\<not> channelDisabled)
         else js_get channel ''configured'')
        (js_set ''disabled'' (JBool channelDisabled) channel))"

definition switch_plan :: "js \<Rightarrow> string \<Rightarrow> bool \<Rightarrow> js" where
  "switch_plan plan channelId disabled =
     (let disabledList = switched_list plan channelId disabled in
      js_set ''channels'' (JArr (map (switch_channel disabledList) (array_member plan ''channels'')))
        (js_set ''disabledChannels'' (JArr (map JStr disabledList))
          (js_set ''workflow'' (JStr (if disabled then ''stop-channel'' else ''start-channel'')) plan)))"

definition setChannelDisabled ::
  "registry_env \<Rightarrow> string \<Rightarrow> string \<Rightarrow> bool \<Rightarrow> bool registry_op" where
  "setChannelDisabled env name channelId disabled =
     mutate_row env name (\<lambda>_ row.
       case getMessagingPlanFromEntry env row of
         None \<Rightarrow> Inr None
       | Some plan \<Rightarrow>
           if channelId \<notin> set (map channel_id (array_member plan ''channels'')) then Inr None
           else Inr (Some (js_set ''messaging''
                  (messaging_state (switch_plan plan channelId disabled)) row)))"

section \<open>Claiming a lifecycle generation (lifecycle-generation.ts)\<close>

definition compareAndSetLegacySandboxLifecycleGeneration ::
  "registry_env \<Rightarrow> js \<Rightarrow> string \<Rightarrow> bool registry_op" where
  "compareAndSetLegacySandboxLifecycleGeneration env expected generation =
     (if js_get expected ''openshellDriver'' \<noteq> JStr ''docker''
         \<or> js_get expected ''lifecycleGeneration'' \<noteq> JUndef
         \<or> generation = [] \<or> 256 < length generation \<or> has_control_character generation
      then ret False
      else mutate_row env (entry_name expected) (\<lambda>_ row.
        if \<not> deep_equal row expected then Inr None
        else Inr (Some (js_set ''lifecycleGeneration'' (JStr generation) row))))"

end
