(* ===== verification/Registry_Authority.thy ===== *)
theory Registry_Authority
  imports Registry_Store
begin

text \<open>
  The compare-and-swap of a rebuilt sandbox (\<open>state/registry/rebuild-authority.ts\<close>): the authority
  captured from a row, the digest of the complete row it carries, and the publication of a
  replacement that is refused unless the row is still the captured one.
\<close>

section \<open>Canonical JSON\<close>

definition json_hex_digit :: "nat \<Rightarrow> char" where
  "json_hex_digit n = ''0123456789abcdef'' ! n"

definition escape_char :: "char \<Rightarrow> string" where
  "escape_char c =
     (if c = CHR 0x22 then [CHR 0x5C, CHR 0x22]
      else if c = CHR 0x5C then [CHR 0x5C, CHR 0x5C]
      else if code c = 8 then [CHR 0x5C, CHR ''b'']
      else if code c = 9 then [CHR 0x5C, CHR ''t'']
      else if code c = 10 then [CHR 0x5C, CHR ''n'']
      else if code c = 12 then [CHR 0x5C, CHR ''f'']
      else if code c = 13 then [CHR 0x5C, CHR ''r'']
      else if code c < 32 then [CHR 0x5C, CHR ''u'', CHR ''0'', CHR ''0'', json_hex_digit (code c div 16), json_hex_digit (code c mod 16)]
      else [c])"

text \<open>\<open>JSON.stringify\<close> of a string and of a number.\<close>

definition quote :: "string \<Rightarrow> string" where
  "quote s = CHR 0x22 # concat (map escape_char s) @ [CHR 0x22]"

definition int_text :: "int \<Rightarrow> string" where
  "int_text n = (if n < 0 then CHR ''-'' # digits_of (nat (- n)) else digits_of (nat n))"

definition num_text :: "jnum \<Rightarrow> string" where
  "num_text n = (case n of NInt i \<Rightarrow> int_text i | NFrac s \<Rightarrow> s | NNonFinite _ \<Rightarrow> ''null'')"

fun canonicalJson :: "js \<Rightarrow> string" where
  "canonicalJson JUndef = ''null''"
| "canonicalJson JNull = ''null''"
| "canonicalJson (JBool b) = (if b then ''true'' else ''false'')"
| "canonicalJson (JNum n) = num_text n"
| "canonicalJson (JStr s) = quote s"
| "canonicalJson (JArr xs) = ''['' @ join_comma (map canonicalJson xs) @ '']''"
| "canonicalJson (JObj kvs) =
     ''{'' @ join_comma (map (\<lambda>(k, text). quote k @ '':'' @ text)
       (sort_key fst (map snd (filter fst (map (\<lambda>(k, v). (v \<noteq> JUndef, k, canonicalJson v)) kvs))))) @ ''}''"

definition sandboxEntryRevision :: "registry_env \<Rightarrow> js \<Rightarrow> string" where
  "sandboxEntryRevision env entry = sha256Text env (canonicalJson entry)"

section \<open>Authority\<close>

record rebuild_authority =
  ra_sandboxName :: string
  ra_providerId :: string
  ra_recordedDriver :: js
  ra_lifecycleGeneration :: string
  ra_liveIdentityFingerprint :: string
  ra_entryRevisionSha256 :: string
  ra_workload :: js

datatype swap_result = Committed js | StaleAuthority "js option"

definition MAX_AUTHORITY_BYTES :: nat where
  "MAX_AUTHORITY_BYTES = 4096"

definition boundedIdentity :: "js \<Rightarrow> string option" where
  "boundedIdentity value =
     (case value of
        JStr s \<Rightarrow> if trim s \<noteq> [] \<and> CHR 0x00 \<notin> set s \<and> utf8_length s \<le> MAX_AUTHORITY_BYTES
                    then Some s else None
      | _ \<Rightarrow> None)"

definition require :: "string \<Rightarrow> 'a option \<Rightarrow> registry_error + 'a" where
  "require message x = (case x of None \<Rightarrow> Inl (AuthorityError message) | Some a \<Rightarrow> Inr a)"

definition clonedManagedReceipt :: "registry_env \<Rightarrow> js \<Rightarrow> registry_error + js" where
  "clonedManagedReceipt env value =
     (case cloneSandboxWorkloadReceipt env value of
        Some r \<Rightarrow> if js_get r ''kind'' = JStr ''managed-image'' then Inr r
                    else Inl (AuthorityError ''receipt'')
      | None \<Rightarrow> Inl (AuthorityError ''receipt''))"

definition requireReceiptAgent :: "js \<Rightarrow> js \<Rightarrow> registry_error + unit" where
  "requireReceiptAgent agent workload =
     ensure (AuthorityError ''agent'')
       (case (agent, js_get workload ''reference'') of
          (JStr a, JStr reference) \<Rightarrow> reference_of_agent a reference
        | _ \<Rightarrow> False)"

definition captureSandboxRebuildAuthority ::
  "registry_env \<Rightarrow> js \<Rightarrow> string \<Rightarrow> registry_error + rebuild_authority" where
  "captureSandboxRebuildAuthority env entry providerId =
     andThen (require ''sandbox name'' (boundedIdentity (js_get entry ''name''))) (\<lambda>name.
     andThen (require ''provider identity'' (boundedIdentity (JStr providerId))) (\<lambda>_.
     andThen (ensure (AuthorityError ''reservation'') (\<not> is_reservation entry)) (\<lambda>_.
     andThen (require ''lifecycle generation'' (boundedIdentity (js_get entry ''lifecycleGeneration'')))
       (\<lambda>generation.
     andThen (require ''fingerprint'' (boundedIdentity (js_get entry ''lifecycleLiveIdentityFingerprint'')))
       (\<lambda>fingerprint.
     andThen (clonedManagedReceipt env (js_get entry ''workload'')) (\<lambda>workload.
     andThen (requireReceiptAgent (js_get entry ''agent'') workload) (\<lambda>_.
     andThen (ensure (AuthorityError ''image reference'')
                (js_get entry ''imageTag'' = js_get workload ''reference'')) (\<lambda>_.
     Inr \<lparr>ra_sandboxName = name, ra_providerId = providerId,
          ra_recordedDriver = js_default (js_get entry ''openshellDriver'') JNull,
          ra_lifecycleGeneration = generation, ra_liveIdentityFingerprint = fingerprint,
          ra_entryRevisionSha256 = sandboxEntryRevision env entry, ra_workload = workload\<rparr>))))))))"

definition sandboxRebuildReplacementMatchesEntry :: "registry_env \<Rightarrow> js \<Rightarrow> js \<Rightarrow> bool" where
  "sandboxRebuildReplacementMatchesEntry env replacement entry =
     (js_get entry ''name'' = js_get replacement ''name''
      \<and> js_default (js_get entry ''openshellDriver'') JNull
          = js_default (js_get replacement ''openshellDriver'') JNull
      \<and> js_get entry ''lifecycleGeneration'' = js_get replacement ''lifecycleGeneration''
      \<and> js_get entry ''lifecycleLiveIdentityFingerprint''
          = js_get replacement ''lifecycleLiveIdentityFingerprint''
      \<and> js_get entry ''imageTag'' = js_get replacement ''imageTag''
      \<and> js_get entry ''agent'' = js_get replacement ''agent''
      \<and> deep_equal (or_undef (cloneSandboxWorkloadReceipt env (js_get entry ''workload'')))
          (or_undef (cloneSandboxWorkloadReceipt env (js_get replacement ''workload''))))"

definition same_authority :: "rebuild_authority \<Rightarrow> rebuild_authority \<Rightarrow> bool" where
  "same_authority a b =
     (a\<lparr>ra_workload := JUndef, ra_recordedDriver := JUndef\<rparr> = b\<lparr>ra_workload := JUndef, ra_recordedDriver := JUndef\<rparr>
      \<and> deep_equal (ra_recordedDriver a) (ra_recordedDriver b)
      \<and> deep_equal (ra_workload a) (ra_workload b))"

definition sandboxRebuildAuthorityMatchesEntry :: "registry_env \<Rightarrow> rebuild_authority \<Rightarrow> js \<Rightarrow> bool" where
  "sandboxRebuildAuthorityMatchesEntry env authority entry =
     (case captureSandboxRebuildAuthority env entry (ra_providerId authority) of
        Inl _ \<Rightarrow> False
      | Inr current \<Rightarrow> same_authority current authority)"

definition validateReplacement ::
  "registry_env \<Rightarrow> rebuild_authority \<Rightarrow> js \<Rightarrow> registry_error + js" where
  "validateReplacement env expected replacement =
     andThen (ensure (AuthorityError ''replacement name'')
                (js_get replacement ''name'' = JStr (ra_sandboxName expected))) (\<lambda>_.
     andThen (ensure (AuthorityError ''replacement reservation'') (\<not> is_reservation replacement)) (\<lambda>_.
     andThen (ensure (AuthorityError ''replacement provider'')
                (js_get replacement ''openshellDriver'' = JStr (ra_providerId expected))) (\<lambda>_.
     andThen (ensure (AuthorityError ''replacement generation'')
                (boundedIdentity (js_get replacement ''lifecycleGeneration'') \<noteq> None
                 \<and> js_get replacement ''lifecycleGeneration'' \<noteq> JStr (ra_lifecycleGeneration expected))) (\<lambda>_.
     andThen (ensure (AuthorityError ''replacement fingerprint'')
                (boundedIdentity (js_get replacement ''lifecycleLiveIdentityFingerprint'') \<noteq> None
                 \<and> js_get replacement ''lifecycleLiveIdentityFingerprint''
                     \<noteq> JStr (ra_liveIdentityFingerprint expected))) (\<lambda>_.
     andThen (clonedManagedReceipt env (js_get replacement ''workload'')) (\<lambda>workload.
     andThen (requireReceiptAgent (js_get replacement ''agent'') workload) (\<lambda>_.
     andThen (ensure (AuthorityError ''replacement image reference'')
                (js_get replacement ''imageTag'' = js_get workload ''reference'')) (\<lambda>_.
     Inr (js_set ''workload'' workload replacement)))))))))"

definition swapSandboxRebuildAuthorityInRegistry ::
  "registry_env \<Rightarrow> registry \<Rightarrow> rebuild_authority \<Rightarrow> js \<Rightarrow> registry_error + registry \<times> swap_result" where
  "swapSandboxRebuildAuthorityInRegistry env registry expected replacementInput =
     andThen (validateReplacement env expected replacementInput) (\<lambda>replacement.
       case row_at (r_sandboxes registry) (ra_sandboxName expected) of
         NoRow \<Rightarrow> Inr (registry, StaleAuthority None)
       | BuiltinRow \<Rightarrow> Inl BuiltinObject
       | OwnRow current \<Rightarrow>
           if \<not> sandboxRebuildAuthorityMatchesEntry env expected current
           then Inr (registry, StaleAuthority (Some current))
           else Inr (registry\<lparr>r_sandboxes :=
                       own_put (ra_sandboxName expected) replacement (r_sandboxes registry)\<rparr>,
                     Committed replacement))"

text \<open>
  A save that reports an error may have replaced the file: the row is read back, and the swap
  counts as committed when the replacement is there.
\<close>

definition save_or_confirm ::
  "registry_env \<Rightarrow> registry \<Rightarrow> string \<Rightarrow> js \<Rightarrow> swap_result \<Rightarrow> swap_result registry_op" where
  "save_or_confirm env registry name replacement result w =
     (case save env registry w of
        (Inr _, w') \<Rightarrow> (Inr result, w')
      | (Inl e, w') \<Rightarrow>
          (case load env w' of
             (Inr data, w'') \<Rightarrow>
               (case row_at (r_sandboxes data) name of
                  OwnRow observed \<Rightarrow>
                    if sandboxRebuildReplacementMatchesEntry env replacement observed
                    then (Inr (Committed observed), w'') else (Inl e, w'')
                | _ \<Rightarrow> (Inl e, w''))
           | (Inl _, w'') \<Rightarrow> (Inl e, w'')))"

definition compareAndSwapSandboxRebuildAuthority ::
  "registry_env \<Rightarrow> rebuild_authority \<Rightarrow> js \<Rightarrow> swap_result registry_op" where
  "compareAndSwapSandboxRebuildAuthority env expected replacementInput =
     bind (lift_res (validateReplacement env expected replacementInput)) (\<lambda>replacement.
       withLock (bind (load env) (\<lambda>data.
         bind (lift_res (swapSandboxRebuildAuthorityInRegistry env data expected replacement))
           (\<lambda>(registry, result).
             case result of
               StaleAuthority e \<Rightarrow> ret result
             | Committed row \<Rightarrow>
                 save_or_confirm env registry (ra_sandboxName expected) replacement result))))"

end
