(* ===== verification/Registry_Codec.thy ===== *)
theory Registry_Codec
  imports Registry_Model
begin

text \<open>
  What the validators of registry rows accept and give back: each is a reader and writer pair in
  the sense of \<open>Session_Values\<close>, so that a value that was validated once is stored and read back
  unchanged.
\<close>

section \<open>Readers that throw\<close>

definition right :: "'e + 'a \<Rightarrow> 'a option" where
  "right r = (case r of Inl _ \<Rightarrow> None | Inr a \<Rightarrow> Some a)"

lemma right_eq_Some [simp]: "right r = Some a \<longleftrightarrow> r = Inr a"
  by (cases r) (auto simp: right_def)

section \<open>Text that trimming leaves alone\<close>

lemma visible_chars:
  "is_digit c \<Longrightarrow> \<not> is_js_space c"
  "is_lower c \<Longrightarrow> \<not> is_js_space c"
  "is_upper c \<Longrightarrow> \<not> is_js_space c"
  "is_lower_hex c \<Longrightarrow> \<not> is_js_space c"
  "is_uuid_char c \<Longrightarrow> \<not> is_js_space c"
  by (auto simp: char_class_defs is_uuid_char_def)

lemma key_char_visible: "is_key_char c \<Longrightarrow> \<not> is_js_space c" "is_alnum c \<Longrightarrow> \<not> is_js_space c"
  by (auto simp: is_key_char_def is_alnum_def visible_chars) (simp_all add: is_js_space_def code_def)

lemma trim_key [simp]: "BASELINE_TRANSITION_KEY_PATTERN s \<Longrightarrow> trim s = s"
  by (rule trim_no_space)
    (auto simp: BASELINE_TRANSITION_KEY_PATTERN_def list_all_iff key_char_visible split: list.splits)

lemma trim_hex [simp]: "is_hex_string n s \<Longrightarrow> trim s = s"
  by (rule trim_no_space) (auto simp: is_hex_string_def list_all_iff visible_chars)

lemma iso_tail_last: "iso_tail_ok y s \<Longrightarrow> s \<noteq> [] \<and> last s = CHR ''Z''"
  by (cases "(y, s)" rule: iso_tail_ok.cases) auto

lemma digits_value_hd: "digits_value n s = Some m \<Longrightarrow> s \<noteq> [] \<Longrightarrow> is_digit (hd s)"
  by (cases s) (auto split: if_splits)

lemma iso_parts:
  assumes "canonical_iso s"
  obtains n y where "iso_tail_ok y (drop n s)"
    "is_digit (hd s) \<or> hd s = CHR ''+'' \<or> hd s = CHR ''-''"
proof -
  have "is_digit (hd s)" if "digits_value 0 (take 4 s) = Some y" "length s = 24" for y
    using that digits_value_hd [of 0 "take 4 s" y] by (cases s) auto
  then show ?thesis
    using assms that
    by (auto simp: canonical_iso_def Let_def split: if_splits option.splits)
qed

lemma trim_iso [simp]:
  assumes "canonical_iso s" shows "trim s = s"
proof -
  obtain n y where tail: "iso_tail_ok y (drop n s)"
    and head: "is_digit (hd s) \<or> hd s = CHR ''+'' \<or> hd s = CHR ''-''"
    using assms by (rule iso_parts)
  have "drop n s \<noteq> []" "last (drop n s) = CHR ''Z''"
    using iso_tail_last [OF tail] by blast+
  then have "s \<noteq> []" "last s = CHR ''Z''"
    by (auto simp: last_drop)
  moreover have "\<not> is_js_space (hd s)"
    using head visible_chars(1) by (auto simp: is_js_space_def code_def)
  ultimately show ?thesis
    by (simp add: trim_id is_js_space_def code_def)
qed

lemma hyphen_visible [simp]: "\<not> is_js_space (CHR ''-'')"
  by (simp add: is_js_space_def code_def)

lemma trim_uuid [simp]:
  assumes "BASELINE_TRANSITION_ID_PATTERN s" shows "trim s = s"
proof (rule trim_no_space)
  obtain ps where ps: "split_on (CHR ''-'') s = ps" "list_all (list_all is_uuid_char) ps"
    using assms by (auto simp: BASELINE_TRANSITION_ID_PATTERN_def split: list.splits)
  have "list_all (\<lambda>c. \<not> is_js_space c) (join_with (CHR ''-'') ps)"
    using ps(2) by (induction "CHR ''-''" ps rule: join_with.induct)
      (auto simp: list_all_iff visible_chars)
  then show "list_all (\<lambda>c. \<not> is_js_space c) s"
    using ps(1) join_split by metis
qed

section \<open>Exclusions\<close>

definition valid_exclusion :: "baseline_exclusion \<Rightarrow> bool" where
  "valid_exclusion e =
     (BASELINE_TRANSITION_KEY_PATTERN (ex_agent e) \<and> BASELINE_TRANSITION_KEY_PATTERN (ex_key e)
      \<and> is_hex_string 64 (ex_digest e) \<and> pred_option canonical_iso (ex_acknowledgedAt e))"

lemma exclusion_members [simp]:
  "isObjectRecord (exclusion_to_js e)"
  "js_get (exclusion_to_js e) ''version'' = JNum (NInt 1)"
  "js_get (exclusion_to_js e) ''agent'' = JStr (ex_agent e)"
  "js_get (exclusion_to_js e) ''key'' = JStr (ex_key e)"
  "js_get (exclusion_to_js e) ''digest'' = JStr (ex_digest e)"
  "js_get (exclusion_to_js e) ''acknowledgedAt'' =
     (case ex_acknowledgedAt e of None \<Rightarrow> JUndef | Some s \<Rightarrow> JStr s)"
  "js_get (exclusion_to_js e) ''appliedAgentVersion'' =
     (case ex_appliedAgentVersion e of None \<Rightarrow> JUndef | Some v \<Rightarrow> js_opt JStr v)"
  by (auto simp: exclusion_to_js_def opt_entry_def split: option.splits)

lemma exclusion_written:
  assumes "valid_exclusion e"
  shows "normalizeBaselineExclusionEntry (exclusion_to_js e) = Inr e"
proof -
  have "trimmed_member (exclusion_to_js e) ''agent'' = ex_agent e"
    "trimmed_member (exclusion_to_js e) ''key'' = ex_key e"
    "trimmed_member (exclusion_to_js e) ''digest'' = ex_digest e"
    "trimmed_optional (js_get (exclusion_to_js e) ''acknowledgedAt'') =
       js_get (exclusion_to_js e) ''acknowledgedAt''"
    using assms by (auto simp: trimmed_member_def trimmed_optional_def valid_exclusion_def
        split: option.splits)
  then show ?thesis
    using assms
    by (cases "ex_acknowledgedAt e"; cases "ex_appliedAgentVersion e")
      (auto simp: normalizeBaselineExclusionEntry_def Let_def valid_exclusion_def js_opt_def
        isCanonicalIsoTimestamp_def split: option.splits)
qed

lemma exclusion_read_valid:
  "normalizeBaselineExclusionEntry v = Inr e \<Longrightarrow> valid_exclusion e"
  by (auto simp: normalizeBaselineExclusionEntry_def Let_def valid_exclusion_def
      isCanonicalIsoTimestamp_def split: if_splits js.splits)

lemma exclusion_clean: "json_clean (exclusion_to_js e)"
  by (auto simp: exclusion_to_js_def opt_entry_def js_opt_def split: option.splits)

lemma exclusion_not_null: "exclusion_to_js e \<noteq> JNull" "exclusion_to_js e \<noteq> JUndef"
  by (simp_all add: exclusion_to_js_def)

interpretation exclusion: value_codec
  "\<lambda>v. right (normalizeBaselineExclusionEntry v)" exclusion_to_js valid_exclusion
  by unfold_locales
    (auto simp: exclusion_written exclusion_clean exclusion_read_valid exclusion_not_null)

definition valid_exclusions :: "baseline_exclusion list \<Rightarrow> bool" where
  "valid_exclusions es = (es \<noteq> [] \<and> list_all valid_exclusion es \<and> distinct (map ex_key es))"

lemma alist_set_absent: "k \<notin> set (map fst kvs) \<Longrightarrow> alist_set k v kvs = kvs @ [(k, v)]"
  by (induction kvs rule: alist_set.induct) auto

lemma set_alist_set: "set (alist_set k v kvs) \<subseteq> insert (k, v) (set kvs)"
  by (induction kvs rule: alist_set.induct) auto

lemma by_key_distinct:
  "distinct (map ex_key es) \<Longrightarrow> set (map ex_key es) \<inter> set (map fst acc) = {} \<Longrightarrow>
     fold (\<lambda>e. alist_set (ex_key e) e) es acc = acc @ map (\<lambda>e. (ex_key e, e)) es"
  by (induction es arbitrary: acc) (auto simp: alist_set_absent)

lemma by_key_invariant:
  assumes "list_all (\<lambda>(k, e). k = ex_key e \<and> P e) acc" "distinct (map fst acc)" "list_all P es"
  shows "list_all (\<lambda>(k, e). k = ex_key e \<and> P e) (fold (\<lambda>e. alist_set (ex_key e) e) es acc)
         \<and> distinct (map fst (fold (\<lambda>e. alist_set (ex_key e) e) es acc))
         \<and> (es \<noteq> [] \<or> acc \<noteq> [] \<longrightarrow> fold (\<lambda>e. alist_set (ex_key e) e) es acc \<noteq> [])"
  using assms
proof (induction es arbitrary: acc)
  case (Cons e es)
  have "list_all (\<lambda>(k, e). k = ex_key e \<and> P e) (alist_set (ex_key e) e acc)"
    using Cons.prems set_alist_set [of "ex_key e" e acc] by (auto simp: list_all_iff)
  moreover have "alist_set (ex_key e) e acc \<noteq> []"
    by (cases acc) (auto split: if_splits)
  ultimately show ?case
    using Cons.IH [of "alist_set (ex_key e) e acc"] Cons.prems by (simp add: distinct_alist_set)
qed simp

lemma exclusions_valid:
  assumes "normalizeBaselineExclusions v = Inr (Some es)" shows "valid_exclusions es"
proof -
  obtain vs xs where xs: "traverse normalizeBaselineExclusionEntry vs = Inr xs"
    "es = map snd (exclusions_by_key xs)" "exclusions_by_key xs \<noteq> []"
    using assms by (auto simp: normalizeBaselineExclusions_def Let_def split: js.splits if_splits)
  have "list_all (\<lambda>(k, e). k = ex_key e \<and> valid_exclusion e) (exclusions_by_key xs)
        \<and> distinct (map fst (exclusions_by_key xs))"
    using by_key_invariant [of valid_exclusion "[]" xs] traverse_all [OF xs(1) exclusion_read_valid]
    by (simp add: exclusions_by_key_def)
  then have keys: "map ex_key es = map fst (exclusions_by_key xs)" and "list_all valid_exclusion es"
    and "distinct (map fst (exclusions_by_key xs))"
    unfolding xs(2) by (auto simp: list_all_iff)
  then show ?thesis
    unfolding valid_exclusions_def keys using xs(2,3) by blast
qed

lemma exclusions_written:
  assumes "valid_exclusions es"
  shows "normalizeBaselineExclusions (exclusions_to_js es) = Inr (Some es)"
proof -
  have "traverse normalizeBaselineExclusionEntry (map exclusion_to_js es) = Inr es"
    using assms by (intro traverse_id exclusion_written) (auto simp: valid_exclusions_def list_all_iff)
  moreover have "exclusions_by_key es = map (\<lambda>e. (ex_key e, e)) es"
    using assms by (simp add: exclusions_by_key_def by_key_distinct valid_exclusions_def)
  ultimately show ?thesis
    using assms by (simp add: normalizeBaselineExclusions_def exclusions_to_js_def Let_def
        valid_exclusions_def comp_def)
qed

lemma exclusions_clean: "json_clean (exclusions_to_js es)"
  unfolding exclusions_to_js_def by (induction es) (auto simp: exclusion_clean)

section \<open>Journals\<close>

definition valid_transition :: "baseline_transition \<Rightarrow> bool" where
  "valid_transition t =
     (BASELINE_TRANSITION_ID_PATTERN (tr_id t) \<and> canonical_iso (tr_startedAt t)
      \<and> valid_exclusion (tr_exclusion t) \<and> live_target_ok (tr_operation t) (tr_targetLiveDigest t))"

lemma transition_members [simp]:
  "isObjectRecord (transition_to_js t)"
  "js_get (transition_to_js t) ''id'' = JStr (tr_id t)"
  "js_get (transition_to_js t) ''operation'' = JStr (baseline_operation_id (tr_operation t))"
  "js_get (transition_to_js t) ''exclusion'' = exclusion_to_js (tr_exclusion t)"
  "js_get (transition_to_js t) ''targetLiveDigest'' = js_opt JStr (tr_targetLiveDigest t)"
  "js_get (transition_to_js t) ''startedAt'' = JStr (tr_startedAt t)"
  by (simp_all add: transition_to_js_def)

lemma parse_operation_id [simp]: "parse_operation (JStr (baseline_operation_id o')) = Some o'"
  by (cases o') (simp_all add: parse_operation_def)

lemma live_target_written:
  "live_target_ok o' d \<Longrightarrow> live_target (js_opt JStr d) = d"
  by (cases d) (auto simp: live_target_ok_def live_target_def split: baseline_operation.splits)

lemma transition_not_undef [simp]: "transition_to_js t \<noteq> JUndef" "transition_to_js t \<noteq> JNull"
  by (simp_all add: transition_to_js_def)

lemma transition_written:
  assumes "valid_transition t"
  shows "normalizeBaselineExclusionTransition (transition_to_js t) = Inr (Some t)"
  using assms
  by (cases t) (auto simp: normalizeBaselineExclusionTransition_def valid_transition_def Let_def
      trimmed_member_def exclusion_written isCanonicalIsoTimestamp_def valid_exclusion_def
      live_target_written pred_option_def)

lemma transition_valid:
  "normalizeBaselineExclusionTransition v = Inr (Some t) \<Longrightarrow> valid_transition t"
  by (auto simp: normalizeBaselineExclusionTransition_def valid_transition_def Let_def
      isCanonicalIsoTimestamp_def split: if_splits option.splits)
    (erule exclusion_read_valid)

lemma transition_clean: "json_clean (transition_to_js t)"
  by (auto simp: transition_to_js_def exclusion_clean js_opt_def split: option.splits)

text \<open>The second look at the staged exclusion never finds anything: the entry was validated before.\<close>

lemma transition_source_checked:
  "normalizeBaselineExclusionTransition v \<noteq> Inl InvalidTransitionSource"
  by (auto simp: normalizeBaselineExclusionTransition_def Let_def andThen_def isCanonicalIsoTimestamp_def
      valid_exclusion_def normalizeBaselineExclusionEntry_def
      split: if_splits option.splits sum.splits js.splits dest: exclusion_read_valid)

section \<open>Receipts\<close>

lemma pins_stable:
  assumes "normalizeTrustedPrivatePolicyPinReceipt env content v = Some (Some r)"
  shows "normalizeTrustedPrivatePolicyPinReceipt env content r = Some (Some r)"
    and "json_clean r"
  using assms
  by (auto simp: normalizeTrustedPrivatePolicyPinReceipt_def js_keys_def split: if_splits)

lemma pins_absent: "normalizeTrustedPrivatePolicyPinReceipt env content JUndef = Some None"
  by (simp add: normalizeTrustedPrivatePolicyPinReceipt_def)

lemma pattern_clean: "requirePattern p v \<Longrightarrow> json_clean v"
  by (cases v) (auto simp: requirePattern_def)

lemma path_clean: "requireRelativePath b v \<Longrightarrow> json_clean v"
  by (cases v) (auto simp: requireRelativePath_def)

lemma clean_arr_all: "json_clean_arr xs \<longleftrightarrow> list_all json_clean xs"
  by (induction xs) auto

lemma arguments_clean: "requireArguments v \<Longrightarrow> json_clean v"
proof (cases v)
  case (JArr xs)
  moreover assume "requireArguments v"
  ultimately have "json_clean x" if "x \<in> set xs" for x
    using that by (cases x) (auto simp: requireArguments_def list_all_iff)
  then show ?thesis
    by (simp add: JArr clean_arr_all list_all_iff)
qed (auto simp: requireArguments_def)

lemma environment_clean: "requireEnvironmentNames v \<Longrightarrow> json_clean v"
  by (cases v) (auto simp: requireEnvironmentNames_def clean_arr_all list_all_iff pattern_clean)

lemma exact_keysI:
  "distinct (js_keys r) \<Longrightarrow> distinct ks \<Longrightarrow> set (js_keys r) = set ks \<Longrightarrow> exactKeys r ks"
  unfolding exactKeys_def by (metis distinct_remdups_id sorted_list_of_set_sort_remdups)

lemma native_exact_keys:
  "exactKeys (native_receipt c) NATIVE_KEYS"
  "exactKeys (js_get (native_receipt c) ''artifact'') [''digest'', ''source'', ''version'']"
  "exactKeys (js_get (js_get (native_receipt c) ''artifact'') ''source'') [''repository'', ''revision'']"
  "exactKeys (js_get (native_receipt c) ''launch'')
     [''arguments'', ''environmentNames'', ''executable'', ''workingDirectory'']"
  "exactKeys (js_get (js_get (native_receipt c) ''launch'') ''executable'') [''digest'', ''relativePath'']"
  by (rule exact_keysI; auto simp: native_receipt_def Let_def js_keys_def NATIVE_KEYS_def)+

lemma native_members:
  "isObjectRecord (native_receipt c)"
  "js_get (native_receipt c) ''schemaVersion'' = JNum (NInt 1)"
  "js_get (native_receipt c) ''kind'' = JStr ''native-artifact''"
  "js_get (native_receipt c) ''contractVersion'' = JNum (NInt 1)"
  "js_get (native_receipt c) ''agent'' = JStr ''openclaw''"
  "js_get (native_receipt c) ''platform'' = JStr ''windows/x64''"
  "js_get (native_receipt c) ''startupProfileContractVersion'' = JNum (NInt 1)"
  "js_get (native_receipt c) ''encodedProfile'' = js_get c ''encodedProfile''"
  "js_get (native_receipt c) ''startupProfileSha256'' = js_get c ''startupProfileSha256''"
  "js_get (native_receipt c) ''credentialProxyReplayRequired'' = JBool True"
  "js_get (native_receipt c) ''shared'' = JBool True"
  by (simp_all add: native_receipt_def Let_def)

lemma native_artifact_members:
  "isObjectRecord (js_get (native_receipt c) ''artifact'')"
  "js_get (js_get (native_receipt c) ''artifact'') ''digest'' = js_get (js_get c ''artifact'') ''digest''"
  "js_get (js_get (native_receipt c) ''artifact'') ''version'' = js_get (js_get c ''artifact'') ''version''"
  "isObjectRecord (js_get (js_get (native_receipt c) ''artifact'') ''source'')"
  "js_get (js_get (js_get (native_receipt c) ''artifact'') ''source'') ''repository'' =
     js_get (js_get (js_get c ''artifact'') ''source'') ''repository''"
  "js_get (js_get (js_get (native_receipt c) ''artifact'') ''source'') ''revision'' =
     js_get (js_get (js_get c ''artifact'') ''source'') ''revision''"
  by (simp_all add: native_receipt_def Let_def)

lemma native_launch_members:
  "isObjectRecord (js_get (native_receipt c) ''launch'')"
  "js_get (js_get (native_receipt c) ''launch'') ''arguments'' = js_get (js_get c ''launch'') ''arguments''"
  "js_get (js_get (native_receipt c) ''launch'') ''workingDirectory'' =
     js_get (js_get c ''launch'') ''workingDirectory''"
  "js_get (js_get (native_receipt c) ''launch'') ''environmentNames'' =
     js_get (js_get c ''launch'') ''environmentNames''"
  "isObjectRecord (js_get (js_get (native_receipt c) ''launch'') ''executable'')"
  "js_get (js_get (js_get (native_receipt c) ''launch'') ''executable'') ''relativePath'' =
     js_get (js_get (js_get c ''launch'') ''executable'') ''relativePath''"
  "js_get (js_get (js_get (native_receipt c) ''launch'') ''executable'') ''digest'' =
     js_get (js_get (js_get c ''launch'') ''executable'') ''digest''"
  by (simp_all add: native_receipt_def Let_def)

lemma native_profile_clean: "native_profile_ok env p d \<Longrightarrow> json_clean p"
  by (cases p) (auto simp: native_profile_ok_def)

lemma native_stable:
  assumes "native_contract_ok env c"
  shows "native_contract_ok env (native_receipt c)" "native_receipt (native_receipt c) = native_receipt c"
    "json_clean (native_receipt c)"
proof -
  show "native_receipt (native_receipt c) = native_receipt c"
    by (simp add: native_receipt_def Let_def)
  show "native_contract_ok env (native_receipt c)"
    using assms unfolding native_contract_ok_def Let_def
    by (simp add: native_exact_keys native_members native_artifact_members native_launch_members)
  show "json_clean (native_receipt c)"
    using assms
    by (auto simp: native_contract_ok_def native_receipt_def Let_def pattern_clean path_clean
        arguments_clean environment_clean native_profile_clean)
qed

lemma pattern_text_clean: "pattern_text v = Some s \<Longrightarrow> json_clean v"
  by (induction v rule: pattern_text.induct) auto

lemma pattern_test_clean: "pattern_test p v \<Longrightarrow> json_clean v"
  by (auto simp: pattern_test_def intro: pattern_text_clean split: option.splits)

lemma base64_url_clean: "decodeCanonicalBase64Url v \<noteq> None \<Longrightarrow> json_clean v"
  by (cases v) (auto simp: decodeCanonicalBase64Url_def)

lemma base64_standard_clean: "decodeCanonicalStandardBase64 v \<noteq> None \<Longrightarrow> json_clean v"
  by (cases v) (auto simp: decodeCanonicalStandardBase64_def)

lemma managed_members:
  "js_truthy (managed_receipt v)"
  "js_get (managed_receipt v) ''schemaVersion'' = JNum (NInt 1)"
  "js_get (managed_receipt v) ''kind'' = JStr ''managed-image''"
  "js_get (managed_receipt v) ''reference'' = js_get v ''reference''"
  "js_get (managed_receipt v) ''platform'' = js_get v ''platform''"
  "js_get (managed_receipt v) ''release'' = js_get v ''release''"
  "js_get (managed_receipt v) ''sourceRevision'' = js_get v ''sourceRevision''"
  "js_get (managed_receipt v) ''sourceCohort'' = js_get v ''sourceCohort''"
  "js_get (managed_receipt v) ''capabilityContractVersion'' = js_get v ''capabilityContractVersion''"
  "js_get (managed_receipt v) ''startupProfileContractVersion'' = js_get v ''startupProfileContractVersion''"
  "js_get (managed_receipt v) ''encodedProfile'' = js_get v ''encodedProfile''"
  "js_get (managed_receipt v) ''startupProfileSha256'' = js_get v ''startupProfileSha256''"
  "js_get (managed_receipt v) ''credentialProxyReplayRequired'' = js_get v ''credentialProxyReplayRequired''"
  "js_get (managed_receipt v) ''corporateCaB64'' = js_get v ''corporateCaB64''"
  "js_get (managed_receipt v) ''shared'' = JBool True"
  by (simp_all add: managed_receipt_def optional_member_def)

lemma managed_stable:
  assumes "managed_fields_ok env v" "managed_profile_ok env v"
  shows "managed_fields_ok env (managed_receipt v)" "managed_profile_ok env (managed_receipt v)"
    "managed_receipt (managed_receipt v) = managed_receipt v"
proof -
  show "managed_fields_ok env (managed_receipt v)"
    using assms(1) unfolding managed_fields_ok_def managed_members by blast
  show "managed_profile_ok env (managed_receipt v)"
    using assms(2) unfolding managed_profile_ok_def managed_members .
  show "managed_receipt (managed_receipt v) = managed_receipt v"
    unfolding managed_receipt_def [of "managed_receipt v"] optional_member_def managed_members
    by (simp add: managed_receipt_def optional_member_def managed_members)
qed

lemma string_clean:
  "is_string v \<Longrightarrow> json_clean v" "js_bool v \<noteq> None \<Longrightarrow> json_clean v"
  by (cases v; auto simp: is_string_def)+

lemma managed_clean:
  assumes "managed_fields_ok env v" "managed_profile_ok env v"
  shows "json_clean (managed_receipt v)"
proof -
  have ca: "json_clean (js_get v ''corporateCaB64'')" if "js_get v ''corporateCaB64'' \<noteq> JUndef"
    using assms(2) that base64_standard_clean
    by (auto simp: managed_profile_ok_def Let_def split: js.splits option.splits)
  have "json_clean (js_get v ''reference'')" "json_clean (js_get v ''sourceCohort'')"
    using assms(1) by (auto simp: managed_fields_ok_def split: js.splits)
  moreover have "json_clean (js_get v ''release'')" "json_clean (js_get v ''sourceRevision'')"
    "json_clean (js_get v ''encodedProfile'')" "json_clean (js_get v ''startupProfileSha256'')"
    "json_clean (js_get v ''credentialProxyReplayRequired'')"
    "json_clean (js_get v ''capabilityContractVersion'')"
    "json_clean (js_get v ''startupProfileContractVersion'')"
    "js_get v ''platform'' \<noteq> JUndef \<Longrightarrow> json_clean (js_get v ''platform'')"
    using assms(1) pattern_test_clean base64_url_clean string_clean
    unfolding managed_fields_ok_def by auto
  ultimately show ?thesis
    using ca by (simp add: managed_receipt_def optional_member_def)
qed

lemma workload_stable:
  assumes "cloneSandboxWorkloadReceipt env v = Some r"
  shows "cloneSandboxWorkloadReceipt env r = Some r \<and> json_clean r"
proof -
  consider (native) "r = native_receipt v" "native_contract_ok env v"
    | (legacy) ref where "r = JObj [(''schemaVersion'', JNum (NInt 1)), (''kind'', JStr ''legacy-dockerfile''),
          (''reference'', ref), (''shared'', JBool False)]" "ref = JNull \<or> nonEmptyString ref"
    | (managed) "r = managed_receipt v" "managed_fields_ok env v" "managed_profile_ok env v"
    using assms
    by (auto simp: cloneSandboxWorkloadReceipt_def parseNativeArtifactWorkloadReceiptV1_def Let_def
        split: if_splits)
  then show ?thesis
  proof cases
    case native
    moreover have "js_truthy (native_receipt v)"
      by (simp add: native_receipt_def Let_def)
    ultimately show ?thesis
      using native_stable [OF native(2)]
      by (simp add: cloneSandboxWorkloadReceipt_def parseNativeArtifactWorkloadReceiptV1_def native_members)
  next
    case legacy
    then show ?thesis
      by (cases ref) (auto simp: cloneSandboxWorkloadReceipt_def nonEmptyString_def)
  next
    case managed
    then show ?thesis
      using managed_stable [OF managed(2,3)] managed_clean [OF managed(2,3)]
      by (simp add: cloneSandboxWorkloadReceipt_def managed_members)
  qed
qed

lemma workload_not_undef: "cloneSandboxWorkloadReceipt env JUndef = None"
  by (simp add: cloneSandboxWorkloadReceipt_def)

section \<open>Custom policies\<close>

definition valid_policy :: "registry_env \<Rightarrow> custom_policy \<Rightarrow> bool" where
  "valid_policy env p =
     (trim (cp_name p) \<noteq> []
      \<and> (case cp_trustedPrivatePins p of
           None \<Rightarrow> True
         | Some r \<Rightarrow> normalizeTrustedPrivatePolicyPinReceipt env (cp_content p) r = Some (Some r)
                      \<and> json_clean r))"

lemma policy_members [simp]:
  "isObjectRecord (custom_policy_to_js p)"
  "js_get (custom_policy_to_js p) ''name'' = JStr (cp_name p)"
  "js_get (custom_policy_to_js p) ''content'' = JStr (cp_content p)"
  "js_get (custom_policy_to_js p) ''pendingContent'' = nullish JUndef (map_option JStr (cp_pendingContent p))"
  "js_get (custom_policy_to_js p) ''sourcePath'' = nullish JUndef (map_option JStr (cp_sourcePath p))"
  "js_get (custom_policy_to_js p) ''appliedAt'' = nullish JUndef (map_option JStr (cp_appliedAt p))"
  "js_get (custom_policy_to_js p) ''trustedPrivatePins'' = nullish JUndef (cp_trustedPrivatePins p)"
  by (auto simp: custom_policy_to_js_def opt_entry_def nullish_def split: option.splits)

lemma optional_text_member:
  "js_string (nullish JUndef (map_option JStr x)) = x"
  "nullish JUndef (map_option JStr x) = JUndef \<or> is_string (nullish JUndef (map_option JStr x))"
  by (cases x; simp add: is_string_def)+

lemma policy_written:
  assumes "valid_policy env p"
  shows "normalizeCustomPolicyEntry (normalizeTrustedPrivatePolicyPinReceipt env) (custom_policy_to_js p) = Inr p"
proof -
  have "normalizeTrustedPrivatePolicyPinReceipt env (cp_content p) (nullish JUndef (cp_trustedPrivatePins p))
      = Some (cp_trustedPrivatePins p)"
    using assms by (auto simp: valid_policy_def pins_absent split: option.splits)
  then show ?thesis
    using assms by (simp add: normalizeCustomPolicyEntry_def optional_string_member_def
        optional_text_member valid_policy_def)
qed

lemma policy_valid:
  assumes "normalizeCustomPolicyEntry (normalizeTrustedPrivatePolicyPinReceipt env) v = Inr p"
  shows "valid_policy env p"
  using assms
  by (auto simp: normalizeCustomPolicyEntry_def valid_policy_def pins_stable
      split: option.splits if_splits prod.splits)

lemma policy_clean: "valid_policy env p \<Longrightarrow> json_clean (custom_policy_to_js p)"
  by (auto simp: custom_policy_to_js_def opt_entry_def valid_policy_def split: option.splits)

definition valid_policies :: "registry_env \<Rightarrow> custom_policy list \<Rightarrow> bool" where
  "valid_policies env ps = (ps \<noteq> [] \<and> list_all (valid_policy env) ps)"

lemma policies_valid:
  "normalizeCustomPolicyEntries (normalizeTrustedPrivatePolicyPinReceipt env) v = Inr (Some ps) \<Longrightarrow>
     valid_policies env ps"
  by (auto simp: normalizeCustomPolicyEntries_def valid_policies_def policy_valid
      intro: traverse_all split: js.splits if_splits)

lemma policies_written:
  assumes "valid_policies env ps"
  shows "normalizeCustomPolicyEntries (normalizeTrustedPrivatePolicyPinReceipt env) (custom_policies_to_js ps)
         = Inr (Some ps)"
proof -
  have "traverse (normalizeCustomPolicyEntry (normalizeTrustedPrivatePolicyPinReceipt env))
      (map custom_policy_to_js ps) = Inr ps"
    using assms by (intro traverse_id policy_written) (auto simp: valid_policies_def list_all_iff)
  then show ?thesis
    using assms by (simp add: normalizeCustomPolicyEntries_def custom_policies_to_js_def valid_policies_def)
qed

lemma policies_clean: "valid_policies env ps \<Longrightarrow> json_clean (custom_policies_to_js ps)"
  by (auto simp: custom_policies_to_js_def clean_arr_all list_all_iff valid_policies_def policy_clean)

section \<open>Extra providers\<close>

definition valid_extra_providers :: "string list option \<Rightarrow> bool" where
  "valid_extra_providers ps =
     (case ps of None \<Rightarrow> True
      | Some xs \<Rightarrow> xs \<noteq> [] \<and> sorted xs \<and> distinct xs \<and> list_all EXTRA_PROVIDER_NAME_PATTERN xs)"

lemma providers_valid: "valid_extra_providers (normalizeExtraProviders v)"
  by (auto simp: normalizeExtraProviders_def valid_extra_providers_def Let_def list_all_iff split: js.splits)

lemma map_filter_strings [simp]: "List.map_filter js_string (map JStr xs) = xs"
  by (induction xs) (simp_all add: map_filter_simps)

lemma uniq_distinct: "distinct xs \<Longrightarrow> uniq xs = xs"
  by (simp add: uniq_def distinct_remdups_id)

lemma providers_written:
  "valid_extra_providers ps \<Longrightarrow> normalizeExtraProviders (providers_to_js ps) = ps"
  by (auto simp: valid_extra_providers_def normalizeExtraProviders_def providers_to_js_def Let_def
      uniq_distinct sorted_sort_id list_all_iff filter_id_conv split: option.splits)

end
