(* ===== verification/Registry_Facts.thy ===== *)
theory Registry_Facts
  imports Registry_Authority Registry_Codec
begin

text \<open>
  What every operation on the registry file does to it: the default pointer and its revision
  over any sequence of calls, what a save writes, and when an operation is refused.
\<close>

section \<open>Loading and saving\<close>

definition loaded :: "registry_env \<Rightarrow> registry_file \<Rightarrow> registry_error + registry" where
  "loaded env f =
     (case f of
        RegistryAbsent \<Rightarrow> normalizeRegistry env (JObj [(''sandboxes'', JObj []), (''defaultSandbox'', JNull)])
      | RegistryUnreadable \<Rightarrow> Inl ConfigUnreadable
      | RegistryCorrupt \<Rightarrow> Inl ConfigCorrupt
      | RegistryJson v \<Rightarrow> normalizeRegistry env v)"

lemma load_eq [simp]: "load env w = (loaded env (g_file w), w)"
  by (auto simp: load_def loaded_def split: registry_file.splits)

definition on_disk :: "registry \<Rightarrow> registry_file" where
  "on_disk d = RegistryJson (json_persist (registry_to_js d))"

lemma write_file:
  "g_file (snd (writeConfigFile v w)) = g_file w
   \<or> g_file (snd (writeConfigFile v w)) = RegistryJson (json_persist v)"
  by (auto simp: writeConfigFile_def Let_def split: write_answer.splits)

lemma write_ok:
  "writeConfigFile v w = (Inr u, w') \<Longrightarrow> g_file w' = RegistryJson (json_persist v)"
  by (auto simp: writeConfigFile_def Let_def split: write_answer.splits)

lemma save_file:
  "g_file (snd (save env r w)) = g_file w
   \<or> (\<exists>d. serializeRegistryForDisk env r = Inr d \<and> g_file (snd (save env r w)) = on_disk d)"
  using write_file by (auto simp: save_def bind_def on_disk_def split: sum.splits)

lemma save_ok:
  "save env r w = (Inr u, w') \<Longrightarrow> \<exists>d. serializeRegistryForDisk env r = Inr d \<and> g_file w' = on_disk d"
  by (auto simp: save_def on_disk_def dest: write_ok)

lemma withLock_ok:
  assumes "withLock f w = (Inr a, w')"
  obtains w0 w1 where "g_file w0 = g_file w" "g_now w0 = g_now w" "f w0 = (Inr a, w1)" "g_file w' = g_file w1"
proof -
  obtain n w1 where "f (w\<lparr>g_lock := \<lambda>i. g_lock w (n + i)\<rparr>) = (Inr a, w1)" "g_file w' = g_file w1"
    using assms by (auto simp: withLock_def Let_def split: sum.splits prod.splits if_splits)
  then show ?thesis
    by (intro that [of "w\<lparr>g_lock := \<lambda>i. g_lock w (n + i)\<rparr>" w1]) simp_all
qed

lemma withLock_file:
  "g_file (snd (withLock f w)) = g_file w
   \<or> (\<exists>w0. g_file w0 = g_file w \<and> g_now w0 = g_now w
         \<and> g_file (snd (withLock f w)) = g_file (snd (f w0)))"
proof (cases "acquireLock (g_lock w)")
  case (Inr n)
  let ?w0 = "w\<lparr>g_lock := \<lambda>i. g_lock w (n + i)\<rparr>"
  have "g_file (snd (withLock f w)) = g_file (snd (f ?w0))"
    using Inr by (auto simp: withLock_def Let_def split: prod.splits)
  moreover have "g_file ?w0 = g_file w" "g_now ?w0 = g_now w"
    by simp_all
  ultimately show ?thesis
    by blast
qed (simp add: withLock_def)

section \<open>The default pointer\<close>

text \<open>
  The contract of a change of the registry: the revision never goes back, and the pointer moves
  only together with it.
\<close>

definition pointer_step :: "registry \<Rightarrow> registry \<Rightarrow> bool" where
  "pointer_step r r' =
     (r_defaultSelectionRevision r \<le> r_defaultSelectionRevision r'
      \<and> (r_defaultSandbox r' \<noteq> r_defaultSandbox r \<longrightarrow>
           r_defaultSelectionRevision r < r_defaultSelectionRevision r'))"

lemma pointer_step_refl [simp, intro]: "pointer_step r r"
  by (simp add: pointer_step_def)

lemma pointer_step_trans: "pointer_step r r' \<Longrightarrow> pointer_step r' r'' \<Longrightarrow> pointer_step r r''"
  by (auto simp: pointer_step_def)

lemma pointer_step_rows [simp]:
  "pointer_step r (r\<lparr>r_sandboxes := rows\<rparr>)" "pointer_step r (r\<lparr>r_extraProviders := ps\<rparr>)"
  by (simp_all add: pointer_step_def)

lemma pointer_step_select:
  "select_default d (r\<lparr>r_sandboxes := rows\<rparr>) = Inr r' \<Longrightarrow> pointer_step r r'"
  "select_default d r = Inr r' \<Longrightarrow> pointer_step r r'"
  by (auto simp: select_default_def pointer_step_def increment_revision)

lemma pointer_step_claim:
  assumes "claimInitialDefaultInRegistry (r\<lparr>r_sandboxes := rows\<rparr>) name = Inr r'"
  shows "pointer_step r r'"
  using assms by (auto simp: claimInitialDefaultInRegistry_def pointer_step_select split: if_splits)

lemma pointer_step_register:
  assumes "register_in_registry env now entry r = Inr r'" shows "pointer_step r r'"
  using assms
  by (auto simp: register_in_registry_def Let_def claimInitialDefaultInRegistry_def select_default_def
      pointer_step_def increment_revision split: if_splits)

lemma pointer_step_remove:
  assumes "removeSandboxFromRegistry r name = Inr (r', receipt)" shows "pointer_step r r'"
  using assms
  by (auto simp: removeSandboxFromRegistry_def Let_def pointer_step_def increment_revision
      normalizeDefaultSelectionRevision_def split: row.splits if_splits)

lemma pointer_step_set:
  "setDefaultInRegistry r name = Inr (Some r') \<Longrightarrow> pointer_step r r'"
  by (auto simp: setDefaultInRegistry_def pointer_step_select split: if_splits)

lemma pointer_step_clear:
  "clearRegistry r = Inr r' \<Longrightarrow> pointer_step r r'"
  by (auto simp: clearRegistry_def pointer_step_def increment_revision
      normalizeDefaultSelectionRevision_def split: if_splits)

lemma pointer_step_restore_entry:
  "restoreSandboxEntryInRegistry r entry t = Inr r' \<Longrightarrow> pointer_step r r'"
  by (auto simp: restoreSandboxEntryInRegistry_def Let_def pointer_step_select
      split: option.splits if_splits)

lemma pointer_step_restore_missing:
  "restoreSandboxIfMissingInRegistry r receipt = Inr (r', b) \<Longrightarrow> pointer_step r r'"
  by (auto simp: restoreSandboxIfMissingInRegistry_def Let_def pointer_step_def increment_revision
      normalizeDefaultSelectionRevision_def split: option.splits if_splits)

text \<open>Saving repairs a stale pointer, and then advances the revision too.\<close>

lemma pointer_step_serialize:
  "serializeRegistryForDisk env r = Inr d \<Longrightarrow> pointer_step r d"
  by (auto simp: serializeRegistryForDisk_def Let_def pointer_step_def increment_revision
      normalizeDefaultSelectionRevision_def split: if_splits)

section \<open>The pointer in the file\<close>

text \<open>What the next load finds, without the rows.\<close>

definition file_pointer :: "registry_file \<Rightarrow> (string option \<times> int) option" where
  "file_pointer f =
     (case f of
        RegistryAbsent \<Rightarrow> Some (None, 0)
      | RegistryJson v \<Rightarrow>
          (let data = (if isObjectRecord v then v else JObj []) in
           map_option (\<lambda>n. (js_string (js_get data ''defaultSandbox''), n))
             (right (normalizeDefaultSelectionRevision (js_get data ''defaultSelectionRevision''))))
      | _ \<Rightarrow> None)"

lemma loaded_pointer:
  assumes "loaded env f = Inr r"
  shows "file_pointer f = Some (r_defaultSandbox r, r_defaultSelectionRevision r)"
  using assms
  by (auto simp: loaded_def file_pointer_def normalizeRegistry_def Let_def
      normalizeDefaultSelectionRevision_def normalize_rows_def parseSandboxRegistryEntries_def
      split: registry_file.splits)

lemma on_disk_members:
  "js_get (json_persist (registry_to_js d)) ''defaultSandbox'' = js_opt JStr (r_defaultSandbox d)"
  "js_get (json_persist (registry_to_js d)) ''defaultSelectionRevision''
     = JNum (NInt (r_defaultSelectionRevision d))"
  "js_get (json_persist (registry_to_js d)) ''sandboxes'' = JObj (json_persist_obj (r_sandboxes d))"
  "isObjectRecord (json_persist (registry_to_js d))"
  by (auto simp: registry_to_js_def js_opt_def split: option.splits)

lemma on_disk_pointer:
  assumes "revision_ok (r_defaultSelectionRevision d)"
  shows "file_pointer (on_disk d) = Some (r_defaultSandbox d, r_defaultSelectionRevision d)"
  using assms by (cases "r_defaultSandbox d")
    (auto simp: file_pointer_def on_disk_def on_disk_members right_def)

lemma serialize_revision_ok:
  "serializeRegistryForDisk env r = Inr d \<Longrightarrow> revision_ok (r_defaultSelectionRevision d)"
  by (auto simp: serializeRegistryForDisk_def Let_def increment_revision normalize_revision_ok
      split: if_splits)

section \<open>Operations that load, change and save\<close>

text \<open>
  The effect of one operation on the file, whatever the lock and the disk answer: it is left as it
  was, or it holds what a save wrote for a registry that follows the loaded one.
\<close>

definition writes :: "registry_env \<Rightarrow> registry \<Rightarrow> 'a registry_op \<Rightarrow> bool" where
  "writes env data m =
     (\<forall>w. g_file (snd (m w)) = g_file w
        \<or> (\<exists>r d. pointer_step data r \<and> serializeRegistryForDisk env r = Inr d
                \<and> g_file (snd (m w)) = on_disk d))"

lemma writes_refuse [simp, intro]: "writes env data (ret a)" "writes env data (throw e)"
  by (simp_all add: writes_def)

lemma writes_save: "pointer_step data r \<Longrightarrow> writes env data (save env r)"
  unfolding writes_def using save_file by metis

lemma writes_then_ret: "writes env data m \<Longrightarrow> writes env data (bind m (\<lambda>_. ret a))"
  by (auto simp: writes_def bind_def split: prod.splits sum.splits) (metis snd_conv)+

lemma writes_lift: "(\<And>a. r = Inr a \<Longrightarrow> writes env data (f a)) \<Longrightarrow> writes env data (bind (lift_res r) f)"
  by (cases r) (auto simp: writes_def bind_def)

lemma writes_world: "(\<And>t. writes env data (m t)) \<Longrightarrow> writes env data (\<lambda>w. m w w)"
  unfolding writes_def by blast

lemmas writes_rules = writes_save writes_then_ret writes_lift

text \<open>
  The contract of every mutation: it changes nothing by itself, or it takes the lock, loads, and
  then writes as above.
\<close>

locale registry_mutation =
  fixes env :: registry_env
    and operation :: "'a registry_op"
    and change :: "registry \<Rightarrow> 'b registry_op"
  assumes runs: "g_file (snd (operation w)) = g_file w
      \<or> g_file (snd (operation w)) = g_file (snd (withLock (bind (load env) change) w))"
    and change_writes: "writes env data (change data)"
begin

lemma mutation_file:
  "g_file (snd (operation w)) = g_file w
   \<or> (\<exists>data r d. loaded env (g_file w) = Inr data \<and> pointer_step data r
        \<and> serializeRegistryForDisk env r = Inr d \<and> g_file (snd (operation w)) = on_disk d)"
proof -
  obtain w0 where w0: "g_file w0 = g_file w" "g_file (snd (operation w)) = g_file w
      \<or> g_file (snd (operation w)) = g_file (snd (bind (load env) change w0))"
    using withLock_file [of "bind (load env) change" w] runs [of w] by metis
  show ?thesis
  proof (cases "loaded env (g_file w)")
    case (Inl e)
    then show ?thesis
      using w0 by (simp add: bind_def)
  next
    case (Inr data)
    then have "bind (load env) change w0 = change data w0"
      using w0(1) by (simp add: bind_def)
    then show ?thesis
      using w0 Inr change_writes [of data] unfolding writes_def by metis
  qed
qed

end

section \<open>Every mutation keeps the contract\<close>

lemma row_change_writes: "writes env data (row_change env name f data)"
  by (auto simp: row_change_def intro!: writes_lift writes_then_ret writes_save
      split: row.splits option.splits)

lemma row_change_clock: "writes env data (\<lambda>w. row_change env name (f w) data w)"
  by (rule writes_world [where m = "\<lambda>w. row_change env name (f w) data"]) (rule row_change_writes)

interpretation row_mutation: registry_mutation env "mutate_row env name f"
  "\<lambda>data w. row_change env name (f w) data w" for env name f
  by unfold_locales (simp_all add: mutate_row_def row_change_clock)

interpretation register: registry_mutation env "registerSandbox env entry"
  "\<lambda>data w. bind (lift_res (register_in_registry env (g_now w) entry data)) (save env) w" for env entry
proof unfold_locales
  fix data
  show "writes env data (\<lambda>w. bind (lift_res (register_in_registry env (g_now w) entry data)) (save env) w)"
    by (rule writes_world [where m = "\<lambda>w. bind (lift_res (register_in_registry env (g_now w) entry data)) (save env)"])
      (rule writes_lift, rule writes_save, erule pointer_step_register)
qed (simp add: registerSandbox_def)

interpretation reserve: registry_mutation env "reserveSandboxInferenceRoute env name route"
  "\<lambda>data. bind (save env (data\<lparr>r_sandboxes := assign_own name
     (reserve_row name route (row_at (r_sandboxes data) name)) (r_sandboxes data)\<rparr>)) (\<lambda>_. ret True)"
  for env name route
  by unfold_locales (auto simp: reserveSandboxInferenceRoute_def intro!: writes_then_ret writes_save)

interpretation remove: registry_mutation env "removeSandboxWithReceipt env name"
  "\<lambda>data. bind (lift_res (removeSandboxFromRegistry data name)) (\<lambda>(registry, receipt).
     case receipt of None \<Rightarrow> ret None | Some r \<Rightarrow> bind (save env registry) (\<lambda>_. ret (Some r)))"
  for env name
  by unfold_locales (auto simp: removeSandboxWithReceipt_def split: option.splits
      intro!: writes_lift writes_then_ret writes_save pointer_step_remove)

interpretation restore_entry: registry_mutation env "restoreSandboxEntry env entry t"
  "\<lambda>data. bind (lift_res (restoreSandboxEntryInRegistry data entry t)) (save env)" for env entry t
  by unfold_locales (auto simp: restoreSandboxEntry_def
      intro!: writes_lift writes_save pointer_step_restore_entry)

interpretation restore_missing: registry_mutation env "restoreSandboxEntryIfMissing env receipt"
  "\<lambda>data. bind (lift_res (restoreSandboxIfMissingInRegistry data receipt)) (\<lambda>(registry, restored).
     if \<not> restored then ret False else bind (save env registry) (\<lambda>_. ret True))"
  for env receipt
  by unfold_locales (auto simp: restoreSandboxEntryIfMissing_def
      intro!: writes_lift writes_then_ret writes_save pointer_step_restore_missing)

interpretation set_default: registry_mutation env "setDefault env name"
  "\<lambda>current. if (case row_at (r_sandboxes current) name of OwnRow e \<Rightarrow> is_reservation e | _ \<Rightarrow> False)
     then ret False
     else bind (lift_res (setDefaultInRegistry current name)) (\<lambda>registry.
       case registry of None \<Rightarrow> ret False | Some r \<Rightarrow> bind (save env r) (\<lambda>_. ret True))"
  for env name
  by unfold_locales (auto simp: setDefault_def split: option.splits
      intro!: writes_lift writes_then_ret writes_save pointer_step_set)

interpretation clear: registry_mutation env "clearAll env"
  "\<lambda>data. bind (lift_res (clearRegistry data)) (save env)" for env
  by unfold_locales (auto simp: clearAll_def intro!: writes_lift writes_save pointer_step_clear)

lemma save_providers_writes: "writes env data (save_providers env data next)"
  by (auto simp: save_providers_def intro!: writes_then_ret writes_save split: option.splits)

interpretation add_provider: registry_mutation env "addExtraProvider env name"
  "\<lambda>data. save_providers env data (applyAddExtraProvider name (r_extraProviders data))" for env name
  by unfold_locales (simp_all add: addExtraProvider_def save_providers_writes)

interpretation remove_provider: registry_mutation env "removeExtraProvider env name"
  "\<lambda>data. save_providers env data (applyRemoveExtraProvider name (r_extraProviders data))" for env name
  by unfold_locales (simp_all add: removeExtraProvider_def save_providers_writes)

lemma save_or_confirm_file:
  "g_file (snd (save_or_confirm env r name replacement result w)) = g_file (snd (save env r w))"
  by (auto simp: save_or_confirm_def split: prod.splits sum.splits row.splits)

lemma save_or_confirm_writes:
  "pointer_step data r \<Longrightarrow> writes env data (save_or_confirm env r name replacement result)"
  using writes_save [of data r env] by (simp add: writes_def save_or_confirm_file)

lemma pointer_step_swap:
  "swapSandboxRebuildAuthorityInRegistry env r expected replacement = Inr (r', result) \<Longrightarrow> pointer_step r r'"
  by (auto simp: swapSandboxRebuildAuthorityInRegistry_def split: row.splits if_splits)

lemma swap_change_writes:
  "writes env data (bind (lift_res (swapSandboxRebuildAuthorityInRegistry env data expected replacement))
     (\<lambda>(registry, result).
        case result of
          StaleAuthority e \<Rightarrow> ret result
        | Committed row \<Rightarrow> save_or_confirm env registry (ra_sandboxName expected) replacement result))"
  by (auto intro!: writes_lift save_or_confirm_writes pointer_step_swap split: swap_result.splits)

section \<open>Sequences of calls\<close>

text \<open>One call of the module's interface that may change the file.\<close>

datatype registry_call =
    RegisterSandbox js
  | ReserveRoute string route_reservation
  | UpdateSandbox string js
  | RemoveSandbox string
  | RestoreEntry js "default_transition option"
  | RestoreIfMissing removal_receipt
  | SetDefault string
  | ClearAll
  | AddProvider string
  | RemoveProvider string
  | AddCustomPolicy string js
  | RemoveCustomPolicy string string
  | AddExclusion string js
  | RemoveExclusion string string
  | BeginTransition string js
  | CommitTransition string string
  | ClearTransition string string
  | SetChannel string string bool
  | ClaimGeneration js string
  | SwapAuthority rebuild_authority js

fun run_call :: "registry_env \<Rightarrow> registry_call \<Rightarrow> registry_world \<Rightarrow> registry_world" where
  "run_call env (RegisterSandbox e) w = snd (registerSandbox env e w)"
| "run_call env (ReserveRoute n r) w = snd (reserveSandboxInferenceRoute env n r w)"
| "run_call env (UpdateSandbox n u) w = snd (updateSandbox env n u w)"
| "run_call env (RemoveSandbox n) w = snd (removeSandboxWithReceipt env n w)"
| "run_call env (RestoreEntry e t) w = snd (restoreSandboxEntry env e t w)"
| "run_call env (RestoreIfMissing r) w = snd (restoreSandboxEntryIfMissing env r w)"
| "run_call env (SetDefault n) w = snd (setDefault env n w)"
| "run_call env ClearAll w = snd (clearAll env w)"
| "run_call env (AddProvider n) w = snd (addExtraProvider env n w)"
| "run_call env (RemoveProvider n) w = snd (removeExtraProvider env n w)"
| "run_call env (AddCustomPolicy n p) w = snd (addCustomPolicy env n p w)"
| "run_call env (RemoveCustomPolicy n p) w = snd (removeCustomPolicyByName env n p w)"
| "run_call env (AddExclusion n e) w = snd (addBaselineExclusion env n e w)"
| "run_call env (RemoveExclusion n k) w = snd (removeBaselineExclusion env n k w)"
| "run_call env (BeginTransition n t) w = snd (beginBaselineExclusionTransition env n t w)"
| "run_call env (CommitTransition n i) w = snd (commitBaselineExclusionTransition env n i w)"
| "run_call env (ClearTransition n i) w = snd (clearBaselineExclusionTransition env n i w)"
| "run_call env (SetChannel n c b) w = snd (setChannelDisabled env n c b w)"
| "run_call env (ClaimGeneration e g) w = snd (compareAndSetLegacySandboxLifecycleGeneration env e g w)"
| "run_call env (SwapAuthority a e) w = snd (compareAndSwapSandboxRebuildAuthority env a e w)"

definition run_calls :: "registry_env \<Rightarrow> registry_call list \<Rightarrow> registry_world \<Rightarrow> registry_world" where
  "run_calls env cs w = fold (run_call env) cs w"

lemma run_calls_simps [simp]:
  "run_calls env [] w = w"
  "run_calls env (c # cs) w = run_calls env cs (run_call env c w)"
  "run_calls env (cs @ cs') w = run_calls env cs' (run_calls env cs w)"
  by (simp_all add: run_calls_def)

text \<open>The file after a call, in the terms of the contract.\<close>

definition follows :: "registry_env \<Rightarrow> registry_file \<Rightarrow> registry_file \<Rightarrow> bool" where
  "follows env f f' =
     (f' = f \<or> (\<exists>data r d. loaded env f = Inr data \<and> pointer_step data r
                  \<and> serializeRegistryForDisk env r = Inr d \<and> f' = on_disk d))"

context registry_mutation
begin

lemma operation_follows: "follows env (g_file w) (g_file (snd (operation w)))"
  unfolding follows_def by (rule mutation_file)

end

lemma swap_authority_follows:
  "follows env (g_file w) (g_file (snd (compareAndSwapSandboxRebuildAuthority env a e w)))"
proof (cases "validateReplacement env a e")
  case (Inr replacement)
  let ?change = "\<lambda>data. bind (lift_res (swapSandboxRebuildAuthorityInRegistry env data a replacement))
     (\<lambda>(registry, result).
        case result of
          StaleAuthority e \<Rightarrow> ret result
        | Committed row \<Rightarrow> save_or_confirm env registry (ra_sandboxName a) replacement result)"
  have eq: "compareAndSwapSandboxRebuildAuthority env a e w = withLock (bind (load env) ?change) w"
    using Inr by (simp add: compareAndSwapSandboxRebuildAuthority_def)
  have "registry_mutation env (withLock (bind (load env) ?change)) ?change"
    by unfold_locales (simp_all add: swap_change_writes)
  then show ?thesis
    unfolding eq by (rule registry_mutation.operation_follows)
qed (simp add: compareAndSwapSandboxRebuildAuthority_def follows_def)

lemma claim_generation_follows:
  "follows env (g_file w) (g_file (snd (compareAndSetLegacySandboxLifecycleGeneration env e g w)))"
  by (simp add: compareAndSetLegacySandboxLifecycleGeneration_def row_mutation.operation_follows
      follows_def [of env "g_file w" "g_file w"])

lemmas row_operations = updateSandbox_def addCustomPolicy_def removeCustomPolicyByName_def
  addBaselineExclusion_def removeBaselineExclusion_def beginBaselineExclusionTransition_def
  commitBaselineExclusionTransition_def clearBaselineExclusionTransition_def setChannelDisabled_def

lemma run_call_follows: "follows env (g_file w) (g_file (run_call env c w))"
  by (cases c)
    (simp_all add: row_operations row_mutation.operation_follows register.operation_follows
      reserve.operation_follows remove.operation_follows restore_entry.operation_follows
      restore_missing.operation_follows set_default.operation_follows clear.operation_follows
      add_provider.operation_follows remove_provider.operation_follows swap_authority_follows
      claim_generation_follows)

lemma follows_pointer:
  assumes "follows env f f'" "file_pointer f = Some (d, n)" "file_pointer f' = Some (d', n')"
  shows "n \<le> n' \<and> (d' \<noteq> d \<longrightarrow> n < n')"
proof (cases "f' = f")
  case False
  then obtain data r dd where "loaded env f = Inr data" "pointer_step data r"
    "serializeRegistryForDisk env r = Inr dd" "f' = on_disk dd"
    using assms(1) unfolding follows_def by blast
  moreover from this have "pointer_step data dd"
    using pointer_step_serialize pointer_step_trans by blast
  ultimately show ?thesis
    using assms(2,3) loaded_pointer [of env f data] on_disk_pointer [of dd] serialize_revision_ok
    by (auto simp: pointer_step_def)
qed (use assms in simp)

lemma follows_readable:
  "follows env f f' \<Longrightarrow> file_pointer f \<noteq> None \<Longrightarrow> file_pointer f' \<noteq> None"
  by (auto simp: follows_def on_disk_pointer serialize_revision_ok)

lemma run_calls_pointer:
  assumes "file_pointer (g_file w) = Some (d, n)"
  obtains d' n' where "file_pointer (g_file (run_calls env cs w)) = Some (d', n')" "n \<le> n'"
    "d' \<noteq> d \<Longrightarrow> n < n'"
proof -
  have "\<exists>d' n'. file_pointer (g_file (run_calls env cs w)) = Some (d', n') \<and> n \<le> n' \<and> (d' \<noteq> d \<longrightarrow> n < n')"
    using assms
  proof (induction cs arbitrary: w d n)
    case (Cons c cs)
    obtain d1 n1 where one: "file_pointer (g_file (run_call env c w)) = Some (d1, n1)"
      using follows_readable [OF run_call_follows, of w env c] Cons.prems by auto
    then have "n \<le> n1" "d1 \<noteq> d \<Longrightarrow> n < n1"
      using follows_pointer [OF run_call_follows Cons.prems one] by auto
    moreover obtain d' n' where "file_pointer (g_file (run_calls env cs (run_call env c w))) = Some (d', n')"
      "n1 \<le> n'" "d' \<noteq> d1 \<longrightarrow> n1 < n'"
      using Cons.IH [OF one] by blast
    ultimately show ?case
      by (intro exI [of _ d'] exI [of _ n']) auto
  qed simp
  then show ?thesis
    using that by blast
qed

end
