(* ===== verification/Registry_Reload.thy ===== *)
theory Registry_Reload
  imports Registry_Facts Store_Facts
begin

text \<open>
  What the next load makes of a saved registry. A row that was serialised reads back without an
  error, with the same validated members, and every other member it stored.
\<close>

section \<open>Members of a stored object\<close>

lemma persist_append:
  "json_persist_obj (xs @ ys) = json_persist_obj xs @ json_persist_obj ys"
  by (induction xs) auto

lemma persist_keys: "set (map fst (json_persist_obj kvs)) \<subseteq> set (map fst kvs)"
proof (induction kvs)
  case (Cons kv kvs)
  then show ?case
    by (cases kv) (simp add: subset_insertI2)
qed simp

lemma hasOwn_keys: "hasOwn (JObj kvs) k \<longleftrightarrow> k \<in> set (map fst kvs)"
  by (simp add: hasOwn_def map_of_eq_None_iff)

lemma persist_not_undef: "v \<noteq> JUndef \<Longrightarrow> json_persist v \<noteq> JUndef"
  by (cases v) (auto split: jnum.splits)

lemma persist_get_some:
  "js_get (JObj kvs) k \<noteq> JUndef \<Longrightarrow>
     js_get (JObj (json_persist_obj kvs)) k = json_persist (js_get (JObj kvs) k)"
  by (induction kvs) auto

lemma persist_get_distinct:
  "distinct (map fst kvs) \<Longrightarrow> js_get (JObj (json_persist_obj kvs)) k = json_persist (js_get (JObj kvs) k)"
proof (induction kvs)
  case (Cons kv kvs)
  obtain k' v where kv: "kv = (k', v)"
    by force
  have "js_get (JObj kvs) k' = JUndef"
    using Cons.prems kv by (simp add: js_get_absent hasOwn_keys)
  then show ?case
    using Cons kv by auto
qed simp

lemma persist_get_appended:
  assumes "\<not> hasOwn (JObj xs) k" "distinct (map fst ys)"
  shows "js_get (json_persist (JObj (xs @ ys))) k = json_persist (js_get (JObj ys) k)"
proof -
  have "\<not> hasOwn (JObj (json_persist_obj xs)) k"
    using assms(1) persist_keys [of xs] by (auto simp: hasOwn_keys)
  then show ?thesis
    using assms(2) by (simp add: persist_append js_get_append persist_get_distinct)
qed

section \<open>The validated members of a row\<close>

text \<open>The members that normalization adds, as a list of optional entries.\<close>

lemma opt_entries_keys:
  "map fst (concat (map (\<lambda>(k, x). opt_entry k x) xs)) = map fst (filter (\<lambda>(k, x). x \<noteq> None) xs)"
  by (induction xs) (auto simp: opt_entry_def split: option.splits)

lemma normalized_members_entries:
  "normalized_members w p m c es t ps =
     concat (map (\<lambda>(k, x). opt_entry k x)
       [(''workload'', w), (''servingProfileProvenance'', p), (''messaging'', m), (''mcp'', c),
        (''baselineExclusions'', map_option exclusions_to_js es),
        (''baselineExclusionTransition'', map_option transition_to_js t),
        (''customPolicies'', map_option custom_policies_to_js ps)])"
  by (simp add: normalized_members_def)

lemma get_entries:
  "js_get (JObj (opt_entry k x @ kvs)) k' = (if k' = k \<and> x \<noteq> None then or_undef x else js_get (JObj kvs) k')"
  by (auto simp: opt_entry_def or_undef_def split: option.splits)

lemma normalized_members_keys:
  "distinct (map fst (normalized_members w p m c es t ps))"
  "set (map fst (normalized_members w p m c es t ps)) \<subseteq> set NORMALIZED_MEMBERS"
  unfolding normalized_members_entries opt_entries_keys
  by (rule distinct_map_filter, simp) (auto simp: NORMALIZED_MEMBERS_def)

lemma normalized_members_get:
  "js_get (JObj (normalized_members w p m c es t ps)) ''workload'' = or_undef w"
  "js_get (JObj (normalized_members w p m c es t ps)) ''servingProfileProvenance'' = or_undef p"
  "js_get (JObj (normalized_members w p m c es t ps)) ''messaging'' = or_undef m"
  "js_get (JObj (normalized_members w p m c es t ps)) ''mcp'' = or_undef c"
  "js_get (JObj (normalized_members w p m c es t ps)) ''baselineExclusions''
     = or_undef (map_option exclusions_to_js es)"
  "js_get (JObj (normalized_members w p m c es t ps)) ''baselineExclusionTransition''
     = or_undef (map_option transition_to_js t)"
  "js_get (JObj (normalized_members w p m c es t ps)) ''customPolicies''
     = or_undef (map_option custom_policies_to_js ps)"
  using get_entries [of "''customPolicies''" "map_option custom_policies_to_js ps" "[]"]
  by (simp_all add: normalized_members_def get_entries or_undef_def)

lemma hasOwn_set: "k \<in> fst ` set (alist_set k' v kvs) \<longleftrightarrow> k = k' \<or> k \<in> fst ` set kvs"
  using keys_alist_set [of k' v kvs] by (metis insert_iff list.set_map)

lemma rest_owns:
  "k \<in> set ks \<Longrightarrow> \<not> hasOwn (JObj (js_without ks e)) k"
  "k \<in> set ks \<Longrightarrow> k \<noteq> ''dashboardPort'' \<Longrightarrow> \<not> hasOwn (JObj (canonical_dashboard_port (js_without ks e))) k"
  by (auto simp: hasOwn_keys js_without_def canonical_dashboard_port_def hasOwn_set)

definition is_validated :: "string \<Rightarrow> bool" where
  "is_validated k = (k \<in> set NORMALIZED_MEMBERS)"

lemma is_validated_simps [simp]:
  "is_validated ''workload''" "is_validated ''servingProfileProvenance''" "is_validated ''messaging''"
  "is_validated ''mcp''" "is_validated ''baselineExclusions''" "is_validated ''baselineExclusionTransition''"
  "is_validated ''customPolicies''" "\<not> is_validated ''name''" "\<not> is_validated ''pendingRouteReservation''"
  by (simp_all add: is_validated_def NORMALIZED_MEMBERS_def)

text \<open>The members every validator returned, for a row as loaded and as stored.\<close>

definition validated_as ::
  "registry_env \<Rightarrow> js \<Rightarrow> js option \<Rightarrow> js option \<Rightarrow> baseline_exclusion list option \<Rightarrow>
   baseline_transition option \<Rightarrow> custom_policy list option \<Rightarrow> bool" where
  "validated_as env e w p es t ps =
     (cloneSandboxWorkloadReceipt env (js_get e ''workload'') = w
      \<and> (js_get e ''workload'' \<noteq> JUndef \<longrightarrow> w \<noteq> None)
      \<and> parseServingProfileProvenance (js_get e ''servingProfileProvenance'') = p
      \<and> (js_get e ''servingProfileProvenance'' \<noteq> JUndef \<longrightarrow> p \<noteq> None)
      \<and> normalizeBaselineExclusions (js_get e ''baselineExclusions'') = Inr es
      \<and> normalizeBaselineExclusionTransition (js_get e ''baselineExclusionTransition'') = Inr t
      \<and> normalizeCustomPolicyEntries (normalizeTrustedPrivatePolicyPinReceipt env)
            (js_get e ''customPolicies'') = Inr ps)"

lemma or_throw_iff:
  "cloneSandboxWorkloadReceiptOrThrow env v op = Inr w \<longleftrightarrow>
     cloneSandboxWorkloadReceipt env v = w \<and> (v \<noteq> JUndef \<longrightarrow> w \<noteq> None)"
  "cloneServingProfileProvenanceOrThrow v op = Inr p \<longleftrightarrow>
     parseServingProfileProvenance v = p \<and> (v \<noteq> JUndef \<longrightarrow> p \<noteq> None)"
  by (auto simp: cloneSandboxWorkloadReceiptOrThrow_def cloneServingProfileProvenanceOrThrow_def Let_def)

lemma runtime_row_iff:
  "normalizeSandboxEntryForRuntime env e = Inr e' \<longleftrightarrow>
     (\<exists>w p es t ps. validated_as env e w p es t ps
        \<and> e' = JObj (js_without NORMALIZED_MEMBERS e
            @ normalized_members w p (cloneSandboxMessagingState env (js_get e ''messaging''))
                (normalizeSandboxMcpState env (js_get e ''mcp'')) es t ps))"
  unfolding normalizeSandboxEntryForRuntime_def Let_def validated_as_def
  by (simp add: andThen_eq_Inr or_throw_iff) blast

lemma disk_row_iff:
  "serializeSandboxEntryForDisk env e = Inr d \<longleftrightarrow>
     (\<exists>w p es t ps. validated_as env e w p es t ps
        \<and> d = JObj (canonical_dashboard_port (js_without (TRANSIENT_MEMBERS @ NORMALIZED_MEMBERS) e)
            @ normalized_members w p (serializeSandboxMessagingStateForDisk env (js_get e ''messaging''))
                (serializeSandboxMcpStateForDisk env (js_get e ''mcp'')) es t ps))"
  unfolding serializeSandboxEntryForDisk_def Let_def validated_as_def
  by (simp add: andThen_eq_Inr or_throw_iff) blast

text \<open>Validating a value that was validated gives it back.\<close>

lemma provenance_stable:
  assumes "parseServingProfileProvenance v = p"
  shows "parseServingProfileProvenance (or_undef p) = p" "json_persist (or_undef p) = or_undef p"
proof -
  have none: "parseServingProfileProvenance JUndef = None"
    by (simp add: parseServingProfileProvenance_def)
  show "parseServingProfileProvenance (or_undef p) = p"
  proof (cases p)
    case (Some a)
    then have "a = v"
      using assms provenance_fixpoint by blast
    then show ?thesis
      using assms Some by (simp add: or_undef_def)
  qed (simp add: or_undef_def none)
  show "json_persist (or_undef p) = or_undef p"
  proof (cases p)
    case (Some a)
    then have "json_clean a"
      using assms provenance_fixpoint provenance_clean by blast
    then show ?thesis
      using Some by (simp add: or_undef_def json_persist_clean)
  qed (simp add: or_undef_def)
qed

lemma validated_again:
  assumes "validated_as env e w p es t ps"
    and "js_get e' ''workload'' = or_undef w" "js_get e' ''servingProfileProvenance'' = or_undef p"
    "js_get e' ''baselineExclusions'' = or_undef (map_option exclusions_to_js es)"
    "js_get e' ''baselineExclusionTransition'' = or_undef (map_option transition_to_js t)"
    "js_get e' ''customPolicies'' = or_undef (map_option custom_policies_to_js ps)"
  shows "validated_as env e' w p es t ps"
proof -
  have "cloneSandboxWorkloadReceipt env (or_undef w) = w"
    using assms(1) workload_stable [of env "js_get e ''workload''"] workload_not_undef [of env]
    by (cases w) (auto simp: validated_as_def or_undef_def)
  moreover have "parseServingProfileProvenance (or_undef p) = p"
    using assms(1) unfolding validated_as_def by (intro provenance_stable(1)) blast
  moreover have "normalizeBaselineExclusions (or_undef (map_option exclusions_to_js es)) = Inr es"
    using assms(1) by (cases es)
      (auto simp: validated_as_def or_undef_def exclusions_written exclusions_valid
        normalizeBaselineExclusions_def [of JUndef])
  moreover have "normalizeBaselineExclusionTransition (or_undef (map_option transition_to_js t)) = Inr t"
    using assms(1) by (cases t)
      (auto simp: validated_as_def or_undef_def transition_written transition_valid
        normalizeBaselineExclusionTransition_def [of JUndef])
  moreover have "normalizeCustomPolicyEntries (normalizeTrustedPrivatePolicyPinReceipt env)
      (or_undef (map_option custom_policies_to_js ps)) = Inr ps"
    using assms(1) by (cases ps)
      (auto simp: validated_as_def or_undef_def policies_written policies_valid
        normalizeCustomPolicyEntries_def [of _ JUndef])
  moreover have "or_undef w \<noteq> JUndef \<longrightarrow> w \<noteq> None" "or_undef p \<noteq> JUndef \<longrightarrow> p \<noteq> None"
    by (auto simp: or_undef_def nullish_def split: option.splits)
  ultimately show ?thesis
    unfolding validated_as_def assms(2-6) by blast
qed

lemma validated_clean:
  assumes "validated_as env e w p es t ps"
  shows "json_persist (or_undef w) = or_undef w" "json_persist (or_undef p) = or_undef p"
    "json_persist (or_undef (map_option exclusions_to_js es)) = or_undef (map_option exclusions_to_js es)"
    "json_persist (or_undef (map_option transition_to_js t)) = or_undef (map_option transition_to_js t)"
    "json_persist (or_undef (map_option custom_policies_to_js ps)) = or_undef (map_option custom_policies_to_js ps)"
proof -
  show "json_persist (or_undef w) = or_undef w"
    using assms workload_stable [of env "js_get e ''workload''"]
    by (cases w) (auto simp: validated_as_def or_undef_def json_persist_clean)
  show "json_persist (or_undef p) = or_undef p"
    using assms unfolding validated_as_def by (intro provenance_stable(2)) blast
  show "json_persist (or_undef (map_option exclusions_to_js es)) = or_undef (map_option exclusions_to_js es)"
    by (cases es) (simp_all add: or_undef_def json_persist_clean exclusions_clean)
  show "json_persist (or_undef (map_option transition_to_js t)) = or_undef (map_option transition_to_js t)"
    by (cases t) (simp_all add: or_undef_def json_persist_clean transition_clean)
  show "json_persist (or_undef (map_option custom_policies_to_js ps)) = or_undef (map_option custom_policies_to_js ps)"
    using assms policies_valid [of env "js_get e ''customPolicies''"]
    by (cases ps) (auto simp: validated_as_def or_undef_def json_persist_clean policies_clean)
qed

section \<open>Rows\<close>

text \<open>The members that survive a save as they are.\<close>

definition is_durable :: "string \<Rightarrow> bool" where
  "is_durable k = (k \<notin> set (TRANSIENT_MEMBERS @ NORMALIZED_MEMBERS) \<and> k \<noteq> ''dashboardPort'')"

lemma durable_simps [simp]:
  "is_durable ''name''" "is_durable ''pendingRouteReservation''" "is_durable ''createdAt''"
  "is_durable ''reservationSessionId''" "is_durable ''lifecycleGeneration''"
  by (simp_all add: is_durable_def TRANSIENT_MEMBERS_def NORMALIZED_MEMBERS_def)

lemma get_dashboard [simp]:
  "k \<noteq> ''dashboardPort'' \<Longrightarrow> js_get (JObj (canonical_dashboard_port kvs)) k = js_get (JObj kvs) k"
  by (simp add: canonical_dashboard_port_def js_get_def)

lemma get_validated_tail:
  assumes "k \<notin> set NORMALIZED_MEMBERS"
  shows "js_get (JObj (xs @ normalized_members w p m c es t ps)) k = js_get (JObj xs) k"
proof -
  have "\<not> hasOwn (JObj (normalized_members w p m c es t ps)) k"
    using assms normalized_members_keys(2) [of w p m c es t ps] by (auto simp: hasOwn_keys)
  then show ?thesis
    by (simp add: js_get_append js_get_absent)
qed

lemma runtime_row_members:
  assumes "normalizeSandboxEntryForRuntime env e = Inr e'"
  shows "k \<notin> set NORMALIZED_MEMBERS \<Longrightarrow> js_get e' k = js_get e k"
    and "isObjectRecord e'"
  using assms by (auto simp: runtime_row_iff get_validated_tail js_get_without)

lemma disk_row_members:
  assumes "serializeSandboxEntryForDisk env e = Inr d"
  shows "is_durable k \<Longrightarrow> js_get d k = js_get e k"
    and "isObjectRecord d"
  using assms by (auto simp: disk_row_iff get_validated_tail js_get_without is_durable_def)

lemma disk_row_reservation:
  "serializeSandboxEntryForDisk env e = Inr d \<Longrightarrow> is_reservation d = is_reservation e"
  by (simp add: is_reservation_def disk_row_members)

lemma runtime_row_validated:
  assumes "normalizeSandboxEntryForRuntime env e = Inr e'"
  obtains w p es t ps where "validated_as env e' w p es t ps"
    "js_get e' ''baselineExclusions'' = or_undef (map_option exclusions_to_js es)"
    "js_get e' ''baselineExclusionTransition'' = or_undef (map_option transition_to_js t)"
proof -
  obtain w p es t ps where v: "validated_as env e w p es t ps"
    and e': "e' = JObj (js_without NORMALIZED_MEMBERS e
            @ normalized_members w p (cloneSandboxMessagingState env (js_get e ''messaging''))
                (normalizeSandboxMcpState env (js_get e ''mcp'')) es t ps)"
    using assms by (auto simp: runtime_row_iff)
  have "js_get e' k = js_get (JObj (normalized_members w p (cloneSandboxMessagingState env (js_get e ''messaging''))
                (normalizeSandboxMcpState env (js_get e ''mcp'')) es t ps)) k" if "is_validated k" for k
    using that rest_owns(1) [of k NORMALIZED_MEMBERS e] unfolding e' is_validated_def
    by (simp add: js_get_append)
  then have "validated_as env e' w p es t ps"
    "js_get e' ''baselineExclusions'' = or_undef (map_option exclusions_to_js es)"
    "js_get e' ''baselineExclusionTransition'' = or_undef (map_option transition_to_js t)"
    by (auto intro!: validated_again [OF v] simp: normalized_members_get)
  then show ?thesis
    by (rule that)
qed

lemma row_reload:
  assumes "serializeSandboxEntryForDisk env e = Inr d"
  obtains e' w p es t ps where "normalizeSandboxEntryForRuntime env (json_persist d) = Inr e'"
    "validated_as env e w p es t ps" "validated_as env e' w p es t ps"
    "js_get e' ''baselineExclusions'' = or_undef (map_option exclusions_to_js es)"
    "js_get e' ''baselineExclusionTransition'' = or_undef (map_option transition_to_js t)"
    "\<And>k. is_durable k \<Longrightarrow> js_get e k \<noteq> JUndef \<Longrightarrow> js_get e' k = json_persist (js_get e k)"
proof -
  define m c where "m = serializeSandboxMessagingStateForDisk env (js_get e ''messaging'')"
    and "c = serializeSandboxMcpStateForDisk env (js_get e ''mcp'')"
  obtain w p es t ps where v: "validated_as env e w p es t ps"
    and d: "d = JObj (canonical_dashboard_port (js_without (TRANSIENT_MEMBERS @ NORMALIZED_MEMBERS) e)
            @ normalized_members w p m c es t ps)"
    using assms unfolding disk_row_iff m_def c_def by blast
  have stored: "js_get (json_persist d) k = json_persist (js_get (JObj (normalized_members w p m c es t ps)) k)"
    if "is_validated k" for k
  proof -
    have "k \<noteq> ''dashboardPort''" "k \<in> set (TRANSIENT_MEMBERS @ NORMALIZED_MEMBERS)"
      using that by (auto simp: is_validated_def NORMALIZED_MEMBERS_def)
    then show ?thesis
      unfolding d by (intro persist_get_appended rest_owns normalized_members_keys(1))
  qed
  then have v': "validated_as env (json_persist d) w p es t ps"
    by (intro validated_again [OF v]) (simp_all add: normalized_members_get validated_clean [OF v])
  define e' where "e' = JObj (js_without NORMALIZED_MEMBERS (json_persist d)
            @ normalized_members w p (cloneSandboxMessagingState env (js_get (json_persist d) ''messaging''))
                (normalizeSandboxMcpState env (js_get (json_persist d) ''mcp'')) es t ps)"
  then have load: "normalizeSandboxEntryForRuntime env (json_persist d) = Inr e'"
    using v' unfolding runtime_row_iff by blast
  have get: "js_get e' k = js_get (JObj (normalized_members w p
        (cloneSandboxMessagingState env (js_get (json_persist d) ''messaging''))
        (normalizeSandboxMcpState env (js_get (json_persist d) ''mcp'')) es t ps)) k" if "is_validated k" for k
    using that rest_owns(1) [of k NORMALIZED_MEMBERS "json_persist d"] unfolding e'_def is_validated_def
    by (simp add: js_get_append)
  have "js_get e' k = json_persist (js_get e k)" if "is_durable k" "js_get e k \<noteq> JUndef" for k
  proof -
    obtain kvs where kvs: "d = JObj kvs"
      using d by blast
    have "js_get d k = js_get e k"
      using disk_row_members(1) [OF assms that(1)] .
    moreover have "js_get e' k = js_get (json_persist d) k"
      using that(1) by (intro runtime_row_members(1) [OF load]) (simp add: is_durable_def)
    ultimately show ?thesis
      using persist_get_some [of kvs k] that(2) kvs by simp
  qed
  then show ?thesis
    by (intro that [OF load v]) (auto intro!: validated_again [OF v] simp: get normalized_members_get)
qed

section \<open>The whole registry\<close>

text \<open>Rows with distinct names, each stored under its own name, as every load returns them.\<close>

definition rows_named :: "(string \<times> js) list \<Rightarrow> bool" where
  "rows_named rows =
     (distinct (map fst rows)
      \<and> (\<forall>k e. map_of rows k = Some e \<longrightarrow> js_get e ''name'' = JStr k \<and> trim k \<noteq> []))"

lemma traverse_member:
  "traverse f xs = Inr ys \<Longrightarrow> y \<in> set ys \<Longrightarrow> \<exists>x \<in> set xs. f x = Inr y"
  by (induction xs arbitrary: ys) auto

lemma traverse_rows:
  assumes "traverse (\<lambda>(name, e). andThen (f e) (\<lambda>e'. Inr (name, e'))) rows = Inr rows'"
  shows "map fst rows' = map fst rows"
    and "map_of rows k = Some e \<Longrightarrow> \<exists>e'. f e = Inr e' \<and> map_of rows' k = Some e'"
    and "map_of rows k = None \<Longrightarrow> map_of rows' k = None"
  using assms by (induction rows arbitrary: rows') (auto split: if_splits)

lemma normalize_rows_lookup:
  assumes "normalize_rows f rows = Inr rows'" "distinct (map fst rows)"
  shows "map_of rows k = Some e \<Longrightarrow> \<exists>e'. f e = Inr e' \<and> map_of rows' k = Some e'"
    and "map_of rows k = None \<Longrightarrow> map_of rows' k = None"
    and "map_of rows' k = Some e' \<Longrightarrow> \<exists>e. map_of rows k = Some e \<and> f e = Inr e'"
    and "distinct (map fst rows')"
proof -
  obtain xs where xs: "traverse (\<lambda>(name, e). andThen (f e) (\<lambda>e'. Inr (name, e'))) rows = Inr xs"
    "rows' = fromEntries xs"
    using assms(1) by (auto simp: normalize_rows_def)
  then have eq: "map_of rows' = map_of xs"
    using traverse_rows(1) [OF xs(1)] assms(2) by (simp add: map_of_fromEntries)
  show some: "\<And>e. map_of rows k = Some e \<Longrightarrow> \<exists>e'. f e = Inr e' \<and> map_of rows' k = Some e'"
    and none: "map_of rows k = None \<Longrightarrow> map_of rows' k = None"
    using traverse_rows(2,3) [OF xs(1)] eq by auto
  show "map_of rows' k = Some e' \<Longrightarrow> \<exists>e. map_of rows k = Some e \<and> f e = Inr e'"
    using some none by (cases "map_of rows k") fastforce+
  show "distinct (map fst rows')"
    by (simp add: xs(2))
qed

lemma normalize_rows_distinct: "normalize_rows f rows = Inr rows' \<Longrightarrow> distinct (map fst rows')"
  by (auto simp: normalize_rows_def)

lemma normalize_rows_origin:
  assumes "normalize_rows f rows = Inr rows'" "map_of rows' k = Some e"
  shows "\<exists>e0. (k, e0) \<in> set rows \<and> f e0 = Inr e"
proof -
  obtain xs where xs: "traverse (\<lambda>(name, e). andThen (f e) (\<lambda>e'. Inr (name, e'))) rows = Inr xs"
    "rows' = fromEntries xs"
    using assms(1) by (auto simp: normalize_rows_def)
  have "(k, e) \<in> set xs"
    using assms(2) map_of_fold_put [of xs "[]"] by (auto simp: xs(2) fromEntries_def dest!: map_of_SomeD)
  then show ?thesis
    using traverse_member [OF xs(1)] by fastforce
qed

lemma loaded_rows:
  assumes "loaded env f = Inr data"
  obtains v where "normalize_rows (normalizeSandboxEntryForRuntime env) (parseSandboxRegistryEntries v)
    = Inr (r_sandboxes data)"
  using assms that
  by (auto simp: loaded_def normalizeRegistry_def Let_def split: registry_file.splits)

lemma loaded_row_origin:
  assumes "loaded env f = Inr data" "map_of (r_sandboxes data) k = Some e"
  shows "\<exists>e0. isSandboxEntryLike k e0 \<and> normalizeSandboxEntryForRuntime env e0 = Inr e"
proof -
  obtain v where "normalize_rows (normalizeSandboxEntryForRuntime env) (parseSandboxRegistryEntries v)
      = Inr (r_sandboxes data)"
    using assms(1) by (rule loaded_rows)
  then show ?thesis
    using normalize_rows_origin assms(2) by (fastforce simp: parseSandboxRegistryEntries_def)
qed

lemma loaded_rows_named:
  assumes "loaded env f = Inr data" shows "rows_named (r_sandboxes data)"
proof -
  obtain v where v: "normalize_rows (normalizeSandboxEntryForRuntime env) (parseSandboxRegistryEntries v)
      = Inr (r_sandboxes data)"
    using assms by (rule loaded_rows)
  have "js_get e ''name'' = JStr k \<and> trim k \<noteq> []" if "map_of (r_sandboxes data) k = Some e" for k e
  proof -
    obtain e0 where "isSandboxEntryLike k e0" "normalizeSandboxEntryForRuntime env e0 = Inr e"
      using loaded_row_origin [OF assms \<open>map_of (r_sandboxes data) k = Some e\<close>] by blast
    then show ?thesis
      using runtime_row_members(1) [of env e0 e "''name''"]
      by (simp add: isSandboxEntryLike_def NORMALIZED_MEMBERS_def)
  qed
  moreover have "distinct (map fst (r_sandboxes data))"
    using v by (rule normalize_rows_distinct)
  ultimately show ?thesis
    unfolding rows_named_def by blast
qed

lemma serialize_iff:
  "serializeRegistryForDisk env r = Inr d \<longleftrightarrow>
     (\<exists>rows. normalize_rows (serializeSandboxEntryForDisk env) (r_sandboxes r) = Inr rows
        \<and> r_sandboxes d = rows
        \<and> r_defaultSandbox d = retainedDefaultSandbox (r_defaultSandbox r) rows
        \<and> revision_ok (r_defaultSelectionRevision r) \<and> revision_ok (r_defaultSelectionRevision d)
        \<and> r_defaultSelectionRevision d = r_defaultSelectionRevision r
            + (if r_defaultSandbox d = r_defaultSandbox r then 0 else 1)
        \<and> r_extraProviders d = normalizeExtraProviders (providers_to_js (r_extraProviders r)))"
proof -
  have norm: "normalizeDefaultSelectionRevision (JNum (NInt n)) = Inr m \<longleftrightarrow> m = n \<and> revision_ok n" for n m
    by (auto simp: normalizeDefaultSelectionRevision_def revision_ok_def MAX_SAFE_INTEGER_def)
  show ?thesis
    by (cases d) (auto simp: serializeRegistryForDisk_def Let_def andThen_eq_Inr norm increment_revision
        split: if_splits)
qed

lemma persist_rows:
  "list_all (\<lambda>(k, e). e \<noteq> JUndef) rows \<Longrightarrow>
     json_persist_obj rows = map (\<lambda>(k, e). (k, json_persist e)) rows"
  by (induction rows) auto

lemma map_of_persisted: "map_of (map (\<lambda>(k, e). (k, json_persist e)) rows) k = map_option json_persist (map_of rows k)"
  by (induction rows) auto

lemma disk_rows_member:
  assumes "normalize_rows (serializeSandboxEntryForDisk env) rows = Inr rows'" "rows_named rows"
    and "(k, d') \<in> set rows'"
  obtains e where "map_of rows k = Some e" "serializeSandboxEntryForDisk env e = Inr d'"
proof -
  have dist: "distinct (map fst rows)"
    using assms(2) by (simp add: rows_named_def)
  have "map_of rows' k = Some d'"
    using normalize_rows_lookup(4) [OF assms(1) dist] assms(3) by simp
  then show ?thesis
    using normalize_rows_lookup(3) [OF assms(1) dist] that by blast
qed

lemma disk_rows_parse:
  assumes "normalize_rows (serializeSandboxEntryForDisk env) rows = Inr rows'" "rows_named rows"
  shows "parseSandboxRegistryEntries (JObj (json_persist_obj rows')) = map (\<lambda>(k, e). (k, json_persist e)) rows'"
proof -
  have facts: "isSandboxEntryLike k (json_persist d') \<and> d' \<noteq> JUndef" if mem: "(k, d') \<in> set rows'" for k d'
  proof -
    obtain e where e: "map_of rows k = Some e" "serializeSandboxEntryForDisk env e = Inr d'"
      using disk_rows_member [OF assms mem] .
    have "js_get d' ''name'' = JStr k" "trim k \<noteq> []" "isObjectRecord d'"
      using assms(2) e disk_row_members [OF e(2)] by (auto simp: rows_named_def)
    then show ?thesis
      using persist_get_some [of _ "''name''"] by (auto simp: isSandboxEntryLike_def isObjectRecord_iff)
  qed
  then show ?thesis
    by (subst persist_rows) (auto simp: parseSandboxRegistryEntries_def filter_id_conv list_all_iff)
qed

lemma disk_rows_load:
  assumes "normalize_rows (serializeSandboxEntryForDisk env) rows = Inr rows'" "rows_named rows"
  shows "\<exists>rows''. normalize_rows (normalizeSandboxEntryForRuntime env)
           (map (\<lambda>(k, e). (k, json_persist e)) rows') = Inr rows''"
proof -
  have "\<exists>y. (case x of (name, e) \<Rightarrow> andThen (normalizeSandboxEntryForRuntime env e) (\<lambda>e'. Inr (name, e'))) = Inr y"
    if stored: "x \<in> set (map (\<lambda>(k, e). (k, json_persist e)) rows')" for x
  proof -
    obtain k d' where x: "x = (k, json_persist d')" and mem: "(k, d') \<in> set rows'"
      using stored by auto
    obtain e where "serializeSandboxEntryForDisk env e = Inr d'"
      using disk_rows_member [OF assms mem] .
    then obtain e' where "normalizeSandboxEntryForRuntime env (json_persist d') = Inr e'"
      by (rule row_reload)
    then show ?thesis
      by (simp add: x)
  qed
  then obtain ys where "traverse (\<lambda>(name, e). andThen (normalizeSandboxEntryForRuntime env e)
      (\<lambda>e'. Inr (name, e'))) (map (\<lambda>(k, e). (k, json_persist e)) rows') = Inr ys"
    using traverse_total by blast
  then show ?thesis
    by (simp add: normalize_rows_def)
qed

lemma disk_providers:
  "serializeRegistryForDisk env r = Inr d \<Longrightarrow>
     normalizeExtraProviders (js_get (json_persist (registry_to_js d)) ''extraProviders'') = r_extraProviders d"
proof -
  assume "serializeRegistryForDisk env r = Inr d"
  then have "valid_extra_providers (r_extraProviders d)"
    by (auto simp: serialize_iff providers_valid)
  moreover have "js_get (json_persist (registry_to_js d)) ''extraProviders'' = providers_to_js (r_extraProviders d)"
    by (cases "r_extraProviders d") (auto simp: registry_to_js_def providers_to_js_def json_persist_clean js_opt_def
        split: option.splits)
  ultimately show ?thesis
    by (simp add: providers_written)
qed

text \<open>A saved registry loads, with the saved pointer and providers and every row reloaded.\<close>

lemma registry_reload:
  assumes s: "serializeRegistryForDisk env r = Inr d" and named: "rows_named (r_sandboxes r)"
  obtains data where "loaded env (on_disk d) = Inr data"
    "r_defaultSandbox data = r_defaultSandbox d"
    "r_defaultSelectionRevision data = r_defaultSelectionRevision d"
    "r_extraProviders data = r_extraProviders d"
    "\<And>k. map_of (r_sandboxes r) k = None \<Longrightarrow> map_of (r_sandboxes data) k = None"
    "\<And>k e. map_of (r_sandboxes r) k = Some e \<Longrightarrow>
       \<exists>d' e'. serializeSandboxEntryForDisk env e = Inr d'
          \<and> normalizeSandboxEntryForRuntime env (json_persist d') = Inr e'
          \<and> map_of (r_sandboxes data) k = Some e'"
proof -
  have rows: "normalize_rows (serializeSandboxEntryForDisk env) (r_sandboxes r) = Inr (r_sandboxes d)"
    and rev: "revision_ok (r_defaultSelectionRevision d)"
    using s by (auto simp: serialize_iff)
  have dist: "distinct (map fst (r_sandboxes r))"
    using named by (simp add: rows_named_def)
  note look = normalize_rows_lookup [OF rows dist]
  define stored_rows where "stored_rows = map (\<lambda>(k, e). (k, json_persist e)) (r_sandboxes d)"
  obtain rows'' where runtime: "normalize_rows (normalizeSandboxEntryForRuntime env) stored_rows = Inr rows''"
    using disk_rows_load [OF rows named] unfolding stored_rows_def by blast
  define data where "data = \<lparr>r_sandboxes = rows'', r_defaultSandbox = r_defaultSandbox d,
      r_defaultSelectionRevision = r_defaultSelectionRevision d, r_extraProviders = r_extraProviders d\<rparr>"
  have "js_string (js_opt JStr x) = x" for x
    by (cases x) simp_all
  then have load: "loaded env (on_disk d) = Inr data"
    using runtime disk_rows_parse [OF rows named] disk_providers [OF s] rev
    by (simp add: loaded_def on_disk_def normalizeRegistry_def on_disk_members data_def stored_rows_def)
  have "distinct (map fst stored_rows)"
    using look(4) by (simp add: stored_rows_def case_prod_unfold comp_def)
  note look' = normalize_rows_lookup [OF runtime this]
  have lookup: "map_of stored_rows k = map_option json_persist (map_of (r_sandboxes d) k)" for k
    by (simp add: stored_rows_def map_of_persisted)
  have none: "map_of (r_sandboxes data) k = None" if "map_of (r_sandboxes r) k = None" for k
    using look(2) [OF that] look'(2) [of k] by (simp add: data_def lookup)
  have some: "\<exists>d' e'. serializeSandboxEntryForDisk env e = Inr d'
      \<and> normalizeSandboxEntryForRuntime env (json_persist d') = Inr e' \<and> map_of (r_sandboxes data) k = Some e'"
    if e: "map_of (r_sandboxes r) k = Some e" for k e
    using look(1) [OF e] look'(1) [of k] by (auto simp: data_def lookup)
  show ?thesis
    by (rule that [OF load _ _ _ none some]) (simp_all add: data_def)
qed

end
