(* ===== verification/Registry_Journal.thy ===== *)
theory Registry_Journal
  imports Registry_Reload
begin

text \<open>
  The baseline exclusions of a sandbox as a transactional store: an abstract specification with a
  map of committed exclusions and at most one pending transaction, and the proof that the
  operations on the registry file implement it.
\<close>

section \<open>Specification\<close>

record baseline_spec =
  bs_committed :: "string \<rightharpoonup> baseline_exclusion"
  bs_pending :: "baseline_transition option"

datatype baseline_request =
    ReqAdd baseline_exclusion
  | ReqRemove string
  | ReqBegin baseline_transition
  | ReqCommit string
  | ReqRollBack string

definition acknowledged :: "string \<Rightarrow> baseline_exclusion \<Rightarrow> baseline_exclusion" where
  "acknowledged stamp e = e\<lparr>ex_acknowledgedAt := Some (nullish stamp (ex_acknowledgedAt e))\<rparr>"

definition put_committed :: "string \<Rightarrow> baseline_exclusion \<Rightarrow> baseline_spec \<Rightarrow> baseline_spec" where
  "put_committed stamp e s = s\<lparr>bs_committed := (bs_committed s)(ex_key e \<mapsto> acknowledged stamp e)\<rparr>"

definition drop_committed :: "string \<Rightarrow> baseline_spec \<Rightarrow> baseline_spec" where
  "drop_committed key s = s\<lparr>bs_committed := (bs_committed s)(key := None)\<rparr>"

text \<open>
  Direct changes are refused while a transaction is pending; a commit publishes exactly what was
  staged under its id, and a restore only against the exclusion it was staged for.
\<close>

fun baseline_step :: "string \<Rightarrow> baseline_request \<Rightarrow> baseline_spec \<Rightarrow> bool \<times> baseline_spec" where
  "baseline_step stamp (ReqAdd e) s =
     (if bs_pending s = None then (True, put_committed stamp e s) else (False, s))"
| "baseline_step stamp (ReqRemove key) s =
     (if bs_pending s = None \<and> bs_committed s key \<noteq> None then (True, drop_committed key s) else (False, s))"
| "baseline_step stamp (ReqBegin t) s =
     (if bs_pending s = None then (True, s\<lparr>bs_pending := Some t\<rparr>) else (False, s))"
| "baseline_step stamp (ReqCommit tid) s =
     (case bs_pending s of
        None \<Rightarrow> (False, s)
      | Some t \<Rightarrow>
          if tr_id t \<noteq> tid then (False, s)
          else (case tr_operation t of
                  Exclude \<Rightarrow> (True, put_committed stamp (tr_exclusion t) (s\<lparr>bs_pending := None\<rparr>))
                | Restore \<Rightarrow>
                    if bs_committed s (ex_key (tr_exclusion t)) \<noteq> Some (tr_exclusion t) then (False, s)
                    else (True, drop_committed (ex_key (tr_exclusion t)) (s\<lparr>bs_pending := None\<rparr>))))"
| "baseline_step stamp (ReqRollBack tid) s =
     (if map_option tr_id (bs_pending s) = Some tid then (True, s\<lparr>bs_pending := None\<rparr>) else (False, s))"

section \<open>Implementation and abstraction\<close>

fun baseline_call :: "registry_env \<Rightarrow> string \<Rightarrow> baseline_request \<Rightarrow> bool registry_op" where
  "baseline_call env name (ReqAdd e) = addBaselineExclusion env name (exclusion_to_js e)"
| "baseline_call env name (ReqRemove key) = removeBaselineExclusion env name key"
| "baseline_call env name (ReqBegin t) = beginBaselineExclusionTransition env name (transition_to_js t)"
| "baseline_call env name (ReqCommit tid) = commitBaselineExclusionTransition env name tid"
| "baseline_call env name (ReqRollBack tid) = clearBaselineExclusionTransition env name tid"

fun baseline_row :: "string \<Rightarrow> baseline_request \<Rightarrow> js \<Rightarrow> registry_error + js option" where
  "baseline_row stamp (ReqAdd e) = add_exclusion_row stamp (exclusion_to_js e)"
| "baseline_row stamp (ReqRemove key) = remove_exclusion_row key"
| "baseline_row stamp (ReqBegin t) = begin_transition_row (transition_to_js t)"
| "baseline_row stamp (ReqCommit tid) = (\<lambda>row. Inr (commit_transition stamp tid row))"
| "baseline_row stamp (ReqRollBack tid) = clear_transition_row tid"

lemma baseline_call_eq: "baseline_call env name q = mutate_row env name (\<lambda>w. baseline_row (g_now w) q)"
  by (cases q) (simp_all add: addBaselineExclusion_def removeBaselineExclusion_def
      beginBaselineExclusionTransition_def commitBaselineExclusionTransition_def
      clearBaselineExclusionTransition_def)

definition by_key :: "baseline_exclusion list \<Rightarrow> string \<rightharpoonup> baseline_exclusion" where
  "by_key es = map_of (map (\<lambda>e. (ex_key e, e)) es)"

definition baseline_state :: "baseline_exclusion list option \<Rightarrow> baseline_transition option \<Rightarrow> baseline_spec" where
  "baseline_state es t = \<lparr>bs_committed = by_key (nullish [] es), bs_pending = t\<rparr>"

definition row_baseline :: "js \<Rightarrow> baseline_spec option" where
  "row_baseline row =
     (case (normalizeBaselineExclusions (js_get row ''baselineExclusions''),
            normalizeBaselineExclusionTransition (js_get row ''baselineExclusionTransition'')) of
        (Inr es, Inr t) \<Rightarrow> Some (baseline_state es t)
      | _ \<Rightarrow> None)"

definition baseline_of :: "registry_env \<Rightarrow> string \<Rightarrow> registry_file \<Rightarrow> baseline_spec option" where
  "baseline_of env name f =
     (case loaded env f of
        Inl _ \<Rightarrow> None
      | Inr data \<Rightarrow> Option.bind (map_of (r_sandboxes data) name) row_baseline)"

section \<open>Rows as loaded\<close>

definition baseline_view ::
  "js \<Rightarrow> baseline_exclusion list option \<Rightarrow> baseline_transition option \<Rightarrow> bool" where
  "baseline_view row es t =
     (js_get row ''baselineExclusions'' = or_undef (map_option exclusions_to_js es)
      \<and> js_get row ''baselineExclusionTransition'' = or_undef (map_option transition_to_js t)
      \<and> pred_option valid_exclusions es \<and> pred_option valid_transition t)"

definition baseline_reads ::
  "js \<Rightarrow> baseline_exclusion list option \<Rightarrow> baseline_transition option \<Rightarrow> bool" where
  "baseline_reads row es t =
     (normalizeBaselineExclusions (js_get row ''baselineExclusions'') = Inr es
      \<and> normalizeBaselineExclusionTransition (js_get row ''baselineExclusionTransition'') = Inr t)"

lemma view_reads: "baseline_view row es t \<Longrightarrow> baseline_reads row es t"
  by (cases es; cases t) (auto simp: baseline_view_def baseline_reads_def or_undef_def exclusions_written
      transition_written normalizeBaselineExclusions_def [of JUndef]
      normalizeBaselineExclusionTransition_def [of JUndef])

lemma reads_valid:
  "baseline_reads row es t \<Longrightarrow> pred_option valid_exclusions es \<and> pred_option valid_transition t"
  by (auto simp: baseline_reads_def pred_option_def dest: exclusions_valid transition_valid
      elim!: option.set_cases)

lemma reads_baseline: "baseline_reads row es t \<Longrightarrow> row_baseline row = Some (baseline_state es t)"
  by (simp add: baseline_reads_def row_baseline_def)

lemma loaded_view:
  assumes "normalizeSandboxEntryForRuntime env e = Inr row"
  obtains es t where "baseline_view row es t"
proof -
  obtain w p es t ps where v: "validated_as env row w p es t ps"
    and get: "js_get row ''baselineExclusions'' = or_undef (map_option exclusions_to_js es)"
    "js_get row ''baselineExclusionTransition'' = or_undef (map_option transition_to_js t)"
    using assms by (rule runtime_row_validated)
  have "baseline_reads row es t"
    using v by (simp add: validated_as_def baseline_reads_def)
  then show ?thesis
    using get reads_valid by (intro that [of es t]) (simp add: baseline_view_def)
qed

text \<open>The list the operations work on.\<close>

lemma view_list: "baseline_view row es t \<Longrightarrow> array_member row ''baselineExclusions'' = map exclusion_to_js (nullish [] es)"
  by (cases es) (simp_all add: baseline_view_def array_member_def or_undef_def exclusions_to_js_def)

lemma view_pending: "baseline_view row es t \<Longrightarrow> has_transition row \<longleftrightarrow> t \<noteq> None"
  by (cases t) (simp_all add: baseline_view_def has_transition_def or_undef_def transition_to_js_def)

lemma view_distinct:
  "baseline_view row es t \<Longrightarrow> distinct (map ex_key (nullish [] es)) \<and> list_all valid_exclusion (nullish [] es)"
  by (cases es) (auto simp: baseline_view_def valid_exclusions_def)

lemma without_key:
  "without_member ''key'' (JStr k) (map exclusion_to_js es) = map exclusion_to_js (filter (\<lambda>e. ex_key e \<noteq> k) es)"
  by (simp add: without_member_def filter_map comp_def)

lemma by_key_find: "by_key es k = find (\<lambda>e. ex_key e = k) es"
  by (induction es) (auto simp: by_key_def)

lemma by_key_filter: "by_key (filter (\<lambda>e. ex_key e \<noteq> k) es) = (by_key es)(k := None)"
  unfolding by_key_def by (induction es) (auto simp: fun_eq_iff)

lemma by_key_append: "by_key (es @ [e]) = (\<lambda>k. if by_key es k = None \<and> k = ex_key e then Some e else by_key es k)"
  unfolding by_key_def by (auto simp: fun_eq_iff map_add_def split: option.splits)

lemma by_key_None: "by_key es k = None \<longleftrightarrow> filter (\<lambda>e. ex_key e \<noteq> k) es = es"
  by (simp add: by_key_find find_None_iff filter_id_conv) blast

text \<open>A list of entries that read as exclusions with distinct keys.\<close>

lemma exclusions_read:
  assumes "traverse normalizeBaselineExclusionEntry items = Inr es" "distinct (map ex_key es)"
  shows "normalizeBaselineExclusions (JArr items) = Inr (if es = [] then None else Some es)"
proof -
  have "exclusions_by_key es = map (\<lambda>e. (ex_key e, e)) es"
    using assms(2) by (simp add: exclusions_by_key_def by_key_distinct)
  then show ?thesis
    using assms(1) by (simp add: normalizeBaselineExclusions_def comp_def)
qed

lemma traverse_append:
  "traverse f xs = Inr as \<Longrightarrow> traverse f ys = Inr bs \<Longrightarrow> traverse f (xs @ ys) = Inr (as @ bs)"
  by (induction xs arbitrary: as) auto

lemma written_entries:
  "list_all valid_exclusion es \<Longrightarrow> traverse normalizeBaselineExclusionEntry (map exclusion_to_js es) = Inr es"
  by (intro traverse_id exclusion_written) (simp add: list_all_iff)

lemma entry_by_members:
  assumes "isObjectRecord v" "isObjectRecord v'"
    "js_get v ''version'' = js_get v' ''version''" "js_get v ''agent'' = js_get v' ''agent''"
    "js_get v ''key'' = js_get v' ''key''" "js_get v ''digest'' = js_get v' ''digest''"
    "js_get v ''acknowledgedAt'' = js_get v' ''acknowledgedAt''"
    "js_get v ''appliedAgentVersion'' = js_get v' ''appliedAgentVersion''"
  shows "normalizeBaselineExclusionEntry v = normalizeBaselineExclusionEntry v'"
  unfolding normalizeBaselineExclusionEntry_def trimmed_member_def assms(3-8) using assms(1,2) by simp

lemma stamped_members:
  "js_get (stamped_member k stamp v) k' =
     (if k' = k then js_default (js_get v k) (JStr stamp) else js_get v k')"
  "isObjectRecord (stamped_member k stamp v)"
  by (simp_all add: stamped_member_def) (simp add: js_set_def)

lemma stamped_entry:
  assumes "valid_exclusion e" "canonical_iso stamp"
  shows "normalizeBaselineExclusionEntry (stamped_member ''acknowledgedAt'' stamp (exclusion_to_js e))
         = Inr (acknowledged stamp e)"
proof -
  have "valid_exclusion (acknowledged stamp e)"
    using assms by (cases "ex_acknowledgedAt e") (auto simp: acknowledged_def valid_exclusion_def)
  moreover have "js_default (js_get (exclusion_to_js e) ''acknowledgedAt'') (JStr stamp)
      = JStr (nullish stamp (ex_acknowledgedAt e))"
    by (cases "ex_acknowledgedAt e") (simp_all add: js_default_def)
  then have "normalizeBaselineExclusionEntry (stamped_member ''acknowledgedAt'' stamp (exclusion_to_js e))
      = normalizeBaselineExclusionEntry (exclusion_to_js (acknowledged stamp e))"
    by (intro entry_by_members) (simp_all add: stamped_members acknowledged_def)
  ultimately show ?thesis
    by (simp add: exclusion_written)
qed

section \<open>One step on a row\<close>

definition request_ok :: "baseline_request \<Rightarrow> bool" where
  "request_ok q = (case q of ReqAdd e \<Rightarrow> valid_exclusion e | ReqBegin t \<Rightarrow> valid_transition t | _ \<Rightarrow> True)"

text \<open>The row the step writes, read again, is in the state the specification reaches.\<close>

definition row_step ::
  "string \<Rightarrow> baseline_request \<Rightarrow> js \<Rightarrow> baseline_spec \<Rightarrow> registry_error + js option \<Rightarrow> bool" where
  "row_step stamp q row s result =
     (case result of
        Inl _ \<Rightarrow> False
      | Inr None \<Rightarrow> baseline_step stamp q s = (False, s)
      | Inr (Some row') \<Rightarrow>
          (\<exists>es t. baseline_reads row' es t \<and> baseline_step stamp q s = (True, baseline_state es t))
          \<and> js_get row' ''name'' = js_get row ''name'')"

lemma put_exclusion_reads:
  assumes view: "baseline_view row es t" and ok: "valid_exclusion e" "canonical_iso stamp"
  defines "es' \<equiv> filter (\<lambda>x. ex_key x \<noteq> ex_key e) (nullish [] es) @ [acknowledged stamp e]"
  shows "normalizeBaselineExclusions (js_get (put_exclusion stamp (exclusion_to_js e) row) ''baselineExclusions'')
         = Inr (Some es')"
    and "by_key es' = (by_key (nullish [] es))(ex_key e \<mapsto> acknowledged stamp e)"
proof -
  have key: "ex_key (acknowledged stamp e) = ex_key e"
    by (simp add: acknowledged_def)
  have "list_all valid_exclusion (filter (\<lambda>x. ex_key x \<noteq> ex_key e) (nullish [] es))"
    using view_distinct [OF view] by (auto simp: list_all_iff)
  then have "traverse normalizeBaselineExclusionEntry
      (map exclusion_to_js (filter (\<lambda>x. ex_key x \<noteq> ex_key e) (nullish [] es))
       @ [stamped_member ''acknowledgedAt'' stamp (exclusion_to_js e)]) = Inr es'"
    unfolding es'_def by (intro traverse_append written_entries) (simp_all add: stamped_entry ok)
  moreover have "distinct (map ex_key es')"
    using view_distinct [OF view] by (auto simp: es'_def key distinct_map_filter)
  ultimately show "normalizeBaselineExclusions
      (js_get (put_exclusion stamp (exclusion_to_js e) row) ''baselineExclusions'') = Inr (Some es')"
    by (simp add: put_exclusion_def view_list [OF view] without_key exclusions_read es'_def)
  show "by_key es' = (by_key (nullish [] es))(ex_key e \<mapsto> acknowledged stamp e)"
    by (auto simp: es'_def by_key_append by_key_filter key fun_eq_iff)
qed

lemma drop_exclusion_reads:
  fixes k :: string
  assumes view: "baseline_view row es t"
  defines "es' \<equiv> filter (\<lambda>x. ex_key x \<noteq> k) (nullish [] es)"
  shows "normalizeBaselineExclusions (nonempty_array (without_member ''key'' (JStr k)
           (array_member row ''baselineExclusions''))) = Inr (if es' = [] then None else Some es')"
proof -
  have "list_all valid_exclusion es'" "distinct (map ex_key es')"
    using view_distinct [OF view] by (auto simp: es'_def list_all_iff distinct_map_filter)
  then show ?thesis
    using exclusions_read [OF written_entries, of es']
    by (simp add: view_list [OF view] without_key nonempty_array_def es'_def [symmetric]
        normalizeBaselineExclusions_def [of JUndef])
qed

lemma view_transition:
  "baseline_view row es t \<Longrightarrow>
     normalizeBaselineExclusionTransition (js_get row ''baselineExclusionTransition'') = Inr t"
  "baseline_view row es t \<Longrightarrow> normalizeBaselineExclusions (js_get row ''baselineExclusions'') = Inr es"
  using view_reads by (simp_all add: baseline_reads_def)

lemma no_transition [simp]: "normalizeBaselineExclusionTransition JUndef = Inr None"
  by (simp add: normalizeBaselineExclusionTransition_def)

lemma put_exclusion_get [simp]:
  "k \<noteq> ''baselineExclusions'' \<Longrightarrow> js_get (put_exclusion stamp e row) k = js_get row k"
  by (simp add: put_exclusion_def)

lemma state_none_if [simp]:
  "baseline_state (if es = [] then None else Some es) t = baseline_state (Some es) t"
  by (simp add: baseline_state_def)

lemma add_step:
  assumes "baseline_view row es t" "valid_exclusion e" "canonical_iso stamp"
  shows "row_step stamp (ReqAdd e) row (baseline_state es t) (add_exclusion_row stamp (exclusion_to_js e) row)"
proof (cases t)
  case None
  have "baseline_state (Some (filter (\<lambda>x. ex_key x \<noteq> ex_key e) (nullish [] es) @ [acknowledged stamp e])) t
      = put_committed stamp e (baseline_state es t)"
    using put_exclusion_reads(2) [OF assms] by (simp add: baseline_state_def put_committed_def)
  then show ?thesis
    using None view_pending [OF assms(1)] put_exclusion_reads(1) [OF assms] view_transition(1) [OF assms(1)]
    by (auto simp: row_step_def add_exclusion_row_def baseline_reads_def baseline_state_def
        intro!: exI [of _ "Some (filter (\<lambda>x. ex_key x \<noteq> ex_key e) (nullish [] es) @ [acknowledged stamp e])"]
          exI [of _ t])
next
  case (Some t')
  then show ?thesis
    using view_pending [OF assms(1)] by (simp add: row_step_def add_exclusion_row_def baseline_state_def)
qed

lemma filter_length_same: "length (filter P xs) = length xs \<longleftrightarrow> filter P xs = xs"
  by (metis filter_True length_filter_less order_less_irrefl)

lemma remove_step:
  assumes "baseline_view row es t"
  shows "row_step stamp (ReqRemove k) row (baseline_state es t) (remove_exclusion_row k row)"
proof (cases "t \<noteq> None \<or> by_key (nullish [] es) k = None")
  case True
  then show ?thesis
    using view_pending [OF assms]
    by (auto simp: row_step_def remove_exclusion_row_def Let_def view_list [OF assms] without_key
        by_key_None baseline_state_def)
next
  case False
  let ?es = "filter (\<lambda>x. ex_key x \<noteq> k) (nullish [] es)"
  have "baseline_state (Some ?es) t = drop_committed k (baseline_state es t)"
    by (simp add: baseline_state_def drop_committed_def by_key_filter)
  moreover have "length ?es \<noteq> length (nullish [] es)"
    using False by (simp add: by_key_None filter_length_same)
  then have "remove_exclusion_row k row = Inr (Some (js_set ''baselineExclusions'' (nonempty_array
      (without_member ''key'' (JStr k) (array_member row ''baselineExclusions''))) row))"
    using False view_pending [OF assms]
    by (simp add: remove_exclusion_row_def Let_def) (simp add: view_list [OF assms] without_key)
  ultimately show ?thesis
    using False drop_exclusion_reads [OF assms, of k] view_transition(1) [OF assms]
    by (auto simp: row_step_def baseline_reads_def baseline_state_def)
qed

lemma begin_step:
  assumes "baseline_view row es t" "valid_transition tr"
  shows "row_step stamp (ReqBegin tr) row (baseline_state es t) (begin_transition_row (transition_to_js tr) row)"
  using view_pending [OF assms(1)] view_transition(2) [OF assms(1)]
  by (auto simp: row_step_def begin_transition_row_def transition_written [OF assms(2)] baseline_state_def
      baseline_reads_def or_undef_def)

lemma roll_back_step:
  assumes "baseline_view row es t"
  shows "row_step stamp (ReqRollBack tid) row (baseline_state es t) (clear_transition_row tid row)"
proof -
  have "js_get row ''baselineExclusionTransition'' = or_undef (map_option transition_to_js t)"
    using assms by (simp add: baseline_view_def)
  then show ?thesis
    using view_transition(2) [OF assms]
    by (cases t) (auto simp: row_step_def clear_transition_row_def baseline_state_def or_undef_def
        baseline_reads_def js_get_def [of JUndef])
qed

text \<open>Two exclusions are deeply equal when they are the same.\<close>

lemma exclusion_deep_equal: "deep_equal (exclusion_to_js c) (exclusion_to_js e) \<longleftrightarrow> c = e"
  by (cases "ex_acknowledgedAt c"; cases "ex_appliedAgentVersion c"; cases "ex_acknowledgedAt e";
      cases "ex_appliedAgentVersion e"; cases c; cases e)
    (auto simp: exclusion_to_js_def js_opt_def split: option.splits)

lemma find_committed:
  "find (\<lambda>v. js_get v ''key'' = JStr k) (map exclusion_to_js es) = map_option exclusion_to_js (by_key es k)"
  by (induction es) (auto simp: by_key_def)

lemma commit_row:
  assumes "baseline_view row es (Some t)"
  shows "commit_transition stamp (tr_id t) row =
     (case tr_operation t of
        Exclude \<Rightarrow> Some (js_set ''baselineExclusionTransition'' JUndef
                     (put_exclusion stamp (exclusion_to_js (tr_exclusion t)) row))
      | Restore \<Rightarrow>
          if by_key (nullish [] es) (ex_key (tr_exclusion t)) \<noteq> Some (tr_exclusion t) then None
          else Some (js_set ''baselineExclusionTransition'' JUndef (js_set ''baselineExclusions''
                 (nonempty_array (without_member ''key'' (JStr (ex_key (tr_exclusion t)))
                    (array_member row ''baselineExclusions''))) row)))"
proof -
  have "js_get row ''baselineExclusionTransition'' = transition_to_js t"
    using assms by (simp add: baseline_view_def or_undef_def)
  moreover have "js_truthy (transition_to_js t)"
    by (simp add: transition_to_js_def)
  ultimately show ?thesis
    by (cases "tr_operation t")
      (auto simp: commit_transition_def Let_def view_list [OF assms] find_committed exclusion_deep_equal
        split: option.splits)
qed

lemma commit_other:
  assumes "baseline_view row es t" "map_option tr_id t \<noteq> Some tid"
  shows "commit_transition stamp tid row = None"
  using assms by (cases t) (auto simp: commit_transition_def Let_def baseline_view_def or_undef_def)

lemma commit_step:
  assumes view: "baseline_view row es t" and stamp: "canonical_iso stamp"
  shows "row_step stamp (ReqCommit tid) row (baseline_state es t) (Inr (commit_transition stamp tid row))"
proof (cases "map_option tr_id t = Some tid")
  case False
  then show ?thesis
    using commit_other [OF view False]
    by (auto simp: row_step_def baseline_state_def split: option.splits)
next
  case True
  then obtain tr where tr: "t = Some tr" "tid = tr_id tr"
    by auto
  let ?e = "tr_exclusion tr"
  have valid: "valid_exclusion ?e"
    using view tr by (simp add: baseline_view_def valid_transition_def)
  note commit = commit_row [OF view [unfolded tr(1)], of stamp]
  show ?thesis
  proof (cases "tr_operation tr")
    case Exclude
    let ?es = "filter (\<lambda>x. ex_key x \<noteq> ex_key ?e) (nullish [] es) @ [acknowledged stamp ?e]"
    have "baseline_step stamp (ReqCommit tid) (baseline_state es t) = (True, baseline_state (Some ?es) None)"
      using put_exclusion_reads(2) [OF view valid stamp] Exclude tr
      by (simp add: baseline_state_def put_committed_def)
    then show ?thesis
      using put_exclusion_reads(1) [OF view valid stamp] Exclude commit tr
      by (auto simp: row_step_def baseline_reads_def)
  next
    case Restore
    then show ?thesis
      using commit tr drop_exclusion_reads [OF view, of "ex_key ?e"]
      by (auto simp: row_step_def baseline_reads_def baseline_state_def drop_committed_def
          by_key_filter [symmetric] intro!: exI)
  qed
qed

lemma baseline_row_step:
  assumes "baseline_view row es t" "request_ok q" "canonical_iso stamp"
  shows "row_step stamp q row (baseline_state es t) (baseline_row stamp q row)"
  using assms
  by (cases q) (simp_all add: request_ok_def add_step remove_step begin_step commit_step roll_back_step)

section \<open>The file\<close>

lemma mutate_row_outcome:
  assumes "mutate_row env name (\<lambda>w. f (g_now w)) w = (r, w')"
    and "loaded env (g_file w) = Inr data" "map_of (r_sandboxes data) name = Some row"
  obtains (kept) "g_file w' = g_file w" "\<And>b. r = Inr b \<Longrightarrow> \<not> b \<and> f (g_now w) row = Inr None"
    | (written) row' d where "f (g_now w) row = Inr (Some row')"
      "serializeRegistryForDisk env (data\<lparr>r_sandboxes := alist_set name row' (r_sandboxes data)\<rparr>) = Inr d"
      "g_file w' = on_disk d" "\<And>b. r = Inr b \<Longrightarrow> b"
proof -
  let ?m = "bind (load env) (\<lambda>data w. row_change env name (f (g_now w)) data w)"
  let ?next = "\<lambda>row'. data\<lparr>r_sandboxes := alist_set name row' (r_sandboxes data)\<rparr>"
  have m: "?m w0 = bind (lift_res (f (g_now w) row)) (\<lambda>next. case next of
      None \<Rightarrow> ret False | Some row' \<Rightarrow> bind (save env (?next row')) (\<lambda>_. ret True)) w0"
    if "g_file w0 = g_file w" "g_now w0 = g_now w" for w0
    using that assms(2,3) by (simp add: bind_def row_change_def row_at_def)
  have outcome: "g_file (snd (?m w0)) = g_file w
      \<or> (\<exists>row' d. f (g_now w) row = Inr (Some row')
           \<and> serializeRegistryForDisk env (?next row') = Inr d \<and> g_file (snd (?m w0)) = on_disk d)"
    if w0: "g_file w0 = g_file w" "g_now w0 = g_now w" for w0
  proof (cases "f (g_now w) row")
    case (Inr step)
    show ?thesis
    proof (cases step)
      case (Some row')
      then have "g_file (snd (?m w0)) = g_file (snd (save env (?next row') w0))"
        using Inr unfolding m [OF w0] by (auto simp: bind_def split: prod.splits sum.splits)
      then show ?thesis
        using save_file [of env "?next row'" w0] w0(1) Inr Some by auto
    qed (unfold m [OF w0], use Inr w0(1) in \<open>simp add: bind_def\<close>)
  qed (unfold m [OF w0], use w0(1) in \<open>simp add: bind_def\<close>)
  show ?thesis
  proof (cases r)
    case (Inl e)
    have "g_file w' = g_file w \<or> (\<exists>row' d. f (g_now w) row = Inr (Some row')
           \<and> serializeRegistryForDisk env (?next row') = Inr d \<and> g_file w' = on_disk d)"
      using withLock_file [of ?m w]
    proof (elim disjE exE conjE)
      fix w0 assume "g_file w0 = g_file w" "g_now w0 = g_now w"
        "g_file (snd (withLock ?m w)) = g_file (snd (?m w0))"
      then show ?thesis
        using outcome [of w0] assms(1) by (simp add: mutate_row_def)
    qed (use assms(1) in \<open>simp add: mutate_row_def\<close>)
    then show ?thesis
      using Inl kept written by fastforce
  next
    case (Inr b)
    then obtain w0 w1 where w0: "g_file w0 = g_file w" "g_now w0 = g_now w" "?m w0 = (Inr b, w1)"
      "g_file w' = g_file w1"
      using withLock_ok [of ?m w b w'] assms(1) unfolding mutate_row_def by blast
    show ?thesis
    proof (cases "f (g_now w) row")
      case (Inr step)
      then show ?thesis
        using w0 m [OF w0(1,2)] \<open>r = Inr b\<close> kept written
        by (cases step) (auto simp: bind_def dest!: save_ok split: prod.splits sum.splits)
    qed (use w0 m [OF w0(1,2)] in \<open>simp add: bind_def\<close>)
  qed
qed

lemma baseline_reload:
  assumes "serializeRegistryForDisk env r = Inr d" "rows_named (r_sandboxes r)"
    "map_of (r_sandboxes r) k = Some e" "baseline_reads e es t"
  shows "baseline_of env k (on_disk d) = Some (baseline_state es t)"
proof -
  obtain data where data: "loaded env (on_disk d) = Inr data"
    and rows: "\<And>k e. map_of (r_sandboxes r) k = Some e \<Longrightarrow>
       \<exists>d' e'. serializeSandboxEntryForDisk env e = Inr d'
          \<and> normalizeSandboxEntryForRuntime env (json_persist d') = Inr e'
          \<and> map_of (r_sandboxes data) k = Some e'"
    using assms(1,2) by (rule registry_reload) blast
  obtain d' e' where e': "serializeSandboxEntryForDisk env e = Inr d'"
    "normalizeSandboxEntryForRuntime env (json_persist d') = Inr e'" "map_of (r_sandboxes data) k = Some e'"
    using rows [OF assms(3)] by blast
  obtain w p es' t' ps where "validated_as env e w p es' t' ps" "validated_as env e' w p es' t' ps"
    using e'(1,2) by (elim row_reload) simp
  then have "baseline_reads e' es t"
    using assms(4) by (simp add: validated_as_def baseline_reads_def)
  then show ?thesis
    using data e'(3) by (simp add: baseline_of_def reads_baseline)
qed

lemma rows_named_set:
  assumes "rows_named rows" "map_of rows k = Some e" "js_get e' ''name'' = js_get e ''name''"
  shows "rows_named (alist_set k e' rows)"
  using assms by (auto simp: rows_named_def distinct_alist_set map_of_alist_set)

text \<open>Every row of a loaded registry has a state, and so has every row a save wrote.\<close>

lemma loaded_state:
  assumes "loaded env f = Inr data" "map_of (r_sandboxes data) k = Some e"
  obtains es t where "baseline_view e es t" "baseline_of env k f = Some (baseline_state es t)"
proof -
  obtain e0 where "normalizeSandboxEntryForRuntime env e0 = Inr e"
    using assms loaded_row_origin by blast
  then obtain es t where "baseline_view e es t"
    by (rule loaded_view)
  then show ?thesis
    using assms reads_baseline [OF view_reads] by (intro that) (simp_all add: baseline_of_def)
qed

lemma baseline_absent:
  assumes "serializeRegistryForDisk env r = Inr d" "rows_named (r_sandboxes r)"
    "map_of (r_sandboxes r) k = None"
  shows "baseline_of env k (on_disk d) = None"
proof -
  obtain data where "loaded env (on_disk d) = Inr data" "map_of (r_sandboxes data) k = None"
    using assms by (auto elim: registry_reload)
  then show ?thesis
    by (simp add: baseline_of_def)
qed

lemma baseline_frame:
  assumes data: "loaded env f = Inr data" "map_of (r_sandboxes data) name = Some row"
    and row': "js_get row' ''name'' = js_get row ''name''"
    and d: "serializeRegistryForDisk env (data\<lparr>r_sandboxes := alist_set name row' (r_sandboxes data)\<rparr>) = Inr d"
    and other: "other \<noteq> name"
  shows "baseline_of env other (on_disk d) = baseline_of env other f"
proof -
  have named: "rows_named (alist_set name row' (r_sandboxes data))"
    using rows_named_set loaded_rows_named data row' by blast
  show ?thesis
  proof (cases "map_of (r_sandboxes data) other")
    case None
    then show ?thesis
      using baseline_absent [OF d] named other data(1) by (simp add: map_of_alist_set baseline_of_def)
  next
    case (Some e)
    obtain es t where "baseline_view e es t" "baseline_of env other f = Some (baseline_state es t)"
      using data(1) Some by (rule loaded_state)
    then show ?thesis
      using baseline_reload [OF d] named other Some view_reads by (simp add: map_of_alist_set)
  qed
qed

text \<open>
  The simulation: an answered call takes the step of the specification; a call that ended in an
  error has taken the whole step or none of it; and no other sandbox changes.
\<close>

lemma baseline_simulation:
  assumes s: "baseline_of env name (g_file w) = Some s" and ok: "request_ok q" "canonical_iso (g_now w)"
    and run: "baseline_call env name q w = (r, w')" and step: "baseline_step (g_now w) q s = (b, s')"
  shows "r = Inr b' \<Longrightarrow> b' = b \<and> baseline_of env name (g_file w') = Some s'"
    and "baseline_of env name (g_file w') \<in> {Some s, Some s'}"
    and "other \<noteq> name \<Longrightarrow> baseline_of env other (g_file w') = baseline_of env other (g_file w)"
proof -
  obtain data row where data: "loaded env (g_file w) = Inr data" "map_of (r_sandboxes data) name = Some row"
    using s by (auto simp: baseline_of_def bind_eq_Some_conv split: sum.splits)
  obtain es t where view: "baseline_view row es t" and "baseline_of env name (g_file w) = Some (baseline_state es t)"
    using data by (rule loaded_state)
  then have st: "s = baseline_state es t"
    using s by simp
  have row: "row_step (g_now w) q row s (baseline_row (g_now w) q row)"
    unfolding st by (rule baseline_row_step [OF view ok])
  have all: "(r = Inr b' \<longrightarrow> b' = b \<and> baseline_of env name (g_file w') = Some s')
      \<and> baseline_of env name (g_file w') \<in> {Some s, Some s'}
      \<and> (other \<noteq> name \<longrightarrow> baseline_of env other (g_file w') = baseline_of env other (g_file w))"
    for b' other
    using run [unfolded baseline_call_eq] data
  proof (cases rule: mutate_row_outcome)
    case kept
    show ?thesis
    proof (cases r)
      case (Inr c)
      then have "baseline_step (g_now w) q s = (False, s)"
        using kept(2) row by (simp add: row_step_def)
      then show ?thesis
        using kept(1) kept(2) [OF Inr] Inr s step by simp
    qed (simp add: kept(1) s)
  next
    case (written row' d)
    then obtain es' t' where reads: "baseline_reads row' es' t'"
      and to: "baseline_step (g_now w) q s = (True, baseline_state es' t')"
      and name: "js_get row' ''name'' = js_get row ''name''"
      using row by (auto simp: row_step_def)
    have "rows_named (alist_set name row' (r_sandboxes data))"
      using rows_named_set loaded_rows_named data name by blast
    then have "baseline_of env name (on_disk d) = Some s'"
      using baseline_reload [OF written(2) _ _ reads, of name] to step by (simp add: map_of_alist_set)
    then show ?thesis
      using written(3,4) to step baseline_frame [OF data name written(2)] by auto
  qed
  show "r = Inr b' \<Longrightarrow> b' = b \<and> baseline_of env name (g_file w') = Some s'"
    "baseline_of env name (g_file w') \<in> {Some s, Some s'}"
    "other \<noteq> name \<Longrightarrow> baseline_of env other (g_file w') = baseline_of env other (g_file w)"
    using all [of b' other] by blast+
qed

end
