(* ===== verification/Registry_History.thy ===== *)
theory Registry_History
  imports Registry_Journal
begin

text \<open>
  The registry over time: what every written file satisfies, that a damaged file is never
  replaced, and how a removed sandbox comes back when other calls ran in between.
\<close>

section \<open>Every written file\<close>

text \<open>
  The registry a save writes: distinct names, the default is none or names a stored row that is not
  a mere route reservation, the revision is a safe integer, and the extra providers are sorted,
  distinct and well formed.
\<close>

definition registry_wf :: "registry \<Rightarrow> bool" where
  "registry_wf d =
     (distinct (map fst (r_sandboxes d))
      \<and> (case r_defaultSandbox d of
           None \<Rightarrow> True
         | Some name \<Rightarrow> (case map_of (r_sandboxes d) name of
                           None \<Rightarrow> False | Some e \<Rightarrow> \<not> is_reservation e))
      \<and> revision_ok (r_defaultSelectionRevision d)
      \<and> valid_extra_providers (r_extraProviders d))"

lemma serialize_wf: "serializeRegistryForDisk env r = Inr d \<Longrightarrow> registry_wf d"
  by (auto simp: serialize_iff registry_wf_def providers_valid retainedDefaultSandbox_def
      dest: normalize_rows_distinct split: option.splits)

lemma serialized_row:
  assumes "normalize_rows (serializeSandboxEntryForDisk env) rows = Inr rows'" "(k, d') \<in> set rows'"
  obtains e where "serializeSandboxEntryForDisk env e = Inr d'"
proof -
  have "map_of rows' k = Some d'"
    using normalize_rows_distinct [OF assms(1)] assms(2) by simp
  then show ?thesis
    using normalize_rows_origin [OF assms(1)] that by blast
qed

lemma serialized_rows_persist:
  assumes "normalize_rows (serializeSandboxEntryForDisk env) rows = Inr rows'"
  shows "json_persist_obj rows' = map (\<lambda>(k, e). (k, json_persist e)) rows'"
proof (rule persist_rows, unfold list_all_iff, clarify)
  fix k assume "(k, JUndef) \<in> set rows'"
  then obtain e where "serializeSandboxEntryForDisk env e = Inr JUndef"
    using serialized_row [OF assms] by blast
  then show False
    using disk_row_members(2) by fastforce
qed

text \<open>Whatever rows were saved, the file loads: rows under a name that is not theirs are dropped.\<close>

lemma serialized_rows_load:
  assumes "normalize_rows (serializeSandboxEntryForDisk env) rows = Inr rows'"
  shows "\<exists>rows''. normalize_rows (normalizeSandboxEntryForRuntime env)
           (parseSandboxRegistryEntries (JObj (json_persist_obj rows'))) = Inr rows''"
proof -
  have "\<exists>y. (case x of (name, e) \<Rightarrow> andThen (normalizeSandboxEntryForRuntime env e) (\<lambda>e'. Inr (name, e'))) = Inr y"
    if stored: "x \<in> set (parseSandboxRegistryEntries (JObj (json_persist_obj rows')))" for x
  proof -
    obtain k d' where x: "x = (k, json_persist d')" and mem: "(k, d') \<in> set rows'"
      using stored by (auto simp: parseSandboxRegistryEntries_def serialized_rows_persist [OF assms])
    obtain e where "serializeSandboxEntryForDisk env e = Inr d'"
      using serialized_row [OF assms mem] .
    then obtain e' where "normalizeSandboxEntryForRuntime env (json_persist d') = Inr e'"
      by (rule row_reload)
    then show ?thesis
      by (simp add: x)
  qed
  then obtain ys where "traverse (\<lambda>(name, e). andThen (normalizeSandboxEntryForRuntime env e)
      (\<lambda>e'. Inr (name, e'))) (parseSandboxRegistryEntries (JObj (json_persist_obj rows'))) = Inr ys"
    using traverse_total by blast
  then show ?thesis
    by (simp add: normalize_rows_def)
qed

lemma saved_loads:
  assumes "serializeRegistryForDisk env r = Inr d"
  obtains data where "loaded env (on_disk d) = Inr data"
    "r_defaultSandbox data = r_defaultSandbox d"
    "r_defaultSelectionRevision data = r_defaultSelectionRevision d"
    "r_extraProviders data = r_extraProviders d"
proof -
  have rows: "normalize_rows (serializeSandboxEntryForDisk env) (r_sandboxes r) = Inr (r_sandboxes d)"
    and rev: "revision_ok (r_defaultSelectionRevision d)"
    using assms by (auto simp: serialize_iff)
  obtain rows'' where "normalize_rows (normalizeSandboxEntryForRuntime env)
      (parseSandboxRegistryEntries (JObj (json_persist_obj (r_sandboxes d)))) = Inr rows''"
    using serialized_rows_load [OF rows] by blast
  moreover have "js_string (js_opt JStr x) = x" for x
    by (cases x) simp_all
  ultimately show ?thesis
    using that rev disk_providers [OF assms]
    by (simp add: loaded_def on_disk_def normalizeRegistry_def on_disk_members)
qed

lemma run_calls_file:
  "g_file (run_calls env cs w) = g_file w
   \<or> (\<exists>r d. serializeRegistryForDisk env r = Inr d \<and> g_file (run_calls env cs w) = on_disk d)"
proof (induction cs arbitrary: w)
  case (Cons c cs)
  then show ?case
    using run_call_follows [of env w c] unfolding follows_def by (metis run_calls_simps(2))
qed simp

section \<open>A damaged file is left alone\<close>

lemma run_calls_unloadable:
  "loaded env (g_file w) = Inl e \<Longrightarrow> g_file (run_calls env cs w) = g_file w"
proof (induction cs arbitrary: w)
  case (Cons c cs)
  have "g_file (run_call env c w) = g_file w"
    using run_call_follows [of env w c] Cons.prems by (auto simp: follows_def)
  then show ?case
    using Cons.IH [of "run_call env c w"] Cons.prems by simp
qed simp

text \<open>A row whose receipts, exclusions, journal or policies do not pass validation.\<close>

definition row_damaged :: "registry_env \<Rightarrow> js \<Rightarrow> bool" where
  "row_damaged env e =
     (js_get e ''workload'' \<noteq> JUndef \<and> cloneSandboxWorkloadReceipt env (js_get e ''workload'') = None
      \<or> js_get e ''servingProfileProvenance'' \<noteq> JUndef
        \<and> parseServingProfileProvenance (js_get e ''servingProfileProvenance'') = None
      \<or> right (normalizeBaselineExclusions (js_get e ''baselineExclusions'')) = None
      \<or> right (normalizeBaselineExclusionTransition (js_get e ''baselineExclusionTransition'')) = None
      \<or> right (normalizeCustomPolicyEntries (normalizeTrustedPrivatePolicyPinReceipt env)
                 (js_get e ''customPolicies'')) = None)"

lemma damaged_row: "row_damaged env e \<Longrightarrow> normalizeSandboxEntryForRuntime env e \<noteq> Inr e'"
  by (auto simp: row_damaged_def runtime_row_iff validated_as_def right_def)

lemma traverse_error: "x \<in> set xs \<Longrightarrow> (\<And>y. f x \<noteq> Inr y) \<Longrightarrow> traverse f xs \<noteq> Inr ys"
  by (induction xs arbitrary: ys) auto

lemma damaged_registry:
  assumes "isObjectRecord v" "(name, e) \<in> set (js_entries (js_get v ''sandboxes''))"
    "isObjectRecord (js_get v ''sandboxes'')" "isSandboxEntryLike name e" "row_damaged env e"
  shows "loaded env (RegistryJson v) \<noteq> Inr data"
proof -
  have "(name, e) \<in> set (parseSandboxRegistryEntries (js_get v ''sandboxes''))"
    using assms by (simp add: parseSandboxRegistryEntries_def)
  then have "traverse (\<lambda>(name, entry). andThen (normalizeSandboxEntryForRuntime env entry) (\<lambda>e. Inr (name, e)))
      (parseSandboxRegistryEntries (js_get v ''sandboxes'')) \<noteq> Inr ys" for ys
    using damaged_row [OF assms(5)] by (intro traverse_error) (auto simp: andThen_eq_Inr)
  then show ?thesis
    using assms(1) by (auto simp: loaded_def normalizeRegistry_def normalize_rows_def Let_def andThen_eq_Inr)
qed

section \<open>Removal and restoration\<close>

lemma locked_outcome:
  assumes "withLock (bind (load env) change) w = (r, w')"
  obtains (failed) e where "r = Inl e" "g_file w' = g_file w"
    | (ran) data w0 r1 w1 where "loaded env (g_file w) = Inr data" "g_file w0 = g_file w"
      "change data w0 = (r1, w1)" "g_file w' = g_file w1" "\<And>a. r = Inr a \<Longrightarrow> r1 = Inr a"
proof (cases "acquireLock (g_lock w)")
  case (Inl e)
  then show ?thesis
    using assms failed by (auto simp: withLock_def)
next
  case (Inr n)
  define w0 where "w0 = w\<lparr>g_lock := \<lambda>i. g_lock w (n + i)\<rparr>"
  obtain r1 w1 where m: "bind (load env) change w0 = (r1, w1)"
    by force
  then have w': "g_file w' = g_file w1" "\<And>a. r = Inr a \<Longrightarrow> r1 = Inr a" "\<And>e. r1 = Inl e \<Longrightarrow> \<exists>e. r = Inl e"
    using assms Inr by (auto simp: withLock_def w0_def Let_def split: if_splits)
  have w0: "g_file w0 = g_file w"
    by (simp add: w0_def)
  show ?thesis
  proof (cases "loaded env (g_file w)")
    case (Inl e)
    then show ?thesis
      using m w0 w' failed by (auto simp: bind_def)
  next
    case (Inr data)
    then have "change data w0 = (r1, w1)"
      using m w0 by (simp add: bind_def)
    then show ?thesis
      using ran Inr w0 w' by blast
  qed
qed

lemma remove_outcome:
  assumes "removeSandboxWithReceipt env name w = (Inr (Some receipt), w')"
  obtains data r d where "loaded env (g_file w) = Inr data"
    "removeSandboxFromRegistry data name = Inr (r, Some receipt)"
    "serializeRegistryForDisk env r = Inr d" "g_file w' = on_disk d"
  using assms unfolding removeSandboxWithReceipt_def
proof (cases rule: locked_outcome)
  case (ran data w0 r1 w1)
  have "r1 = Inr (Some receipt)"
    using ran(5) by simp
  with ran(3) obtain r u where step: "removeSandboxFromRegistry data name = Inr (r, Some receipt)"
    "save env r w0 = (Inr u, w1)"
    by (auto simp: bind_def split: sum.splits prod.splits option.splits)
  then show ?thesis
    using that [OF ran(1) step(1)] save_ok [OF step(2)] ran(4) by auto
qed simp

lemma restore_outcome:
  assumes "restoreSandboxEntryIfMissing env receipt w = (b, w')"
  obtains (kept) "g_file w' = g_file w" "b \<noteq> Inr True"
    | (restored) data r d where "loaded env (g_file w) = Inr data"
      "restoreSandboxIfMissingInRegistry data receipt = Inr (r, True)"
      "serializeRegistryForDisk env r = Inr d" "g_file w' = on_disk d"
  using assms unfolding restoreSandboxEntryIfMissing_def
proof (cases rule: locked_outcome)
  case (ran data w0 r1 w1)
  show ?thesis
  proof (cases "restoreSandboxIfMissingInRegistry data receipt")
    case (Inl e)
    then show ?thesis
      using ran kept by (auto simp: bind_def)
  next
    case (Inr x)
    obtain r ok where x: "x = (r, ok)"
      by force
    show ?thesis
    proof (cases ok)
      case False
      then show ?thesis
        using ran kept Inr x by (auto simp: bind_def)
    next
      case True
      then have run: "bind (save env r) (\<lambda>_. ret True) w0 = (r1, w1)"
        using ran(3) Inr x by (simp add: bind_def [of "lift_res _"])
      show ?thesis
      proof (cases "\<exists>d. serializeRegistryForDisk env r = Inr d \<and> g_file w1 = on_disk d")
        case True
        then show ?thesis
          using restored [OF ran(1) Inr [unfolded x \<open>ok\<close> [THEN eqTrueI]]] ran(4) by auto
      next
        case False
        then have "g_file w1 = g_file w0" "r1 \<noteq> Inr True"
          using run save_file [of env r w0] save_ok [of env r w0]
          by (auto simp: bind_def split: prod.splits sum.splits)
        then show ?thesis
          using kept ran(2,4,5) by auto
      qed
    qed
  qed
qed (use kept in auto)

text \<open>A save keeps a default that names a row which is not a reservation.\<close>

lemma serialize_keeps_default:
  assumes "serializeRegistryForDisk env r = Inr d" "distinct (map fst (r_sandboxes r))"
    "r_defaultSandbox r = Some n" "map_of (r_sandboxes r) n = Some e" "\<not> is_reservation e"
  shows "file_pointer (on_disk d) = Some (Some n, r_defaultSelectionRevision r)"
proof -
  have rows: "normalize_rows (serializeSandboxEntryForDisk env) (r_sandboxes r) = Inr (r_sandboxes d)"
    using assms(1) by (auto simp: serialize_iff)
  obtain e' where "serializeSandboxEntryForDisk env e = Inr e'" "map_of (r_sandboxes d) n = Some e'"
    using normalize_rows_lookup(1) [OF rows assms(2,4)] by blast
  then have "r_defaultSandbox d = Some n" "r_defaultSelectionRevision d = r_defaultSelectionRevision r"
    using assms by (auto simp: serialize_iff retainedDefaultSandbox_def disk_row_reservation)
  then show ?thesis
    using on_disk_pointer serialize_revision_ok [OF assms(1)] by simp
qed

lemma remove_revision:
  "removeSandboxFromRegistry data name = Inr (r, Some receipt) \<Longrightarrow>
     rr_postRemovalRevision receipt = r_defaultSelectionRevision r
     \<and> (rr_wasDefault receipt \<longrightarrow> r_defaultSandbox r = rr_fallbackDefault receipt)"
  by (auto simp: removeSandboxFromRegistry_def Let_def split: row.splits if_splits)

lemma removal_pointer:
  assumes "removeSandboxWithReceipt env name w = (Inr (Some receipt), w')"
  obtains d n where "file_pointer (g_file w') = Some (d, n)" "rr_postRemovalRevision receipt \<le> n"
proof -
  obtain data r d where d: "removeSandboxFromRegistry data name = Inr (r, Some receipt)"
    "serializeRegistryForDisk env r = Inr d" "g_file w' = on_disk d"
    using assms by (rule remove_outcome)
  have "rr_postRemovalRevision receipt \<le> r_defaultSelectionRevision d"
    using remove_revision [OF d(1)] pointer_step_serialize [OF d(2)] by (simp add: pointer_step_def)
  then show ?thesis
    using that on_disk_pointer [OF serialize_revision_ok [OF d(2)]] d(3) by simp
qed

text \<open>Restoring when the pointer has moved on: a valid default stays.\<close>

lemma restore_in_registry_later:
  assumes "restoreSandboxIfMissingInRegistry data receipt = Inr (r, True)"
    and "r_defaultSelectionRevision data \<noteq> rr_postRemovalRevision receipt"
    and "r_defaultSandbox data = Some n" "map_of (r_sandboxes data) n = Some e"
    and "distinct (map fst (r_sandboxes data))"
  shows "r_defaultSandbox r = Some n" "r_defaultSelectionRevision r = r_defaultSelectionRevision data"
    "map_of (r_sandboxes r) n = Some e" "distinct (map fst (r_sandboxes r))"
  using assms
  by (auto simp: restoreSandboxIfMissingInRegistry_def Let_def row_at_def distinct_own_put
      normalizeDefaultSelectionRevision_def split: option.splits if_splits)

lemma restore_later:
  assumes "restoreSandboxEntryIfMissing env receipt w = (b, w')"
    and data: "loaded env (g_file w) = Inr data" "r_defaultSandbox data = Some n"
      "map_of (r_sandboxes data) n = Some e" "\<not> is_reservation e"
    and later: "rr_postRemovalRevision receipt < r_defaultSelectionRevision data"
  shows "file_pointer (g_file w') = file_pointer (g_file w)"
  using assms(1)
proof (cases rule: restore_outcome)
  case (restored data' r d)
  have "distinct (map fst (r_sandboxes data))"
    using loaded_rows_named [OF data(1)] by (simp add: rows_named_def)
  then have "file_pointer (on_disk d) = Some (Some n, r_defaultSelectionRevision data)"
    using restored(1-3) data later restore_in_registry_later [of data receipt r n e]
      serialize_keeps_default [of env r d n e] by simp
  then show ?thesis
    using restored(4) loaded_pointer [OF data(1)] data(2) by simp
qed simp

text \<open>Restoring while the pointer is where the removal left it: the removed default is selected again.\<close>

lemma remove_default_receipt:
  assumes "removeSandboxFromRegistry data name = Inr (r, Some receipt)"
    "r_defaultSandbox data = Some name" "map_of (r_sandboxes data) name = Some entry"
  shows "rr_removedEntry receipt = Some entry" "rr_wasDefault receipt" "rr_fallbackDefault receipt \<noteq> Some name"
proof -
  have "first_key (own_delete name (r_sandboxes data)) \<noteq> Some name"
    by (auto simp: first_key_def own_delete_def filter_eq_Cons_iff split: list.splits)
  then show "rr_removedEntry receipt = Some entry" "rr_wasDefault receipt" "rr_fallbackDefault receipt \<noteq> Some name"
    using assms by (auto simp: removeSandboxFromRegistry_def Let_def row_at_def)
qed

lemma restore_in_registry_reclaims:
  assumes "restoreSandboxIfMissingInRegistry data receipt = Inr (r, True)"
    and "rr_removedEntry receipt = Some entry" "entry_name entry = name" "rr_wasDefault receipt"
    and "rr_fallbackDefault receipt \<noteq> Some name"
    and "r_defaultSandbox data = rr_fallbackDefault receipt"
    and "r_defaultSelectionRevision data = rr_postRemovalRevision receipt"
  shows "r_defaultSandbox r = Some name" "r_defaultSelectionRevision r = rr_postRemovalRevision receipt + 1"
    "r_sandboxes r = own_put name entry (r_sandboxes data)"
  using assms
  by (auto simp: restoreSandboxIfMissingInRegistry_def Let_def increment_revision
      normalizeDefaultSelectionRevision_def split: if_splits)

lemma rows_named_put:
  "rows_named rows \<Longrightarrow> js_get e ''name'' = JStr k \<Longrightarrow> trim k \<noteq> [] \<Longrightarrow> rows_named (own_put k e rows)"
  by (auto simp: rows_named_def distinct_own_put)

text \<open>A row that went through a save: the state of its baseline and every other stored member.\<close>

definition same_row :: "js \<Rightarrow> js \<Rightarrow> bool" where
  "same_row e e' =
     (row_baseline e' = row_baseline e
      \<and> (\<forall>k. is_durable k \<and> js_get e k \<noteq> JUndef \<longrightarrow> js_get e' k = json_persist (js_get e k)))"

lemma stored_row_same:
  assumes "serializeSandboxEntryForDisk env e = Inr d"
    "normalizeSandboxEntryForRuntime env (json_persist d) = Inr e'"
  shows "same_row e e'"
proof -
  obtain e'' w p es t ps where "normalizeSandboxEntryForRuntime env (json_persist d) = Inr e''"
    "validated_as env e w p es t ps" "validated_as env e'' w p es t ps"
    and members: "\<And>k. is_durable k \<Longrightarrow> js_get e k \<noteq> JUndef \<Longrightarrow> js_get e'' k = json_persist (js_get e k)"
    using assms(1) by (rule row_reload) blast
  moreover from this have "e'' = e'"
    using assms(2) by simp
  ultimately show ?thesis
    by (simp add: same_row_def validated_as_def row_baseline_def)
qed

lemma removal_undone:
  assumes data: "loaded env (g_file w) = Inr data" "r_defaultSandbox data = Some name"
      "map_of (r_sandboxes data) name = Some entry" "\<not> is_reservation entry"
    and removed: "removeSandboxWithReceipt env name w = (Inr (Some receipt), w1)"
    and pointer: "file_pointer (g_file w2) = Some (rr_fallbackDefault receipt, rr_postRemovalRevision receipt)"
    and undo: "restoreSandboxEntryIfMissing env receipt w2 = (Inr True, w3)"
  obtains data' row where "loaded env (g_file w3) = Inr data'" "r_defaultSandbox data' = Some name"
    "r_defaultSelectionRevision data' = rr_postRemovalRevision receipt + 1"
    "map_of (r_sandboxes data') name = Some row" "same_row entry row"
proof -
  obtain data0 r0 where "loaded env (g_file w) = Inr data0"
    "removeSandboxFromRegistry data0 name = Inr (r0, Some receipt)"
    using removed by (rule remove_outcome)
  then have receipt: "rr_removedEntry receipt = Some entry" "rr_wasDefault receipt" "rr_fallbackDefault receipt \<noteq> Some name"
    using remove_default_receipt [of data name r0 receipt entry] data by simp_all
  have name: "js_get entry ''name'' = JStr name" "trim name \<noteq> []"
    using loaded_rows_named [OF data(1)] data(3) by (auto simp: rows_named_def)
  obtain data2 r d where two: "loaded env (g_file w2) = Inr data2"
    "restoreSandboxIfMissingInRegistry data2 receipt = Inr (r, True)"
    "serializeRegistryForDisk env r = Inr d" "g_file w3 = on_disk d"
    using undo by (cases rule: restore_outcome) auto
  have r: "r_defaultSandbox r = Some name" "r_defaultSelectionRevision r = rr_postRemovalRevision receipt + 1"
    "r_sandboxes r = own_put name entry (r_sandboxes data2)"
    using restore_in_registry_reclaims [OF two(2) receipt(1) _ receipt(2,3)] name
      loaded_pointer [OF two(1)] pointer by (simp_all add: entry_name_def)
  have named: "rows_named (r_sandboxes r)"
    using rows_named_put [OF loaded_rows_named [OF two(1)]] name r(3) by simp
  have "file_pointer (on_disk d) = Some (Some name, rr_postRemovalRevision receipt + 1)"
    using serialize_keeps_default [OF two(3), of name entry] named r data(4) by (simp add: rows_named_def)
  moreover obtain data' where data': "loaded env (on_disk d) = Inr data'"
    "\<And>k e. map_of (r_sandboxes r) k = Some e \<Longrightarrow>
       \<exists>d' e'. serializeSandboxEntryForDisk env e = Inr d'
          \<and> normalizeSandboxEntryForRuntime env (json_persist d') = Inr e'
          \<and> map_of (r_sandboxes data') k = Some e'"
    using two(3) named by (rule registry_reload) blast
  moreover obtain row where "map_of (r_sandboxes data') name = Some row" "same_row entry row"
    using data'(2) [of name entry] r(3) stored_row_same by auto
  ultimately show ?thesis
    using that [of data' row] loaded_pointer [OF data'(1)] two(4) by simp
qed

section \<open>Selecting a default\<close>

text \<open>What was loaded can be saved again.\<close>

lemma loaded_serializes:
  assumes "loaded env f = Inr data"
  shows "\<exists>rows. normalize_rows (serializeSandboxEntryForDisk env) (r_sandboxes data) = Inr rows"
proof -
  have "\<exists>y. (case x of (name, e) \<Rightarrow> andThen (serializeSandboxEntryForDisk env e) (\<lambda>e'. Inr (name, e'))) = Inr y"
    if mem: "x \<in> set (r_sandboxes data)" for x
  proof -
    obtain k e where x: "x = (k, e)"
      by force
    have "map_of (r_sandboxes data) k = Some e"
      using mem loaded_rows_named [OF assms] by (simp add: x rows_named_def)
    then obtain e0 where "normalizeSandboxEntryForRuntime env e0 = Inr e"
      using loaded_row_origin [OF assms] by blast
    then obtain w p es t ps where "validated_as env e w p es t ps"
      by (rule runtime_row_validated)
    then have "\<exists>d. serializeSandboxEntryForDisk env e = Inr d"
      unfolding disk_row_iff by blast
    then show ?thesis
      by (auto simp: x)
  qed
  then obtain ys where "traverse (\<lambda>(name, e). andThen (serializeSandboxEntryForDisk env e)
      (\<lambda>e'. Inr (name, e'))) (r_sandboxes data) = Inr ys"
    using traverse_total by blast
  then show ?thesis
    by (simp add: normalize_rows_def)
qed

lemma loaded_revision: "loaded env f = Inr data \<Longrightarrow> revision_ok (r_defaultSelectionRevision data)"
  by (auto simp: loaded_def normalizeRegistry_def Let_def normalize_revision_ok split: registry_file.splits)

text \<open>The world of a call that gets the lock, can write and can release.\<close>

definition serves :: "registry_world \<Rightarrow> bool" where
  "serves w = (right (acquireLock (g_lock w)) \<noteq> None \<and> g_writes w 0 = Written \<and> g_released w 0)"

lemma withLock_serves:
  assumes "serves w"
  obtains w0 where "g_file w0 = g_file w" "g_now w0 = g_now w" "g_writes w0 0 = Written" "g_released w0 = g_released w"
    "\<forall>r w1. f w0 = (r, w1) \<and> g_released w1 = g_released w0 \<longrightarrow>
       (\<exists>w'. withLock f w = (r, w') \<and> g_file w' = g_file w1)"
proof -
  obtain n where n: "acquireLock (g_lock w) = Inr n"
    using assms by (cases "acquireLock (g_lock w)") (auto simp: serves_def right_def)
  show ?thesis
    by (rule that [of "w\<lparr>g_lock := \<lambda>i. g_lock w (n + i)\<rparr>"])
      (use assms n in \<open>auto simp: serves_def withLock_def Let_def\<close>)
qed

lemma save_serves:
  assumes "serializeRegistryForDisk env r = Inr d" "g_writes w 0 = Written"
  obtains w' where "save env r w = (Inr (), w')" "g_file w' = on_disk d" "g_released w' = g_released w"
  using assms that by (auto simp: save_def bind_def writeConfigFile_def on_disk_def)

lemma serialize_selected:
  assumes data: "loaded env f = Inr data" and room: "r_defaultSelectionRevision data + 2 \<le> MAX_SAFE_INTEGER"
  obtains r d where "select_default (Some name) data = Inr r" "serializeRegistryForDisk env r = Inr d"
    "file_pointer (on_disk d) =
       (if (case map_of (r_sandboxes data) name of None \<Rightarrow> False | Some e \<Rightarrow> \<not> is_reservation e)
        then Some (Some name, r_defaultSelectionRevision data + 1)
        else Some (None, r_defaultSelectionRevision data + 2))"
proof -
  define r where "r = data\<lparr>r_defaultSandbox := Some name,
      r_defaultSelectionRevision := r_defaultSelectionRevision data + 1\<rparr>"
  have ok: "revision_ok (r_defaultSelectionRevision data)" "revision_ok (r_defaultSelectionRevision data + 1)"
    "revision_ok (r_defaultSelectionRevision data + 2)"
    using loaded_revision [OF data] room by (auto simp: revision_ok_def)
  have sel: "select_default (Some name) data = Inr r"
    using ok by (simp add: select_default_def increment_revision [THEN iffD2] r_def)
  obtain rows where rows: "normalize_rows (serializeSandboxEntryForDisk env) (r_sandboxes data) = Inr rows"
    using loaded_serializes [OF data] by blast
  have dist: "distinct (map fst (r_sandboxes data))"
    using loaded_rows_named [OF data] by (simp add: rows_named_def)
  have "retainedDefaultSandbox (Some name) rows =
      (if (case map_of (r_sandboxes data) name of None \<Rightarrow> False | Some e \<Rightarrow> \<not> is_reservation e)
       then Some name else None)"
    using normalize_rows_lookup(1,2) [OF rows dist, of name]
    by (auto simp: retainedDefaultSandbox_def disk_row_reservation split: option.splits)
  then have "\<exists>d. serializeRegistryForDisk env r = Inr d \<and> file_pointer (on_disk d) =
       (if (case map_of (r_sandboxes data) name of None \<Rightarrow> False | Some e \<Rightarrow> \<not> is_reservation e)
        then Some (Some name, r_defaultSelectionRevision data + 1)
        else Some (None, r_defaultSelectionRevision data + 2))"
    using ok rows
    by (intro exI [of _ "\<lparr>r_sandboxes = rows, r_defaultSandbox = retainedDefaultSandbox (Some name) rows,
        r_defaultSelectionRevision = r_defaultSelectionRevision data
          + (if retainedDefaultSandbox (Some name) rows = Some name then 1 else 2),
        r_extraProviders = normalizeExtraProviders (providers_to_js (r_extraProviders r))\<rparr>"])
      (simp add: serialize_iff on_disk_pointer r_def)
  then show ?thesis
    using that sel by blast
qed

lemma set_default_outcome:
  assumes data: "loaded env (g_file w) = Inr data" and serves: "serves w"
    and room: "r_defaultSelectionRevision data + 2 \<le> MAX_SAFE_INTEGER"
    and own: "map_of (r_sandboxes data) name = own"
  obtains r w' where "setDefault env name w = (Inr r, w')"
    "r \<longleftrightarrow> (case own of Some e \<Rightarrow> \<not> is_reservation e | None \<Rightarrow> name \<in> set OBJECT_PROTOTYPE_KEYS)"
    "file_pointer (g_file w') =
       (if \<not> r then file_pointer (g_file w)
        else if own = None then Some (None, r_defaultSelectionRevision data + 2)
        else Some (Some name, r_defaultSelectionRevision data + 1))"
proof -
  let ?m = "bind (load env) (\<lambda>current.
       if (case row_at (r_sandboxes current) name of OwnRow e \<Rightarrow> is_reservation e | _ \<Rightarrow> False)
       then ret False
       else bind (lift_res (setDefaultInRegistry current name)) (\<lambda>registry.
         case registry of
           None \<Rightarrow> ret False
         | Some r \<Rightarrow> bind (save env r) (\<lambda>_. ret True)))"
  obtain w0 where w0: "g_file w0 = g_file w" "g_now w0 = g_now w" "g_writes w0 0 = Written"
    "g_released w0 = g_released w"
    and locked: "\<forall>r w1. ?m w0 = (r, w1) \<and> g_released w1 = g_released w0 \<longrightarrow>
       (\<exists>w'. withLock ?m w = (r, w') \<and> g_file w' = g_file w1)"
    using serves by (rule withLock_serves [where f = ?m])
  obtain r d where sel: "select_default (Some name) data = Inr r" "serializeRegistryForDisk env r = Inr d"
    "file_pointer (on_disk d) =
       (if (case map_of (r_sandboxes data) name of None \<Rightarrow> False | Some e \<Rightarrow> \<not> is_reservation e)
        then Some (Some name, r_defaultSelectionRevision data + 1)
        else Some (None, r_defaultSelectionRevision data + 2))"
    using data room by (rule serialize_selected)
  obtain w1 where saved: "save env r w0 = (Inr (), w1)" "g_file w1 = on_disk d" "g_released w1 = g_released w0"
    using sel(2) w0(3) by (rule save_serves)
  define ok where "ok = (case own of Some e \<Rightarrow> \<not> is_reservation e | None \<Rightarrow> name \<in> set OBJECT_PROTOTYPE_KEYS)"
  have m: "?m w0 = (if ok then (Inr True, w1) else (Inr False, w0))"
    using data w0(1) own sel(1) saved(1)
    by (auto simp: bind_def row_at_def setDefaultInRegistry_def ok_def split: option.splits)
  obtain w' where w': "setDefault env name w = (Inr ok, w')" "g_file w' = (if ok then on_disk d else g_file w)"
    using locked [rule_format, of "Inr ok" "if ok then w1 else w0"] m saved(2,3) w0(1)
    unfolding setDefault_def by (cases ok) auto
  then show ?thesis
    using that [OF w'(1)] sel(3) own by (auto simp: ok_def split: option.splits if_splits)
qed

end
