(* ===== verification/Registry_Rebuild.thy ===== *)
theory Registry_Rebuild
  imports Registry_History
begin

text \<open>
  The compare-and-swap of a rebuilt sandbox on the registry file: it commits only while the row is
  the captured one, what it commits is what the next load returns, and the same authority is spent
  once.
\<close>

section \<open>The replacement\<close>

lemma replacement_members:
  assumes "validateReplacement env a e = Inr replacement"
  obtains g where "js_get replacement ''name'' = JStr (ra_sandboxName a)" "\<not> is_reservation replacement"
    "js_get replacement ''lifecycleGeneration'' = JStr g" "g \<noteq> ra_lifecycleGeneration a"
proof -
  have "js_get replacement ''name'' = JStr (ra_sandboxName a)" "\<not> is_reservation replacement"
    "boundedIdentity (js_get replacement ''lifecycleGeneration'') \<noteq> None"
    "js_get replacement ''lifecycleGeneration'' \<noteq> JStr (ra_lifecycleGeneration a)"
    using assms by (auto simp: validateReplacement_def is_reservation_def)
  then show ?thesis
    using that by (cases "js_get replacement ''lifecycleGeneration''") (auto simp: boundedIdentity_def)
qed

lemma replacement_unchanged:
  "validateReplacement env a e = Inr replacement \<Longrightarrow> k \<noteq> ''workload'' \<Longrightarrow> js_get replacement k = js_get e k"
  by (auto simp: validateReplacement_def)

lemma authority_generation:
  assumes "sandboxRebuildAuthorityMatchesEntry env a e"
  shows "js_get e ''name'' = JStr (ra_sandboxName a)"
    "js_get e ''lifecycleGeneration'' = JStr (ra_lifecycleGeneration a)"
    "sandboxEntryRevision env e = ra_entryRevisionSha256 a" "\<not> is_reservation e"
proof -
  have bounded: "boundedIdentity v = Some s \<Longrightarrow> v = JStr s" for v s
    by (cases v) (auto simp: boundedIdentity_def split: if_splits)
  have required: "require m x = Inr s \<longleftrightarrow> x = Some s" for m s and x :: "string option"
    by (cases x) (auto simp: require_def)
  obtain c where c: "captureSandboxRebuildAuthority env e (ra_providerId a) = Inr c" "same_authority c a"
    using assms by (auto simp: sandboxRebuildAuthorityMatchesEntry_def split: sum.splits)
  then have "ra_sandboxName c = ra_sandboxName a" "ra_lifecycleGeneration c = ra_lifecycleGeneration a"
    "ra_entryRevisionSha256 c = ra_entryRevisionSha256 a"
    by (cases c; cases a; simp add: same_authority_def)+
  moreover have "js_get e ''name'' = JStr (ra_sandboxName c)"
    "js_get e ''lifecycleGeneration'' = JStr (ra_lifecycleGeneration c)"
    "sandboxEntryRevision env e = ra_entryRevisionSha256 c" "\<not> is_reservation e"
    using c(1) by (auto simp: captureSandboxRebuildAuthority_def required dest!: bounded)
  ultimately show "js_get e ''name'' = JStr (ra_sandboxName a)"
    "js_get e ''lifecycleGeneration'' = JStr (ra_lifecycleGeneration a)"
    "sandboxEntryRevision env e = ra_entryRevisionSha256 a" "\<not> is_reservation e"
    by simp_all
qed

section \<open>The swap on the file\<close>

text \<open>The row the file holds under the name of an authority is the captured one.\<close>

definition authority_current :: "registry_env \<Rightarrow> rebuild_authority \<Rightarrow> registry_file \<Rightarrow> bool" where
  "authority_current env a f =
     (case loaded env f of
        Inl _ \<Rightarrow> False
      | Inr data \<Rightarrow> (case map_of (r_sandboxes data) (ra_sandboxName a) of
                        None \<Rightarrow> False
                      | Some e \<Rightarrow> sandboxRebuildAuthorityMatchesEntry env a e))"

lemma swap_in_registry:
  assumes "swapSandboxRebuildAuthorityInRegistry env data a e = Inr (r, result)"
  obtains (stale) x where "result = StaleAuthority x"
    | (swapped) current replacement where "map_of (r_sandboxes data) (ra_sandboxName a) = Some current"
      "sandboxRebuildAuthorityMatchesEntry env a current" "validateReplacement env a e = Inr replacement"
      "r = data\<lparr>r_sandboxes := own_put (ra_sandboxName a) replacement (r_sandboxes data)\<rparr>"
      "result = Committed replacement"
  using assms
  by (auto simp: swapSandboxRebuildAuthorityInRegistry_def row_at_def split: option.splits if_splits)

text \<open>The next load after a replacement was written.\<close>

lemma swapped_reload:
  assumes data: "loaded env f = Inr data" "validateReplacement env a e = Inr replacement"
    and d: "serializeRegistryForDisk env
      (data\<lparr>r_sandboxes := own_put (ra_sandboxName a) replacement (r_sandboxes data)\<rparr>) = Inr d"
    and trim: "trim (ra_sandboxName a) \<noteq> []"
  obtains data' row where "loaded env (on_disk d) = Inr data'"
    "map_of (r_sandboxes data') (ra_sandboxName a) = Some row" "same_row replacement row"
proof -
  let ?r = "data\<lparr>r_sandboxes := own_put (ra_sandboxName a) replacement (r_sandboxes data)\<rparr>"
  have named: "rows_named (r_sandboxes ?r)"
    using rows_named_put [OF loaded_rows_named [OF data(1)]] replacement_members [OF data(2)] trim
    by (metis registry.select_convs(1) registry.update_convs(1) registry.surjective)
  obtain data' where data': "loaded env (on_disk d) = Inr data'"
    and rows: "\<And>k e. map_of (r_sandboxes ?r) k = Some e \<Longrightarrow>
       \<exists>d' e'. serializeSandboxEntryForDisk env e = Inr d'
          \<and> normalizeSandboxEntryForRuntime env (json_persist d') = Inr e'
          \<and> map_of (r_sandboxes data') k = Some e'"
    using d named by (rule registry_reload) blast
  obtain row where "map_of (r_sandboxes data') (ra_sandboxName a) = Some row" "same_row replacement row"
    using rows [of "ra_sandboxName a" replacement] stored_row_same by auto
  then show ?thesis
    using that data' by blast
qed

lemma swapped_not_current:
  assumes "loaded env f = Inr data" "validateReplacement env a e = Inr replacement"
    "map_of (r_sandboxes data) (ra_sandboxName a) = Some row" "same_row replacement row"
  shows "\<not> authority_current env a f"
proof -
  obtain g where "js_get replacement ''lifecycleGeneration'' = JStr g" "g \<noteq> ra_lifecycleGeneration a"
    using assms(2) by (rule replacement_members)
  then have "js_get row ''lifecycleGeneration'' \<noteq> JStr (ra_lifecycleGeneration a)"
    using assms(4) by (simp add: same_row_def)
  then show ?thesis
    using assms(1,3) authority_generation(2) by (auto simp: authority_current_def)
qed

text \<open>A write that did not replace the file is never taken for a commit: the old row is read back.\<close>

lemma confirm_refused:
  assumes "save_or_confirm env r name replacement result w = (x, w')"
    and "\<forall>d. g_file w' \<noteq> on_disk d \<or> serializeRegistryForDisk env r \<noteq> Inr d"
    and "loaded env (g_file w) = Inr data" "map_of (r_sandboxes data) name = Some current"
    and "js_get current ''lifecycleGeneration'' \<noteq> js_get replacement ''lifecycleGeneration''"
  shows "\<exists>e. x = Inl e" "g_file w' = g_file w"
proof -
  obtain y w1 where y: "save env r w = (y, w1)"
    by force
  have w': "g_file w' = g_file w1"
    using save_or_confirm_file [of env r name replacement result w] assms(1) y by simp
  show kept: "g_file w' = g_file w"
    using save_file [of env r w] y w' assms(2) by auto
  obtain e where e: "save env r w = (Inl e, w1)"
    using save_ok [of env r w _ w1] y w' assms(2) by (cases y) auto
  have "loaded env (g_file w1) = Inr data"
    using assms(3) kept w' by simp
  moreover have "row_at (r_sandboxes data) name = OwnRow current"
    using assms(4) by (simp add: row_at_def)
  moreover have "\<not> sandboxRebuildReplacementMatchesEntry env replacement current"
    using assms(5) by (simp add: sandboxRebuildReplacementMatchesEntry_def)
  ultimately have "save_or_confirm env r name replacement result w = (Inl e, w1)"
    unfolding save_or_confirm_def by (simp add: e)
  then show "\<exists>e. x = Inl e"
    using assms(1) by simp
qed

lemma swap_outcome:
  assumes "compareAndSwapSandboxRebuildAuthority env a e w = (r, w')"
  obtains (kept) "g_file w' = g_file w" "\<And>row. r \<noteq> Inr (Committed row)"
    | (swapped) data rep replacement d where "authority_current env a (g_file w)"
      "loaded env (g_file w) = Inr data"
      "validateReplacement env a e = Inr rep" "validateReplacement env a rep = Inr replacement"
      "serializeRegistryForDisk env (data\<lparr>r_sandboxes :=
         own_put (ra_sandboxName a) replacement (r_sandboxes data)\<rparr>) = Inr d"
      "g_file w' = on_disk d" "trim (ra_sandboxName a) \<noteq> []"
proof (cases "validateReplacement env a e")
  case (Inl x)
  then show ?thesis
    using assms kept by (auto simp: compareAndSwapSandboxRebuildAuthority_def bind_def)
next
  case (Inr rep)
  note valid = Inr
  let ?change = "\<lambda>data. bind (lift_res (swapSandboxRebuildAuthorityInRegistry env data a rep))
     (\<lambda>(registry, result).
        case result of
          StaleAuthority e \<Rightarrow> ret result
        | Committed row \<Rightarrow> save_or_confirm env registry (ra_sandboxName a) rep result)"
  have "withLock (bind (load env) ?change) w = (r, w')"
    using assms valid by (simp add: compareAndSwapSandboxRebuildAuthority_def)
  then show ?thesis
  proof (cases rule: locked_outcome)
    case (failed x)
    then show ?thesis
      using kept by simp
  next
    case (ran data w0 r1 w1)
    show ?thesis
    proof (cases "swapSandboxRebuildAuthorityInRegistry env data a rep")
      case (Inl x)
      then show ?thesis
        using ran kept by (auto simp: bind_def)
    next
      case (Inr y)
      obtain reg result where y: "y = (reg, result)"
        by force
      from Inr [unfolded y] show ?thesis
      proof (cases rule: swap_in_registry)
        case (stale x)
        then show ?thesis
          using ran kept Inr y by (auto simp: bind_def)
      next
        case (swapped current replacement)
        have step: "save_or_confirm env reg (ra_sandboxName a) rep result w0 = (r1, w1)"
          using ran(3) Inr y swapped(5) by (simp add: bind_def)
        have current: "authority_current env a (g_file w)" "trim (ra_sandboxName a) \<noteq> []"
          using ran(1) swapped(1,2) loaded_rows_named [OF ran(1)]
          by (auto simp: authority_current_def rows_named_def)
        obtain g where "js_get rep ''lifecycleGeneration'' = JStr g" "g \<noteq> ra_lifecycleGeneration a"
          using valid by (rule replacement_members)
        then have other: "js_get current ''lifecycleGeneration'' \<noteq> js_get rep ''lifecycleGeneration''"
          using authority_generation(2) [OF swapped(2)] by simp
        show ?thesis
        proof (cases "\<exists>d. g_file w1 = on_disk d \<and> serializeRegistryForDisk env reg = Inr d")
          case True
          then show ?thesis
            using that(2) [OF current(1) ran(1) valid swapped(3)] current(2) swapped(4) ran(4) by auto
        next
          case False
          then have "\<exists>e. r1 = Inl e" "g_file w1 = g_file w0"
            using confirm_refused [OF step _ _ swapped(1) other] ran(1,2) by auto
          then show ?thesis
            using kept ran(2,4,5) by auto
        qed
      qed
    qed
  qed
qed

text \<open>The facts of a call that changed the file or answered that it committed.\<close>

lemma swap_effect:
  assumes run: "compareAndSwapSandboxRebuildAuthority env a e w = (r, w')"
    and effect: "g_file w' \<noteq> g_file w \<or> r = Inr (Committed c)"
  obtains data' row where "authority_current env a (g_file w)"
    "loaded env (g_file w') = Inr data'" "map_of (r_sandboxes data') (ra_sandboxName a) = Some row"
    "\<And>k. is_durable k \<Longrightarrow> js_get e k \<noteq> JUndef \<Longrightarrow> js_get row k = json_persist (js_get e k)"
    "\<not> authority_current env a (g_file w')"
  using run
proof (cases rule: swap_outcome)
  case kept
  then show ?thesis
    using effect by blast
next
  case (swapped data rep replacement d)
  obtain data' row where new: "loaded env (on_disk d) = Inr data'"
    "map_of (r_sandboxes data') (ra_sandboxName a) = Some row" "same_row replacement row"
    using swapped(2,4,5,7) by (rule swapped_reload)
  have "js_get row k = json_persist (js_get e k)" if "is_durable k" "js_get e k \<noteq> JUndef" for k
  proof -
    have "k \<noteq> ''workload''"
      using that(1) by (auto simp: is_durable_def NORMALIZED_MEMBERS_def)
    then have "js_get replacement k = js_get e k"
      using replacement_unchanged swapped(3,4) by metis
    then show ?thesis
      using new(3) that by (simp add: same_row_def)
  qed
  then show ?thesis
    using swapped(1,6) new swapped_not_current [OF new(1) swapped(4) new(2,3)]
    by (intro that [of data' row]) auto
qed

lemma spent_authority:
  assumes "compareAndSwapSandboxRebuildAuthority env a e w = (r, w')" "\<not> authority_current env a (g_file w)"
  shows "g_file w' = g_file w" "r \<noteq> Inr (Committed c)"
  using assms by (auto elim: swap_effect)

end
