(* ===== verification/Registry_Properties.thy ===== *)
theory Registry_Properties
  imports Registry_Rebuild
begin

text \<open>
  The properties of the sandbox registry, with a concrete registry file for their witnesses.
\<close>

section \<open>A concrete registry\<close>

text \<open>
  Hashes of 64 digits that tell texts apart by their length, one known startup profile, and no
  messaging plan, MCP server or pinned policy.
\<close>

definition demo_hash :: "string \<Rightarrow> string" where
  "demo_hash s = replicate (64 - length s mod 64) CHR ''0'' @ replicate (length s mod 64) CHR ''1''"

definition demo_registry_env :: registry_env where
  "demo_registry_env =
     \<lparr>sha256Text = demo_hash, sha256Bytes = (\<lambda>_. replicate 64 CHR ''0''),
      decodeManagedStartupProfile =
        (\<lambda>p. if p = ''e30'' then Some \<lparr>sp_agent = ''openclaw'', sp_bundleSha256 = None\<rparr> else None),
      pinnedContentOk = (\<lambda>_. False), parseMcpUrl = (\<lambda>_. None), privateNetworks = \<lparr>cw_file = Yaml shipped_networks, cw_cached = None\<rparr>,
      parseSandboxMessagingPlan = (\<lambda>_. None), compactSandboxMessagingPlan = (\<lambda>v. v)\<rparr>"

definition demo_attempt :: lock_attempt where
  "demo_attempt =
     \<lparr>at_mkdir = Made, at_stat = None, at_owner = None, at_alive = (\<lambda>_. False), at_startMs = (\<lambda>_. None),
      at_nowMs = 0, at_restat = None, at_reowner = None, at_removed = True, at_ownerWritten = True\<rparr>"

definition world_of :: "js \<Rightarrow> registry_world" where
  "world_of v =
     \<lparr>g_file = RegistryJson v, g_writes = (\<lambda>_. Written), g_lock = (\<lambda>_. demo_attempt),
      g_released = (\<lambda>_. True), g_now = ''2026-01-01T00:00:00.000Z''\<rparr>"

definition demo_row :: "string \<Rightarrow> (string \<times> js) list \<Rightarrow> string \<times> js" where
  "demo_row name members = (name, JObj ([(''name'', JStr name), (''createdAt'', JStr ''2026-01-01'')] @ members))"

definition demo_file :: "(string \<times> js) list \<Rightarrow> js" where
  "demo_file rows = JObj
     [(''sandboxes'', JObj rows), (''defaultSandbox'', JStr ''alpha''),
      (''defaultSelectionRevision'', JNum (NInt 3))]"

definition demo_world :: registry_world where
  "demo_world = world_of (demo_file [demo_row ''alpha'' [], demo_row ''beta'' [], demo_row ''gamma'' []])"

definition demo_entry :: js where
  "demo_entry = snd (demo_row ''alpha'' [])"

definition demo_receipt :: removal_receipt where
  "demo_receipt = \<lparr>rr_removedEntry = Some demo_entry, rr_wasDefault = True,
     rr_fallbackDefault = Some ''beta'', rr_postRemovalRevision = 4\<rparr>"

definition demo_removed :: registry_world where
  "demo_removed = snd (removeSandboxWithReceipt demo_registry_env ''alpha'' demo_world)"

lemma demo_removal:
  "removeSandboxWithReceipt demo_registry_env ''alpha'' demo_world = (Inr (Some demo_receipt), demo_removed)"
proof -
  have "fst (removeSandboxWithReceipt demo_registry_env ''alpha'' demo_world) = Inr (Some demo_receipt)"
    by code_simp
  then show ?thesis
    by (simp add: prod_eq_iff demo_removed_def)
qed

section \<open>The default sandbox\<close>

text \<open>
  C33: the revision of the default pointer is a history of it. Over any sequence of calls that may
  change the registry, whatever the lock and the disk answer, the revision never goes back, and
  once the pointer has moved at some point the revision stays above its first value, even when the
  pointer moves back: two equal revisions mean that nobody chose in between.
\<close>

theorem default_selection_history:
  assumes "file_pointer (g_file w) = Some (d, n)"
  shows "\<exists>d1 n1 d2 n2. file_pointer (g_file (run_calls env cs w)) = Some (d1, n1)
           \<and> file_pointer (g_file (run_calls env (cs @ cs') w)) = Some (d2, n2)
           \<and> n \<le> n1 \<and> n1 \<le> n2 \<and> (d1 \<noteq> d \<longrightarrow> n < n2)"
proof -
  obtain d1 n1 where one: "file_pointer (g_file (run_calls env cs w)) = Some (d1, n1)" "n \<le> n1" "d1 \<noteq> d \<Longrightarrow> n < n1"
    by (rule run_calls_pointer [OF assms, of env cs]) blast
  obtain d2 n2 where "file_pointer (g_file (run_calls env cs' (run_calls env cs w))) = Some (d2, n2)" "n1 \<le> n2"
    by (rule run_calls_pointer [OF one(1), of env cs']) blast
  then show ?thesis
    using one by auto
qed

lemma demo_pointer: "file_pointer (g_file demo_world) = Some (Some ''alpha'', 3)"
  by code_simp

theorem default_selection_history_witness:
  "file_pointer (g_file demo_world) = Some (Some ''alpha'', 3)
   \<and> (\<exists>d1 n1 d2 n2. file_pointer (g_file (run_calls demo_registry_env [SetDefault ''beta''] demo_world)) = Some (d1, n1)
        \<and> file_pointer (g_file (run_calls demo_registry_env ([SetDefault ''beta''] @ [SetDefault ''alpha'']) demo_world))
            = Some (d2, n2)
        \<and> 3 \<le> n1 \<and> n1 \<le> n2 \<and> (d1 \<noteq> Some ''alpha'' \<longrightarrow> 3 < n2))"
  using demo_pointer default_selection_history [OF demo_pointer, of demo_registry_env "[SetDefault ''beta'']" "[SetDefault ''alpha'']"]
  by blast

text \<open>
  C34: a restored sandbox does not take the default from a later choice. When a sandbox was removed
  with a receipt, other calls ran, the default pointer was moved by one of them, more calls ran, and
  the default is a sandbox that is really there, then restoring the removed one, whether it
  succeeds or not, leaves the default and its revision as they are.
\<close>

theorem restore_respects_later_choice:
  assumes removed: "removeSandboxWithReceipt env name w = (Inr (Some receipt), w1)"
    and first: "file_pointer (g_file w1) = Some (d1, n1)"
    and moved: "file_pointer (g_file (run_calls env cs w1)) = Some (d2, n2)" "d2 \<noteq> d1"
    and later: "loaded env (g_file (run_calls env (cs @ cs') w1)) = Inr data"
      "r_defaultSandbox data = Some d" "map_of (r_sandboxes data) d = Some e" "\<not> is_reservation e"
  shows "file_pointer (g_file (snd (restoreSandboxEntryIfMissing env receipt (run_calls env (cs @ cs') w1))))
         = Some (Some d, r_defaultSelectionRevision data)"
proof -
  let ?w = "run_calls env (cs @ cs') w1"
  have "rr_postRemovalRevision receipt \<le> n1"
    using removed by (rule removal_pointer) (use first in simp)
  also have "n1 < n2"
    by (rule run_calls_pointer [OF first, of env cs]) (use moved in auto)
  also have "n2 \<le> r_defaultSelectionRevision data"
    by (rule run_calls_pointer [OF moved(1), of env cs']) (use loaded_pointer [OF later(1)] in auto)
  finally have "file_pointer (g_file (snd (restoreSandboxEntryIfMissing env receipt ?w))) = file_pointer (g_file ?w)"
    using restore_later [of env receipt ?w _ _ data d e] later by (metis prod.collapse)
  then show ?thesis
    using loaded_pointer [OF later(1)] later(2) by simp
qed

definition demo_chosen :: registry_world where
  "demo_chosen = run_calls demo_registry_env [SetDefault ''gamma''] demo_removed"

definition demo_loaded :: registry where
  "demo_loaded = \<lparr>r_sandboxes = [demo_row ''beta'' [], demo_row ''gamma'' []],
     r_defaultSandbox = Some ''gamma'', r_defaultSelectionRevision = 5, r_extraProviders = None\<rparr>"

lemma demo_choice:
  "file_pointer (g_file demo_removed) = Some (Some ''beta'', 4)"
  "file_pointer (g_file demo_chosen) = Some (Some ''gamma'', 5)"
  "loaded demo_registry_env (g_file demo_chosen) = Inr demo_loaded"
  by code_simp+

theorem restore_respects_later_choice_witness:
  "file_pointer (g_file (snd (restoreSandboxEntryIfMissing demo_registry_env demo_receipt
     (run_calls demo_registry_env ([SetDefault ''gamma''] @ []) demo_removed)))) = Some (Some ''gamma'', 5)"
  using restore_respects_later_choice [OF demo_removal demo_choice(1),
      of "[SetDefault ''gamma'']" "Some ''gamma''" 5 "[]" demo_loaded "''gamma''" "snd (demo_row ''gamma'' [])"]
    demo_choice
  by (simp add: demo_chosen_def demo_loaded_def demo_row_def is_reservation_def del: run_call.simps)

text \<open>
  C35: a removal can be undone. When the default sandbox is removed and then restored with its
  receipt while the default pointer and its revision are where the removal left them, it is the
  default again, with the next revision, and its row is back: the state of its baseline and every
  other member the file keeps are those of the row that was removed.
\<close>

theorem removal_can_be_undone:
  assumes "loaded env (g_file w) = Inr data" "r_defaultSandbox data = Some name"
      "map_of (r_sandboxes data) name = Some entry" "\<not> is_reservation entry"
    and "removeSandboxWithReceipt env name w = (Inr (Some receipt), w1)"
    and "file_pointer (g_file w2) = Some (rr_fallbackDefault receipt, rr_postRemovalRevision receipt)"
    and "restoreSandboxEntryIfMissing env receipt w2 = (Inr True, w3)"
  shows "\<exists>data' row. loaded env (g_file w3) = Inr data' \<and> r_defaultSandbox data' = Some name
           \<and> r_defaultSelectionRevision data' = rr_postRemovalRevision receipt + 1
           \<and> map_of (r_sandboxes data') name = Some row \<and> same_row entry row"
  using removal_undone [OF assms] by blast

definition demo_undone :: registry_world where
  "demo_undone = snd (restoreSandboxEntryIfMissing demo_registry_env demo_receipt demo_removed)"

lemma demo_undo:
  "restoreSandboxEntryIfMissing demo_registry_env demo_receipt demo_removed = (Inr True, demo_undone)"
proof -
  have "fst (restoreSandboxEntryIfMissing demo_registry_env demo_receipt demo_removed) = Inr True"
    by code_simp
  then show ?thesis
    by (simp add: prod_eq_iff demo_undone_def)
qed

definition demo_data :: registry where
  "demo_data = \<lparr>r_sandboxes = [demo_row ''alpha'' [], demo_row ''beta'' [], demo_row ''gamma'' []],
     r_defaultSandbox = Some ''alpha'', r_defaultSelectionRevision = 3, r_extraProviders = None\<rparr>"

lemma demo_world_loaded: "loaded demo_registry_env (g_file demo_world) = Inr demo_data"
  by code_simp

theorem removal_can_be_undone_witness:
  "\<exists>data' row. loaded demo_registry_env (g_file demo_undone) = Inr data' \<and> r_defaultSandbox data' = Some ''alpha''
     \<and> r_defaultSelectionRevision data' = 5
     \<and> map_of (r_sandboxes data') ''alpha'' = Some row \<and> same_row demo_entry row"
  using removal_can_be_undone [OF demo_world_loaded _ _ _ demo_removal _ demo_undo, of demo_entry] demo_choice(1)
  by (simp add: demo_data_def demo_row_def demo_entry_def demo_receipt_def is_reservation_def)

text \<open>
  C36: what the selection of a default does when the call gets the lock and can write. It answers
  true for a sandbox that is registered and not a mere route reservation, which then is the default
  with the next revision; it answers false and changes nothing for a reservation and for a name
  that is not registered, with one exception: for a name that every JavaScript object inherits
  (\<open>constructor\<close>, \<open>toString\<close>, ...) it answers true although there is no such sandbox, and the file
  then has no default at all.
\<close>

theorem set_default_effect:
  assumes "loaded env (g_file w) = Inr data" "serves w"
    and "r_defaultSelectionRevision data + 2 \<le> MAX_SAFE_INTEGER"
  shows "\<exists>r w'. setDefault env name w = (Inr r, w')
     \<and> (r \<longleftrightarrow> (case map_of (r_sandboxes data) name of
                 Some e \<Rightarrow> \<not> is_reservation e | None \<Rightarrow> name \<in> set OBJECT_PROTOTYPE_KEYS))
     \<and> file_pointer (g_file w') =
         (if \<not> r then Some (r_defaultSandbox data, r_defaultSelectionRevision data)
          else if map_of (r_sandboxes data) name = None then Some (None, r_defaultSelectionRevision data + 2)
          else Some (Some name, r_defaultSelectionRevision data + 1))"
proof -
  obtain r w' where "setDefault env name w = (Inr r, w')"
    "r \<longleftrightarrow> (case map_of (r_sandboxes data) name of
              Some e \<Rightarrow> \<not> is_reservation e | None \<Rightarrow> name \<in> set OBJECT_PROTOTYPE_KEYS)"
    "file_pointer (g_file w') =
       (if \<not> r then file_pointer (g_file w)
        else if map_of (r_sandboxes data) name = None then Some (None, r_defaultSelectionRevision data + 2)
        else Some (Some name, r_defaultSelectionRevision data + 1))"
    using assms by (rule set_default_outcome) (rule refl)
  then show ?thesis
    using loaded_pointer [OF assms(1)] by auto
qed

lemma demo_serves: "serves demo_world"
  by code_simp

theorem set_default_effect_witness:
  "\<exists>w'. setDefault demo_registry_env ''constructor'' demo_world = (Inr True, w')
        \<and> file_pointer (g_file w') = Some (None, 5)"
  using set_default_effect [OF demo_world_loaded demo_serves, of "''constructor''"]
  by (auto simp: demo_data_def demo_row_def MAX_SAFE_INTEGER_def OBJECT_PROTOTYPE_KEYS_def)

section \<open>The file\<close>

text \<open>
  C37: every file that the registry writes is well formed and loads again. After any sequence of
  calls, with any answers of the lock and the disk, the file is the one that was there, or the text
  of a registry with distinct names, a default that is none or a stored sandbox which is not a mere
  reservation, a revision that is a safe integer, and sorted, distinct, valid extra providers; and
  loading it succeeds with the same default, revision and providers.
\<close>

theorem written_registry_wf:
  "g_file (run_calls env cs w) = g_file w
   \<or> (\<exists>d data. g_file (run_calls env cs w) = RegistryJson (json_persist (registry_to_js d))
        \<and> registry_wf d
        \<and> loaded env (g_file (run_calls env cs w)) = Inr data
        \<and> r_defaultSandbox data = r_defaultSandbox d
        \<and> r_defaultSelectionRevision data = r_defaultSelectionRevision d
        \<and> r_extraProviders data = r_extraProviders d)"
proof (cases "g_file (run_calls env cs w) = g_file w")
  case False
  then obtain r d where d: "serializeRegistryForDisk env r = Inr d" "g_file (run_calls env cs w) = on_disk d"
    using run_calls_file [of env cs w] by blast
  obtain data where "loaded env (on_disk d) = Inr data" "r_defaultSandbox data = r_defaultSandbox d"
    "r_defaultSelectionRevision data = r_defaultSelectionRevision d" "r_extraProviders data = r_extraProviders d"
    using d(1) by (rule saved_loads)
  then show ?thesis
    using d serialize_wf [OF d(1)] by (auto simp: on_disk_def)
qed simp






section \<open>The baseline journal\<close>

text \<open>
  C39: the baseline exclusions of a sandbox are a store with one transaction. A call that returns
  answers and changes the store exactly as the specification does: direct changes are refused while
  a transaction is pending, a commit publishes what was staged under its id, and a restoration only
  against the exclusion it was staged for. A call that ends in an error (the lock, the disk, the
  release) has made the whole step or none of it, and the other sandboxes keep their state.
\<close>

theorem baseline_journal_refines:
  assumes "baseline_of env name (g_file w) = Some s" "request_ok q" "canonical_iso (g_now w)"
    and "baseline_call env name q w = (r, w')"
  shows "(case r of
            Inr b \<Rightarrow> (b, baseline_of env name (g_file w'))
                       = map_prod id Some (baseline_step (g_now w) q s)
          | Inl _ \<Rightarrow> baseline_of env name (g_file w') \<in> {Some s, Some (snd (baseline_step (g_now w) q s))})
         \<and> (\<forall>other. other \<noteq> name \<longrightarrow> baseline_of env other (g_file w') = baseline_of env other (g_file w))"
proof -
  obtain b s' where step: "baseline_step (g_now w) q s = (b, s')"
    by force
  note sim = baseline_simulation [OF assms step]
  show ?thesis
    using sim(1) sim(2) sim(3) step by (cases r) auto
qed

definition demo_exclusion :: baseline_exclusion where
  "demo_exclusion = \<lparr>ex_agent = ''openclaw'', ex_key = ''network.npm'', ex_digest = replicate 64 CHR ''a'',
     ex_acknowledgedAt = None, ex_appliedAgentVersion = None\<rparr>"

definition demo_transition :: baseline_transition where
  "demo_transition = \<lparr>tr_id = ''01234567-89ab-4def-8123-456789abcdef'', tr_operation = Exclude,
     tr_exclusion = demo_exclusion, tr_targetLiveDigest = None, tr_startedAt = ''2026-01-01T00:00:00.000Z''\<rparr>"

lemma demo_request: "request_ok (ReqBegin demo_transition)"
  by code_simp (simp add: live_target_ok_def)

lemma demo_now: "canonical_iso (g_now demo_world)"
  by code_simp

lemma demo_baseline: "baseline_of demo_registry_env ''alpha'' (g_file demo_world) = Some (baseline_state None None)"
proof -
  have "row_baseline demo_entry = Some (baseline_state None None)"
    by (simp add: row_baseline_def demo_entry_def demo_row_def normalizeBaselineExclusions_def)
  then show ?thesis
    using demo_world_loaded
    by (simp add: baseline_of_def demo_data_def demo_entry_def) (simp add: demo_row_def)
qed

theorem baseline_journal_refines_witness:
  "case baseline_call demo_registry_env ''alpha'' (ReqBegin demo_transition) demo_world of
     (r, w') \<Rightarrow>
       (case r of
          Inr b \<Rightarrow> (b, baseline_of demo_registry_env ''alpha'' (g_file w'))
                     = map_prod id Some (baseline_step (g_now demo_world) (ReqBegin demo_transition)
                         (baseline_state None None))
        | Inl _ \<Rightarrow> baseline_of demo_registry_env ''alpha'' (g_file w') \<in>
            {Some (baseline_state None None),
             Some (snd (baseline_step (g_now demo_world) (ReqBegin demo_transition) (baseline_state None None)))})
       \<and> (\<forall>other. other \<noteq> ''alpha'' \<longrightarrow>
            baseline_of demo_registry_env other (g_file w') = baseline_of demo_registry_env other (g_file demo_world))"
  by (split prod.split, intro allI impI) (rule baseline_journal_refines [OF demo_baseline demo_request demo_now])

section \<open>The rebuild swap\<close>

text \<open>
  C40: the swap of a rebuilt sandbox is exclusive. When a call with an authority changes the file, or
  answers that it committed (also after a write that reported an error), then the row in the file
  was the one the authority was captured from, by name, driver, generation, live identity, workload
  receipt and the digest of the whole row; the next load returns the members of the replacement; and
  until the file changes again no other call with that authority commits or changes the file.
\<close>

theorem rebuild_swap_exclusive:
  assumes "compareAndSwapSandboxRebuildAuthority env a e w = (r, w1)"
    and "g_file w1 \<noteq> g_file w \<or> r = Inr (Committed c)"
  shows "authority_current env a (g_file w)
     \<and> (\<exists>data row. loaded env (g_file w1) = Inr data \<and> map_of (r_sandboxes data) (ra_sandboxName a) = Some row
          \<and> (\<forall>k. is_durable k \<and> js_get e k \<noteq> JUndef \<longrightarrow> js_get row k = json_persist (js_get e k)))
     \<and> (\<forall>w2 e' c'. g_file w2 = g_file w1 \<longrightarrow>
          g_file (snd (compareAndSwapSandboxRebuildAuthority env a e' w2)) = g_file w1
          \<and> fst (compareAndSwapSandboxRebuildAuthority env a e' w2) \<noteq> Inr (Committed c'))"
proof -
  obtain data row where new: "authority_current env a (g_file w)"
    "loaded env (g_file w1) = Inr data" "map_of (r_sandboxes data) (ra_sandboxName a) = Some row"
    "\<And>k. is_durable k \<Longrightarrow> js_get e k \<noteq> JUndef \<Longrightarrow> js_get row k = json_persist (js_get e k)"
    "\<not> authority_current env a (g_file w1)"
    by (rule swap_effect [OF assms]) blast
  have "g_file (snd (compareAndSwapSandboxRebuildAuthority env a e' w2)) = g_file w1
      \<and> fst (compareAndSwapSandboxRebuildAuthority env a e' w2) \<noteq> Inr (Committed c')"
    if "g_file w2 = g_file w1" for w2 e' c'
    using spent_authority [of env a e' w2 "fst (compareAndSwapSandboxRebuildAuthority env a e' w2)"
        "snd (compareAndSwapSandboxRebuildAuthority env a e' w2)"] new(5) that by simp
  then show ?thesis
    using new(1-4) by blast
qed

text \<open>A sandbox of a managed image, and its replacement by the next generation.\<close>

definition demo_reference :: string where
  "demo_reference = ''ghcr.io/nvidia/nemoclaw/openclaw-sandbox@sha256:'' @ replicate 64 CHR ''a''"

definition demo_workload :: js where
  "demo_workload = JObj
     [(''schemaVersion'', JNum (NInt 1)), (''kind'', JStr ''managed-image''), (''reference'', JStr demo_reference),
      (''release'', JStr ''v1.2.3''), (''sourceRevision'', JStr (replicate 40 CHR ''b'')),
      (''sourceCohort'', JStr ''ghrun-12-1''), (''capabilityContractVersion'', JNum (NInt 1)),
      (''startupProfileContractVersion'', JNum (NInt 1)), (''encodedProfile'', JStr ''e30''),
      (''startupProfileSha256'', JStr (demo_hash ''e30'')), (''credentialProxyReplayRequired'', JBool True),
      (''shared'', JBool True)]"

definition managed_row :: "string \<Rightarrow> js" where
  "managed_row generation = JObj
     [(''name'', JStr ''alpha''), (''createdAt'', JStr ''2026-01-01''), (''openshellDriver'', JStr ''docker''),
      (''agent'', JStr ''openclaw''), (''imageTag'', JStr demo_reference),
      (''lifecycleGeneration'', JStr generation),
      (''lifecycleLiveIdentityFingerprint'', JStr (''live-'' @ generation)), (''workload'', demo_workload)]"

definition managed_world :: registry_world where
  "managed_world = world_of (demo_file [(''alpha'', managed_row ''g1'')])"

definition managed_authority :: rebuild_authority where
  "managed_authority = \<lparr>ra_sandboxName = ''alpha'', ra_providerId = ''docker'',
     ra_recordedDriver = JStr ''docker'', ra_lifecycleGeneration = ''g1'',
     ra_liveIdentityFingerprint = ''live-g1'',
     ra_entryRevisionSha256 = sandboxEntryRevision demo_registry_env (managed_row ''g1''),
     ra_workload = demo_workload\<rparr>"

lemma managed_texts:
  "MANAGED_REFERENCE_PATTERN demo_reference" "reference_of_agent ''openclaw'' demo_reference"
  "is_hex_string 40 (replicate 40 CHR ''b'')" "is_hex_string 64 (demo_hash ''e30'')"
  "RELEASE_PATTERN ''v1.2.3''" "COHORT_PATTERN ''ghrun-12-1''"
  by code_simp+

lemma managed_profile: "decodeCanonicalBase64Url (JStr ''e30'') \<noteq> None"
  by (simp add: decodeCanonicalBase64Url_def base64_bytes_def base64_value_def within_def char_class_defs
      MANAGED_STARTUP_PROFILE_MAX_ENCODED_BYTES_def MANAGED_STARTUP_PROFILE_MAX_BYTES_def)

lemma managed_row_facts:
  "cloneSandboxWorkloadReceipt demo_registry_env demo_workload = Some demo_workload"
  "js_get demo_workload ''kind'' = JStr ''managed-image''"
  "js_get demo_workload ''reference'' = JStr demo_reference"
  "requireReceiptAgent (JStr ''openclaw'') demo_workload = Inr ()"
  "deep_equal demo_workload demo_workload"
proof -
  have "managed_fields_ok demo_registry_env demo_workload" "managed_profile_ok demo_registry_env demo_workload"
    using managed_texts managed_profile
    by (simp_all add: managed_fields_ok_def managed_profile_ok_def demo_workload_def demo_registry_env_def
        pattern_test_def utf8_length_def is_string_def)
  then show "cloneSandboxWorkloadReceipt demo_registry_env demo_workload = Some demo_workload"
    by (simp add: cloneSandboxWorkloadReceipt_def)
      (simp add: demo_workload_def managed_receipt_def optional_member_def)
  show "js_get demo_workload ''kind'' = JStr ''managed-image''"
    "js_get demo_workload ''reference'' = JStr demo_reference" "deep_equal demo_workload demo_workload"
    by (simp_all add: demo_workload_def)
  then show "requireReceiptAgent (JStr ''openclaw'') demo_workload = Inr ()"
    using managed_texts(2) by (simp add: requireReceiptAgent_def)
qed

lemma managed_identities:
  "boundedIdentity (JStr ''alpha'') = Some ''alpha''" "boundedIdentity (JStr ''docker'') = Some ''docker''"
  "boundedIdentity (JStr ''g1'') = Some ''g1''" "boundedIdentity (JStr ''live-g1'') = Some ''live-g1''"
  "boundedIdentity (JStr ''g2'') = Some ''g2''" "boundedIdentity (JStr ''live-g2'') = Some ''live-g2''"
  by (simp_all add: boundedIdentity_def trim_def is_js_space_def utf8_length_def MAX_AUTHORITY_BYTES_def code_def)

lemma managed_captured:
  "captureSandboxRebuildAuthority demo_registry_env (managed_row ''g1'') ''docker'' = Inr managed_authority"
  by (simp add: captureSandboxRebuildAuthority_def managed_row_def managed_row_facts managed_identities
      require_def clonedManagedReceipt_def is_reservation_def managed_authority_def js_default_def)

lemma managed_matches: "sandboxRebuildAuthorityMatchesEntry demo_registry_env managed_authority (managed_row ''g1'')"
proof -
  have "ra_providerId managed_authority = ''docker''" "same_authority managed_authority managed_authority"
    using managed_row_facts(5) by (simp_all add: managed_authority_def same_authority_def)
  then show ?thesis
    using managed_captured by (simp add: sandboxRebuildAuthorityMatchesEntry_def)
qed

lemma managed_replacement:
  "validateReplacement demo_registry_env managed_authority (managed_row ''g2'') = Inr (managed_row ''g2'')"
  by (simp add: validateReplacement_def managed_row_def managed_authority_def managed_row_facts managed_identities
      clonedManagedReceipt_def is_reservation_def js_set_def)

definition managed_registry :: "string \<Rightarrow> registry" where
  "managed_registry generation = \<lparr>r_sandboxes = [(''alpha'', managed_row generation)],
     r_defaultSandbox = Some ''alpha'', r_defaultSelectionRevision = 3, r_extraProviders = None\<rparr>"

lemma managed_row_reads:
  "normalizeSandboxEntryForRuntime demo_registry_env (managed_row g) = Inr (managed_row g)"
  "serializeSandboxEntryForDisk demo_registry_env (managed_row g) = Inr (managed_row g)"
  "isSandboxEntryLike ''alpha'' (managed_row g)"
proof -
  have "trim ''alpha'' = ''alpha''"
    by code_simp
  then show "isSandboxEntryLike ''alpha'' (managed_row g)"
    by (simp add: isSandboxEntryLike_def managed_row_def)
qed (simp_all add: normalizeSandboxEntryForRuntime_def serializeSandboxEntryForDisk_def managed_row_def
      cloneSandboxWorkloadReceiptOrThrow_def managed_row_facts cloneServingProfileProvenanceOrThrow_def
      parseServingProfileProvenance_def normalizeBaselineExclusions_def normalizeCustomPolicyEntries_def
      normalizeBaselineExclusionTransition_def cloneSandboxMessagingState_def normalizeSandboxMcpState_def
      serializeSandboxMessagingStateForDisk_def serializeSandboxMcpStateForDisk_def js_without_def
      NORMALIZED_MEMBERS_def TRANSIENT_MEMBERS_def normalized_members_def canonical_dashboard_port_def)

lemma managed_loaded: "loaded demo_registry_env (g_file managed_world) = Inr (managed_registry ''g1'')"
  by (simp add: loaded_def managed_world_def world_of_def demo_file_def normalizeRegistry_def
      parseSandboxRegistryEntries_def managed_row_reads normalize_rows_def managed_registry_def
      normalizeExtraProviders_def normalizeDefaultSelectionRevision_def MAX_SAFE_INTEGER_def
      fromEntries_def own_put_def is_array_index_def is_digit_def code_def)

lemma managed_swapped:
  "swapSandboxRebuildAuthorityInRegistry demo_registry_env (managed_registry ''g1'') managed_authority (managed_row ''g2'')
   = Inr (managed_registry ''g2'', Committed (managed_row ''g2''))"
proof -
  have "ra_sandboxName managed_authority = ''alpha''"
    by (simp add: managed_authority_def)
  then show ?thesis
    using managed_replacement managed_matches
    by (simp add: swapSandboxRebuildAuthorityInRegistry_def managed_registry_def row_at_def own_put_def)
qed

lemma managed_serialized:
  "serializeRegistryForDisk demo_registry_env (managed_registry ''g2'') = Inr (managed_registry ''g2'')"
  by (simp add: serializeRegistryForDisk_def managed_registry_def normalize_rows_def managed_row_reads
      retainedDefaultSandbox_def normalizeExtraProviders_def providers_to_js_def
      normalizeDefaultSelectionRevision_def MAX_SAFE_INTEGER_def fromEntries_def own_put_def is_array_index_def
      is_digit_def code_def)
    (simp add: is_reservation_def managed_row_def)

lemma managed_swap:
  "fst (compareAndSwapSandboxRebuildAuthority demo_registry_env managed_authority (managed_row ''g2'') managed_world)
   = Inr (Committed (managed_row ''g2''))"
proof -
  have "acquireLock (\<lambda>_. demo_attempt) = Inr 1"
    by code_simp
  then show ?thesis
    using managed_loaded
    by (simp add: compareAndSwapSandboxRebuildAuthority_def managed_replacement bind_def withLock_def
        managed_world_def world_of_def managed_swapped save_or_confirm_def save_def managed_serialized
        writeConfigFile_def)
qed

theorem rebuild_swap_exclusive_witness:
  "fst (compareAndSwapSandboxRebuildAuthority demo_registry_env managed_authority (managed_row ''g2'') managed_world)
     = Inr (Committed (managed_row ''g2''))
   \<and> authority_current demo_registry_env managed_authority (g_file managed_world)
   \<and> fst (compareAndSwapSandboxRebuildAuthority demo_registry_env managed_authority (managed_row ''g3'')
        (snd (compareAndSwapSandboxRebuildAuthority demo_registry_env managed_authority (managed_row ''g2'') managed_world)))
     \<noteq> Inr (Committed (managed_row ''g3''))"
proof -
  let ?w1 = "snd (compareAndSwapSandboxRebuildAuthority demo_registry_env managed_authority (managed_row ''g2'') managed_world)"
  have run: "compareAndSwapSandboxRebuildAuthority demo_registry_env managed_authority (managed_row ''g2'') managed_world
      = (Inr (Committed (managed_row ''g2'')), ?w1)"
    using managed_swap by (simp add: prod_eq_iff)
  show ?thesis
    using rebuild_swap_exclusive [OF run, of "managed_row ''g2''"] managed_swap by blast
qed

end
