(* ===== verification/Ipv6_Text.thy ===== *)
theory Ipv6_Text
  imports Trusted_Endpoint
begin

text \<open>
  The canonical text of an IPv6 address reads back as that address: the facts about
  \<open>ipv6_text\<close> that the canonical forms of pins and hosts rest on.
\<close>

section \<open>One piece\<close>

lemma hex_digit_cases: "n < 16 \<Longrightarrow> n \<in> {0, 1, 2, 3, 4, 5, 6, 7, 8, 9, 10, 11, 12, 13, 14, 15 :: nat}"
  by (simp only: insert_iff empty_iff) presburger

lemma hex_char:
  assumes "n < 16"
  shows "hex_digit (''0123456789abcdef'' ! n) = n" "is_lower_hex (''0123456789abcdef'' ! n)"
  using hex_digit_cases [OF assms]
  by (elim insertE; simp add: hex_digit_def is_lower_hex_def is_digit_def code_def)+

lemma hex_text_chars: "list_all is_lower_hex (hex_text n)"
  by (induction n rule: hex_text.induct) (subst hex_text.simps, simp add: hex_char)

lemma hex_text_nonempty [simp]: "hex_text n \<noteq> []"
  by (subst hex_text.simps) simp

lemma hex_text_value: "foldl (\<lambda>n c. n * 16 + hex_digit c) 0 (hex_text n) = n"
  by (induction n rule: hex_text.induct) (subst hex_text.simps, simp add: hex_char)

lemma hex_text_length: "n < 16 ^ Suc k \<Longrightarrow> length (hex_text n) \<le> Suc k"
proof (induction k arbitrary: n)
  case 0
  then show ?case by (subst hex_text.simps) simp
next
  case (Suc k)
  have "n div 16 < 16 ^ Suc k"
    using Suc.prems by (simp add: less_mult_imp_div_less mult.commute)
  from Suc.IH [OF this] show ?case by (subst hex_text.simps) simp
qed

lemma hextet_text: "n < 65536 \<Longrightarrow> hextet (hex_text n) = Some n"
  using hex_text_length [of n 3] hex_text_chars [of n]
  by (auto simp: hextet_def hex_text_value is_hex_def list_all_iff)

section \<open>Pieces between colons\<close>

definition piece_like :: "string \<Rightarrow> bool" where
  "piece_like p = (p \<noteq> [] \<and> free_of CHR '':'' p)"

lemma hex_free: "list_all is_lower_hex s \<Longrightarrow> \<not> is_lower_hex c \<Longrightarrow> free_of c s"
  by (auto simp: free_of_def list_all_iff)

lemma colon_not_hex: "\<not> is_lower_hex CHR '':''" "\<not> is_lower_hex CHR ''.''" "\<not> is_lower_hex CHR ''%''"
  by (simp_all add: is_lower_hex_def is_digit_def code_def)

lemma hex_piece_like: "list_all piece_like (map hex_text gs)"
  using hex_free [OF hex_text_chars colon_not_hex(1)] by (simp add: list_all_iff piece_like_def)

lemma cut_free:
  "free_of CHR '':'' p \<Longrightarrow>
     cut_double_colon (p @ s) = map_option (\<lambda>(l, r). (p @ l, r)) (cut_double_colon s)"
proof (induction p)
  case (Cons a p)
  then show ?case by (cases "p @ s") (auto simp: option.map_comp comp_def split_beta)
qed (simp add: split_beta option.map_id)

lemma cut_colon_piece:
  "piece_like p \<Longrightarrow>
     cut_double_colon (CHR '':'' # p @ s) =
       map_option (\<lambda>(l, r). (CHR '':'' # l, r)) (cut_double_colon (p @ s))"
  by (cases p) (auto simp: piece_like_def)

lemma cut_join:
  "list_all piece_like ps \<Longrightarrow> cut_double_colon (join_with CHR '':'' ps) = None"
proof (induction "CHR '':''" ps rule: join_with.induct)
  case (2 p)
  then show ?case using cut_free [of p "[]"] by (simp add: piece_like_def)
next
  case (3 p q ps)
  obtain s where s: "join_with CHR '':'' (q # ps) = q @ s" by (cases ps) auto
  show ?case
    using 3 cut_colon_piece [of q s] by (simp add: s cut_free piece_like_def)
qed simp

lemma cut_join_double:
  "list_all piece_like ps \<Longrightarrow>
     cut_double_colon (join_with CHR '':'' ps @ ''::'' @ r) = Some (join_with CHR '':'' ps, r)"
proof (induction "CHR '':''" ps rule: join_with.induct)
  case (2 p)
  then show ?case using cut_free [of p "''::'' @ r"] by (simp add: piece_like_def)
next
  case (3 p q ps)
  obtain s where s: "join_with CHR '':'' (q # ps) = q @ s" by (cases ps) auto
  show ?case
    using 3 cut_colon_piece [of q "s @ ''::'' @ r"] by (simp add: s cut_free piece_like_def)
qed simp

lemma parse_hex_groups: "list_all (\<lambda>g. g < 65536) gs \<Longrightarrow> parse_groups tail (map hex_text gs) = Some gs"
  by (induction gs rule: induct_list012) (simp_all add: hextet_text)

lemma side_hex_groups:
  assumes "list_all (\<lambda>g. g < 65536) gs"
  shows "side_groups tail (colon_text gs) = Some gs"
proof (cases "gs = []")
  case False
  have "list_all (free_of CHR '':'') (map hex_text gs)"
    using hex_piece_like [of gs] by (simp add: list_all_iff piece_like_def)
  then show ?thesis
    using False join_nonempty [of "map hex_text gs" "CHR '':''"] hex_text_nonempty [symmetric]
    by (simp add: side_groups_def colon_text_def split_join parse_hex_groups [OF assms] image_iff
        del: hex_text_nonempty)
qed (simp add: side_groups_def colon_text_def)

section \<open>The run of zeros\<close>

lemma zero_run_take: "zero_run gs \<le> length gs" "take (zero_run gs) gs = replicate (zero_run gs) 0"
  by (simp add: zero_run_def length_takeWhile_le)
    (induction gs, auto simp: zero_run_def)

lemma longest_run_spec:
  "longest_run i gs = (s, n) \<Longrightarrow>
     i \<le> s \<and> s - i + n \<le> length gs \<and> take n (drop (s - i) gs) = replicate n 0"
proof (induction gs arbitrary: i s n)
  case (Cons g gs)
  obtain s' n' where r: "longest_run (Suc i) gs = (s', n')" by (cases "longest_run (Suc i) gs") auto
  note IH = Cons.IH [OF r]
  show ?case
  proof (cases "n' \<le> zero_run (g # gs)")
    case True
    then show ?thesis using Cons.prems r zero_run_take [of "g # gs"] by simp
  next
    case False
    then have "s = s'" "n = n'" using Cons.prems r by auto
    moreover have "drop (s' - i) (g # gs) = drop (s' - Suc i) gs" using IH by (simp add: Suc_le_eq drop_Cons')
    ultimately show ?thesis using IH by auto
  qed
qed auto

lemma zero_run_split:
  assumes "longest_run 0 gs = (s, n)"
  shows "gs = take s gs @ replicate n 0 @ drop (s + n) gs" "s + n \<le> length gs"
proof -
  have r: "s + n \<le> length gs" "take n (drop s gs) = replicate n 0" using longest_run_spec [OF assms] by auto
  have "gs = take s gs @ take n (drop s gs) @ drop n (drop s gs)" by (simp only: append_take_drop_id)
  then show "gs = take s gs @ replicate n 0 @ drop (s + n) gs" by (simp only: r drop_drop add.commute)
  show "s + n \<le> length gs" by (rule r)
qed

section \<open>The address\<close>

lemma pieces_length: "length (pieces w) = 8"
  by (simp add: pieces_def)

lemma pieces_bound: "list_all (\<lambda>g. g < 65536) (pieces w)"
  by (simp add: pieces_def)

lemma parse_pieces_text:
  assumes b: "list_all (\<lambda>g. g < 65536) gs" and l: "length gs = 8"
  shows "parse_ipv6 (pieces_text gs) = Some (groups_value gs)"
proof -
  obtain s n where r: "longest_run 0 gs = (s, n)" by (cases "longest_run 0 gs") auto
  note split = zero_run_split [OF r]
  show ?thesis
  proof (cases "n < 2")
    case True
    then show ?thesis
      using cut_join [OF hex_piece_like, of gs] side_hex_groups [OF b]
      by (simp add: pieces_text_def r parse_ipv6_def colon_text_def l)
  next
    case False
    have p: "list_all (\<lambda>g. g < 65536) (take s gs)" "list_all (\<lambda>g. g < 65536) (drop (s + n) gs)"
      using b by (auto simp: list_all_iff dest: in_set_takeD in_set_dropD)
    have len: "8 - length (take s gs) - length (drop (s + n) gs) = n" "length (take s gs) + length (drop (s + n) gs) \<le> 7"
      using split(2) l False by auto
    show ?thesis
      using False cut_join_double [OF hex_piece_like, of "take s gs" "colon_text (drop (s + n) gs)"]
        side_hex_groups [OF p(1)] side_hex_groups [OF p(2)] split(1) len
      by (simp add: pieces_text_def r parse_ipv6_def colon_text_def del: length_take length_drop)
  qed
qed

lemma horner_digits:
  "foldl (\<lambda>n g. n * B + g) a (map (\<lambda>k. v div B ^ k mod B) (rev [0..<n])) = a * B ^ n + v mod B ^ n"
  for v B :: nat
proof (induction n arbitrary: a)
  case (Suc n)
  have "v mod B ^ Suc n = B ^ n * (v div B ^ n mod B) + v mod B ^ n"
    by (simp only: power_Suc2 mod_mult2_eq)
  moreover have "rev [0..<Suc n] = n # rev [0..<n]" by simp
  ultimately show ?case by (simp only: list.map foldl.simps Suc.IH) (simp add: algebra_simps)
qed simp

lemma pieces_value: "groups_value (pieces w) = unat w"
proof -
  have "[7, 6, 5, 4, 3, 2, 1, 0] = rev [0..<8]" by (simp add: upt_rec)
  then have "groups_value (pieces w) = unat w mod 65536 ^ 8"
    using horner_digits [of 65536 0 "unat w" 8] by (simp only: groups_value_def pieces_def mult_0 add_0)
  then show ?thesis using unsigned_less [of w, where 'a = nat] by simp
qed

definition text_char :: "char \<Rightarrow> bool" where
  "text_char c = (is_lower_hex c \<or> c = CHR '':'')"

lemma join_chars: "list_all (list_all Q) ps \<Longrightarrow> Q x \<Longrightarrow> list_all Q (join_with x ps)"
  by (induction x ps rule: join_with.induct) auto

lemma colon_text_chars: "list_all text_char (colon_text gs)"
  using hex_text_chars unfolding colon_text_def
  by (intro join_chars) (auto simp: list_all_iff text_char_def)

lemma ipv6_text_chars: "list_all text_char (ipv6_text w)"
  by (auto simp: ipv6_text_def pieces_text_def colon_text_chars split_beta Let_def)
    (simp add: text_char_def)+

lemma text_free: "list_all text_char s \<Longrightarrow> \<not> text_char c \<Longrightarrow> free_of c s"
  by (auto simp: free_of_def list_all_iff)

lemma ipv6_text_free: "free_of CHR ''.'' (ipv6_text w)" "free_of CHR ''%'' (ipv6_text w)"
  by (rule text_free [OF ipv6_text_chars], simp add: text_char_def colon_not_hex)+

lemma parse_ipv6_text: "parse_ip (ipv6_text w) = Some (IPv6 w)"
proof -
  have "parse_ipv6 (ipv6_text w) = Some (unat w)"
    by (simp add: ipv6_text_def parse_pieces_text pieces_bound pieces_length pieces_value)
  then show ?thesis
    by (simp add: parse_ip_def parse_ipv4_def zoned_ipv6_def split_free ipv6_text_free split: option.splits)
qed

lemma lower_char_fixed: "text_char c \<Longrightarrow> toLower [c] = [c]"
  by (auto simp: text_char_def toLower_def is_lower_hex_def is_digit_def code_def)

lemma toLower_text: "list_all text_char s \<Longrightarrow> toLower s = s"
  using lower_char_fixed by (induction s) (auto simp: toLower_def)

lemmas ipv6_text_lower = toLower_text [OF ipv6_text_chars]

end
