(* ===== verification/Trust_Facts.thy ===== *)
theory Trust_Facts
  imports Ipv6_Text Endpoint_Facts
begin

text \<open>
  Facts about \<open>Trusted_Endpoint\<close>: canonical hosts and addresses are fixed points, what a list of pins
  has passed, which addresses an operator can trust, and what every call keeps of the issued
  capabilities.
\<close>

section \<open>Canonical addresses\<close>

text \<open>The characters of canonical hosts, and what they exclude.\<close>

definition host_char :: "char \<Rightarrow> bool" where
  "host_char c = (is_lower c \<or> is_digit c \<or> c \<in> set ''-.:'')"

lemma host_char_excludes:
  assumes "host_char c"
  shows "\<not> is_js_space c" "c \<notin> set [CHR 92, CHR ''/'', CHR ''?'', CHR ''#'', CHR ''@'', CHR ''*'']"
    "c \<noteq> CHR ''['' \<and> c \<noteq> CHR '']'' \<and> c \<noteq> CHR ''%'' \<and> c \<noteq> CHR '',''" "toLower [c] = [c]"
  using assms by (auto simp: host_char_def is_lower_def is_digit_def is_js_space_def code_def toLower_def)

lemma host_chars_of:
  "text_char c \<Longrightarrow> host_char c" "dns_char c \<Longrightarrow> host_char c" "is_digit c \<Longrightarrow> host_char c"
  by (auto simp: host_char_def text_char_def is_lower_hex_def dns_char_def is_lower_def)

lemma toLower_host: "list_all host_char s \<Longrightarrow> toLower s = s"
  using host_char_excludes(4) by (induction s) (auto simp: toLower_def)

lemma digits_value_digits_only: "digits_value n s = Some m \<Longrightarrow> list_all is_digit s"
  by (induction s arbitrary: n) (auto split: if_splits)

lemma octet_digits_only: "octet s = Some n \<Longrightarrow> s \<noteq> [] \<and> list_all is_digit s"
  by (auto simp: octet_def digits_value_digits_only split: if_splits option.splits)

lemma ipv4_text:
  assumes "parse_ip s = Some (IPv4 w)"
  shows "list_all (\<lambda>c. is_digit c \<or> c = CHR ''.'') s" "s \<noteq> []" "is_digit (hd s)" "is_digit (last s)"
proof -
  obtain v where "parse_ipv4 s = Some v"
    using assms by (auto simp: parse_ip_def split: option.splits)
  from this obtain p q r t a b c d where f: "split_on CHR ''.'' s = [p, q, r, t]"
    "octet p = Some a" "octet q = Some b" "octet r = Some c" "octet t = Some d"
    by (rule parse_ipv4_cases)
  note o = f(2-5) [THEN octet_digits_only]
  have s: "s = p @ CHR ''.'' # q @ CHR ''.'' # r @ CHR ''.'' # t"
    using join_split [of "CHR ''.''" s] by (simp add: f(1))
  show "s \<noteq> []" by (simp add: s)
  show "is_digit (hd s)" using o(1) by (cases p) (simp_all add: s)
  show "is_digit (last s)" using o(4) by (cases t rule: rev_cases) (simp_all add: s)
  show "list_all (\<lambda>c. is_digit c \<or> c = CHR ''.'') s" using o by (auto simp: s list_all_iff)
qed

text \<open>A literal in the form \<open>normalizeIpLiteral\<close> gives it.\<close>

definition canonical_ip :: "string \<Rightarrow> bool" where
  "canonical_ip s = (isIP s \<noteq> 0 \<and> normalizeIpLiteral s = Inr s \<and> list_all host_char s)"

lemma isIP_nonzero: "isIP s \<noteq> 0 \<longleftrightarrow> (\<exists>a. parse_ip s = Some a)"
  by (auto simp: isIP_def split: option.splits ip.splits)

lemma ipv4_host_chars: "parse_ip s = Some (IPv4 w) \<Longrightarrow> list_all host_char s"
  using ipv4_text(1) [of s w] by (auto simp: list_all_iff host_chars_of host_char_def)

lemma ipv6_host_chars: "list_all host_char (ipv6_text w)"
  using ipv6_text_chars [of w] by (auto simp: list_all_iff host_chars_of)

lemma normalized_ip:
  assumes "isIP s \<noteq> 0" "normalizeIpLiteral s = Inr n"
  shows "canonical_ip n" "parse_ip n = parse_ip s"
proof -
  obtain a where a: "parse_ip s = Some a" using assms(1) unfolding isIP_nonzero by blast
  have "canonical_ip n \<and> parse_ip n = parse_ip s"
  proof (cases a)
    case (IPv4 w)
    then have "n = s" using assms(2) a toLower_host [OF ipv4_host_chars] by (simp add: normalizeIpLiteral_def)
    then show ?thesis
      using assms a IPv4 ipv4_host_chars by (simp add: canonical_ip_def)
  next
    case (IPv6 w)
    then have "n = ipv6_text w" using assms(2) a by (auto simp: normalizeIpLiteral_def split: if_splits)
    then show ?thesis
      using a IPv6
      by (simp add: canonical_ip_def isIP_def normalizeIpLiteral_def parse_ipv6_text ipv6_text_free ipv6_host_chars)
  qed
  then show "canonical_ip n" "parse_ip n = parse_ip s" by simp_all
qed

lemma canonical_free: "canonical_ip s \<Longrightarrow> free_of CHR ''%'' s"
  using host_char_excludes(3) by (auto simp: canonical_ip_def free_of_def list_all_iff)

section \<open>Canonical hosts\<close>

lemma starts_with_hd: "starts_with [c] s \<longleftrightarrow> s \<noteq> [] \<and> hd s = c"
  by (cases s) (auto simp: starts_with_def)

lemma ends_with_last: "ends_with [c] s \<longleftrightarrow> s \<noteq> [] \<and> last s = c"
  by (cases s rule: rev_cases) (auto simp: ends_with_def)

lemma normalise_host:
  "list_all host_char s \<Longrightarrow> \<not> ends_with ''.'' s \<Longrightarrow> normalise_name s = s"
  by (simp add: normalise_name_def toLower_host)

lemma no_scheme: "list_all host_char s \<Longrightarrow> \<not> contains ''://'' s"
proof (induction s)
  case (Cons c s)
  have "c = CHR '':'' \<Longrightarrow> s = d # t \<Longrightarrow> d \<noteq> CHR ''/''" for d t
    using Cons.prems host_char_excludes(2) [of d] by auto
  then show ?case using Cons by (cases s) (auto simp: starts_with_def)
qed simp

text \<open>A name that \<open>trusted_name\<close> accepts and that is written in host characters is its own canonical form.\<close>

lemma trusted_fixed:
  assumes "trusted_name v h = Inr h" "list_all host_char h" "hd h \<noteq> CHR ''.''"
  shows "normalizeTrustedPrivateHost h = Inr h"
proof -
  have ne: "h \<noteq> []" "\<not> ends_with ''.'' h"
    using assms(1) by (auto simp: trusted_name_def split: if_splits)
  have trim: "trim h = h"
    using assms(2) host_char_excludes(1) by (intro trim_no_space) (auto simp: list_all_iff)
  have brackets: "\<not> starts_with ''['' h" "\<not> ends_with '']'' h"
    using assms(2) ne(1) host_char_excludes(3) hd_in_set [of h] last_in_set [of h]
    by (auto simp: starts_with_hd ends_with_last list_all_iff)
  have special: "\<not> list_ex (\<lambda>c. c \<in> set [CHR 92, CHR ''/'', CHR ''?'', CHR ''#'', CHR ''@'', CHR ''*'']) h"
    using assms(2) host_char_excludes(2) unfolding list_ex_iff list_all_iff by blast
  have percent: "free_of CHR ''%'' h"
    using assms(2) host_char_excludes(3) by (auto simp: free_of_def list_all_iff)
  have dot: "\<not> starts_with ''.'' h" using assms(3) by (simp add: starts_with_hd)
  have "trusted_name h h = Inr h"
    using assms(1) by (auto simp: trusted_name_def split: if_splits)
  then show ?thesis
    using ne brackets special percent dot no_scheme [OF assms(2)]
    by (simp only: normalizeTrustedPrivateHost_def Let_def trim normalise_host [OF assms(2) ne(2)]) simp
qed

lemma canonical_ends:
  assumes "canonical_ip h"
  shows "h \<noteq> []" "hd h \<noteq> CHR ''.''" "last h \<noteq> CHR ''.''" "hd h \<in> set h" "last h \<in> set h"
proof -
  obtain a where a: "parse_ip h = Some a" using assms unfolding canonical_ip_def isIP_nonzero by blast
  have "hd h \<noteq> CHR ''.'' \<and> h \<noteq> [] \<and> last h \<noteq> CHR ''.''"
  proof (cases a)
    case (IPv4 w)
    have "\<not> is_digit CHR ''.''" by (simp add: is_digit_def code_def)
    then show ?thesis using ipv4_text(2-4) [OF a [unfolded IPv4]] by auto
  next
    case (IPv6 w)
    then have "h = ipv6_text w"
      using assms a by (auto simp: canonical_ip_def normalizeIpLiteral_def split: if_splits)
    then have "free_of CHR ''.'' h" using ipv6_text_free by simp
    moreover have "h \<noteq> []" using a by (auto simp: ip_defs split: option.splits)
    ultimately show ?thesis
      using list.set_sel(1) [of h] last_in_set [of h] unfolding free_of_def by metis
  qed
  then show "h \<noteq> []" "hd h \<noteq> CHR ''.''" "last h \<noteq> CHR ''.''" "hd h \<in> set h" "last h \<in> set h"
    by simp_all
qed

lemma canonical_ip_trusted:
  assumes "canonical_ip h"
  shows "normalizeTrustedPrivateHost h = Inr h"
proof -
  have "trusted_name h h = Inr h"
    using assms canonical_ends [OF assms] by (simp add: trusted_name_def canonical_ip_def ends_with_last)
  then show ?thesis
    using assms canonical_ends(2) [OF assms] by (intro trusted_fixed) (auto simp: canonical_ip_def)
qed

lemma split_hd: "hd (split_on x s) = takeWhile (\<lambda>c. c \<noteq> x) s"
  by (induction s) (auto split: list.splits)

lemma dns_label_chars: "dns_label s \<Longrightarrow> list_all host_char s"
  using host_chars_of(2) by (fastforce simp: dns_label_def list_all_iff host_char_def)

lemma trusted_name_cases:
  assumes "trusted_name v n = Inr h"
  shows "canonical_ip h \<or> h = n \<and> isIP n = 0 \<and> list_all host_char n \<and> hd n \<noteq> CHR ''.''"
proof (cases "isIP n = 0")
  case False
  then show ?thesis
    using assms normalized_ip(1) [OF False] by (auto simp: trusted_name_def split: if_splits)
next
  case True
  then have h: "h = n" "n \<noteq> []" "list_all (\<lambda>l. l \<noteq> [] \<and> dns_label l) (split_on CHR ''.'' n)"
    using assms by (auto simp: trusted_name_def list_ex_iff list_all_iff split: if_splits)
  have "list_all (list_all host_char) (split_on CHR ''.'' n)"
    using h(3) dns_label_chars by (auto simp: list_all_iff)
  then have "list_all host_char n"
    using join_chars [of host_char "split_on CHR ''.'' n" "CHR ''.''"] by (simp add: host_char_def)
  moreover have "hd (split_on CHR ''.'' n) \<noteq> []"
    using h(3) hd_in_set [OF split_nonempty, of "CHR ''.''" n] by (auto simp: list_all_iff)
  then have "hd n \<noteq> CHR ''.''" using h(2) by (cases n) (auto simp: split_hd)
  ultimately show ?thesis using h True by simp
qed

lemma trusted_host_stable:
  assumes "normalizeTrustedPrivateHost raw = Inr h"
  shows "normalizeTrustedPrivateHost h = Inr h"
proof -
  consider a where "isIP a = 6" "normalizeIpLiteral a = Inr h" | v n where "trusted_name v n = Inr h"
    using assms by (auto simp: normalizeTrustedPrivateHost_def Let_def split: if_splits)
  then show ?thesis
  proof cases
    case (1 a)
    then show ?thesis using canonical_ip_trusted normalized_ip(1) [of a h] by simp
  next
    case (2 v n)
    then show ?thesis using trusted_name_cases [OF 2] canonical_ip_trusted trusted_fixed by blast
  qed
qed

section \<open>Reading the table\<close>

definition serves_table :: "loaded_networks \<Rightarrow> trust_world \<Rightarrow> bool" where
  "serves_table l w = (fst (cli_load (tw_networks w)) = Inr l)"

definition opened :: "trust_world \<Rightarrow> trust_world" where
  "opened w = w\<lparr>tw_networks := snd (cli_load (tw_networks w))\<rparr>"

definition private_in :: "loaded_networks \<Rightarrow> string \<Rightarrow> bool" where
  "private_in l a = isPrivateIpInBlockList a (ln_blockList l)"

lemma load_result: "serves_table l w \<Longrightarrow> cli_load (tw_networks w) = (Inr l, tw_networks (opened w))"
  by (cases "cli_load (tw_networks w)") (simp add: serves_table_def opened_def)

lemma opened_again [simp]: "serves_table l w \<Longrightarrow> serves_table l (opened w)" "serves_table l w \<Longrightarrow> opened (opened w) = opened w"
  using cli_load_again [OF load_result, of l w] by (simp_all add: serves_table_def opened_def)

lemma serves_unique: "serves_table l w \<Longrightarrow> serves_table l' w \<Longrightarrow> l' = l"
  by (simp add: serves_table_def)

lemma opened_fields [simp]: "tw_issued (opened w) = tw_issued w" "tw_nextRef (opened w) = tw_nextRef w"
  by (simp_all add: opened_def)

lemma private_ip_read:
  assumes "isIP a \<noteq> 0" "serves_table l w"
  shows "isPrivateIp a w = (Inr (private_in l a), opened w)"
proof -
  have "cli_isPrivateIp a (tw_networks w) = (Inr (private_in l a), tw_networks (opened w))"
    using assms by (simp add: cli_isPrivateIp_def load_result private_in_def)
  then show ?thesis by (simp add: isPrivateIp_def on_networks_def opened_def)
qed

lemma private_ip_ran:
  assumes "isIP a \<noteq> 0" "isPrivateIp a w = (Inr p, w')"
  shows "\<exists>l. serves_table l w \<and> p = private_in l a \<and> w' = opened w"
proof (cases "fst (cli_load (tw_networks w))")
  case (Inl e)
  then show ?thesis
    using assms by (auto simp: isPrivateIp_def on_networks_def cli_isPrivateIp_def bind_def split: prod.splits sum.splits)
next
  case (Inr l)
  then have "serves_table l w" by (simp add: serves_table_def)
  then show ?thesis using private_ip_read [OF assms(1)] assms(2) by auto
qed

section \<open>Lists of pins\<close>

text \<open>An address that may be pinned: canonical, and private only where trust was given and can be given.\<close>

definition pin_ok :: "loaded_networks \<Rightarrow> bool \<Rightarrow> string \<Rightarrow> bool" where
  "pin_ok l trusted a =
     (canonical_ip a \<and> (private_in l a \<longrightarrow> trusted \<and> isOperatorTrustablePrivateIp a))"

definition pins_ok :: "loaded_networks \<Rightarrow> string list \<Rightarrow> bool" where
  "pins_ok l as =
     (as \<noteq> [] \<and> sorted as \<and> distinct as \<and> list_all (pin_ok l True) as \<and> list_ex isOperatorTrustablePrivateIp as)"

lemma canonical_pins_ran:
  "canonical_pins h as w = (Inr ns, w') \<Longrightarrow> as \<noteq> [] \<Longrightarrow>
     \<exists>l. serves_table l w \<and> w' = opened w \<and> ns \<noteq> [] \<and> list_all (pin_ok l True) ns"
proof (induction "as" arbitrary: w ns)
  case (Cons a as)
  then obtain address n p w1 rest where a: "a = JStr address" "isIP address \<noteq> 0"
    "normalizeIpLiteral address = Inr n" "isPrivateIp n w = (Inr p, w1)"
    "\<not> (p \<and> \<not> isOperatorTrustablePrivateIp n)" "canonical_pins h as w1 = (Inr rest, w')" "ns = n # rest"
    by (auto split: option.splits if_splits)
  note c = normalized_ip(1) [OF a(2,3)]
  then obtain l where l: "serves_table l w" "p = private_in l n" "w1 = opened w"
    using private_ip_ran [OF _ a(4)] by (auto simp: canonical_ip_def)
  have "pin_ok l True n" using c a(5) l(2) by (simp add: pin_ok_def)
  moreover have "w' = opened w \<and> list_all (pin_ok l True) rest"
  proof (cases "as = []")
    case True
    then show ?thesis using a(6) l(3) by simp
  next
    case False
    then show ?thesis
      using Cons.IH [OF a(6)] l serves_unique [of l "opened w"] by auto
  qed
  ultimately show ?case using l a(7) by auto
qed simp

lemma canonical_pins_fixed:
  "serves_table l w \<Longrightarrow> list_all (pin_ok l True) ns \<Longrightarrow> ns \<noteq> [] \<Longrightarrow>
     canonical_pins h (map JStr ns) w = (Inr ns, opened w)"
proof (induction ns arbitrary: w)
  case (Cons n ns)
  have n: "isIP n \<noteq> 0" "free_of CHR ''%'' n" "normalizeIpLiteral n = Inr n"
    "\<not> (private_in l n \<and> \<not> isOperatorTrustablePrivateIp n)"
    using Cons.prems canonical_free [of n] by (auto simp: pin_ok_def canonical_ip_def)
  have rest: "canonical_pins h (map JStr ns) (opened w) = (Inr ns, opened w)"
    using Cons.IH [of "opened w"] Cons.prems by (cases "ns = []") auto
  show ?case
    using n private_ip_read [OF n(1) Cons.prems(1)] rest by (simp add: bind_def)
qed simp

lemma uniq_id: "distinct xs \<Longrightarrow> uniq xs = xs"
  by (simp add: uniq_def distinct_remdups_id)

lemma pins_ok_sorted: "pins_ok l as \<Longrightarrow> sort (uniq as) = as"
  by (simp add: pins_ok_def uniq_id sort_key_id_if_sorted)

lemma sort_nonempty [simp]: "sort xs = [] \<longleftrightarrow> xs = []"
  using length_sort [of "\<lambda>x. x" xs] by (metis length_0_conv)

lemma canonicalize_ran:
  assumes "canonicalizeTrustedPrivateEndpointPins h as b w = (Inr p, w')"
  shows "\<exists>l. serves_table l w \<and> w' = opened w \<and> normalizeTrustedPrivateHost h = Inr (ep_host p)
           \<and> pins_ok l (ep_addresses p) \<and> (b \<longrightarrow> list_all isOperatorTrustablePrivateIp (ep_addresses p))"
proof -
  obtain n ns where r: "normalizeTrustedPrivateHost h = Inr n" "as \<noteq> []" "canonical_pins n as w = (Inr ns, w')"
    "distinct ns" "list_ex isOperatorTrustablePrivateIp ns" "b \<longrightarrow> list_all isOperatorTrustablePrivateIp ns"
    "p = \<lparr>ep_host = n, ep_addresses = sort ns\<rparr>"
    using assms by (auto simp: canonicalizeTrustedPrivateEndpointPins_def split: if_splits)
  with canonical_pins_ran [OF r(3,2)] show ?thesis
    by (auto simp: pins_ok_def list_all_iff list_ex_iff)
qed

lemma canonicalize_fixed:
  assumes "serves_table l w" "normalizeTrustedPrivateHost h = Inr h" "pins_ok l as"
    "b \<longrightarrow> list_all isOperatorTrustablePrivateIp as"
  shows "canonicalizeTrustedPrivateEndpointPins h (map JStr as) b w =
           (Inr \<lparr>ep_host = h, ep_addresses = as\<rparr>, opened w)"
proof -
  have "canonical_pins h (map JStr as) w = (Inr as, opened w)" "as \<noteq> []" "sort as = as" "distinct as"
    "list_ex isOperatorTrustablePrivateIp as"
    using assms(1,3) canonical_pins_fixed [of l w "as" h] by (auto simp: pins_ok_def sort_key_id_if_sorted)
  then show ?thesis using assms(2,4) by (simp add: canonicalizeTrustedPrivateEndpointPins_def bind_def)
qed

section \<open>Issued capabilities\<close>

definition issue :: "string \<Rightarrow> string list \<Rightarrow> trust_world \<Rightarrow> trust_world" where
  "issue h as w =
     w\<lparr>tw_issued := (tw_nextRef w, \<lparr>cap_host = h, cap_addresses = as\<rparr>) # tw_issued w,
       tw_nextRef := Suc (tw_nextRef w)\<rparr>"

lemma issue_canonical:
  assumes "pins_ok l as"
  shows "issueTrustedPrivateEndpointCapability h as w = (Inr (tw_nextRef w), issue h as w)"
proof -
  have "traverse normalizeIpLiteral (map (\<lambda>a. a) as) = Inr as"
    using assms by (intro traverse_id) (auto simp: pins_ok_def list_all_iff pin_ok_def canonical_ip_def)
  then show ?thesis
    using assms pins_ok_sorted by (simp add: issueTrustedPrivateEndpointCapability_def issue_def bind_def)
qed

text \<open>Every issued capability is for a canonical host and pins that the table and the operator allow.\<close>

definition capability_ok :: "loaded_networks \<Rightarrow> capability \<Rightarrow> bool" where
  "capability_ok l c =
     (normalizeTrustedPrivateHost (cap_host c) = Inr (cap_host c) \<and> pins_ok l (cap_addresses c))"

definition trust_ok :: "trust_world \<Rightarrow> bool" where
  "trust_ok w =
     (distinct (map fst (tw_issued w))
      \<and> list_all (\<lambda>(r, c). r < tw_nextRef w \<and>
           (case cw_cached (tw_networks w) of None \<Rightarrow> False | Some l \<Rightarrow> capability_ok l c)) (tw_issued w))"

text \<open>Nothing is withdrawn: the table stays, capabilities stay with their fields.\<close>

definition extends :: "trust_world \<Rightarrow> trust_world \<Rightarrow> bool" where
  "extends w w' =
     ((\<forall>l. cw_cached (tw_networks w) = Some l \<longrightarrow> cw_cached (tw_networks w') = Some l)
      \<and> (\<exists>new. tw_issued w' = new @ tw_issued w) \<and> tw_nextRef w \<le> tw_nextRef w')"

definition grows :: "trust_world \<Rightarrow> trust_world \<Rightarrow> bool" where
  "grows w w' = (trust_ok w \<longrightarrow> trust_ok w' \<and> extends w w')"

lemma grows_refl [simp]: "grows w w"
  by (simp add: grows_def extends_def)

lemma grows_trans: "grows w w' \<Longrightarrow> grows w' w'' \<Longrightarrow> grows w w''"
  by (fastforce simp: grows_def extends_def)

lemma opened_cached: "serves_table l w \<Longrightarrow> cw_cached (tw_networks (opened w)) = Some l"
  by (auto simp: serves_table_def opened_def cli_load_def split: option.splits sum.splits)

lemma cached_serves: "cw_cached (tw_networks w) = Some l \<Longrightarrow> serves_table l w \<and> opened w = w"
  by (simp add: serves_table_def opened_def cli_load_def)

lemma grows_opened [simp]: "grows w (opened w)"
proof -
  have "cw_cached (tw_networks (opened w)) = Some l" if "cw_cached (tw_networks w) = Some l" for l
    using cached_serves [OF that] that by simp
  then show ?thesis
    by (auto simp: grows_def extends_def trust_ok_def list_all_iff split: option.splits)
qed

lemma grows_issue:
  assumes "serves_table l w" "capability_ok l \<lparr>cap_host = h, cap_addresses = as\<rparr>"
  shows "grows w (issue h as (opened w))"
proof -
  have "grows (opened w) (issue h as (opened w))"
    using assms(2) opened_cached [OF assms(1)]
    by (fastforce simp: grows_def extends_def trust_ok_def issue_def list_all_iff)
  then show ?thesis using grows_trans [OF grows_opened] by blast
qed

lemma issued_lookup:
  assumes "trust_ok w" "issued_capability w v = Some c"
  shows "\<exists>r l. v = CapabilityObject r \<and> (r, c) \<in> set (tw_issued w) \<and> serves_table l w \<and> opened w = w \<and> capability_ok l c"
proof -
  obtain r where r: "v = CapabilityObject r" "(r, c) \<in> set (tw_issued w)"
    using assms(2) by (auto simp: issued_capability_def split: capability_value.splits dest!: map_of_SomeD)
  then obtain l where "cw_cached (tw_networks w) = Some l" "capability_ok l c"
    using assms(1) by (auto simp: trust_ok_def list_all_iff split: option.splits)
  then show ?thesis using r cached_serves by blast
qed

lemma issued_extends:
  assumes "trust_ok w'" "extends w w'" "issued_capability w v = Some c"
  shows "issued_capability w' v = Some c"
proof -
  obtain r where r: "v = CapabilityObject r" "(r, c) \<in> set (tw_issued w)"
    using assms(3) by (auto simp: issued_capability_def split: capability_value.splits dest!: map_of_SomeD)
  then have "(r, c) \<in> set (tw_issued w')" using assms(2) by (auto simp: extends_def)
  then show ?thesis
    using assms(1) r(1) by (auto simp: issued_capability_def trust_ok_def)
qed

end
