(* ===== verification/Trust_Preflight.thy ===== *)
theory Trust_Preflight
  imports Trust_Facts
begin

text \<open>
  What an admitted endpoint has passed, and what every call of the module keeps: reachable states of
  the module as an inductive relation over its calls, and their invariant.
\<close>

section \<open>Calls that only read\<close>

definition reads :: "'a trust \<Rightarrow> bool" where
  "reads m = (\<forall>w. snd (m w) = w \<or> snd (m w) = opened w \<and> (\<exists>l. serves_table l w))"

lemma readsD: "reads m \<Longrightarrow> m w = (r, w') \<Longrightarrow> w' = w \<or> w' = opened w \<and> (\<exists>l. serves_table l w)"
  unfolding reads_def by (metis snd_conv)

lemma reads_simple [simp]: "reads (ret a)" "reads (throw e)" "reads (lift_res x)" "reads (Pair x)"
  by (simp_all add: reads_def)

lemma reads_bind:
  assumes "reads m" "\<And>a. reads (f a)"
  shows "reads (bind m f)"
  unfolding reads_def
proof
  fix w
  obtain r w1 where m: "m w = (r, w1)" by (cases "m w")
  note w1 = readsD [OF assms(1) m]
  show "snd (bind m f w) = w \<or> snd (bind m f w) = opened w \<and> (\<exists>l. serves_table l w)"
  proof (cases r)
    case (Inl e)
    then show ?thesis using m w1 by simp
  next
    case (Inr a)
    obtain r2 w2 where f: "f a w1 = (r2, w2)" by (cases "f a w1")
    show ?thesis using readsD [OF assms(2) f] w1 m Inr f by auto
  qed
qed

lemma reads_isPrivateIp [simp]: "reads (isPrivateIp a)"
  unfolding reads_def
proof
  fix w
  show "snd (isPrivateIp a w) = w \<or> snd (isPrivateIp a w) = opened w \<and> (\<exists>l. serves_table l w)"
    by (auto simp: isPrivateIp_def on_networks_def cli_isPrivateIp_def bind_def serves_table_def opened_def cli_load_def
        split: option.splits sum.splits)
qed

lemma reads_grows: "reads m \<Longrightarrow> grows w (snd (m w))"
  using readsD [of m w "fst (m w)" "snd (m w)"] by auto

lemma reads_canonical_pins: "reads (canonical_pins h as)"
  by (induction "as") (auto intro!: reads_bind split: option.splits)

lemma reads_canonicalize: "reads (canonicalizeTrustedPrivateEndpointPins h as b)"
  unfolding canonicalizeTrustedPrivateEndpointPins_def
  by (intro reads_bind) (auto intro!: reads_bind reads_canonical_pins)

lemma reads_assert: "reads (assertTrustedPrivateEndpointCapability h as v b)"
  unfolding reads_def
proof
  fix w
  let ?m = "assertTrustedPrivateEndpointCapability h as v b"
  show "snd (?m w) = w \<or> snd (?m w) = opened w \<and> (\<exists>l. serves_table l w)"
  proof (cases "issued_capability w v")
    case None
    then show ?thesis by (simp add: assertTrustedPrivateEndpointCapability_def)
  next
    case (Some c)
    let ?f = "\<lambda>pins. if cap_host c \<noteq> ep_host pins then throw (CapabilityHostDiffers (cap_host c) (ep_host pins))
            else if map JStr (ep_addresses pins) \<noteq> as \<or> cap_addresses c \<noteq> ep_addresses pins
            then throw CapabilityAddressesDiffer
            else ret \<lparr>ep_host = ep_host pins, ep_addresses = ep_addresses pins, er_trustedPrivateCapability = v\<rparr>"
    have "reads (bind (canonicalizeTrustedPrivateEndpointPins h as b) ?f)"
      by (intro reads_bind reads_canonicalize) auto
    then show ?thesis
      using Some by (simp add: assertTrustedPrivateEndpointCapability_def reads_def)
  qed
qed

lemma reads_check_answers: "reads (check_answers t hn as)"
  by (induction "as") (auto intro!: reads_bind split: option.splits)

lemma reads_private_addresses: "reads (private_addresses as)"
  by (induction "as") (auto intro!: reads_bind)

section \<open>Replay\<close>

lemma capability_of_pins:
  assumes "canonicalizeTrustedPrivateEndpointPins h as b w = (Inr p, w')"
  shows "\<exists>l. serves_table l w \<and> w' = opened w \<and> capability_ok l \<lparr>cap_host = ep_host p, cap_addresses = ep_addresses p\<rparr>"
  using canonicalize_ran [OF assms] trusted_host_stable by (auto simp: capability_ok_def)

lemma replay_grows: "grows w (snd (replayTrustedPrivateEndpoint h as b w))"
proof (cases "canonicalizeTrustedPrivateEndpointPins h as b w")
  case (Pair r w1)
  show ?thesis
  proof (cases r)
    case (Inl e)
    then show ?thesis
      using Pair reads_grows [OF reads_canonicalize, of w h "as" b]
      by (simp add: replayTrustedPrivateEndpoint_def)
  next
    case (Inr p)
    then obtain l where l: "serves_table l w" "w1 = opened w"
      "capability_ok l \<lparr>cap_host = ep_host p, cap_addresses = ep_addresses p\<rparr>"
      using capability_of_pins Pair by blast
    then have "snd (replayTrustedPrivateEndpoint h as b w) = issue (ep_host p) (ep_addresses p) (opened w)"
      using Pair Inr issue_canonical [of l "ep_addresses p"]
      by (simp add: replayTrustedPrivateEndpoint_def capability_ok_def bind_def)
    then show ?thesis using grows_issue [OF l(1,3)] by simp
  qed
qed

lemma replay_fixed:
  assumes "serves_table l w" "capability_ok l \<lparr>cap_host = h, cap_addresses = as\<rparr>"
    "b \<longrightarrow> list_all isOperatorTrustablePrivateIp as"
  shows "replayTrustedPrivateEndpoint h (map JStr as) b w =
           (Inr \<lparr>ep_host = h, ep_addresses = as, er_trustedPrivateCapability = CapabilityObject (tw_nextRef w)\<rparr>,
            issue h as (opened w))"
  using canonicalize_fixed [OF assms(1) _ _ assms(3)] issue_canonical [of l "as"] assms(2)
  by (simp add: replayTrustedPrivateEndpoint_def capability_ok_def bind_def)

lemma assert_fixed:
  assumes "serves_table l w" "capability_ok l c" "issued_capability w v = Some c"
    "b \<longrightarrow> list_all isOperatorTrustablePrivateIp (cap_addresses c)"
  shows "assertTrustedPrivateEndpointCapability (cap_host c) (map JStr (cap_addresses c)) v b w =
           (Inr \<lparr>ep_host = cap_host c, ep_addresses = cap_addresses c, er_trustedPrivateCapability = v\<rparr>, opened w)"
  using canonicalize_fixed [OF assms(1) _ _ assms(4)] assms(2,3)
  by (simp add: assertTrustedPrivateEndpointCapability_def capability_ok_def bind_def)

lemma assert_ran:
  assumes "assertTrustedPrivateEndpointCapability h as v b w = (Inr a, w')"
  shows "\<exists>c l. issued_capability w v = Some c \<and> serves_table l w \<and> w' = opened w
           \<and> normalizeTrustedPrivateHost h = Inr (cap_host c) \<and> as = map JStr (cap_addresses c)
           \<and> (b \<longrightarrow> list_all isOperatorTrustablePrivateIp (cap_addresses c))
           \<and> a = \<lparr>ep_host = cap_host c, ep_addresses = cap_addresses c, er_trustedPrivateCapability = v\<rparr>"
proof -
  obtain c where c: "issued_capability w v = Some c"
    using assms by (cases "issued_capability w v") (auto simp: assertTrustedPrivateEndpointCapability_def)
  obtain pins where pins: "canonicalizeTrustedPrivateEndpointPins h as b w = (Inr pins, w')"
    "cap_host c = ep_host pins" "map JStr (ep_addresses pins) = as" "cap_addresses c = ep_addresses pins"
    "a = \<lparr>ep_host = ep_host pins, ep_addresses = ep_addresses pins, er_trustedPrivateCapability = v\<rparr>"
    using assms c by (auto simp: assertTrustedPrivateEndpointCapability_def split: if_splits)
  then show ?thesis using canonicalize_ran [OF pins(1)] c by auto
qed

section \<open>The answers of the resolver\<close>

lemma map_sum_eq_Inr: "map_sum f g x = Inr b \<longleftrightarrow> (\<exists>a. x = Inr a \<and> b = g a)"
  by (cases x) auto

lemma check_answers_ran:
  "check_answers t hn as w = (Inr (Inr ns), w') \<Longrightarrow> as \<noteq> [] \<Longrightarrow>
     \<exists>l. serves_table l w \<and> w' = opened w \<and> ns \<noteq> [] \<and> list_all (pin_ok l t) ns"
proof (induction "as" arbitrary: w ns)
  case (Cons a as)
  then obtain address n p w1 rest where a: "a = JStr address" "isIP address \<noteq> 0"
    "normalizeIpLiteral address = Inr n" "isPrivateIp n w = (Inr p, w1)"
    "\<not> (p \<and> (\<not> t \<or> \<not> isOperatorTrustablePrivateIp n))"
    "check_answers t hn as w1 = (Inr (Inr rest), w')" "ns = n # rest"
    by (auto simp: map_sum_eq_Inr split: option.splits if_splits)
  note c = normalized_ip(1) [OF a(2,3)]
  then obtain l where l: "serves_table l w" "p = private_in l n" "w1 = opened w"
    using private_ip_ran [OF _ a(4)] by (auto simp: canonical_ip_def)
  have "pin_ok l t n" using c a(5) l(2) by (simp add: pin_ok_def)
  moreover have "w' = opened w \<and> list_all (pin_ok l t) rest"
  proof (cases "as = []")
    case True
    then show ?thesis using a(6) l(3) by simp
  next
    case False
    then show ?thesis
      using Cons.IH [OF a(6)] l serves_unique [of l "opened w"] by auto
  qed
  ultimately show ?case using l a(7) by auto
qed simp

lemma check_answers_refused: "check_answers t hn as w = (Inr (Inl r), w') \<Longrightarrow> \<not> pf_ok r"
proof (induction "as" arbitrary: w)
  case (Cons a as)
  then show ?case
    by (auto simp: refused_def map_sum_def split: option.splits if_splits sum.splits)
qed simp

lemma private_addresses_ran:
  "serves_table l w \<Longrightarrow> list_all (\<lambda>a. isIP a \<noteq> 0) ns \<Longrightarrow> ns \<noteq> [] \<Longrightarrow>
     private_addresses ns w = (Inr (filter (private_in l) ns), opened w)"
proof (induction ns arbitrary: w)
  case (Cons n ns)
  have "private_addresses ns (opened w) = (Inr (filter (private_in l) ns), opened w)"
    using Cons.IH [of "opened w"] Cons.prems by (cases "ns = []") auto
  then show ?case
    using private_ip_read [of n l w] Cons.prems by (simp add: bind_def)
qed simp

section \<open>An admitted endpoint\<close>

text \<open>
  What the preflight says of the addresses a connection may use: each one passed, and a capability for
  exactly these was issued if one of them is private.
\<close>

definition passed ::
  "loaded_networks \<Rightarrow> bool \<Rightarrow> string \<Rightarrow> string list \<Rightarrow> preflight_result \<Rightarrow> trust_world \<Rightarrow> trust_world \<Rightarrow> bool" where
  "passed l trusted h targets r v w' =
     (serves_table l v \<and> targets \<noteq> [] \<and> sorted targets \<and> distinct targets \<and> list_all (pin_ok l trusted) targets
      \<and> (if list_ex (private_in l) targets
         then pf_trustedPrivateCapability r = Some (tw_nextRef v) \<and> w' = issue h targets (opened v)
         else pf_trustedPrivateCapability r = None \<and> w' = opened v)
      \<and> pf_trustedPrivateEndpoint r = (pf_trustedPrivateCapability r \<noteq> None))"

lemma passed_pins:
  "passed l t h ts r v w' \<Longrightarrow> list_ex (private_in l) ts \<Longrightarrow> t \<and> pins_ok l ts"
  by (auto simp: passed_def pins_ok_def list_all_iff list_ex_iff pin_ok_def)

lemma preflight_literal_ran:
  assumes "preflight_literal t hn h w = (Inr r, w')" "pf_ok r" "canonical_ip h"
  shows "\<exists>l. passed l t h [h] r w w' \<and> pf_addresses r = Some []"
proof -
  have ip: "isIP h \<noteq> 0" using assms(3) by (simp add: canonical_ip_def)
  obtain p w1 where p: "isPrivateIp h w = (Inr p, w1)"
    using assms(1) by (auto simp: preflight_literal_def)
  then obtain l where l: "serves_table l w" "p = private_in l h" "w1 = opened w"
    using private_ip_ran [OF ip] by blast
  show ?thesis
  proof (cases p)
    case False
    then have "r = admitted [] None" "w' = opened w"
      using assms(1) p l by (simp_all add: preflight_literal_def)
    then show ?thesis
      using False l assms(3) by (intro exI [of _ l]) (simp add: passed_def admitted_def pin_ok_def)
  next
    case True
    then have t: "t" "isOperatorTrustablePrivateIp h"
      using assms(1,2) p by (auto simp: preflight_literal_def refused_def split: if_splits)
    then have "pins_ok l [h]" using assms(3) by (simp add: pins_ok_def pin_ok_def)
    then have "r = admitted [] (Some (tw_nextRef w))" "w' = issue h [h] (opened w)"
      using assms(1) p l True t issue_canonical [of l "[h]" h "opened w"] by (simp_all add: preflight_literal_def)
    then show ?thesis
      using True t l assms(3) by (intro exI [of _ l]) (simp add: passed_def admitted_def pin_ok_def)
  qed
qed

text \<open>Once every answer has passed, the call returns the pins, with a capability if one of them is private.\<close>

lemma preflight_name_checked:
  assumes d: "lookup h w = (DnsAddresses as, v)" "as \<noteq> []" "check_answers t hn as v = (Inr (Inr ns), w1)"
  defines "ts \<equiv> sort (uniq ns)"
  obtains l where "serves_table l v" "ts \<noteq> []" "sorted ts" "distinct ts" "list_all (pin_ok l t) ts"
    "preflight_name lookup t hn h w =
       (if list_ex (private_in l) ts then (Inr (admitted ts (Some (tw_nextRef v))), issue h ts (opened v))
        else (Inr (admitted ts None), opened v))"
proof -
  obtain l where l: "serves_table l v" "w1 = opened v" "ns \<noteq> []" "list_all (pin_ok l t) ns"
    using check_answers_ran d by blast
  have set: "set ts = set ns" by (simp add: ts_def)
  have ts: "ts \<noteq> []" "sorted ts" "distinct ts" "list_all (pin_ok l t) ts"
    using l(3,4) set by (auto simp: list_all_iff ts_def uniq_def)
  have "list_all (\<lambda>a. isIP a \<noteq> 0) ns"
    using l(4) unfolding list_all_iff pin_ok_def canonical_ip_def by blast
  then have privates: "private_addresses ns (opened v) = (Inr (filter (private_in l) ns), opened v)"
    using private_addresses_ran [of l "opened v" ns] l by simp
  have cond: "t \<and> filter (private_in l) ns \<noteq> [] \<longleftrightarrow> list_ex (private_in l) ts"
    using l(4) by (auto simp: list_ex_iff list_all_iff set filter_empty_conv pin_ok_def)
  have pins: "pins_ok l ts" if "list_ex (private_in l) ts"
    using that ts by (auto simp: pins_ok_def list_all_iff list_ex_iff pin_ok_def)
  have "preflight_name lookup t hn h w =
      (if list_ex (private_in l) ts
       then bind (issueTrustedPrivateEndpointCapability h ts) (\<lambda>r. ret (admitted ts (Some r)))
       else ret (admitted ts None)) (opened v)"
    using d l(2) privates by (simp add: preflight_name_def cond [unfolded ts_def] ts_def)
  then show thesis
    using that [OF l(1) ts] issue_canonical [OF pins, of h "opened v"] by (simp add: bind_def)
qed

lemma preflight_name_ran:
  assumes "preflight_name lookup t hn h w = (Inr r, w')" "pf_ok r"
  shows "\<exists>l v as ts. lookup h w = (DnsAddresses as, v) \<and> pf_addresses r = Some ts \<and> passed l t h ts r v w'"
proof -
  obtain as' v checked w1 where d: "lookup h w = (DnsAddresses as', v)" "as' \<noteq> []"
    "check_answers t hn as' v = (Inr checked, w1)"
    using assms by (auto simp: preflight_name_def refused_def split: prod.splits dns_answer.splits if_splits)
  obtain ns where ns: "checked = Inr ns"
  proof (cases checked)
    case (Inl r')
    then have "r = r'" using assms d by (simp add: preflight_name_def)
    then show thesis using check_answers_refused d(3) assms(2) Inl by blast
  qed (use that in blast)
  obtain l where l: "serves_table l v" "sort (uniq ns) \<noteq> []" "sorted (sort (uniq ns))" "distinct (sort (uniq ns))"
    "list_all (pin_ok l t) (sort (uniq ns))"
    "preflight_name lookup t hn h w =
       (if list_ex (private_in l) (sort (uniq ns))
        then (Inr (admitted (sort (uniq ns)) (Some (tw_nextRef v))), issue h (sort (uniq ns)) (opened v))
        else (Inr (admitted (sort (uniq ns)) None), opened v))"
    using preflight_name_checked [where lookup = lookup and h = h and w = w, OF d(1,2) d(3) [unfolded ns]] by blast
  have "pf_addresses r = Some (sort (uniq ns))" "passed l t h (sort (uniq ns)) r v w'"
    using l assms(1) by (auto simp: passed_def admitted_def simp del: sorted_sort split: if_splits)
  then show ?thesis using d(1) by blast
qed

lemma private_hostname_read:
  assumes "serves_table l w"
  shows "on_networks (cli_isPrivateHostname h) w = (Inr (private_host l h), opened w)"
proof -
  have again: "cli_load (tw_networks (opened w)) = (Inr l, tw_networks (opened w))"
    using cli_load_again [OF load_result [OF assms]] .
  have "cli_isPrivateHostname h (tw_networks w) = (Inr (private_host l h), tw_networks (opened w))"
    using load_result [OF assms] again
    by (auto simp: cli_isPrivateHostname_def cli_isPrivateIp_def Let_def private_host_def not_ip_not_private)
  then show ?thesis by (simp add: on_networks_def opened_def)
qed

lemma load_failed: "fst (cli_load n) = Inl e \<Longrightarrow> cli_load n = (Inl e, n)"
  by (auto simp: cli_load_def split: option.splits sum.splits)

lemma private_hostname_failed:
  assumes "\<nexists>l. serves_table l w"
  shows "\<exists>e. on_networks (cli_isPrivateHostname h) w = (Inl e, w)"
proof -
  obtain e where "fst (cli_load (tw_networks w)) = Inl e"
    using assms by (cases "fst (cli_load (tw_networks w))") (auto simp: serves_table_def)
  from load_failed [OF this] show ?thesis
    by (simp add: on_networks_def cli_isPrivateHostname_def Let_def)
qed

lemma private_hostname_ran:
  assumes "on_networks (cli_isPrivateHostname h) w = (Inr p, w')"
  shows "\<exists>l. serves_table l w \<and> p = private_host l h \<and> w' = opened w"
proof (cases "\<exists>l. serves_table l w")
  case True
  then obtain l where l: "serves_table l w" by blast
  then show ?thesis using private_hostname_read [OF l, of h] assms by auto
next
  case False
  then show ?thesis using private_hostname_failed [OF False, of h] assms by auto
qed

lemma endpoint_hostname_canonical:
  "normalizeEndpointHostname hn = Inr h \<Longrightarrow> isIP h \<noteq> 0 \<Longrightarrow> canonical_ip h"
  using normalized_ip(1) by (auto simp: normalizeEndpointHostname_def Let_def split: if_splits)

text \<open>The addresses behind an admitted endpoint: the literal itself, or the pins.\<close>

definition endpoint_targets :: "string \<Rightarrow> preflight_result \<Rightarrow> string list" where
  "endpoint_targets h r = (if isIP h \<noteq> 0 then [h] else nullish [] (pf_addresses r))"

lemma preflight_ran:
  assumes "assertEndpointResolvesPublic parse lookup url trusted w = (Inr r, w')" "pf_ok r"
  obtains u h hosts l0 l v where "parse url = Some u" "normalizeEndpointHostname (url_hostname u) = Inr h"
    "traverse normalizeTrustedPrivateHost trusted = Inr hosts"
    "\<not> isLoopbackHostname (url_hostname u)" "\<not> isOpenShellManagedHost (url_hostname u)"
    "serves_table l0 w" "private_host l0 (url_hostname u) \<longrightarrow> h \<in> set hosts"
    "passed l (h \<in> set hosts) h (endpoint_targets h r) r v w'"
    "if isIP h \<noteq> 0 then v = opened w \<and> pf_addresses r = Some []
     else v = snd (lookup h (opened w)) \<and> pf_addresses r \<noteq> None"
proof -
  obtain u where u: "parse url = Some u"
    using assms by (cases "parse url") (auto simp: assertEndpointResolvesPublic_def refused_def)
  obtain h hosts where h: "normalizeEndpointHostname (url_hostname u) = Inr h"
    "traverse normalizeTrustedPrivateHost trusted = Inr hosts"
    "\<not> isLoopbackHostname (url_hostname u)" "\<not> isOpenShellManagedHost (url_hostname u)"
    using assms u
    by (auto simp: assertEndpointResolvesPublic_def refused_def Let_def split: sum.splits if_splits)
  obtain p w1 where p: "on_networks (cli_isPrivateHostname (url_hostname u)) w = (Inr p, w1)"
    using assms u h by (auto simp: assertEndpointResolvesPublic_def Let_def)
  obtain l0 where l0: "serves_table l0 w" "p = private_host l0 (url_hostname u)" "w1 = opened w"
    using private_hostname_ran [OF p] by blast
  have allowed: "p \<longrightarrow> h \<in> set hosts"
    using assms u h p by (auto simp: assertEndpointResolvesPublic_def refused_def Let_def split: if_splits)
  show thesis
  proof (cases "isIP h = 0")
    case False
    then have "preflight_literal (h \<in> set hosts) (url_hostname u) h (opened w) = (Inr r, w')"
      using assms(1) u h p l0 allowed by (auto simp: assertEndpointResolvesPublic_def Let_def)
    then obtain l where "passed l (h \<in> set hosts) h [h] r (opened w) w'" "pf_addresses r = Some []"
      using preflight_literal_ran assms(2) endpoint_hostname_canonical [OF h(1) False] by blast
    then show thesis using that [OF u h l0(1)] allowed l0 False by (simp add: endpoint_targets_def)
  next
    case True
    then have "preflight_name lookup (h \<in> set hosts) (url_hostname u) h (opened w) = (Inr r, w')"
      using assms(1) u h p l0 allowed by (auto simp: assertEndpointResolvesPublic_def Let_def)
    then obtain l v as' ts where "lookup h (opened w) = (DnsAddresses as', v)" "pf_addresses r = Some ts"
      "passed l (h \<in> set hosts) h ts r v w'"
      using preflight_name_ran [OF _ assms(2)] by blast
    then show thesis using that [OF u h l0(1)] allowed l0 True by (simp add: endpoint_targets_def)
  qed
qed

section \<open>Reachable states\<close>

text \<open>
  The states that calls of the module lead to. While a preflight waits for the resolver other calls may
  run: the resolver may leave the module in any state that calls reach.
\<close>

inductive trust_reach :: "url_parser \<Rightarrow> trust_world \<Rightarrow> trust_world \<Rightarrow> bool" for parse where
  start: "trust_reach parse w w"
| pins: "trust_reach parse w v \<Longrightarrow>
     trust_reach parse w (snd (canonicalizeTrustedPrivateEndpointPins h as b v))"
| checked: "trust_reach parse w v \<Longrightarrow>
     trust_reach parse w (snd (assertTrustedPrivateEndpointCapability h as c b v))"
| replayed: "trust_reach parse w v \<Longrightarrow> trust_reach parse w (snd (replayTrustedPrivateEndpoint h as b v))"
| preflighted: "trust_reach parse w v \<Longrightarrow> (\<And>h x. trust_reach parse x (snd (lookup h x))) \<Longrightarrow>
     trust_reach parse w (snd (assertEndpointResolvesPublic parse lookup url hosts v))"
| inference: "trust_reach parse w v \<Longrightarrow> (\<And>h x. trust_reach parse x (snd (lookup h x))) \<Longrightarrow>
     trust_reach parse w (snd (inference_assertEndpointResolvesPublic parse lookup url hosts v))"

lemma traverse_origin: "traverse f xs = Inr ys \<Longrightarrow> y \<in> set ys \<Longrightarrow> \<exists>x \<in> set xs. f x = Inr y"
  by (induction xs arbitrary: ys) auto

lemma trusted_hosts_stable:
  assumes "traverse normalizeTrustedPrivateHost trusted = Inr hosts" "h \<in> set hosts"
  shows "normalizeTrustedPrivateHost h = Inr h"
proof -
  obtain raw where "normalizeTrustedPrivateHost raw = Inr h" using traverse_origin [OF assms] by blast
  then show ?thesis by (rule trusted_host_stable)
qed

lemma passed_capability:
  assumes "passed l (h \<in> set hosts) h ts r v w'" "traverse normalizeTrustedPrivateHost trusted = Inr hosts"
    "list_ex (private_in l) ts"
  shows "capability_ok l \<lparr>cap_host = h, cap_addresses = ts\<rparr>"
  using passed_pins [OF assms(1,3)] trusted_hosts_stable [OF assms(2)] by (simp add: capability_ok_def)

lemma reads_private_hostname: "reads (on_networks (cli_isPrivateHostname h))"
  unfolding reads_def
proof
  fix w
  let ?m = "on_networks (cli_isPrivateHostname h)"
  show "snd (?m w) = w \<or> snd (?m w) = opened w \<and> (\<exists>l. serves_table l w)"
  proof (cases "\<exists>l. serves_table l w")
    case True
    then obtain l where l: "serves_table l w" by blast
    then have "snd (?m w) = opened w" using private_hostname_read [OF l, of h] by simp
    then show ?thesis using l by blast
  next
    case False
    then show ?thesis using private_hostname_failed [OF False, of h] by auto
  qed
qed

text \<open>Every call keeps the invariant, whether it is admitted, refused or throws.\<close>

lemma preflight_name_grows:
  assumes "\<And>h x. grows x (snd (lookup h x))" "t \<Longrightarrow> normalizeTrustedPrivateHost h = Inr h"
  shows "grows w (snd (preflight_name lookup t hn h w))"
proof -
  obtain answer v where d: "lookup h w = (answer, v)" by (cases "lookup h w")
  have v: "grows w v" using assms(1) [of w h] d by simp
  show ?thesis
  proof (cases "\<exists>as. answer = DnsAddresses as \<and> as \<noteq> []")
    case False
    then show ?thesis using d v by (auto simp: preflight_name_def split: dns_answer.splits)
  next
    case True
    then obtain as' where answer: "answer = DnsAddresses as'" "as' \<noteq> []" by blast
    obtain c w1 where c: "check_answers t hn as' v = (c, w1)" by (cases "check_answers t hn as' v")
    have w1: "grows v w1" using reads_grows [OF reads_check_answers, of v t hn as'] c by simp
    show ?thesis
    proof (cases "\<exists>ns. c = Inr (Inr ns)")
      case False
      then have "snd (preflight_name lookup t hn h w) = w1"
        using d answer c by (cases c) (auto simp: preflight_name_def bind_def split: sum.splits)
      then show ?thesis using grows_trans [OF v w1] by simp
    next
      case True
      then obtain ns where ns: "c = Inr (Inr ns)" by blast
      let ?ts = "sort (uniq ns)"
      obtain l where l: "serves_table l v" "sorted ?ts" "distinct ?ts" "list_all (pin_ok l t) ?ts" "?ts \<noteq> []"
        "preflight_name lookup t hn h w =
           (if list_ex (private_in l) ?ts then (Inr (admitted ?ts (Some (tw_nextRef v))), issue h ?ts (opened v))
            else (Inr (admitted ?ts None), opened v))"
        using preflight_name_checked [where lookup = lookup and h = h and w = w, OF d [unfolded answer(1)] answer(2) c [unfolded ns]] by blast
      have "grows v (snd (preflight_name lookup t hn h w))"
      proof (cases "list_ex (private_in l) ?ts")
        case False
        then show ?thesis using l(6) by simp
      next
        case True
        then have "t" "pins_ok l ?ts"
          using l(4) l(2,3,5) by (auto simp: pins_ok_def list_all_iff list_ex_iff pin_ok_def simp del: sorted_sort)
        then show ?thesis
          using l(6) True grows_issue [OF l(1), of h ?ts] assms(2) by (simp add: capability_ok_def)
      qed
      then show ?thesis using grows_trans [OF v] by blast
    qed
  qed
qed

lemma preflight_literal_grows:
  assumes "canonical_ip h"
  shows "grows w (snd (preflight_literal t hn h w))"
proof -
  obtain x w1 where x: "isPrivateIp h w = (x, w1)" by (cases "isPrivateIp h w")
  then have w1: "grows w w1" using reads_grows [OF reads_isPrivateIp, of w h] by simp
  show ?thesis
  proof (cases "x = Inr True \<and> t \<and> isOperatorTrustablePrivateIp h")
    case False
    then have "snd (preflight_literal t hn h w) = w1"
      using x by (cases x) (auto simp: preflight_literal_def bind_def)
    then show ?thesis using w1 by simp
  next
    case True
    then obtain l where l: "serves_table l w" "w1 = opened w"
      using private_ip_ran [of h w True w1] x assms by (auto simp: canonical_ip_def)
    have pins: "pins_ok l [h]" using assms True by (simp add: pins_ok_def pin_ok_def)
    then have "snd (preflight_literal t hn h w) = issue h [h] (opened w)"
      using x l(2) True issue_canonical [OF pins] by (simp add: preflight_literal_def bind_def)
    then show ?thesis
      using grows_issue [OF l(1), of h "[h]"] pins canonical_ip_trusted [OF assms] by (simp add: capability_ok_def)
  qed
qed

lemma preflight_grows:
  assumes "\<And>h x. grows x (snd (lookup h x))"
  shows "grows w (snd (assertEndpointResolvesPublic parse lookup url trusted w))"
proof (cases "parse url")
  case None
  then show ?thesis by (simp add: assertEndpointResolvesPublic_def)
next
  case (Some u)
  let ?hn = "url_hostname u"
  consider "snd (assertEndpointResolvesPublic parse lookup url trusted w) = w"
    | h hosts where "normalizeEndpointHostname ?hn = Inr h" "traverse normalizeTrustedPrivateHost trusted = Inr hosts"
      "\<not> (isLoopbackHostname ?hn \<or> isOpenShellManagedHost ?hn)"
    using Some
    by (cases "normalizeEndpointHostname ?hn"; cases "traverse normalizeTrustedPrivateHost trusted";
        cases "isLoopbackHostname ?hn \<or> isOpenShellManagedHost ?hn")
      (auto simp: assertEndpointResolvesPublic_def bind_def Let_def)
  then show ?thesis
  proof cases
    case 1
    then show ?thesis by simp
  next
    case (2 h hosts)
    obtain x w1 where x: "on_networks (cli_isPrivateHostname ?hn) w = (x, w1)"
      by (cases "on_networks (cli_isPrivateHostname ?hn) w")
    have w1: "grows w w1" using reads_grows [OF reads_private_hostname, of w ?hn] x by simp
    consider "snd (assertEndpointResolvesPublic parse lookup url trusted w) = w1"
      | "isIP h \<noteq> 0" "snd (assertEndpointResolvesPublic parse lookup url trusted w)
            = snd (preflight_literal (h \<in> set hosts) ?hn h w1)"
      | "snd (assertEndpointResolvesPublic parse lookup url trusted w)
            = snd (preflight_name lookup (h \<in> set hosts) ?hn h w1)"
      using Some 2 x
      by (cases x; cases "x = Inr True \<and> h \<notin> set hosts"; cases "isIP h = 0")
        (auto simp: assertEndpointResolvesPublic_def bind_def Let_def)
    then show ?thesis
    proof cases
      case 1
      then show ?thesis using w1 by simp
    next
      case literal: 2
      then show ?thesis
        using grows_trans [OF w1] preflight_literal_grows endpoint_hostname_canonical [OF 2(1)]
        by simp
    next
      case 3
      then show ?thesis using grows_trans [OF w1] preflight_name_grows [OF assms trusted_hosts_stable [OF 2(2)]] by simp
    qed
  qed
qed

lemma inference_grows:
  assumes "\<And>h x. grows x (snd (lookup h x))"
  shows "grows w (snd (inference_assertEndpointResolvesPublic parse lookup url trusted w))"
  using preflight_grows [OF assms]
  by (auto simp: inference_assertEndpointResolvesPublic_def split: option.splits)

text \<open>
  The contract every call of the module keeps, and what its clients get from it: the capabilities that
  were issued stay issued, with the same host and addresses.
\<close>

locale trust_call =
  fixes call :: "trust_world \<Rightarrow> 'r \<times> trust_world"
  assumes call_grows: "grows w (snd (call w))"
begin

lemma call_after: "grows w v \<Longrightarrow> grows w (snd (call v))"
  using grows_trans call_grows by blast

lemma call_keeps_capability:
  "trust_ok w \<Longrightarrow> issued_capability w c = Some x \<Longrightarrow> issued_capability (snd (call w)) c = Some x"
  using call_grows [of w] by (auto simp: grows_def intro: issued_extends)

end

interpretation pins_call: trust_call "canonicalizeTrustedPrivateEndpointPins h as b" for h "as" b
  by unfold_locales (rule reads_grows [OF reads_canonicalize])

interpretation check_call: trust_call "assertTrustedPrivateEndpointCapability h as c b" for h "as" c b
  by unfold_locales (rule reads_grows [OF reads_assert])

interpretation replay_call: trust_call "replayTrustedPrivateEndpoint h as b" for h "as" b
  by unfold_locales (rule replay_grows)

lemma reach_grows: "trust_reach parse w w' \<Longrightarrow> grows w w'"
proof (induction rule: trust_reach.induct)
  case (preflighted w v lookup url hosts)
  then show ?case using grows_trans preflight_grows [of lookup v parse url hosts] by blast
next
  case (inference w v lookup url hosts)
  then show ?case using grows_trans inference_grows [of lookup v parse url hosts] by blast
qed (simp_all add: pins_call.call_after check_call.call_after replay_call.call_after)

lemma reached_ok: "trust_reach parse w w' \<Longrightarrow> tw_issued w = [] \<Longrightarrow> trust_ok w'"
  using reach_grows [of parse w w'] by (simp add: grows_def trust_ok_def)

end
