(* ===== verification/Trust_Tables.thy ===== *)
theory Trust_Tables
  imports Trust_Preflight
begin

text \<open>
  What the two further address tables denote: the networks an operator can trust, over the octets and
  groups of an address, and the targets refused to MCP servers, which are those of the shipped table.
\<close>

section \<open>Networks an operator can trust\<close>

definition trustable_ipv4 :: "nat \<Rightarrow> bool" where
  "trustable_ipv4 v =
     (let a = octet_of v 3; b = octet_of v 2 in
      a = 10 \<or> a = 100 \<and> 64 \<le> b \<and> b < 128 \<or> a = 172 \<and> 16 \<le> b \<and> b < 32 \<or> a = 192 \<and> b = 168)"

definition trustable_ip :: "ip \<Rightarrow> bool" where
  "trustable_ip a =
     (case a of
        IPv4 w \<Rightarrow> trustable_ipv4 (unat w)
      | IPv6 w \<Rightarrow> 0xfc00 \<le> hextet_of (unat w) 7 \<and> hextet_of (unat w) 7 < 0xfe00
                  \<or> unat w div 2 ^ 32 = 0xFFFF \<and> trustable_ipv4 (unat w mod 2 ^ 32))"

definition trustable_rules4 :: "(32 word \<times> nat) list" where
  "trustable_rules4 = [(0x0A000000, 8), (0x64400000, 10), (0xAC100000, 12), (0xC0A80000, 16)]"

lemma trustable_blocks:
  "OPERATOR_TRUSTABLE_PRIVATE_NETWORKS =
     map (\<lambda>(n, q). (ip_word (IPv4 n), 96 + q)) trustable_rules4 @ [(0xfc000000000000000000000000000000, 7)]"
  by (simp add: OPERATOR_TRUSTABLE_PRIVATE_NETWORKS_def subnets_def shipped_ipv4_literals shipped_ipv6_literals
      addSubnet_def trustable_rules4_def) (simp add: ip_word_def)

lemma trustable_rules4_exact:
  assumes "r < 2 ^ 32"
  shows "list_ex (\<lambda>(n, q). r div 2 ^ (32 - q) = unat n div 2 ^ (32 - q)) trustable_rules4 \<longleftrightarrow> trustable_ipv4 r"
proof -
  define a b c where abc: "a = octet_of r 3" "b = octet_of r 2" "c = octet_of r 1"
  note oct = octets_split [OF assms, folded abc]
  have d: "r div 2 ^ 20 = (a * 256 + b) div 16" "r div 2 ^ 22 = (a * 256 + b) div 64"
    unfolding oct(5) [symmetric] by (simp_all flip: div_mult2_eq)
  have e: "(a * 256 + b) div 64 = 401 \<longleftrightarrow> a = 100 \<and> 64 \<le> b \<and> b < 128"
    "(a * 256 + b) div 16 = 2753 \<longleftrightarrow> a = 172 \<and> 16 \<le> b \<and> b < 32"
    using prefix_digit [of 4 64 256 b 1 a 100] prefix_digit [of 16 16 256 b 1 a 172] oct(2) by simp_all
  have g: "a * 256 + b = 49320 \<longleftrightarrow> a = 192 \<and> b = 168"
    using digits_unique [of b 256 168 a 192] oct(2) by simp
  show ?thesis
    unfolding trustable_ipv4_def abc [symmetric] Let_def
    by (simp add: trustable_rules4_def d [simplified] oct(4-5) [simplified] g [simplified] e)
qed

lemma trustable_exact: "block_check OPERATOR_TRUSTABLE_PRIVATE_NETWORKS a \<longleftrightarrow> trustable_ip a"
proof -
  let ?v = "unat (ip_word a)"
  have "list_all (\<lambda>(n, q). q \<le> 32) trustable_rules4" by (simp add: trustable_rules4_def)
  then have "list_ex (in_subnet (ip_word a) \<circ> (\<lambda>(n, q). (ip_word (IPv4 n), 96 + q))) trustable_rules4
    \<longleftrightarrow> list_ex (\<lambda>(n, q). ?v div 2 ^ 32 = 0xFFFF \<and> ?v mod 2 ^ 32 div 2 ^ (32 - q) = unat n div 2 ^ (32 - q))
          trustable_rules4"
    by (intro list_ex_cong) (auto simp: list_all_iff in_subnet_v4 del: split_paired_All)
  also have "\<dots> \<longleftrightarrow> ?v div 2 ^ 32 = 0xFFFF \<and> trustable_ipv4 (?v mod 2 ^ 32)"
    by (subst trustable_rules4_exact [symmetric]) (auto simp: list_ex_iff)
  finally have v4: "list_ex (in_subnet (ip_word a)) (map (\<lambda>(n, q). (ip_word (IPv4 n), 96 + q)) trustable_rules4)
    \<longleftrightarrow> ?v div 2 ^ 32 = 0xFFFF \<and> trustable_ipv4 (?v mod 2 ^ 32)"
    by (simp only: list_ex_iff set_map bex_simps comp_def)
  have top: "?v div 2 ^ 112 = hextet_of ?v 7"
    using hextets_split(7) [of ?v] unsigned_less [of "ip_word a", where 'a = nat] by simp
  have "?v div 2 ^ 121 = hextet_of ?v 7 div 512"
    unfolding top [symmetric] by (simp flip: div_mult2_eq)
  moreover have "hextet_of ?v 7 div 512 = 126 \<longleftrightarrow> 0xfc00 \<le> hextet_of ?v 7 \<and> hextet_of ?v 7 < 0xfe00"
    by (simp add: div_range)
  ultimately have v6: "in_subnet (ip_word a) (0xfc000000000000000000000000000000, 7) \<longleftrightarrow>
      0xfc00 \<le> hextet_of ?v 7 \<and> hextet_of ?v 7 < 0xfe00"
    by (simp add: in_subnet_div)
  have all: "block_check OPERATOR_TRUSTABLE_PRIVATE_NETWORKS a \<longleftrightarrow>
      ?v div 2 ^ 32 = 0xFFFF \<and> trustable_ipv4 (?v mod 2 ^ 32) \<or> 0xfc00 \<le> hextet_of ?v 7 \<and> hextet_of ?v 7 < 0xfe00"
    unfolding block_check_def trustable_blocks list_ex_append v4 by (simp add: v6)
  show ?thesis
  proof (cases a)
    case (IPv4 w)
    have w: "unat w < 2 ^ 32" using unsigned_less [of w, where 'a = nat] by simp
    have v: "?v = 0xFFFF * 2 ^ 32 + unat w" by (simp only: IPv4 ip_word_v4)
    have D: "?v div 2 ^ 32 = 0xFFFF" using w by (simp add: v)
    have M: "?v mod 2 ^ 32 = unat w" using w by (simp only: v mod_mult_self3 mod_less)
    have "?v div 2 ^ 112 = 0" using w by (simp add: v)
    then have "hextet_of ?v 7 = 0" using top by simp
    then show ?thesis using all unfolding D M by (simp add: IPv4 trustable_ip_def)
  next
    case (IPv6 w)
    then show ?thesis using all by (auto simp: trustable_ip_def ip_word_def)
  qed
qed

lemma trustable_address:
  "isOperatorTrustablePrivateIp s \<longleftrightarrow> (\<exists>a. parse_ip s = Some a \<and> trustable_ip a)"
  by (auto simp: isOperatorTrustablePrivateIp_def isPrivateIpInBlockList_def trustable_exact isIP_def
      split: option.splits ip.splits)

lemma trustable_reserved: "trustable_ip a \<Longrightarrow> reserved_ip a"
proof (cases a)
  case (IPv4 w)
  then show "trustable_ip a \<Longrightarrow> reserved_ip a"
    by (auto simp: trustable_ip_def reserved_ip_def trustable_ipv4_def reserved_ipv4_def Let_def)
next
  case (IPv6 w)
  assume t: "trustable_ip a"
  consider "0xfc00 \<le> hextet_of (unat w) 7" "hextet_of (unat w) 7 < 0xfe00"
    | "unat w div 2 ^ 32 = 0xFFFF" "trustable_ipv4 (unat w mod 2 ^ 32)"
    using t by (auto simp: IPv6 trustable_ip_def)
  then show "reserved_ip a"
  proof cases
    case 1
    then show ?thesis by (simp add: IPv6 reserved_ip_def reserved_ipv6_def Let_def)
  next
    case 2
    have "reserved_ipv4 (unat w mod 2 ^ 32)"
      using 2(2) by (auto simp: trustable_ipv4_def reserved_ipv4_def Let_def)
    moreover have "unat w = 0xFFFF * 2 ^ 32 + unat w mod 2 ^ 32"
      using 2(1) div_mult_mod_eq [of "unat w" "2 ^ 32"] by simp
    ultimately show ?thesis
      using reserved_mapped [of "unat w mod 2 ^ 32"] by (simp add: IPv6 reserved_ip_def)
  qed
qed

section \<open>Targets of MCP servers\<close>

lemma mcp_blocks: "blockedMcpTargets = shipped_blocks"
  by (simp add: blockedMcpTargets_def subnets_def mcp_ipv4_targets_def mcp_ipv6_targets_def
      shipped_ipv4_literals shipped_ipv6_literals addSubnet_def shipped_blocks_def shipped_rules4_def
      shipped_rules6_def) (simp add: ip_word_def)

lemma canonical_ip_text:
  assumes "canonical_ip a"
  shows "list_all (\<lambda>c. is_lower_hex c \<or> c = CHR '':'' \<or> c = CHR ''.'') a"
proof -
  obtain ip where ip: "parse_ip a = Some ip" using assms unfolding canonical_ip_def isIP_nonzero by blast
  show ?thesis
  proof (cases ip)
    case (IPv4 w)
    then show ?thesis using ipv4_text(1) ip by (fastforce simp: list_all_iff is_lower_hex_def)
  next
    case (IPv6 w)
    then have "a = ipv6_text w"
      using assms ip by (auto simp: canonical_ip_def normalizeIpLiteral_def split: if_splits)
    then show ?thesis using ipv6_text_chars [of w] by (auto simp: list_all_iff text_char_def)
  qed
qed

lemma reserved_name_chars: "reserved_name h names \<Longrightarrow> \<exists>r \<in> set names. set r \<subseteq> set h"
proof -
  assume "reserved_name h names"
  then obtain r where r: "r \<in> set names" "h = r \<or> ends_with (CHR ''.'' # r) h"
    by (auto simp: reserved_name_def list_ex_iff)
  then have "set r \<subseteq> set h"
    using set_drop_subset [of "length h - length (CHR ''.'' # r)" h] by (auto simp: ends_with_def)
  then show ?thesis using r(1) by blast
qed

text \<open>A canonical literal is neither a reserved name nor an alias, and both guards leave it as it is.\<close>

lemma literal_normal:
  assumes "canonical_ip a"
  shows "normalizeMcpHostname a = a" "normalise_name (strip_brackets a) = a"
proof -
  have hosts: "list_all host_char a" using assms by (simp add: canonical_ip_def)
  have ends: "a \<noteq> []" "hd a \<noteq> CHR ''[''" "last a \<noteq> CHR '']''" "last a \<noteq> CHR ''.''"
    using canonical_ends [OF assms] hosts host_char_excludes(3) by (auto simp: list_all_iff)
  show "normalizeMcpHostname a = a"
    using ends by (simp add: normalizeMcpHostname_def Let_def toLower_host [OF hosts] starts_with_hd ends_with_last)
  show "normalise_name (strip_brackets a) = a"
    using ends normalise_host [OF hosts] by (simp add: strip_brackets_def starts_with_hd ends_with_last)
qed

lemma literal_is_no_name:
  assumes "canonical_ip a"
  shows "\<not> reserved_name a shipped_reserved" "\<not> isOpenShellMcpHostAlias a"
proof -
  have letters: "CHR ''t'' \<notin> set a" "CHR ''l'' \<notin> set a" "CHR ''n'' \<notin> set a"
    using canonical_ip_text [OF assms] by (auto simp: list_all_iff is_lower_hex_def is_digit_def code_def)
  show "\<not> isOpenShellMcpHostAlias a"
    using letters(1) by (auto simp: isOpenShellMcpHostAlias_def literal_normal [OF assms] OPENSHELL_HOST_ALIASES_def)
  show "\<not> reserved_name a shipped_reserved"
    using reserved_name_chars [of a shipped_reserved] letters by (auto simp: shipped_reserved_def)
qed

lemma mcp_literal:
  assumes "canonical_ip a"
  shows "isBlockedMcpUrlTargetHost a \<longleftrightarrow>
           starts_with ''::ffff:'' a \<or> isPrivateIpInBlockList a shipped_blocks"
  using literal_is_no_name [OF assms]
  by (simp add: isBlockedMcpUrlTargetHost_def literal_normal [OF assms] mcp_blocks Let_def isReservedMcpName_def
      RESERVED_HOST_NAMES_def shipped_reserved_def)

text \<open>The IPv4-mapped addresses are written with the prefix that the guard refuses.\<close>

lemma mapped_text:
  assumes "unat w div 2 ^ 32 = 0xFFFF"
  shows "starts_with ''::ffff:'' (ipv6_text w)"
proof -
  have "unat w div 65536 ^ (k + 2) = 0xFFFF div 65536 ^ k" for k
  proof -
    have "(65536 :: nat) ^ (k + 2) = 2 ^ 32 * 65536 ^ k" by (simp add: power_add)
    then show ?thesis using assms by (simp only: div_mult2_eq)
  qed
  from this [of 0] this [of 1] this [of 2] this [of 3] this [of 4] this [of 5]
  obtain x y where p: "pieces w = [0, 0, 0, 0, 0, 65535, x, y]" by (simp add: pieces_def)
  have "hex_text 65535 = ''ffff''" by (simp add: hex_text.simps)
  then show ?thesis
    by (cases x; cases y) (simp_all add: ipv6_text_def p pieces_text_def zero_run_def colon_text_def starts_with_def)
qed

end
