(* ===== verification/Mcp_Bridge_Url.thy ===== *)
theory Mcp_Bridge_Url
  imports Trusted_Endpoint
begin

text \<open>
  URLs of MCP servers (\<open>src/lib/actions/sandbox/mcp-bridge-url-validation.ts\<close>): the normal form of a
  server URL, the preflight that pins the addresses of its host, the comparison of recorded pins with
  the current answers, and the revalidation of a URL against a target that was pinned before. The token
  patterns are those of \<open>src/lib/security/secret-patterns.ts\<close>, as \<open>test\<close> uses them here.

  The URL parser, the setter of a URL's path and the DNS resolver are arguments.
\<close>

section \<open>Secret-shaped path segments\<close>

text \<open>
  A token pattern is a sequence of literal texts and runs of characters of a class. A pattern that ends
  in \<open>{n,}\<close> matches somewhere exactly if it does with a last run of \<open>n\<close> characters.
\<close>

datatype pattern_piece = Text string | Chars "char \<Rightarrow> bool" nat nat

fun match_here :: "pattern_piece list \<Rightarrow> string \<Rightarrow> bool" where
  "match_here [] s = True"
| "match_here (Text p # ps) s = (starts_with p s \<and> match_here ps (drop (length p) s))"
| "match_here (Chars ok lo hi # ps) s =
     list_ex (\<lambda>k. k \<le> length s \<and> list_all ok (take k s) \<and> match_here ps (drop k s)) [lo ..< Suc hi]"

fun token_test :: "pattern_piece list \<Rightarrow> string \<Rightarrow> bool" where
  "token_test ps [] = match_here ps []"
| "token_test ps (c # s) = (match_here ps (c # s) \<or> token_test ps s)"

definition letter_or_digit :: "char \<Rightarrow> bool" where
  "letter_or_digit c = (is_lower c \<or> is_upper c \<or> is_digit c)"

definition word_char :: "char \<Rightarrow> bool" where
  "word_char c = (letter_or_digit c \<or> c = CHR ''_'')"

definition token_char :: "char \<Rightarrow> bool" where
  "token_char c = (word_char c \<or> c = CHR ''-'')"

definition prefixed :: "string \<Rightarrow> (char \<Rightarrow> bool) \<Rightarrow> nat \<Rightarrow> pattern_piece list" where
  "prefixed p ok n = [Text p, Chars ok n n]"

definition TOKEN_PREFIX_PATTERNS :: "pattern_piece list list" where
  "TOKEN_PREFIX_PATTERNS =
     [prefixed ''nvapi-'' token_char 10, prefixed ''nvcf-'' token_char 10, prefixed ''ghp_'' token_char 10,
      prefixed ''github_pat_'' word_char 30, prefixed ''sk-proj-'' token_char 10,
      prefixed ''sk-ant-'' token_char 10, prefixed ''sk-'' token_char 20,
      [Text ''xox'', Chars (\<lambda>c. c \<in> set ''bpas'') 1 1, Text ''-'',
       Chars (\<lambda>c. letter_or_digit c \<or> c = CHR ''-'') 10 10],
      prefixed ''xapp-'' (\<lambda>c. letter_or_digit c \<or> c = CHR ''-'') 10,
      [Text ''A'', Chars (\<lambda>c. c \<in> set ''KS'') 1 1, Text ''IA'', Chars (\<lambda>c. is_upper c \<or> is_digit c) 16 16],
      prefixed ''hf_'' letter_or_digit 10, prefixed ''glpat-'' token_char 10, prefixed ''gsk_'' letter_or_digit 10,
      prefixed ''pypi-'' token_char 10,
      [Text ''bot'', Chars is_digit 8 10, Text '':'', Chars token_char 35 35],
      [Chars is_digit 8 10, Text '':'', Chars token_char 35 35],
      [Chars letter_or_digit 24 24, Text ''.'', Chars token_char 6 6, Text ''.'', Chars token_char 27 27],
      prefixed ''tvly-'' token_char 10,
      prefixed ''lsv2_pt_'' letter_or_digit 10, prefixed ''lsv2_sk_'' letter_or_digit 10]"

definition hasSecretShapedMcpPathSegment :: "string \<Rightarrow> bool" where
  "hasSecretShapedMcpPathSegment pathname =
     list_ex (\<lambda>segment. segment \<noteq> [] \<and> list_ex (\<lambda>p. token_test p segment) TOKEN_PREFIX_PATTERNS)
       (split_on CHR ''/'' pathname)"

section \<open>Errors and URLs\<close>

text \<open>
  Each constructor is one \<open>throw\<close>; \<open>EndpointError\<close> and \<open>UrlError\<close> are errors of called code that are not
  \<open>McpBridgeError\<close>s.
\<close>

datatype bridge_error =
    UrlTooLong | BadMcpUrl string | UrlNotHttps | UrlWithoutHost | UrlHostNotLiteral
  | UrlIpv6Literal | UrlCredentialsEmbedded | UrlWithQuery | UrlWithFragment | UrlPortZero
  | UrlPathNotLiteral | UrlPathSecret | UrlHostAlias string | UrlLoopback string | UrlTargetBlocked string
  | UrlTrailingDot | UrlNotCanonicalDns | UrlTooLongNormalized
  | TargetPrivateAnswer string string | TargetFailed "preflight_reason option" "reason_code option"
  | TargetWithoutAddress string | TargetAuthorityInexact string | TrustUnused string
  | PinsNotCanonical | PublicPinBlocked | AuthorityIncomplete | AuthorityMismatch | TargetHostDiffers string string
  | EndpointError trust_error | UrlError

definition bridge_reasonCode :: "bridge_error \<Rightarrow> reason_code option" where
  "bridge_reasonCode e =
     (case e of
        TargetPrivateAnswer _ _ \<Rightarrow> Some Rejected
      | TargetFailed _ c \<Rightarrow> Some (if c = Some Unresolved then Unresolved else Rejected)
      | TargetWithoutAddress _ \<Rightarrow> Some Unresolved
      | _ \<Rightarrow> None)"

record parsed_url = url +
  pu_href :: string

record bridge_platform =
  bp_parse :: "string \<Rightarrow> parsed_url option"
  bp_withPathname :: "parsed_url \<Rightarrow> string \<Rightarrow> parsed_url"
  bp_lookup :: dns_resolver

definition bp_parseUrl :: "bridge_platform \<Rightarrow> url_parser" where
  "bp_parseUrl p s = map_option url.truncate (bp_parse p s)"

type_synonym 'a bridge = "(bridge_error, trust_world, 'a) eff"

definition endpoint_call :: "'a trust \<Rightarrow> 'a bridge" where
  "endpoint_call m w =
     (case m w of (Inl e, w') \<Rightarrow> (Inl (EndpointError e), w') | (Inr a, w') \<Rightarrow> (Inr a, w'))"

definition trusted_hosts :: "string list \<Rightarrow> bridge_error + string list" where
  "trusted_hosts hosts =
     (case traverse normalizeTrustedPrivateHost hosts of Inl e \<Rightarrow> Inl (EndpointError e) | Inr hs \<Rightarrow> Inr hs)"

section \<open>The normal form of a server URL\<close>

definition MCP_DNS_LABEL_RE :: "string \<Rightarrow> bool" where
  "MCP_DNS_LABEL_RE s = (length s \<le> 63 \<and> dns_label s)"

definition validateCanonicalMcpDnsHostname :: "string \<Rightarrow> bridge_error + unit" where
  "validateCanonicalMcpDnsHostname hostname =
     ensure UrlNotCanonicalDns (length hostname \<le> 253 \<and> list_all MCP_DNS_LABEL_RE (split_on CHR ''.'' hostname))"

definition rejectUnsupportedOpenShellMcpHostAlias :: "string \<Rightarrow> bridge_error + unit" where
  "rejectUnsupportedOpenShellMcpHostAlias hostname =
     ensure (UrlHostAlias hostname) (\<not> isOpenShellMcpHostAlias hostname)"

definition rejectUnsupportedOpenShellMcpIpv6Literal :: "string \<Rightarrow> bridge_error + unit" where
  "rejectUnsupportedOpenShellMcpIpv6Literal hostname =
     ensure UrlIpv6Literal (\<not> (starts_with ''['' hostname \<and> ends_with '']'' hostname))"

definition validateMcpServerUrlTarget :: "parsed_url \<Rightarrow> string list \<Rightarrow> bridge_error + unit" where
  "validateMcpServerUrlTarget parsed trustedPrivateHosts =
     ensure (UrlTargetBlocked (url_hostname parsed))
       (\<not> (isBlockedMcpUrlTargetHost (url_hostname parsed)
            \<and> toLower (url_hostname parsed) \<notin> set trustedPrivateHosts))"

definition path_not_literal :: "string \<Rightarrow> parsed_url \<Rightarrow> bool" where
  "path_not_literal rawUrl parsed =
     (\<not> free_of CHR ''%'' rawUrl \<or> \<not> free_of CHR ''%'' (url_pathname parsed) \<or> \<not> free_of (CHR 92) rawUrl
      \<or> contains ''//'' (url_pathname parsed) \<or> list_ex (\<lambda>c. c \<in> set ''*[]{};'') (url_pathname parsed))"

definition normalizeMcpServerUrl :: "bridge_platform \<Rightarrow> string \<Rightarrow> string list \<Rightarrow> bridge_error + string" where
  "normalizeMcpServerUrl p rawUrl trustedPrivateHosts =
     (if MCP_SERVER_URL_MAX_LENGTH < length rawUrl then Inl UrlTooLong
      else case bp_parse p rawUrl of
        None \<Rightarrow> Inl (BadMcpUrl rawUrl)
      | Some parsed \<Rightarrow>
          let hostname = url_hostname parsed in
          andThen (ensure UrlNotHttps (url_protocol parsed = ''https:'')) (\<lambda>_.
          andThen (ensure UrlWithoutHost (hostname \<noteq> [])) (\<lambda>_.
          andThen (ensure UrlHostNotLiteral (\<not> list_ex (\<lambda>c. c \<in> set ''*{};'') hostname)) (\<lambda>_.
          andThen (rejectUnsupportedOpenShellMcpIpv6Literal hostname) (\<lambda>_.
          andThen (ensure UrlCredentialsEmbedded (url_username parsed = [] \<and> url_password parsed = [])) (\<lambda>_.
          andThen (ensure UrlWithQuery (free_of CHR ''?'' rawUrl \<and> url_search parsed = [])) (\<lambda>_.
          andThen (ensure UrlWithFragment (free_of CHR ''#'' rawUrl \<and> url_hash parsed = [])) (\<lambda>_.
          andThen (ensure UrlPortZero (url_port parsed \<noteq> ''0'')) (\<lambda>_.
          andThen (ensure UrlPathNotLiteral (\<not> path_not_literal rawUrl parsed)) (\<lambda>_.
          andThen (ensure UrlPathSecret (\<not> hasSecretShapedMcpPathSegment (url_pathname parsed))) (\<lambda>_.
          andThen (rejectUnsupportedOpenShellMcpHostAlias hostname) (\<lambda>_.
          andThen (trusted_hosts trustedPrivateHosts) (\<lambda>hosts.
          andThen (ensure (UrlLoopback hostname) (\<not> (toLower hostname \<in> set hosts \<and> isLoopbackHostname hostname))) (\<lambda>_.
          andThen (validateMcpServerUrlTarget parsed hosts) (\<lambda>_.
          andThen (ensure UrlTrailingDot (\<not> ends_with ''.'' hostname)) (\<lambda>_.
          andThen (validateCanonicalMcpDnsHostname hostname) (\<lambda>_.
            let normalized = pu_href (if url_pathname parsed = [] then bp_withPathname p parsed ''/'' else parsed)
            in andThen (ensure UrlTooLongNormalized (length normalized \<le> MCP_SERVER_URL_MAX_LENGTH)) (\<lambda>_. Inr normalized))))))))))))))))))"

section \<open>Pinning a target\<close>

record target_validation =
  tv_addresses :: "string list"
  tv_trustedPrivateCapability :: "nat option"
  tv_trustedPrivateHost :: "string option"

text \<open>\<open>/^\d{1,3}(?:\.\d{1,3}){3}$/\<close>\<close>

definition literal_ipv4_shape :: "string \<Rightarrow> bool" where
  "literal_ipv4_shape s =
     (let parts = split_on CHR ''.'' s
      in length parts = 4 \<and> list_all (\<lambda>p. p \<noteq> [] \<and> length p \<le> 3 \<and> list_all is_digit p) parts)"

definition pinned_targets :: "parsed_url \<Rightarrow> preflight_result \<Rightarrow> string list" where
  "pinned_targets parsed result =
     sort (map toLower (filter (\<lambda>a. a \<noteq> []) (uniq
       (case pf_addresses result of
          Some (a # as) \<Rightarrow> a # as
        | _ \<Rightarrow> if literal_ipv4_shape (url_hostname parsed) then [url_hostname parsed] else []))))"

definition refuse_target :: "parsed_url \<Rightarrow> preflight_result \<Rightarrow> bridge_error" where
  "refuse_target parsed result =
     (if pf_reasonCode result = Some PrivateAnswer \<and> truthy (pf_offendingAddress result)
      then TargetPrivateAnswer (url_hostname parsed) (nullish [] (pf_offendingAddress result))
      else TargetFailed (pf_reason result) (pf_reasonCode result))"

text \<open>The exact authority of a private target; every failure becomes one error.\<close>

definition private_authority ::
  "bridge_error \<Rightarrow> string \<Rightarrow> string list \<Rightarrow> capability_value \<Rightarrow> endpoint_replay bridge" where
  "private_authority e host addresses capability w =
     (case assertTrustedPrivateEndpointCapability host (map JStr addresses) capability True w of
        (Inl _, w') \<Rightarrow> (Inl e, w')
      | (Inr authority, w') \<Rightarrow> (Inr authority, w'))"

definition capability_argument :: "nat option \<Rightarrow> capability_value" where
  "capability_argument c = (case c of None \<Rightarrow> NoObject | Some r \<Rightarrow> CapabilityObject r)"

definition preflightMcpServerUrlResolvedTarget ::
  "bridge_platform \<Rightarrow> parsed_url \<Rightarrow> string list \<Rightarrow> bool \<Rightarrow> target_validation bridge" where
  "preflightMcpServerUrlResolvedTarget p parsed trustedPrivateHosts requireTrustedPrivateEndpoint =
     (let hostname = url_hostname parsed in
      bind (lift_res (rejectUnsupportedOpenShellMcpIpv6Literal hostname)) (\<lambda>_.
      bind (lift_res (rejectUnsupportedOpenShellMcpHostAlias hostname)) (\<lambda>_.
      bind (lift_res (trusted_hosts trustedPrivateHosts)) (\<lambda>hosts.
      bind (lift_res (if isBlockedMcpUrlTargetHost hostname then validateMcpServerUrlTarget parsed hosts
                      else Inr ())) (\<lambda>_.
      bind (endpoint_call (assertEndpointResolvesPublic (bp_parseUrl p) (bp_lookup p) (pu_href parsed) hosts)) (\<lambda>result.
        if \<not> pf_ok result then throw (refuse_target parsed result)
        else let addresses = pinned_targets parsed result in
          if addresses = [] then throw (TargetWithoutAddress hostname)
          else bind (endpoint_call (lift_res (normalizeTrustedPrivateHost hostname))) (\<lambda>normalizedHostname.
            if pf_trustedPrivateEndpoint result then
              bind (private_authority (TargetAuthorityInexact normalizedHostname) normalizedHostname addresses
                      (capability_argument (pf_trustedPrivateCapability result))) (\<lambda>authority.
                ret \<lparr>tv_addresses = ep_addresses authority,
                     tv_trustedPrivateCapability = pf_trustedPrivateCapability result,
                     tv_trustedPrivateHost = Some (ep_host authority)\<rparr>)
            else if normalizedHostname \<in> set hosts \<and> requireTrustedPrivateEndpoint
            then throw (TrustUnused normalizedHostname)
            else ret \<lparr>tv_addresses = addresses, tv_trustedPrivateCapability = None,
                      tv_trustedPrivateHost = None\<rparr>)))))))"

section \<open>Recorded pins\<close>

datatype pin_state = PinsMatch | PinsDrift | PinsUnresolved

datatype pin_detail = AnswersDiffer | PreflightError bridge_error

record recorded_pin_status =
  rp_state :: pin_state
  rp_currentAddresses :: "string list option"
  rp_detail :: "pin_detail option"

definition inspectMcpRecordedTargetPins ::
  "bridge_platform \<Rightarrow> parsed_url \<Rightarrow> string \<Rightarrow> string list \<Rightarrow> recorded_pin_status bridge" where
  "inspectMcpRecordedTargetPins p parsed trustedPrivateHost recordedPins w =
     (case preflightMcpServerUrlResolvedTarget p parsed [trustedPrivateHost] True w of
        (Inr target, w') \<Rightarrow>
          (Inr \<lparr>rp_state = (if recordedPins = tv_addresses target then PinsMatch else PinsDrift),
                rp_currentAddresses = Some (tv_addresses target),
                rp_detail = (if recordedPins = tv_addresses target then None else Some AnswersDiffer)\<rparr>, w')
      | (Inl e, w') \<Rightarrow>
          (Inr \<lparr>rp_state = (if bridge_reasonCode e = Some Unresolved then PinsUnresolved else PinsDrift),
                rp_currentAddresses = None, rp_detail = Some (PreflightError e)\<rparr>, w'))"

section \<open>Revalidating a URL\<close>

definition new_url :: "bridge_platform \<Rightarrow> string \<Rightarrow> bridge_error + parsed_url" where
  "new_url p s = (case bp_parse p s of None \<Rightarrow> Inl UrlError | Some u \<Rightarrow> Inr u)"

definition parseMcpUrl :: "bridge_platform \<Rightarrow> string \<Rightarrow> bridge_error + parsed_url" where
  "parseMcpUrl p rawUrl = andThen (normalizeMcpServerUrl p rawUrl []) (new_url p)"

definition canonical_pin_set :: "string list \<Rightarrow> bool" where
  "canonical_pin_set addresses =
     (addresses \<noteq> [] \<and> list_all (\<lambda>a. isIP a \<noteq> 0 \<and> a = toLower a \<and> free_of CHR ''%'' a) addresses
      \<and> distinct addresses \<and> sort addresses = addresses)"

definition parseMcpUrlWithValidatedTarget ::
  "bridge_platform \<Rightarrow> string \<Rightarrow> target_validation \<Rightarrow> parsed_url bridge" where
  "parseMcpUrlWithValidatedTarget p rawUrl target =
     (let addresses = tv_addresses target in
      if \<not> canonical_pin_set addresses then throw PinsNotCanonical
      else if tv_trustedPrivateCapability target = None \<and> tv_trustedPrivateHost target = None then
        (if list_ex isBlockedMcpUrlTargetHost addresses then throw PublicPinBlocked
         else lift_res (andThen (normalizeMcpServerUrl p rawUrl []) (new_url p)))
      else if \<not> truthy (tv_trustedPrivateHost target) \<or> tv_trustedPrivateCapability target = None
      then throw AuthorityIncomplete
      else bind (private_authority AuthorityMismatch (nullish [] (tv_trustedPrivateHost target)) addresses
                   (capability_argument (tv_trustedPrivateCapability target))) (\<lambda>authority.
        let trustedPrivateHost = ep_host authority in
        bind (lift_res (new_url p rawUrl)) (\<lambda>rawParsed.
        bind (endpoint_call (lift_res (normalizeTrustedPrivateHost (url_hostname rawParsed)))) (\<lambda>h.
          if h \<noteq> trustedPrivateHost then throw (TargetHostDiffers trustedPrivateHost (url_hostname rawParsed))
          else lift_res (andThen (normalizeMcpServerUrl p rawUrl [trustedPrivateHost]) (new_url p))))))"

end
