(* ===== verification/Mcp_Bridge_Facts.thy ===== *)
theory Mcp_Bridge_Facts
  imports Trust_Tables Mcp_Bridge_Url
begin

text \<open>
  Facts about \<open>Mcp_Bridge_Url\<close>: what a normalized server URL has passed, and what a pinned target
  guarantees to the code that uses it later.
\<close>

section \<open>Names that are canonical DNS\<close>

definition canonical_dns :: "string \<Rightarrow> bool" where
  "canonical_dns h = (length h \<le> 253 \<and> list_all MCP_DNS_LABEL_RE (split_on CHR ''.'' h))"

lemma split_last_separator: "split_on x (g @ [x]) = split_on x g @ [[]]"
  by (induction g) (auto split: list.splits)

lemma canonical_dns_text:
  assumes "canonical_dns h"
  shows "list_all host_char h" "h \<noteq> []" "hd h \<noteq> CHR ''.''" "\<not> ends_with ''.'' h"
proof -
  have labels: "list_all (\<lambda>l. l \<noteq> [] \<and> dns_label l) (split_on CHR ''.'' h)"
    using assms by (auto simp: canonical_dns_def MCP_DNS_LABEL_RE_def dns_label_def list_all_iff)
  have "list_all (list_all host_char) (split_on CHR ''.'' h)"
    using labels dns_label_chars by (auto simp: list_all_iff)
  then show "list_all host_char h"
    using join_chars [of host_char "split_on CHR ''.'' h" "CHR ''.''"] by (simp add: host_char_def)
  have first: "hd (split_on CHR ''.'' h) \<noteq> []" "last (split_on CHR ''.'' h) \<noteq> []"
    using labels hd_in_set [OF split_nonempty, of "CHR ''.''" h] last_in_set [OF split_nonempty, of "CHR ''.''" h]
    by (auto simp: list_all_iff)
  show "h \<noteq> []" using first(1) by (cases h) auto
  then show "hd h \<noteq> CHR ''.''" using first(1) by (cases h) (auto simp: split_hd)
  show "\<not> ends_with ''.'' h"
  proof
    assume "ends_with ''.'' h"
    then obtain g where "h = g @ [CHR ''.'']" by (cases h rule: rev_cases) (auto simp: ends_with_last)
    then show False using first(2) split_last_separator [of "CHR ''.''" g] by simp
  qed
qed

text \<open>For such names the normal forms of the two guards coincide.\<close>

lemma canonical_dns_normal:
  assumes "canonical_dns h"
  shows "normalise_name (strip_brackets h) = h" "normalizeMcpHostname h = h" "toLower h = h"
proof -
  note t = canonical_dns_text [OF assms]
  have ends: "hd h \<noteq> CHR ''[''" "last h \<noteq> CHR '']''" "last h \<noteq> CHR ''.''"
    using t host_char_excludes(3) hd_in_set [OF t(2)] last_in_set [OF t(2)]
    by (auto simp: list_all_iff ends_with_last)
  show lower: "toLower h = h" using toLower_host [OF t(1)] .
  show "normalise_name (strip_brackets h) = h"
    using ends t normalise_host by (simp add: strip_brackets_def starts_with_hd)
  show "normalizeMcpHostname h = h"
    using ends t(2) by (simp add: normalizeMcpHostname_def Let_def lower starts_with_hd ends_with_last)
qed

lemma dns_not_mapped:
  assumes "canonical_dns h"
  shows "\<not> starts_with ''::ffff:'' h"
proof
  assume "starts_with ''::ffff:'' h"
  then obtain s where s: "h = ''::ffff:'' @ s" using starts_with_split by blast
  then obtain l ls where "split_on CHR ''.'' h = (CHR '':'' # l) # ls"
    by (cases "split_on CHR ''.'' (tl h)") auto
  then show False
    using assms by (auto simp: canonical_dns_def MCP_DNS_LABEL_RE_def dns_label_def dns_char_def is_lower_def is_digit_def code_def)
qed

lemma mcp_name:
  assumes "canonical_dns h" "\<not> isOpenShellMcpHostAlias h"
  shows "isBlockedMcpUrlTargetHost h \<longleftrightarrow>
           reserved_name h shipped_reserved \<or> isPrivateIpInBlockList h shipped_blocks"
  using assms dns_not_mapped [OF assms(1)]
  by (auto simp: isBlockedMcpUrlTargetHost_def Let_def canonical_dns_normal isReservedMcpName_def
      RESERVED_HOST_NAMES_def shipped_reserved_def mcp_blocks)

section \<open>A normalized URL\<close>

lemma normalized_url:
  assumes "normalizeMcpServerUrl p raw trusted = Inr n"
  obtains u hosts where "bp_parse p raw = Some u" "length raw \<le> MCP_SERVER_URL_MAX_LENGTH" "length n \<le> MCP_SERVER_URL_MAX_LENGTH"
    "url_protocol u = ''https:''" "url_username u = []" "url_password u = []" "url_search u = []" "url_hash u = []"
    "canonical_dns (url_hostname u)" "\<not> isOpenShellMcpHostAlias (url_hostname u)"
    "\<not> hasSecretShapedMcpPathSegment (url_pathname u)"
    "traverse normalizeTrustedPrivateHost trusted = Inr hosts"
    "toLower (url_hostname u) \<in> set hosts \<longrightarrow> \<not> isLoopbackHostname (url_hostname u)"
    "isBlockedMcpUrlTargetHost (url_hostname u) \<longrightarrow> toLower (url_hostname u) \<in> set hosts"
    "n = pu_href (if url_pathname u = [] then bp_withPathname p u ''/'' else u)"
  using assms
  by (auto simp: normalizeMcpServerUrl_def Let_def rejectUnsupportedOpenShellMcpHostAlias_def
      validateMcpServerUrlTarget_def validateCanonicalMcpDnsHostname_def canonical_dns_def trusted_hosts_def
      split: if_splits option.splits sum.splits)

lemma normalized_url_not_loopback:
  assumes "normalizeMcpServerUrl p raw trusted = Inr n" "bp_parse p raw = Some u"
  shows "\<not> isLoopbackHostname (url_hostname u)"
proof
  let ?h = "url_hostname u"
  assume loopback: "isLoopbackHostname ?h"
  obtain hosts where h: "canonical_dns ?h" "\<not> isOpenShellMcpHostAlias ?h"
    "toLower ?h \<in> set hosts \<longrightarrow> \<not> isLoopbackHostname ?h" "isBlockedMcpUrlTargetHost ?h \<longrightarrow> toLower ?h \<in> set hosts"
    using normalized_url [OF assms(1)] assms(2) by (metis option.inject)
  have "isBlockedMcpUrlTargetHost ?h"
    using loopback_reserved [OF loopback] mcp_name [OF h(1,2)] by (simp add: canonical_dns_normal [OF h(1)])
  then show False using h loopback by blast
qed

section \<open>A pinned target\<close>

text \<open>A list of addresses as the code pins it.\<close>

definition pin_list :: "string list \<Rightarrow> bool" where
  "pin_list as = (as \<noteq> [] \<and> sorted as \<and> distinct as \<and> list_all canonical_ip as)"

lemma pin_list_canonical: "pin_list as \<Longrightarrow> canonical_pin_set as"
  using toLower_host canonical_free
  by (auto simp: pin_list_def canonical_pin_set_def list_all_iff canonical_ip_def sort_key_id_if_sorted)

lemma passed_pin_list: "passed l t h ts r v w' \<Longrightarrow> pin_list ts"
  by (auto simp: passed_def pin_list_def list_all_iff pin_ok_def)

lemma pinned_answers:
  assumes "pin_list ts" "pf_addresses r = Some ts"
  shows "pinned_targets u r = ts"
proof -
  have "map toLower ts = ts"
    using assms(1) toLower_host by (intro map_idI) (auto simp: pin_list_def list_all_iff canonical_ip_def)
  moreover have "filter (\<lambda>a. a \<noteq> []) ts = ts"
    using assms(1) canonical_ends(1) by (intro filter_True) (auto simp: pin_list_def list_all_iff)
  moreover have "uniq ts = ts" "sort ts = ts"
    using assms(1) by (simp_all add: pin_list_def uniq_id sort_key_id_if_sorted)
  moreover have "pinned_targets u r = sort (map toLower (filter (\<lambda>a. a \<noteq> []) (uniq ts)))"
    using assms by (cases ts) (simp_all only: pinned_targets_def pin_list_def option.case list.case simp_thms)
  ultimately show ?thesis by (simp only:)
qed

lemma no_colon_no_ipv6: "free_of CHR '':'' s \<Longrightarrow> parse_ipv6 s = None"
  using cut_free [of s "[]"]
  by (auto simp: parse_ipv6_def side_groups_def split_free split: option.splits)

lemma literal_shape_text:
  assumes "literal_ipv4_shape s"
  shows "list_all (\<lambda>c. is_digit c \<or> c = CHR ''.'') s" "s \<noteq> []" "last s \<noteq> CHR ''.''"
proof -
  obtain a b c d where f: "split_on CHR ''.'' s = [a, b, c, d]"
    using assms by (auto simp: literal_ipv4_shape_def Let_def length_Suc_conv numeral_eq_Suc)
  then have s: "s = a @ CHR ''.'' # b @ CHR ''.'' # c @ CHR ''.'' # d"
    using join_split [of "CHR ''.''" s] by simp
  have o: "list_all is_digit a" "list_all is_digit b" "list_all is_digit c" "list_all is_digit d" "d \<noteq> []"
    using assms f by (auto simp: literal_ipv4_shape_def)
  have "\<not> is_digit CHR ''.''" by (simp add: is_digit_def code_def)
  then show "last s \<noteq> CHR ''.''" using o(4,5) by (cases d rule: rev_cases) (auto simp: s)
  show "s \<noteq> []" by (simp add: s)
  show "list_all (\<lambda>c. is_digit c \<or> c = CHR ''.'') s" using o by (auto simp: s list_all_iff)
qed

lemma pinned_literal:
  assumes "pf_addresses r = Some []" "pinned_targets u r \<noteq> []"
    "normalizeEndpointHostname (url_hostname u) = Inr h"
  shows "pinned_targets u r = [h]"
proof -
  let ?s = "url_hostname u"
  have shape: "literal_ipv4_shape ?s" "pinned_targets u r = [toLower ?s]"
    using assms(1,2) by (auto simp: pinned_targets_def uniq_def split: if_splits)
  note t = literal_shape_text [OF shape(1)]
  have chars: "list_all host_char ?s" using t(1) by (auto simp: list_all_iff host_chars_of host_char_def)
  have norm: "normalise_name (strip_brackets ?s) = ?s"
    using chars t(2,3) hd_in_set [OF t(2)] host_char_excludes(3) normalise_host
    by (auto simp: strip_brackets_def starts_with_hd ends_with_last list_all_iff)
  have free: "free_of CHR '':'' ?s" "free_of CHR ''%'' ?s"
    using t(1) by (auto simp: free_of_def list_all_iff is_digit_def code_def)
  have "parse_ip ?s \<noteq> Some (IPv6 x)" for x
    using no_colon_no_ipv6 [OF free(1)] split_free [OF free(2)]
    by (auto simp: parse_ip_def zoned_ipv6_def split: option.splits)
  then have "h = ?s"
    using assms(3) toLower_host [OF chars]
    by (auto simp: normalizeEndpointHostname_def norm normalizeIpLiteral_def Let_def split: if_splits option.splits ip.splits)
  then show ?thesis using shape(2) toLower_host [OF chars] by simp
qed

text \<open>
  What a pinned target is worth: canonical pins that are all public, or an issued capability for exactly
  these pins, all of them in networks an operator can trust, and a host the operator named.
\<close>

definition target_ok ::
  "loaded_networks \<Rightarrow> string list \<Rightarrow> trust_world \<Rightarrow> target_validation \<Rightarrow> trust_world \<Rightarrow> bool" where
  "target_ok l trusted v t w' =
     (serves_table l v \<and> pin_list (tv_addresses t) \<and>
      (case tv_trustedPrivateHost t of
         None \<Rightarrow> tv_trustedPrivateCapability t = None \<and> w' = opened v
                 \<and> list_all (\<lambda>a. \<not> private_in l a) (tv_addresses t)
       | Some h \<Rightarrow> tv_trustedPrivateCapability t = Some (tw_nextRef v) \<and> w' = issue h (tv_addresses t) (opened v)
                 \<and> capability_ok l \<lparr>cap_host = h, cap_addresses = tv_addresses t\<rparr>
                 \<and> list_all isOperatorTrustablePrivateIp (tv_addresses t)
                 \<and> (\<exists>x \<in> set trusted. normalizeTrustedPrivateHost x = Inr h)))"

lemma issue_issued: "issued_capability (issue h as w) (CapabilityObject (tw_nextRef w)) = Some \<lparr>cap_host = h, cap_addresses = as\<rparr>"
  by (simp add: issued_capability_def issue_def)

lemma opened_issue: "serves_table l w \<Longrightarrow> opened (issue h as (opened w)) = issue h as (opened w)"
  using cached_serves [of "issue h as (opened w)" l] opened_cached [of l w] by (simp add: issue_def)

lemma pinned_endpoint:
  assumes "passed l t h (endpoint_targets h r) r v w'" "normalizeEndpointHostname (url_hostname u) = Inr h"
    "if isIP h \<noteq> 0 then pf_addresses r = Some [] else pf_addresses r \<noteq> None" "pinned_targets u r \<noteq> []"
  shows "pinned_targets u r = endpoint_targets h r"
proof (cases "isIP h = 0")
  case True
  then show ?thesis
    using assms(3) passed_pin_list [OF assms(1)] pinned_answers by (auto simp: endpoint_targets_def)
next
  case False
  then show ?thesis using assms(2-4) pinned_literal by (simp add: endpoint_targets_def)
qed

lemma trusted_twice:
  assumes "traverse normalizeTrustedPrivateHost trusted = Inr hosts"
    "traverse normalizeTrustedPrivateHost hosts = Inr hosts'" "h \<in> set hosts'"
  shows "\<exists>x \<in> set trusted. normalizeTrustedPrivateHost x = Inr h"
proof -
  obtain y where y: "y \<in> set hosts" "normalizeTrustedPrivateHost y = Inr h"
    using traverse_origin [OF assms(2,3)] by blast
  then have "y = h" using trusted_hosts_stable [OF assms(1) y(1)] by simp
  then show ?thesis using traverse_origin [OF assms(1)] y(1) by blast
qed

lemmas target_steps = preflightMcpServerUrlResolvedTarget_def Let_def trusted_hosts_def endpoint_call_def

text \<open>The end of the preflight, once the endpoint is admitted.\<close>

lemma target_private:
  assumes "preflightMcpServerUrlResolvedTarget p u trusted req w = (Inr t, w')"
    "traverse normalizeTrustedPrivateHost trusted = Inr hosts"
    "assertEndpointResolvesPublic (bp_parseUrl p) (bp_lookup p) (pu_href u) hosts w = (Inr r, issue h ts (opened v))"
    "pf_trustedPrivateCapability r = Some (tw_nextRef v)" "pf_trustedPrivateEndpoint r"
    "pf_ok r" "pinned_targets u r = ts" "serves_table l v"
  shows "t = \<lparr>tv_addresses = ts, tv_trustedPrivateCapability = Some (tw_nextRef v), tv_trustedPrivateHost = Some h\<rparr>"
    "w' = issue h ts (opened v)" "list_all isOperatorTrustablePrivateIp ts"
proof -
  obtain n a where a: "assertTrustedPrivateEndpointCapability n (map JStr ts) (CapabilityObject (tw_nextRef v)) True
       (issue h ts (opened v)) = (Inr a, w')"
    "t = \<lparr>tv_addresses = ep_addresses a, tv_trustedPrivateCapability = Some (tw_nextRef v), tv_trustedPrivateHost = Some (ep_host a)\<rparr>"
    using assms(1-7)
    by (auto simp: target_steps private_authority_def capability_argument_def split: if_splits prod.splits sum.splits)
  have "issued_capability (issue h ts (opened v)) (CapabilityObject (tw_nextRef v)) = Some \<lparr>cap_host = h, cap_addresses = ts\<rparr>"
    using issue_issued [of h ts "opened v"] by simp
  then show "t = \<lparr>tv_addresses = ts, tv_trustedPrivateCapability = Some (tw_nextRef v), tv_trustedPrivateHost = Some h\<rparr>"
    "w' = issue h ts (opened v)" "list_all isOperatorTrustablePrivateIp ts"
    using assert_ran [OF a(1)] a(2) opened_issue [OF assms(8)] by auto
qed

lemma target_ran:
  assumes "preflightMcpServerUrlResolvedTarget p u trusted req w = (Inr t, w')" "bp_parse p (pu_href u) = Some u"
  shows "\<exists>l v. target_ok l trusted v t w'"
proof -
  obtain hosts r w1 where s: "traverse normalizeTrustedPrivateHost trusted = Inr hosts"
    "assertEndpointResolvesPublic (bp_parseUrl p) (bp_lookup p) (pu_href u) hosts w = (Inr r, w1)"
    "pf_ok r" "pinned_targets u r \<noteq> []"
    using assms(1) by (auto simp: target_steps split: sum.splits prod.splits if_splits)
  obtain u' h hosts' l0 l v where q: "bp_parseUrl p (pu_href u) = Some u'"
    "normalizeEndpointHostname (url_hostname u') = Inr h" "traverse normalizeTrustedPrivateHost hosts = Inr hosts'"
    "passed l (h \<in> set hosts') h (endpoint_targets h r) r v w1"
    "if isIP h \<noteq> 0 then v = opened w \<and> pf_addresses r = Some []
     else v = snd (bp_lookup p h (opened w)) \<and> pf_addresses r \<noteq> None"
    using preflight_ran [OF s(2,3)] by metis
  have "url_hostname u' = url_hostname u" using q(1) assms(2) by (auto simp: bp_parseUrl_def url.defs)
  then have ts: "pinned_targets u r = endpoint_targets h r"
    using pinned_endpoint [OF q(4) _ _ s(4)] q(2,5) by (auto split: if_splits)
  show ?thesis
  proof (cases "list_ex (private_in l) (endpoint_targets h r)")
    case False
    then have n: "pf_trustedPrivateCapability r = None" "\<not> pf_trustedPrivateEndpoint r" "w1 = opened v" "serves_table l v"
      using q(4) by (auto simp: passed_def)
    then have "t = \<lparr>tv_addresses = endpoint_targets h r, tv_trustedPrivateCapability = None, tv_trustedPrivateHost = None\<rparr>"
      "w' = opened v"
      using assms(1) s ts by (auto simp: target_steps split: if_splits sum.splits)
    then show ?thesis
      using n(4) False passed_pin_list [OF q(4)] by (auto simp: target_ok_def list_all_iff list_ex_iff)
  next
    case True
    then have r: "pf_trustedPrivateCapability r = Some (tw_nextRef v)" "pf_trustedPrivateEndpoint r"
      "w1 = issue h (endpoint_targets h r) (opened v)" "serves_table l v"
      using q(4) by (auto simp: passed_def)
    have "h \<in> set hosts'" using passed_pins [OF q(4) True] by simp
    then show ?thesis
      using target_private [OF assms(1) s(1) s(2) [unfolded r(3)] r(1,2) s(3) ts r(4)] r(4) trusted_twice [OF s(1) q(3)]
        passed_capability [OF q(4,3) True] passed_pin_list [OF q(4)]
      by (auto simp: target_ok_def)
  qed
qed

section \<open>Using the target later\<close>

lemma grows_bind:
  assumes "\<And>x. grows x (snd (m x))" "\<And>a x. grows x (snd (f a x))"
  shows "grows w (snd (bind m f w))"
proof (cases "m w")
  case (Pair r w1)
  then have "grows w w1" using assms(1) [of w] by simp
  then show ?thesis using Pair assms(2) grows_trans by (cases r) auto
qed

lemma endpoint_call_grows: "grows x (snd (m x)) \<Longrightarrow> grows x (snd (endpoint_call m x))"
  by (auto simp: endpoint_call_def split: prod.splits sum.splits)

lemma authority_grows: "grows x (snd (private_authority e h as c x))"
  using reads_grows [OF reads_assert, of x h "map JStr as" c True]
  by (auto simp: private_authority_def split: prod.splits sum.splits)

lemma target_grows:
  assumes "\<And>h x. grows x (snd (bp_lookup p h x))"
  shows "grows w (snd (preflightMcpServerUrlResolvedTarget p u trusted req w))"
  unfolding preflightMcpServerUrlResolvedTarget_def Let_def
  by (intro grows_bind endpoint_call_grows preflight_grows assms)
    (auto intro!: grows_bind endpoint_call_grows authority_grows)

lemma public_pins_blocked:
  assumes "pin_list as" "list_all (\<lambda>a. \<not> private_in l a) as" "ln_blockList l = shipped_blocks"
  shows "list_ex isBlockedMcpUrlTargetHost as \<longleftrightarrow> list_ex (starts_with ''::ffff:'') as"
  using assms mcp_literal by (auto simp: pin_list_def list_all_iff list_ex_iff private_in_def)

lemma trusted_nonempty: "normalizeTrustedPrivateHost h = Inr h \<Longrightarrow> h \<noteq> []"
  by (auto simp: normalizeTrustedPrivateHost_def trim_def)

lemma authority_accepted:
  assumes "target_ok l trusted v t w'" "tv_trustedPrivateHost t = Some h" "trust_ok w'" "trust_ok w''" "extends w' w''"
  shows "private_authority e h (tv_addresses t) (capability_argument (tv_trustedPrivateCapability t)) w'' =
           (Inr \<lparr>ep_host = h, ep_addresses = tv_addresses t,
                 er_trustedPrivateCapability = capability_argument (tv_trustedPrivateCapability t)\<rparr>, w'')"
proof -
  let ?c = "\<lparr>cap_host = h, cap_addresses = tv_addresses t\<rparr>"
  have t: "serves_table l v" "tv_trustedPrivateCapability t = Some (tw_nextRef v)" "w' = issue h (tv_addresses t) (opened v)"
    "capability_ok l ?c" "list_all isOperatorTrustablePrivateIp (tv_addresses t)"
    using assms(1,2) by (auto simp: target_ok_def)
  have "issued_capability w' (CapabilityObject (tw_nextRef v)) = Some ?c"
    using issue_issued [of h "tv_addresses t" "opened v"] t(3) by simp
  then have issued: "issued_capability w'' (CapabilityObject (tw_nextRef v)) = Some ?c"
    by (rule issued_extends [OF assms(4,5)])
  have "cw_cached (tw_networks w') = Some l" using opened_cached [OF t(1)] t(3) by (simp add: issue_def)
  then have "serves_table l w'' \<and> opened w'' = w''" using assms(5) cached_serves by (auto simp: extends_def)
  then show ?thesis
    using assert_fixed [OF _ t(4) issued, of True] t(2,5)
    by (simp add: private_authority_def capability_argument_def)
qed

end
