(* ===== verification/Trust_Properties.thy ===== *)
theory Trust_Properties
  imports Mcp_Bridge_Facts
begin

text \<open>
  Properties of the endpoint trust boundary and of the MCP target checks built on it, each with a
  witness: a host name that an operator trusts, resolved to an address of a private network.
\<close>

section \<open>A concrete setting\<close>

definition demo_endpoint :: parsed_url where
  "demo_endpoint =
     \<lparr>url_protocol = ''https:'', url_hostname = ''a.example'', url_port = [], url_username = [], url_password = [],
      url_search = [], url_hash = [], url_pathname = ''/'', url_origin = ''https://a.example'',
      pu_href = ''https://a.example/''\<rparr>"

definition demo_resolver :: dns_resolver where
  "demo_resolver h w = (DnsAddresses [JStr ''10.0.0.0''], w)"

definition demo_bridge :: bridge_platform where
  "demo_bridge =
     \<lparr>bp_parse = (\<lambda>s. if s = ''https://a.example/'' then Some demo_endpoint else None),
      bp_withPathname = (\<lambda>u s. u\<lparr>url_pathname := s\<rparr>), bp_lookup = demo_resolver\<rparr>"

definition demo_trust :: trust_world where
  "demo_trust =
     \<lparr>tw_networks = \<lparr>cw_file = Yaml shipped_networks, cw_cached = None\<rparr>, tw_issued = [], tw_nextRef = 0\<rparr>"

lemma demo_table:
  obtains l where "serves_table l demo_trust" "ln_blockList l = shipped_blocks" "ln_normalisedNames l = shipped_reserved"
  using shipped_loads that
  by (auto simp: serves_table_def demo_trust_def cli_load_def load_yaml_def)

lemma demo_not_ip: "parse_ip ''a.example'' = None" "isIP ''a.example'' = 0"
  by (simp_all add: isIP_def ip_defs)

lemma demo_name:
  "normalise_name ''a.example'' = ''a.example''" "strip_brackets ''a.example'' = ''a.example''"
  "normalizeEndpointHostname ''a.example'' = Inr ''a.example''"
  "normalizeTrustedPrivateHost ''a.example'' = Inr ''a.example''"
  by (simp_all add: normalise_name_def strip_brackets_def ends_with_def starts_with_def toLower_def code_def
      normalizeEndpointHostname_def normalizeTrustedPrivateHost_def trusted_name_def demo_not_ip trim_def is_js_space_def
      Let_def dotted_numbers_def dns_label_def dns_char_def is_lower_def is_digit_def)

lemma demo_address: "canonical_ip ''10.0.0.0''" "isOperatorTrustablePrivateIp ''10.0.0.0''"
  "isPrivateIpInBlockList ''10.0.0.0'' shipped_blocks" "isIP ''10.0.0.0'' = 4"
  by (simp_all add: canonical_ip_def isIP_def shipped_ipv4_literals normalizeIpLiteral_def toLower_def host_char_def
      is_digit_def code_def trustable_address trustable_ip_def trustable_ipv4_def octet_of_def
      isPrivateIpInBlockList_def shipped_reserves reserved_ip_def reserved_ipv4_def)

lemma demo_hosts: "\<not> isLoopbackHostname ''a.example''" "\<not> isOpenShellManagedHost ''a.example''"
  "\<not> reserved_name ''a.example'' shipped_reserved" "\<not> isPrivateIpInBlockList ''a.example'' bl"
  by (simp_all add: isLoopbackHostname_def demo_name demo_not_ip isOpenShellManagedHost_def OPENSHELL_MANAGED_HOSTS_def
      reserved_name_def shipped_reserved_def ends_with_def isPrivateIpInBlockList_def Let_def)

lemma demo_pins:
  assumes "ln_blockList l = shipped_blocks"
  shows "pins_ok l [''10.0.0.0'']" "capability_ok l \<lparr>cap_host = ''a.example'', cap_addresses = [''10.0.0.0'']\<rparr>"
  using demo_address demo_name(4) by (simp_all add: capability_ok_def pins_ok_def pin_ok_def)

lemma demo_preflight:
  assumes "serves_table l demo_trust" "ln_blockList l = shipped_blocks" "ln_normalisedNames l = shipped_reserved"
  shows "assertEndpointResolvesPublic (bp_parseUrl demo_bridge) demo_resolver ''https://a.example/'' [''a.example''] demo_trust =
           (Inr (admitted [''10.0.0.0''] (Some 0)), issue ''a.example'' [''10.0.0.0''] (opened demo_trust))"
proof -
  have host: "on_networks (cli_isPrivateHostname ''a.example'') demo_trust = (Inr False, opened demo_trust)"
    using private_hostname_read [OF assms(1), of "''a.example''"]
    by (simp add: private_host_def demo_name demo_hosts assms(3))
  have read: "isPrivateIp ''10.0.0.0'' (opened demo_trust) = (Inr True, opened demo_trust)"
    using private_ip_read [of "''10.0.0.0''" l "opened demo_trust"] assms(1)
    by (simp add: demo_address private_in_def assms(2))
  have norm: "normalizeIpLiteral ''10.0.0.0'' = Inr ''10.0.0.0''"
    using demo_address(1) by (simp add: canonical_ip_def)
  have checked: "check_answers True ''a.example'' [JStr ''10.0.0.0''] (opened demo_trust) = (Inr (Inr [''10.0.0.0'']), opened demo_trust)"
    using read norm by (simp add: demo_address bind_def)
  have issued: "issueTrustedPrivateEndpointCapability ''a.example'' [''10.0.0.0''] (opened demo_trust)
      = (Inr 0, issue ''a.example'' [''10.0.0.0''] (opened demo_trust))"
    using issue_canonical [OF demo_pins(1) [OF assms(2)], of "''a.example''" "opened demo_trust"]
    by (simp add: demo_trust_def)
  have "preflight_name demo_resolver True ''a.example'' ''a.example'' (opened demo_trust)
      = (Inr (admitted [''10.0.0.0''] (Some 0)), issue ''a.example'' [''10.0.0.0''] (opened demo_trust))"
    using checked read issued by (simp add: preflight_name_def demo_resolver_def uniq_def bind_def)
  then show ?thesis
    using host
    by (simp add: assertEndpointResolvesPublic_def bp_parseUrl_def demo_bridge_def demo_endpoint_def url.defs demo_name
        demo_hosts demo_not_ip Let_def bind_def)
qed

section \<open>The preflight\<close>

text \<open>
  C22: an endpoint that the preflight admits is not a loopback or managed host, and every address a
  connection may use (the literal of the URL, or all the pins) is an address outside the loaded
  table, or lies in a network an operator can trust and the operator named exactly this host. A
  capability is issued exactly when one of the addresses is private, and it is for this host and
  exactly these addresses. This holds whatever the resolver answers and whatever runs while it is
  awaited.
\<close>

theorem preflight_admits_safe:
  assumes "assertEndpointResolvesPublic parse lookup url trusted w = (Inr r, w')" "pf_ok r"
  shows "\<exists>u h l. parse url = Some u \<and> normalizeEndpointHostname (url_hostname u) = Inr h
     \<and> cw_cached (tw_networks w') = Some l
     \<and> \<not> isLoopbackHostname (url_hostname u) \<and> \<not> isOpenShellManagedHost (url_hostname u)
     \<and> endpoint_targets h r \<noteq> []
     \<and> (\<forall>a \<in> set (endpoint_targets h r). isIP a \<noteq> 0 \<and>
          (isPrivateIpInBlockList a (ln_blockList l) \<longrightarrow>
             isOperatorTrustablePrivateIp a \<and> (\<exists>x \<in> set trusted. normalizeTrustedPrivateHost x = Inr h)))
     \<and> (pf_trustedPrivateEndpoint r \<longleftrightarrow>
          (\<exists>a \<in> set (endpoint_targets h r). isPrivateIpInBlockList a (ln_blockList l)))
     \<and> (pf_trustedPrivateEndpoint r \<longrightarrow> (\<exists>ref. pf_trustedPrivateCapability r = Some ref
          \<and> issued_capability w' (CapabilityObject ref) = Some \<lparr>cap_host = h, cap_addresses = endpoint_targets h r\<rparr>))"
proof -
  obtain u h hosts l0 l v where p: "parse url = Some u" "normalizeEndpointHostname (url_hostname u) = Inr h"
    "traverse normalizeTrustedPrivateHost trusted = Inr hosts"
    "\<not> isLoopbackHostname (url_hostname u)" "\<not> isOpenShellManagedHost (url_hostname u)"
    "passed l (h \<in> set hosts) h (endpoint_targets h r) r v w'"
    using preflight_ran [OF assms] by metis
  let ?ts = "endpoint_targets h r"
  have l: "cw_cached (tw_networks w') = Some l"
    using p(6) opened_cached [of l v] by (auto simp: passed_def issue_def split: if_splits)
  have each: "isIP a \<noteq> 0 \<and> (private_in l a \<longrightarrow> isOperatorTrustablePrivateIp a \<and>
      (\<exists>x \<in> set trusted. normalizeTrustedPrivateHost x = Inr h))" if "a \<in> set ?ts" for a
    using that p(6) traverse_origin [OF p(3)] by (auto simp: passed_def list_all_iff pin_ok_def canonical_ip_def)
  have trusted: "pf_trustedPrivateEndpoint r \<longleftrightarrow> (\<exists>a \<in> set ?ts. private_in l a)"
    using p(6) by (auto simp: passed_def list_ex_iff split: if_splits)
  have issued: "\<exists>ref. pf_trustedPrivateCapability r = Some ref
      \<and> issued_capability w' (CapabilityObject ref) = Some \<lparr>cap_host = h, cap_addresses = ?ts\<rparr>"
    if "pf_trustedPrivateEndpoint r"
    using that p(6) issue_issued [of h ?ts "opened v"] by (auto simp: passed_def split: if_splits)
  show ?thesis
    using p(1,2,4,5,6) l each trusted issued
    by (intro exI [of _ u] exI [of _ h] exI [of _ l]) (simp add: passed_def private_in_def)
qed

theorem preflight_admits_safe_witness:
  "\<exists>r w' l h. assertEndpointResolvesPublic (bp_parseUrl demo_bridge) demo_resolver ''https://a.example/'' [''a.example''] demo_trust = (Inr r, w')
     \<and> cw_cached (tw_networks w') = Some l \<and> endpoint_targets h r = [''10.0.0.0'']
     \<and> isPrivateIpInBlockList ''10.0.0.0'' (ln_blockList l)
     \<and> pf_trustedPrivateEndpoint r"
proof -
  obtain l where l: "serves_table l demo_trust" "ln_blockList l = shipped_blocks" "ln_normalisedNames l = shipped_reserved"
    by (rule demo_table)
  have ok: "pf_ok (admitted [''10.0.0.0''] (Some 0))" by (simp add: admitted_def)
  obtain h l' where h: "normalizeEndpointHostname ''a.example'' = Inr h"
    "cw_cached (tw_networks (issue ''a.example'' [''10.0.0.0''] (opened demo_trust))) = Some l'"
    "pf_trustedPrivateEndpoint (admitted [''10.0.0.0''] (Some 0)) \<longleftrightarrow>
       (\<exists>a \<in> set (endpoint_targets h (admitted [''10.0.0.0''] (Some 0))). isPrivateIpInBlockList a (ln_blockList l'))"
    using preflight_admits_safe [OF demo_preflight [OF l] ok]
    by (auto simp: bp_parseUrl_def demo_bridge_def demo_endpoint_def url.defs)
  have "h = ''a.example''" using h(1) demo_name(3) by simp
  then have "endpoint_targets h (admitted [''10.0.0.0''] (Some 0)) = [''10.0.0.0'']"
    by (simp add: endpoint_targets_def demo_not_ip admitted_def)
  then show ?thesis using demo_preflight [OF l] h(2,3) by (auto simp: admitted_def)
qed

section \<open>Capabilities\<close>

text \<open>
  C23: whatever calls were made before, and in whatever order calls ran during a preflight, a value that
  the capability check accepts is one of the references the module issued. It was issued for exactly the
  host and the list of addresses that the caller presents, every address is outside the table or
  in a network an operator can trust, at least one is private, and the check changes nothing.
\<close>

theorem capability_authority:
  assumes "trust_reach parse w0 w" "tw_issued w0 = []"
    "assertTrustedPrivateEndpointCapability host addresses v requireAllPrivate w = (Inr a, w')"
  shows "\<exists>ref c l. v = CapabilityObject ref \<and> (ref, c) \<in> set (tw_issued w)
     \<and> cw_cached (tw_networks w) = Some l \<and> w' = w
     \<and> normalizeTrustedPrivateHost host = Inr (cap_host c) \<and> addresses = map JStr (cap_addresses c)
     \<and> (\<forall>x \<in> set (cap_addresses c). isIP x \<noteq> 0 \<and>
          (isPrivateIpInBlockList x (ln_blockList l) \<longrightarrow> isOperatorTrustablePrivateIp x))
     \<and> (\<exists>x \<in> set (cap_addresses c). isOperatorTrustablePrivateIp x)
     \<and> (requireAllPrivate \<longrightarrow> (\<forall>x \<in> set (cap_addresses c). isOperatorTrustablePrivateIp x))"
proof -
  obtain c where c: "issued_capability w v = Some c" "w' = opened w"
    "normalizeTrustedPrivateHost host = Inr (cap_host c)" "addresses = map JStr (cap_addresses c)"
    "requireAllPrivate \<longrightarrow> list_all isOperatorTrustablePrivateIp (cap_addresses c)"
    using assert_ran [OF assms(3)] by blast
  obtain ref l where r: "v = CapabilityObject ref" "(ref, c) \<in> set (tw_issued w)" "serves_table l w" "opened w = w"
    "capability_ok l c"
    using issued_lookup [OF reached_ok [OF assms(1,2)] c(1)] by blast
  have "cw_cached (tw_networks w) = Some l" using opened_cached [OF r(3)] r(4) by simp
  moreover have "(\<forall>x \<in> set (cap_addresses c). isIP x \<noteq> 0 \<and> (private_in l x \<longrightarrow> isOperatorTrustablePrivateIp x))"
    "\<exists>x \<in> set (cap_addresses c). isOperatorTrustablePrivateIp x"
    using r(5) by (auto simp: capability_ok_def pins_ok_def list_all_iff list_ex_iff pin_ok_def canonical_ip_def)
  ultimately show ?thesis
    using c r(1,2,4) by (intro exI [of _ ref] exI [of _ c] exI [of _ l]) (simp add: private_in_def list_all_iff)
qed

theorem capability_authority_witness:
  "\<exists>w a. trust_reach (bp_parseUrl demo_bridge) demo_trust w
     \<and> assertTrustedPrivateEndpointCapability ''a.example'' [JStr ''10.0.0.0''] (CapabilityObject 0) True w = (Inr a, w)
     \<and> 0 \<in> fst ` set (tw_issued w)"
proof -
  obtain l where l: "serves_table l demo_trust" "ln_blockList l = shipped_blocks" "ln_normalisedNames l = shipped_reserved"
    by (rule demo_table)
  let ?w = "issue ''a.example'' [''10.0.0.0''] (opened demo_trust)"
  have "snd (replayTrustedPrivateEndpoint ''a.example'' (map JStr [''10.0.0.0'']) True demo_trust) = ?w"
    using replay_fixed [OF l(1) demo_pins(2) [OF l(2)], of True] demo_address(2) by simp
  then have reach: "trust_reach (bp_parseUrl demo_bridge) demo_trust ?w"
    using trust_reach.replayed [OF trust_reach.start] by metis
  have "cw_cached (tw_networks ?w) = Some l" using opened_cached [OF l(1)] by (simp add: issue_def)
  then have w: "serves_table l ?w" "opened ?w = ?w" using cached_serves by blast+
  have issued: "issued_capability ?w (CapabilityObject 0) = Some \<lparr>cap_host = ''a.example'', cap_addresses = [''10.0.0.0'']\<rparr>"
    using issue_issued [of "''a.example''" "[''10.0.0.0'']" "opened demo_trust"] by (simp add: demo_trust_def)
  obtain a where a: "assertTrustedPrivateEndpointCapability ''a.example'' [JStr ''10.0.0.0''] (CapabilityObject 0) True ?w = (Inr a, ?w)"
    using assert_fixed [OF w(1) demo_pins(2) [OF l(2)] issued, of True] w(2) demo_address(2) by auto
  have none: "tw_issued demo_trust = []" by (simp add: demo_trust_def)
  show ?thesis
    using capability_authority [OF reach none a] reach a by (auto simp: image_iff) (metis fst_conv)
qed

text \<open>
  C24: the pins of a trusted endpoint can be recorded and used again. A capability that the preflight issued
  is accepted for the endpoint's host and addresses; a later process that loads the same table and
  replays the recorded host and addresses gets them back unchanged with a capability of its own,
  and that capability is accepted for them.
\<close>

theorem trusted_endpoint_replay:
  assumes "assertEndpointResolvesPublic parse lookup url trusted w = (Inr r, w')" "pf_ok r"
    "pf_trustedPrivateCapability r = Some ref" "parse url = Some u"
    "normalizeEndpointHostname (url_hostname u) = Inr h" "cw_cached (tw_networks w') = Some l"
    "fst (cli_load (tw_networks v)) = Inr l"
  defines "pins \<equiv> map JStr (endpoint_targets h r)"
  shows "fst (assertTrustedPrivateEndpointCapability h pins (CapabilityObject ref) False w') =
           Inr \<lparr>ep_host = h, ep_addresses = endpoint_targets h r, er_trustedPrivateCapability = CapabilityObject ref\<rparr>
     \<and> (\<exists>v' ref'. replayTrustedPrivateEndpoint h pins False v =
             (Inr \<lparr>ep_host = h, ep_addresses = endpoint_targets h r,
                   er_trustedPrivateCapability = CapabilityObject ref'\<rparr>, v')
           \<and> fst (assertTrustedPrivateEndpointCapability h pins (CapabilityObject ref') False v') =
               Inr \<lparr>ep_host = h, ep_addresses = endpoint_targets h r, er_trustedPrivateCapability = CapabilityObject ref'\<rparr>)"
proof -
  let ?ts = "endpoint_targets h r" and ?c = "\<lparr>cap_host = h, cap_addresses = endpoint_targets h r\<rparr>"
  obtain hosts l1 x where p: "traverse normalizeTrustedPrivateHost trusted = Inr hosts"
    "passed l1 (h \<in> set hosts) h ?ts r x w'"
    using preflight_ran [OF assms(1,2)] assms(4,5) by (metis option.inject sum.inject(2))
  have pr: "list_ex (private_in l1) ?ts" "w' = issue h ?ts (opened x)" "ref = tw_nextRef x" "serves_table l1 x"
    using p(2) assms(3) by (auto simp: passed_def split: if_splits)
  have "l1 = l" using opened_cached [OF pr(4)] pr(2) assms(6) by (simp add: issue_def)
  then have ok: "capability_ok l ?c" using passed_capability [OF p(2,1) pr(1)] by simp
  have w': "serves_table l w'" using cached_serves [OF assms(6)] by simp
  have issued: "issued_capability w' (CapabilityObject ref) = Some ?c"
    using issue_issued [of h ?ts "opened x"] pr(2,3) by simp
  have v: "serves_table l v" using assms(7) by (simp add: serves_table_def)
  let ?v = "issue h ?ts (opened v)"
  have v': "serves_table l ?v" using opened_cached [OF v] cached_serves [of ?v l] by (simp add: issue_def)
  have issued': "issued_capability ?v (CapabilityObject (tw_nextRef v)) = Some ?c"
    using issue_issued [of h ?ts "opened v"] by simp
  show ?thesis
    using assert_fixed [OF w' ok issued, of False] assert_fixed [OF v' ok issued', of False] replay_fixed [OF v ok, of False]
    by (auto simp: pins_def)
qed

theorem trusted_endpoint_replay_witness:
  "\<exists>w r v' ref'. assertEndpointResolvesPublic (bp_parseUrl demo_bridge) demo_resolver ''https://a.example/'' [''a.example''] demo_trust = (Inr r, w)
     \<and> replayTrustedPrivateEndpoint ''a.example'' (map JStr (endpoint_targets ''a.example'' r)) False demo_trust =
         (Inr \<lparr>ep_host = ''a.example'', ep_addresses = endpoint_targets ''a.example'' r,
               er_trustedPrivateCapability = CapabilityObject ref'\<rparr>, v')"
proof -
  obtain l where l: "serves_table l demo_trust" "ln_blockList l = shipped_blocks" "ln_normalisedNames l = shipped_reserved"
    by (rule demo_table)
  have parse: "bp_parseUrl demo_bridge ''https://a.example/'' = Some (url.truncate demo_endpoint)"
    "url_hostname (url.truncate demo_endpoint) = ''a.example''"
    by (simp_all add: bp_parseUrl_def demo_bridge_def demo_endpoint_def url.defs)
  have r: "pf_ok (admitted [''10.0.0.0''] (Some 0))" "pf_trustedPrivateCapability (admitted [''10.0.0.0''] (Some 0)) = Some 0"
    by (simp_all add: admitted_def)
  have cached: "cw_cached (tw_networks (issue ''a.example'' [''10.0.0.0''] (opened demo_trust))) = Some l"
    using opened_cached [OF l(1)] by (simp add: issue_def)
  show ?thesis
    using trusted_endpoint_replay [OF demo_preflight [OF l] r parse(1) _ cached l(1) [unfolded serves_table_def]]
      demo_preflight [OF l] demo_name(3) parse(2)
    by auto
qed

section \<open>Addresses\<close>

text \<open>
  C25: the canonical form of an address literal denotes the same address and is its own canonical form,
  for every IPv4 and IPv6 literal, compressed or with a dotted tail; and two IPv6 literals have the
  same canonical form exactly when they denote the same address, so pins can be compared as
  texts.
\<close>

theorem canonical_addresses:
  assumes "isIP s \<noteq> 0" "normalizeIpLiteral s = Inr n" "isIP t = 6" "normalizeIpLiteral t = Inr m"
  shows "parse_ip n = parse_ip s \<and> normalizeIpLiteral n = Inr n \<and> free_of CHR ''%'' n
     \<and> (isIP s = 6 \<longrightarrow> (n = m \<longleftrightarrow> parse_ip s = parse_ip t))"
proof -
  note n = normalized_ip [OF assms(1,2)]
  have "isIP s = 6 \<Longrightarrow> \<exists>w. parse_ip s = Some (IPv6 w)" for s
    by (auto simp: isIP_def split: option.splits ip.splits)
  then have "isIP s = 6 \<longrightarrow> (n = m \<longleftrightarrow> parse_ip s = parse_ip t)"
    using assms(2-4) n(2) normalized_ip(2) [of t m] by (fastforce simp: normalizeIpLiteral_def split: if_splits)
  then show ?thesis using n canonical_free [OF n(1)] by (simp add: canonical_ip_def)
qed

theorem canonical_addresses_witness:
  "\<exists>n. normalizeIpLiteral ''0:0:0:0:0:0:0:1'' = Inr n \<and> normalizeIpLiteral ''::1'' = Inr n \<and> n = ''::1''"
proof -
  have p: "parse_ip ''0:0:0:0:0:0:0:1'' = Some (IPv6 1)" "parse_ip ''::1'' = Some (IPv6 1)"
    by (simp_all add: ip_defs replicate_numeral)
  have f: "normalizeIpLiteral ''0:0:0:0:0:0:0:1'' = Inr (ipv6_text 1)" "normalizeIpLiteral ''::1'' = Inr (ipv6_text 1)"
    by (simp_all add: normalizeIpLiteral_def p)
  have "ipv6_text 1 = ''::1''"
    by (simp add: ipv6_text_def pieces_def pieces_text_def zero_run_def colon_text_def hex_text.simps)
  then show ?thesis
    using canonical_addresses [OF _ f(1) _ f(2)] f p by (simp add: isIP_def)
qed

text \<open>
  C26: the networks an operator can open are exactly 10/8, 100.64/10, 172.16/12, 192.168/16 and fc00::/7,
  in every spelling of the literal, IPv4-mapped ones included; all of them are addresses that the
  shipped table reserves, so trust never widens what the guards call public, and
  loopback, link-local, multicast and documentation addresses cannot be trusted.
\<close>

theorem operator_trust_exact:
  "isOperatorTrustablePrivateIp s \<longleftrightarrow>
     (\<exists>a. parse_ip s = Some a \<and> reserved_ip a \<and>
       (case a of
          IPv4 w \<Rightarrow> trustable_ipv4 (unat w)
        | IPv6 w \<Rightarrow> 0xfc00 \<le> hextet_of (unat w) 7 \<and> hextet_of (unat w) 7 < 0xfe00
                    \<or> unat w div 2 ^ 32 = 0xFFFF \<and> trustable_ipv4 (unat w mod 2 ^ 32)))"
  using trustable_reserved unfolding trustable_address trustable_ip_def by blast

section \<open>MCP servers\<close>

text \<open>
  C27: the guard for MCP targets and the guard of the shipped table agree. A host in canonical form (an address
  or a DNS name) is blocked exactly when it is not an alias of the gateway and the shipped table calls it
  private, or when it is written with the prefix \<open>::ffff:\<close>; and every IPv4-mapped address is written so.
\<close>

theorem mcp_guard_agrees:
  assumes "canonical_ip h \<or> canonical_dns h" "load_document shipped_networks = Inr l"
  shows "(isBlockedMcpUrlTargetHost h \<longleftrightarrow>
            \<not> isOpenShellMcpHostAlias h \<and> (private_host l h \<or> starts_with ''::ffff:'' h))
     \<and> (\<forall>w. unat w div 2 ^ 32 = 0xFFFF \<longrightarrow> isBlockedMcpUrlTargetHost (ipv6_text w))"
proof -
  have l: "ln_blockList l = shipped_blocks" "ln_normalisedNames l = shipped_reserved"
    using shipped_loads assms(2) by auto
  have "isBlockedMcpUrlTargetHost h \<longleftrightarrow>
      \<not> isOpenShellMcpHostAlias h \<and> (private_host l h \<or> starts_with ''::ffff:'' h)"
    using assms(1)
  proof
    assume "canonical_ip h"
    then show ?thesis
      using mcp_literal literal_is_no_name by (auto simp: private_host_def l literal_normal)
  next
    assume "canonical_dns h"
    then show ?thesis
      using mcp_name [of h] dns_not_mapped [of h]
      by (auto simp: private_host_def l canonical_dns_normal isBlockedMcpUrlTargetHost_def Let_def)
  qed
  moreover have "isBlockedMcpUrlTargetHost (ipv6_text w)" if "unat w div 2 ^ 32 = 0xFFFF" for w
  proof -
    have "canonical_ip (ipv6_text w)"
      by (simp add: canonical_ip_def isIP_def normalizeIpLiteral_def parse_ipv6_text ipv6_text_free ipv6_host_chars)
    then show ?thesis using mcp_literal mapped_text [OF that] by blast
  qed
  ultimately show ?thesis by blast
qed

theorem mcp_guard_agrees_witness:
  "\<exists>l. load_document shipped_networks = Inr l \<and>
     (isBlockedMcpUrlTargetHost ''10.0.0.0'' \<longleftrightarrow>
        \<not> isOpenShellMcpHostAlias ''10.0.0.0'' \<and> (private_host l ''10.0.0.0'' \<or> starts_with ''::ffff:'' ''10.0.0.0''))"
proof -
  obtain l where "load_document shipped_networks = Inr l" using shipped_loads by blast
  then show ?thesis using mcp_guard_agrees [of "''10.0.0.0''" l] demo_address(1) by blast
qed

text \<open>
  C28: a server URL that \<open>normalizeMcpServerUrl\<close> accepts uses TLS, has no credentials, query, fragment or
  secret-shaped path segment, names a canonical DNS host or an IPv4 address that is not an alias of the
  gateway and never loopback, and if the shipped table calls the host private, the operator named this
  host. The text that is stored has at most 2048 characters.
\<close>

theorem mcp_url_sound:
  assumes "normalizeMcpServerUrl p raw trusted = Inr n" "bp_parse p raw = Some u"
  shows "url_protocol u = ''https:'' \<and> url_username u = [] \<and> url_password u = []
     \<and> url_search u = [] \<and> url_hash u = [] \<and> \<not> hasSecretShapedMcpPathSegment (url_pathname u)
     \<and> canonical_dns (url_hostname u) \<and> \<not> isOpenShellMcpHostAlias (url_hostname u)
     \<and> \<not> isLoopbackHostname (url_hostname u)
     \<and> (reserved_name (url_hostname u) shipped_reserved \<or> isPrivateIpInBlockList (url_hostname u) shipped_blocks
          \<longrightarrow> (\<exists>x \<in> set trusted. normalizeTrustedPrivateHost x = Inr (url_hostname u)))
     \<and> length n \<le> 2048"
proof -
  obtain u' hosts where h: "bp_parse p raw = Some u'" "length raw \<le> MCP_SERVER_URL_MAX_LENGTH" "length n \<le> MCP_SERVER_URL_MAX_LENGTH"
    "url_protocol u' = ''https:''" "url_username u' = []" "url_password u' = []" "url_search u' = []" "url_hash u' = []"
    "canonical_dns (url_hostname u')" "\<not> isOpenShellMcpHostAlias (url_hostname u')"
    "\<not> hasSecretShapedMcpPathSegment (url_pathname u')"
    "traverse normalizeTrustedPrivateHost trusted = Inr hosts"
    "toLower (url_hostname u') \<in> set hosts \<longrightarrow> \<not> isLoopbackHostname (url_hostname u')"
    "isBlockedMcpUrlTargetHost (url_hostname u') \<longrightarrow> toLower (url_hostname u') \<in> set hosts"
    by (rule normalized_url [OF assms(1)])
  have u: "u' = u" using h(1) assms(2) by simp
  have "\<exists>x \<in> set trusted. normalizeTrustedPrivateHost x = Inr (url_hostname u)"
    if "reserved_name (url_hostname u) shipped_reserved \<or> isPrivateIpInBlockList (url_hostname u) shipped_blocks"
    using that mcp_name [OF h(9,10)] h(14) traverse_origin [OF h(12)] canonical_dns_normal(3) [OF h(9)]
    unfolding u by auto
  then show ?thesis
    using h(3-11) normalized_url_not_loopback [OF assms] unfolding u by (simp add: MCP_SERVER_URL_MAX_LENGTH_def)
qed

lemma demo_normalized: "normalizeMcpServerUrl demo_bridge ''https://a.example/'' [''a.example''] = Inr ''https://a.example/''"
proof -
  have "\<not> hasSecretShapedMcpPathSegment ''/''" by (simp add: hasSecretShapedMcpPathSegment_def)
  moreover have "canonical_dns ''a.example''"
    by (simp add: canonical_dns_def MCP_DNS_LABEL_RE_def dns_label_def dns_char_def is_lower_def is_digit_def code_def)
  moreover have "\<not> path_not_literal ''https://a.example/'' demo_endpoint"
    by (simp add: path_not_literal_def demo_endpoint_def starts_with_def)
  ultimately show ?thesis
    using demo_name(4) demo_hosts
    by (simp add: normalizeMcpServerUrl_def demo_bridge_def MCP_SERVER_URL_MAX_LENGTH_def Let_def trusted_hosts_def
        rejectUnsupportedOpenShellMcpIpv6Literal_def rejectUnsupportedOpenShellMcpHostAlias_def
        validateMcpServerUrlTarget_def validateCanonicalMcpDnsHostname_def canonical_dns_def
        isOpenShellMcpHostAlias_def canonical_dns_normal OPENSHELL_HOST_ALIASES_def demo_endpoint_def starts_with_def
        ends_with_def toLower_def code_def)
qed

theorem mcp_url_sound_witness:
  "normalizeMcpServerUrl demo_bridge ''https://a.example/'' [''a.example''] = Inr ''https://a.example/''
     \<and> \<not> isLoopbackHostname (url_hostname demo_endpoint) \<and> canonical_dns (url_hostname demo_endpoint)"
proof -
  have "bp_parse demo_bridge ''https://a.example/'' = Some demo_endpoint" by (simp add: demo_bridge_def)
  then show ?thesis using mcp_url_sound [OF demo_normalized] demo_normalized by blast
qed

text \<open>
  C29: what the preflight of a server URL pins can be used by the code that revalidates a URL later. In every
  state that calls reach after the preflight, \<open>parseMcpUrlWithValidatedTarget\<close> accepts the pins
  and the capability of a private target and goes on to check that the URL has the pinned host; a public
  target is accepted as well, except that one with a pin of the form \<open>::ffff:...\<close>, which the preflight admits
  when the embedded IPv4 address is public, is refused. Nothing changes the state.
\<close>

theorem mcp_target_reusable:
  assumes "preflightMcpServerUrlResolvedTarget p u trusted req w = (Inr t, w')" "bp_parse p (pu_href u) = Some u"
    "tw_issued w0 = []" "trust_reach (bp_parseUrl p) w0 w" "\<forall>h x. trust_reach (bp_parseUrl p) x (snd (bp_lookup p h x))"
    "trust_reach (bp_parseUrl p) w' w''" "cw_cached (tw_networks w') = Some l" "ln_blockList l = shipped_blocks"
  shows "parseMcpUrlWithValidatedTarget p raw t w'' =
     ((case tv_trustedPrivateHost t of
         None \<Rightarrow> if list_ex (starts_with ''::ffff:'') (tv_addresses t) then Inl PublicPinBlocked
                 else andThen (normalizeMcpServerUrl p raw []) (new_url p)
       | Some h \<Rightarrow> andThen (new_url p raw) (\<lambda>parsed.
           case normalizeTrustedPrivateHost (url_hostname parsed) of
             Inl e \<Rightarrow> Inl (EndpointError e)
           | Inr n \<Rightarrow> if n \<noteq> h then Inl (TargetHostDiffers h (url_hostname parsed))
                      else andThen (normalizeMcpServerUrl p raw [h]) (new_url p))), w'')"
proof -
  obtain l' v where t: "target_ok l' trusted v t w'" using target_ran [OF assms(1,2)] by blast
  have "serves_table l' v" "w' = opened v \<or> (\<exists>h. w' = issue h (tv_addresses t) (opened v))"
    using t by (auto simp: target_ok_def split: option.splits)
  then have "cw_cached (tw_networks w') = Some l'" using opened_cached by (auto simp: issue_def)
  then have l: "l' = l" using assms(7) by simp
  have "grows x (snd (bp_lookup p h x))" for h x using reach_grows assms(5) by blast
  then have "grows w w'" using target_grows [of p w u trusted req] assms(1) by simp
  then have ok: "trust_ok w'" using reached_ok [OF assms(4,3)] by (simp add: grows_def)
  then have ok': "trust_ok w''" "extends w' w''" using reach_grows [OF assms(6)] by (simp_all add: grows_def)
  have pins: "canonical_pin_set (tv_addresses t)" using t pin_list_canonical by (simp add: target_ok_def)
  show ?thesis
  proof (cases "tv_trustedPrivateHost t")
    case None
    then have "tv_trustedPrivateCapability t = None"
      "list_ex isBlockedMcpUrlTargetHost (tv_addresses t) \<longleftrightarrow> list_ex (starts_with ''::ffff:'') (tv_addresses t)"
      using t public_pins_blocked assms(8) by (auto simp: target_ok_def l)
    then show ?thesis using None pins by (simp add: parseMcpUrlWithValidatedTarget_def)
  next
    case (Some h)
    then have c: "tv_trustedPrivateCapability t \<noteq> None" "h \<noteq> []"
      using t trusted_nonempty by (auto simp: target_ok_def capability_ok_def)
    then show ?thesis
      using Some pins authority_accepted [OF t Some ok ok', of AuthorityMismatch]
      by (auto simp: parseMcpUrlWithValidatedTarget_def Let_def bind_def endpoint_call_def split: sum.splits)
  qed
qed

lemma demo_target:
  assumes "serves_table l demo_trust" "ln_blockList l = shipped_blocks" "ln_normalisedNames l = shipped_reserved"
  shows "preflightMcpServerUrlResolvedTarget demo_bridge demo_endpoint [''a.example''] True demo_trust =
    (Inr \<lparr>tv_addresses = [''10.0.0.0''], tv_trustedPrivateCapability = Some 0, tv_trustedPrivateHost = Some ''a.example''\<rparr>,
     issue ''a.example'' [''10.0.0.0''] (opened demo_trust))"
proof -
  let ?w = "issue ''a.example'' [''10.0.0.0''] (opened demo_trust)"
  have "cw_cached (tw_networks ?w) = Some l" using opened_cached [OF assms(1)] by (simp add: issue_def)
  then have w: "serves_table l ?w" "opened ?w = ?w" using cached_serves by blast+
  have issued: "issued_capability ?w (CapabilityObject 0) = Some \<lparr>cap_host = ''a.example'', cap_addresses = [''10.0.0.0'']\<rparr>"
    using issue_issued [of "''a.example''" "[''10.0.0.0'']" "opened demo_trust"] by (simp add: demo_trust_def)
  have authority: "private_authority e ''a.example'' [''10.0.0.0''] (CapabilityObject 0) ?w =
      (Inr \<lparr>ep_host = ''a.example'', ep_addresses = [''10.0.0.0''], er_trustedPrivateCapability = CapabilityObject 0\<rparr>, ?w)" for e
    using assert_fixed [OF w(1) demo_pins(2) [OF assms(2)] issued, of True] w(2) demo_address(2)
    by (simp add: private_authority_def)
  have dns: "canonical_dns ''a.example''"
    by (simp add: canonical_dns_def MCP_DNS_LABEL_RE_def dns_label_def dns_char_def is_lower_def is_digit_def code_def)
  have unaliased: "\<not> isOpenShellMcpHostAlias ''a.example''"
    by (simp add: isOpenShellMcpHostAlias_def canonical_dns_normal [OF dns] OPENSHELL_HOST_ALIASES_def)
  have pinned: "pinned_targets demo_endpoint (admitted [''10.0.0.0''] (Some 0)) = [''10.0.0.0'']"
    using demo_address(1) by (intro pinned_answers) (simp_all add: pin_list_def admitted_def)
  have call: "endpoint_call (assertEndpointResolvesPublic (bp_parseUrl demo_bridge) demo_resolver ''https://a.example/'' [''a.example'']) demo_trust
      = (Inr (admitted [''10.0.0.0''] (Some 0)), ?w)"
    using demo_preflight [OF assms] by (simp add: endpoint_call_def)
  have name: "endpoint_call (lift_res (normalizeTrustedPrivateHost ''a.example'')) ?w = (Inr ''a.example'', ?w)"
    by (simp add: endpoint_call_def demo_name)
  have fields: "url_hostname demo_endpoint = ''a.example''" "pu_href demo_endpoint = ''https://a.example/''"
    "bp_lookup demo_bridge = demo_resolver" "trusted_hosts [''a.example''] = Inr [''a.example'']"
    "pf_ok (admitted [''10.0.0.0''] (Some 0))" "pf_trustedPrivateEndpoint (admitted [''10.0.0.0''] (Some 0))"
    "pf_trustedPrivateCapability (admitted [''10.0.0.0''] (Some 0)) = Some 0"
    by (simp_all add: demo_endpoint_def demo_bridge_def trusted_hosts_def demo_name admitted_def)
  have free: "\<not> isBlockedMcpUrlTargetHost ''a.example''" using mcp_name [OF dns unaliased] demo_hosts by simp
  show ?thesis
    unfolding preflightMcpServerUrlResolvedTarget_def Let_def fields pinned
    using unaliased free call name authority fields pinned
    by (simp add: rejectUnsupportedOpenShellMcpIpv6Literal_def rejectUnsupportedOpenShellMcpHostAlias_def
        starts_with_def capability_argument_def bind_def)
qed

theorem mcp_target_reusable_witness:
  "\<exists>t w'. preflightMcpServerUrlResolvedTarget demo_bridge demo_endpoint [''a.example''] True demo_trust = (Inr t, w')
     \<and> parseMcpUrlWithValidatedTarget demo_bridge ''https://a.example/'' t w' = (Inr demo_endpoint, w')"
proof -
  obtain l where l: "serves_table l demo_trust" "ln_blockList l = shipped_blocks" "ln_normalisedNames l = shipped_reserved"
    by (rule demo_table)
  let ?w = "issue ''a.example'' [''10.0.0.0''] (opened demo_trust)"
  have parse: "bp_parse demo_bridge (pu_href demo_endpoint) = Some demo_endpoint"
    "url_hostname demo_endpoint = ''a.example''" "new_url demo_bridge ''https://a.example/'' = Inr demo_endpoint"
    by (simp_all add: demo_bridge_def demo_endpoint_def new_url_def)
  have none: "tw_issued demo_trust = []" by (simp add: demo_trust_def)
  have lookup: "\<forall>h x. trust_reach (bp_parseUrl demo_bridge) x (snd (bp_lookup demo_bridge h x))"
    by (simp add: demo_bridge_def demo_resolver_def trust_reach.start)
  have cached: "cw_cached (tw_networks ?w) = Some l" using opened_cached [OF l(1)] by (simp add: issue_def)
  show ?thesis
    using mcp_target_reusable [OF demo_target [OF l] parse(1) none trust_reach.start lookup trust_reach.start cached l(2),
        of "''https://a.example/''"] demo_target [OF l] demo_normalized
    by (simp add: parse demo_name)
qed

end
