(* ===== verification/Spec2Isabelle.thy ===== *)
theory Spec2Isabelle
  imports Flow_Facts Checkpoint_Ledger Endpoint_Facts Lock_Facts Registry_Properties Trust_Properties
begin

text \<open>
  A verification library for the onboarding core, the sandbox registry and the endpoint guards of
  NemoClaw.

  NemoClaw installs a sandboxed agent. Its command line walks an explicit state machine from
  \<open>init\<close> to \<open>complete\<close> or \<open>failed\<close>, records the progress in a session file so that a run that was
  interrupted can be resumed, and reports what it does as events. The sandboxes it installed are the
  rows of a registry file that every later command reads and changes. The endpoints it connects to,
  of inference providers and of MCP servers, pass a guard against requests to internal networks.
  This library models all three from the sources under \<open>src/src/lib\<close> and proves what makes them correct.

  \<^bold>\<open>Parts and theories.\<close>
  \<^item> \<open>Nemo_Prelude\<close>: JSON values (\<open>js\<close>, with \<open>undefined\<close> and numbers that JSON cannot hold), the
    effect type \<open>eff\<close> (a state passing function with an error), strings, association lists and the
    collections \<open>js_simps\<close>, \<open>eff_simps\<close> the other theories use.
  \<^item> \<open>Onboard_Machine\<close>: \<open>onboard/machine/definition.ts\<close>, \<open>types.ts\<close>, \<open>transitions.ts\<close>, \<open>result.ts\<close>,
    \<open>progress.ts\<close>, the step table of \<open>events.ts\<close>, \<open>state/onboard-step-state.ts\<close>. The locale
    \<open>state_graph\<close> bounds the runs of a graph with a rank; it is interpreted on the transition table.
  \<^item> \<open>Session_Values\<close>: sandbox names, web search, tool disclosure, reasoning effort, canonical
    timestamps, serving provenance and the Express resume intent, with the locale \<open>codec\<close> of a reader and a
    writer that are inverse on the valid values, interpreted for every such pair.
  \<^item> \<open>Checkpoint\<close>, \<open>Checkpoint_Codec\<close>: the durable checkpoint
    (\<open>state/onboard-checkpoint*.ts\<close>), its parsers, its serializer, and their round trip.
  \<^item> \<open>Session_Model\<close>, \<open>Session_Normalize\<close>: the session record of \<open>state/onboard-session.ts\<close>,
    \<open>createSession\<close>, \<open>normalizeSession\<close>, the invariant \<open>wf_session\<close> and its preservation.
  \<^item> \<open>Session_Store\<close>, \<open>Store_Facts\<close>: machine events and the session file: load, save, update, the
    safe updates, the step operations, the terminal backstop, completion and receipt retirement.
  \<^item> \<open>Onboard_Runtime\<close>, \<open>Runtime_Facts\<close>: the class \<open>OnboardRuntime\<close> of \<open>machine/runtime.ts\<close>. A
    method named \<open>m\<close> is \<open>rt_m\<close> where the store already has an \<open>m\<close>.
  \<^item> \<open>Onboard_Runner\<close>: \<open>runOnboardMachine\<close> of \<open>machine/runner.ts\<close>. The locale \<open>machine_runtime\<close> says
    what the runner needs of a runtime; \<open>Runtime_Facts\<close> interprets it on the runtime above.
  \<^item> \<open>Onboard_Flow\<close>, \<open>Flow_Facts\<close>: the sequence adapter, the initial, core and final slice, the
    prerequisite repairs and the handoffs. The locale \<open>flow_runtime\<close> extends the runner's view by the
    recorder of repair events and is interpreted on the runtime and \<open>runtime-boundary.ts\<close>.
  \<^item> \<open>Session_Resume\<close>: what happens before the first slice of a resumed run: the repair policy and recovery
    of the machine (\<open>onboard/resume-repair-policy.ts\<close>, \<open>onboard/resume-machine-repair.ts\<close>,
    \<open>onboard/session-recovery.ts\<close>), the checkpoint for the resume (\<open>state/onboard-checkpoint-migrate.ts\<close>), the
    conflicts with the recorded settings (\<open>onboard/resume-config.ts\<close>) and \<open>onboard/session-bootstrap.ts\<close>.
  \<^item> \<open>Nemo_Text\<close>, \<open>Checkpoint_Ledger\<close>: the recorders of the checkpoint and the replay of its effect groups
    (\<open>onboard/checkpoint-record.ts\<close>, \<open>onboard/checkpoint-replay.ts\<close>) with the invariant \<open>ledger_ok\<close>.
  \<^item> \<open>Private_Networks\<close>, \<open>Network_Facts\<close>, \<open>Endpoint_Facts\<close>: the guard against internal networks, of the command
    line and of the plugin, its table \<open>private-networks.yaml\<close>, and the validation of endpoint URLs. Addresses
    are 32 and 128 bit words; the facts relate the block list to a predicate over octets and groups.
  \<^item> \<open>Trusted_Endpoint\<close>, \<open>Ipv6_Text\<close>, \<open>Trust_Facts\<close>, \<open>Trust_Preflight\<close>, \<open>Trust_Tables\<close>: endpoints an operator trusts
    on a private network (\<open>security/trusted-private-endpoint.ts\<close>, \<open>inference/endpoint-ssrf-preflight.ts\<close>) and the
    hosts refused to MCP servers (\<open>security/mcp-url-target.ts\<close>): canonical hosts and addresses, the preflight and the
    capabilities it issues. \<open>trust_reach\<close> relates the states that calls of the module lead to, also while a
    preflight waits for the resolver; the locale \<open>trust_call\<close> is the contract of a call, \<open>trust_ok\<close> the invariant.
  \<^item> \<open>Mcp_Bridge_Url\<close>, \<open>Mcp_Bridge_Facts\<close>: the URLs of MCP servers and their pinned targets
    (\<open>actions/sandbox/mcp-bridge-url-validation.ts\<close>, with the token patterns of \<open>security/secret-patterns.ts\<close>).
    \<open>Trust_Properties\<close> states the properties of both groups.
  \<^item> \<open>Onboard_Lock\<close>, \<open>Lock_Facts\<close>: the onboarding lock of \<open>state/onboard-session.ts\<close> as a transition system of
    processes whose file system calls interleave, with its invariant \<open>lock_inv\<close>.
  \<^item> \<open>Registry_Values\<close>, \<open>Registry_Receipts\<close>, \<open>Registry_Codec\<close>: the values in a registry row
    (\<open>state/registry-normalization.ts\<close>, \<open>state/extra-providers.ts\<close>, \<open>inference/selection.ts\<close>,
    \<open>state/registry/workload.ts\<close>, \<open>onboard/workload/native-artifact.ts\<close>, \<open>state/registry-mcp.ts\<close>), JavaScript
    objects as dictionaries, and that what a validator accepted is stored and read back unchanged.
  \<^item> \<open>Registry_Lock\<close>: the lock directory of the registry (\<open>state/registry/lock.ts\<close>) as a function of what
    the file system answers in each round.
  \<^item> \<open>Registry_Model\<close>, \<open>Registry_Store\<close>, \<open>Registry_Authority\<close>: rows and the registry
    (\<open>state/registry/persistence.ts\<close>, \<open>state/registry-reversible-removal.ts\<close>), every operation of
    \<open>state/registry.ts\<close>, \<open>state/registry-messaging.ts\<close>, \<open>state/registry/lifecycle-generation.ts\<close> and
    \<open>state/registry/rebuild-authority.ts\<close> on the file.
  \<^item> \<open>Registry_Facts\<close>, \<open>Registry_Reload\<close>, \<open>Registry_Journal\<close>, \<open>Registry_History\<close>, \<open>Registry_Rebuild\<close>: the locale
    \<open>registry_mutation\<close> is the contract of an operation that locks, loads, changes and saves; it is interpreted on
    every mutation. The facts follow the default pointer over any sequence of calls, what the next load makes
    of a saved registry, the specification \<open>baseline_step\<close> of the baseline journal and its simulation, removal and
    restoration, and the swap of a rebuilt sandbox. \<open>Registry_Properties\<close> states the properties.

  \<^bold>\<open>State and effects.\<close> The world (\<open>onboard_world\<close>) holds the session file as parsed JSON, the
  events emitted so far, the installer receipt, the onboarding lock and a clock tick: every call of
  \<open>new Date()\<close> takes the next tick and reads \<open>env_clock\<close>. An operation is a function from a world to
  a result, an error of \<open>onboard_error\<close> or a value, and the next world. The record \<open>session_env\<close>
  holds what is outside the modelled code: the URL parser and the clock of the platform, SHA-256,
  UUIDs, the catalogue of Express models, the messaging plan codec and the secret patterns of the
  redactor. What a theorem needs of them is a named hypothesis (\<open>origin_reparses\<close>, \<open>good_env\<close>,
  \<open>stable_session\<close>, \<open>restorable_plan\<close>, \<open>platform_ok\<close>); the root theory has an environment that satisfies them.
  Handlers, phases and callbacks are arbitrary actions on the world; \<open>quiet\<close> and \<open>quiet_phase\<close> say
  that they do not move the stored machine themselves.

  The registry has a world of its own (\<open>registry_world\<close>): the file, what each write, lock round and release
  answers, and the clock. A row is the JavaScript object it is in the program, as loads and saves copy the
  members they do not know. The record \<open>registry_env\<close> holds the functions of other packages: SHA-256, the
  decoder of startup profiles, the URL parser, the check of pinned policy content and the parser and the
  compaction of messaging plans, and the state of the network guard; the registry properties hold for all of them.

  The endpoint guards have the world \<open>trust_world\<close>: the table of networks with its cache, the capabilities
  issued so far by reference, and the next reference. A capability is a frozen object that only its module can
  issue: a caller has a reference, and the check looks it up among the issued ones. The URL parser and the
  resolver are arguments; a resolver returns an arbitrary answer and, in the theorems about
  histories, any state that calls reach.

  \<^bold>\<open>Loops.\<close> The runner's loop is a terminating function: its measure is what is left of the
  transition limit, \<open>DEFAULT_MAX_TRANSITIONS\<close> (100) unless the caller sets one, as in the code. No
  definition has fuel of its own.

  \<^bold>\<open>What the properties show.\<close> C1: the transition graph. C2, C3: checkpoints. C4 to C8: normalization and
  the session file. C9 to C11: the runtime. C12, C13: the runner. C14, C15: the flow. C16, C17: recovery and
  resume. C18: the provider ledger. C19 to C21: the network guard. C22 to C24: the preflight, its capabilities and
  their replay. C25, C26: canonical addresses and the networks an operator can trust. C27 to C29: MCP servers. C30
  to C32: the onboarding lock. C33 to C36: the default sandbox, its removal and restoration. C37, C38: the registry
  file. C39: the baseline journal. C40: the rebuild swap. The other theorems of the root theory (the terminal
  states, the Express intent, safe updates, single steps, repairs, the ends of the initial and core slices) are
  kept beside them.

  \<^bold>\<open>Not modelled.\<close> The state handlers and everything that talks to Docker, the gateway, the network
  or the terminal (a handler is an arbitrary action here); the patterns of the redactor, apart from the token
  prefixes that an MCP URL is tested for; the gateway policy that enforces the pins; the
  crash recovery of the installer receipt's claim directories (a receipt is missing, refused or of
  one generation); event listeners, progress output and the debug summary, which do not change
  the session; two processes that write the session file at once (the lock of the last group is what
  keeps them apart; the store's own view of it is held or free). In the registry, operations of other processes
  between two calls are calls of the same list, and a call is one step: the lock directory is what makes it
  one, and the interleaving of its file system calls is not modelled. Of the platform, file errors other
  than a missing file are modelled for the write of the lock's payload only.
\<close>

section \<open>A concrete installation for the witnesses\<close>

text \<open>
  A URL parser that knows one loopback address, a redactor that leaves text alone, no messaging
  plan and no Express model; a session file that holds a fresh session.
\<close>

definition local_url :: url where
  "local_url = \<lparr>url_protocol = ''http:'', url_hostname = ''127.0.0.1'', url_port = ''8080'',
     url_username = [], url_password = [], url_search = [], url_hash = [], url_pathname = ''/'',
     url_origin = ''http://127.0.0.1:8080''\<rparr>"

definition local_parser :: url_parser where
  "local_parser s =
     (if s = ''http://127.0.0.1:8080'' \<or> s = ''http://127.0.0.1:8080/'' then Some local_url else None)"

definition demo_model :: vllm_model where
  "demo_model = \<lparr>vm_envValue = ''nemotron'', vm_id = ''nvidia/nemotron'', vm_servedModelId = None\<rparr>"

definition demo_catalog :: express_catalog where
  "demo_catalog =
     \<lparr>ec_station = (\<lambda>m. if m = ''nemotron'' then Some demo_model else None), ec_spark = (\<lambda>_. None)\<rparr>"

definition demo_env :: session_env where
  "demo_env =
     \<lparr>env_replaceSecrets = id, env_redactUrlToken = (\<lambda>_. None), env_parsePlan = (\<lambda>_. None),
      env_parsePlanFor = (\<lambda>_ _. None), env_compactPlan = (\<lambda>_. JNull),
      env_activeChannels = (\<lambda>_. []), env_disabledChannels = (\<lambda>_. []),
      env_sha256Json = (\<lambda>_. replicate 64 CHR ''0''), env_catalog = demo_catalog, env_parseUrl = local_parser,
      env_clock = (\<lambda>_. ''2026-01-01T00:00:00.000Z''), env_freshId = (\<lambda>_. ''demo'')\<rparr>"

definition demo_session :: session where
  "demo_session = createSession demo_env 0 (JObj [])"

definition session_on_disk :: "session \<Rightarrow> onboard_world" where
  "session_on_disk s =
     \<lparr>w_tick = 0, w_file = FileJson (json_persist (serializeSessionForDisk demo_env s)), w_events = [],
      w_receipt = ReceiptMissing, w_lockHeld = False, w_lockFree = True\<rparr>"

definition demo_authority :: gateway_authority where
  "demo_authority =
     \<lparr>ga_gatewayName = canonicalGatewayName 8080, ga_gatewayPort = 8080, ga_mode = ExternallySupervised,
      ga_source = Declared, ga_endpoint = Some ''http://127.0.0.1:8080'',
      ga_stateDir = Some ''/var/lib/openshell'',
      ga_supervisor = Some \<lparr>gs_kind = SystemdSystem, gs_serviceName = ''openshell-gateway.service'',
        gs_execPath = ''/usr/bin/openshell-gateway''\<rparr>,
      ga_requiredCapabilities = []\<rparr>"

definition demo_checkpoint :: checkpoint where
  "demo_checkpoint =
     \<lparr>cp_sessionId = ''demo'', cp_machineState = Gateway, cp_updatedAt = ''2026-01-01T00:00:00.000Z'',
      cp_sandboxIdentity = Declined, cp_webSearch = Unset,
      cp_messaging = Selected \<lparr>ms_selectedChannels = [''telegram''], ms_disabledChannels = []\<rparr>,
      cp_resourceProfile = Selected \<lparr>rp_cpu = ''4'', rp_memory = ''8Gi''\<rparr>,
      cp_gatewayAuthority = Selected demo_authority, cp_effectGroups = [],
      cp_bindings = \<lparr>cb_credentialEnvs = [''NVIDIA_API_KEY''], cb_registeredProviders = []\<rparr>,
      cp_sandboxRecreate = None\<rparr>"

lemma local_parser_reparses: "origin_reparses local_parser"
  by (auto simp: origin_reparses_def local_parser_def local_url_def split: if_splits)

lemma demo_env_good: "good_env demo_env"
  using local_parser_reparses by (simp add: good_env_def demo_env_def)

lemma demo_url: "origin_reparses (env_parseUrl demo_env)"
  using demo_env_good by simp

lemma demo_plain: "plain demo_session"
  by (simp add: demo_session_def plain_def)

lemma demo_holds: "holds demo_env (session_on_disk demo_session) demo_session"
  using demo_env_good demo_plain
  by (simp add: holds_def session_on_disk_def wf_storable demo_session_def)

lemma demo_checkpoint_wf: "wf_checkpoint local_parser demo_checkpoint"
  by code_simp (simp add: recreate_consistent_def)

lemma demo_stable: "stable_session demo_env demo_session"
  by (simp add: stable_session_def demo_session_def defaultSteps_def pending_step_def redactUrl_def
      stable_text_def redactSensitiveText_def list_all_iff) (simp add: demo_env_def)


lemma demo_normalizes:
  "normalizeSession demo_env 0 False (session_to_js demo_session) = Some demo_session"
  using normalizeSession_stable [OF demo_url _ demo_stable, of 0] by (simp add: demo_session_def)

definition retiring_session :: session where
  "retiring_session =
     demo_session\<lparr>s_sandboxName := Some ''my-assistant'',
       s_stationExpressReceiptRetirement := Some ''0123456789abcdef0123456789abcdef''\<rparr>"

lemma demo_intent_valid: "valid_intent demo_catalog (StationIntent ''nemotron'' ''my-assistant'' None None None)"
  by code_simp

lemma demo_binding:
  "bindStationExpressProviderSelection demo_catalog (StationIntent ''nemotron'' ''my-assistant'' None None None)
     (JStr ''vllm-local'') (JStr ''nvidia/nemotron'') (JStr ''Nvidia/Nemotron'')
   = Inr (StationIntent ''nemotron'' ''my-assistant'' None (Some ''nvidia/nemotron'') (Some ''nvidia/nemotron''))"
  by code_simp

lemma retiring_session_pending:
  "s_stationExpressReceiptRetirement retiring_session = Some ''0123456789abcdef0123456789abcdef''"
  "is_hex_string 32 ''0123456789abcdef0123456789abcdef''" "s_status retiring_session \<noteq> ''complete''"
proof -
  show "is_hex_string 32 ''0123456789abcdef0123456789abcdef''" by code_simp
qed (simp_all add: retiring_session_def demo_session_def)

lemma demo_current:
  "current_session demo_env (session_on_disk demo_session) = reloaded demo_env 0 demo_session"
  using load_reloaded(2) holdsD [OF demo_holds] by (simp add: session_on_disk_def)

lemma demo_preflight_pending: "map_of (s_steps demo_session) ''preflight'' = Some pending_step"
  by (simp add: demo_session_def defaultSteps_def STEP_NAMES_def)

lemma demo_preflight_reloaded:
  "map_of (s_steps (reloaded demo_env 0 demo_session)) ''preflight'' = Some pending_step"
  using demo_preflight_pending
  by (simp add: redact_step_def pending_step_def redactSensitiveText_def)

lemma demo_live: "\<not> isTerminalOnboardMachineState (ms_state (s_machine demo_session))"
  by (simp add: demo_session_def createMachineSnapshot_def)

lemma demo_start: "ms_state (s_machine demo_session) = Init" "ms_revision (s_machine demo_session) = 0"
  by (simp_all add: demo_session_def createMachineSnapshot_def)

definition verified_session :: session where
  "verified_session = demo_session\<lparr>s_machine := createMachineSnapshot PostVerify None 9\<rparr>"

lemma verified_state: "ms_state (s_machine verified_session) = PostVerify"
  by (simp add: verified_session_def createMachineSnapshot_def)

lemma verified_holds: "holds demo_env (session_on_disk verified_session) verified_session"
proof -
  have "plain verified_session" using demo_plain by (simp add: verified_session_def plain_def)
  moreover have "storable demo_env demo_session" by (simp add: demo_session_def wf_storable)
  ultimately have "storable demo_env verified_session"
    using demo_plain by (simp add: plain_storable verified_session_def fields_ok_def)
  then show ?thesis
    using demo_env_good \<open>plain verified_session\<close> by (simp add: holds_def session_on_disk_def)
qed






definition demo_phase :: "(unit, onboard_world) sequence_phase" where
  "demo_phase =
     \<lparr>ph_state = Preflight,
      ph_run = (\<lambda>ctx. ret (ctx, [TransitionResult Gateway (Some Advance) JUndef
                                  (JObj [(''state'', JStr ''preflight'')])]))\<rparr>"


lemma demo_phase_quiet: "quiet_phase okay state_of demo_phase"
  unfolding demo_phase_def by (rule quiet_ret)

definition advancing_phase :: "machine_state \<Rightarrow> machine_state \<Rightarrow> (unit, onboard_world) sequence_phase" where
  "advancing_phase st nxt =
     \<lparr>ph_state = st, ph_run = (\<lambda>ctx. ret (ctx, [TransitionResult nxt (Some Advance) JUndef
        (JObj [(''state'', JStr (state_id st))])]))\<rparr>"

lemma advancing_quiet: "quiet_phase okay state_of (advancing_phase st nxt)"
  unfolding advancing_phase_def by (rule quiet_ret)

lemma advancing_advances: "advances env (advancing_phase st nxt) nxt"
  by (auto simp: advances_def advancing_phase_def names_source_def)

lemma demo_initial_run:
  "\<exists>c s w'. runInitialOnboardFlowSlice (persistent_runtime demo_env) (recordRepairEvent demo_env (\<lambda>_. []))
        [advancing_phase Preflight Gateway, advancing_phase Gateway ProviderSelection] resume ()
        (session_on_disk demo_session) = (Inr (c, s), w')"
  using initial_slice_run [OF demo_holds demo_start(1) _ advancing_advances _ advancing_advances,
      of Preflight Gateway "\<lambda>_. []" resume "()"]
  by (auto simp: advancing_phase_def)



section \<open>The state machine\<close>

text \<open>
  The transition check accepts exactly the edges of the transition table: it returns the one
  edge between the two states when there is one, and otherwise reports the two states.
\<close>

theorem transition_check_exact:
  "(assertValidOnboardMachineTransition f t = Inr tr \<longleftrightarrow>
      tr \<in> set ONBOARD_MACHINE_TRANSITIONS \<and> tr_from tr = f \<and> tr_to tr = t)
   \<and> (assertValidOnboardMachineTransition f t = Inl e \<longleftrightarrow>
      e = InvalidOnboardMachineTransition f t \<and> \<not> canTransitionOnboardMachineState f t)"
  using assert_valid_Inr_iff [of f t tr] get_transition_iff [of f t tr] assert_valid_InlD [of f t]
    assert_valid_Inr_ex [of f t]
  by (cases "assertValidOnboardMachineTransition f t") auto

text \<open>
  Exactly the terminal states have no way out, every other state can fail, and only
  \<open>post_verify\<close> can complete.
\<close>

theorem terminal_states_final:
  "(isTerminalOnboardMachineState s \<longleftrightarrow> (\<forall>t. \<not> canTransitionOnboardMachineState s t))
   \<and> (canTransitionOnboardMachineState s Failed \<longleftrightarrow> \<not> isTerminalOnboardMachineState s)
   \<and> (canTransitionOnboardMachineState s Complete \<longleftrightarrow> s = PostVerify)"
  using terminal_no_transition can_fail_iff can_complete_iff by blast

text \<open>
  C1: a run of the machine is at most eleven steps long, plus two for every retry of the
  provider selection; without retries onboarding cannot go round in circles.
\<close>

theorem run_length_by_retries:
  assumes "run_from canTransitionOnboardMachineState s ts"
  shows "length ts \<le> 11 + 2 * count_retries is_retry_edge s ts"
  using onboard_graph.run_length_bound [OF assms] flow_rank_le [of "last (s # ts)"] by linarith

theorem run_length_by_retries_witness:
  "length [Preflight, Gateway, ProviderSelection, Inference, ProviderSelection, Inference]
     \<le> 11 + 2 * count_retries is_retry_edge Init
          [Preflight, Gateway, ProviderSelection, Inference, ProviderSelection, Inference]"
  by (rule run_length_by_retries) code_simp

text \<open>
  The state that follows a completed session step is one the machine may enter from the
  state of that step.
\<close>

theorem completed_step_advances:
  assumes "machineStateFromOnboardSessionStep (Some n) = Some s"
    and "nextMachineStateAfterCompletedStep (Some n) agent = Some t"
  shows "canTransitionOnboardMachineState s t"
  using assms by (rule completed_step_edge)

theorem completed_step_advances_witness:
  "canTransitionOnboardMachineState Sandbox AgentSetup"
  by (rule completed_step_advances [of "''sandbox''" _ "Some ''hermes''"]) code_simp+

section \<open>Checkpoints\<close>

text \<open>
  C2: a well-formed checkpoint survives the file: after serialization and a JSON round trip the
  inspection loads the same checkpoint, without migration.
\<close>

theorem checkpoint_round_trip:
  assumes "wf_checkpoint parse_url c" "origin_reparses parse_url"
  shows "inspectCheckpoint parse_url (json_persist (serializeCheckpoint c)) = CheckpointLoaded c"
  using inspect_written [OF assms] json_persist_clean(1) [OF serialize_clean [OF assms]] by simp

theorem checkpoint_round_trip_witness:
  "inspectCheckpoint local_parser (json_persist (serializeCheckpoint demo_checkpoint))
     = CheckpointLoaded demo_checkpoint"
  by (rule checkpoint_round_trip [OF demo_checkpoint_wf local_parser_reparses])

text \<open>
  C3: whatever the stored value, a checkpoint that the inspection returns is well formed, and
  saving it and inspecting it again returns the same checkpoint: a migrated checkpoint needs no
  second migration.
\<close>

theorem checkpoint_inspection_sound:
  assumes "origin_reparses parse_url" "loaded_checkpoint (inspectCheckpoint parse_url raw) = Some c"
  shows "wf_checkpoint parse_url c \<and> inspectCheckpoint parse_url (serializeCheckpoint c) = CheckpointLoaded c"
  using inspect_valid [OF assms] inspect_written assms(1) by blast

theorem checkpoint_inspection_sound_witness:
  "wf_checkpoint local_parser demo_checkpoint
   \<and> inspectCheckpoint local_parser (serializeCheckpoint demo_checkpoint) = CheckpointLoaded demo_checkpoint"
  by (rule checkpoint_inspection_sound [OF local_parser_reparses, of "serializeCheckpoint demo_checkpoint"])
    (simp add: inspect_written [OF demo_checkpoint_wf local_parser_reparses] loaded_checkpoint_def)

text \<open>
  Schema versions. A checkpoint of a later version is never read; one of version 1 is read
  with no gateway authority and no recreate journal, one of version 2 with no recreate journal.
\<close>

theorem checkpoint_versions:
  assumes "js_get raw ''schemaVersion'' = JNum (NInt v)" "isObjectRecord raw"
  shows "(3 < v \<longrightarrow> inspectCheckpoint parse_url raw = CheckpointUnsupportedFuture v)
    \<and> (inspectCheckpoint parse_url raw = CheckpointMigrated c from \<longrightarrow>
         from = v \<and> cp_sandboxRecreate c = None \<and> (v = 1 \<and> cp_gatewayAuthority c = Unset \<or> v = 2))"
  using assms
  by (auto simp: inspectCheckpoint_def CHECKPOINT_SCHEMA_VERSION_def parseSchema_unset_authority
      parseSchema_no_recreate split: if_splits option.splits)

theorem checkpoint_versions_witness:
  "inspectCheckpoint local_parser (JObj [(''schemaVersion'', JNum (NInt 4))]) = CheckpointUnsupportedFuture 4"
  using checkpoint_versions [of "JObj [(''schemaVersion'', JNum (NInt 4))]" 4 local_parser]
  by (simp add: isObjectRecord_def)
section \<open>Station Express intents\<close>

text \<open>
  An Express resume intent is valid exactly when the parser returns it unchanged from its
  stored form, JSON round trip included.
\<close>

theorem intent_round_trip:
  "valid_intent cat i \<longleftrightarrow>
     parseStationExpressResumeIntent cat (json_persist (express_intent_to_js i)) = Some i"
  using intent.valid_iff_fixpoint [of cat i] by (simp add: json_persist_clean(1))

text \<open>
  Binding a valid intent to a provider selection only accepts the local vLLM provider, gives a
  valid intent for the same model and sandbox that is bound to the selected model, and binding it
  again to the same selection changes nothing, whatever checkpoint is reported then.
\<close>

theorem intent_binding:
  assumes "valid_intent cat i" "bindStationExpressProviderSelection cat i provider model checkpoint = Inr j"
  shows "provider = JStr ''vllm-local'' \<and> valid_intent cat j
     \<and> ei_model j = ei_model i \<and> ei_sandboxName j = ei_sandboxName i
     \<and> (\<exists>served. model = JStr served \<and> ei_servedModel j = Some served)
     \<and> bindStationExpressProviderSelection cat j provider model checkpoint' = Inr j"
  using assms by (rule bind_selection_effect)

theorem intent_binding_witness:
  "valid_intent demo_catalog
     (StationIntent ''nemotron'' ''my-assistant'' None (Some ''nvidia/nemotron'') (Some ''nvidia/nemotron''))"
  using intent_binding [of demo_catalog "StationIntent ''nemotron'' ''my-assistant'' None None None"
      "JStr ''vllm-local''" "JStr ''nvidia/nemotron''" "JStr ''Nvidia/Nemotron''"
      "StationIntent ''nemotron'' ''my-assistant'' None (Some ''nvidia/nemotron'') (Some ''nvidia/nemotron'')"]
    demo_intent_valid demo_binding by blast

section \<open>Sessions\<close>

text \<open>
  C4: whatever is in the session file, a session that normalization accepts satisfies the session
  invariant: its steps are exactly the known ones, machine snapshot, provenance, checkpoint,
  Express intent and configuration values are valid and consistent with each other, and every
  stored error text and endpoint is redacted.
\<close>

theorem normalized_sessions_wf:
  assumes "origin_reparses (env_parseUrl env)" "normalizeSession env t invalid data = Some s"
  shows "wf_session env s"
  using assms by (rule normalizeSession_wf)

theorem normalized_sessions_wf_witness:
  "wf_session demo_env demo_session"
  by (rule normalized_sessions_wf [OF demo_url, of 0 False "session_to_js demo_session"])
    (rule demo_normalizes)

text \<open>
  C5: normalization reproduces a session that satisfies the invariant and whose redacted texts are
  fixed points of redaction: sessions in memory do not drift from save to save.
\<close>

theorem normalization_fixpoint:
  assumes "origin_reparses (env_parseUrl env)" "wf_session env s" "stable_session env s"
  shows "normalizeSession env t (s_invalidToolDisclosure s) (session_to_js s) = Some s"
  using assms by (rule normalizeSession_stable)

theorem normalization_fixpoint_witness:
  "normalizeSession demo_env 5 (s_invalidToolDisclosure demo_session) (session_to_js demo_session)
     = Some demo_session"
  by (rule normalization_fixpoint [OF demo_url _ demo_stable]) (simp add: demo_session_def)

text \<open>
  C6: saving writes a session that satisfies the invariant, redaction included, whatever session it
  is given, and touches nothing but the file.
\<close>

theorem saved_sessions_wf:
  assumes "origin_reparses (env_parseUrl env)"
  shows "\<exists>n w'. saveSession env s w = (Inr n, w') \<and> wf_session env n
     \<and> w_file w' = FileJson (json_persist (serializeSessionForDisk env n))
     \<and> w_events w' = w_events w \<and> w_receipt w' = w_receipt w
     \<and> w_lockHeld w' = w_lockHeld w \<and> w_lockFree w' = w_lockFree w"
  by (cases "saveSession env s w") (use saveSession_wf [OF assms, of s w] in blast)

theorem saved_sessions_wf_witness:
  "\<exists>n w'. saveSession demo_env (demo_session\<lparr>s_routerPid := Some (-1)\<rparr>) (session_on_disk demo_session) = (Inr n, w')
     \<and> wf_session demo_env n"
  using saved_sessions_wf [OF demo_url, of "demo_session\<lparr>s_routerPid := Some (-1)\<rparr>" "session_on_disk demo_session"]
  by blast



text \<open>
  C8: a session with a pending receipt retirement that is put back in progress (as a step
  operation does) is refused by normalization, and saving it then succeeds all the same: the
  file holds a fresh session and the one passed in is lost.
\<close>

theorem pending_retirement_lost:
  assumes "s_stationExpressReceiptRetirement s = Some g" "is_hex_string 32 g" "s_status s \<noteq> ''complete''"
  shows "\<exists>n w'. saveSession env s w = (Inr n, w')
     \<and> n = (createSession env (w_tick w + 2) (JObj []))\<lparr>s_updatedAt := env_clock env (w_tick w + 3)\<rparr>
     \<and> w_file w' = FileJson (json_persist (serializeSessionForDisk env n))"
  using pending_retirement_refused [OF assms] by (simp add: saveSession_def Let_def normalized_or_new_def)

theorem pending_retirement_lost_witness:
  "\<exists>n w'. saveSession demo_env retiring_session (session_on_disk demo_session) = (Inr n, w')
     \<and> s_sandboxName retiring_session = Some ''my-assistant''
     \<and> n = (createSession demo_env 2 (JObj []))\<lparr>s_updatedAt := env_clock demo_env 3\<rparr>"
  using pending_retirement_lost [OF retiring_session_pending, of demo_env "session_on_disk demo_session"]
  by (auto simp: retiring_session_def session_on_disk_def numeral_2_eq_2)
section \<open>Operations on the session file\<close>

text \<open>
  The updates that pass the filter are valid field by field, and assigning them keeps the
  session storable and leaves its identity, status, steps, machine, failure, checkpoint and
  Express state alone.
\<close>

theorem safe_updates_safe:
  assumes "storable env s" "plain s"
  shows "list_all (valid_update env) (filterSafeUpdates env u)
     \<and> storable env (assign_updates (filterSafeUpdates env u) s)
     \<and> s_sessionId (assign_updates (filterSafeUpdates env u) s) = s_sessionId s
     \<and> s_status (assign_updates (filterSafeUpdates env u) s) = s_status s
     \<and> s_steps (assign_updates (filterSafeUpdates env u) s) = s_steps s
     \<and> s_machine (assign_updates (filterSafeUpdates env u) s) = s_machine s
     \<and> s_failure (assign_updates (filterSafeUpdates env u) s) = s_failure s
     \<and> s_checkpoint (assign_updates (filterSafeUpdates env u) s) = s_checkpoint s
     \<and> plain (assign_updates (filterSafeUpdates env u) s)"
  using filterSafeUpdates_valid storable_assign [OF assms] assms(2) by (simp add: plain_def)

theorem safe_updates_safe_witness:
  "storable demo_env (assign_updates (filterSafeUpdates demo_env (JObj [(''sandboxName'', JStr ''box'')])) demo_session)"
  using safe_updates_safe [OF _ demo_plain, of demo_env "JObj [(''sandboxName'', JStr ''box'')]"]
  by (simp add: wf_storable demo_session_def)

text \<open>
  Starting a step marks that step in progress at the current time and clears the failure,
  changes no other step and not the machine, and leaves a valid session in the file.
\<close>

theorem step_started:
  assumes "origin_reparses (env_parseUrl env)" "plain (current_session env w)"
    and "map_of (s_steps (current_session env w)) n = Some step"
  shows "\<exists>s w'. markStepStarted env n w = (Inr s, w') \<and> wf_session env s
     \<and> map_of (s_steps s) n = Some (step\<lparr>st_status := StInProgress,
          st_startedAt := Some (env_clock env (w_tick w + load_ticks env w)), st_completedAt := None,
          st_error := None\<rparr>)
     \<and> (\<forall>k. k \<noteq> n \<longrightarrow> map_of (s_steps s) k =
          map_option (redact_step env) (map_of (s_steps (current_session env w)) k))
     \<and> s_status s = ''in_progress'' \<and> s_failure s = None \<and> s_lastStepStarted s = Some n
     \<and> s_machine s = s_machine (current_session env w) \<and> w_events w' = w_events w
     \<and> w_file w' = FileJson (json_persist (serializeSessionForDisk env s))"
proof -
  obtain r w' where run: "markStepStarted env n w = (r, w')" by fastforce
  show ?thesis
    by (rule markStepStarted_effect [OF assms run], rule exI, rule exI [of _ w'], intro conjI allI impI)
      (simp_all add: run)
qed

theorem step_started_witness:
  "\<exists>s w'. markStepStarted demo_env ''preflight'' (session_on_disk demo_session) = (Inr s, w')
     \<and> s_lastStepStarted s = Some ''preflight''"
  using step_started [of demo_env "session_on_disk demo_session" "''preflight''" pending_step]
    demo_url demo_current demo_plain demo_preflight_reloaded by auto

text \<open>
  The terminal failure backstop. On a file that holds a live session, an incomplete step is
  failed: the machine goes to \<open>failed\<close> with the next revision, the session and the step are marked
  failed, the file holds a valid session, and the two failure events are emitted with redacted
  errors.
\<close>

theorem incomplete_step_failed:
  assumes "holds env w c" "map_of (s_steps c) n = Some step"
    and "\<not> isTerminalOnboardMachineState (ms_state (s_machine c))"
  shows "\<exists>s w' e1 e2. finalizeIncompleteOnboardStep env n msg intr w = (Inr (Some s), w') \<and> holds env w' s
     \<and> wf_session env s \<and> ms_state (s_machine s) = Failed
     \<and> ms_revision (s_machine s) = ms_revision (s_machine c) + 1
     \<and> s_status s = ''failed'' \<and> map_option st_status (map_of (s_steps s) n) = Some StFailed
     \<and> w_events w' = w_events w @ [e1, e2] \<and> ev_type e1 = StateFailed \<and> ev_type e2 = OnboardFailed
     \<and> redacted_text env (ev_error e1) \<and> redacted_text env (ev_error e2)"
  using assms by (rule finalize_held)

theorem incomplete_step_failed_witness:
  "\<exists>s w' e1 e2. finalizeIncompleteOnboardStep demo_env ''preflight'' (Some ''port in use'') False
        (session_on_disk demo_session) = (Inr (Some s), w')
     \<and> w_events w' = [e1, e2] \<and> ms_state (s_machine s) = Failed"
  using incomplete_step_failed [OF demo_holds demo_preflight_pending, of "Some ''port in use''" False]
    demo_live by (auto simp: session_on_disk_def)

text \<open>
  The backstop is idempotent: once the machine has failed, a second call changes neither the
  file nor the events, whatever step and message it is given.
\<close>

theorem finalize_idempotent:
  assumes "holds env w c" "map_of (s_steps c) n = Some step"
    and "\<not> isTerminalOnboardMachineState (ms_state (s_machine c))"
    and "finalizeIncompleteOnboardStep env n msg intr w = (Inr (Some s), w')"
  shows "\<exists>s2 w2. finalizeIncompleteOnboardStep env n2 msg2 intr2 w' = (Inr (Some s2), w2)
     \<and> w_file w2 = w_file w' \<and> w_events w2 = w_events w' \<and> s_machine s2 = s_machine s"
  using assms by (rule finalize_twice)

theorem finalize_idempotent_witness:
  "\<exists>s w' s2 w2. finalizeIncompleteOnboardStep demo_env ''preflight'' None False (session_on_disk demo_session)
        = (Inr (Some s), w')
     \<and> finalizeIncompleteOnboardStep demo_env ''gateway'' None False w' = (Inr (Some s2), w2)
     \<and> w_file w2 = w_file w' \<and> w_events w2 = w_events w'"
proof -
  obtain s w' where "finalizeIncompleteOnboardStep demo_env ''preflight'' None False (session_on_disk demo_session)
      = (Inr (Some s), w')"
    using finalize_held [OF demo_holds demo_preflight_pending demo_live] by blast
  with finalize_idempotent [OF demo_holds demo_preflight_pending demo_live this, of "''gateway''" None False]
  show ?thesis by blast
qed
section \<open>The runtime\<close>





text \<open>
  C11: failing works from every live state and from no terminal one; the stored session is valid,
  failed, at the next revision, and both failure events carry a redacted message.
\<close>

theorem failure_recorded:
  assumes "holds env w n"
  shows "if isTerminalOnboardMachineState (ms_state (s_machine n))
     then rt_fail env msg step md w =
       (Inl (InvalidOnboardMachineTransition (ms_state (s_machine n)) Failed), w\<lparr>w_tick := w_tick w + 2\<rparr>)
     else \<exists>s w' e1 e2. rt_fail env msg step md w = (Inr s, w') \<and> holds env w' s \<and> wf_session env s
       \<and> ms_state (s_machine s) = Failed \<and> s_status s = ''failed''
       \<and> ms_revision (s_machine s) = ms_revision (s_machine n) + 1
       \<and> w_events w' = w_events w @ [e1, e2] \<and> ev_type e1 = StateFailed \<and> ev_type e2 = OnboardFailed
       \<and> redacted_text env (ev_error e1) \<and> redacted_text env (ev_error e2)"
proof (cases "isTerminalOnboardMachineState (ms_state (s_machine n))")
  case False
  show ?thesis by (rule fail_effect [OF assms False, of msg step md]) (use False in auto)
qed (simp add: fail_refused [OF assms])

theorem failure_recorded_witness:
  "\<exists>s w'. rt_fail demo_env (Some ''boom'') None JUndef (session_on_disk demo_session) = (Inr s, w')
     \<and> ms_state (s_machine s) = Failed"
  using failure_recorded [OF demo_holds, of "Some ''boom''" None JUndef] demo_live by auto

text \<open>
  Completing from \<open>post_verify\<close> leaves a valid session in the file that is complete and no longer
  resumable, at the next revision, and emits the completion events in order, after the context
  update when the result carries safe updates.
\<close>

theorem completion_recorded:
  assumes "holds env w n" "ms_state (s_machine n) = PostVerify"
  shows "\<exists>s w' es. rt_complete env u md w = (Inr s, w') \<and> holds env w' s \<and> wf_session env s
     \<and> ms_state (s_machine s) = Complete \<and> s_status s = ''complete'' \<and> \<not> s_resumable s
     \<and> ms_revision (s_machine s) = ms_revision (s_machine n) + 1 \<and> s_sessionId s = s_sessionId n
     \<and> w_events w' = w_events w @ es
     \<and> map ev_type es = (if filterSafeUpdates env u = [] then [] else [ContextUpdated])
         @ [StateCompleted, StateEntered, OnboardCompleted]"
  by (rule complete_effect [OF assms, of u md]) blast

theorem completion_recorded_witness:
  "\<exists>s w'. rt_complete demo_env JUndef JUndef (session_on_disk verified_session) = (Inr s, w')
     \<and> ms_state (s_machine s) = Complete \<and> \<not> s_resumable s"
  using completion_recorded [OF verified_holds verified_state, of JUndef JUndef] by blast

section \<open>The runner\<close>




section \<open>The onboarding flow\<close>

text \<open>
  The sequence adapter accepts a list of phases exactly when no two of them are for the same
  state.
\<close>

theorem sequence_phases_distinct:
  "(\<exists>hs. buildOnboardSequenceHandlers phases = Inr hs) \<longleftrightarrow> distinct (map ph_state phases)"
  by (rule build_handlers_distinct)

text \<open>
  Results that pass the validation of a repair are update-free transitions that walk the graph
  from the state of the phase to one of the expected final states.
\<close>

theorem repair_results_walk_graph:
  assumes "validateRepairResults results phaseState expected = Inr final"
  shows "run_from canTransitionOnboardMachineState phaseState (map rs_next results)
     \<and> last (phaseState # map rs_next results) = final \<and> final \<in> set expected
     \<and> list_all (\<lambda>r. rs_updates r = JUndef) results"
  using assms repair_results_path [of phaseState phaseState results]
  by (auto simp: validateRepairResults_def split: sum.splits if_splits)

theorem repair_results_walk_graph_witness:
  "validateRepairResults [TransitionResult Gateway (Some Advance) JUndef (JObj [(''state'', JStr ''preflight'')])]
       Preflight [Gateway] = Inr Gateway
   \<and> run_from canTransitionOnboardMachineState Preflight [Gateway]"
proof
  show v: "validateRepairResults [TransitionResult Gateway (Some Advance) JUndef (JObj [(''state'', JStr ''preflight'')])]
       Preflight [Gateway] = Inr Gateway"
    by code_simp
  from repair_results_walk_graph [OF v] show "run_from canTransitionOnboardMachineState Preflight [Gateway]"
    by simp
qed

text \<open>
  A prerequisite repair never moves the stored machine, whether it succeeds or not; when it
  succeeds, the stored machine is in the entry state the caller named and the repaired phase ended
  in an expected state.
\<close>

theorem repair_leaves_machine:
  assumes "holds env w n" "quiet_phase (holding env) (stored_state env) phase"
  shows "\<exists>x w'. runOnboardPrerequisiteRepair (persistent_runtime env) (recordRepairEvent env message) repair entry
        phase expected ctx w = (x, w')
     \<and> holding env w' \<and> stored_state env w' = ms_state (s_machine n)
     \<and> (\<forall>c rs final. x = Inr (c, rs, final) \<longrightarrow> ms_state (s_machine n) = entry \<and> final \<in> set expected)"
proof -
  let ?run = "runOnboardPrerequisiteRepair (persistent_runtime env) (recordRepairEvent env message) repair entry
        phase expected ctx w"
  have h: "holding env w" using assms(1) by blast
  obtain x w' where run: "?run = (x, w')" by (cases ?run)
  have "holding env w' \<and> stored_state env w' = stored_state env w"
    using leavesD [OF flow.repair_leaves [OF assms(2)] h run [folded flow_port]] .
  then show ?thesis
    using run flow.repaired(3,4) [OF h assms(2)] held_state [OF assms(1)] by (auto simp: flow_port)
qed

theorem repair_leaves_machine_witness:
  "\<exists>x w'. runOnboardPrerequisiteRepair (persistent_runtime demo_env) (recordRepairEvent demo_env (\<lambda>_. []))
        ''initial-flow-prerequisite'' Init demo_phase [Gateway] () (session_on_disk demo_session) = (x, w')
     \<and> stored_state demo_env w' = Init"
  using repair_leaves_machine [OF demo_holds demo_phase_quiet, of "\<lambda>_. []" "''initial-flow-prerequisite''" Init
      "[Gateway]" "()"] demo_start by auto

text \<open>
  The initial slice. It only returns from the states it allows; entered at \<open>init\<close>,
  \<open>preflight\<close> or \<open>gateway\<close> with phases that do not pause, it leaves the machine at
  \<open>provider_selection\<close> or at a terminal state; entered further on, it repairs the prerequisites and
  leaves the machine where it was.
\<close>

theorem initial_slice_ends:
  assumes "holds env w n" "\<forall>p\<in>set phases. quiet_phase (holding env) (stored_state env) p"
  shows "\<exists>x w'. runInitialOnboardFlowSlice (persistent_runtime env) (recordRepairEvent env message) phases resume
        ctx w = (x, w')
     \<and> (\<forall>c s. x = Inr (c, s) \<longrightarrow>
          ms_state (s_machine n) \<in> set (initial_allowed_states resume)
          \<and> holding env w' \<and> stored_state env w' = session_state s
          \<and> (if ms_state (s_machine n) \<in> {Init, Preflight, Gateway}
              then (\<forall>p\<in>set phases. unpaused_phase p) \<longrightarrow>
                     session_state s = ProviderSelection \<or> isTerminalOnboardMachineState (session_state s)
              else session_state s = ms_state (s_machine n)))"
proof -
  let ?run = "runInitialOnboardFlowSlice (persistent_runtime env) (recordRepairEvent env message) phases resume ctx w"
  obtain x w' where run: "?run = (x, w')" by (cases ?run)
  have "ms_state (s_machine n) \<in> set (initial_allowed_states resume)
          \<and> holding env w' \<and> stored_state env w' = session_state s
          \<and> (if ms_state (s_machine n) \<in> {Init, Preflight, Gateway}
              then (\<forall>p\<in>set phases. unpaused_phase p) \<longrightarrow>
                     session_state s = ProviderSelection \<or> isTerminalOnboardMachineState (session_state s)
              else session_state s = ms_state (s_machine n))" if x: "x = Inr (c, s)" for c s
    using flow.initial_slice_settled [OF exI [where P = "holds env w", OF assms(1)] assms(2) run [unfolded x, folded flow_port]]
      held_state [OF assms(1)]
    by (auto simp: flow.settled_def)
  then show ?thesis using run by blast
qed

theorem initial_slice_ends_witness:
  "\<exists>c s w'. runInitialOnboardFlowSlice (persistent_runtime demo_env) (recordRepairEvent demo_env (\<lambda>_. []))
        [advancing_phase Preflight Gateway, advancing_phase Gateway ProviderSelection] False ()
        (session_on_disk demo_session) = (Inr (c, s), w')
     \<and> stored_state demo_env w' = session_state s"
proof -
  let ?ps = "[advancing_phase Preflight Gateway, advancing_phase Gateway ProviderSelection]"
  have "\<forall>p\<in>set ?ps. quiet_phase (holding demo_env) (stored_state demo_env) p" using advancing_quiet by auto
  from initial_slice_ends [OF demo_holds this, of "\<lambda>_. []" False "()"] demo_initial_run [of False]
  show ?thesis by (metis prod.inject)
qed

text \<open>
  The core slice. Entered at \<open>provider_selection\<close>, \<open>inference\<close> or \<open>sandbox\<close> with phases that do not
  pause, it leaves the machine at one of the two branch states or at a terminal state; entered
  further on, it repairs the prerequisites and leaves the machine where it was.
\<close>

theorem core_slice_ends:
  assumes "holds env w n" "quiet_phase (holding env) (stored_state env) provider"
    and "quiet_phase (holding env) (stored_state env) sandbox"
  shows "\<exists>x w'. runCoreOnboardFlowSlice (persistent_runtime env) (recordRepairEvent env message) provider sandbox
        resume ctx w = (x, w')
     \<and> (\<forall>c s. x = Inr (c, s) \<longrightarrow>
          ms_state (s_machine n) \<in> set (core_allowed_states resume)
          \<and> holding env w' \<and> stored_state env w' = session_state s
          \<and> (if ms_state (s_machine n) \<in> {ProviderSelection, Inference, Sandbox}
              then unpaused_phase provider \<and> unpaused_phase sandbox \<longrightarrow>
                     session_state s \<in> {Openclaw, AgentSetup} \<or> isTerminalOnboardMachineState (session_state s)
              else session_state s = ms_state (s_machine n)))"
proof -
  let ?run = "runCoreOnboardFlowSlice (persistent_runtime env) (recordRepairEvent env message) provider sandbox resume
      ctx w"
  obtain x w' where run: "?run = (x, w')" by (cases ?run)
  have "ms_state (s_machine n) \<in> set (core_allowed_states resume)
          \<and> holding env w' \<and> stored_state env w' = session_state s
          \<and> (if ms_state (s_machine n) \<in> {ProviderSelection, Inference, Sandbox}
              then unpaused_phase provider \<and> unpaused_phase sandbox \<longrightarrow>
                     session_state s \<in> {Openclaw, AgentSetup} \<or> isTerminalOnboardMachineState (session_state s)
              else session_state s = ms_state (s_machine n))" if x: "x = Inr (c, s)" for c s
    using flow.core_slice_settled [OF exI [where P = "holds env w", OF assms(1)] assms(2,3) run [unfolded x, folded flow_port]]
      held_state [OF assms(1)]
    by (auto simp: flow.settled_def)
  then show ?thesis using run by blast
qed

theorem core_slice_ends_witness:
  "\<exists>x w'. runCoreOnboardFlowSlice (persistent_runtime demo_env) (recordRepairEvent demo_env (\<lambda>_. []))
        (advancing_phase ProviderSelection Inference) (advancing_phase Sandbox Openclaw) True ()
        (session_on_disk verified_session) = (x, w')
     \<and> (\<forall>c s. x = Inr (c, s) \<longrightarrow> session_state s = PostVerify)"
proof -
  note res = core_slice_ends [OF verified_holds advancing_quiet advancing_quiet, of "\<lambda>_. []" ProviderSelection Inference
      Sandbox Openclaw True "()"]
  then show ?thesis unfolding verified_state by fastforce
qed





section \<open>Resuming, the provider ledger, the network guard and the lock\<close>

definition failed_session :: session where
  "failed_session = demo_session\<lparr>s_machine := createMachineSnapshot Failed None 3\<rparr>"



definition demo_provider :: provider_binding where
  "demo_provider = \<lparr>pb_name = ''brave-search'', pb_type = ''brave'', pb_credentialEnv = ''BRAVE_API_KEY''\<rparr>"

definition public_url :: url where
  "public_url = \<lparr>url_protocol = ''http:'', url_hostname = ''api.example.com'', url_port = [],
     url_username = [], url_password = [], url_search = [], url_hash = [], url_pathname = ''/'',
     url_origin = ''http://api.example.com''\<rparr>"

definition demo_network :: net_platform where
  "demo_network =
     \<lparr>np_parseUrl = (\<lambda>_. Some public_url), np_lookup = (\<lambda>_ w. (Some [(''8.8.8.8'', 4)], w)),
      np_withHostname = (\<lambda>_ host. ''http://'' @ host @ ''/'')\<rparr>"

definition shipped_world :: plugin_world where
  "shipped_world =
     \<lparr>pw_now = 5000, pw_envPath = Some ''blueprint'', pw_devPath = [],
      pw_files = (\<lambda>_. Some \<lparr>fs_mtimeMs = 1, fs_size = 1, fs_content = Yaml shipped_networks\<rparr>),
      pw_cached = None\<rparr>"


lemma demo_recoverable: "canonical_iso ''2026-01-01T00:00:00.000Z''" "canonical_iso (s_updatedAt demo_session)"
  "s_resumable demo_session" "s_checkpoint demo_session = None"
proof -
  show iso: "canonical_iso ''2026-01-01T00:00:00.000Z''" by code_simp
  have "s_updatedAt demo_session = ''2026-01-01T00:00:00.000Z''"
    by (simp add: demo_session_def createSession_def Let_def) (simp add: demo_env_def readString_def)
  then show "canonical_iso (s_updatedAt demo_session)" using iso by simp
qed (simp_all add: demo_session_def)

text \<open>
  C16: applying a session recovery never fails when the time of the recovery is a canonical timestamp.
  It changes nothing but the machine, leaves it non-terminal unless the session was completed
  and is not resumable, moves the revision on by one when it recovers, keeps sessions
  storable, and a second recovery changes nothing.
\<close>

theorem session_recovery_total:
  assumes "canonical_iso stamp"
  shows "\<exists>s' plan. applySessionRecovery env stamp s = Inr (s', plan)
    \<and> s'\<lparr>s_machine := s_machine s\<rparr> = s
    \<and> (isTerminalOnboardMachineState (ms_state (s_machine s')) \<longleftrightarrow> closed_session s)
    \<and> (closed_session s \<longrightarrow> s' = s)
    \<and> ((\<forall>reason. plan \<noteq> KeepSnapshot reason) \<longrightarrow> ms_revision (s_machine s') = ms_revision (s_machine s) + 1)
    \<and> (platform_ok env \<longrightarrow> storable env s \<longrightarrow> plain s \<longrightarrow> storable env s' \<and> plain s')
    \<and> (\<forall>stamp'. \<exists>reason. applySessionRecovery env stamp' s' = Inr (s', KeepSnapshot reason))"
proof (rule recovery_applies [OF assms, of env s], goal_cases)
  case (1 s' plan)
  then show ?case using recovery_idempotent [OF assms 1(1)] by blast
qed

theorem session_recovery_total_witness:
  "\<exists>s' plan. applySessionRecovery demo_env ''2026-01-01T00:00:00.000Z'' failed_session = Inr (s', plan)
    \<and> \<not> isTerminalOnboardMachineState (ms_state (s_machine s')) \<and> ms_state (s_machine failed_session) = Failed"
proof -
  have "\<not> closed_session failed_session" "ms_state (s_machine failed_session) = Failed"
    by (simp_all add: closed_session_def failed_session_def createMachineSnapshot_def)
  then show ?thesis
    using session_recovery_total [OF demo_recoverable(1), of demo_env failed_session] by blast
qed



text \<open>
  C18: recording the providers of one effect group in the checkpoint keeps the ledger consistent: every
  receipt names registered providers, no provider is in two groups, and the credential names are those of
  the registered providers. A provider that the other group owns is refused. A later run that requires
  the same providers, and still finds each of them, observes the recorded fingerprint and skips the
  group; every other requirement makes it run the group again.
\<close>

theorem effect_ledger_replay:
  assumes "provider_group grp" "ledger_ok (baseCheckpoint env s)" "valid_providers bs" "bs \<noteq> []"
    "list_all (free_of CHR '','') (map pb_name bs)"
  shows "if list_ex (\<lambda>b. pb_name b \<in> set (group_names (baseCheckpoint env s) (other_group grp))) bs
    then recordCheckpointProviderEffectGroup env stamp s grp bs = Inl ProviderGroupConflict
    else \<exists>c. recordCheckpointProviderEffectGroup env stamp s grp bs = Inr (s\<lparr>s_checkpoint := Some c\<rparr>)
      \<and> ledger_ok c
      \<and> (\<forall>required ok. planEffectGroupReplay c grp (observeProviderEffectFingerprint c grp required ok) =
           (if mset required = mset bs \<and> list_all ok bs then SkipAlreadyComplete else ReplayPostconditionFailed))"
proof (cases "list_ex (\<lambda>b. pb_name b \<in> set (group_names (baseCheckpoint env s) (other_group grp))) bs")
  case True
  then show ?thesis by (simp add: record_group_steps [OF assms(1-3)])
next
  case False
  then have disj: "set (map pb_name bs) \<inter> set (group_names (baseCheckpoint env s) (other_group grp)) = {}"
    by (auto simp: list_ex_iff)
  obtain c where c: "recordCheckpointProviderEffectGroup env stamp s grp bs = Inr (s\<lparr>s_checkpoint := Some c\<rparr>)"
    "recorded_checkpoint stamp s (baseCheckpoint env s) grp bs c" "ledger_ok c"
    by (rule record_group_effect [OF assms(1-3,5) disj])
  have "planEffectGroupReplay c grp (observeProviderEffectFingerprint c grp required ok) =
      (if mset required = mset bs \<and> list_all ok bs then SkipAlreadyComplete else ReplayPostconditionFailed)"
    for required ok
    using replay_recorded [OF c(2,3) assms(3-5)] .
  then show ?thesis using False c by auto
qed

theorem effect_ledger_replay_witness:
  "\<exists>c. recordCheckpointProviderEffectGroup demo_env ''2026-01-01T00:00:00.000Z'' demo_session WebSearchProvider [demo_provider]
       = Inr (demo_session\<lparr>s_checkpoint := Some c\<rparr>)
     \<and> planEffectGroupReplay c WebSearchProvider
         (observeProviderEffectFingerprint c WebSearchProvider [demo_provider] (\<lambda>_. True)) = SkipAlreadyComplete"
proof -
  have base: "baseCheckpoint demo_env demo_session = deriveCheckpointFromSession demo_env demo_session"
    by (simp add: baseCheckpoint_def demo_recoverable)
  have none: "group_names (baseCheckpoint demo_env demo_session) (other_group WebSearchProvider) = []"
    by (simp add: base group_names_def other_group_def checkpointProviderEffectGroupNames_def
        deriveCheckpointFromSession_def)
  have "provider_group WebSearchProvider" "ledger_ok (baseCheckpoint demo_env demo_session)"
    "list_all (free_of CHR '','') (map pb_name [demo_provider])" "[demo_provider] \<noteq> []"
    by (simp_all add: provider_group_def base derived_ledger demo_provider_def)
  moreover have "valid_providers [demo_provider]" by code_simp
  ultimately show ?thesis
    using effect_ledger_replay [of WebSearchProvider demo_env demo_session "[demo_provider]" "''2026-01-01T00:00:00.000Z''"]
      none by (auto split: if_splits)
qed

text \<open>
  C19: the shipped table loads, and what it blocks is the reference predicate over the octets and
  groups of an address: for every IP literal, with IPv4-mapped IPv6 literals judged by the IPv4
  address, and for every dotted address. Every host name that counts as loopback is private.
\<close>

theorem shipped_table_exact:
  "\<exists>l. load_yaml (Yaml shipped_networks) = Inr l
    \<and> (\<forall>s a. parse_ip s = Some a \<longrightarrow> (isPrivateIpInBlockList s (ln_blockList l) \<longleftrightarrow> reserved_ip a))
    \<and> (\<forall>a b c d. a \<le> 255 \<and> b \<le> 255 \<and> c \<le> 255 \<and> d \<le> 255 \<longrightarrow>
         (isPrivateIpInBlockList (dotted a b c d) (ln_blockList l) \<longleftrightarrow> reserved_ipv4 (octets_value a b c d)))
    \<and> (\<forall>h. isLoopbackHostname h \<longrightarrow> private_host l h)"
proof -
  obtain doc where l: "load_document shipped_networks =
      Inr \<lparr>ln_networks = doc, ln_blockList = shipped_blocks, ln_normalisedNames = shipped_reserved\<rparr>"
    using shipped_loads by blast
  have "private_host \<lparr>ln_networks = doc, ln_blockList = shipped_blocks, ln_normalisedNames = shipped_reserved\<rparr> h"
    if "isLoopbackHostname h" for h
    using loopback_reserved [OF that] by (simp add: private_host_def Let_def)
  then show ?thesis
    by (simp add: load_yaml_def l isPrivateIpInBlockList_def shipped_reserves parse_dotted reserved_octets)
qed

theorem shipped_table_exact_witness:
  "\<exists>l. load_yaml (Yaml shipped_networks) = Inr l
    \<and> isPrivateIpInBlockList (dotted 192 168 1 20) (ln_blockList l)
    \<and> \<not> isPrivateIpInBlockList (dotted 8 8 8 8) (ln_blockList l) \<and> private_host l ''[::1]''"
proof -
  have "reserved_ipv4 (octets_value 192 168 1 20)" "\<not> reserved_ipv4 (octets_value 8 8 8 8)"
    by (simp_all add: reserved_ipv4_def octets_of_value)
  moreover have "isLoopbackHostname ''[::1]''"
    by (simp add: isLoopbackHostname_def Let_def normalise_name_def strip_brackets_def starts_with_def
        ends_with_def toLower_def code_def isIP_def shipped_ipv6_literals)
  ultimately show ?thesis
    using shipped_table_exact by auto
qed

text \<open>
  C20: the URL that is handed downstream for a validated endpoint is safe: its scheme is HTTP or HTTPS,
  it has no credentials, and its host is not private by the table. Either the host is an IP
  literal and the URL is the given one, or the endpoint is HTTP and its host has been replaced by the
  first address of the lookup, none of whose addresses is private by the table at that time.
\<close>

theorem endpoint_for_downstream_safe:
  assumes "validateEndpointUrl p url w = (Inr v, w')" "safeEndpointUrlForDownstream v = Inr out"
  shows "\<exists>u l w1. np_parseUrl p url = Some u \<and> url_protocol u \<in> {''http:'', ''https:''}
    \<and> url_username u = [] \<and> url_password u = []
    \<and> plugin_load w = (Inr l, w1) \<and> \<not> private_host l (url_hostname u)
    \<and> (isIP (hostnameForDnsLookup (url_hostname u)) \<noteq> 0 \<and> out = url
       \<or> url_protocol u = ''http:'' \<and>
         (\<exists>first rest w2 l2. np_lookup p (hostnameForDnsLookup (url_hostname u)) w1 = (Some (first # rest), w2)
            \<and> plugin_load w2 = (Inr l2, w')
            \<and> (\<forall>a \<in> set (first # rest). \<not> isPrivateIpInBlockList (fst a) (ln_blockList l2))
            \<and> out = np_withHostname p url (pinned_host first)))"
proof (rule validate_checked [OF assms(1)], goal_cases)
  case (1 u l w1)
  have scheme: "url_protocol u \<in> {''http:'', ''https:''}" using 1(2) by (auto simp: ALLOWED_SCHEMES_def)
  have out: "out = (if ve_protocol v = ''http:'' then ve_pinnedUrl v else ve_url v)"
    "\<not> (ve_protocol v = ''https:'' \<and> ve_dnsResolved v)"
    using assms(2) by (auto simp: safeEndpointUrlForDownstream_def split: if_splits)
  show ?case
    using 1 scheme out by (intro exI [of _ u] exI [of _ l] exI [of _ w1]) auto
qed

theorem endpoint_for_downstream_safe_witness:
  "\<exists>v w'. validateEndpointUrl demo_network ''http://api.example.com/'' shipped_world = (Inr v, w')
     \<and> safeEndpointUrlForDownstream v = Inr ''http://8.8.8.8/''
     \<and> (\<exists>l. plugin_load shipped_world = (Inr l, w') \<and> \<not> private_host l ''api.example.com'')"
proof -
  obtain doc where l: "load_document shipped_networks =
      Inr \<lparr>ln_networks = doc, ln_blockList = shipped_blocks, ln_normalisedNames = shipped_reserved\<rparr>"
    using shipped_loads by blast
  define t where "t = \<lparr>ln_networks = doc, ln_blockList = shipped_blocks, ln_normalisedNames = shipped_reserved\<rparr>"
  obtain w1 where w1: "plugin_load shipped_world = (Inr t, w1)"
    by (simp add: plugin_load_def plugin_reload_def shipped_world_def Let_def load_yaml_def l t_def)
  have host: "normalise_name (strip_brackets ''api.example.com'') = ''api.example.com''"
    "strip_brackets ''api.example.com'' = ''api.example.com''" "parse_ip ''api.example.com'' = None"
    "\<not> reserved_name ''api.example.com'' shipped_reserved"
    by (simp_all add: normalise_name_def strip_brackets_def starts_with_def ends_with_def toLower_def code_def
        ip_defs reserved_name_def shipped_reserved_def)
  have "dotted 8 8 8 8 = ''8.8.8.8''" by (simp add: dotted_def digits_of.simps)
  then have "parse_ip ''8.8.8.8'' = Some (IPv4 (of_nat (octets_value 8 8 8 8)))"
    using parse_dotted [of 8 8 8 8] by simp
  moreover have "\<not> reserved_ip (IPv4 (of_nat (octets_value 8 8 8 8)))"
    by (simp add: reserved_octets) (simp add: reserved_ipv4_def octets_of_value)
  ultimately have addr: "\<not> isPrivateIpInBlockList ''8.8.8.8'' shipped_blocks"
    by (simp add: isPrivateIpInBlockList_def shipped_reserves)
  have "plugin_isPrivateHostname ''api.example.com'' shipped_world = (Inr False, w1)"
    "plugin_isPrivateIp ''8.8.8.8'' w1 = (Inr False, w1)"
    using w1 plugin_load_again [OF w1] host addr
    by (simp_all add: plugin_isPrivateHostname_def plugin_ip_spec Let_def t_def isPrivateIpInBlockList_def)
  then obtain v where v: "validateEndpointUrl demo_network ''http://api.example.com/'' shipped_world = (Inr v, w1)"
    "safeEndpointUrlForDownstream v = Inr ''http://8.8.8.8/''"
    using host
    by (simp add: validateEndpointUrl_def demo_network_def public_url_def ALLOWED_SCHEMES_def isIP_def
        hostnameForDnsLookup_def dns_lookup_def pinned_host_def safeEndpointUrlForDownstream_def)
  show ?thesis
    using endpoint_for_downstream_safe [OF v] v w1 by (auto simp: demo_network_def public_url_def)
qed

text \<open>
  C21: the command line and the plugin agree. With the same table and caches that hold what their file
  holds, they give the same answer for every host name, the same error if the table cannot be
  loaded, and the same answer for every address once the table loads. They differ only where the
  table cannot be loaded and the text is no address: the command line answers no before it loads.
\<close>

theorem network_guards_agree:
  assumes "cli_coherent cw" "plugin_coherent pw" "plugin_file pw = cw_file cw"
  shows "fst (cli_isPrivateHostname h cw) = fst (plugin_isPrivateHostname h pw)
    \<and> ((\<exists>l. load_yaml (cw_file cw) = Inr l) \<or> isIP a \<noteq> 0 \<longrightarrow>
         fst (cli_isPrivateIp a cw) = fst (plugin_isPrivateIp a pw))
    \<and> (isIP a = 0 \<longrightarrow> fst (cli_isPrivateIp a cw) = Inr False
         \<and> (\<forall>e. load_yaml (cw_file cw) = Inl e \<longrightarrow> fst (plugin_isPrivateIp a pw) = Inl e))"
  using cli_load_spec(1) [OF assms(1)] plugin_load_spec [OF assms(2)] assms(3)
  by (auto simp: cli_host_spec plugin_host_spec cli_ip_spec plugin_ip_spec not_ip_not_private
      split: sum.splits prod.splits)

theorem network_guards_agree_witness:
  "fst (cli_isPrivateHostname ''localhost'' \<lparr>cw_file = Yaml shipped_networks, cw_cached = None\<rparr>)
     = fst (plugin_isPrivateHostname ''localhost'' shipped_world)
   \<and> fst (cli_isPrivateIp ''::1'' \<lparr>cw_file = Yaml shipped_networks, cw_cached = None\<rparr>)
     = fst (plugin_isPrivateIp ''::1'' shipped_world)"
proof -
  have "isIP ''::1'' \<noteq> 0" by (simp add: isIP_def shipped_ipv6_literals)
  then show ?thesis
    using network_guards_agree [of "\<lparr>cw_file = Yaml shipped_networks, cw_cached = None\<rparr>" shipped_world
        "''localhost''" "''::1''"]
    by (simp add: cli_coherent_def plugin_coherent_def plugin_file_def shipped_world_def)
qed






end
